(* ===== verification/Prelude.thy ===== *)
theory Prelude
  imports Main
begin

text \<open>
  Shared vocabulary of the development: the errors a handler may throw, the
  sequencing of handlers that carry a state and may throw, the pieces of the
  JavaScript library the services use on strings and arrays, the JSON values
  that travel in audit and notification payloads, and database tables as lists
  of rows with a key.
\<close>

section \<open>Collections of facts\<close>

named_theorems exec_simps \<open>how the sequencing combinators compute\<close>
named_theorems frame \<open>which parts of the state an operation leaves alone\<close>

section \<open>Errors and sequencing\<close>

text \<open>
  The NestJS exceptions the services throw, by HTTP status, and \<open>JsError\<close>
  for a plain \<open>Error\<close> (answered as a 500).
\<close>

datatype error =
    BadRequest string
  | Unauthorized string
  | Forbidden string
  | NotFound string
  | Conflict string
  | ServiceUnavailable string
  | InternalError string
  | JsError string

fun error_message :: "error \<Rightarrow> string" where
  "error_message (BadRequest m) = m"
| "error_message (Unauthorized m) = m"
| "error_message (Forbidden m) = m"
| "error_message (NotFound m) = m"
| "error_message (Conflict m) = m"
| "error_message (ServiceUnavailable m) = m"
| "error_message (InternalError m) = m"
| "error_message (JsError m) = m"

text \<open>
  A handler run from a state ends with an error or a value, and in both cases
  with a state: what was written before a \<open>throw\<close> stays written.
\<close>

type_synonym ('a, 's) outcome = "(error + 'a) \<times> 's"

definition andThen :: "('a, 's) outcome \<Rightarrow> ('a \<Rightarrow> 's \<Rightarrow> ('b, 's) outcome) \<Rightarrow> ('b, 's) outcome" where
  "andThen m f = (case m of (Inl e, s) \<Rightarrow> (Inl e, s) | (Inr a, s) \<Rightarrow> f a s)"

definition throw :: "error \<Rightarrow> 's \<Rightarrow> ('a, 's) outcome" where
  "throw e s = (Inl e, s)"

definition return :: "'a \<Rightarrow> 's \<Rightarrow> ('a, 's) outcome" where
  "return a s = (Inr a, s)"

lemma andThen_simps [simp, exec_simps]:
  "andThen (Inl e, s) f = (Inl e, s)"
  "andThen (Inr a, s) f = f a s"
  by (simp_all add: andThen_def)

lemma throw_simps [simp, exec_simps]:
  "throw e s = (Inr a, t) \<longleftrightarrow> False"
  "fst (throw e s) = Inl e"
  "snd (throw e s) = s"
  "throw e s = (Inl e', t) \<longleftrightarrow> e' = e \<and> t = s"
  by (auto simp: throw_def)

lemma return_simps [simp, exec_simps]:
  "return a s = (Inr b, t) \<longleftrightarrow> b = a \<and> t = s"
  "return a s = (Inl e, t) \<longleftrightarrow> False"
  "fst (return a s) = Inr a"
  "snd (return a s) = s"
  by (auto simp: return_def)

lemma andThen_throw_return [simp, exec_simps]:
  "andThen (throw e s) f = throw e s"
  "andThen (return a s) f = f a s"
  by (simp_all add: throw_def return_def)

lemma andThen_Inr_iff:
  "andThen m f = (Inr b, t) \<longleftrightarrow> (\<exists>a s. m = (Inr a, s) \<and> f a s = (Inr b, t))"
  by (cases m; cases "fst m") auto

lemma andThen_InrE:
  assumes "andThen m f = (Inr b, t)"
  obtains a s where "m = (Inr a, s)" "f a s = (Inr b, t)"
  using assms by (auto simp: andThen_Inr_iff)

lemma andThen_snd:
  "snd (andThen m f) = (case fst m of Inl e \<Rightarrow> snd m | Inr a \<Rightarrow> snd (f a (snd m)))"
  by (cases m; cases "fst m") auto

lemma andThen_fst:
  "fst (andThen m f) = (case fst m of Inl e \<Rightarrow> Inl e | Inr a \<Rightarrow> fst (f a (snd m)))"
  by (cases m; cases "fst m") auto

text \<open>A property of the state kept by both halves is kept by the sequence.\<close>

lemma andThen_keeps:
  assumes "P (snd m)" and "\<And>a s. m = (Inr a, s) \<Longrightarrow> P s \<Longrightarrow> P (snd (f a s))"
  shows "P (snd (andThen m f))"
  using assms by (cases m; cases "fst m") auto

text \<open>Whether a handler answered with a value.\<close>

definition succeeds :: "('a, 's) outcome \<Rightarrow> bool" where
  "succeeds m = (case fst m of Inl _ \<Rightarrow> False | Inr _ \<Rightarrow> True)"

lemma succeeds_simps [simp]:
  "succeeds (Inl e, s) = False" "succeeds (Inr a, s) = True"
  "succeeds (throw e s) = False" "succeeds (return a s) = True"
  by (simp_all add: succeeds_def)

lemma succeeds_iff: "succeeds m \<longleftrightarrow> (\<exists>a t. m = (Inr a, t))"
  by (cases m; cases "fst m") (auto simp: succeeds_def)

lemma succeedsE:
  assumes "succeeds m"
  obtains a t where "m = (Inr a, t)"
  using assms by (auto simp: succeeds_iff)

lemma succeeds_andThen:
  "succeeds (andThen m f) \<longleftrightarrow> (\<exists>a t. m = (Inr a, t) \<and> succeeds (f a t))"
  by (cases m; cases "fst m") auto

section \<open>Arrays\<close>

text \<open>
  \<open>[...new Set(xs)]\<close>: one copy of every element, in order of first insertion.
\<close>

definition unique :: "'a list \<Rightarrow> 'a list" where
  "unique xs = rev (remdups (rev xs))"

lemma set_unique [simp]: "set (unique xs) = set xs"
  by (simp add: unique_def)

lemma distinct_unique [simp]: "distinct (unique xs)"
  by (simp add: unique_def)

lemma unique_Nil [simp]: "unique [] = []"
  by (simp add: unique_def)

lemma unique_eq_Nil [simp]: "unique xs = [] \<longleftrightarrow> xs = []"
  by (simp add: unique_def)

lemma unique_distinct: "distinct xs \<Longrightarrow> unique xs = xs"
  by (simp add: unique_def distinct_remdups_id)

text \<open>\<open>xs[i]\<close> with an integer index: \<open>undefined\<close> out of range.\<close>

definition js_nth :: "'a list \<Rightarrow> int \<Rightarrow> 'a option" where
  "js_nth xs i = (if 0 \<le> i \<and> i < int (length xs) then Some (xs ! nat i) else None)"

lemma js_nth_Some: "js_nth xs i = Some x \<longleftrightarrow> 0 \<le> i \<and> i < int (length xs) \<and> xs ! nat i = x"
  by (auto simp: js_nth_def)

definition head_option :: "'a list \<Rightarrow> 'a option" where
  "head_option xs = (case xs of [] \<Rightarrow> None | x # _ \<Rightarrow> Some x)"

lemma head_option_simps [simp]:
  "head_option [] = None" "head_option (x # xs) = Some x"
  by (simp_all add: head_option_def)

section \<open>Strings\<close>

text \<open>
  A JavaScript string is a sequence of code units; the model keeps those below
  256, where \<open>trim\<close> and \<open>\s\<close> treat the blank, the controls 9 to 13 and the
  no-break space as white space.
\<close>

definition js_space :: "char \<Rightarrow> bool" where
  "js_space c = (let n = of_char c :: nat in n = 32 \<or> n = 160 \<or> (9 \<le> n \<and> n \<le> 13))"

definition trim :: "string \<Rightarrow> string" where
  "trim cs = rev (dropWhile js_space (rev (dropWhile js_space cs)))"

text \<open>\<open>Boolean(s)\<close>, and \<open>Boolean(v)\<close> of a value that may be \<open>undefined\<close>.\<close>

definition truthy :: "string \<Rightarrow> bool" where
  "truthy cs = (cs \<noteq> [])"

definition truthy_opt :: "string option \<Rightarrow> bool" where
  "truthy_opt v = (case v of None \<Rightarrow> False | Some cs \<Rightarrow> truthy cs)"

text \<open>\<open>v ?? d\<close>.\<close>

definition coalesce :: "'a option \<Rightarrow> 'a \<Rightarrow> 'a" where
  "coalesce v d = (case v of None \<Rightarrow> d | Some x \<Rightarrow> x)"

lemma coalesce_simps [simp]: "coalesce None d = d" "coalesce (Some x) d = x"
  by (simp_all add: coalesce_def)

text \<open>\<open>a ?? b\<close> where both may be absent.\<close>

definition or_else :: "'a option \<Rightarrow> 'a option \<Rightarrow> 'a option" where
  "or_else v w = (case v of None \<Rightarrow> w | Some x \<Rightarrow> Some x)"

lemma or_else_simps [simp]:
  "or_else None w = w" "or_else (Some x) w = Some x" "or_else v None = v"
  by (simp_all add: or_else_def split: option.splits)

text \<open>
  \<open>toUpperCase\<close> and \<open>toLowerCase\<close> on the ASCII letters, which are all the role
  names, status names, headers and settings they are applied to contain; other
  characters, which only free text has, are left as they are.
\<close>

definition to_upper :: "char \<Rightarrow> char" where
  "to_upper c = (let n = of_char c :: nat in if 97 \<le> n \<and> n \<le> 122 then char_of (n - 32) else c)"

definition upper :: "string \<Rightarrow> string" where
  "upper cs = map to_upper cs"

definition to_lower :: "char \<Rightarrow> char" where
  "to_lower c = (let n = of_char c :: nat in if 65 \<le> n \<and> n \<le> 90 then char_of (n + 32) else c)"

definition lower :: "string \<Rightarrow> string" where
  "lower cs = map to_lower cs"

text \<open>\<open>cs.split(sep)\<close> for a one-character separator.\<close>

fun split_on :: "char \<Rightarrow> string \<Rightarrow> string list" where
  "split_on sep [] = [[]]"
| "split_on sep (c # cs) =
     (if c = sep then [] # split_on sep cs
      else (case split_on sep cs of [] \<Rightarrow> [[c]] | w # ws \<Rightarrow> (c # w) # ws))"

lemma split_on_not_Nil [simp]: "split_on sep cs \<noteq> []"
  by (induction cs) (auto split: list.splits)

lemma split_on_no_sep: "sep \<notin> set cs \<Longrightarrow> split_on sep cs = [cs]"
  by (induction cs) auto

lemma split_on_append: "sep \<notin> set cs \<Longrightarrow> split_on sep (cs @ sep # ds) = cs # split_on sep ds"
  by (induction cs) auto

text \<open>\<open>xs.join(sep)\<close>.\<close>

fun join_with :: "string \<Rightarrow> string list \<Rightarrow> string" where
  "join_with sep [] = []"
| "join_with sep [x] = x"
| "join_with sep (x # y # xs) = x @ sep @ join_with sep (y # xs)"

text \<open>Decimal numerals, as template literals print them.\<close>

fun show_nat :: "nat \<Rightarrow> string" where
  "show_nat n =
     (if n < 10 then [char_of (48 + n)] else show_nat (n div 10) @ [char_of (48 + n mod 10)])"

declare show_nat.simps [simp del]

definition show_int :: "int \<Rightarrow> string" where
  "show_int i = (if i < 0 then ''-'' @ show_nat (nat (- i)) else show_nat (nat i))"

section \<open>Numbers\<close>

text \<open>
  \<open>Math.ceil(a / b)\<close> and \<open>Math.floor(a / b)\<close> on integers: the quotients of
  time spans the services take are far below the point where the rounding of a
  double could reach the next integer.
\<close>

definition ceil_div :: "int \<Rightarrow> int \<Rightarrow> int" where
  "ceil_div a b = - ((- a) div b)"

lemma le_div_iff_int: "0 < b \<Longrightarrow> k \<le> a div b \<longleftrightarrow> k * b \<le> (a::int)"
proof
  assume b: "0 < b" and "k \<le> a div b"
  then have "k * b \<le> (a div b) * b" by simp
  also have "\<dots> \<le> a" using b by (metis minus_mod_eq_div_mult pos_mod_sign diff_ge_0_iff_ge
      minus_div_mult_eq_mod)
  finally show "k * b \<le> a" .
next
  assume b: "0 < b" and "k * b \<le> a"
  then show "k \<le> a div b" by (metis zdiv_mono1 nonzero_mult_div_cancel_right less_irrefl)
qed

lemma ceil_div_le_iff: "0 < b \<Longrightarrow> ceil_div a b \<le> n \<longleftrightarrow> a \<le> n * b"
  using le_div_iff_int [of b "- n" "- a"] by (auto simp: ceil_div_def)

lemma ceil_div_less_iff: "0 < b \<Longrightarrow> ceil_div a b < n \<longleftrightarrow> a \<le> (n - 1) * b"
  using ceil_div_le_iff [of b a "n - 1"] by (simp add: zle_diff1_eq)

lemma floor_div_le_iff: "0 < b \<Longrightarrow> n \<le> a div b \<longleftrightarrow> n * b \<le> (a::int)"
  by (rule le_div_iff_int)

section \<open>Tables\<close>

text \<open>
  A database table is the list of its rows, with a primary key. The operations
  are those the Prisma and Mongoose clients offer.
\<close>

definition find_row :: "('r \<Rightarrow> 'k) \<Rightarrow> 'k \<Rightarrow> 'r list \<Rightarrow> 'r option" where
  "find_row key k rows = find (\<lambda>r. key r = k) rows"

definition update_row :: "('r \<Rightarrow> 'k) \<Rightarrow> 'k \<Rightarrow> ('r \<Rightarrow> 'r) \<Rightarrow> 'r list \<Rightarrow> 'r list" where
  "update_row key k f rows = map (\<lambda>r. if key r = k then f r else r) rows"

definition delete_row :: "('r \<Rightarrow> 'k) \<Rightarrow> 'k \<Rightarrow> 'r list \<Rightarrow> 'r list" where
  "delete_row key k rows = filter (\<lambda>r. key r \<noteq> k) rows"

lemma find_row_simps [simp]:
  "find_row key k [] = None"
  "find_row key k (r # rows) = (if key r = k then Some r else find_row key k rows)"
  by (simp_all add: find_row_def)

lemma update_row_simps [simp]:
  "update_row key k f [] = []"
  "update_row key k f (r # rows) = (if key r = k then f r else r) # update_row key k f rows"
  by (simp_all add: update_row_def)

lemma delete_row_simps [simp]:
  "delete_row key k [] = []"
  "delete_row key k (r # rows) = (if key r = k then delete_row key k rows else r # delete_row key k rows)"
  by (simp_all add: delete_row_def)

lemma find_row_SomeD: "find_row key k rows = Some r \<Longrightarrow> r \<in> set rows \<and> key r = k"
  by (auto simp: find_row_def find_Some_iff)

lemma find_row_None: "find_row key k rows = None \<longleftrightarrow> k \<notin> key ` set rows"
  by (induction rows) auto

lemma find_row_member:
  "distinct (map key rows) \<Longrightarrow> r \<in> set rows \<Longrightarrow> find_row key (key r) rows = Some r"
  by (induction rows) (auto simp: image_iff)

lemma find_row_append:
  "find_row key k (xs @ ys) = (case find_row key k xs of None \<Rightarrow> find_row key k ys | Some r \<Rightarrow> Some r)"
  by (induction xs) auto

lemma map_key_update_row:
  "(\<And>r. key (f r) = key r) \<Longrightarrow> map key (update_row key k f rows) = map key rows"
  by (induction rows) auto

lemma map_update_row: "(\<And>r. g (f r) = g r) \<Longrightarrow> map g (update_row key k f rows) = map g rows"
  by (induction rows) auto

lemma find_row_update_same:
  "(\<And>r. key (f r) = key r) \<Longrightarrow>
   find_row key k (update_row key k f rows) = map_option f (find_row key k rows)"
  by (induction rows) auto

lemma find_row_update_other:
  "(\<And>r. key (f r) = key r) \<Longrightarrow> j \<noteq> k \<Longrightarrow>
   find_row key j (update_row key k f rows) = find_row key j rows"
  by (induction rows) auto

lemma set_update_row: "set (update_row key k f rows) = (\<lambda>r. if key r = k then f r else r) ` set rows"
  by (simp add: update_row_def)

lemma update_row_absent: "k \<notin> key ` set rows \<Longrightarrow> update_row key k f rows = rows"
  by (induction rows) auto

lemma find_row_delete: "find_row key j (delete_row key k rows) = (if j = k then None else find_row key j rows)"
  by (induction rows) auto

lemma set_delete_row: "set (delete_row key k rows) = {r \<in> set rows. key r \<noteq> k}"
  by (auto simp: delete_row_def)

lemma distinct_delete_row: "distinct (map key rows) \<Longrightarrow> distinct (map key (delete_row key k rows))"
  by (simp add: delete_row_def distinct_map_filter)

lemmas row_simps = find_row_update_same find_row_update_other find_row_delete find_row_append

text \<open>
  The contract of a keyed table inside a larger state: \<open>rows\<close> reads it and
  \<open>alter\<close> rewrites it. What a lookup returns after an update, an insertion or
  a deletion is proved here once for every table of the vault.
\<close>

locale keyed_table =
  fixes key :: "'r \<Rightarrow> 'k"
    and rows :: "'s \<Rightarrow> 'r list"
    and alter :: "('r list \<Rightarrow> 'r list) \<Rightarrow> 's \<Rightarrow> 's"
  assumes rows_alter: "rows (alter g s) = g (rows s)"
begin

lemma lookup_update:
  "(\<And>r. key (f r) = key r) \<Longrightarrow>
   find_row key j (rows (alter (update_row key k f) s)) =
     (if j = k then map_option f (find_row key k (rows s)) else find_row key j (rows s))"
  by (simp add: rows_alter row_simps)

lemma lookup_insert:
  "find_row key (key r) (rows s) = None \<Longrightarrow>
   find_row key j (rows (alter (\<lambda>rs. rs @ [r]) s)) =
     (if j = key r then Some r else find_row key j (rows s))"
  by (auto simp: rows_alter row_simps split: option.splits)

lemma lookup_delete:
  "find_row key j (rows (alter (delete_row key k) s)) = (if j = k then None else find_row key j (rows s))"
  by (simp add: rows_alter row_simps)

lemma keys_update:
  "(\<And>r. key (f r) = key r) \<Longrightarrow> map key (rows (alter (update_row key k f) s)) = map key (rows s)"
  by (simp add: rows_alter map_key_update_row)

lemma distinct_insert:
  "distinct (map key (rows s)) \<Longrightarrow> find_row key (key r) (rows s) = None \<Longrightarrow>
   distinct (map key (rows (alter (\<lambda>rs. rs @ [r]) s)))"
  by (auto simp: rows_alter find_row_None)

end

end
