(* ===== verification/Store.thy ===== *)
theory Store
  imports Prelude
begin

text \<open>
  The data of metadata-service: the enumerations and models of
  \<open>prisma/schema.prisma\<close>, the request context of \<open>common/request-context.ts\<close>, the
  classification tables of \<open>common/classification.constants.ts\<close>, and the state a
  handler works on. The state (\<open>vault\<close>) holds the tables, the two in-process
  caches, the environment variables, what Keycloak answers to the role queries,
  and the messages posted to the audit and notification services.
\<close>

section \<open>Enumerations\<close>

datatype doc_status = DRAFT | PENDING | PUBLISHED | ARCHIVED | DELETED

datatype classification = PUBLIC | INTERNAL | CONFIDENTIAL | SECRET

datatype subject_type = USER | ROLE | GROUP | ALL_SUBJECTS

datatype permission = READ | DOWNLOAD | WRITE | APPROVE_PERM

datatype acl_effect = ALLOW | DENY

datatype workflow_action = SUBMIT | APPROVE | REJECT | ARCHIVE | DELETE | RETENTION

datatype share_permission = VIEW | SHARE_DOWNLOAD

datatype org_role = MEMBER | ADMIN

fun show_status :: "doc_status \<Rightarrow> string" where
  "show_status DRAFT = ''DRAFT''"
| "show_status PENDING = ''PENDING''"
| "show_status PUBLISHED = ''PUBLISHED''"
| "show_status ARCHIVED = ''ARCHIVED''"
| "show_status DELETED = ''DELETED''"

fun show_classification :: "classification \<Rightarrow> string" where
  "show_classification PUBLIC = ''PUBLIC''"
| "show_classification INTERNAL = ''INTERNAL''"
| "show_classification CONFIDENTIAL = ''CONFIDENTIAL''"
| "show_classification SECRET = ''SECRET''"

fun show_subject_type :: "subject_type \<Rightarrow> string" where
  "show_subject_type USER = ''USER''"
| "show_subject_type ROLE = ''ROLE''"
| "show_subject_type GROUP = ''GROUP''"
| "show_subject_type ALL_SUBJECTS = ''ALL''"

fun show_permission :: "permission \<Rightarrow> string" where
  "show_permission READ = ''READ''"
| "show_permission DOWNLOAD = ''DOWNLOAD''"
| "show_permission WRITE = ''WRITE''"
| "show_permission APPROVE_PERM = ''APPROVE''"

fun show_effect :: "acl_effect \<Rightarrow> string" where
  "show_effect ALLOW = ''ALLOW''"
| "show_effect DENY = ''DENY''"

fun show_action :: "workflow_action \<Rightarrow> string" where
  "show_action SUBMIT = ''SUBMIT''"
| "show_action APPROVE = ''APPROVE''"
| "show_action REJECT = ''REJECT''"
| "show_action ARCHIVE = ''ARCHIVE''"
| "show_action DELETE = ''DELETE''"
| "show_action RETENTION = ''RETENTION''"

fun show_share_permission :: "share_permission \<Rightarrow> string" where
  "show_share_permission VIEW = ''VIEW''"
| "show_share_permission SHARE_DOWNLOAD = ''DOWNLOAD''"

fun show_org_role :: "org_role \<Rightarrow> string" where
  "show_org_role MEMBER = ''MEMBER''"
| "show_org_role ADMIN = ''ADMIN''"

section \<open>JSON values\<close>

text \<open>
  \<open>JDate t\<close> is a \<open>Date\<close> (or the ISO string of one) at \<open>t\<close> milliseconds since the
  epoch. A property whose value is \<open>undefined\<close> is left out of its object.
\<close>

datatype json =
    JNull
  | JBool bool
  | JNum int
  | JStr string
  | JDate int
  | JArr "json list"
  | JObj "(string \<times> json) list"

type_synonym fields = "(string \<times> json) list"

definition j_strs :: "string list \<Rightarrow> json" where
  "j_strs xs = JArr (map JStr xs)"

definition j_nullable :: "('a \<Rightarrow> json) \<Rightarrow> 'a option \<Rightarrow> json" where
  "j_nullable f v = (case v of None \<Rightarrow> JNull | Some x \<Rightarrow> f x)"

definition j_optional :: "string \<Rightarrow> ('a \<Rightarrow> json) \<Rightarrow> 'a option \<Rightarrow> fields" where
  "j_optional k f v = (case v of None \<Rightarrow> [] | Some x \<Rightarrow> [(k, f x)])"

section \<open>Users, requests and contexts\<close>

record service_user =
  u_sub :: "string option"
  u_username :: "string option"
  u_roles :: "string list option"
  u_groups :: "string list option"

record request_context =
  c_traceId :: "string option"
  c_authorization :: "string option"
  c_actorId :: string
  c_roles :: "string list"
  c_groups :: "string list option"
  c_ip :: "string option"

record http_request =
  r_traceId :: "string option"
  r_user :: service_user
  r_requestIdHeader :: "string option"
  r_authorization :: "string option"
  r_xRoles :: "string option"
  r_xGroups :: "string option"
  r_ip :: "string option"

definition buildActorId :: "service_user \<Rightarrow> string" where
  "buildActorId user = coalesce (or_else (u_sub user) (u_username user)) ''unknown''"

definition strip_slashes :: "string \<Rightarrow> string" where
  "strip_slashes = dropWhile (\<lambda>c. c = CHR ''/'')"

definition normalizeGroups :: "string list option \<Rightarrow> string list" where
  "normalizeGroups groups =
     unique (map strip_slashes (filter truthy (map trim (coalesce groups []))))"

definition header_list :: "string option \<Rightarrow> string list" where
  "header_list h = (case h of None \<Rightarrow> []
     | Some v \<Rightarrow> filter truthy (map trim (split_on (CHR '','') v)))"

definition buildRequestContext :: "http_request \<Rightarrow> request_context" where
  "buildRequestContext req = \<lparr>
     c_traceId = or_else (r_traceId req) (r_requestIdHeader req),
     c_authorization = r_authorization req,
     c_actorId = buildActorId (r_user req),
     c_roles = coalesce (u_roles (r_user req)) (header_list (r_xRoles req)),
     c_groups = Some (normalizeGroups
        (Some (coalesce (u_groups (r_user req)) (header_list (r_xGroups req))))),
     c_ip = r_ip req \<rparr>"

section \<open>Retention and watermark tables\<close>

fun CLASSIFICATION_RETENTION_DAYS :: "classification \<Rightarrow> int" where
  "CLASSIFICATION_RETENTION_DAYS PUBLIC = 730"
| "CLASSIFICATION_RETENTION_DAYS INTERNAL = 365"
| "CLASSIFICATION_RETENTION_DAYS CONFIDENTIAL = 180"
| "CLASSIFICATION_RETENTION_DAYS SECRET = 90"

record retention_policy =
  rp_days :: int
  rp_class :: string
  rp_reason :: string

fun RETENTION_POLICY_BY_CLASSIFICATION :: "classification \<Rightarrow> retention_policy" where
  "RETENTION_POLICY_BY_CLASSIFICATION PUBLIC = \<lparr>
     rp_days = CLASSIFICATION_RETENTION_DAYS PUBLIC, rp_class = ''PUBLIC_730D'',
     rp_reason = ''PUBLIC records are retained for 730 days after publication'' \<rparr>"
| "RETENTION_POLICY_BY_CLASSIFICATION INTERNAL = \<lparr>
     rp_days = CLASSIFICATION_RETENTION_DAYS INTERNAL, rp_class = ''INTERNAL_365D'',
     rp_reason = ''INTERNAL records are retained for 365 days after publication'' \<rparr>"
| "RETENTION_POLICY_BY_CLASSIFICATION CONFIDENTIAL = \<lparr>
     rp_days = CLASSIFICATION_RETENTION_DAYS CONFIDENTIAL, rp_class = ''CONFIDENTIAL_180D'',
     rp_reason = ''CONFIDENTIAL records are retained for 180 days after publication'' \<rparr>"
| "RETENTION_POLICY_BY_CLASSIFICATION SECRET = \<lparr>
     rp_days = CLASSIFICATION_RETENTION_DAYS SECRET, rp_class = ''SECRET_90D'',
     rp_reason = ''SECRET records are retained for 90 days after publication'' \<rparr>"

definition DAY_MS :: int where
  "DAY_MS = 24 * 60 * 60 * 1000"

record retention_evidence =
  re_class :: string
  re_until :: int
  re_reason :: string

definition buildRetentionEvidence :: "classification \<Rightarrow> int \<Rightarrow> retention_evidence" where
  "buildRetentionEvidence cls publishedAt =
     (let policy = RETENTION_POLICY_BY_CLASSIFICATION cls
      in \<lparr> re_class = rp_class policy,
           re_until = publishedAt + rp_days policy * 24 * 60 * 60 * 1000,
           re_reason = rp_reason policy \<rparr>)"

fun CLASSIFICATION_WATERMARK_LEVELS :: "classification \<Rightarrow> bool" where
  "CLASSIFICATION_WATERMARK_LEVELS PUBLIC = False"
| "CLASSIFICATION_WATERMARK_LEVELS INTERNAL = False"
| "CLASSIFICATION_WATERMARK_LEVELS CONFIDENTIAL = True"
| "CLASSIFICATION_WATERMARK_LEVELS SECRET = True"

section \<open>Tables\<close>

record document =
  d_id :: string
  d_organizationId :: string
  d_title :: string
  d_description :: "string option"
  d_ownerId :: string
  d_classification :: classification
  d_dlpStatus :: string
  d_dlpFindings :: "json option"
  d_dlpDetectedAt :: "int option"
  d_retentionClass :: "string option"
  d_retentionUntil :: "int option"
  d_retentionReason :: "string option"
  d_legalHold :: bool
  d_legalHoldReason :: "string option"
  d_legalHoldBy :: "string option"
  d_legalHoldAt :: "int option"
  d_approvalChain :: "string list"
  d_approvalStep :: int
  d_tags :: "string list"
  d_status :: doc_status
  d_currentVersion :: int
  d_createdAt :: int
  d_updatedAt :: int
  d_publishedAt :: "int option"
  d_archivedAt :: "int option"
  d_deletedAt :: "int option"

record doc_version =
  v_docId :: string
  v_version :: int
  v_objectKey :: string
  v_checksum :: string
  v_size :: int
  v_filename :: string
  v_contentType :: "string option"
  v_dlpStatus :: string
  v_dlpFindings :: "json option"
  v_createdAt :: int
  v_createdBy :: string

record acl_entry =
  a_id :: string
  a_docId :: string
  a_subjectType :: subject_type
  a_subjectId :: "string option"
  a_permission :: permission
  a_effect :: acl_effect
  a_createdAt :: int

record history_entry =
  h_docId :: string
  h_fromStatus :: doc_status
  h_toStatus :: doc_status
  h_action :: workflow_action
  h_actorId :: string
  h_reason :: "string option"
  h_createdAt :: int

record doc_comment =
  cm_id :: string
  cm_docId :: string
  cm_authorId :: string
  cm_authorRoles :: "string list"
  cm_content :: string
  cm_createdAt :: int
  cm_updatedAt :: int

record share_link =
  sl_id :: string
  sl_docId :: string
  sl_tokenHash :: string
  sl_permission :: share_permission
  sl_createdBy :: string
  sl_expiresAt :: int
  sl_maxAccessCount :: "int option"
  sl_accessCount :: int
  sl_lastAccessedAt :: "int option"
  sl_revokedAt :: "int option"
  sl_revokedBy :: "string option"
  sl_createdAt :: int

record organization =
  o_id :: string
  o_name :: string
  o_slug :: string
  o_ownerId :: string

record membership =
  m_organizationId :: string
  m_userId :: string
  m_role :: org_role
  m_createdAt :: int

record cache_entry =
  ce_orgId :: string
  ce_expiresAt :: int

section \<open>Messages to other services\<close>

record audit_payload =
  ap_action :: string
  ap_resourceType :: string
  ap_resourceId :: "string option"
  ap_result :: string
  ap_reason :: "string option"
  ap_metadata :: fields

record audit_post =
  po_timestamp :: int
  po_actorId :: string
  po_actorRoles :: "string list"
  po_event :: audit_payload
  po_ip :: "string option"
  po_traceId :: "string option"

record notify_payload =
  np_type :: string
  np_docId :: string
  np_recipientIds :: "string list option"
  np_recipientId :: "string option"
  np_docTitle :: "string option"
  np_reason :: "string option"
  np_metadata :: fields

record notify_post =
  no_payload :: notify_payload
  no_traceId :: "string option"

section \<open>The state of a handler\<close>

record vault =
  documents :: "document list"
  versions :: "doc_version list"
  acls :: "acl_entry list"
  history :: "history_entry list"
  comments :: "doc_comment list"
  shareLinks :: "share_link list"
  organizations :: "organization list"
  memberships :: "membership list"
  orgCache :: "string \<rightharpoonup> cache_entry"
  approverCache :: "(string list \<times> int) option"
  keycloakRoleUsers :: "(string list \<times> string list) option"
  env :: "string \<rightharpoonup> string"
  auditPosts :: "audit_post list"
  notifyPosts :: "notify_post list"

text \<open>
  \<open>AuditClient.emitEvent\<close>: without a service URL or an ingest token the event is
  dropped; otherwise it is posted, and a failed post is only logged.
\<close>

definition emitEvent :: "int \<Rightarrow> request_context \<Rightarrow> audit_payload \<Rightarrow> vault \<Rightarrow> vault" where
  "emitEvent now context event s =
     (if \<not> truthy_opt (env s ''AUDIT_SERVICE_URL'') then s
      else if \<not> truthy_opt (env s ''AUDIT_INGEST_TOKEN'') then s
      else s\<lparr>auditPosts := auditPosts s @ [\<lparr>
             po_timestamp = now,
             po_actorId = c_actorId context,
             po_actorRoles = c_roles context,
             po_event = event,
             po_ip = c_ip context,
             po_traceId = c_traceId context \<rparr>]\<rparr>)"

text \<open>\<open>NotificationClient.notify\<close>, with the same failure behaviour.\<close>

definition notifyClient :: "request_context \<Rightarrow> notify_payload \<Rightarrow> vault \<Rightarrow> vault" where
  "notifyClient context payload s =
     (if \<not> truthy_opt (env s ''NOTIFICATION_SERVICE_URL'') then s
      else s\<lparr>notifyPosts := notifyPosts s @ [\<lparr>
             no_payload = payload, no_traceId = c_traceId context \<rparr>]\<rparr>)"

lemma emitEvent_frame [simp, frame]:
  "documents (emitEvent now c e s) = documents s"
  "versions (emitEvent now c e s) = versions s"
  "acls (emitEvent now c e s) = acls s"
  "history (emitEvent now c e s) = history s"
  "comments (emitEvent now c e s) = comments s"
  "shareLinks (emitEvent now c e s) = shareLinks s"
  "organizations (emitEvent now c e s) = organizations s"
  "memberships (emitEvent now c e s) = memberships s"
  "orgCache (emitEvent now c e s) = orgCache s"
  "approverCache (emitEvent now c e s) = approverCache s"
  "keycloakRoleUsers (emitEvent now c e s) = keycloakRoleUsers s"
  "env (emitEvent now c e s) = env s"
  "notifyPosts (emitEvent now c e s) = notifyPosts s"
  by (simp_all add: emitEvent_def)

lemma notifyClient_frame [simp, frame]:
  "documents (notifyClient c p s) = documents s"
  "versions (notifyClient c p s) = versions s"
  "acls (notifyClient c p s) = acls s"
  "history (notifyClient c p s) = history s"
  "comments (notifyClient c p s) = comments s"
  "shareLinks (notifyClient c p s) = shareLinks s"
  "organizations (notifyClient c p s) = organizations s"
  "memberships (notifyClient c p s) = memberships s"
  "orgCache (notifyClient c p s) = orgCache s"
  "approverCache (notifyClient c p s) = approverCache s"
  "keycloakRoleUsers (notifyClient c p s) = keycloakRoleUsers s"
  "env (notifyClient c p s) = env s"
  "auditPosts (notifyClient c p s) = auditPosts s"
  by (simp_all add: notifyClient_def)

text \<open>An audit event reaches the audit service's queue when the client is configured.\<close>

definition audit_on :: "vault \<Rightarrow> bool" where
  "audit_on s = (truthy_opt (env s ''AUDIT_SERVICE_URL'') \<and> truthy_opt (env s ''AUDIT_INGEST_TOKEN''))"

lemma auditPosts_emitEvent:
  "audit_on s \<Longrightarrow> auditPosts (emitEvent now c e s) = auditPosts s @
     [\<lparr>po_timestamp = now, po_actorId = c_actorId c, po_actorRoles = c_roles c, po_event = e,
       po_ip = c_ip c, po_traceId = c_traceId c\<rparr>]"
  by (simp add: audit_on_def emitEvent_def)

section \<open>Database access\<close>

text \<open>
  \<open>prisma.document.update\<close>: sets \<open>updatedAt\<close>, returns the updated row, and fails
  (a 500 answer) when no row has the key.
\<close>

definition prismaUpdateDocument ::
  "int \<Rightarrow> string \<Rightarrow> (document \<Rightarrow> document) \<Rightarrow> vault \<Rightarrow> (document, vault) outcome" where
  "prismaUpdateDocument now i f s =
     (case find_row d_id i (documents s) of
        None \<Rightarrow> throw (JsError ''Record to update not found.'') s
      | Some d \<Rightarrow> return ((f d)\<lparr>d_updatedAt := now\<rparr>)
          (s\<lparr>documents := update_row d_id i (\<lambda>d. (f d)\<lparr>d_updatedAt := now\<rparr>) (documents s)\<rparr>))"

text \<open>\<open>findUnique\<close> on the pair \<open>docId_version\<close>.\<close>

definition findVersion :: "string \<Rightarrow> int \<Rightarrow> vault \<Rightarrow> doc_version option" where
  "findVersion i n s = find (\<lambda>v. v_docId v = i \<and> v_version v = n) (versions s)"

definition aclEntriesOf :: "string \<Rightarrow> vault \<Rightarrow> acl_entry list" where
  "aclEntriesOf i s = filter (\<lambda>a. a_docId a = i) (acls s)"

interpretation doc_table: keyed_table d_id documents "\<lambda>g s. documents_update g s"
  by unfold_locales simp

interpretation acl_table: keyed_table a_id acls "\<lambda>g s. acls_update g s"
  by unfold_locales simp

interpretation comment_table: keyed_table cm_id comments "\<lambda>g s. comments_update g s"
  by unfold_locales simp

interpretation share_table: keyed_table sl_id shareLinks "\<lambda>g s. shareLinks_update g s"
  by unfold_locales simp

interpretation version_table: keyed_table "\<lambda>v. (v_docId v, v_version v)" versions "\<lambda>g s. versions_update g s"
  by unfold_locales simp

interpretation member_table: keyed_table "\<lambda>m. (m_organizationId m, m_userId m)" memberships
  "\<lambda>g s. memberships_update g s"
  by unfold_locales simp

interpretation org_table: keyed_table o_id organizations "\<lambda>g s. organizations_update g s"
  by unfold_locales simp

lemma findVersion_row: "findVersion i n s = find_row (\<lambda>v. (v_docId v, v_version v)) (i, n) (versions s)"
  by (simp add: findVersion_def find_row_def)

lemma findVersion_SomeD: "findVersion i n s = Some v \<Longrightarrow> v \<in> set (versions s) \<and> v_docId v = i \<and> v_version v = n"
  by (auto simp: findVersion_def find_Some_iff)

lemma prismaUpdateDocument_Inr:
  "prismaUpdateDocument now i f s = (Inr d', s') \<longleftrightarrow>
     (\<exists>d. find_row d_id i (documents s) = Some d \<and> d' = (f d)\<lparr>d_updatedAt := now\<rparr> \<and>
          s' = s\<lparr>documents := update_row d_id i (\<lambda>d. (f d)\<lparr>d_updatedAt := now\<rparr>) (documents s)\<rparr>)"
  by (auto simp: prismaUpdateDocument_def split: option.splits)

lemma prismaUpdateDocument_found:
  "find_row d_id i (documents s) = Some d \<Longrightarrow>
   prismaUpdateDocument now i f s = (Inr ((f d)\<lparr>d_updatedAt := now\<rparr>),
     s\<lparr>documents := update_row d_id i (\<lambda>d. (f d)\<lparr>d_updatedAt := now\<rparr>) (documents s)\<rparr>)"
  by (simp add: prismaUpdateDocument_def return_def)

text \<open>An empty vault, the starting point of the examples.\<close>

definition empty_vault :: vault where
  "empty_vault = \<lparr> documents = [], versions = [], acls = [], history = [], comments = [],
     shareLinks = [], organizations = [], memberships = [], orgCache = Map.empty,
     approverCache = None, keycloakRoleUsers = None, env = Map.empty, auditPosts = [],
     notifyPosts = [] \<rparr>"

end
