(* ===== verification/Org_Service.thy ===== *)
theory Org_Service
  imports Store
begin

text \<open>
  Organizations: \<open>services/metadata-service/src/org/org.service.ts\<close>. A user belongs
  to the organization of the membership row with the earliest creation time;
  the answer is cached for a minute. Every document handler starts by resolving
  the caller's organization and reads documents only inside it
  (\<open>findInOrgOrThrow\<close>), which is the tenant isolation of the system.
\<close>

section \<open>Operations\<close>

definition CACHE_TTL_MS :: int where
  "CACHE_TTL_MS = 60000"

definition resolveOrgId :: "string \<Rightarrow> vault \<Rightarrow> (string, vault) outcome" where
  "resolveOrgId actorId s =
     (case sort_key m_createdAt (filter (\<lambda>m. m_userId m = actorId) (memberships s)) of
        [] \<Rightarrow> throw (Forbidden
          ''You are not assigned to any organization. Ask an administrator to add you.'') s
      | existing # _ \<Rightarrow> return (m_organizationId existing) s)"

definition requireOrgId :: "int \<Rightarrow> string \<Rightarrow> vault \<Rightarrow> (string, vault) outcome" where
  "requireOrgId now actorId s =
     (case orgCache s actorId of
        Some cached \<Rightarrow>
          (if ce_expiresAt cached > now then return (ce_orgId cached) s
           else andThen (resolveOrgId actorId s) (\<lambda>orgId s. return orgId
             (s\<lparr>orgCache := (orgCache s)(actorId \<mapsto>
                \<lparr>ce_orgId = orgId, ce_expiresAt = now + CACHE_TTL_MS\<rparr>)\<rparr>)))
      | None \<Rightarrow> andThen (resolveOrgId actorId s) (\<lambda>orgId s. return orgId
             (s\<lparr>orgCache := (orgCache s)(actorId \<mapsto>
                \<lparr>ce_orgId = orgId, ce_expiresAt = now + CACHE_TTL_MS\<rparr>)\<rparr>)))"

definition invalidate :: "string \<Rightarrow> vault \<Rightarrow> vault" where
  "invalidate actorId s = s\<lparr>orgCache := (orgCache s)(actorId := None)\<rparr>"

record my_org =
  mo_id :: string
  mo_name :: string
  mo_slug :: string
  mo_role :: org_role

record member_view =
  mv_userId :: string
  mv_role :: org_role
  mv_joinedAt :: int

definition findMembership :: "string \<Rightarrow> string \<Rightarrow> vault \<Rightarrow> membership option" where
  "findMembership orgId userId s =
     find_row (\<lambda>m. (m_organizationId m, m_userId m)) (orgId, userId) (memberships s)"

definition getMyOrg :: "int \<Rightarrow> string \<Rightarrow> vault \<Rightarrow> (my_org, vault) outcome" where
  "getMyOrg now actorId s =
     andThen (requireOrgId now actorId s) (\<lambda>orgId s.
       let org = find_row o_id orgId (organizations s);
           membership = findMembership orgId actorId s
       in return \<lparr> mo_id = coalesce (map_option o_id org) orgId,
            mo_name = coalesce (map_option o_name org) ''Organization'',
            mo_slug = coalesce (map_option o_slug org) orgId,
            mo_role = coalesce (map_option m_role membership) MEMBER \<rparr> s)"

definition toMemberView :: "membership \<Rightarrow> member_view" where
  "toMemberView m = \<lparr> mv_userId = m_userId m, mv_role = m_role m, mv_joinedAt = m_createdAt m \<rparr>"

definition listMembers :: "int \<Rightarrow> string \<Rightarrow> vault \<Rightarrow> (member_view list, vault) outcome" where
  "listMembers now actorId s =
     andThen (requireOrgId now actorId s) (\<lambda>orgId s.
       return (map toMemberView
         (sort_key m_createdAt (filter (\<lambda>m. m_organizationId m = orgId) (memberships s)))) s)"

definition adminCount :: "string \<Rightarrow> vault \<Rightarrow> nat" where
  "adminCount orgId s =
     length (filter (\<lambda>m. m_organizationId m = orgId \<and> m_role m = ADMIN) (memberships s))"

definition assertNotLastAdmin :: "string \<Rightarrow> vault \<Rightarrow> (unit, vault) outcome" where
  "assertNotLastAdmin orgId s =
     (if adminCount orgId s \<le> 1
      then throw (BadRequest ''Cannot remove or demote the last admin of an organization'') s
      else return () s)"

text \<open>\<open>organizationMembership.update\<close> of the role, by the unique key.\<close>

definition updateMembershipRole ::
  "string \<Rightarrow> string \<Rightarrow> org_role \<Rightarrow> vault \<Rightarrow> (membership, vault) outcome" where
  "updateMembershipRole orgId userId role s =
     (case findMembership orgId userId s of
        None \<Rightarrow> throw (JsError ''Record to update not found.'') s
      | Some m \<Rightarrow> return (m\<lparr>m_role := role\<rparr>)
          (s\<lparr>memberships := update_row (\<lambda>m. (m_organizationId m, m_userId m)) (orgId, userId)
               (\<lambda>m. m\<lparr>m_role := role\<rparr>) (memberships s)\<rparr>))"

text \<open>\<open>organization.delete\<close>, which cascades to the organization's memberships.\<close>

definition deleteOrganization :: "string \<Rightarrow> vault \<Rightarrow> (unit, vault) outcome" where
  "deleteOrganization orgId s =
     (case find_row o_id orgId (organizations s) of
        None \<Rightarrow> throw (JsError ''Record to delete does not exist.'') s
      | Some _ \<Rightarrow> return () (s\<lparr>organizations := delete_row o_id orgId (organizations s),
          memberships := filter (\<lambda>m. m_organizationId m \<noteq> orgId) (memberships s)\<rparr>))"

text \<open>
  \<open>organizationMembership.create\<close>: the foreign key and the unique key are the
  database's own checks.
\<close>

definition createMembership :: "membership \<Rightarrow> vault \<Rightarrow> (membership, vault) outcome" where
  "createMembership m s =
     (if find_row o_id (m_organizationId m) (organizations s) = None
      then throw (JsError ''Foreign key constraint violated'') s
      else if findMembership (m_organizationId m) (m_userId m) s \<noteq> None
      then throw (JsError ''Unique constraint failed'') s
      else return m (s\<lparr>memberships := memberships s @ [m]\<rparr>))"

text \<open>The loop of \<open>addMember\<close> over the memberships in other organizations.\<close>

fun dropOrphanOrgs ::
  "string \<Rightarrow> (membership \<times> organization option) list \<Rightarrow> vault \<Rightarrow> (unit, vault) outcome" where
  "dropOrphanOrgs target [] s = return () s"
| "dropOrphanOrgs target ((m, org) # rest) s =
     (let memberCount =
            length (filter (\<lambda>x. m_organizationId x = m_organizationId m) (memberships s));
          isOrphanSoloOrg = (memberCount = 1 \<and> map_option o_ownerId org = Some target)
      in if \<not> isOrphanSoloOrg
         then throw (BadRequest
           ''User already belongs to another organization. Remove them there first.'') s
         else andThen (deleteOrganization (m_organizationId m) s)
           (\<lambda>_ s. dropOrphanOrgs target rest s))"

definition roleChangedEvent :: "string \<Rightarrow> string \<Rightarrow> org_role \<Rightarrow> org_role \<Rightarrow> audit_payload" where
  "roleChangedEvent orgId userId fromRole toRole = \<lparr>
     ap_action = ''ORG_MEMBER_ROLE_CHANGED'', ap_resourceType = ''ORGANIZATION_MEMBER'',
     ap_resourceId = Some userId, ap_result = ''SUCCESS'', ap_reason = None,
     ap_metadata = [(''organizationId'', JStr orgId), (''targetUserId'', JStr userId),
       (''fromRole'', JStr (show_org_role fromRole)), (''toRole'', JStr (show_org_role toRole))] \<rparr>"

text \<open>
  \<open>addMember\<close>, from the point where the caller's organization and the trimmed
  target are known.
\<close>

definition addMemberIn ::
  "int \<Rightarrow> request_context \<Rightarrow> string \<Rightarrow> string \<Rightarrow> org_role \<Rightarrow> vault \<Rightarrow> (member_view, vault) outcome" where
  "addMemberIn now context organizationId normalizedTarget role s =
     (let existingMemberships =
            map (\<lambda>m. (m, find_row o_id (m_organizationId m) (organizations s)))
              (filter (\<lambda>m. m_userId m = normalizedTarget) (memberships s))
      in case find (\<lambda>(m, _). m_organizationId m = organizationId) existingMemberships of
        Some (alreadyHere, _) \<Rightarrow>
          (if m_role alreadyHere = role then return (toMemberView alreadyHere) s
           else andThen (updateMembershipRole organizationId normalizedTarget role s)
             (\<lambda>updated s. return (toMemberView updated)
                (emitEvent now context
                   (roleChangedEvent organizationId normalizedTarget
                      (m_role alreadyHere) (m_role updated))
                   (invalidate normalizedTarget s))))
      | None \<Rightarrow>
          andThen (dropOrphanOrgs normalizedTarget
            (filter (\<lambda>(m, _). m_organizationId m \<noteq> organizationId) existingMemberships) s)
          (\<lambda>_ s. andThen (createMembership \<lparr> m_organizationId = organizationId,
              m_userId = normalizedTarget, m_role = role, m_createdAt = now \<rparr> s)
          (\<lambda>created s. return (toMemberView created) (emitEvent now context \<lparr>
              ap_action = ''ORG_MEMBER_ADDED'', ap_resourceType = ''ORGANIZATION_MEMBER'',
              ap_resourceId = Some normalizedTarget, ap_result = ''SUCCESS'', ap_reason = None,
              ap_metadata = [(''organizationId'', JStr organizationId),
                (''targetUserId'', JStr normalizedTarget),
                (''role'', JStr (show_org_role (m_role created)))] \<rparr>
              (invalidate normalizedTarget s)))))"

definition addMember ::
  "int \<Rightarrow> request_context \<Rightarrow> string \<Rightarrow> org_role \<Rightarrow> vault \<Rightarrow> (member_view, vault) outcome" where
  "addMember now context targetUserId role s =
     andThen (requireOrgId now (c_actorId context) s) (\<lambda>organizationId s.
       let normalizedTarget = trim targetUserId in
       if \<not> truthy normalizedTarget
       then throw (BadRequest ''targetUserId is required'') s
       else addMemberIn now context organizationId normalizedTarget role s)"

definition updateMemberRole ::
  "int \<Rightarrow> request_context \<Rightarrow> string \<Rightarrow> org_role \<Rightarrow> vault \<Rightarrow> (member_view, vault) outcome" where
  "updateMemberRole now context targetUserId role s =
     andThen (requireOrgId now (c_actorId context) s) (\<lambda>organizationId s.
       case findMembership organizationId targetUserId s of
         None \<Rightarrow> throw (NotFound ''Member not found in this organization'') s
       | Some membership \<Rightarrow>
           andThen (if m_role membership = ADMIN \<and> role = MEMBER
                    then assertNotLastAdmin organizationId s else return () s)
           (\<lambda>_ s. andThen (updateMembershipRole organizationId targetUserId role s)
           (\<lambda>updated s. return (toMemberView updated) (emitEvent now context
               (roleChangedEvent organizationId targetUserId (m_role membership) (m_role updated))
               (invalidate targetUserId s)))))"

definition removeMember ::
  "int \<Rightarrow> request_context \<Rightarrow> string \<Rightarrow> vault \<Rightarrow> (string \<times> bool, vault) outcome" where
  "removeMember now context targetUserId s =
     andThen (requireOrgId now (c_actorId context) s) (\<lambda>organizationId s.
       case findMembership organizationId targetUserId s of
         None \<Rightarrow> throw (NotFound ''Member not found in this organization'') s
       | Some membership \<Rightarrow>
           andThen (if m_role membership = ADMIN
                    then assertNotLastAdmin organizationId s else return () s)
           (\<lambda>_ s.
             return (targetUserId, True) (emitEvent now context \<lparr>
               ap_action = ''ORG_MEMBER_REMOVED'', ap_resourceType = ''ORGANIZATION_MEMBER'',
               ap_resourceId = Some targetUserId, ap_result = ''SUCCESS'', ap_reason = None,
               ap_metadata = [(''organizationId'', JStr organizationId),
                 (''targetUserId'', JStr targetUserId),
                 (''removedRole'', JStr (show_org_role (m_role membership)))] \<rparr>
               (invalidate targetUserId (s\<lparr>memberships :=
                 delete_row (\<lambda>m. (m_organizationId m, m_userId m))
                   (organizationId, targetUserId) (memberships s)\<rparr>)))))"

text \<open>
  \<open>findInOrgOrThrow\<close> of the documents service; the ACL, status, share-link and
  policy services repeat the same two statements inline.
\<close>

definition findInOrg :: "string \<Rightarrow> string \<Rightarrow> vault \<Rightarrow> document option" where
  "findInOrg i organizationId s =
     find (\<lambda>d. d_id d = i \<and> d_organizationId d = organizationId) (documents s)"

definition findInOrgOrThrow :: "int \<Rightarrow> string \<Rightarrow> string \<Rightarrow> vault \<Rightarrow> (document, vault) outcome" where
  "findInOrgOrThrow now actorId i s =
     andThen (requireOrgId now actorId s) (\<lambda>organizationId s.
       case findInOrg i organizationId s of
         None \<Rightarrow> throw (NotFound ''Document not found'') s
       | Some d \<Rightarrow> return d s)"

section \<open>Invariant and contract\<close>

definition belongs :: "vault \<Rightarrow> string \<Rightarrow> string \<Rightarrow> bool" where
  "belongs s userId orgId =
     (\<exists>m \<in> set (memberships s). m_userId m = userId \<and> m_organizationId m = orgId)"

text \<open>
  One membership per user, memberships only in existing organizations (the
  foreign key), and cache entries that agree with the membership table.
\<close>

definition org_inv :: "vault \<Rightarrow> bool" where
  "org_inv s =
     (distinct (map m_userId (memberships s))
      \<and> (\<forall>m \<in> set (memberships s). m_organizationId m \<in> o_id ` set (organizations s))
      \<and> (\<forall>a e. orgCache s a = Some e \<longrightarrow> belongs s a (ce_orgId e)))"

lemma org_invI:
  assumes "distinct (map m_userId (memberships s))"
    and "\<And>m. m \<in> set (memberships s) \<Longrightarrow> m_organizationId m \<in> o_id ` set (organizations s)"
    and "\<And>a e. orgCache s a = Some e \<Longrightarrow> belongs s a (ce_orgId e)"
  shows "org_inv s"
  using assms by (simp add: org_inv_def)

lemma org_inv_cong:
  "memberships t = memberships s \<Longrightarrow> organizations t = organizations s \<Longrightarrow> orgCache t = orgCache s \<Longrightarrow>
   org_inv t = org_inv s"
  by (simp add: org_inv_def belongs_def)

lemma org_inv_tables [simp]:
  "org_inv (s\<lparr>documents := ds\<rparr>) = org_inv s"
  "org_inv (s\<lparr>versions := vs\<rparr>) = org_inv s"
  "org_inv (s\<lparr>acls := as\<rparr>) = org_inv s"
  "org_inv (s\<lparr>history := hs\<rparr>) = org_inv s"
  "org_inv (s\<lparr>comments := cs\<rparr>) = org_inv s"
  "org_inv (s\<lparr>shareLinks := ls\<rparr>) = org_inv s"
  "org_inv (s\<lparr>approverCache := ac\<rparr>) = org_inv s"
  "org_inv (s\<lparr>auditPosts := ps\<rparr>) = org_inv s"
  by (simp_all add: org_inv_def belongs_def)

lemma org_inv_emitEvent [simp]: "org_inv (emitEvent now c e s) = org_inv s"
  by (rule org_inv_cong) simp_all

lemma belongs_unique:
  assumes "distinct (map m_userId (memberships s))" "belongs s a o1" "belongs s a o2"
  shows "o1 = o2"
  using assms by (auto simp: belongs_def distinct_map inj_on_def)

lemma resolveOrgId_state [simp]: "snd (resolveOrgId a s) = s"
  by (auto simp: resolveOrgId_def split: list.splits)

lemma resolveOrgId_Inr: "resolveOrgId a s = (Inr i, s') \<Longrightarrow> s' = s \<and> belongs s a i"
proof -
  assume r: "resolveOrgId a s = (Inr i, s')"
  let ?xs = "sort_key m_createdAt (filter (\<lambda>m. m_userId m = a) (memberships s))"
  from r obtain m ms where m: "?xs = m # ms" "i = m_organizationId m" "s' = s"
    by (auto simp: resolveOrgId_def split: list.splits)
  have "m \<in> set ?xs" using m(1) by simp
  then have "m \<in> set (filter (\<lambda>m. m_userId m = a) (memberships s))" by simp
  with m show ?thesis by (auto simp: belongs_def)
qed

lemma requireOrgId_state: "\<exists>c. snd (requireOrgId now a s) = s\<lparr>orgCache := c\<rparr>"
proof -
  have self: "\<exists>c. s = s\<lparr>orgCache := c\<rparr>" by (rule exI [of _ "orgCache s"]) simp
  have resolved: "resolveOrgId a s = (r, t) \<Longrightarrow> t = s" for r t
    using resolveOrgId_state [of a s] by simp
  show ?thesis
    by (cases "resolveOrgId a s"; cases "fst (resolveOrgId a s)")
      (use self in \<open>auto simp: requireOrgId_def return_def split: option.splits dest!: resolved\<close>)
qed

lemma requireOrgId_frame [simp, frame]:
  "documents (snd (requireOrgId now a s)) = documents s"
  "versions (snd (requireOrgId now a s)) = versions s"
  "acls (snd (requireOrgId now a s)) = acls s"
  "history (snd (requireOrgId now a s)) = history s"
  "comments (snd (requireOrgId now a s)) = comments s"
  "shareLinks (snd (requireOrgId now a s)) = shareLinks s"
  "organizations (snd (requireOrgId now a s)) = organizations s"
  "memberships (snd (requireOrgId now a s)) = memberships s"
  "approverCache (snd (requireOrgId now a s)) = approverCache s"
  "keycloakRoleUsers (snd (requireOrgId now a s)) = keycloakRoleUsers s"
  "env (snd (requireOrgId now a s)) = env s"
  "auditPosts (snd (requireOrgId now a s)) = auditPosts s"
  "notifyPosts (snd (requireOrgId now a s)) = notifyPosts s"
  using requireOrgId_state [of now a s] by auto

lemma requireOrgId_eq_state:
  "requireOrgId now a s = (r, s') \<Longrightarrow> \<exists>c. s' = s\<lparr>orgCache := c\<rparr>"
  using requireOrgId_state [of now a s] by simp

lemma requireOrgId_belongs:
  assumes "org_inv s" "requireOrgId now a s = (Inr i, s')"
  shows "belongs s a i"
  using assms by (auto simp: requireOrgId_def org_inv_def andThen_Inr_iff
      split: option.splits if_splits dest!: resolveOrgId_Inr)

lemma org_inv_cache_update:
  assumes inv: "org_inv s" and bel: "belongs s a (ce_orgId e)"
  shows "org_inv (s\<lparr>orgCache := (orgCache s)(a \<mapsto> e)\<rparr>)"
  using assms by (auto simp: org_inv_def belongs_def)

lemma resolveOrgId_fst: "fst (resolveOrgId a s) = Inr i \<Longrightarrow> belongs s a i"
  using resolveOrgId_Inr [of a s i "snd (resolveOrgId a s)"] by (simp add: prod_eq_iff)

lemma requireOrgId_inv: "org_inv s \<Longrightarrow> org_inv (snd (requireOrgId now a s))"
  by (auto simp: requireOrgId_def andThen_snd split: option.splits sum.splits
      intro!: org_inv_cache_update dest: resolveOrgId_fst)

text \<open>The contract the document handlers rely on, and what follows from it.\<close>

locale org_resolver =
  fixes resolve :: "int \<Rightarrow> string \<Rightarrow> 's \<Rightarrow> (string, 's) outcome"
    and member :: "'s \<Rightarrow> string \<Rightarrow> string \<Rightarrow> bool"
    and ok :: "'s \<Rightarrow> bool"
    and rows :: "'s \<Rightarrow> document list"
  assumes resolve_member: "ok s \<Longrightarrow> resolve now a s = (Inr i, s') \<Longrightarrow> member s a i"
    and resolve_ok: "ok s \<Longrightarrow> ok (snd (resolve now a s))"
    and resolve_rows: "rows (snd (resolve now a s)) = rows s"
begin

definition scoped :: "int \<Rightarrow> string \<Rightarrow> string \<Rightarrow> 's \<Rightarrow> (document, 's) outcome" where
  "scoped now a i s = andThen (resolve now a s) (\<lambda>org s.
     case find (\<lambda>d. d_id d = i \<and> d_organizationId d = org) (rows s) of
       None \<Rightarrow> throw (NotFound ''Document not found'') s
     | Some d \<Rightarrow> return d s)"

lemma scoped_rows: "rows (snd (scoped now a i s)) = rows s"
  using resolve_rows [of now a s]
  by (auto simp: scoped_def andThen_snd split: option.splits sum.splits)

lemma scoped_ok: "ok s \<Longrightarrow> ok (snd (scoped now a i s))"
  using resolve_ok [of s now a]
  by (auto simp: scoped_def andThen_snd split: option.splits sum.splits)

lemma scoped_isolated:
  assumes "ok s" "scoped now a i s = (Inr d, s')"
  shows "d \<in> set (rows s) \<and> d_id d = i \<and> member s a (d_organizationId d)"
proof -
  from assms(2) obtain org t where r: "resolve now a s = (Inr org, t)"
    and f: "find (\<lambda>d. d_id d = i \<and> d_organizationId d = org) (rows t) = Some d"
    by (auto simp: scoped_def andThen_Inr_iff split: option.splits)
  from r have "rows t = rows s" using resolve_rows [of now a s] by simp
  with f r assms(1) show ?thesis
    by (auto simp: find_Some_iff intro!: resolve_member)
qed

end

interpretation tenant: org_resolver requireOrgId belongs org_inv documents
  by unfold_locales (auto intro: requireOrgId_belongs requireOrgId_inv)

lemma findInOrgOrThrow_scoped: "findInOrgOrThrow now a i s = tenant.scoped now a i s"
  by (simp add: findInOrgOrThrow_def tenant.scoped_def findInOrg_def)

lemma findInOrgOrThrow_state: "\<exists>c. snd (findInOrgOrThrow now a i s) = s\<lparr>orgCache := c\<rparr>"
  using requireOrgId_state [of now a s]
  by (auto simp: findInOrgOrThrow_def andThen_snd split: option.splits sum.splits)

lemma findInOrgOrThrow_Inr:
  "findInOrgOrThrow now a i s = (Inr d, s') \<Longrightarrow>
   (\<exists>c. s' = s\<lparr>orgCache := c\<rparr>) \<and> d \<in> set (documents s) \<and> d_id d = i"
proof -
  assume f: "findInOrgOrThrow now a i s = (Inr d, s')"
  from f obtain org t where r: "requireOrgId now a s = (Inr org, t)"
    and d: "findInOrg i org t = Some d" and st: "s' = t"
    by (auto simp: findInOrgOrThrow_def andThen_Inr_iff split: option.splits)
  obtain c where "t = s\<lparr>orgCache := c\<rparr>" using requireOrgId_eq_state [OF r] by blast
  with d st show ?thesis by (auto simp: findInOrg_def find_Some_iff)
qed

text \<open>With unique document ids, the row found is the one an update by id rewrites.\<close>

lemma findInOrgOrThrow_row:
  assumes "distinct (map d_id (documents s))" "findInOrgOrThrow now a i s = (Inr d, s')"
  shows "find_row d_id i (documents s') = Some d"
proof -
  from findInOrgOrThrow_Inr [OF assms(2)] obtain c where
    st: "s' = s\<lparr>orgCache := c\<rparr>" and "d \<in> set (documents s)" and "d_id d = i" by blast
  with assms(1) find_row_member [of d_id "documents s" d] show ?thesis by simp
qed

section \<open>Handlers that only log\<close>

text \<open>
  A handler that reads: besides the two caches it leaves only the messages it
  posted.
\<close>

definition only_logs :: "vault \<Rightarrow> vault \<Rightarrow> bool" where
  "only_logs s t =
     (documents t = documents s \<and> versions t = versions s \<and> acls t = acls s
      \<and> history t = history s \<and> comments t = comments s \<and> shareLinks t = shareLinks s
      \<and> organizations t = organizations s \<and> memberships t = memberships s
      \<and> keycloakRoleUsers t = keycloakRoleUsers s
      \<and> env t = env s \<and> (org_inv s \<longrightarrow> org_inv t))"

lemma only_logsD:
  assumes "only_logs s t"
  shows "documents t = documents s" "versions t = versions s" "acls t = acls s"
    "history t = history s" "comments t = comments s" "shareLinks t = shareLinks s"
    "organizations t = organizations s" "memberships t = memberships s"
    "keycloakRoleUsers t = keycloakRoleUsers s" "env t = env s" "org_inv s \<Longrightarrow> org_inv t"
  using assms by (simp_all add: only_logs_def)

lemma only_logs_refl [simp, intro]: "only_logs s s"
  by (simp add: only_logs_def)

lemma only_logs_trans [trans]: "only_logs s t \<Longrightarrow> only_logs t u \<Longrightarrow> only_logs s u"
  by (simp add: only_logs_def)

lemma org_inv_notifyClient [simp]: "org_inv (notifyClient c p s) = org_inv s"
  by (rule org_inv_cong) (simp_all add: notifyClient_def)

lemma findInOrgOrThrow_inv: "org_inv s \<Longrightarrow> org_inv (snd (findInOrgOrThrow now a i s))"
  unfolding findInOrgOrThrow_scoped by (rule tenant.scoped_ok)

lemma only_logs_emitEvent [simp, intro]: "only_logs s t \<Longrightarrow> only_logs s (emitEvent now c e t)"
  by (simp add: only_logs_def)

lemma only_logs_notifyClient [simp, intro]: "only_logs s t \<Longrightarrow> only_logs s (notifyClient c p t)"
  by (simp add: only_logs_def)

lemma only_logs_requireOrgId: "only_logs s (snd (requireOrgId now a s))"
  by (simp add: only_logs_def requireOrgId_inv)

lemma only_logs_findInOrgOrThrow: "only_logs s (snd (findInOrgOrThrow now a i s))"
  using findInOrgOrThrow_state [of now a i s] by (auto simp: only_logs_def findInOrgOrThrow_inv)

lemma only_logs_andThen:
  assumes "only_logs s (snd m)" "\<And>a t. m = (Inr a, t) \<Longrightarrow> only_logs t (snd (f a t))"
  shows "only_logs s (snd (andThen m f))"
  using assms by (cases m; cases "fst m") (auto intro: only_logs_trans)

section \<open>The document found\<close>

text \<open>The document a handler acts on, as a function of the state it starts from.\<close>

definition docSeenBy :: "int \<Rightarrow> string \<Rightarrow> string \<Rightarrow> vault \<Rightarrow> document option" where
  "docSeenBy now actorId i s =
     (case fst (findInOrgOrThrow now actorId i s) of Inl _ \<Rightarrow> None | Inr d \<Rightarrow> Some d)"

lemma docSeenBy_Some:
  "docSeenBy now a i s = Some d \<longleftrightarrow> fst (findInOrgOrThrow now a i s) = Inr d"
  by (simp add: docSeenBy_def split: sum.splits)

lemma docSeenBy_id: "docSeenBy now a i s = Some d \<Longrightarrow> d_id d = i \<and> d \<in> set (documents s)"
  by (cases "findInOrgOrThrow now a i s") (auto simp: docSeenBy_Some dest!: findInOrgOrThrow_Inr)

lemma docSeenBy_row:
  assumes "distinct (map d_id (documents s))" "docSeenBy now a i s = Some d"
  shows "find_row d_id i (documents s) = Some d"
  using find_row_member [OF assms(1)] docSeenBy_id [OF assms(2)] by auto

lemma docSeenBy_org:
  assumes "org_inv s" "docSeenBy now a i s = Some d"
  shows "belongs s a (d_organizationId d)"
proof -
  obtain t where "findInOrgOrThrow now a i s = (Inr d, t)"
    using assms(2) by (cases "findInOrgOrThrow now a i s") (auto simp: docSeenBy_Some)
  then show ?thesis using tenant.scoped_isolated [OF assms(1)]
    by (simp add: findInOrgOrThrow_scoped)
qed

text \<open>A handler that starts with \<open>findInOrgOrThrow\<close>: it fails, or its body runs on the document.\<close>

lemma scoped_cases:
  obtains (missing) e where "docSeenBy now a i s = None"
      "andThen (findInOrgOrThrow now a i s) f = (Inl e, snd (findInOrgOrThrow now a i s))"
  | (found) d t where "docSeenBy now a i s = Some d" "only_logs s t" "d_id d = i"
      "findInOrgOrThrow now a i s = (Inr d, t)"
      "andThen (findInOrgOrThrow now a i s) f = f d t"
proof (cases "findInOrgOrThrow now a i s")
  case (Pair r t)
  show ?thesis
  proof (cases r)
    case (Inl e)
    then show ?thesis using Pair by (intro missing [of e]) (simp_all add: docSeenBy_def)
  next
    case (Inr d)
    then show ?thesis
      using Pair only_logs_findInOrgOrThrow [of s now a i] findInOrgOrThrow_Inr [of now a i s d t]
      by (intro found [of d t]) (simp_all add: docSeenBy_def)
  qed
qed

end
