(* ===== verification/Org_Properties.thy ===== *)
theory Org_Properties
  imports Org_Service
begin

text \<open>
  What the membership operations keep: one membership per user, a cache that
  agrees with the table, and, for the role change and the removal, an
  administrator in every organization that had one. \<open>addMember\<close> does not keep
  the last: it changes the role of an existing member without the guard.
\<close>

section \<open>Frames and single steps\<close>

lemma invalidate_inv: "org_inv s \<Longrightarrow> org_inv (invalidate a s)"
  by (auto simp: org_inv_def invalidate_def belongs_def)

lemma invalidate_memberships [simp]:
  "memberships (invalidate a s) = memberships s"
  "organizations (invalidate a s) = organizations s"
  "documents (invalidate a s) = documents s"
  "orgCache (invalidate a s) = (orgCache s)(a := None)"
  by (simp_all add: invalidate_def)

lemma belongs_pairs:
  "belongs s a i \<longleftrightarrow> (a, i) \<in> set (map (\<lambda>m. (m_userId m, m_organizationId m)) (memberships s))"
  by (auto simp: belongs_def image_iff)

lemma belongs_role_update:
  "belongs (s\<lparr>memberships := update_row (\<lambda>m. (m_organizationId m, m_userId m)) k
      (\<lambda>m. m\<lparr>m_role := r\<rparr>) (memberships s)\<rparr>) a i = belongs s a i"
  unfolding belongs_pairs by (simp add: map_update_row del: set_map)

lemma user_ids_role_update:
  "map m_userId (update_row (\<lambda>m. (m_organizationId m, m_userId m)) k (\<lambda>m. m\<lparr>m_role := r\<rparr>) ms) =
   map m_userId ms"
  by (simp add: update_row_def)

lemma updateMembershipRole_inv:
  assumes "org_inv s" shows "org_inv (snd (updateMembershipRole i u r s))"
proof (cases "findMembership i u s")
  case None
  with assms show ?thesis by (simp add: updateMembershipRole_def)
next
  case (Some m)
  let ?t = "s\<lparr>memberships := update_row (\<lambda>m. (m_organizationId m, m_userId m)) (i, u)
               (\<lambda>m. m\<lparr>m_role := r\<rparr>) (memberships s)\<rparr>"
  have "org_inv ?t"
  proof (rule org_invI)
    show "distinct (map m_userId (memberships ?t))"
      using assms by (simp add: user_ids_role_update org_inv_def)
    show "m_organizationId m \<in> o_id ` set (organizations ?t)" if "m \<in> set (memberships ?t)" for m
      using that assms by (auto simp: org_inv_def set_update_row)
    show "belongs ?t a (ce_orgId e)" if "orgCache ?t a = Some e" for a e
      using that assms by (simp add: belongs_role_update org_inv_def)
  qed
  with Some show ?thesis by (simp add: updateMembershipRole_def)
qed

lemma assertNotLastAdmin_state [simp]: "snd (assertNotLastAdmin i s) = s"
  by (simp add: assertNotLastAdmin_def)

lemma assertNotLastAdmin_Inr: "assertNotLastAdmin i s = (Inr u, t) \<longleftrightarrow> t = s \<and> 1 < adminCount i s"
  by (auto simp: assertNotLastAdmin_def)

section \<open>Adding a member\<close>

lemma createMembership_inv:
  assumes inv: "org_inv s" and fresh: "m_userId m \<notin> m_userId ` set (memberships s)"
  shows "org_inv (snd (createMembership m s))"
proof (cases "fst (createMembership m s)")
  case (Inl e)
  then have "snd (createMembership m s) = s" by (auto simp: createMembership_def)
  with inv show ?thesis by simp
next
  case (Inr m')
  then have st: "snd (createMembership m s) = s\<lparr>memberships := memberships s @ [m]\<rparr>"
    and org: "m_organizationId m \<in> o_id ` set (organizations s)"
    by (auto simp: createMembership_def find_row_None split: if_splits)
  have "org_inv (s\<lparr>memberships := memberships s @ [m]\<rparr>)"
    using inv fresh org by (auto simp: org_inv_def belongs_def)
  with st show ?thesis by simp
qed

lemma user_rows:
  assumes "distinct (map m_userId ms)"
  shows "filter (\<lambda>m. m_userId m = u) ms = [] \<or> (\<exists>m. filter (\<lambda>m. m_userId m = u) ms = [m] \<and> m \<in> set ms \<and> m_userId m = u)"
  using assms by (induction ms) (auto simp: filter_empty_conv image_iff)

text \<open>Dropping the solo organization of the one user it holds.\<close>

lemma drop_solo_org:
  assumes inv: "org_inv s" and m: "m \<in> set (memberships s)" and u: "m_userId m = u"
    and solo: "length (filter (\<lambda>x. m_organizationId x = m_organizationId m) (memberships s)) = 1"
    and t: "t = s\<lparr>organizations := delete_row o_id (m_organizationId m) (organizations s),
          memberships := filter (\<lambda>x. m_organizationId x \<noteq> m_organizationId m) (memberships s)\<rparr>"
  shows "org_inv (invalidate u t) \<and> u \<notin> m_userId ` set (memberships t)"
proof -
  let ?o = "m_organizationId m"
  from solo obtain x where "filter (\<lambda>x. m_organizationId x = ?o) (memberships s) = [x]"
    by (auto simp: length_Suc_conv)
  then have "set (filter (\<lambda>x. m_organizationId x = ?o) (memberships s)) = {x}" by (simp del: set_filter)
  then have single: "z = x" if "z \<in> set (memberships s)" "m_organizationId z = ?o" for z
    using that by auto
  have only: "y = m" if "y \<in> set (memberships s)" "m_organizationId y = ?o" for y
    using single [OF that] single [OF m] by simp
  from inv have dist: "distinct (map m_userId (memberships s))" by (simp add: org_inv_def)
  have gone: "u \<notin> m_userId ` set (memberships t)"
    using dist m u t by (auto simp: distinct_map inj_on_def)
  have "org_inv (invalidate u t)"
  proof (rule org_invI)
    show "distinct (map m_userId (memberships (invalidate u t)))"
      using dist t by (simp add: distinct_map_filter)
    show "m_organizationId y \<in> o_id ` set (organizations (invalidate u t))"
      if "y \<in> set (memberships (invalidate u t))" for y
      using that inv t by (force simp: org_inv_def set_delete_row)
    show "belongs (invalidate u t) a (ce_orgId e)" if c: "orgCache (invalidate u t) a = Some e" for a e
    proof -
      from c t have a: "a \<noteq> u" "orgCache s a = Some e" by (auto split: if_splits)
      with inv have "belongs s a (ce_orgId e)" by (simp add: org_inv_def)
      then obtain y where y: "y \<in> set (memberships s)" "m_userId y = a"
        "m_organizationId y = ce_orgId e" by (auto simp: belongs_def)
      have "ce_orgId e \<noteq> ?o" using only [OF y(1)] y(2,3) a(1) u by metis
      with y t show ?thesis by (auto simp: belongs_def)
    qed
  qed
  with gone show ?thesis by simp
qed


lemma dropOrphanOrgs_inv:
  assumes inv: "org_inv s" and rows: "rows = filter (\<lambda>m. m_userId m = u) (memberships s)"
    and keep: "belongs s a i" and xs: "xs = filter (\<lambda>(m, _). m_organizationId m \<noteq> i)
      (map (\<lambda>m. (m, find_row o_id (m_organizationId m) (organizations s))) rows)"
    and absent: "\<forall>m \<in> set rows. m_organizationId m \<noteq> i"
    and run: "dropOrphanOrgs u xs s = (r, t)"
  shows "(r = Inr () \<and> org_inv (invalidate u t) \<and> u \<notin> m_userId ` set (memberships t) \<and> belongs t a i) \<or>
         ((\<exists>e. r = Inl e) \<and> t = s)"
proof -
  from inv have "distinct (map m_userId (memberships s))" by (simp add: org_inv_def)
  from user_rows [OF this, of u] consider (none) "rows = []"
    | (one) m where "rows = [m]" "m \<in> set (memberships s)" "m_userId m = u"
    unfolding rows by blast
  then show ?thesis
  proof cases
    case none
    with rows have "u \<notin> m_userId ` set (memberships s)" by (force simp: filter_empty_conv)
    with none run xs inv keep show ?thesis by (auto simp: return_def intro: invalidate_inv)
  next
    case one
    with absent have ne: "m_organizationId m \<noteq> i" by simp
    from inv one have "m_organizationId m \<in> o_id ` set (organizations s)" by (simp add: org_inv_def)
    then obtain org where org: "find_row o_id (m_organizationId m) (organizations s) = Some org"
      by (metis find_row_None not_None_eq)
    show ?thesis
    proof (cases "length (filter (\<lambda>x. m_organizationId x = m_organizationId m) (memberships s)) = 1 \<and>
        o_ownerId org = u")
      case False
      with run xs one ne org show ?thesis by (auto simp: throw_def)
    next
      case True
      with run xs one ne org have "r = Inr ()" and
        t: "t = s\<lparr>organizations := delete_row o_id (m_organizationId m) (organizations s),
          memberships := filter (\<lambda>x. m_organizationId x \<noteq> m_organizationId m) (memberships s)\<rparr>"
        by (auto simp: deleteOrganization_def return_def)
      moreover from keep ne t have "belongs t a i" by (auto simp: belongs_def)
      ultimately show ?thesis using drop_solo_org [OF inv one(2,3) _ t] True by simp
    qed
  qed
qed

lemma createMembership_after_drop:
  assumes "org_inv (invalidate u s)" "u \<notin> m_userId ` set (memberships s)" "m_userId m = u"
    "belongs s a (m_organizationId m)" "a \<noteq> u"
  shows "org_inv (invalidate u (snd (createMembership m s)))"
    and "fst (createMembership m s) = Inr m"
proof -
  have same: "createMembership m (invalidate u s) =
      (fst (createMembership m s), invalidate u (snd (createMembership m s)))"
    by (simp add: createMembership_def findMembership_def invalidate_def throw_def return_def)
  from createMembership_inv [OF assms(1), of m] assms(2,3) same
  show "org_inv (invalidate u (snd (createMembership m s)))" by simp
  from assms(1,4) have "m_organizationId m \<in> o_id ` set (organizations s)"
    by (simp add: org_inv_def belongs_def) metis
  moreover from assms(2,3) have "findMembership (m_organizationId m) (m_userId m) s = None"
    by (force simp: findMembership_def find_row_None)
  ultimately show "fst (createMembership m s) = Inr m"
    by (auto simp: createMembership_def find_row_None)
qed


lemma addMemberIn_inv:
  assumes inv: "org_inv s" and bel: "belongs s (c_actorId c) i"
  shows "org_inv (snd (addMemberIn now c i u role s))"
proof -
  let ?rows = "filter (\<lambda>m. m_userId m = u) (memberships s)"
  let ?ex = "map (\<lambda>m. (m, find_row o_id (m_organizationId m) (organizations s))) ?rows"
  show ?thesis
  proof (cases "find (\<lambda>(m, _). m_organizationId m = i) ?ex")
    case (Some p)
    moreover have "org_inv (snd (andThen (updateMembershipRole i u role s)
      (\<lambda>updated s. return (toMemberView updated) (emitEvent now c
         (roleChangedEvent i u (m_role (fst p)) (m_role updated)) (invalidate u s)))))"
      by (rule andThen_keeps [where P = org_inv]) (simp_all add: invalidate_inv updateMembershipRole_inv inv)
    ultimately show ?thesis using inv by (cases p) (simp add: addMemberIn_def Let_def)
  next
    case None
    then have absent: "\<forall>m \<in> set ?rows. m_organizationId m \<noteq> i" by (auto simp: find_None_iff)
    with bel have ne: "c_actorId c \<noteq> u" by (auto simp: belongs_def)
    let ?new = "\<lparr> m_organizationId = i, m_userId = u, m_role = role, m_createdAt = now \<rparr>"
    obtain r t where run: "dropOrphanOrgs u (filter (\<lambda>(m, _). m_organizationId m \<noteq> i) ?ex) s = (r, t)"
      by (cases "dropOrphanOrgs u (filter (\<lambda>(m, _). m_organizationId m \<noteq> i) ?ex) s")
    from dropOrphanOrgs_inv [OF inv refl bel refl absent run]
    consider (ok) "r = Inr ()" "org_inv (invalidate u t)" "u \<notin> m_userId ` set (memberships t)"
        "belongs t (c_actorId c) i"
      | (failed) e where "r = Inl e" "t = s" by blast
    then show ?thesis
    proof cases
      case ok
      from createMembership_after_drop [of u t ?new "c_actorId c"] ok ne
      have "org_inv (invalidate u (snd (createMembership ?new t)))"
        "fst (createMembership ?new t) = Inr ?new" by simp_all
      with ok None run show ?thesis
        by (cases "createMembership ?new t") (simp add: addMemberIn_def Let_def)
    next
      case failed
      with None run inv show ?thesis by (simp add: addMemberIn_def Let_def)
    qed
  qed
qed

lemma requireOrgId_after:
  assumes "org_inv s" "requireOrgId now a s = (Inr i, t)"
  shows "org_inv t \<and> belongs t a i \<and> memberships t = memberships s"
  using requireOrgId_inv [of s now a] requireOrgId_belongs [of s now a i t]
    requireOrgId_frame(8) [of now a s] assms by (simp add: belongs_def)

lemma addMember_inv:
  assumes "org_inv s"
  shows "org_inv (snd (addMember now c target role s))"
  unfolding addMember_def
  by (rule andThen_keeps [where P = org_inv])
    (use assms in \<open>auto simp: Let_def requireOrgId_inv intro!: addMemberIn_inv dest: requireOrgId_after\<close>)

section \<open>Changing and removing\<close>

lemma updateMemberRole_inv:
  assumes "org_inv s"
  shows "org_inv (snd (updateMemberRole now c target role s))"
  unfolding updateMemberRole_def
proof (rule andThen_keeps [where P = org_inv])
  show "org_inv (snd (requireOrgId now (c_actorId c) s))" using assms by (rule requireOrgId_inv)
next
  fix i t assume "org_inv t"
  then show "org_inv (snd (case findMembership i target t of
      None \<Rightarrow> throw (NotFound ''Member not found in this organization'') t
    | Some membership \<Rightarrow>
        andThen (if m_role membership = ADMIN \<and> role = MEMBER then assertNotLastAdmin i t else return () t)
        (\<lambda>_ s. andThen (updateMembershipRole i target role s)
        (\<lambda>updated s. return (toMemberView updated) (emitEvent now c
            (roleChangedEvent i target (m_role membership) (m_role updated)) (invalidate target s))))))"
    by (auto split: option.splits intro!: andThen_keeps [where P = org_inv]
        updateMembershipRole_inv invalidate_inv)
qed

lemma delete_member_inv:
  assumes "org_inv s"
  shows "org_inv (invalidate u (s\<lparr>memberships :=
    delete_row (\<lambda>m. (m_organizationId m, m_userId m)) (i, u) (memberships s)\<rparr>))"
proof (rule org_invI)
  let ?t = "invalidate u (s\<lparr>memberships :=
    delete_row (\<lambda>m. (m_organizationId m, m_userId m)) (i, u) (memberships s)\<rparr>)"
  show "distinct (map m_userId (memberships ?t))"
    using assms by (simp add: org_inv_def delete_row_def distinct_map_filter)
  show "m_organizationId m \<in> o_id ` set (organizations ?t)" if "m \<in> set (memberships ?t)" for m
    using that assms by (simp add: org_inv_def set_delete_row)
  show "belongs ?t a (ce_orgId e)" if "orgCache ?t a = Some e" for a e
    using that assms by (fastforce simp: org_inv_def belongs_def set_delete_row split: if_splits)
qed

lemma removeMember_inv:
  assumes "org_inv s"
  shows "org_inv (snd (removeMember now c target s))"
  unfolding removeMember_def
  by (rule andThen_keeps [where P = org_inv])
    (use assms in \<open>auto simp: requireOrgId_inv delete_member_inv split: option.splits
       intro!: andThen_keeps [where P = org_inv]\<close>)


section \<open>An organization keeps an administrator\<close>

definition has_admin :: "vault \<Rightarrow> string \<Rightarrow> bool" where
  "has_admin s i = (\<exists>m \<in> set (memberships s). m_organizationId m = i \<and> m_role m = ADMIN)"

lemma has_adminI:
  "x \<in> set (memberships s) \<Longrightarrow> m_organizationId x = i \<Longrightarrow> m_role x = ADMIN \<Longrightarrow> has_admin s i"
  by (auto simp: has_admin_def)

lemma adminCount_pos: "0 < adminCount i s \<longleftrightarrow> has_admin s i"
  by (auto simp: adminCount_def has_admin_def filter_empty_conv)

lemma has_admin_cong [simp]:
  "has_admin (emitEvent now c e s) i = has_admin s i"
  "has_admin (invalidate u s) i = has_admin s i"
  "has_admin (snd (requireOrgId now a s)) i = has_admin s i"
  by (simp_all add: has_admin_def)

lemma second_match:
  assumes "distinct (map key xs)" "1 < length (filter P xs)"
  shows "\<exists>y \<in> set xs. P y \<and> key y \<noteq> k"
proof (rule ccontr)
  assume none: "\<not> ?thesis"
  then have all_k: "\<forall>y \<in> set (filter P xs). key y = k" by auto
  have "distinct (map key (filter P xs))" using assms(1) by (rule distinct_map_filter)
  with all_k have "length (filter P xs) \<le> 1"
    by (cases "filter P xs"; cases "tl (filter P xs)") auto
  with assms(2) show False by simp
qed

lemma another_admin:
  assumes "org_inv s" "1 < adminCount i s"
  obtains m where "m \<in> set (memberships s)" "m_organizationId m = i" "m_role m = ADMIN" "m_userId m \<noteq> u"
  using second_match [of m_userId "memberships s" "\<lambda>m. m_organizationId m = i \<and> m_role m = ADMIN" u] assms
  by (auto simp: org_inv_def adminCount_def)

lemma updateMembershipRole_admin:
  assumes inv: "org_inv s" and m: "findMembership i u s = Some m"
    and guard: "m_role m = ADMIN \<and> r = MEMBER \<Longrightarrow> 1 < adminCount i s" and adm: "has_admin s j"
  shows "has_admin (snd (updateMembershipRole i u r s)) j"
proof -
  let ?key = "\<lambda>m. (m_organizationId m, m_userId m)"
  let ?ms = "update_row ?key (i, u) (\<lambda>m. m\<lparr>m_role := r\<rparr>) (memberships s)"
  have st: "memberships (snd (updateMembershipRole i u r s)) = ?ms"
    using m by (simp add: updateMembershipRole_def)
  have kept: "x \<in> set ?ms" if "x \<in> set (memberships s)" "?key x \<noteq> (i, u)" for x
    using that by (auto simp: set_update_row image_iff intro!: bexI [of _ x])
  from m have mm: "m \<in> set (memberships s)" "?key m = (i, u)"
    by (auto simp: findMembership_def dest: find_row_SomeD)
  then have upd: "m\<lparr>m_role := r\<rparr> \<in> set ?ms" by (auto simp: set_update_row image_iff intro!: bexI [of _ m])
  from adm obtain x where x: "x \<in> set (memberships s)" "m_organizationId x = j" "m_role x = ADMIN"
    by (auto simp: has_admin_def)
  show ?thesis
  proof (cases "?key x = (i, u)")
    case False
    show ?thesis by (rule has_adminI [of x]) (use kept [OF x(1) False] x in \<open>simp_all add: st\<close>)
  next
    case True
    from inv x mm True have xm: "x = m"
      by (auto simp: org_inv_def distinct_map inj_on_def)
    show ?thesis
    proof (cases "r = ADMIN")
      case True
      have "m\<lparr>m_role := r\<rparr> \<in> set (memberships (snd (updateMembershipRole i u r s)))"
        unfolding st by (rule upd)
      then show ?thesis by (rule has_adminI) (use xm x True in simp_all)
    next
      case False
      with xm x guard have "1 < adminCount i s" by (cases r) auto
      then obtain y where y: "y \<in> set (memberships s)" "m_organizationId y = i" "m_role y = ADMIN" "m_userId y \<noteq> u"
        by (rule another_admin [OF inv])
      show ?thesis
        by (rule has_adminI [of y]) (use kept [OF y(1)] y True x in \<open>simp_all add: st\<close>)
    qed
  qed
qed

lemma delete_member_admin:
  assumes inv: "org_inv s" and m: "findMembership i u s = Some m"
    and guard: "m_role m = ADMIN \<Longrightarrow> 1 < adminCount i s" and adm: "has_admin s j"
  shows "has_admin (s\<lparr>memberships :=
    delete_row (\<lambda>m. (m_organizationId m, m_userId m)) (i, u) (memberships s)\<rparr>) j"
proof -
  from adm obtain x where x: "x \<in> set (memberships s)" "m_organizationId x = j" "m_role x = ADMIN"
    by (auto simp: has_admin_def)
  show ?thesis
  proof (cases "m_organizationId x = i \<and> m_userId x = u")
    case False
    with x show ?thesis by (auto simp: has_admin_def set_delete_row)
  next
    case True
    from m have "m \<in> set (memberships s)" "m_userId m = u"
      by (auto simp: findMembership_def dest: find_row_SomeD)
    with inv x True have "x = m" by (auto simp: org_inv_def distinct_map inj_on_def)
    with x guard have "1 < adminCount i s" by simp
    then obtain y where "y \<in> set (memberships s)" "m_organizationId y = i" "m_role y = ADMIN" "m_userId y \<noteq> u"
      by (rule another_admin [OF inv])
    with True x show ?thesis by (auto simp: has_admin_def set_delete_row)
  qed
qed

lemma updateMemberRole_keeps_admin:
  assumes "org_inv s" "has_admin s j"
  shows "has_admin (snd (updateMemberRole now c target role s)) j"
  using assms requireOrgId_inv [of s now "c_actorId c"]
  by (cases "requireOrgId now (c_actorId c) s"; cases "fst (requireOrgId now (c_actorId c) s)")
    (auto simp: updateMemberRole_def andThen_snd throw_def assertNotLastAdmin_def
      has_admin_cong(3) [of now "c_actorId c" s, symmetric] split: option.splits sum.splits
      intro!: updateMembershipRole_admin)

lemma removeMember_keeps_admin:
  assumes "org_inv s" "has_admin s j"
  shows "has_admin (snd (removeMember now c target s)) j"
  using assms requireOrgId_inv [of s now "c_actorId c"]
  by (cases "requireOrgId now (c_actorId c) s"; cases "fst (requireOrgId now (c_actorId c) s)")
    (auto simp: removeMember_def andThen_snd throw_def assertNotLastAdmin_def
      has_admin_cong(3) [of now "c_actorId c" s, symmetric] split: option.splits sum.splits
      intro!: delete_member_admin)

end
