(* ===== verification/Grant_Tokens.thy ===== *)
theory Grant_Tokens
  imports Store
begin

text \<open>
  Signed grants. metadata-service signs a download or preview grant
  (\<open>createGrantToken\<close>, \<open>createPreviewGrantToken\<close> in \<open>policy.service.ts\<close>);
  document-service verifies it (\<open>download-grant.util.ts\<close>, \<open>preview-grant.util.ts\<close>).
  SHA-256, HMAC, and the text form of a JSON value in base64url are parameters,
  the fields of \<open>crypto\<close>; nothing is assumed of the digests.
\<close>

record crypto =
  sha256_hex :: "string \<Rightarrow> string"
  hmac_b64 :: "string \<Rightarrow> string \<Rightarrow> string"
  encode_json :: "json \<Rightarrow> string"
  decode_json :: "string \<Rightarrow> json option"

section \<open>Reading a parsed payload\<close>

definition j_field :: "string \<Rightarrow> json \<Rightarrow> json option" where
  "j_field k j = (case j of JObj fs \<Rightarrow> map_of fs k | _ \<Rightarrow> None)"

fun j_truthy :: "json \<Rightarrow> bool" where
  "j_truthy JNull = False"
| "j_truthy (JBool b) = b"
| "j_truthy (JNum n) = (n \<noteq> 0)"
| "j_truthy (JStr cs) = truthy cs"
| "j_truthy (JDate t) = True"
| "j_truthy (JArr js) = True"
| "j_truthy (JObj fs) = True"

definition field_truthy :: "string \<Rightarrow> json \<Rightarrow> bool" where
  "field_truthy k j = (case j_field k j of None \<Rightarrow> False | Some v \<Rightarrow> j_truthy v)"

text \<open>\<open>new Date(v).getTime()\<close>; \<open>None\<close> is \<open>NaN\<close>.\<close>

fun date_ms :: "json option \<Rightarrow> int option" where
  "date_ms (Some (JDate t)) = Some t"
| "date_ms (Some (JNum n)) = Some n"
| "date_ms (Some JNull) = Some 0"
| "date_ms (Some (JBool b)) = Some (if b then 1 else 0)"
| "date_ms _ = None"

section \<open>Signing, in metadata-service\<close>

definition requireEnv :: "(string \<rightharpoonup> string) \<Rightarrow> string \<Rightarrow> error + string" where
  "requireEnv ev name =
     (case ev name of
        None \<Rightarrow> Inl (JsError (name @ '' is required''))
      | Some value \<Rightarrow> if trim value = [] then Inl (JsError (name @ '' is required'')) else Inr value)"

definition getSigningSecret :: "(string \<rightharpoonup> string) \<Rightarrow> string \<Rightarrow> error + (string option \<times> string)" where
  "getSigningSecret ev baseName =
     (let kid = coalesce (map_option trim (ev ''GRANT_TOKEN_CURRENT_KID'')) []
      in if truthy kid
         then (case requireEnv ev (baseName @ ''_'' @ kid) of
                 Inl e \<Rightarrow> Inl e | Inr secret \<Rightarrow> Inr (Some kid, secret))
         else (case requireEnv ev baseName of
                 Inl e \<Rightarrow> Inl e | Inr secret \<Rightarrow> Inr (None, secret)))"

definition signToken :: "crypto \<Rightarrow> (string option \<times> string) \<Rightarrow> fields \<Rightarrow> string" where
  "signToken cr signing payload =
     (let tokenPayload = payload @ j_optional ''kid'' JStr (fst signing);
          encoded = encode_json cr (JObj tokenPayload)
      in encoded @ ''.'' @ hmac_b64 cr (snd signing) encoded)"

definition createGrantToken :: "crypto \<Rightarrow> (string \<rightharpoonup> string) \<Rightarrow> fields \<Rightarrow> error + string" where
  "createGrantToken cr ev payload =
     (case getSigningSecret ev ''DOWNLOAD_GRANT_SECRET'' of
        Inl e \<Rightarrow> Inl e | Inr signing \<Rightarrow> Inr (signToken cr signing payload))"

definition createPreviewGrantToken :: "crypto \<Rightarrow> (string \<rightharpoonup> string) \<Rightarrow> fields \<Rightarrow> error + string" where
  "createPreviewGrantToken cr ev payload =
     (case getSigningSecret ev ''PREVIEW_GRANT_SECRET'' of
        Inl e \<Rightarrow> Inl e | Inr signing \<Rightarrow> Inr (signToken cr signing payload))"

section \<open>Verification, in document-service\<close>

text \<open>The two utilities are the same code but for the secret's name and the messages.\<close>

definition getLegacySecret :: "(string \<rightharpoonup> string) \<Rightarrow> string \<Rightarrow> error + string" where
  "getLegacySecret ev baseName = requireEnv ev baseName"

definition getSecretForKid :: "(string \<rightharpoonup> string) \<Rightarrow> string \<Rightarrow> string \<Rightarrow> json \<Rightarrow> error + string" where
  "getSecretForKid ev baseName label kid =
     (let acceptedKids = List.map_filter (\<lambda>v. case v of None \<Rightarrow> None
            | Some k \<Rightarrow> if truthy (trim k) then Some (JStr k) else None)
            [ev ''GRANT_TOKEN_CURRENT_KID'', ev ''GRANT_TOKEN_PREVIOUS_KID'']
      in if kid \<notin> set acceptedKids then Inl (JsError (label @ '' token kid is not accepted''))
         else (case kid of JStr k \<Rightarrow> requireEnv ev (baseName @ ''_'' @ k)
               | _ \<Rightarrow> Inl (JsError (label @ '' token kid is not accepted''))))"

definition verifyToken ::
  "crypto \<Rightarrow> (string \<rightharpoonup> string) \<Rightarrow> string \<Rightarrow> string \<Rightarrow> int \<Rightarrow> string \<Rightarrow> string \<Rightarrow> error + json" where
  "verifyToken cr ev baseName label now token requestingActorId =
     (let parts = split_on (CHR ''.'') token;
          encodedPayload = coalesce (js_nth parts 0) [];
          signature = coalesce (js_nth parts 1) []
      in if \<not> truthy encodedPayload \<or> \<not> truthy signature
         then Inl (JsError (''Invalid '' @ lower label @ '' token format''))
         else case decode_json cr encodedPayload of
           None \<Rightarrow> Inl (JsError ''Unexpected token in JSON'')
         | Some JNull \<Rightarrow> Inl (JsError ''Cannot read properties of null'')
         | Some payload \<Rightarrow>
             (case (if field_truthy ''kid'' payload
                    then getSecretForKid ev baseName label (the (j_field ''kid'' payload))
                    else getLegacySecret ev baseName) of
                Inl e \<Rightarrow> Inl e
              | Inr secret \<Rightarrow>
                  if signature \<noteq> hmac_b64 cr secret encodedPayload
                  then Inl (JsError (label @ '' token signature mismatch''))
                  else if (case date_ms (j_field ''expiresAt'' payload) of
                             None \<Rightarrow> False | Some t \<Rightarrow> t \<le> now)
                  then Inl (JsError (label @ '' token expired''))
                  else if j_field ''actorId'' payload \<noteq> Some (JStr requestingActorId)
                  then Inl (JsError (label @ '' token actorId mismatch''))
                  else Inr payload))"

definition verifyGrantToken ::
  "crypto \<Rightarrow> (string \<rightharpoonup> string) \<Rightarrow> int \<Rightarrow> string \<Rightarrow> string \<Rightarrow> error + json" where
  "verifyGrantToken cr ev now token actorId =
     verifyToken cr ev ''DOWNLOAD_GRANT_SECRET'' ''Grant'' now token actorId"

definition verifyPreviewGrantToken ::
  "crypto \<Rightarrow> (string \<rightharpoonup> string) \<Rightarrow> int \<Rightarrow> string \<Rightarrow> string \<Rightarrow> error + json" where
  "verifyPreviewGrantToken cr ev now token actorId =
     verifyToken cr ev ''PREVIEW_GRANT_SECRET'' ''Preview grant'' now token actorId"

end
