(* ===== verification/Policy_Service.thy ===== *)
theory Policy_Service
  imports Org_Service Grant_Tokens
begin

text \<open>
  The policy decision point:
  \<open>services/metadata-service/src/policy/policy.service.ts\<close>. Download and preview
  authorizations end in a signed grant; metadata reads end in the document or
  in an audited refusal; the AI guardrails and the access-impact simulation
  report what the same rules would decide.
\<close>

section \<open>ACL matching\<close>

definition getActorGroups :: "service_user \<Rightarrow> request_context \<Rightarrow> string list" where
  "getActorGroups user context =
     normalizeGroups (Some (coalesce (u_groups user) [] @ coalesce (c_groups context) []))"

definition matchesGroupSubject :: "string option \<Rightarrow> string list \<Rightarrow> bool" where
  "matchesGroupSubject subjectId groups =
     (case head_option (normalizeGroups (Some (case subjectId of
          None \<Rightarrow> [] | Some i \<Rightarrow> if truthy i then [i] else []))) of
        None \<Rightarrow> False
      | Some normalizedSubject \<Rightarrow> truthy normalizedSubject \<and> normalizedSubject \<in> set groups)"

definition matchesSubject :: "acl_entry \<Rightarrow> string \<Rightarrow> string list \<Rightarrow> string list \<Rightarrow> bool" where
  "matchesSubject entry actorId roles groups =
     (case a_subjectType entry of
        ALL_SUBJECTS \<Rightarrow> True
      | USER \<Rightarrow> a_subjectId entry = Some actorId
      | ROLE \<Rightarrow> (case a_subjectId entry of None \<Rightarrow> False | Some i \<Rightarrow> truthy i \<and> i \<in> set roles)
      | GROUP \<Rightarrow> matchesGroupSubject (a_subjectId entry) groups)"

definition matchesPreviewAcl ::
  "acl_entry list \<Rightarrow> string \<Rightarrow> string list \<Rightarrow> string list \<Rightarrow> acl_effect \<Rightarrow> bool" where
  "matchesPreviewAcl aclEntries actorId roles groups effect =
     list_ex (\<lambda>entry.
       if a_permission entry \<noteq> READ then False
       else if a_effect entry \<noteq> effect then False
       else matchesSubject entry actorId roles groups) aclEntries"

definition matchesAcl ::
  "acl_entry list \<Rightarrow> string \<Rightarrow> string list \<Rightarrow> string list \<Rightarrow> acl_effect \<Rightarrow> bool" where
  "matchesAcl aclEntries actorId roles groups effect =
     list_ex (\<lambda>entry.
       if a_permission entry \<noteq> DOWNLOAD then False
       else if a_effect entry \<noteq> effect then False
       else matchesSubject entry actorId roles groups) aclEntries"

section \<open>Reasons to refuse\<close>

definition getDeniedReason :: "doc_status \<Rightarrow> string list \<Rightarrow> string option" where
  "getDeniedReason status roles =
     (if ''compliance_officer'' \<in> set roles
      then Some ''Compliance officers are never allowed to download files''
      else if status \<noteq> PUBLISHED then Some ''Only published documents can be downloaded''
      else None)"

definition getPreviewDeniedReason :: "string option" where
  "getPreviewDeniedReason = None"

definition getClassificationDeniedReason ::
  "classification \<Rightarrow> string list \<Rightarrow> string \<Rightarrow> string \<Rightarrow> bool \<Rightarrow> string option" where
  "getClassificationDeniedReason cls roles actorId ownerId hasExplicitAllow =
     (if ''admin'' \<in> set roles then None
      else case cls of
        PUBLIC \<Rightarrow> None
      | INTERNAL \<Rightarrow>
          (if \<not> list_ex (\<lambda>r. r \<in> set [''editor'', ''approver'', ''admin'']) roles
           then Some ''INTERNAL documents require at least the editor role'' else None)
      | CONFIDENTIAL \<Rightarrow>
          (if hasExplicitAllow \<or> actorId = ownerId then None
           else if \<not> list_ex (\<lambda>r. r \<in> set [''editor'', ''approver'', ''admin'']) roles
           then Some ''CONFIDENTIAL documents require at least the editor role''
           else Some ''CONFIDENTIAL documents require explicit ACL grant or document ownership'')
      | SECRET \<Rightarrow>
          (if \<not> list_ex (\<lambda>r. r \<in> set [''approver'', ''admin'']) roles
           then Some ''SECRET documents require at least the approver role''
           else if actorId \<noteq> ownerId \<and> \<not> hasExplicitAllow
           then Some ''SECRET documents require explicit ACL grant or document ownership''
           else None))"

definition getPreviewClassificationDeniedReason ::
  "classification \<Rightarrow> string list \<Rightarrow> string \<Rightarrow> string \<Rightarrow> bool \<Rightarrow> string option" where
  "getPreviewClassificationDeniedReason cls roles actorId ownerId hasExplicitAllow =
     (if ''admin'' \<in> set roles then None
      else if ''approver'' \<in> set roles then None
      else if actorId = ownerId then None
      else getClassificationDeniedReason cls roles actorId ownerId hasExplicitAllow)"

definition getAiContentDeniedReason ::
  "document \<Rightarrow> acl_entry list \<Rightarrow> string list \<Rightarrow> string \<Rightarrow> string list \<Rightarrow> string option" where
  "getAiContentDeniedReason document aclEntries roles actorId groups =
     (if ''compliance_officer'' \<in> set roles
      then Some ''Compliance officers cannot use file content for AI operations''
      else if d_status document = DELETED
      then Some ''Deleted documents cannot be used for AI content operations''
      else if d_currentVersion document < 1 then Some ''Document has no uploaded version''
      else if matchesPreviewAcl aclEntries actorId roles groups DENY
      then Some ''AI content access denied by ACL''
      else getPreviewClassificationDeniedReason (d_classification document) roles actorId
             (d_ownerId document) (matchesPreviewAcl aclEntries actorId roles groups ALLOW))"

section \<open>Share links as grants\<close>

definition resolveShareGrant ::
  "crypto \<Rightarrow> int \<Rightarrow> string \<Rightarrow> string option \<Rightarrow> vault \<Rightarrow> share_permission option" where
  "resolveShareGrant cr now docId shareToken s =
     (case shareToken of
        None \<Rightarrow> None
      | Some token \<Rightarrow>
          if trim token = [] then None
          else case find_row sl_tokenHash (sha256_hex cr token) (shareLinks s) of
            None \<Rightarrow> None
          | Some link \<Rightarrow>
              if sl_docId link \<noteq> docId then None
              else if sl_revokedAt link \<noteq> None then None
              else if sl_expiresAt link \<le> now then None
              else if (case sl_maxAccessCount link of None \<Rightarrow> False
                         | Some m \<Rightarrow> m \<le> sl_accessCount link) then None
              else Some (sl_permission link))"

section \<open>Download and preview\<close>

definition expiresInSeconds :: int where
  "expiresInSeconds = 300"

record preview_grant =
  g_docId :: string
  g_version :: int
  g_objectKey :: string
  g_filename :: string
  g_contentType :: "string option"
  g_expiresInSeconds :: int
  g_expiresAt :: int
  g_classification :: classification
  g_grantToken :: string

record download_grant = preview_grant +
  g_watermarkRequired :: bool

definition downloadPayload :: "string \<Rightarrow> document \<Rightarrow> doc_version \<Rightarrow> int \<Rightarrow> fields" where
  "downloadPayload actorId document versionRecord expiresAt =
     [(''actorId'', JStr actorId), (''docId'', JStr (d_id document)),
      (''version'', JNum (v_version versionRecord)),
      (''objectKey'', JStr (v_objectKey versionRecord)),
      (''filename'', JStr (v_filename versionRecord))] @
     j_optional ''contentType'' JStr (v_contentType versionRecord) @
     [(''expiresAt'', JDate expiresAt),
      (''classification'', JStr (show_classification (d_classification document))),
      (''watermarkRequired'', JBool (CLASSIFICATION_WATERMARK_LEVELS (d_classification document)))]"

definition previewPayload :: "string \<Rightarrow> document \<Rightarrow> doc_version \<Rightarrow> int \<Rightarrow> fields" where
  "previewPayload actorId document versionRecord expiresAt =
     [(''actorId'', JStr actorId), (''docId'', JStr (d_id document)),
      (''version'', JNum (v_version versionRecord)),
      (''objectKey'', JStr (v_objectKey versionRecord)),
      (''filename'', JStr (v_filename versionRecord))] @
     j_optional ''contentType'' JStr (v_contentType versionRecord) @
     [(''expiresAt'', JDate expiresAt),
      (''classification'', JStr (show_classification (d_classification document)))]"

text \<open>
  The rest of \<open>authorizeDownload\<close>, once the document is known: the audit event is
  emitted before the token is signed, so a missing signing secret fails after it.
\<close>

definition issueDownload :: "crypto \<Rightarrow> int \<Rightarrow> request_context \<Rightarrow> string \<Rightarrow> string list \<Rightarrow> string list \<Rightarrow>
  int \<Rightarrow> document \<Rightarrow> doc_version \<Rightarrow> vault \<Rightarrow> (download_grant, vault) outcome" where
  "issueDownload cr now context actorId roles groups requestedVersion document versionRecord s =
     (let expiresAt = now + expiresInSeconds * 1000;
          s' = emitEvent now context \<lparr>
            ap_action = ''DOCUMENT_DOWNLOAD_AUTHORIZED'', ap_resourceType = ''DOCUMENT'',
            ap_resourceId = Some (d_id document), ap_result = ''SUCCESS'', ap_reason = None,
            ap_metadata = [(''docId'', JStr (d_id document)), (''title'', JNull),
              (''classification'', JStr (show_classification (d_classification document))),
              (''status'', JStr (show_status (d_status document))),
              (''version'', JNum requestedVersion),
              (''objectKey'', JStr (v_objectKey versionRecord)),
              (''filename'', JStr (v_filename versionRecord)),
              (''contentType'', j_nullable JStr (v_contentType versionRecord)),
              (''fileSize'', JNum (v_size versionRecord)),
              (''checksum'', JStr (v_checksum versionRecord)),
              (''actorId'', JStr actorId), (''roles'', j_strs roles), (''groups'', j_strs groups),
              (''expiresAt'', JDate expiresAt)] \<rparr> s
      in case createGrantToken cr (env s') (downloadPayload actorId document versionRecord expiresAt) of
           Inl e \<Rightarrow> throw e s'
         | Inr token \<Rightarrow> return \<lparr> g_docId = d_id document, g_version = v_version versionRecord,
             g_objectKey = v_objectKey versionRecord, g_filename = v_filename versionRecord,
             g_contentType = v_contentType versionRecord, g_expiresInSeconds = expiresInSeconds,
             g_expiresAt = expiresAt, g_classification = d_classification document,
             g_grantToken = token,
             g_watermarkRequired = CLASSIFICATION_WATERMARK_LEVELS (d_classification document) \<rparr> s')"

definition authorizeDownload :: "crypto \<Rightarrow> int \<Rightarrow> string \<Rightarrow> int option \<Rightarrow> service_user \<Rightarrow> request_context \<Rightarrow>
  string option \<Rightarrow> vault \<Rightarrow> (download_grant, vault) outcome" where
  "authorizeDownload cr now docId version user context shareToken s =
     andThen (findInOrgOrThrow now (c_actorId context) docId s) (\<lambda>document s.
       let aclEntries = aclEntriesOf docId s;
           shareAllowsDownload = (resolveShareGrant cr now docId shareToken s = Some SHARE_DOWNLOAD);
           actorId = buildActorId user;
           roles = coalesce (u_roles user) [];
           groups = getActorGroups user context;
           requestedVersion = coalesce version (d_currentVersion document);
           deniedReason = getDeniedReason (d_status document) roles
       in if requestedVersion < 1 then throw (Forbidden ''Document has no uploaded version'') s
          else case findVersion docId requestedVersion s of
            None \<Rightarrow> throw (NotFound ''Document version not found'') s
          | Some versionRecord \<Rightarrow>
              (case deniedReason of
                 Some reason \<Rightarrow> throw (Forbidden reason) s
               | None \<Rightarrow>
                   if shareAllowsDownload
                   then issueDownload cr now context actorId roles groups requestedVersion
                          document versionRecord s
                   else if matchesAcl aclEntries actorId roles groups DENY
                   then throw (Forbidden ''Download denied by ACL'') s
                   else case getClassificationDeniedReason (d_classification document) roles actorId
                               (d_ownerId document) (matchesAcl aclEntries actorId roles groups ALLOW) of
                     Some classificationReason \<Rightarrow> throw (Forbidden classificationReason) s
                   | None \<Rightarrow> issueDownload cr now context actorId roles groups requestedVersion
                               document versionRecord s))"

definition issuePreview :: "crypto \<Rightarrow> int \<Rightarrow> request_context \<Rightarrow> string \<Rightarrow> string list \<Rightarrow> string list \<Rightarrow>
  int \<Rightarrow> document \<Rightarrow> doc_version \<Rightarrow> vault \<Rightarrow> (preview_grant, vault) outcome" where
  "issuePreview cr now context actorId roles groups requestedVersion document versionRecord s =
     (let expiresAt = now + expiresInSeconds * 1000;
          s' = emitEvent now context \<lparr>
            ap_action = ''DOCUMENT_PREVIEW_AUTHORIZED'', ap_resourceType = ''DOCUMENT'',
            ap_resourceId = Some (d_id document), ap_result = ''SUCCESS'', ap_reason = None,
            ap_metadata = [(''docId'', JStr (d_id document)),
              (''classification'', JStr (show_classification (d_classification document))),
              (''status'', JStr (show_status (d_status document))),
              (''version'', JNum requestedVersion),
              (''filename'', JStr (v_filename versionRecord)),
              (''contentType'', j_nullable JStr (v_contentType versionRecord)),
              (''actorId'', JStr actorId), (''roles'', j_strs roles), (''groups'', j_strs groups),
              (''expiresAt'', JDate expiresAt)] \<rparr> s
      in case createPreviewGrantToken cr (env s') (previewPayload actorId document versionRecord expiresAt) of
           Inl e \<Rightarrow> throw e s'
         | Inr token \<Rightarrow> return \<lparr> g_docId = d_id document, g_version = v_version versionRecord,
             g_objectKey = v_objectKey versionRecord, g_filename = v_filename versionRecord,
             g_contentType = v_contentType versionRecord, g_expiresInSeconds = expiresInSeconds,
             g_expiresAt = expiresAt, g_classification = d_classification document,
             g_grantToken = token \<rparr> s')"

definition authorizePreview :: "crypto \<Rightarrow> int \<Rightarrow> string \<Rightarrow> int option \<Rightarrow> service_user \<Rightarrow> request_context \<Rightarrow>
  string option \<Rightarrow> vault \<Rightarrow> (preview_grant, vault) outcome" where
  "authorizePreview cr now docId version user context shareToken s =
     andThen (findInOrgOrThrow now (c_actorId context) docId s) (\<lambda>document s.
       let aclEntries = aclEntriesOf docId s;
           shareAllowsPreview = (resolveShareGrant cr now docId shareToken s \<in> {Some VIEW, Some SHARE_DOWNLOAD});
           actorId = buildActorId user;
           roles = coalesce (u_roles user) [];
           groups = getActorGroups user context;
           requestedVersion = coalesce version (d_currentVersion document)
       in if ''compliance_officer'' \<in> set roles
          then throw (Forbidden ''Compliance officers are not allowed to preview file content'') s
          else if requestedVersion < 1 then throw (Forbidden ''Document has no uploaded version'') s
          else case findVersion docId requestedVersion s of
            None \<Rightarrow> throw (NotFound ''Document version not found'') s
          | Some versionRecord \<Rightarrow>
              (case getPreviewDeniedReason of
                 Some reason \<Rightarrow> throw (Forbidden reason) s
               | None \<Rightarrow>
                   if shareAllowsPreview
                   then issuePreview cr now context actorId roles groups requestedVersion
                          document versionRecord s
                   else if matchesPreviewAcl aclEntries actorId roles groups DENY
                   then throw (Forbidden ''Preview denied by ACL'') s
                   else case getPreviewClassificationDeniedReason (d_classification document) roles actorId
                               (d_ownerId document)
                               (matchesPreviewAcl aclEntries actorId roles groups ALLOW) of
                     Some classificationReason \<Rightarrow> throw (Forbidden classificationReason) s
                   | None \<Rightarrow> issuePreview cr now context actorId roles groups requestedVersion
                               document versionRecord s))"

section \<open>Metadata reads\<close>

definition SHARE_LINK_RECIPIENT_ROLES :: "string list" where
  "SHARE_LINK_RECIPIENT_ROLES = [''viewer'', ''editor'', ''approver'', ''admin'']"

definition denyMetadataRead :: "int \<Rightarrow> request_context \<Rightarrow> string \<Rightarrow> string list \<Rightarrow> string list \<Rightarrow>
  document \<Rightarrow> string \<Rightarrow> vault \<Rightarrow> (document, vault) outcome" where
  "denyMetadataRead now context actorId roles groups document reason s =
     throw (Forbidden reason) (emitEvent now context \<lparr>
       ap_action = ''DOCUMENT_METADATA_READ_DENIED'', ap_resourceType = ''DOCUMENT'',
       ap_resourceId = Some (d_id document), ap_result = ''DENY'', ap_reason = Some reason,
       ap_metadata = [(''docId'', JStr (d_id document)),
         (''classification'', JStr (show_classification (d_classification document))),
         (''status'', JStr (show_status (d_status document))),
         (''actorId'', JStr actorId), (''roles'', j_strs roles), (''groups'', j_strs groups)] \<rparr> s)"

text \<open>
  The decision of \<open>assertCanReadMetadata\<close> once the share grant is known: \<open>None\<close>
  lets the read through, \<open>Some reason\<close> is the audited refusal.
\<close>

definition metadataReadReason ::
  "bool \<Rightarrow> acl_entry list \<Rightarrow> string \<Rightarrow> string list \<Rightarrow> string list \<Rightarrow> document \<Rightarrow> string option" where
  "metadataReadReason shareAllowsMetadata aclEntries actorId roles groups document =
     (if shareAllowsMetadata then None
      else if matchesPreviewAcl aclEntries actorId roles groups DENY
      then Some ''Metadata read denied by ACL''
      else if ''admin'' \<in> set roles then None
      else
        let hasExplicitReadAllow = matchesPreviewAcl aclEntries actorId roles groups ALLOW;
            hasExplicitDownloadAllow = matchesAcl aclEntries actorId roles groups ALLOW
        in if actorId = d_ownerId document \<or> hasExplicitReadAllow \<or> hasExplicitDownloadAllow then None
           else if ''compliance_officer'' \<in> set roles
           then (if d_status document \<in> {PUBLISHED, ARCHIVED} then None
                 else Some ''Compliance officers can only read published or archived metadata'')
           else if ''approver'' \<in> set roles
           then (if d_status document \<in> {PENDING, PUBLISHED, ARCHIVED} then None
                 else Some ''Approvers can only read pending, published, or archived metadata'')
           else if d_status document \<notin> {PUBLISHED, ARCHIVED}
           then Some ''Only published or archived documents are readable by this user''
           else if d_classification document = PUBLIC then None
           else if d_classification document = INTERNAL \<and> list_ex (\<lambda>role. role \<in> set [''editor'']) roles
           then None
           else if d_classification document = CONFIDENTIAL \<and> ''editor'' \<in> set roles \<and> hasExplicitReadAllow
           then None
           else Some ''Metadata read denied by classification policy'')"

definition assertCanReadMetadata :: "crypto \<Rightarrow> int \<Rightarrow> string \<Rightarrow> service_user \<Rightarrow> request_context \<Rightarrow>
  string option \<Rightarrow> vault \<Rightarrow> (document, vault) outcome" where
  "assertCanReadMetadata cr now docId user context shareToken s =
     andThen (findInOrgOrThrow now (c_actorId context) docId s) (\<lambda>document s.
       if d_status document = DELETED then throw (NotFound ''Document not found'') s
       else let
           actorId = buildActorId user;
           roles = coalesce (u_roles user) (c_roles context);
           groups = getActorGroups user context;
           shareGrant = resolveShareGrant cr now docId shareToken s;
           shareAllowsMetadata = (shareGrant \<in> {Some VIEW, Some SHARE_DOWNLOAD}
             \<and> list_ex (\<lambda>role. role \<in> set SHARE_LINK_RECIPIENT_ROLES) roles)
         in case metadataReadReason shareAllowsMetadata (aclEntriesOf docId s) actorId roles groups document of
              None \<Rightarrow> return document s
            | Some reason \<Rightarrow> denyMetadataRead now context actorId roles groups document reason s)"

section \<open>AI guardrails\<close>

datatype ai_operation =
  METADATA_CLASSIFICATION | METADATA_TAGGING | CONTENT_SUMMARIZATION | CONTENT_QA

fun show_ai_operation :: "ai_operation \<Rightarrow> string" where
  "show_ai_operation METADATA_CLASSIFICATION = ''METADATA_CLASSIFICATION''"
| "show_ai_operation METADATA_TAGGING = ''METADATA_TAGGING''"
| "show_ai_operation CONTENT_SUMMARIZATION = ''CONTENT_SUMMARIZATION''"
| "show_ai_operation CONTENT_QA = ''CONTENT_QA''"

record ai_guardrails =
  ai_documentId :: string
  ai_actorId :: string
  ai_classification :: classification
  ai_status :: doc_status
  ai_canUseMetadata :: bool
  ai_canUseContent :: bool
  ai_allowedOperations :: "ai_operation list"
  ai_deniedOperations :: "(ai_operation \<times> string) list"
  ai_guardrails_text :: "string list"

definition getAiGuardrails :: "crypto \<Rightarrow> int \<Rightarrow> string \<Rightarrow> service_user \<Rightarrow> request_context \<Rightarrow>
  vault \<Rightarrow> (ai_guardrails, vault) outcome" where
  "getAiGuardrails cr now docId user context s =
     andThen (assertCanReadMetadata cr now docId user context None s) (\<lambda>document s.
       let actorId = buildActorId user;
           roles = coalesce (u_roles user) (c_roles context);
           groups = getActorGroups user context;
           contentDeniedReason =
             getAiContentDeniedReason document (aclEntriesOf docId s) roles actorId groups;
           allowedOperations = [METADATA_CLASSIFICATION, METADATA_TAGGING] @
             (case contentDeniedReason of None \<Rightarrow> [CONTENT_SUMMARIZATION, CONTENT_QA] | Some _ \<Rightarrow> []);
           deniedOperations = (case contentDeniedReason of None \<Rightarrow> []
             | Some reason \<Rightarrow> [(CONTENT_SUMMARIZATION, reason), (CONTENT_QA, reason)]);
           result = \<lparr> ai_documentId = docId, ai_actorId = actorId,
             ai_classification = d_classification document, ai_status = d_status document,
             ai_canUseMetadata = True, ai_canUseContent = (contentDeniedReason = None),
             ai_allowedOperations = allowedOperations, ai_deniedOperations = deniedOperations,
             ai_guardrails_text = [
               ''Build AI context only after metadata policy allows the document.'',
               ''Never include file content when canUseContent is false.'',
               ''Do not expose object keys, presigned URLs, preview grants, or download grants to AI prompts.'',
               ''AI answers must carry an audit event before they are shown to users.''] \<rparr>
       in return result
            (if deniedOperations = [] then s
             else emitEvent now context \<lparr>
               ap_action = ''AI_GUARDRAILS_EVALUATED'', ap_resourceType = ''DOCUMENT'',
               ap_resourceId = Some docId, ap_result = ''SUCCESS'', ap_reason = None,
               ap_metadata = [(''docId'', JStr docId), (''actorId'', JStr actorId),
                 (''roles'', j_strs roles), (''groups'', j_strs groups),
                 (''classification'', JStr (show_classification (d_classification document))),
                 (''status'', JStr (show_status (d_status document))),
                 (''canUseContent'', JBool (contentDeniedReason = None)),
                 (''allowedOperations'', j_strs (map show_ai_operation allowedOperations)),
                 (''deniedOperations'', JArr (map (\<lambda>(operation, reason).
                    JObj [(''operation'', JStr (show_ai_operation operation)), (''reason'', JStr reason)])
                    deniedOperations))] \<rparr> s))"

section \<open>Access-impact simulation\<close>

datatype simulated_role = VIEWER | EDITOR | APPROVER | COMPLIANCE_OFFICER | ADMINISTRATOR

fun show_role :: "simulated_role \<Rightarrow> string" where
  "show_role VIEWER = ''viewer''"
| "show_role EDITOR = ''editor''"
| "show_role APPROVER = ''approver''"
| "show_role COMPLIANCE_OFFICER = ''compliance_officer''"
| "show_role ADMINISTRATOR = ''admin''"

definition SIMULATED_ROLES :: "simulated_role list" where
  "SIMULATED_ROLES = [VIEWER, EDITOR, APPROVER, COMPLIANCE_OFFICER, ADMINISTRATOR]"

definition canBaselineReadMetadata :: "doc_status \<Rightarrow> classification \<Rightarrow> simulated_role \<Rightarrow> bool" where
  "canBaselineReadMetadata status cls role =
     (if role = ADMINISTRATOR then True
      else if role = COMPLIANCE_OFFICER then status \<in> {PUBLISHED, ARCHIVED}
      else if role = APPROVER then status \<in> {PENDING, PUBLISHED, ARCHIVED}
      else if status \<notin> {PUBLISHED, ARCHIVED} then False
      else if cls = PUBLIC then True
      else if cls = INTERNAL then role = EDITOR
      else False)"

definition canBaselineDownload :: "doc_status \<Rightarrow> classification \<Rightarrow> simulated_role \<Rightarrow> bool" where
  "canBaselineDownload status cls role =
     (let roles = [show_role role]
      in case getDeniedReason status roles of
           Some _ \<Rightarrow> False
         | None \<Rightarrow> getClassificationDeniedReason cls roles (''simulation:'' @ show_role role)
                     ''simulation:owner'' False = None)"

record impact =
  im_current :: bool
  im_proposed :: bool

record role_impact =
  ri_role :: simulated_role
  ri_metadata :: impact
  ri_download :: impact
  ri_notes :: "string list"

definition buildImpactNotes :: "simulated_role \<Rightarrow> string \<Rightarrow> impact \<Rightarrow> string list" where
  "buildImpactNotes role label i =
     (if \<not> im_current i \<and> im_proposed i
      then [label @ '' becomes allowed for baseline '' @ show_role role @ '' role.'']
      else if im_current i \<and> \<not> im_proposed i
      then [label @ '' becomes denied for baseline '' @ show_role role @ '' role.'']
      else [])"

definition buildRoleImpact ::
  "simulated_role \<Rightarrow> doc_status \<Rightarrow> classification \<Rightarrow> classification \<Rightarrow> role_impact" where
  "buildRoleImpact role status currentClassification proposedClassification =
     (let metadata = \<lparr> im_current = canBaselineReadMetadata status currentClassification role,
                       im_proposed = canBaselineReadMetadata status proposedClassification role \<rparr>;
          download = \<lparr> im_current = canBaselineDownload status currentClassification role,
                       im_proposed = canBaselineDownload status proposedClassification role \<rparr>
      in \<lparr> ri_role = role, ri_metadata = metadata, ri_download = download,
           ri_notes = buildImpactNotes role ''Metadata'' metadata @
                      buildImpactNotes role ''Download'' download \<rparr>)"

record access_impact_state =
  as_classification :: classification
  as_status :: doc_status
  as_watermarkRequired :: bool

definition buildAccessImpactState :: "doc_status \<Rightarrow> classification \<Rightarrow> access_impact_state" where
  "buildAccessImpactState status cls = \<lparr> as_classification = cls, as_status = status,
     as_watermarkRequired = CLASSIFICATION_WATERMARK_LEVELS cls \<rparr>"

record impact_changes =
  ch_accessExpanded :: bool
  ch_accessReduced :: bool
  ch_watermarkReduced :: bool
  ch_dlpOverrideRequired :: bool
  ch_warnings :: "string list"

record access_impact =
  ac_documentId :: string
  ac_current :: access_impact_state
  ac_proposed :: access_impact_state
  ac_changes :: impact_changes
  ac_roleImpacts :: "role_impact list"
  ac_guardrails :: "string list"

definition accessCount :: "(impact \<Rightarrow> bool) \<Rightarrow> role_impact list \<Rightarrow> nat" where
  "accessCount side impacts =
     fold (\<lambda>i count. count + of_bool (side (ri_metadata i)) + of_bool (side (ri_download i))) impacts 0"

definition impactChanges :: "document \<Rightarrow> classification \<Rightarrow> role_impact list \<Rightarrow> impact_changes" where
  "impactChanges document proposedClassification roleImpacts =
     (let current = buildAccessImpactState (d_status document) (d_classification document);
          proposed = buildAccessImpactState (d_status document) proposedClassification;
          currentAccessCount = accessCount im_current roleImpacts;
          proposedAccessCount = accessCount im_proposed roleImpacts;
          accessExpanded = currentAccessCount < proposedAccessCount;
          accessReduced = proposedAccessCount < currentAccessCount;
          watermarkReduced = as_watermarkRequired current \<and> \<not> as_watermarkRequired proposed;
          dlpOverrideRequired = d_dlpStatus document = ''DETECTED''
            \<and> proposedClassification \<in> {PUBLIC, INTERNAL}
      in \<lparr> ch_accessExpanded = accessExpanded, ch_accessReduced = accessReduced,
           ch_watermarkReduced = watermarkReduced, ch_dlpOverrideRequired = dlpOverrideRequired,
           ch_warnings =
             (if accessExpanded then [''Proposed classification expands baseline access.''] else []) @
             (if accessReduced then [''Proposed classification reduces baseline access.''] else []) @
             (if watermarkReduced then [''Watermarking would no longer be required.''] else []) @
             (if dlpOverrideRequired
              then [''DLP-detected downgrade requires admin override reason.''] else []) \<rparr>)"

definition getAccessImpactPreview :: "crypto \<Rightarrow> int \<Rightarrow> string \<Rightarrow> classification option \<Rightarrow> service_user \<Rightarrow>
  request_context \<Rightarrow> vault \<Rightarrow> (access_impact, vault) outcome" where
  "getAccessImpactPreview cr now docId dtoClassification user context s =
     (case dtoClassification of
        None \<Rightarrow> throw (BadRequest ''classification is required for access impact preview'') s
      | Some proposedClassification \<Rightarrow>
          andThen (assertCanReadMetadata cr now docId user context None s) (\<lambda>document s.
            let actorId = buildActorId user;
                roles = coalesce (u_roles user) (c_roles context)
            in if ''admin'' \<notin> set roles
                   \<and> (actorId \<noteq> d_ownerId document \<or> ''editor'' \<notin> set roles)
               then throw (Forbidden ''Only the owner editor or admin can simulate access impact'') s
               else let
                   roleImpacts = map (\<lambda>role. buildRoleImpact role (d_status document)
                     (d_classification document) proposedClassification) SIMULATED_ROLES;
                   changes = impactChanges document proposedClassification roleImpacts
                 in return \<lparr> ac_documentId = docId,
                      ac_current = buildAccessImpactState (d_status document) (d_classification document),
                      ac_proposed = buildAccessImpactState (d_status document) proposedClassification,
                      ac_changes = changes, ac_roleImpacts = roleImpacts,
                      ac_guardrails = [
                        ''This is a policy simulation only; backend authorization remains authoritative.'',
                        ''Baseline role impact does not enumerate real users or expose file content.'',
                        ''ACL DENY entries and final mutation guards still apply at execution time.''] \<rparr>
                    (emitEvent now context \<lparr>
                      ap_action = ''DOCUMENT_ACCESS_IMPACT_SIMULATED'', ap_resourceType = ''DOCUMENT'',
                      ap_resourceId = Some docId, ap_result = ''SUCCESS'', ap_reason = None,
                      ap_metadata = [(''docId'', JStr docId), (''actorId'', JStr actorId),
                        (''roles'', j_strs roles),
                        (''currentClassification'', JStr (show_classification (d_classification document))),
                        (''proposedClassification'', JStr (show_classification proposedClassification)),
                        (''changes'', JObj [
                          (''accessExpanded'', JBool (ch_accessExpanded changes)),
                          (''accessReduced'', JBool (ch_accessReduced changes)),
                          (''watermarkReduced'', JBool (ch_watermarkReduced changes)),
                          (''dlpOverrideRequired'', JBool (ch_dlpOverrideRequired changes)),
                          (''warnings'', j_strs (ch_warnings changes))])] \<rparr> s)))"

end
