(* ===== verification/Policy_Lemmas.thy ===== *)
theory Policy_Lemmas
  imports Policy_Service
begin

text \<open>
  What the policy decisions mean, stated independently of the order in which the
  code tests them, and the frame of the policy handlers.
\<close>

section \<open>Declarative rules\<close>

definition clearance :: "classification \<Rightarrow> string set \<Rightarrow> bool \<Rightarrow> bool \<Rightarrow> bool" where
  "clearance cls roles owner allowed =
     (''admin'' \<in> roles \<or>
      (case cls of
         PUBLIC \<Rightarrow> True
       | INTERNAL \<Rightarrow> ''editor'' \<in> roles \<or> ''approver'' \<in> roles
       | CONFIDENTIAL \<Rightarrow> owner \<or> allowed
       | SECRET \<Rightarrow> ''approver'' \<in> roles \<and> (owner \<or> allowed)))"

lemma classification_clearance:
  "getClassificationDeniedReason cls roles a own al = None \<longleftrightarrow> clearance cls (set roles) (a = own) al"
  by (cases cls) (auto simp: getClassificationDeniedReason_def clearance_def list_ex_iff)

lemma preview_clearance:
  "getPreviewClassificationDeniedReason cls roles a own al = None \<longleftrightarrow>
     ''approver'' \<in> set roles \<or> a = own \<or> clearance cls (set roles) (a = own) al"
  by (auto simp: getPreviewClassificationDeniedReason_def classification_clearance)
    (auto simp: clearance_def)

definition acl_rule :: "vault \<Rightarrow> string \<Rightarrow> permission \<Rightarrow> acl_effect \<Rightarrow> string \<Rightarrow> string list \<Rightarrow> string list \<Rightarrow> bool" where
  "acl_rule s docId p e actorId roles groups =
     (\<exists>a \<in> set (acls s). a_docId a = docId \<and> a_permission a = p \<and> a_effect a = e
        \<and> matchesSubject a actorId roles groups)"

lemma matchesAcl_rule:
  "matchesAcl (aclEntriesOf i s) a rs gs e \<longleftrightarrow> acl_rule s i DOWNLOAD e a rs gs"
  by (auto simp: matchesAcl_def acl_rule_def aclEntriesOf_def list_ex_iff)

lemma matchesPreviewAcl_rule:
  "matchesPreviewAcl (aclEntriesOf i s) a rs gs e \<longleftrightarrow> acl_rule s i READ e a rs gs"
  by (auto simp: matchesPreviewAcl_def acl_rule_def aclEntriesOf_def list_ex_iff)

lemmas acl_rules = matchesAcl_rule matchesPreviewAcl_rule

definition download_permitted :: "crypto \<Rightarrow> int \<Rightarrow> int option \<Rightarrow> service_user \<Rightarrow> request_context \<Rightarrow>
  string option \<Rightarrow> document \<Rightarrow> vault \<Rightarrow> bool" where
  "download_permitted cr now version user context shareToken d s =
     (let actorId = buildActorId user; roles = coalesce (u_roles user) [];
          groups = getActorGroups user context; n = coalesce version (d_currentVersion d)
      in ''compliance_officer'' \<notin> set roles \<and> d_status d = PUBLISHED
         \<and> 1 \<le> n \<and> findVersion (d_id d) n s \<noteq> None
         \<and> (resolveShareGrant cr now (d_id d) shareToken s = Some SHARE_DOWNLOAD
            \<or> \<not> acl_rule s (d_id d) DOWNLOAD DENY actorId roles groups
              \<and> clearance (d_classification d) (set roles) (actorId = d_ownerId d)
                  (acl_rule s (d_id d) DOWNLOAD ALLOW actorId roles groups)))"

definition preview_permitted :: "crypto \<Rightarrow> int \<Rightarrow> int option \<Rightarrow> service_user \<Rightarrow> request_context \<Rightarrow>
  string option \<Rightarrow> document \<Rightarrow> vault \<Rightarrow> bool" where
  "preview_permitted cr now version user context shareToken d s =
     (let actorId = buildActorId user; roles = coalesce (u_roles user) [];
          groups = getActorGroups user context; n = coalesce version (d_currentVersion d)
      in ''compliance_officer'' \<notin> set roles
         \<and> 1 \<le> n \<and> findVersion (d_id d) n s \<noteq> None
         \<and> (resolveShareGrant cr now (d_id d) shareToken s \<noteq> None
            \<or> \<not> acl_rule s (d_id d) READ DENY actorId roles groups
              \<and> (''approver'' \<in> set roles \<or> actorId = d_ownerId d
                 \<or> clearance (d_classification d) (set roles) (actorId = d_ownerId d)
                     (acl_rule s (d_id d) READ ALLOW actorId roles groups))))"

definition metadata_readable :: "bool \<Rightarrow> string \<Rightarrow> string list \<Rightarrow> string list \<Rightarrow> document \<Rightarrow> vault \<Rightarrow> bool" where
  "metadata_readable shared actorId roles groups d s =
     (shared \<or>
      \<not> acl_rule s (d_id d) READ DENY actorId roles groups \<and>
      (''admin'' \<in> set roles \<or> actorId = d_ownerId d
       \<or> acl_rule s (d_id d) READ ALLOW actorId roles groups
       \<or> acl_rule s (d_id d) DOWNLOAD ALLOW actorId roles groups
       \<or> d_status d \<in> {PUBLISHED, ARCHIVED}
           \<and> (''compliance_officer'' \<in> set roles \<or> ''approver'' \<in> set roles
              \<or> d_classification d = PUBLIC
              \<or> d_classification d = INTERNAL \<and> ''editor'' \<in> set roles)
       \<or> d_status d = PENDING \<and> ''approver'' \<in> set roles \<and> ''compliance_officer'' \<notin> set roles))"

lemma metadataReadReason_readable:
  "metadataReadReason shared (aclEntriesOf (d_id d) s) a rs gs d = None \<longleftrightarrow>
     metadata_readable shared a rs gs d s"
  by (auto simp: metadataReadReason_def metadata_readable_def acl_rules Let_def list_ex_iff)

section \<open>Frames\<close>

lemma resolveShareGrant_cong:
  "shareLinks t = shareLinks s \<Longrightarrow> resolveShareGrant cr now i tok t = resolveShareGrant cr now i tok s"
  by (cases tok) (simp_all add: resolveShareGrant_def)

lemma findVersion_cong: "versions t = versions s \<Longrightarrow> findVersion i n t = findVersion i n s"
  by (simp add: findVersion_def)

lemma acl_rule_cong: "acls t = acls s \<Longrightarrow> acl_rule t i p e a rs gs = acl_rule s i p e a rs gs"
  by (simp add: acl_rule_def)

lemma aclEntriesOf_cong: "acls t = acls s \<Longrightarrow> aclEntriesOf i t = aclEntriesOf i s"
  by (simp add: aclEntriesOf_def)

lemma download_permitted_cong:
  "only_logs s t \<Longrightarrow> download_permitted cr now v u c tok d t = download_permitted cr now v u c tok d s"
  by (simp add: download_permitted_def only_logs_def resolveShareGrant_cong [of t s]
      findVersion_cong [of t s] acl_rule_cong [of t s])

lemma preview_permitted_cong:
  "only_logs s t \<Longrightarrow> preview_permitted cr now v u c tok d t = preview_permitted cr now v u c tok d s"
  by (simp add: preview_permitted_def only_logs_def resolveShareGrant_cong [of t s]
      findVersion_cong [of t s] acl_rule_cong [of t s])

lemma issueDownload_logs: "only_logs s (snd (issueDownload cr now c a rs gs n d v s))"
  by (auto simp: issueDownload_def Let_def split: sum.splits)

lemma issuePreview_logs: "only_logs s (snd (issuePreview cr now c a rs gs n d v s))"
  by (auto simp: issuePreview_def Let_def split: sum.splits)

lemma denyMetadataRead_logs: "only_logs s (snd (denyMetadataRead now c a rs gs d r s))"
  by (simp add: denyMetadataRead_def)

lemma authorizeDownload_logs: "only_logs s (snd (authorizeDownload cr now i v u c tok s))"
  unfolding authorizeDownload_def
  by (rule only_logs_andThen [OF only_logs_findInOrgOrThrow])
    (auto simp: Let_def issueDownload_logs split: option.splits)

lemma authorizePreview_logs: "only_logs s (snd (authorizePreview cr now i v u c tok s))"
  unfolding authorizePreview_def
  by (rule only_logs_andThen [OF only_logs_findInOrgOrThrow])
    (auto simp: Let_def issuePreview_logs split: option.splits)

lemma assertCanReadMetadata_logs: "only_logs s (snd (assertCanReadMetadata cr now i u c tok s))"
  unfolding assertCanReadMetadata_def
  by (rule only_logs_andThen [OF only_logs_findInOrgOrThrow])
    (auto simp: Let_def denyMetadataRead_logs split: option.splits)

lemma getAiGuardrails_logs: "only_logs s (snd (getAiGuardrails cr now i u c s))"
  unfolding getAiGuardrails_def
  by (rule only_logs_andThen [OF assertCanReadMetadata_logs]) (auto simp: Let_def)

lemma getAccessImpactPreview_logs: "only_logs s (snd (getAccessImpactPreview cr now i dc u c s))"
  by (auto simp: getAccessImpactPreview_def Let_def split: option.splits
      intro!: only_logs_andThen [OF assertCanReadMetadata_logs])

section \<open>Signing\<close>

definition can_sign :: "(string \<rightharpoonup> string) \<Rightarrow> string \<Rightarrow> bool" where
  "can_sign ev baseName = (case getSigningSecret ev baseName of Inl _ \<Rightarrow> False | Inr _ \<Rightarrow> True)"

lemma issueDownload_ok:
  "succeeds (issueDownload cr now c a rs gs n d v s) \<longleftrightarrow>
     can_sign (env s) ''DOWNLOAD_GRANT_SECRET''"
  by (auto simp: issueDownload_def can_sign_def createGrantToken_def Let_def split: sum.splits)

lemma issuePreview_ok:
  "succeeds (issuePreview cr now c a rs gs n d v s) \<longleftrightarrow>
     can_sign (env s) ''PREVIEW_GRANT_SECRET''"
  by (auto simp: issuePreview_def can_sign_def createPreviewGrantToken_def Let_def split: sum.splits)

end
