(* ===== verification/Sample_Vault.thy ===== *)
theory Sample_Vault
  imports Policy_Service
begin

text \<open>
  One small concrete vault, on which the witnesses evaluate the handlers: an
  organization with an owner editor (alice), a viewer (bob), an approver
  (carol), a compliance officer (dave) and an administrator (root); a published
  confidential document, a pending internal one and a document of another
  organization; ACL rules and a share link.
\<close>

definition blank_document :: document where
  "blank_document = \<lparr> d_id = ''d0'', d_organizationId = ''o1'', d_title = ''Report'',
     d_description = None, d_ownerId = ''alice'', d_classification = INTERNAL,
     d_dlpStatus = ''CLEAN'', d_dlpFindings = None, d_dlpDetectedAt = None,
     d_retentionClass = None, d_retentionUntil = None, d_retentionReason = None,
     d_legalHold = False, d_legalHoldReason = None, d_legalHoldBy = None, d_legalHoldAt = None,
     d_approvalChain = [], d_approvalStep = 0, d_tags = [], d_status = DRAFT,
     d_currentVersion = 0, d_createdAt = 100, d_updatedAt = 100, d_publishedAt = None,
     d_archivedAt = None, d_deletedAt = None \<rparr>"

definition published_document :: document where
  "published_document = blank_document\<lparr> d_id := ''d1'', d_classification := CONFIDENTIAL,
     d_status := PUBLISHED, d_currentVersion := 1, d_publishedAt := Some 500,
     d_retentionClass := Some ''CONFIDENTIAL_180D'', d_retentionUntil := Some 15552000500,
     d_retentionReason := Some ''CONFIDENTIAL records are retained for 180 days after publication'' \<rparr>"

definition pending_document :: document where
  "pending_document = blank_document\<lparr> d_id := ''d2'', d_status := PENDING, d_currentVersion := 1,
     d_approvalChain := [''carol'', ''erin''] \<rparr>"

definition foreign_document :: document where
  "foreign_document = blank_document\<lparr> d_id := ''d3'', d_organizationId := ''o2'', d_ownerId := ''mallory'',
     d_classification := PUBLIC, d_status := PUBLISHED, d_currentVersion := 1 \<rparr>"

definition sample_version :: "string \<Rightarrow> int \<Rightarrow> doc_version" where
  "sample_version i n = \<lparr> v_docId = i, v_version = n, v_objectKey = ''doc/'' @ i @ ''/file'',
     v_checksum = ''sha256:abc'', v_size = 42, v_filename = ''report.pdf'',
     v_contentType = Some ''application/pdf'', v_dlpStatus = ''CLEAN'', v_dlpFindings = None,
     v_createdAt = 100, v_createdBy = ''alice'' \<rparr>"

definition sample_rule :: "string \<Rightarrow> string \<Rightarrow> subject_type \<Rightarrow> string option \<Rightarrow> permission \<Rightarrow> acl_effect \<Rightarrow> acl_entry" where
  "sample_rule i docId st subj p e = \<lparr> a_id = i, a_docId = docId, a_subjectType = st, a_subjectId = subj,
     a_permission = p, a_effect = e, a_createdAt = 100 \<rparr>"

definition sample_link :: share_link where
  "sample_link = \<lparr> sl_id = ''s1'', sl_docId = ''d1'', sl_tokenHash = ''nekot'',
     sl_permission = SHARE_DOWNLOAD, sl_createdBy = ''alice'', sl_expiresAt = 5000,
     sl_maxAccessCount = Some 2, sl_accessCount = 0, sl_lastAccessedAt = None,
     sl_revokedAt = None, sl_revokedBy = None, sl_createdAt = 100 \<rparr>"

definition sample_member :: "string \<Rightarrow> string \<Rightarrow> org_role \<Rightarrow> membership" where
  "sample_member org u r = \<lparr> m_organizationId = org, m_userId = u, m_role = r, m_createdAt = 10 \<rparr>"

definition sample_env :: "string \<rightharpoonup> string" where
  "sample_env = [''AUDIT_SERVICE_URL'' \<mapsto> ''http://audit'', ''AUDIT_INGEST_TOKEN'' \<mapsto> ''t'',
     ''NOTIFICATION_SERVICE_URL'' \<mapsto> ''http://notify'',
     ''DOWNLOAD_GRANT_SECRET'' \<mapsto> ''dsecret'', ''PREVIEW_GRANT_SECRET'' \<mapsto> ''psecret'']"

definition sample_vault :: vault where
  "sample_vault = empty_vault\<lparr>
     documents := [published_document, pending_document, foreign_document],
     versions := [sample_version ''d1'' 1, sample_version ''d2'' 1, sample_version ''d3'' 1],
     acls := [sample_rule ''a1'' ''d1'' USER (Some ''bob'') DOWNLOAD ALLOW,
              sample_rule ''a2'' ''d1'' GROUP (Some ''/interns'') READ DENY],
     shareLinks := [sample_link],
     organizations := [\<lparr> o_id = ''o1'', o_name = ''One'', o_slug = ''one'', o_ownerId = ''root'' \<rparr>,
                       \<lparr> o_id = ''o2'', o_name = ''Two'', o_slug = ''two'', o_ownerId = ''mallory'' \<rparr>],
     memberships := [sample_member ''o1'' ''root'' ADMIN, sample_member ''o1'' ''alice'' MEMBER,
       sample_member ''o1'' ''bob'' MEMBER, sample_member ''o1'' ''carol'' MEMBER,
       sample_member ''o1'' ''dave'' MEMBER, sample_member ''o2'' ''mallory'' ADMIN],
     env := sample_env \<rparr>"

definition sample_user :: "string \<Rightarrow> string list \<Rightarrow> service_user" where
  "sample_user name roles = \<lparr> u_sub = Some name, u_username = None, u_roles = Some roles,
     u_groups = None \<rparr>"

definition sample_context :: "string \<Rightarrow> string list \<Rightarrow> request_context" where
  "sample_context name roles = \<lparr> c_traceId = Some ''trace'', c_authorization = None, c_actorId = name,
     c_roles = roles, c_groups = Some [], c_ip = None \<rparr>"

text \<open>A stand-in for the cryptographic library: reversal as digest, and one fixed payload text.\<close>

definition sample_crypto :: "json \<Rightarrow> crypto" where
  "sample_crypto j = \<lparr> sha256_hex = rev, hmac_b64 = (\<lambda>k m. k @ m), encode_json = (\<lambda>_. ''payload''),
     decode_json = (\<lambda>_. Some j) \<rparr>"

lemmas sample_defs = sample_vault_def empty_vault_def published_document_def pending_document_def
  foreign_document_def blank_document_def sample_version_def sample_rule_def sample_link_def
  sample_member_def sample_env_def sample_user_def sample_context_def sample_crypto_def

lemma sample_org_inv: "org_inv sample_vault"
  by (rule org_invI) (auto simp: sample_defs)

end
