(* ===== verification/Policy_Properties.thy ===== *)
theory Policy_Properties
  imports Policy_Lemmas Sample_Vault
begin

text \<open>
  The properties of the policy decision point: who gets a download or preview
  grant and who may read metadata, as rules independent of the order of the
  code; what a grant carries; tenant isolation; the audit of refusals; and the
  agreement of the AI guardrails and of the access-impact simulation with the
  decisions they announce.
\<close>

section \<open>Download\<close>

lemma authorizeDownload_on:
  assumes "findInOrgOrThrow now (c_actorId c) i s = (Inr d, t)" "d_id d = i"
  shows "succeeds (authorizeDownload cr now i v u c tok s) \<longleftrightarrow>
    download_permitted cr now v u c tok d t \<and> can_sign (env t) ''DOWNLOAD_GRANT_SECRET''"
  using assms
  by (auto simp: authorizeDownload_def download_permitted_def Let_def issueDownload_ok acl_rules
      getDeniedReason_def classification_clearance [symmetric] split: option.splits if_splits)

lemma authorizeDownload_iff:
  "succeeds (authorizeDownload cr now i v u c tok s) \<longleftrightarrow>
     (\<exists>d. docSeenBy now (c_actorId c) i s = Some d
        \<and> download_permitted cr now v u c tok d s
        \<and> can_sign (env s) ''DOWNLOAD_GRANT_SECRET'')"
proof (cases rule: scoped_cases [of now "c_actorId c" i s "\<lambda>d t. (Inr d, t)"])
  case (missing e)
  then show ?thesis
    by (cases "findInOrgOrThrow now (c_actorId c) i s")
      (auto simp: authorizeDownload_def succeeds_andThen docSeenBy_def split: sum.splits)
next
  case (found d t)
  then show ?thesis
    by (simp add: authorizeDownload_on download_permitted_cong only_logsD)
qed

text \<open>
  C2: a download is authorised exactly when the caller's organization holds the
  document, the document is published, the caller is not a compliance officer,
  the requested version exists, and either a valid share link with download
  permission is presented or no DENY rule applies and the classification clears
  the caller (and the signing secret is configured).
\<close>

theorem authorizeDownload_decision:
  "succeeds (authorizeDownload cr now i v u c tok s) \<longleftrightarrow>
     (\<exists>d. docSeenBy now (c_actorId c) i s = Some d
        \<and> download_permitted cr now v u c tok d s
        \<and> can_sign (env s) ''DOWNLOAD_GRANT_SECRET'')"
  by (rule authorizeDownload_iff)

lemma issueDownload_Inr:
  assumes "issueDownload cr now c a rs gs n d v s = (Inr g, t)"
  shows "g_docId g = d_id d \<and> g_version g = v_version v \<and> g_objectKey g = v_objectKey v
    \<and> g_filename g = v_filename v \<and> g_expiresAt g = now + 300000
    \<and> g_classification g = d_classification d
    \<and> g_watermarkRequired g = (d_classification d \<in> {CONFIDENTIAL, SECRET})
    \<and> createGrantToken cr (env s) (downloadPayload a d v (now + 300000)) = Inr (g_grantToken g)
    \<and> (audit_on s \<longrightarrow> (\<exists>p. auditPosts t = auditPosts s @ [p] \<and> po_actorId p = c_actorId c
        \<and> ap_action (po_event p) = ''DOCUMENT_DOWNLOAD_AUTHORIZED''
        \<and> ap_resourceId (po_event p) = Some (d_id d)))"
  using assms
  by (cases "d_classification d")
    (auto simp: issueDownload_def Let_def expiresInSeconds_def auditPosts_emitEvent split: sum.splits)

lemma authorizeDownload_issue:
  assumes "authorizeDownload cr now i v u c tok s = (Inr g, t)"
  obtains d w s' where "docSeenBy now (c_actorId c) i s = Some d" "only_logs s s'"
    "auditPosts s' = auditPosts s"
    "findVersion i (coalesce v (d_currentVersion d)) s = Some w"
    "issueDownload cr now c (buildActorId u) (coalesce (u_roles u) []) (getActorGroups u c)
       (coalesce v (d_currentVersion d)) d w s' = (Inr g, t)"
proof (cases rule: scoped_cases [of now "c_actorId c" i s "\<lambda>d t. (Inr d, t)"])
  case (missing e)
  then have "\<not> succeeds (authorizeDownload cr now i v u c tok s)"
    by (simp add: authorizeDownload_iff)
  then show thesis using assms by simp
next
  case (found d s')
  have "auditPosts s' = auditPosts s"
    using findInOrgOrThrow_Inr [OF found(4)] by auto
  moreover have "findVersion i n s' = findVersion i n s" for n
    using found by (intro findVersion_cong only_logsD)
  moreover have "\<exists>w. findVersion i (coalesce v (d_currentVersion d)) s' = Some w \<and>
     issueDownload cr now c (buildActorId u) (coalesce (u_roles u) []) (getActorGroups u c)
       (coalesce v (d_currentVersion d)) d w s' = (Inr g, t)"
    using assms unfolding authorizeDownload_def found(4) andThen_simps Let_def
    by (simp split: option.splits if_splits)
  ultimately show thesis using found(1,2) that by metis
qed

text \<open>
  an authorised download yields a grant for the row of the requested
  version of that very document, valid for 300 seconds, watermarked exactly for
  CONFIDENTIAL and SECRET documents, and, when the audit client is configured,
  it appends exactly one audit event naming the caller and the document.
\<close>

theorem download_grant_contents:
  assumes "authorizeDownload cr now i v u c tok s = (Inr g, t)" "audit_on s"
  shows "\<exists>d w p. docSeenBy now (c_actorId c) i s = Some d
    \<and> findVersion i (coalesce v (d_currentVersion d)) s = Some w
    \<and> g_docId g = i \<and> g_version g = coalesce v (d_currentVersion d)
    \<and> g_objectKey g = v_objectKey w \<and> g_expiresAt g = now + 300000
    \<and> g_watermarkRequired g = (d_classification d \<in> {CONFIDENTIAL, SECRET})
    \<and> auditPosts t = auditPosts s @ [p] \<and> po_actorId p = c_actorId c
    \<and> ap_action (po_event p) = ''DOCUMENT_DOWNLOAD_AUTHORIZED''
    \<and> ap_resourceId (po_event p) = Some i"
proof -
  obtain d w s' where d: "docSeenBy now (c_actorId c) i s = Some d" "only_logs s s'"
    "auditPosts s' = auditPosts s" "findVersion i (coalesce v (d_currentVersion d)) s = Some w"
    "issueDownload cr now c (buildActorId u) (coalesce (u_roles u) []) (getActorGroups u c)
       (coalesce v (d_currentVersion d)) d w s' = (Inr g, t)"
    using authorizeDownload_issue [OF assms(1)] .
  moreover have "audit_on s'" using assms(2) d(2) by (simp add: audit_on_def only_logsD)
  ultimately show ?thesis
    using issueDownload_Inr [OF d(5)] docSeenBy_id [OF d(1)] findVersion_SomeD [OF d(4)]
    by auto
qed

lemma sample_download:
  "succeeds (authorizeDownload (sample_crypto JNull) 1000 ''d1'' None (sample_user ''bob'' [''viewer''])
     (sample_context ''bob'' [''viewer'']) None sample_vault)"
  by code_simp

theorem download_grant_contents_witness:
  "\<exists>g w. fst (authorizeDownload (sample_crypto JNull) 1000 ''d1'' None (sample_user ''bob'' [''viewer''])
       (sample_context ''bob'' [''viewer'']) None sample_vault) = Inr g
     \<and> findVersion ''d1'' (g_version g) sample_vault = Some w
     \<and> g_objectKey g = v_objectKey w \<and> g_expiresAt g = 301000"
proof -
  obtain g t where g: "authorizeDownload (sample_crypto JNull) 1000 ''d1'' None
      (sample_user ''bob'' [''viewer'']) (sample_context ''bob'' [''viewer'']) None sample_vault = (Inr g, t)"
    using sample_download by (rule succeedsE)
  have "audit_on sample_vault" by code_simp
  from download_grant_contents [OF g this] g show ?thesis by auto
qed

section \<open>Compliance officers\<close>

text \<open>
  a caller with the compliance-officer role gets neither a download nor a
  preview grant, and no AI access to content, whatever other roles, ACL rules
  or share links the caller has.
\<close>

theorem compliance_officer_no_content:
  assumes "u_roles u = Some rs" "''compliance_officer'' \<in> set rs"
  shows "\<not> succeeds (authorizeDownload cr now i v u c tok s)
    \<and> \<not> succeeds (authorizePreview cr now i v u c tok s)
    \<and> (\<forall>r t. getAiGuardrails cr now i u c s = (Inr r, t) \<longrightarrow>
          \<not> ai_canUseContent r \<and> CONTENT_QA \<notin> set (ai_allowedOperations r))"
  using assms
  by (auto simp: authorizeDownload_iff download_permitted_def authorizePreview_def
      getAiGuardrails_def getAiContentDeniedReason_def succeeds_andThen andThen_Inr_iff Let_def)

theorem compliance_officer_no_content_witness:
  "\<not> succeeds (authorizeDownload (sample_crypto JNull) 1000 ''d1'' None
      (sample_user ''dave'' [''compliance_officer'', ''admin''])
      (sample_context ''dave'' [''compliance_officer'', ''admin'']) (Some ''token'') sample_vault)"
  using compliance_officer_no_content [of "sample_user ''dave'' [''compliance_officer'', ''admin'']"
      "[''compliance_officer'', ''admin'']"]
  by (simp add: sample_user_def)

section \<open>Preview\<close>

lemma authorizePreview_on:
  assumes "findInOrgOrThrow now (c_actorId c) i s = (Inr d, t)" "d_id d = i"
  shows "succeeds (authorizePreview cr now i v u c tok s) \<longleftrightarrow>
    preview_permitted cr now v u c tok d t \<and> can_sign (env t) ''PREVIEW_GRANT_SECRET''"
proof -
  have share: "resolveShareGrant cr now i tok t \<in> {Some VIEW, Some SHARE_DOWNLOAD} \<longleftrightarrow>
      resolveShareGrant cr now i tok t \<noteq> None"
    by (cases "resolveShareGrant cr now i tok t"; cases "the (resolveShareGrant cr now i tok t)") auto
  show ?thesis
    unfolding authorizePreview_def assms(1) andThen_simps Let_def share
    using assms(2)
    by (auto simp: preview_permitted_def Let_def issuePreview_ok acl_rules getPreviewDeniedReason_def
        preview_clearance [symmetric] split: option.splits if_splits)
qed

lemma authorizePreview_iff:
  "succeeds (authorizePreview cr now i v u c tok s) \<longleftrightarrow>
     (\<exists>d. docSeenBy now (c_actorId c) i s = Some d
        \<and> preview_permitted cr now v u c tok d s
        \<and> can_sign (env s) ''PREVIEW_GRANT_SECRET'')"
proof (cases rule: scoped_cases [of now "c_actorId c" i s "\<lambda>d t. (Inr d, t)"])
  case (missing e)
  then show ?thesis
    by (cases "findInOrgOrThrow now (c_actorId c) i s")
      (auto simp: authorizePreview_def succeeds_andThen docSeenBy_def split: sum.splits)
next
  case (found d t)
  then show ?thesis
    by (simp add: authorizePreview_on preview_permitted_cong only_logsD)
qed

text \<open>
  a preview is authorised exactly when the caller's organization holds the
  document, the caller is not a compliance officer, the requested version
  exists, and either a valid share link is presented or no READ DENY rule
  applies and the caller is an approver, the owner or cleared for the
  classification; unlike a download it does not depend on the status.
\<close>

theorem authorizePreview_decision:
  "succeeds (authorizePreview cr now i v u c tok s) \<longleftrightarrow>
     (\<exists>d. docSeenBy now (c_actorId c) i s = Some d
        \<and> preview_permitted cr now v u c tok d s
        \<and> can_sign (env s) ''PREVIEW_GRANT_SECRET'')"
  by (rule authorizePreview_iff)

section \<open>Metadata reads\<close>

definition shareOpensMetadata :: "crypto \<Rightarrow> int \<Rightarrow> string \<Rightarrow> string option \<Rightarrow> string list \<Rightarrow> vault \<Rightarrow> bool" where
  "shareOpensMetadata cr now i tok roles s =
     (resolveShareGrant cr now i tok s \<noteq> None
      \<and> (\<exists>r \<in> set roles. r \<in> {''viewer'', ''editor'', ''approver'', ''admin''}))"

lemma shareOpensMetadata_code:
  "(resolveShareGrant cr now i tok s \<in> {Some VIEW, Some SHARE_DOWNLOAD}
      \<and> list_ex (\<lambda>role. role \<in> set SHARE_LINK_RECIPIENT_ROLES) roles) =
   shareOpensMetadata cr now i tok roles s"
proof -
  have "resolveShareGrant cr now i tok s \<in> {Some VIEW, Some SHARE_DOWNLOAD} \<longleftrightarrow>
      resolveShareGrant cr now i tok s \<noteq> None"
    by (cases "resolveShareGrant cr now i tok s"; cases "the (resolveShareGrant cr now i tok s)") auto
  then show ?thesis
    by (simp add: shareOpensMetadata_def list_ex_iff SHARE_LINK_RECIPIENT_ROLES_def)
qed

lemma assertCanReadMetadata_on:
  fixes u :: service_user and c :: request_context
  assumes "findInOrgOrThrow now (c_actorId c) i s = (Inr d, t)" "d_id d = i" "only_logs s t"
  defines "rs \<equiv> coalesce (u_roles u) (c_roles c)"
  shows "assertCanReadMetadata cr now i u c tok s =
    (if d_status d = DELETED then throw (NotFound ''Document not found'') t
     else case metadataReadReason (shareOpensMetadata cr now i tok rs s) (aclEntriesOf i s)
                 (buildActorId u) rs (getActorGroups u c) d of
            None \<Rightarrow> return d t
          | Some r \<Rightarrow> denyMetadataRead now c (buildActorId u) rs (getActorGroups u c) d r t)"
  unfolding assertCanReadMetadata_def assms(1) andThen_simps Let_def shareOpensMetadata_code rs_def
  by (simp add: shareOpensMetadata_def resolveShareGrant_cong [of t s] aclEntriesOf_cong [of t s]
      only_logsD [OF assms(3)])

lemma assertCanReadMetadata_missing:
  "docSeenBy now (c_actorId c) i s = None \<Longrightarrow> \<not> succeeds (assertCanReadMetadata cr now i u c tok s)"
  by (cases "findInOrgOrThrow now (c_actorId c) i s")
    (auto simp: assertCanReadMetadata_def succeeds_andThen docSeenBy_def split: sum.splits)

lemma assertCanReadMetadata_Inr_iff:
  "(\<exists>t. assertCanReadMetadata cr now i u c tok s = (Inr d, t)) \<longleftrightarrow>
     docSeenBy now (c_actorId c) i s = Some d \<and> d_status d \<noteq> DELETED
     \<and> metadata_readable (shareOpensMetadata cr now i tok (coalesce (u_roles u) (c_roles c)) s)
         (buildActorId u) (coalesce (u_roles u) (c_roles c)) (getActorGroups u c) d s"
proof (cases rule: scoped_cases [of now "c_actorId c" i s "\<lambda>d t. (Inr d, t)"])
  case (missing e)
  then show ?thesis using assertCanReadMetadata_missing [of now c i s cr u tok]
    by (auto simp: succeeds_iff)
next
  case (found d' t)
  then show ?thesis
    using metadataReadReason_readable [of "shareOpensMetadata cr now i tok (coalesce (u_roles u) (c_roles c)) s"
        d' s "buildActorId u" "coalesce (u_roles u) (c_roles c)" "getActorGroups u c"]
    by (auto simp: assertCanReadMetadata_on [OF found(4,3,2)] denyMetadataRead_def split: option.splits)
qed

text \<open>
  metadata of a document is handed out exactly to the callers the read rule
  names, for documents of the caller's organization that are not deleted.
\<close>

theorem metadata_read_decision:
  "(\<exists>t. assertCanReadMetadata cr now i u c tok s = (Inr d, t)) \<longleftrightarrow>
     docSeenBy now (c_actorId c) i s = Some d \<and> d_status d \<noteq> DELETED
     \<and> metadata_readable (shareOpensMetadata cr now i tok (coalesce (u_roles u) (c_roles c)) s)
         (buildActorId u) (coalesce (u_roles u) (c_roles c)) (getActorGroups u c) d s"
  by (rule assertCanReadMetadata_Inr_iff)

text \<open>
  every policy refusal of a metadata read is audited: a Forbidden answer
  for a document the caller's organization holds comes with exactly one new
  audit event, a DENY that names the caller, the document and the reason given.
\<close>

theorem metadata_refusal_audited:
  assumes "docSeenBy now (c_actorId c) i s = Some d" "audit_on s"
    and "assertCanReadMetadata cr now i u c tok s = (Inl (Forbidden reason), t)"
  shows "\<exists>p. auditPosts t = auditPosts s @ [p] \<and> po_actorId p = c_actorId c
    \<and> ap_action (po_event p) = ''DOCUMENT_METADATA_READ_DENIED''
    \<and> ap_result (po_event p) = ''DENY'' \<and> ap_resourceId (po_event p) = Some i
    \<and> ap_reason (po_event p) = Some reason"
proof (cases rule: scoped_cases [of now "c_actorId c" i s "\<lambda>d t. (Inr d, t)"])
  case (missing e)
  then show ?thesis using assms(1) by simp
next
  case (found d' s')
  have "audit_on s'" "auditPosts s' = auditPosts s"
    using assms(2) found(2) findInOrgOrThrow_Inr [OF found(4)] by (auto simp: audit_on_def only_logsD)
  then show ?thesis
    using assms(3) found(3)
    by (auto simp: assertCanReadMetadata_on [OF found(4,3,2)] denyMetadataRead_def auditPosts_emitEvent
        throw_def split: if_splits option.splits)
qed

lemma sample_refusal:
  "fst (assertCanReadMetadata (sample_crypto JNull) 1000 ''d2'' (sample_user ''bob'' [''viewer''])
     (sample_context ''bob'' [''viewer'']) None sample_vault)
   = Inl (Forbidden ''Only published or archived documents are readable by this user'')"
  by code_simp

theorem metadata_refusal_audited_witness:
  "\<exists>p. auditPosts (snd (assertCanReadMetadata (sample_crypto JNull) 1000 ''d2''
       (sample_user ''bob'' [''viewer'']) (sample_context ''bob'' [''viewer'']) None sample_vault)) = [p]
     \<and> ap_result (po_event p) = ''DENY''"
proof -
  let ?m = "assertCanReadMetadata (sample_crypto JNull) 1000 ''d2'' (sample_user ''bob'' [''viewer''])
     (sample_context ''bob'' [''viewer'']) None sample_vault"
  have m: "?m = (Inl (Forbidden ''Only published or archived documents are readable by this user''), snd ?m)"
    using sample_refusal by (simp add: prod_eq_iff)
  have d: "docSeenBy 1000 (c_actorId (sample_context ''bob'' [''viewer''])) ''d2'' sample_vault
      = Some pending_document" by code_simp
  have a: "audit_on sample_vault" by code_simp
  have e: "auditPosts sample_vault = []" by (simp add: sample_defs)
  from metadata_refusal_audited [OF d a m] e show ?thesis by auto
qed

section \<open>Tenant isolation\<close>

lemma metadata_reader_sees:
  "succeeds (assertCanReadMetadata cr now i u c tok s) \<Longrightarrow> \<exists>d. docSeenBy now (c_actorId c) i s = Some d"
  using assertCanReadMetadata_missing by fastforce

lemma succeeds_andThenD: "succeeds (andThen m f) \<Longrightarrow> succeeds m"
  by (auto simp: succeeds_andThen)

lemma ai_guardrails_read:
  "succeeds (getAiGuardrails cr now i u c s) \<Longrightarrow> succeeds (assertCanReadMetadata cr now i u c None s)"
  unfolding getAiGuardrails_def by (rule succeeds_andThenD)

lemma access_impact_read:
  "succeeds (getAccessImpactPreview cr now i dc u c s) \<Longrightarrow> succeeds (assertCanReadMetadata cr now i u c None s)"
  unfolding getAccessImpactPreview_def by (cases dc) (simp, simp only: option.case, rule succeeds_andThenD)

text \<open>
  C3: in a vault whose memberships and cache are consistent, whoever obtains a
  download grant, a preview grant, metadata, an AI guardrail report or an
  access-impact report for a document belongs to that document's organization,
  share links included.
\<close>

theorem policy_tenant_isolation:
  assumes "org_inv s"
    and "succeeds (authorizeDownload cr now i v u c tok s)
      \<or> succeeds (authorizePreview cr now i v u c tok s)
      \<or> succeeds (assertCanReadMetadata cr now i u c tok s)
      \<or> succeeds (getAiGuardrails cr now i u c s)
      \<or> succeeds (getAccessImpactPreview cr now i dc u c s)"
  shows "\<exists>d \<in> set (documents s). d_id d = i \<and> belongs s (c_actorId c) (d_organizationId d)"
proof -
  have "docSeenBy now (c_actorId c) i s \<noteq> None"
    using assms(2)
    by (elim disjE) (auto simp: authorizeDownload_iff authorizePreview_iff
        dest: metadata_reader_sees ai_guardrails_read access_impact_read)
  then obtain d where "docSeenBy now (c_actorId c) i s = Some d" by auto
  then show ?thesis using docSeenBy_id docSeenBy_org [OF assms(1)] by blast
qed

theorem policy_tenant_isolation_witness:
  "belongs sample_vault ''bob'' ''o1''"
proof -
  have "succeeds (assertCanReadMetadata (sample_crypto JNull) 1000 ''d1'' (sample_user ''bob'' [''viewer''])
     (sample_context ''bob'' [''viewer'']) None sample_vault)" by code_simp
  then have "\<exists>d \<in> set (documents sample_vault). d_id d = ''d1''
      \<and> belongs sample_vault (c_actorId (sample_context ''bob'' [''viewer''])) (d_organizationId d)"
    using policy_tenant_isolation [OF sample_org_inv, of _ _ "''d1''"] by blast
  then show ?thesis by (auto simp: sample_defs)
qed

section \<open>Agreement of the reports with the decisions\<close>

lemma resolveShareGrant_none [simp]: "resolveShareGrant cr now i None s = None"
  by (simp add: resolveShareGrant_def)

lemma shareOpensMetadata_none [simp]: "\<not> shareOpensMetadata cr now i None rs s"
  by (simp add: shareOpensMetadata_def)

lemma getAiContentDeniedReason_none:
  "d_id d = i \<Longrightarrow>
   getAiContentDeniedReason d (aclEntriesOf i s) rs a gs = None \<longleftrightarrow>
     ''compliance_officer'' \<notin> set rs \<and> d_status d \<noteq> DELETED \<and> 1 \<le> d_currentVersion d
     \<and> \<not> acl_rule s i READ DENY a rs gs
     \<and> (''approver'' \<in> set rs \<or> a = d_ownerId d
        \<or> clearance (d_classification d) (set rs) (a = d_ownerId d) (acl_rule s i READ ALLOW a rs gs))"
  by (auto simp: getAiContentDeniedReason_def acl_rules preview_clearance)

text \<open>
  the AI guardrails tell the truth: they allow content operations exactly
  when a preview of the current version would be authorised to the same caller
  in the same vault, given that the version row exists and previews can be signed.
\<close>

theorem ai_guardrails_match_preview:
  assumes r: "getAiGuardrails cr now i u c s = (Inr r, t)"
    and roles: "u_roles u = Some rs"
    and doc: "docSeenBy now (c_actorId c) i s = Some d"
    and row: "findVersion i (d_currentVersion d) s \<noteq> None"
    and sign: "can_sign (env s) ''PREVIEW_GRANT_SECRET''"
  shows "ai_canUseContent r \<longleftrightarrow> succeeds (authorizePreview cr now i None u c None s)"
proof -
  from r obtain d' s' where m: "assertCanReadMetadata cr now i u c None s = (Inr d', s')"
    and res: "ai_canUseContent r = (getAiContentDeniedReason d' (aclEntriesOf i s') rs
       (buildActorId u) (getActorGroups u c) = None)"
    by (auto simp: getAiGuardrails_def andThen_Inr_iff Let_def roles)
  have d': "d' = d" "d_status d \<noteq> DELETED"
    using m assertCanReadMetadata_Inr_iff [of cr now i u c None s d'] doc by auto
  have "acls s' = acls s"
    using assertCanReadMetadata_logs [of s cr now i u c None] m by (simp add: only_logsD)
  then have "aclEntriesOf i s' = aclEntriesOf i s" by (rule aclEntriesOf_cong)
  with res d' docSeenBy_id [OF doc] row sign doc roles show ?thesis
    by (auto simp: getAiContentDeniedReason_none authorizePreview_iff preview_permitted_def)
qed

theorem ai_guardrails_match_preview_witness:
  "\<exists>r. fst (getAiGuardrails (sample_crypto JNull) 1000 ''d1'' (sample_user ''bob'' [''viewer''])
       (sample_context ''bob'' [''viewer'']) sample_vault) = Inr r
     \<and> (ai_canUseContent r \<longleftrightarrow> succeeds (authorizePreview (sample_crypto JNull) 1000 ''d1'' None
       (sample_user ''bob'' [''viewer'']) (sample_context ''bob'' [''viewer'']) None sample_vault))"
proof -
  have s: "succeeds (getAiGuardrails (sample_crypto JNull) 1000 ''d1'' (sample_user ''bob'' [''viewer''])
       (sample_context ''bob'' [''viewer'']) sample_vault)" by code_simp
  then obtain r t where r: "getAiGuardrails (sample_crypto JNull) 1000 ''d1''
       (sample_user ''bob'' [''viewer'']) (sample_context ''bob'' [''viewer'']) sample_vault = (Inr r, t)"
    by (rule succeedsE)
  have d: "docSeenBy 1000 (c_actorId (sample_context ''bob'' [''viewer''])) ''d1'' sample_vault
      = Some published_document" by code_simp
  have v: "findVersion ''d1'' (d_currentVersion published_document) sample_vault \<noteq> None" by code_simp
  have g: "can_sign (env sample_vault) ''PREVIEW_GRANT_SECRET''" by code_simp
  have u: "u_roles (sample_user ''bob'' [''viewer'']) = Some [''viewer'']" by (simp add: sample_user_def)
  from ai_guardrails_match_preview [OF r u d v g] r show ?thesis by auto
qed

lemma matchesAcl_Nil [simp]: "\<not> matchesAcl [] a rs gs e" "\<not> matchesPreviewAcl [] a rs gs e"
  by (simp_all add: matchesAcl_def matchesPreviewAcl_def)

lemma acl_rule_Nil: "aclEntriesOf i s = [] \<Longrightarrow> \<not> acl_rule s i p e a rs gs"
  by (auto simp: acl_rule_def aclEntriesOf_def filter_empty_conv)

lemma baseline_metadata:
  assumes "\<And>p e. \<not> acl_rule s (d_id d) p e a [show_role r] gs" "a \<noteq> d_ownerId d"
  shows "metadata_readable False a [show_role r] gs d s \<longleftrightarrow>
     canBaselineReadMetadata (d_status d) (d_classification d) r"
  using assms by (cases r; cases "d_status d"; cases "d_classification d")
    (auto simp: metadata_readable_def canBaselineReadMetadata_def)

lemma baseline_download:
  "canBaselineDownload st cls r \<longleftrightarrow>
     r \<noteq> COMPLIANCE_OFFICER \<and> st = PUBLISHED \<and> clearance cls {show_role r} False False"
  by (cases r) (auto simp: canBaselineDownload_def getDeniedReason_def classification_clearance)

text \<open>
  C26: the access-impact simulation predicts the real decisions: for a caller
  who has just the simulated role, is not the owner and is named by no ACL rule,
  metadata reads and downloads of the current version succeed exactly where the
  simulation reports baseline access.
\<close>

theorem simulation_predicts_decisions:
  assumes doc: "docSeenBy now (c_actorId c) i s = Some d" "d_status d \<noteq> DELETED"
    and role: "u_roles u = Some [show_role r]" and owner: "buildActorId u \<noteq> d_ownerId d"
    and acl: "aclEntriesOf i s = []"
    and row: "1 \<le> d_currentVersion d" "findVersion i (d_currentVersion d) s \<noteq> None"
    and sign: "can_sign (env s) ''DOWNLOAD_GRANT_SECRET''"
  shows "succeeds (assertCanReadMetadata cr now i u c None s) =
           canBaselineReadMetadata (d_status d) (d_classification d) r
    \<and> succeeds (authorizeDownload cr now i None u c None s) =
           canBaselineDownload (d_status d) (d_classification d) r"
proof (rule conjI)
  have i: "d_id d = i" using docSeenBy_id [OF doc(1)] by simp
  have "succeeds (assertCanReadMetadata cr now i u c None s) \<longleftrightarrow>
      (\<exists>d' t. assertCanReadMetadata cr now i u c None s = (Inr d', t))"
    by (simp add: succeeds_iff)
  also have "\<dots> \<longleftrightarrow> metadata_readable False (buildActorId u) [show_role r] (getActorGroups u c) d s"
    using doc role by (simp add: assertCanReadMetadata_Inr_iff)
  also have "\<dots> = canBaselineReadMetadata (d_status d) (d_classification d) r"
    using acl_rule_Nil [OF acl] owner i by (intro baseline_metadata) auto
  finally show "succeeds (assertCanReadMetadata cr now i u c None s) =
           canBaselineReadMetadata (d_status d) (d_classification d) r" .
next
  show "succeeds (authorizeDownload cr now i None u c None s) =
           canBaselineDownload (d_status d) (d_classification d) r"
    using doc role owner row sign docSeenBy_id [OF doc(1)] acl_rule_Nil [OF acl]
    by (cases r) (auto simp: authorizeDownload_iff download_permitted_def baseline_download)
qed

theorem simulation_predicts_decisions_witness:
  "succeeds (assertCanReadMetadata (sample_crypto JNull) 1000 ''d2'' (sample_user ''carol'' [''approver''])
       (sample_context ''carol'' [''approver'']) None sample_vault)
   \<and> \<not> succeeds (authorizeDownload (sample_crypto JNull) 1000 ''d2'' None (sample_user ''carol'' [''approver''])
       (sample_context ''carol'' [''approver'']) None sample_vault)"
proof -
  have d: "docSeenBy 1000 (c_actorId (sample_context ''carol'' [''approver''])) ''d2'' sample_vault
      = Some pending_document" by code_simp
  have st: "d_status pending_document \<noteq> DELETED" by code_simp
  have u: "u_roles (sample_user ''carol'' [''approver'']) = Some [show_role APPROVER]"
    by (simp add: sample_user_def)
  have o: "buildActorId (sample_user ''carol'' [''approver'']) \<noteq> d_ownerId pending_document" by code_simp
  have a: "aclEntriesOf ''d2'' sample_vault = []" by code_simp
  have n: "1 \<le> d_currentVersion pending_document" by code_simp
  have v: "findVersion ''d2'' (d_currentVersion pending_document) sample_vault \<noteq> None" by code_simp
  have g: "can_sign (env sample_vault) ''DOWNLOAD_GRANT_SECRET''" by code_simp
  have b: "canBaselineReadMetadata (d_status pending_document) (d_classification pending_document) APPROVER"
    "\<not> canBaselineDownload (d_status pending_document) (d_classification pending_document) APPROVER"
    by code_simp+
  show ?thesis
    using simulation_predicts_decisions [OF d st u o a n v g, of "sample_crypto JNull"] b by simp
qed

fun sensitivity :: "classification \<Rightarrow> nat" where
  "sensitivity PUBLIC = 0"
| "sensitivity INTERNAL = 1"
| "sensitivity CONFIDENTIAL = 2"
| "sensitivity SECRET = 3"

lemma accessCount_sum:
  "accessCount side is = (\<Sum>i\<leftarrow>is. of_bool (side (ri_metadata i)) + of_bool (side (ri_download i)))"
proof -
  have "fold (\<lambda>i count. count + of_bool (side (ri_metadata i)) + of_bool (side (ri_download i))) is n =
      n + (\<Sum>i\<leftarrow>is. of_bool (side (ri_metadata i)) + of_bool (side (ri_download i)))" for n :: nat
    by (induction "is" arbitrary: n) auto
  then show ?thesis by (simp add: accessCount_def)
qed

lemma accessCount_mono:
  assumes "sensitivity cls \<le> sensitivity cls'"
  shows "accessCount im_proposed (map (\<lambda>r. buildRoleImpact r st cls cls') SIMULATED_ROLES)
       \<le> accessCount im_current (map (\<lambda>r. buildRoleImpact r st cls cls') SIMULATED_ROLES)"
proof -
  have rd: "canBaselineReadMetadata st cls' r \<Longrightarrow> canBaselineReadMetadata st cls r" for r
    using assms by (cases cls; cases cls') (auto simp: canBaselineReadMetadata_def split: if_splits)
  have dl: "canBaselineDownload st cls' r \<Longrightarrow> canBaselineDownload st cls r" for r
    using assms by (cases cls; cases cls'; cases r) (auto simp: baseline_download clearance_def)
  have ob: "(A \<Longrightarrow> B) \<Longrightarrow> (of_bool A :: nat) \<le> of_bool B" for A B by auto
  show ?thesis
    unfolding accessCount_sum map_map
  proof (rule sum_list_mono)
    fix r
    show "((\<lambda>i. of_bool (im_proposed (ri_metadata i)) + of_bool (im_proposed (ri_download i))) \<circ>
          (\<lambda>r. buildRoleImpact r st cls cls')) r
      \<le> (((\<lambda>i. of_bool (im_current (ri_metadata i)) + of_bool (im_current (ri_download i))) \<circ>
          (\<lambda>r. buildRoleImpact r st cls cls')) r :: nat)"
      unfolding comp_def buildRoleImpact_def Let_def role_impact.simps impact.simps
      using rd dl by (intro add_mono ob)
  qed
qed

text \<open>
  the simulation never announces wider access for a more sensitive
  classification, and never narrower access for a less sensitive one.
\<close>

theorem access_impact_monotone:
  assumes "getAccessImpactPreview cr now i (Some p) u c s = (Inr r, t)"
  shows "(ch_accessExpanded (ac_changes r) \<longrightarrow> sensitivity p < sensitivity (as_classification (ac_current r)))
    \<and> (ch_accessReduced (ac_changes r) \<longrightarrow> sensitivity (as_classification (ac_current r)) < sensitivity p)"
proof -
  let ?ri = "\<lambda>d. map (\<lambda>r. buildRoleImpact r (d_status d) (d_classification d) p) SIMULATED_ROLES"
  obtain d :: document where r: "ac_changes r = impactChanges d p (?ri d)"
    "ac_current r = buildAccessImpactState (d_status d) (d_classification d)"
    using assms by (auto simp: getAccessImpactPreview_def andThen_Inr_iff Let_def split: if_splits)
  have swap: "accessCount im_proposed (map (\<lambda>r. buildRoleImpact r st cls cls') SIMULATED_ROLES) =
      accessCount im_current (map (\<lambda>r. buildRoleImpact r st cls' cls) SIMULATED_ROLES)" for st cls cls'
    by (simp add: accessCount_sum comp_def buildRoleImpact_def Let_def)
  have "accessCount im_proposed (?ri d) \<le> accessCount im_current (?ri d)"
    if "sensitivity (d_classification d) \<le> sensitivity p"
    using that by (rule accessCount_mono)
  moreover have "accessCount im_current (?ri d) \<le> accessCount im_proposed (?ri d)"
    if "sensitivity p \<le> sensitivity (d_classification d)"
    using accessCount_mono [OF that, of "d_status d"] swap by metis
  ultimately show ?thesis
    by (auto simp: r impactChanges_def Let_def buildAccessImpactState_def not_le [symmetric])
qed

theorem access_impact_monotone_witness:
  "\<exists>r. fst (getAccessImpactPreview (sample_crypto JNull) 1000 ''d1'' (Some PUBLIC)
       (sample_user ''root'' [''admin'']) (sample_context ''root'' [''admin'']) sample_vault) = Inr r
     \<and> ch_accessExpanded (ac_changes r) \<and> \<not> ch_accessReduced (ac_changes r)"
proof -
  let ?m = "getAccessImpactPreview (sample_crypto JNull) 1000 ''d1'' (Some PUBLIC)
       (sample_user ''root'' [''admin'']) (sample_context ''root'' [''admin'']) sample_vault"
  have "(case fst ?m of Inl _ \<Rightarrow> False
      | Inr r \<Rightarrow> ch_accessExpanded (ac_changes r))" by code_simp
  then obtain r t where r: "?m = (Inr r, t)" "ch_accessExpanded (ac_changes r)"
    by (cases ?m) (auto split: sum.splits)
  from access_impact_monotone [OF r(1)] r have "\<not> ch_accessReduced (ac_changes r)" by auto
  with r show ?thesis by auto
qed

section \<open>Downloads against metadata reads\<close>

text \<open>
  whoever may download a document may also read its metadata, unless a READ
  DENY rule names the caller.
\<close>

theorem download_implies_metadata:
  assumes dl: "succeeds (authorizeDownload cr now i v u c None s)"
    and roles: "u_roles u = Some rs"
    and deny: "\<not> acl_rule s i READ DENY (buildActorId u) rs (getActorGroups u c)"
  shows "succeeds (assertCanReadMetadata cr now i u c None s)"
proof -
  obtain d where d: "docSeenBy now (c_actorId c) i s = Some d" "download_permitted cr now v u c None d s"
    using dl by (auto simp: authorizeDownload_iff)
  have id: "d_id d = i" using docSeenBy_id [OF d(1)] by simp
  have p: "''compliance_officer'' \<notin> set rs" "d_status d = PUBLISHED"
    "clearance (d_classification d) (set rs) (buildActorId u = d_ownerId d)
       (acl_rule s i DOWNLOAD ALLOW (buildActorId u) rs (getActorGroups u c))"
    using d(2) roles id unfolding download_permitted_def Let_def by simp_all
  have "metadata_readable False (buildActorId u) rs (getActorGroups u c) d s"
    using p deny id by (auto simp: metadata_readable_def clearance_def split: classification.splits)
  with p(2) have "metadata_readable False (buildActorId u) rs (getActorGroups u c) d s" "d_status d \<noteq> DELETED"
    by simp_all
  then have "\<exists>t. assertCanReadMetadata cr now i u c None s = (Inr d, t)"
    using assertCanReadMetadata_Inr_iff [of cr now i u c None s d] d(1) roles by simp
  then show ?thesis by (auto simp: succeeds_iff)
qed

theorem download_implies_metadata_witness:
  "succeeds (assertCanReadMetadata (sample_crypto JNull) 1000 ''d1'' (sample_user ''bob'' [''viewer''])
     (sample_context ''bob'' [''viewer'']) None sample_vault)"
proof -
  have "\<not> acl_rule sample_vault ''d1'' READ DENY (buildActorId (sample_user ''bob'' [''viewer''])) [''viewer'']
      (getActorGroups (sample_user ''bob'' [''viewer'']) (sample_context ''bob'' [''viewer'']))"
    by code_simp
  with download_implies_metadata [OF sample_download] show ?thesis by (simp add: sample_user_def)
qed

text \<open>
  the READ DENY exception is real: a caller whom a READ DENY rule keeps from
  metadata and preview may still obtain the download grant of the same document.
\<close>

theorem read_deny_leaves_download:
  "\<exists>s u c. org_inv s
     \<and> acl_rule s ''d1'' READ DENY (buildActorId u) (coalesce (u_roles u) []) (getActorGroups u c)
     \<and> \<not> succeeds (assertCanReadMetadata (sample_crypto JNull) 1000 ''d1'' u c None s)
     \<and> \<not> succeeds (authorizePreview (sample_crypto JNull) 1000 ''d1'' None u c None s)
     \<and> succeeds (authorizeDownload (sample_crypto JNull) 1000 ''d1'' None u c None s)"
proof -
  let ?u = "(sample_user ''bob'' [''viewer''])\<lparr>u_groups := Some [''interns'']\<rparr>"
  let ?c = "sample_context ''bob'' [''viewer'']"
  have "acl_rule sample_vault ''d1'' READ DENY (buildActorId ?u) (coalesce (u_roles ?u) []) (getActorGroups ?u ?c)"
    by code_simp
  moreover have "\<not> succeeds (assertCanReadMetadata (sample_crypto JNull) 1000 ''d1'' ?u ?c None sample_vault)"
    by code_simp
  moreover have "\<not> succeeds (authorizePreview (sample_crypto JNull) 1000 ''d1'' None ?u ?c None sample_vault)"
    by code_simp
  moreover have "succeeds (authorizeDownload (sample_crypto JNull) 1000 ''d1'' None ?u ?c None sample_vault)"
    by code_simp
  ultimately show ?thesis using sample_org_inv by blast
qed

end
