(* ===== verification/Grant_Properties.thy ===== *)
theory Grant_Properties
  imports Policy_Properties "HOL-Library.Countable"
begin

text \<open>
  The life of a grant token: what metadata-service issues, document-service
  accepts for the same caller until it expires, and for nobody else; what
  document-service accepts was signed with a configured secret.
\<close>

section \<open>The text form of tokens\<close>

text \<open>
  What is used of the libraries: \<open>JSON.parse\<close> undoes \<open>JSON.stringify\<close> through
  base64url, whose output is not empty for these inputs and has no dot.
\<close>

definition codec_ok :: "crypto \<Rightarrow> bool" where
  "codec_ok cr =
     ((\<forall>j. decode_json cr (encode_json cr j) = Some j \<and> encode_json cr j \<noteq> []
         \<and> CHR ''.'' \<notin> set (encode_json cr j))
      \<and> (\<forall>k m. hmac_b64 cr k m \<noteq> [] \<and> CHR ''.'' \<notin> set (hmac_b64 cr k m)))"

lemma signToken_parts:
  assumes "codec_ok cr"
  shows "split_on (CHR ''.'') (signToken cr sg fs) =
    [encode_json cr (JObj (fs @ j_optional ''kid'' JStr (fst sg))),
     hmac_b64 cr (snd sg) (encode_json cr (JObj (fs @ j_optional ''kid'' JStr (fst sg))))]"
  using assms by (simp add: codec_ok_def signToken_def Let_def split_on_append split_on_no_sep)

lemma verify_parts:
  assumes "split_on (CHR ''.'') token = [enc, sig]" "enc \<noteq> []" "sig \<noteq> []"
    and "decode_json cr enc = Some (JObj fs)"
  shows "verifyToken cr ev base label now token actor =
    (case (if field_truthy ''kid'' (JObj fs) then getSecretForKid ev base label (the (map_of fs ''kid''))
           else getLegacySecret ev base) of
       Inl e \<Rightarrow> Inl e
     | Inr secret \<Rightarrow>
         if sig \<noteq> hmac_b64 cr secret enc then Inl (JsError (label @ '' token signature mismatch''))
         else if (case date_ms (map_of fs ''expiresAt'') of None \<Rightarrow> False | Some t \<Rightarrow> t \<le> now)
         then Inl (JsError (label @ '' token expired''))
         else if map_of fs ''actorId'' \<noteq> Some (JStr actor)
         then Inl (JsError (label @ '' token actorId mismatch''))
         else Inr (JObj fs))"
  using assms by (simp add: verifyToken_def js_nth_def truthy_def j_field_def)

section \<open>Secrets\<close>

definition keys_shared :: "string \<Rightarrow> (string \<rightharpoonup> string) \<Rightarrow> (string \<rightharpoonup> string) \<Rightarrow> bool" where
  "keys_shared base ev ev' =
     (ev' ''GRANT_TOKEN_CURRENT_KID'' = ev ''GRANT_TOKEN_CURRENT_KID''
      \<and> (\<forall>suffix. ev' (base @ suffix) = ev (base @ suffix)))"

definition kid_trimmed :: "(string \<rightharpoonup> string) \<Rightarrow> bool" where
  "kid_trimmed ev = (case ev ''GRANT_TOKEN_CURRENT_KID'' of None \<Rightarrow> True | Some k \<Rightarrow> trim k = k)"

text \<open>The secret the verifier picks for a payload that carries the signer's key id.\<close>

lemma verifier_secret:
  assumes sg: "getSigningSecret ev base = Inr sg" and sh: "keys_shared base ev ev'" and kt: "kid_trimmed ev'"
    and no_kid: "map_of fs ''kid'' = None"
  defines "payload \<equiv> fs @ j_optional ''kid'' JStr (fst sg)"
  shows "(if field_truthy ''kid'' (JObj payload) then getSecretForKid ev' base label (the (map_of payload ''kid''))
          else getLegacySecret ev' base) = Inr (snd sg)"
proof -
  have r: "requireEnv ev (base @ x) = requireEnv ev' (base @ x)" for x
    using sh by (simp add: keys_shared_def requireEnv_def)
  let ?kid = "coalesce (map_option trim (ev ''GRANT_TOKEN_CURRENT_KID'')) []"
  show ?thesis
  proof (cases "truthy ?kid")
    case True
    then obtain k where k: "ev ''GRANT_TOKEN_CURRENT_KID'' = Some k" "trim k \<noteq> []"
      by (cases "ev ''GRANT_TOKEN_CURRENT_KID''") (auto simp: truthy_def)
    then have k': "ev' ''GRANT_TOKEN_CURRENT_KID'' = Some k" "trim k = k"
      using sh kt by (auto simp: keys_shared_def kid_trimmed_def)
    from sg True k k' have "sg = (Some k, snd sg)" "requireEnv ev (base @ ''_'' @ k) = Inr (snd sg)"
      by (auto simp: getSigningSecret_def Let_def split: sum.splits)
    moreover have "map_of payload ''kid'' = Some (JStr (the (fst sg)))" if "fst sg = Some k"
      using no_kid that by (simp add: payload_def j_optional_def map_add_def)
    ultimately show ?thesis
      using k k' r [of "''_'' @ k"]
      by (auto simp: field_truthy_def j_field_def getSecretForKid_def truthy_def prod_eq_iff
          List.map_filter_simps Let_def split: option.splits)
  next
    case False
    then have "sg = (None, snd sg)" "requireEnv ev base = Inr (snd sg)"
      using sg by (auto simp: getSigningSecret_def Let_def split: sum.splits)
    then show ?thesis
      using no_kid r [of "[]"]
      by (auto simp: payload_def j_optional_def field_truthy_def j_field_def getLegacySecret_def prod_eq_iff)
  qed
qed

text \<open>Signing then verifying, for any payload without a key id of its own.\<close>

lemma verify_signed:
  assumes "getSigningSecret ev base = Inr sg" "keys_shared base ev ev'" "kid_trimmed ev'"
    and "map_of fs ''kid'' = None" "codec_ok cr"
    and "map_of fs ''expiresAt'' = Some (JDate exp)" "map_of fs ''actorId'' = Some (JStr a)"
  shows "verifyToken cr ev' base label now (signToken cr sg fs) actor =
    (if exp \<le> now then Inl (JsError (label @ '' token expired''))
     else if actor \<noteq> a then Inl (JsError (label @ '' token actorId mismatch''))
     else Inr (JObj (fs @ j_optional ''kid'' JStr (fst sg))))"
proof -
  let ?fs = "fs @ j_optional ''kid'' JStr (fst sg)"
  have m: "map_of ?fs ''expiresAt'' = Some (JDate exp)" "map_of ?fs ''actorId'' = Some (JStr a)"
    using assms(6,7) by (auto simp: map_add_Some_iff j_optional_def map_add_def split: option.splits)
  have c: "decode_json cr (encode_json cr (JObj ?fs)) = Some (JObj ?fs)"
    "encode_json cr (JObj ?fs) \<noteq> []"
    "hmac_b64 cr (snd sg) (encode_json cr (JObj ?fs)) \<noteq> []"
    using assms(5) by (auto simp: codec_ok_def)
  show ?thesis
    unfolding verify_parts [OF signToken_parts [OF assms(5)] c(2,3,1)]
      verifier_secret [OF assms(1-4)] m
    by simp
qed

lemma downloadPayload_fields:
  "map_of (downloadPayload a d w e) ''kid'' = None"
  "map_of (downloadPayload a d w e) ''expiresAt'' = Some (JDate e)"
  "map_of (downloadPayload a d w e) ''actorId'' = Some (JStr a)"
  "map_of (downloadPayload a d w e) ''docId'' = Some (JStr (d_id d))"
  "map_of (downloadPayload a d w e) ''version'' = Some (JNum (v_version w))"
  "map_of (downloadPayload a d w e) ''objectKey'' = Some (JStr (v_objectKey w))"
  by (cases "v_contentType w"; simp add: downloadPayload_def j_optional_def)+

lemma j_field_kid:
  "map_of fs k = Some v \<Longrightarrow> k \<noteq> ''kid'' \<Longrightarrow> j_field k (JObj (fs @ j_optional ''kid'' f x)) = Some v"
  by (cases x) (simp_all add: j_field_def j_optional_def map_add_def)

lemma signed_payload_fields:
  "j_field ''docId'' (JObj (downloadPayload a d w e @ j_optional ''kid'' f x)) = Some (JStr (d_id d))"
  "j_field ''version'' (JObj (downloadPayload a d w e @ j_optional ''kid'' f x)) = Some (JNum (v_version w))"
  "j_field ''objectKey'' (JObj (downloadPayload a d w e @ j_optional ''kid'' f x)) = Some (JStr (v_objectKey w))"
  by (rule j_field_kid; simp add: downloadPayload_fields)+

section \<open>Round trip\<close>

text \<open>
  C8: the grant token of an authorised download verifies in document-service
  until the grant's expiry, for the caller it was issued to and for no one
  else, and yields the document, version and object key of the grant.
\<close>

theorem download_grant_round_trip:
  assumes g: "authorizeDownload cr now i v u c tok s = (Inr g, t)"
    and cr: "codec_ok cr"
    and ev: "keys_shared ''DOWNLOAD_GRANT_SECRET'' (env s) ev" "kid_trimmed ev"
  shows "\<exists>payload. j_field ''docId'' payload = Some (JStr i)
    \<and> j_field ''version'' payload = Some (JNum (g_version g))
    \<and> j_field ''objectKey'' payload = Some (JStr (g_objectKey g))
    \<and> verifyGrantToken cr ev later (g_grantToken g) actor =
        (if g_expiresAt g \<le> later then Inl (JsError ''Grant token expired'')
         else if actor \<noteq> buildActorId u then Inl (JsError ''Grant token actorId mismatch'')
         else Inr payload)"
proof -
  obtain d w s' where d: "docSeenBy now (c_actorId c) i s = Some d" and s': "only_logs s s'"
    and iss: "issueDownload cr now c (buildActorId u) (coalesce (u_roles u) []) (getActorGroups u c)
       (coalesce v (d_currentVersion d)) d w s' = (Inr g, t)"
    using authorizeDownload_issue [OF g] by metis
  note gr = issueDownload_Inr [OF iss]
  let ?fs = "downloadPayload (buildActorId u) d w (now + 300000)"
  obtain sg where sg: "getSigningSecret (env s) ''DOWNLOAD_GRANT_SECRET'' = Inr sg"
    and tk: "g_grantToken g = signToken cr sg ?fs"
    using gr s' by (auto simp: createGrantToken_def only_logsD split: sum.splits)
  let ?p = "JObj (?fs @ j_optional ''kid'' JStr (fst sg))"
  have "j_field ''docId'' ?p = Some (JStr i)" "j_field ''version'' ?p = Some (JNum (g_version g))"
    "j_field ''objectKey'' ?p = Some (JStr (g_objectKey g))"
    using gr docSeenBy_id [OF d] by (simp_all add: signed_payload_fields)
  moreover have "verifyGrantToken cr ev later (g_grantToken g) actor =
        (if g_expiresAt g \<le> later then Inl (JsError ''Grant token expired'')
         else if actor \<noteq> buildActorId u then Inl (JsError ''Grant token actorId mismatch'')
         else Inr ?p)"
    unfolding verifyGrantToken_def tk
      verify_signed [OF sg ev downloadPayload_fields(1) cr downloadPayload_fields(2,3)]
    using gr by simp
  ultimately show ?thesis by blast
qed

text \<open>A codec by enumeration: the hypotheses on the libraries can be met.\<close>

instance json :: countable
  by countable_datatype

definition counting_crypto :: crypto where
  "counting_crypto = \<lparr> sha256_hex = rev, hmac_b64 = (\<lambda>k m. CHR ''s'' # filter (\<lambda>c. c \<noteq> CHR ''.'') (k @ m)),
     encode_json = (\<lambda>j. replicate (Suc (to_nat j)) (CHR ''x'')),
     decode_json = (\<lambda>cs. if cs = [] then None else Some (from_nat (length cs - 1))) \<rparr>"

lemma counting_codec: "codec_ok counting_crypto"
  by (auto simp: codec_ok_def counting_crypto_def simp del: replicate_Suc)

lemma sample_download_any:
  "succeeds (authorizeDownload cr 1000 ''d1'' None (sample_user ''bob'' [''viewer''])
     (sample_context ''bob'' [''viewer'']) None sample_vault)"
proof -
  have "download_permitted cr 1000 None (sample_user ''bob'' [''viewer''])
      (sample_context ''bob'' [''viewer'']) None published_document sample_vault =
    download_permitted (sample_crypto JNull) 1000 None (sample_user ''bob'' [''viewer''])
      (sample_context ''bob'' [''viewer'']) None published_document sample_vault"
    by (simp add: download_permitted_def)
  also have "\<dots>" by code_simp
  finally have "download_permitted cr 1000 None (sample_user ''bob'' [''viewer''])
      (sample_context ''bob'' [''viewer'']) None published_document sample_vault" by simp
  moreover have "docSeenBy 1000 (c_actorId (sample_context ''bob'' [''viewer''])) ''d1'' sample_vault
      = Some published_document" by code_simp
  moreover have "can_sign (env sample_vault) ''DOWNLOAD_GRANT_SECRET''" by code_simp
  ultimately show ?thesis by (simp add: authorizeDownload_iff)
qed

theorem download_grant_round_trip_witness:
  "\<exists>g payload. fst (authorizeDownload counting_crypto 1000 ''d1'' None (sample_user ''bob'' [''viewer''])
        (sample_context ''bob'' [''viewer'']) None sample_vault) = Inr g
     \<and> j_field ''docId'' payload = Some (JStr ''d1'')
     \<and> (g_expiresAt g > 2000 \<longrightarrow> verifyGrantToken counting_crypto sample_env 2000 (g_grantToken g) ''bob'' = Inr payload)"
proof -
  obtain g t where g: "authorizeDownload counting_crypto 1000 ''d1'' None (sample_user ''bob'' [''viewer''])
        (sample_context ''bob'' [''viewer'']) None sample_vault = (Inr g, t)"
    using sample_download_any by (rule succeedsE)
  have k: "keys_shared ''DOWNLOAD_GRANT_SECRET'' (env sample_vault) sample_env"
    by (simp add: keys_shared_def sample_vault_def)
  have kt: "kid_trimmed sample_env" by (simp add: kid_trimmed_def sample_env_def)
  have a: "buildActorId (sample_user ''bob'' [''viewer'']) = ''bob''" by code_simp
  from download_grant_round_trip [OF g counting_codec k kt, of 2000 "''bob''"] g a show ?thesis
    by auto
qed

section \<open>What is accepted was signed\<close>

lemma verifyToken_signed:
  assumes "verifyToken cr ev base label now token actor = Inr payload"
  shows "\<exists>enc secret name. js_nth (split_on (CHR ''.'') token) 0 = Some enc
    \<and> js_nth (split_on (CHR ''.'') token) 1 = Some (hmac_b64 cr secret enc)
    \<and> (ev name = Some secret \<and> (name = base \<or> (\<exists>k. name = base @ ''_'' @ k)))
    \<and> trim secret \<noteq> [] \<and> decode_json cr enc = Some payload
    \<and> j_field ''actorId'' payload = Some (JStr actor)
    \<and> (\<forall>t. date_ms (j_field ''expiresAt'' payload) = Some t \<longrightarrow> now < t)"
proof -
  let ?parts = "split_on (CHR ''.'') token"
  let ?enc = "coalesce (js_nth ?parts 0) []" and ?sig = "coalesce (js_nth ?parts 1) []"
  have ne: "?enc \<noteq> []" "?sig \<noteq> []" and dec: "decode_json cr ?enc = Some payload"
    and rest: "\<exists>secret. (if field_truthy ''kid'' payload
                  then getSecretForKid ev base label (the (j_field ''kid'' payload))
                  else getLegacySecret ev base) = Inr secret \<and> ?sig = hmac_b64 cr secret ?enc"
    and time: "\<forall>t. date_ms (j_field ''expiresAt'' payload) = Some t \<longrightarrow> now < t"
    and act: "j_field ''actorId'' payload = Some (JStr actor)"
    using assms unfolding verifyToken_def Let_def
    by (auto simp: truthy_def split: if_splits option.splits sum.splits json.splits)
  have parts: "js_nth ?parts 0 = Some ?enc" "js_nth ?parts 1 = Some ?sig"
    using ne by (cases "js_nth ?parts 0"; simp) (cases "js_nth ?parts 1"; use ne in simp)
  from rest obtain secret where sec: "(if field_truthy ''kid'' payload
                  then getSecretForKid ev base label (the (j_field ''kid'' payload))
                  else getLegacySecret ev base) = Inr secret" and sig: "?sig = hmac_b64 cr secret ?enc"
    by blast
  have req: "requireEnv ev n = Inr secret \<Longrightarrow> ev n = Some secret \<and> trim secret \<noteq> []" for n
    by (auto simp: requireEnv_def split: option.splits if_splits)
  obtain name where "requireEnv ev name = Inr secret" "name = base \<or> (\<exists>k. name = base @ ''_'' @ k)"
    using sec by (auto simp: getLegacySecret_def getSecretForKid_def Let_def
        split: if_splits json.splits)
  with req parts sig dec time act show ?thesis by (metis (no_types, lifting))
qed

text \<open>
  C10: document-service accepts a download or preview grant only when its second
  part is the HMAC of its first under a configured, non-blank grant secret of
  the right kind, its payload names the requesting caller, and its expiry, if it
  is a date, lies in the future.
\<close>

theorem accepted_grant_is_signed:
  assumes "verifyGrantToken cr ev now token actor = Inr payload \<and> base = ''DOWNLOAD_GRANT_SECRET''
    \<or> verifyPreviewGrantToken cr ev now token actor = Inr payload \<and> base = ''PREVIEW_GRANT_SECRET''"
  shows "\<exists>enc secret name. js_nth (split_on (CHR ''.'') token) 0 = Some enc
    \<and> js_nth (split_on (CHR ''.'') token) 1 = Some (hmac_b64 cr secret enc)
    \<and> (ev name = Some secret \<and> (name = base \<or> (\<exists>k. name = base @ ''_'' @ k)))
    \<and> trim secret \<noteq> [] \<and> decode_json cr enc = Some payload
    \<and> j_field ''actorId'' payload = Some (JStr actor)
    \<and> (\<forall>t. date_ms (j_field ''expiresAt'' payload) = Some t \<longrightarrow> now < t)"
proof -
  have "\<exists>label. verifyToken cr ev base label now token actor = Inr payload"
    using assms unfolding verifyGrantToken_def verifyPreviewGrantToken_def by blast
  then show ?thesis by (elim exE) (rule verifyToken_signed)
qed

theorem accepted_grant_is_signed_witness:
  "\<exists>enc secret. js_nth (split_on (CHR ''.'') ''payload.dsecretpayload'') 0 = Some enc
     \<and> js_nth (split_on (CHR ''.'') ''payload.dsecretpayload'') 1 = Some (hmac_b64 (sample_crypto JNull) secret enc)"
proof -
  let ?j = "JObj [(''actorId'', JStr ''bob''), (''expiresAt'', JDate 5000)]"
  have "verifyGrantToken (sample_crypto ?j) sample_env 1000 ''payload.dsecretpayload'' ''bob'' = Inr ?j"
    by code_simp
  from accepted_grant_is_signed [OF disjI1, OF conjI, OF this refl] show ?thesis
    by (auto simp: sample_crypto_def)
qed

text \<open>
  a current key id with surrounding blanks makes every issued grant
  unusable: the signer puts the trimmed id in the payload and picks the secret
  of the trimmed id, the verifier compares it with the untrimmed variable.
\<close>

theorem untrimmed_kid_refused:
  assumes "ev ''GRANT_TOKEN_CURRENT_KID'' = Some k" "trim k \<noteq> k" "trim k \<noteq> []"
    and "ev ''GRANT_TOKEN_PREVIOUS_KID'' \<noteq> Some (trim k)"
    and "codec_ok cr" "createGrantToken cr ev fs = Inr token" "map_of fs ''kid'' = None"
  shows "verifyGrantToken cr ev now token actor = Inl (JsError ''Grant token kid is not accepted'')"
proof -
  from assms obtain secret where sg: "token = signToken cr (Some (trim k), secret) fs"
    by (auto simp: createGrantToken_def getSigningSecret_def Let_def truthy_def split: sum.splits)
  let ?fs = "fs @ j_optional ''kid'' JStr (Some (trim k))"
  have kid: "map_of ?fs ''kid'' = Some (JStr (trim k))"
    using assms(7) by (simp add: j_optional_def map_add_def)
  have c: "decode_json cr (encode_json cr (JObj ?fs)) = Some (JObj ?fs)"
    "encode_json cr (JObj ?fs) \<noteq> []" "hmac_b64 cr secret (encode_json cr (JObj ?fs)) \<noteq> []"
    using assms(5) by (auto simp: codec_ok_def)
  have "getSecretForKid ev ''DOWNLOAD_GRANT_SECRET'' ''Grant'' (JStr (trim k)) =
      Inl (JsError ''Grant token kid is not accepted'')"
    using assms(1-4) by (auto simp: getSecretForKid_def Let_def List.map_filter_simps split: option.splits)
  then show ?thesis
    using verify_parts [of token "encode_json cr (JObj ?fs)" "hmac_b64 cr secret (encode_json cr (JObj ?fs))"
        cr ?fs ev "''DOWNLOAD_GRANT_SECRET''" "''Grant''" now actor]
      signToken_parts [OF assms(5), of "(Some (trim k), secret)" fs] c kid assms(3)
    by (simp add: verifyGrantToken_def sg field_truthy_def j_field_def truthy_def)
qed

theorem untrimmed_kid_refused_witness:
  "\<exists>token. createGrantToken counting_crypto
       [''GRANT_TOKEN_CURRENT_KID'' \<mapsto> ''k1 '', ''DOWNLOAD_GRANT_SECRET_k1'' \<mapsto> ''s''] [] = Inr token
     \<and> verifyGrantToken counting_crypto
       [''GRANT_TOKEN_CURRENT_KID'' \<mapsto> ''k1 '', ''DOWNLOAD_GRANT_SECRET_k1'' \<mapsto> ''s''] 0 token ''bob''
       = Inl (JsError ''Grant token kid is not accepted'')"
proof -
  let ?ev = "[''GRANT_TOKEN_CURRENT_KID'' \<mapsto> ''k1 '', ''DOWNLOAD_GRANT_SECRET_k1'' \<mapsto> ''s'']"
  have t: "trim ''k1 '' = ''k1''" by code_simp
  have "getSigningSecret ?ev ''DOWNLOAD_GRANT_SECRET'' = Inr (Some ''k1'', ''s'')" by code_simp
  then obtain token where tk: "createGrantToken counting_crypto ?ev [] = Inr token"
    by (simp add: createGrantToken_def)
  from untrimmed_kid_refused [of ?ev "''k1 ''" counting_crypto "[]" token 0 "''bob''"] t tk counting_codec
  show ?thesis by simp
qed

end
