(* ===== verification/Status_Service.thy ===== *)
theory Status_Service
  imports Org_Service
begin

text \<open>
  The workflow states: \<open>services/metadata-service/src/status/status.service.ts\<close>. The
  transition table, and the handler of POST \<open>documents/:docId/status\<close>, which
  applies a transition, stamps the document and appends a history row.
\<close>

record transition =
  tr_from :: doc_status
  tr_to :: doc_status

fun TRANSITION_MAP :: "workflow_action \<Rightarrow> transition option" where
  "TRANSITION_MAP SUBMIT = Some \<lparr> tr_from = DRAFT, tr_to = PENDING \<rparr>"
| "TRANSITION_MAP APPROVE = Some \<lparr> tr_from = PENDING, tr_to = PUBLISHED \<rparr>"
| "TRANSITION_MAP REJECT = Some \<lparr> tr_from = PENDING, tr_to = DRAFT \<rparr>"
| "TRANSITION_MAP ARCHIVE = Some \<lparr> tr_from = PUBLISHED, tr_to = ARCHIVED \<rparr>"
| "TRANSITION_MAP DELETE = Some \<lparr> tr_from = DRAFT, tr_to = DELETED \<rparr>"
| "TRANSITION_MAP RETENTION = None"

record update_status_dto =
  us_status :: doc_status
  us_action :: workflow_action
  us_reason :: "string option"

definition withRetentionEvidence :: "retention_evidence \<Rightarrow> document \<Rightarrow> document" where
  "withRetentionEvidence ev d = d\<lparr> d_retentionClass := Some (re_class ev),
     d_retentionUntil := Some (re_until ev), d_retentionReason := Some (re_reason ev) \<rparr>"

text \<open>The update data of a transition, applied to the row.\<close>

definition statusUpdate :: "int \<Rightarrow> workflow_action \<Rightarrow> doc_status \<Rightarrow> classification \<Rightarrow> document \<Rightarrow> document" where
  "statusUpdate now action to cls d =
     (let d = d\<lparr> d_status := to \<rparr>;
          d = (if action = APPROVE
               then withRetentionEvidence (buildRetentionEvidence cls now) (d\<lparr> d_publishedAt := Some now \<rparr>)
               else d);
          d = (if action = ARCHIVE then d\<lparr> d_archivedAt := Some now \<rparr> else d)
      in if action = DELETE then d\<lparr> d_deletedAt := Some now \<rparr> else d)"

definition appendHistory :: "history_entry \<Rightarrow> vault \<Rightarrow> vault" where
  "appendHistory h s = s\<lparr>history := history s @ [h]\<rparr>"

text \<open>The transaction: the status update and the history row, together.\<close>

definition statusTransaction :: "int \<Rightarrow> string \<Rightarrow> document \<Rightarrow> doc_status \<Rightarrow> update_status_dto \<Rightarrow> string \<Rightarrow>
  vault \<Rightarrow> (document, vault) outcome" where
  "statusTransaction now docId document to dto actorId s =
     andThen (prismaUpdateDocument now docId
         (statusUpdate now (us_action dto) to (d_classification document)) s)
     (\<lambda>updatedDoc s. return updatedDoc (appendHistory \<lparr> h_docId = docId,
        h_fromStatus = d_status document, h_toStatus = to, h_action = us_action dto,
        h_actorId = actorId, h_reason = us_reason dto, h_createdAt = now \<rparr> s))"

definition updateStatus :: "int \<Rightarrow> string \<Rightarrow> update_status_dto \<Rightarrow> service_user \<Rightarrow> request_context \<Rightarrow>
  vault \<Rightarrow> (document, vault) outcome" where
  "updateStatus now docId dto user context s =
     andThen (findInOrgOrThrow now (c_actorId context) docId s) (\<lambda>document s.
       let roles = coalesce (u_roles user) [] in
       if \<not> list_ex (\<lambda>role. role \<in> set [''editor'', ''approver'', ''admin'']) roles
       then throw (Forbidden ''Only editor, approver, or admin can update status'') s
       else case TRANSITION_MAP (us_action dto) of
         None \<Rightarrow> throw (BadRequest (''Unknown workflow action: '' @ show_action (us_action dto))) s
       | Some transition \<Rightarrow>
           if d_status document \<noteq> tr_from transition
           then throw (Conflict (''Cannot '' @ show_action (us_action dto) @ '' a document in status ''
             @ show_status (d_status document) @ ''. Expected status: ''
             @ show_status (tr_from transition))) s
           else if us_status dto \<noteq> tr_to transition
           then throw (BadRequest (''Action '' @ show_action (us_action dto) @ '' must set status to ''
             @ show_status (tr_to transition) @ '', but got '' @ show_status (us_status dto))) s
           else let actorId = buildActorId user in
             andThen (statusTransaction now docId document (tr_to transition) dto actorId s)
             (\<lambda>updated s. return updated (emitEvent now context \<lparr>
               ap_action = ''DOCUMENT_'' @ show_action (us_action dto), ap_resourceType = ''DOCUMENT'',
               ap_resourceId = Some docId, ap_result = ''SUCCESS'',
               ap_reason = Some (coalesce (us_reason dto)
                 (show_status (d_status document) @ '' -> '' @ show_status (tr_to transition))),
               ap_metadata = [(''docId'', JStr docId), (''title'', JStr (d_title document)),
                 (''fromStatus'', JStr (show_status (d_status document))),
                 (''toStatus'', JStr (show_status (tr_to transition))),
                 (''action'', JStr (show_action (us_action dto))),
                 (''reason'', j_nullable JStr (us_reason dto)), (''actorId'', JStr actorId),
                 (''publishedAt'', j_nullable JDate (d_publishedAt updated)),
                 (''archivedAt'', j_nullable JDate (d_archivedAt updated)),
                 (''deletedAt'', j_nullable JDate (d_deletedAt updated)),
                 (''triggeredAt'', JDate now)] \<rparr> s)))"

section \<open>Effect\<close>

text \<open>
  A successful transition: the document was in the source state of the table,
  its row is the only one rewritten, one history row is appended, and nothing
  else but the logs changes.
\<close>

lemma statusTransaction_Inr:
  "statusTransaction now i d to dto a s = (Inr d', s') \<longleftrightarrow>
     (\<exists>r. find_row d_id i (documents s) = Some r
        \<and> d' = (statusUpdate now (us_action dto) to (d_classification d) r)\<lparr>d_updatedAt := now\<rparr>
        \<and> s' = s\<lparr>documents := update_row d_id i
               (\<lambda>r. (statusUpdate now (us_action dto) to (d_classification d) r)\<lparr>d_updatedAt := now\<rparr>)
               (documents s),
             history := history s @ [\<lparr> h_docId = i, h_fromStatus = d_status d, h_toStatus = to,
               h_action = us_action dto, h_actorId = a, h_reason = us_reason dto, h_createdAt = now \<rparr>]\<rparr>)"
  by (auto simp: statusTransaction_def andThen_Inr_iff prismaUpdateDocument_Inr appendHistory_def)

lemma statusTransaction_Inl:
  "statusTransaction now i d to dto a s = (Inl e, s') \<Longrightarrow> s' = s"
  by (auto simp: statusTransaction_def prismaUpdateDocument_def split: option.splits)

lemma updateStatus_Inl:
  assumes "updateStatus now i dto u c s = (Inl e, s')"
  shows "only_logs s s'"
proof (cases rule: scoped_cases [of now "c_actorId c" i s "\<lambda>d t. (Inr d, t)"])
  case (missing e')
  then show ?thesis
    using assms only_logs_findInOrgOrThrow [of s now "c_actorId c" i]
    by (cases "findInOrgOrThrow now (c_actorId c) i s")
      (auto simp: updateStatus_def docSeenBy_def split: sum.splits)
next
  case (found d t)
  have "s' = t"
    using assms unfolding updateStatus_def found(4) andThen_simps Let_def
    by (auto simp: throw_def return_def andThen_def split: if_splits option.splits prod.splits sum.splits
        dest: statusTransaction_Inl)
  then show ?thesis using found(2) by simp
qed

lemma updateStatus_Inr:
  assumes "updateStatus now i dto u c s = (Inr d', s')"
  obtains d tr t where "docSeenBy now (c_actorId c) i s = Some d" "TRANSITION_MAP (us_action dto) = Some tr"
    "d_status d = tr_from tr" "us_status dto = tr_to tr" "only_logs s t"
    "\<exists>r \<in> set (coalesce (u_roles u) []). r \<in> {''editor'', ''approver'', ''admin''}"
    "statusTransaction now i d (tr_to tr) dto (buildActorId u) t = (Inr d', s'\<lparr>auditPosts := auditPosts t\<rparr>)"
    "\<exists>r. find_row d_id i (documents s) = Some r"
proof (cases rule: scoped_cases [of now "c_actorId c" i s "\<lambda>d t. (Inr d, t)"])
  case (missing e')
  then show thesis using assms
    by (cases "findInOrgOrThrow now (c_actorId c) i s")
      (auto simp: updateStatus_def docSeenBy_def split: sum.splits)
next
  case (found d t)
  obtain tr s1 where tr: "TRANSITION_MAP (us_action dto) = Some tr" "d_status d = tr_from tr"
    "us_status dto = tr_to tr"
    "\<exists>r \<in> set (coalesce (u_roles u) []). r \<in> {''editor'', ''approver'', ''admin''}"
    and tx: "statusTransaction now i d (tr_to tr) dto (buildActorId u) t = (Inr d', s1)"
    and s': "\<exists>ev. s' = emitEvent now c ev s1"
    using assms unfolding updateStatus_def found(4) andThen_simps Let_def
    by (auto simp: andThen_Inr_iff list_ex_iff split: if_splits option.splits)
  have "auditPosts s1 = auditPosts t" using tx by (auto simp: statusTransaction_Inr)
  then have "s'\<lparr>auditPosts := auditPosts t\<rparr> = s1" using s' by (auto simp: emitEvent_def)
  moreover have "\<exists>r. find_row d_id i (documents s) = Some r"
    using tx found(2) by (auto simp: statusTransaction_Inr only_logsD)
  ultimately show thesis using that [OF found(1) tr(1,2,3) found(2) tr(4)] tx by simp
qed

end
