(* ===== verification/Documents_Service.thy ===== *)
theory Documents_Service
  imports Status_Service "HOL-Library.Product_Lexorder"
begin

text \<open>
  Documents: \<open>services/metadata-service/src/documents/documents.service.ts\<close> and
  \<open>approvers/approver-directory.service.ts\<close>. Creation and metadata updates with the
  DLP downgrade guard, legal hold, the approval chain, the trash with its
  recovery window and purge job, and the row-level visibility of the listing.
\<close>

section \<open>Creation and update\<close>

definition sanitizeTags :: "string list option \<Rightarrow> string list" where
  "sanitizeTags tags = (case tags of None \<Rightarrow> [] | Some ts \<Rightarrow> unique (filter truthy (map trim ts)))"

record create_document_dto =
  cd_title :: string
  cd_description :: "string option"
  cd_classification :: "classification option"
  cd_tags :: "string list option"

text \<open>The row \<open>prisma.document.create\<close> inserts, with the defaults of the schema.\<close>

definition newDocument :: "int \<Rightarrow> string \<Rightarrow> string \<Rightarrow> create_document_dto \<Rightarrow> string \<Rightarrow> document" where
  "newDocument now newId organizationId dto ownerId = \<lparr>
     d_id = newId, d_organizationId = organizationId, d_title = cd_title dto,
     d_description = cd_description dto, d_ownerId = ownerId,
     d_classification = coalesce (cd_classification dto) INTERNAL,
     d_dlpStatus = ''NOT_SCANNED'', d_dlpFindings = None, d_dlpDetectedAt = None,
     d_retentionClass = None, d_retentionUntil = None, d_retentionReason = None,
     d_legalHold = False, d_legalHoldReason = None, d_legalHoldBy = None, d_legalHoldAt = None,
     d_approvalChain = [], d_approvalStep = 0, d_tags = sanitizeTags (cd_tags dto),
     d_status = DRAFT, d_currentVersion = 0, d_createdAt = now, d_updatedAt = now,
     d_publishedAt = None, d_archivedAt = None, d_deletedAt = None \<rparr>"

definition createDocument :: "int \<Rightarrow> string \<Rightarrow> create_document_dto \<Rightarrow> request_context \<Rightarrow> vault \<Rightarrow>
  (document, vault) outcome" where
  "createDocument now newId dto context s =
     andThen (requireOrgId now (c_actorId context) s) (\<lambda>organizationId s.
       if find_row d_id newId (documents s) \<noteq> None
       then throw (JsError ''Unique constraint failed'') s
       else let created = newDocument now newId organizationId dto (c_actorId context)
         in return created (emitEvent now context \<lparr>
              ap_action = ''DOCUMENT_CREATED'', ap_resourceType = ''DOCUMENT'',
              ap_resourceId = Some (d_id created), ap_result = ''SUCCESS'', ap_reason = None,
              ap_metadata = [(''docId'', JStr (d_id created)), (''title'', JStr (d_title created)),
                (''classification'', JStr (show_classification (d_classification created))),
                (''tags'', j_strs (d_tags created)), (''ownerId'', JStr (d_ownerId created)),
                (''createdAt'', JDate (d_createdAt created))] \<rparr>
              (s\<lparr>documents := documents s @ [created]\<rparr>)))"

definition assertCanManage :: "string \<Rightarrow> string \<Rightarrow> string list \<Rightarrow> vault \<Rightarrow> (unit, vault) outcome" where
  "assertCanManage ownerId actorId roles s =
     (let isEditor = ''editor'' \<in> set roles \<or> ''admin'' \<in> set roles
      in if \<not> isEditor \<or> (ownerId \<noteq> actorId \<and> ''admin'' \<notin> set roles)
         then throw (Forbidden ''Only the owner editor or admin can mutate metadata'') s
         else return () s)"

text \<open>A field of an update: absent (\<open>undefined\<close>), or present with its value.\<close>

record update_document_dto =
  ud_title :: "string option"
  ud_description :: "string option"
  ud_classification :: "classification option"
  ud_classificationOverrideReason :: "string option"
  ud_tags :: "string list option"

definition dlpEvent :: "string \<Rightarrow> string \<Rightarrow> string \<Rightarrow> string \<Rightarrow> document \<Rightarrow> classification \<Rightarrow> fields \<Rightarrow> audit_payload" where
  "dlpEvent action result reason i document requested extra = \<lparr>
     ap_action = action, ap_resourceType = ''DOCUMENT'', ap_resourceId = Some i,
     ap_result = result, ap_reason = Some reason,
     ap_metadata = [(''docId'', JStr i),
       (''currentClassification'', JStr (show_classification (d_classification document))),
       (''requestedClassification'', JStr (show_classification requested)),
       (''dlpStatus'', JStr (d_dlpStatus document))] @ extra \<rparr>"

text \<open>The guard on the classification of a document with DLP findings.\<close>

definition dlpDowngradeGuard :: "int \<Rightarrow> string \<Rightarrow> update_document_dto \<Rightarrow> request_context \<Rightarrow> document \<Rightarrow>
  vault \<Rightarrow> (unit, vault) outcome" where
  "dlpDowngradeGuard now i dto context document s =
     (case ud_classification dto of
        None \<Rightarrow> return () s
      | Some requested \<Rightarrow>
          if d_dlpStatus document = ''DETECTED'' \<and> requested \<in> {PUBLIC, INTERNAL}
          then let overrideReason = map_option trim (ud_classificationOverrideReason dto);
                   isAdmin = ''admin'' \<in> set (c_roles context)
            in if \<not> isAdmin
               then throw (Forbidden ''DLP-detected documents cannot be downgraded below CONFIDENTIAL'')
                 (emitEvent now context (dlpEvent ''DLP_CLASSIFICATION_DOWNGRADE_DENIED'' ''DENY''
                   ''DLP-detected documents cannot be downgraded below CONFIDENTIAL'' i document requested []) s)
               else if \<not> truthy_opt overrideReason
               then throw (BadRequest ''Admin override reason is required for DLP classification downgrade'')
                 (emitEvent now context (dlpEvent ''DLP_CLASSIFICATION_DOWNGRADE_DENIED'' ''DENY''
                   ''Admin override reason is required for DLP classification downgrade'' i document requested []) s)
               else return () (emitEvent now context
                 (dlpEvent ''DLP_CLASSIFICATION_OVERRIDE_APPROVED'' ''SUCCESS'' (the overrideReason)
                   i document requested [(''overrideReason'', JStr (the overrideReason))]) s)
          else return () s)"

definition metadataChanges :: "document \<Rightarrow> update_document_dto \<Rightarrow> fields" where
  "metadataChanges document dto =
     j_optional ''title'' (\<lambda>t. JObj [(''old'', JStr (d_title document)), (''new'', JStr t)]) (ud_title dto) @
     j_optional ''description''
       (\<lambda>t. JObj [(''old'', j_nullable JStr (d_description document)), (''new'', JStr t)]) (ud_description dto) @
     j_optional ''classification''
       (\<lambda>c. JObj [(''old'', JStr (show_classification (d_classification document))),
                  (''new'', JStr (show_classification c))]) (ud_classification dto) @
     j_optional ''tags'' (\<lambda>t. JObj [(''old'', j_strs (d_tags document)),
                                (''new'', j_strs (sanitizeTags (Some t)))]) (ud_tags dto)"

definition applyUpdate :: "update_document_dto \<Rightarrow> document \<Rightarrow> document" where
  "applyUpdate dto d =
     (let d = (case ud_title dto of None \<Rightarrow> d | Some t \<Rightarrow> d\<lparr> d_title := t \<rparr>);
          d = (case ud_description dto of None \<Rightarrow> d | Some t \<Rightarrow> d\<lparr> d_description := Some t \<rparr>);
          d = (case ud_classification dto of None \<Rightarrow> d | Some c \<Rightarrow> d\<lparr> d_classification := c \<rparr>)
      in case ud_tags dto of None \<Rightarrow> d | Some ts \<Rightarrow> d\<lparr> d_tags := sanitizeTags (Some ts) \<rparr>)"

definition updateDocument :: "int \<Rightarrow> string \<Rightarrow> update_document_dto \<Rightarrow> request_context \<Rightarrow> vault \<Rightarrow>
  (document, vault) outcome" where
  "updateDocument now i dto context s =
     andThen (findInOrgOrThrow now (c_actorId context) i s) (\<lambda>document s.
     andThen (assertCanManage (d_ownerId document) (c_actorId context) (c_roles context) s) (\<lambda>_ s.
     andThen (dlpDowngradeGuard now i dto context document s) (\<lambda>_ s.
     andThen (prismaUpdateDocument now i (applyUpdate dto) s) (\<lambda>updated s.
       return updated (emitEvent now context \<lparr>
         ap_action = ''DOCUMENT_METADATA_UPDATED'', ap_resourceType = ''DOCUMENT'',
         ap_resourceId = Some i, ap_result = ''SUCCESS'', ap_reason = None,
         ap_metadata = [(''docId'', JStr i), (''changes'', JObj (metadataChanges document dto)),
           (''updatedAt'', JDate (d_updatedAt updated))] \<rparr> s)))))"

section \<open>Legal hold\<close>

record legal_hold_dto =
  lh_hold :: bool
  lh_reason :: "string option"

definition applyLegalHold :: "int \<Rightarrow> legal_hold_dto \<Rightarrow> string \<Rightarrow> document \<Rightarrow> document" where
  "applyLegalHold now input actorId d =
     (if lh_hold input
      then d\<lparr> d_legalHold := True, d_legalHoldReason := map_option trim (lh_reason input),
             d_legalHoldBy := Some actorId, d_legalHoldAt := Some now \<rparr>
      else d\<lparr> d_legalHold := False, d_legalHoldReason := None, d_legalHoldBy := None,
             d_legalHoldAt := None \<rparr>)"

definition setLegalHold :: "int \<Rightarrow> string \<Rightarrow> legal_hold_dto \<Rightarrow> request_context \<Rightarrow> vault \<Rightarrow>
  (document, vault) outcome" where
  "setLegalHold now i input context s =
     (if ''admin'' \<notin> set (c_roles context)
      then throw (Forbidden ''Only admins can change legal hold'') s
      else andThen (findInOrgOrThrow now (c_actorId context) i s) (\<lambda>_ s.
        let reason = map_option trim (lh_reason input) in
        if lh_hold input \<and> \<not> truthy_opt reason
        then throw (BadRequest ''A reason is required to place a legal hold'') s
        else andThen (prismaUpdateDocument now i (applyLegalHold now input (c_actorId context)) s)
          (\<lambda>updated s. return updated (emitEvent now context \<lparr>
            ap_action = (if lh_hold input then ''DOCUMENT_LEGAL_HOLD_PLACED''
                         else ''DOCUMENT_LEGAL_HOLD_RELEASED''),
            ap_resourceType = ''DOCUMENT'', ap_resourceId = Some i, ap_result = ''SUCCESS'',
            ap_reason = (if lh_hold input then reason else Some ''Legal hold released''),
            ap_metadata = [(''docId'', JStr i), (''legalHold'', JBool (lh_hold input))] @
              (if lh_hold input \<and> truthy_opt reason
               then [(''legalHoldReason'', JStr (the reason))] else []) \<rparr> s))))"

section \<open>Trash\<close>

definition trashRecoveryDays :: int where
  "trashRecoveryDays = 30"

record trash_entry =
  te_docId :: string
  te_title :: string
  te_ownerId :: string
  te_classification :: classification
  te_deletedAt :: "int option"
  te_purgeAt :: "int option"
  te_daysUntilPurge :: "int option"
  te_recoverable :: bool

definition toTrashEntry :: "int \<Rightarrow> document \<Rightarrow> trash_entry" where
  "toTrashEntry now doc =
     (let purgeAt = map_option (\<lambda>t. t + trashRecoveryDays * DAY_MS) (d_deletedAt doc);
          daysUntilPurge = map_option (\<lambda>t. ceil_div (t - now) DAY_MS) purgeAt
      in \<lparr> te_docId = d_id doc, te_title = d_title doc, te_ownerId = d_ownerId doc,
           te_classification = d_classification doc, te_deletedAt = d_deletedAt doc,
           te_purgeAt = purgeAt, te_daysUntilPurge = daysUntilPurge,
           te_recoverable = (case daysUntilPurge of None \<Rightarrow> False | Some n \<Rightarrow> n > 0) \<rparr>)"

text \<open>\<open>orderBy deletedAt desc\<close>; PostgreSQL puts the rows without a value first.\<close>

definition deletedAtDesc :: "document \<Rightarrow> int \<times> int" where
  "deletedAtDesc d = (case d_deletedAt d of None \<Rightarrow> (0, 0) | Some t \<Rightarrow> (1, - t))"

definition listTrash :: "int \<Rightarrow> request_context \<Rightarrow> vault \<Rightarrow> (trash_entry list, vault) outcome" where
  "listTrash now context s =
     andThen (requireOrgId now (c_actorId context) s) (\<lambda>organizationId s.
       let isAdmin = (''admin'' \<in> set (c_roles context));
           rows = filter (\<lambda>d. d_organizationId d = organizationId \<and> d_status d = DELETED
             \<and> (isAdmin \<or> d_ownerId d = c_actorId context)) (documents s)
       in return (map (toTrashEntry now) (sort_key deletedAtDesc rows)) s)"

definition restoreFromTrash :: "int \<Rightarrow> string \<Rightarrow> request_context \<Rightarrow> vault \<Rightarrow> (document, vault) outcome" where
  "restoreFromTrash now i context s =
     andThen (findInOrgOrThrow now (c_actorId context) i s) (\<lambda>document s.
       if d_status document \<noteq> DELETED
       then throw (BadRequest ''Only deleted documents can be restored'') s
       else if ''admin'' \<notin> set (c_roles context) \<and> d_ownerId document \<noteq> c_actorId context
       then throw (Forbidden ''Only the owner or an admin can restore this document'') s
       else if (case d_deletedAt document of None \<Rightarrow> False
                  | Some deletedAt \<Rightarrow> now > deletedAt + trashRecoveryDays * DAY_MS)
       then throw (BadRequest ''The recovery window for this document has elapsed'') s
       else andThen (prismaUpdateDocument now i (\<lambda>d. d\<lparr> d_status := DRAFT, d_deletedAt := None \<rparr>) s)
         (\<lambda>restored s. return restored (emitEvent now context \<lparr>
           ap_action = ''DOCUMENT_RESTORED_FROM_TRASH'', ap_resourceType = ''DOCUMENT'',
           ap_resourceId = Some i, ap_result = ''SUCCESS'', ap_reason = None,
           ap_metadata = [(''docId'', JStr i), (''restoredTo'', JStr ''DRAFT'')] \<rparr> s)))"

text \<open>\<open>prisma.document.delete\<close>, with the cascades of the schema.\<close>

definition prismaDeleteDocument :: "string \<Rightarrow> vault \<Rightarrow> (unit, vault) outcome" where
  "prismaDeleteDocument i s =
     (if find_row d_id i (documents s) = None
      then throw (JsError ''Record to delete does not exist.'') s
      else return () (s\<lparr> documents := delete_row d_id i (documents s),
        versions := filter (\<lambda>v. v_docId v \<noteq> i) (versions s),
        acls := filter (\<lambda>a. a_docId a \<noteq> i) (acls s),
        history := filter (\<lambda>h. h_docId h \<noteq> i) (history s),
        comments := filter (\<lambda>c. cm_docId c \<noteq> i) (comments s),
        shareLinks := filter (\<lambda>l. sl_docId l \<noteq> i) (shareLinks s) \<rparr>))"

definition purgeContext :: request_context where
  "purgeContext = \<lparr> c_traceId = Some ''trash-purge-job'', c_authorization = Some [],
     c_actorId = ''system:trash-purge'', c_roles = [''admin''], c_groups = None,
     c_ip = Some ''127.0.0.1'' \<rparr>"

definition purgeOne :: "int \<Rightarrow> document \<Rightarrow> int \<times> int \<times> vault \<Rightarrow> int \<times> int \<times> vault" where
  "purgeOne now doc acc =
     (case acc of (purged, failed, s) \<Rightarrow>
        (case prismaDeleteDocument (d_id doc) s of
           (Inl _, s) \<Rightarrow> (purged, failed + 1, s)
         | (Inr _, s) \<Rightarrow> (purged + 1, failed, emitEvent now purgeContext \<lparr>
             ap_action = ''DOCUMENT_TRASH_PURGED'', ap_resourceType = ''DOCUMENT'',
             ap_resourceId = Some (d_id doc), ap_result = ''SUCCESS'',
             ap_reason = Some ''Trash recovery window elapsed'',
             ap_metadata = [(''docId'', JStr (d_id doc)), (''title'', JStr (d_title doc)),
               (''deletedAt'', j_nullable JDate (d_deletedAt doc)), (''purgedAt'', JDate now)] \<rparr> s)))"

definition expiredTrash :: "int \<Rightarrow> document \<Rightarrow> bool" where
  "expiredTrash now d = (d_status d = DELETED \<and>
     (case d_deletedAt d of None \<Rightarrow> False | Some t \<Rightarrow> t < now - trashRecoveryDays * DAY_MS))"

record purge_result =
  pr_purged :: int
  pr_failed :: int
  pr_checkedAt :: int

definition purgeExpiredTrash :: "int \<Rightarrow> vault \<Rightarrow> purge_result \<times> vault" where
  "purgeExpiredTrash now s =
     (let expired = filter (expiredTrash now) (documents s)
      in case fold (purgeOne now) expired (0, 0, s) of (purged, failed, s) \<Rightarrow>
           (\<lparr> pr_purged = purged, pr_failed = failed, pr_checkedAt = now \<rparr>, s))"

definition markDeleted :: "int \<Rightarrow> string \<Rightarrow> vault \<Rightarrow> (document, vault) outcome" where
  "markDeleted now i s =
     (case find_row d_id i (documents s) of
        None \<Rightarrow> throw (JsError ''Record to update not found.'') s
      | Some d \<Rightarrow>
          if d_status d = DELETED then throw (JsError ''Record to update not found.'') s
          else prismaUpdateDocument now i (\<lambda>d. d\<lparr> d_status := DELETED, d_deletedAt := Some now \<rparr>) s)"

section \<open>Approval chain\<close>

definition setApprovalChain :: "int \<Rightarrow> string \<Rightarrow> string list \<Rightarrow> request_context \<Rightarrow> vault \<Rightarrow>
  (document, vault) outcome" where
  "setApprovalChain now i approversInput context s =
     andThen (findInOrgOrThrow now (c_actorId context) i s) (\<lambda>document s.
       let isAdmin = (''admin'' \<in> set (c_roles context));
           isOwnerEditor = (d_ownerId document = c_actorId context
             \<and> (''editor'' \<in> set (c_roles context) \<or> ''admin'' \<in> set (c_roles context)))
       in if \<not> isAdmin \<and> \<not> isOwnerEditor
          then throw (Forbidden ''Only the owner editor or an admin can configure the approval chain'') s
          else if \<not> (d_status document = PENDING \<and> d_approvalStep document = 0)
          then throw (BadRequest ''Approval chain can only be configured while the document is pending before any approval'') s
          else let approvers = filter truthy (map trim approversInput) in
            if approvers = []
            then throw (BadRequest ''Approval chain must have at least one approver'') s
            else if length (unique approvers) \<noteq> length approvers
            then throw (BadRequest ''Approval chain cannot contain duplicates'') s
            else andThen (prismaUpdateDocument now i
                (\<lambda>d. d\<lparr> d_approvalChain := approvers, d_approvalStep := 0 \<rparr>) s)
              (\<lambda>updated s. return updated (emitEvent now context \<lparr>
                ap_action = ''DOCUMENT_APPROVAL_CHAIN_SET'', ap_resourceType = ''DOCUMENT'',
                ap_resourceId = Some i, ap_result = ''SUCCESS'', ap_reason = None,
                ap_metadata = [(''docId'', JStr i),
                  (''approverCount'', JNum (int (length approvers)))] \<rparr> s)))"

definition advanceApprovalStep :: "int \<Rightarrow> string \<Rightarrow> request_context \<Rightarrow> vault \<Rightarrow> (document, vault) outcome" where
  "advanceApprovalStep now i context s =
     andThen (findInOrgOrThrow now (c_actorId context) i s) (\<lambda>document s.
       let nextStep = d_approvalStep document + 1
       in prismaUpdateDocument now i (\<lambda>d. d\<lparr> d_approvalStep := nextStep \<rparr>) s)"

section \<open>Approver directory\<close>

definition APPROVER_CACHE_TTL_MS :: int where
  "APPROVER_CACHE_TTL_MS = 60000"

text \<open>
  \<open>keycloakRoleUsers\<close> is what the two role queries answer, \<open>None\<close> when a request
  fails; a failure is not cached.
\<close>

definition fetchApprovers :: "int \<Rightarrow> vault \<Rightarrow> string list \<times> vault" where
  "fetchApprovers now s =
     (if \<not> (truthy_opt (env s ''KEYCLOAK_BASE_URL'') \<and> truthy_opt (env s ''KEYCLOAK_REALM'')
            \<and> truthy_opt (env s ''KEYCLOAK_ADMIN'') \<and> truthy_opt (env s ''KEYCLOAK_ADMIN_PASSWORD''))
      then ([], s\<lparr>approverCache := Some ([], now + APPROVER_CACHE_TTL_MS)\<rparr>)
      else case keycloakRoleUsers s of
        None \<Rightarrow> ([], s)
      | Some (approverIds, adminIds) \<Rightarrow>
          let ids = unique (filter truthy approverIds @ filter truthy adminIds)
          in (ids, s\<lparr>approverCache := Some (ids, now + APPROVER_CACHE_TTL_MS)\<rparr>))"

definition getApprovers :: "int \<Rightarrow> vault \<Rightarrow> string list \<times> vault" where
  "getApprovers now s =
     (case approverCache s of
        Some (ids, expiresAt) \<Rightarrow> if expiresAt > now then (ids, s) else fetchApprovers now s
      | None \<Rightarrow> fetchApprovers now s)"

end
