(* ===== verification/Document_Listing.thy ===== *)
theory Document_Listing
  imports Documents_Service Policy_Properties
begin

text \<open>
  The document listing: \<open>findAll\<close>, \<open>findAllForOrg\<close> and \<open>toListSummary\<close> of
  \<open>documents.service.ts\<close>, with the visibility filter the database evaluates, and
  its relation to the metadata-read decision of the policy service. The filter a
  search query adds is an argument here.
\<close>

section \<open>Operations\<close>

datatype list_caller = FromUser service_user | FromContext request_context

definition groupSubjectIds :: "string list \<Rightarrow> string list" where
  "groupSubjectIds groups = unique (concat (map (\<lambda>group. [group, ''/'' @ group]) groups))"

definition aclSubjects :: "string \<Rightarrow> string list \<Rightarrow> string list \<Rightarrow> (subject_type \<times> string option) list" where
  "aclSubjects actorId roles groups =
     [(ALL_SUBJECTS, None), (USER, Some actorId)] @ map (\<lambda>role. (ROLE, Some role)) roles
     @ map (\<lambda>group. (GROUP, Some group)) (groupSubjectIds groups)"

text \<open>\<open>aclEntries: { some: { ...matchingReadAcl, effect } }\<close>\<close>

definition someReadAcl :: "(subject_type \<times> string option) list \<Rightarrow> acl_effect \<Rightarrow> acl_entry list \<Rightarrow> bool" where
  "someReadAcl subjects effect entries =
     list_ex (\<lambda>a. a_permission a = READ \<and> (a_subjectType a, a_subjectId a) \<in> set subjects
       \<and> a_effect a = effect) entries"

definition anyRole :: "string list \<Rightarrow> string list \<Rightarrow> bool" where
  "anyRole wanted roles = list_ex (\<lambda>r. r \<in> set roles) wanted"

definition visibilityFilter :: "string \<Rightarrow> string list \<Rightarrow> bool \<Rightarrow> document \<Rightarrow> bool" where
  "visibilityFilter actorId roles readAllow d =
     (d_ownerId d = actorId
      \<or> readAllow
      \<or> ''compliance_officer'' \<in> set roles \<and> d_status d \<in> {PUBLISHED, ARCHIVED}
      \<or> anyRole [''approver'', ''admin''] roles \<and> d_status d \<in> {PENDING, PUBLISHED, ARCHIVED}
      \<or> d_ownerId d = actorId \<and> d_status d = DRAFT
      \<or> anyRole [''viewer'', ''editor'', ''approver'', ''compliance_officer'', ''admin''] roles
          \<and> d_status d \<in> {PUBLISHED, ARCHIVED} \<and> d_classification d = PUBLIC
      \<or> anyRole [''editor'', ''approver'', ''admin''] roles
          \<and> d_status d \<in> {PUBLISHED, ARCHIVED} \<and> d_classification d = INTERNAL
      \<or> anyRole [''approver'', ''admin''] roles
          \<and> d_status d \<in> {PUBLISHED, ARCHIVED} \<and> d_classification d = CONFIDENTIAL
      \<or> anyRole [''approver'', ''admin''] roles
          \<and> d_status d \<in> {PUBLISHED, ARCHIVED} \<and> d_classification d = SECRET)"

record list_summary =
  ls_document :: document
  ls_filename :: "string option"
  ls_contentType :: "string option"
  ls_mimeType :: "string option"
  ls_fileSize :: "int option"

text \<open>\<open>include\<close> of the latest version, and the summary built from it.\<close>

definition latestVersion :: "string \<Rightarrow> vault \<Rightarrow> doc_version option" where
  "latestVersion i s = head_option (sort_key (\<lambda>v. - v_version v) (filter (\<lambda>v. v_docId v = i) (versions s)))"

definition toListSummary :: "document \<Rightarrow> doc_version option \<Rightarrow> list_summary" where
  "toListSummary document latest =
     (case latest of
        None \<Rightarrow> \<lparr> ls_document = document, ls_filename = None, ls_contentType = None,
                  ls_mimeType = None, ls_fileSize = None \<rparr>
      | Some v \<Rightarrow> \<lparr> ls_document = document, ls_filename = Some (v_filename v),
                  ls_contentType = v_contentType v, ls_mimeType = v_contentType v,
                  ls_fileSize = Some (v_size v) \<rparr>)"

definition listedDocument :: "string \<Rightarrow> string \<Rightarrow> string list \<Rightarrow> string list \<Rightarrow>
  (document \<Rightarrow> bool) option \<Rightarrow> vault \<Rightarrow> document \<Rightarrow> bool" where
  "listedDocument organizationId actorId roles groups searchFilter s d =
     (let subjects = aclSubjects actorId roles groups; entries = aclEntriesOf (d_id d) s
      in d_organizationId d = organizationId
         \<and> (case searchFilter of None \<Rightarrow> True | Some f \<Rightarrow> f d)
         \<and> d_status d \<noteq> DELETED
         \<and> \<not> someReadAcl subjects DENY entries
         \<and> (''admin'' \<in> set roles
            \<or> visibilityFilter actorId roles (someReadAcl subjects ALLOW entries) d))"

definition findAllForOrg :: "string \<Rightarrow> string \<Rightarrow> string list \<Rightarrow> string list \<Rightarrow>
  (document \<Rightarrow> bool) option \<Rightarrow> vault \<Rightarrow> list_summary list" where
  "findAllForOrg organizationId actorId roles groups searchFilter s =
     map (\<lambda>d. toListSummary d (latestVersion (d_id d) s))
       (sort_key (\<lambda>d. - d_createdAt d)
         (filter (listedDocument organizationId actorId roles groups searchFilter s) (documents s)))"

definition findAll :: "int \<Rightarrow> list_caller option \<Rightarrow> (document \<Rightarrow> bool) option \<Rightarrow> vault \<Rightarrow>
  (list_summary list, vault) outcome" where
  "findAll now caller searchFilter s =
     (case caller of
        None \<Rightarrow> return [] s
      | Some c \<Rightarrow>
          let (actorId, roles, groups) =
            (case c of
               FromUser u \<Rightarrow> (buildActorId u, coalesce (u_roles u) [], normalizeGroups (u_groups u))
             | FromContext ctx \<Rightarrow> (c_actorId ctx, c_roles ctx, normalizeGroups (c_groups ctx)))
          in andThen (requireOrgId now actorId s)
               (\<lambda>organizationId s. return (findAllForOrg organizationId actorId roles groups searchFilter s) s))"

section \<open>Normalised rules\<close>

text \<open>
  Rules as the ACL service stores them: a subject for every type but ALL, and
  group names that normalise to themselves.
\<close>

definition rule_normal :: "acl_entry \<Rightarrow> bool" where
  "rule_normal a =
     (case a_subjectType a of
        ALL_SUBJECTS \<Rightarrow> a_subjectId a = None
      | GROUP \<Rightarrow> (case a_subjectId a of None \<Rightarrow> False
                  | Some g \<Rightarrow> g \<noteq> [] \<and> normalizeGroups (Some [g]) = [g])
      | _ \<Rightarrow> (case a_subjectId a of None \<Rightarrow> False | Some i \<Rightarrow> i \<noteq> []))"

lemma strip_slashes_no_slash: "strip_slashes cs \<noteq> CHR ''/'' # ds"
proof
  assume e: "strip_slashes cs = CHR ''/'' # ds"
  then have "dropWhile (\<lambda>c. c = CHR ''/'') cs \<noteq> []" by (simp add: strip_slashes_def)
  from hd_dropWhile [OF this] e show False by (simp add: strip_slashes_def)
qed

lemma normalizeGroups_no_slash: "g \<in> set (normalizeGroups gs) \<Longrightarrow> g \<noteq> CHR ''/'' # h"
  using strip_slashes_no_slash by (auto simp: normalizeGroups_def)

lemma matchesGroup_normal:
  assumes "normalizeGroups (Some [g]) = [g]" "g \<noteq> []"
  shows "matchesGroupSubject (Some g) groups \<longleftrightarrow> g \<in> set groups"
  using assms by (simp add: matchesGroupSubject_def truthy_def)

lemma subject_listed:
  assumes "rule_normal a" "groups = normalizeGroups gs"
  shows "matchesSubject a actorId roles groups \<longleftrightarrow>
    (a_subjectType a, a_subjectId a) \<in> set (aclSubjects actorId roles groups)"
proof (cases "a_subjectType a")
  case GROUP
  then obtain g where g: "a_subjectId a = Some g" "g \<noteq> []" "normalizeGroups (Some [g]) = [g]"
    using assms(1) by (auto simp: rule_normal_def split: option.splits)
  have "g \<noteq> CHR ''/'' # h" for h using normalizeGroups_no_slash [of g "Some [g]"] g(3) by simp
  then show ?thesis
    using GROUP g matchesGroup_normal [OF g(3,2)]
    by (auto simp: matchesSubject_def aclSubjects_def groupSubjectIds_def)
qed (use assms in \<open>auto simp: rule_normal_def matchesSubject_def aclSubjects_def truthy_def split: option.splits\<close>)

lemma someReadAcl_rule:
  assumes "\<forall>a \<in> set (acls s). rule_normal a" "groups = normalizeGroups gs"
  shows "someReadAcl (aclSubjects actorId roles groups) e (aclEntriesOf i s)
    \<longleftrightarrow> acl_rule s i READ e actorId roles groups"
  using assms subject_listed [OF _ assms(2)]
  by (auto simp: someReadAcl_def acl_rule_def aclEntriesOf_def list_ex_iff)

lemma acl_rule_groups:
  assumes "set gs = set gs'"
  shows "acl_rule s i p e a rs gs = acl_rule s i p e a rs gs'"
proof -
  have "matchesSubject x a rs gs = matchesSubject x a rs gs'" for x
    using assms by (cases "a_subjectType x")
      (simp_all add: matchesSubject_def matchesGroupSubject_def split: option.splits)
  then show ?thesis by (simp add: acl_rule_def)
qed

lemma metadata_readable_groups:
  "set gs = set gs' \<Longrightarrow> metadata_readable sh a rs gs d s = metadata_readable sh a rs gs' d s"
  unfolding metadata_readable_def by (simp only: acl_rule_groups [of gs gs'])

section \<open>Listed documents are readable\<close>

lemma listed_readable:
  assumes "listedDocument org a rs gs f s d" "\<forall>x \<in> set (acls s). rule_normal x" "gs = normalizeGroups g0"
    and "\<not> (''compliance_officer'' \<in> set rs \<and> ''approver'' \<in> set rs)"
  shows "metadata_readable False a rs gs d s \<and> d_status d \<noteq> DELETED \<and> d_organizationId d = org"
proof -
  note r = someReadAcl_rule [OF assms(2,3)]
  show ?thesis
    using assms(1,4) unfolding listedDocument_def Let_def r
    by (auto simp: metadata_readable_def visibilityFilter_def anyRole_def)
qed

lemma request_groups:
  assumes "\<And>g. u_groups (r_user req) = Some g \<Longrightarrow>
      set (normalizeGroups (Some (normalizeGroups (Some g)))) = set (normalizeGroups (Some g))"
  shows "set (getActorGroups (r_user req) (buildRequestContext req)) =
    set (normalizeGroups (c_groups (buildRequestContext req)))"
proof -
  have app: "set (normalizeGroups (Some (x @ y))) = set (normalizeGroups (Some x)) \<union> set (normalizeGroups (Some y))"
    for x y by (auto simp: normalizeGroups_def)
  show ?thesis
    using assms by (cases "u_groups (r_user req)")
      (auto simp: getActorGroups_def buildRequestContext_def app)
qed

lemma findInOrg_distinct:
  "distinct (map d_id (documents s)) \<Longrightarrow> d \<in> set (documents s) \<Longrightarrow>
   findInOrg (d_id d) (d_organizationId d) s = Some d"
proof -
  assume dist: "distinct (map d_id (documents s))" and d: "d \<in> set (documents s)"
  have "find (\<lambda>x. d_id x = d_id d \<and> d_organizationId x = d_organizationId d) xs = Some d"
    if "distinct (map d_id xs)" "d \<in> set xs" for xs
    using that by (induction xs) (auto simp: image_iff)
  then show ?thesis using dist d by (simp add: findInOrg_def)
qed

text \<open>
  C29: every document a request sees in the listing is one whose metadata the
  same request may read, for stored rules, stable group names and callers who
  are not approver and compliance officer at once.
\<close>

theorem listed_is_readable:
  assumes l: "findAll now (Some (FromContext (buildRequestContext req))) f s = (Inr ls, t)"
    and x: "x \<in> set ls"
    and dist: "distinct (map d_id (documents s))" and rules: "\<forall>a \<in> set (acls s). rule_normal a"
    and groups: "\<forall>g. u_groups (r_user req) = Some g \<longrightarrow>
      set (normalizeGroups (Some (normalizeGroups (Some g)))) = set (normalizeGroups (Some g))"
    and roles: "\<not> (''compliance_officer'' \<in> set (c_roles (buildRequestContext req))
                 \<and> ''approver'' \<in> set (c_roles (buildRequestContext req)))"
  shows "\<exists>t. assertCanReadMetadata cr now (d_id (ls_document x)) (r_user req) (buildRequestContext req) None s
    = (Inr (ls_document x), t)"
proof -
  let ?c = "buildRequestContext req" and ?d = "ls_document x"
  obtain org s' where o: "requireOrgId now (c_actorId ?c) s = (Inr org, s')"
    and ls: "ls = findAllForOrg org (c_actorId ?c) (c_roles ?c) (normalizeGroups (c_groups ?c)) f s'"
    using l by (auto simp: findAll_def andThen_Inr_iff)
  have s': "only_logs s s'" using only_logs_requireOrgId [of s now "c_actorId ?c"] o by simp
  have d: "?d \<in> set (documents s)"
    and lst: "listedDocument org (c_actorId ?c) (c_roles ?c) (normalizeGroups (c_groups ?c)) f s' ?d"
    using x only_logsD [OF s'] unfolding ls findAllForOrg_def
    by (auto simp: toListSummary_def split: option.splits)
  have r: "metadata_readable False (c_actorId ?c) (c_roles ?c) (normalizeGroups (c_groups ?c)) ?d s'"
    "d_status ?d \<noteq> DELETED" "d_organizationId ?d = org"
    using listed_readable [OF lst _ refl roles] rules only_logsD [OF s'] by auto
  have "metadata_readable False (c_actorId ?c) (c_roles ?c) (normalizeGroups (c_groups ?c)) ?d s"
    using r(1) only_logsD [OF s'] by (simp add: metadata_readable_def acl_rule_def)
  then have m: "metadata_readable False (c_actorId ?c) (c_roles ?c)
      (getActorGroups (r_user req) ?c) ?d s"
    using metadata_readable_groups [OF request_groups [of req]] groups by blast
  have "findInOrg (d_id ?d) org s' = Some ?d"
    using findInOrg_distinct [of s' ?d] dist d r(3) only_logsD [OF s'] by simp
  then have "docSeenBy now (c_actorId ?c) (d_id ?d) s = Some ?d"
    using o by (simp add: docSeenBy_def findInOrgOrThrow_def)
  moreover have "buildActorId (r_user req) = c_actorId ?c"
    "coalesce (u_roles (r_user req)) (c_roles ?c) = c_roles ?c"
    by (auto simp: buildRequestContext_def coalesce_def split: option.splits)
  ultimately show ?thesis
    using r(2) m by (simp add: assertCanReadMetadata_Inr_iff)
qed

definition sample_request :: "string \<Rightarrow> string list \<Rightarrow> http_request" where
  "sample_request name roles = \<lparr> r_traceId = Some ''trace'', r_user = sample_user name roles,
     r_requestIdHeader = None, r_authorization = None, r_xRoles = None, r_xGroups = None, r_ip = None \<rparr>"

definition listing_vault :: vault where
  "listing_vault = sample_vault\<lparr> acls := [sample_rule ''a3'' ''d1'' USER (Some ''bob'') READ ALLOW] \<rparr>"

theorem listed_is_readable_witness:
  "\<exists>t. assertCanReadMetadata (sample_crypto JNull) 1000 ''d2'' (sample_user ''carol'' [''approver''])
     (buildRequestContext (sample_request ''carol'' [''approver''])) None listing_vault
   = (Inr pending_document, t)"
proof -
  let ?req = "sample_request ''carol'' [''approver'']"
  let ?m = "findAll 1000 (Some (FromContext (buildRequestContext ?req))) None listing_vault"
  have m: "fst ?m = Inr [toListSummary published_document (Some (sample_version ''d1'' 1)),
      toListSummary pending_document (Some (sample_version ''d2'' 1))]" by code_simp
  have d: "distinct (map d_id (documents listing_vault))" by code_simp
  have r: "\<forall>a \<in> set (acls listing_vault). rule_normal a" by code_simp
  have g: "\<forall>g. u_groups (r_user ?req) = Some g \<longrightarrow>
      set (normalizeGroups (Some (normalizeGroups (Some g)))) = set (normalizeGroups (Some g))"
    by (simp add: sample_request_def sample_user_def)
  have c: "\<not> (''compliance_officer'' \<in> set (c_roles (buildRequestContext ?req))
                 \<and> ''approver'' \<in> set (c_roles (buildRequestContext ?req)))" by code_simp
  have "?m = (Inr [toListSummary published_document (Some (sample_version ''d1'' 1)),
      toListSummary pending_document (Some (sample_version ''d2'' 1))], snd ?m)"
    using m by (simp add: prod_eq_iff)
  from listed_is_readable [OF this _ d r g c, of "toListSummary pending_document (Some (sample_version ''d2'' 1))"]
  have "\<exists>t. assertCanReadMetadata (sample_crypto JNull) 1000 (d_id pending_document) (r_user ?req)
     (buildRequestContext ?req) None listing_vault = (Inr pending_document, t)"
    by (simp add: toListSummary_def)
  then show ?thesis by (simp add: sample_request_def pending_document_def)
qed

text \<open>
  the last condition is needed: an approver who is also a compliance officer
  sees pending documents in the listing whose metadata the policy denies.
\<close>

theorem dual_role_listing_gap:
  "\<exists>s req x. org_inv s \<and> distinct (map d_id (documents s)) \<and> list_all rule_normal (acls s)
     \<and> (case fst (findAll 1000 (Some (FromContext (buildRequestContext req))) None s) of
          Inl _ \<Rightarrow> False | Inr ls \<Rightarrow> x \<in> set ls)
     \<and> \<not> succeeds (assertCanReadMetadata (sample_crypto JNull) 1000 (d_id (ls_document x)) (r_user req)
           (buildRequestContext req) None s)"
proof -
  let ?req = "sample_request ''carol'' [''approver'', ''compliance_officer'']"
  let ?x = "toListSummary pending_document (Some (sample_version ''d2'' 1))"
  have "org_inv listing_vault"
    by (rule org_invI) (auto simp: listing_vault_def sample_defs)
  moreover have "distinct (map d_id (documents listing_vault))" by code_simp
  moreover have "list_all rule_normal (acls listing_vault)" by code_simp
  moreover have "case fst (findAll 1000 (Some (FromContext (buildRequestContext ?req))) None listing_vault) of
      Inl _ \<Rightarrow> False | Inr ls \<Rightarrow> ?x \<in> set ls" by code_simp
  moreover have "\<not> succeeds (assertCanReadMetadata (sample_crypto JNull) 1000 (d_id (ls_document ?x)) (r_user ?req)
       (buildRequestContext ?req) None listing_vault)" by code_simp
  ultimately show ?thesis by blast
qed

end
