(* ===== verification/Versions_Service.thy ===== *)
theory Versions_Service
  imports Documents_Service
begin

text \<open>
  File versions: \<open>services/metadata-service/src/versions/versions.service.ts\<close>. A new
  version must be the next one; it carries the DLP result of its scan to the
  document and raises the classification of a document with findings. A restore
  copies an older version to a new one.
\<close>

record create_version_dto =
  cv_version :: int
  cv_objectKey :: string
  cv_checksum :: string
  cv_size :: int
  cv_filename :: string
  cv_contentType :: "string option"
  cv_dlpStatus :: "string option"
  cv_dlpFindings :: "json list option"
  cv_dlpSuggestedClassification :: "string option"

definition versionsAssertCanManage :: "string \<Rightarrow> service_user \<Rightarrow> vault \<Rightarrow> (unit, vault) outcome" where
  "versionsAssertCanManage ownerId user s =
     (let actorId = buildActorId user; roles = coalesce (u_roles user) []
      in if (''editor'' \<notin> set roles \<and> ''admin'' \<notin> set roles)
            \<or> (ownerId \<noteq> actorId \<and> ''admin'' \<notin> set roles)
         then throw (Forbidden ''Only the owner editor or admin can register versions'') s
         else return () s)"

text \<open>\<open>documentVersion.create\<close>: the pair of document and version is unique.\<close>

definition prismaCreateVersion :: "doc_version \<Rightarrow> vault \<Rightarrow> (doc_version, vault) outcome" where
  "prismaCreateVersion v s =
     (if findVersion (v_docId v) (v_version v) s \<noteq> None
      then throw (JsError ''Unique constraint failed'') s
      else return v (s\<lparr>versions := versions s @ [v]\<rparr>))"

text \<open>
  \<open>Number(finding.count) || 0\<close>, for the numbers and the truth values a JSON
  finding may hold; any other value counts nothing.
\<close>

definition findingCountOf :: "json \<Rightarrow> int" where
  "findingCountOf finding =
     (case finding of
        JObj fs \<Rightarrow> (case map_of fs ''count'' of
           Some (JNum n) \<Rightarrow> n | Some (JBool b) \<Rightarrow> of_bool b | _ \<Rightarrow> 0)
      | _ \<Rightarrow> 0)"

record version_info =
  vi_dlpStatus :: string
  vi_dlpFindings :: "json list"
  vi_escalatedToConfidential :: bool
  vi_docTitle :: "string option"
  vi_suggestedClassification :: "string option"

definition notifyVersionUploaded :: "int \<Rightarrow> string \<Rightarrow> int \<Rightarrow> string \<Rightarrow> service_user \<Rightarrow> request_context \<Rightarrow>
  version_info \<Rightarrow> vault \<Rightarrow> vault" where
  "notifyVersionUploaded now docId version filename user context info s =
     (let (userIds, s) = getApprovers now s;
          recipientIds = filter (\<lambda>i. i \<noteq> buildActorId user) userIds
      in if recipientIds = [] then s
         else let s = notifyClient context \<lparr> np_type = ''VERSION_UPLOADED'', np_docId = docId,
                np_recipientIds = Some recipientIds, np_recipientId = None,
                np_docTitle = vi_docTitle info, np_reason = None,
                np_metadata = [(''version'', JNum version), (''filename'', JStr filename),
                  (''dlpStatus'', JStr (vi_dlpStatus info))] \<rparr> s
           in if vi_dlpStatus info \<noteq> ''DETECTED'' then s
              else notifyClient context \<lparr> np_type = ''DLP_DETECTED'', np_docId = docId,
                np_recipientIds = Some recipientIds, np_recipientId = None,
                np_docTitle = vi_docTitle info, np_reason = None,
                np_metadata = [(''version'', JNum version),
                  (''findingCount'', JNum (sum_list (map findingCountOf (vi_dlpFindings info))))] @
                  j_optional ''suggestedClassification'' JStr (vi_suggestedClassification info) @
                  [(''escalatedToConfidential'', JBool (vi_escalatedToConfidential info))] \<rparr> s)"

text \<open>The document's half of the transaction of \<open>create\<close>.\<close>

definition versionDocumentUpdate :: "int \<Rightarrow> int \<Rightarrow> string \<Rightarrow> json list \<Rightarrow> bool \<Rightarrow> document \<Rightarrow> document" where
  "versionDocumentUpdate now version dlpStatus dlpFindings escalate d =
     (let d = d\<lparr> d_currentVersion := version \<rparr>
      in if dlpStatus = ''DETECTED''
         then let d = d\<lparr> d_dlpStatus := ''DETECTED'', d_dlpFindings := Some (JArr dlpFindings),
                         d_dlpDetectedAt := Some now \<rparr>
           in if escalate then d\<lparr> d_classification := CONFIDENTIAL \<rparr> else d
         else d\<lparr> d_dlpStatus := dlpStatus, d_dlpFindings := Some (JArr dlpFindings),
                  d_dlpDetectedAt := None \<rparr>)"

definition createVersion :: "int \<Rightarrow> string \<Rightarrow> create_version_dto \<Rightarrow> service_user \<Rightarrow> request_context \<Rightarrow>
  vault \<Rightarrow> (doc_version, vault) outcome" where
  "createVersion now docId dto user context s =
     andThen (findInOrgOrThrow now (buildActorId user) docId s) (\<lambda>document s.
     andThen (versionsAssertCanManage (d_ownerId document) user s) (\<lambda>_ s.
       let expectedVersion = d_currentVersion document + 1 in
       if cv_version dto \<noteq> expectedVersion
       then throw (Conflict (''Version '' @ show_int (cv_version dto) @ '' is invalid. Expected ''
         @ show_int expectedVersion @ ''.'')) s
       else let dlpStatus = coalesce (cv_dlpStatus dto) ''NOT_SCANNED'';
                dlpFindings = coalesce (cv_dlpFindings dto) [];
                dlpDetected = (dlpStatus = ''DETECTED'');
                shouldEscalate = dlpDetected \<and> d_classification document \<in> {PUBLIC, INTERNAL}
         in andThen (prismaCreateVersion \<lparr> v_docId = docId, v_version = cv_version dto,
                v_objectKey = cv_objectKey dto, v_checksum = cv_checksum dto, v_size = cv_size dto,
                v_filename = cv_filename dto, v_contentType = cv_contentType dto,
                v_dlpStatus = dlpStatus, v_dlpFindings = Some (JArr dlpFindings),
                v_createdAt = now, v_createdBy = buildActorId user \<rparr> s)
            (\<lambda>created s. andThen (prismaUpdateDocument now docId
                (versionDocumentUpdate now (cv_version dto) dlpStatus dlpFindings shouldEscalate) s)
            (\<lambda>_ s. return created (notifyVersionUploaded now docId (cv_version dto) (cv_filename dto)
                user context \<lparr> vi_dlpStatus = dlpStatus, vi_dlpFindings = dlpFindings,
                  vi_escalatedToConfidential = (dlpDetected \<and> shouldEscalate),
                  vi_docTitle = Some (d_title document),
                  vi_suggestedClassification = cv_dlpSuggestedClassification dto \<rparr> s)))))"

definition restoreVersion :: "int \<Rightarrow> string \<Rightarrow> int \<Rightarrow> service_user \<Rightarrow> request_context \<Rightarrow>
  vault \<Rightarrow> (doc_version, vault) outcome" where
  "restoreVersion now docId sourceVersion user context s =
     andThen (findInOrgOrThrow now (buildActorId user) docId s) (\<lambda>document s.
     andThen (versionsAssertCanManage (d_ownerId document) user s) (\<lambda>_ s.
       case findVersion docId sourceVersion s of
         None \<Rightarrow> throw (NotFound ''Source version not found'') s
       | Some source \<Rightarrow>
           let nextVersion = d_currentVersion document + 1 in
           if sourceVersion = d_currentVersion document
           then throw (Conflict ''Cannot restore the current version'') s
           else andThen (prismaCreateVersion (source\<lparr> v_version := nextVersion,
                  v_createdBy := buildActorId user, v_createdAt := now,
                  v_dlpFindings := Some (coalesce (v_dlpFindings source) (JArr [])) \<rparr>) s)
             (\<lambda>newVersion s. andThen (prismaUpdateDocument now docId
                 (\<lambda>d. d\<lparr> d_currentVersion := nextVersion \<rparr>) s)
             (\<lambda>_ s. return newVersion (notifyVersionUploaded now docId nextVersion (v_filename source)
                 user context \<lparr> vi_dlpStatus = ''NOT_SCANNED'', vi_dlpFindings = [],
                   vi_escalatedToConfidential = False, vi_docTitle = Some (d_title document),
                   vi_suggestedClassification = None \<rparr> s)))))"

end
