(* ===== verification/Retention_Service.thy ===== *)
theory Retention_Service
  imports Status_Service "HOL-Library.Product_Lexorder"
begin

text \<open>
  Retention: \<open>services/metadata-service/src/retention/retention.service.ts\<close>. The
  evidence of a published document, the report over them, and the job that
  archives what is overdue and not on legal hold.
\<close>

definition DUE_SOON_DAYS :: int where
  "DUE_SOON_DAYS = 14"

datatype retention_status = RET_ACTIVE | RET_DUE_SOON | RET_OVERDUE | RET_ARCHIVED | RET_UNSET

record retention_record =
  rr_docId :: string
  rr_title :: string
  rr_status :: doc_status
  rr_classification :: classification
  rr_publishedAt :: "int option"
  rr_archivedAt :: "int option"
  rr_retentionClass :: string
  rr_retentionUntil :: "int option"
  rr_retentionReason :: string
  rr_retentionStatus :: retention_status
  rr_daysRemaining :: "int option"

definition toEvidenceRecord :: "document \<Rightarrow> int \<Rightarrow> retention_record" where
  "toEvidenceRecord doc now =
     (let fallback = map_option (buildRetentionEvidence (d_classification doc)) (d_publishedAt doc);
          policy = RETENTION_POLICY_BY_CLASSIFICATION (d_classification doc);
          retentionUntil = or_else (d_retentionUntil doc) (map_option re_until fallback);
          daysRemaining = map_option (\<lambda>t. ceil_div (t - now) DAY_MS) retentionUntil
      in \<lparr> rr_docId = d_id doc, rr_title = d_title doc, rr_status = d_status doc,
           rr_classification = d_classification doc, rr_publishedAt = d_publishedAt doc,
           rr_archivedAt = d_archivedAt doc,
           rr_retentionClass = coalesce (or_else (d_retentionClass doc) (map_option re_class fallback))
             (rp_class policy),
           rr_retentionUntil = retentionUntil,
           rr_retentionReason = coalesce (or_else (d_retentionReason doc) (map_option re_reason fallback))
             (rp_reason policy),
           rr_retentionStatus =
             (if d_status doc = ARCHIVED then RET_ARCHIVED
              else case daysRemaining of
                None \<Rightarrow> RET_UNSET
              | Some n \<Rightarrow> if n < 0 then RET_OVERDUE else if n \<le> DUE_SOON_DAYS then RET_DUE_SOON
                          else RET_ACTIVE),
           rr_daysRemaining = daysRemaining \<rparr>)"

definition retentionContext :: request_context where
  "retentionContext = \<lparr> c_traceId = Some ''retention-job'', c_authorization = Some [],
     c_actorId = ''system:retention'', c_roles = [''admin''], c_groups = None,
     c_ip = Some ''127.0.0.1'' \<rparr>"

definition archiveDocument :: "document \<Rightarrow> int \<Rightarrow> string \<Rightarrow> vault \<Rightarrow> (unit, vault) outcome" where
  "archiveDocument doc now requestedBy s =
     (let evidence = toEvidenceRecord (doc\<lparr> d_status := PUBLISHED, d_archivedAt := None \<rparr>) now
      in andThen (prismaUpdateDocument now (d_id doc)
             (\<lambda>d. d\<lparr> d_status := ARCHIVED, d_archivedAt := Some now \<rparr>) s)
         (\<lambda>_ s. return () (emitEvent now retentionContext \<lparr>
             ap_action = ''DOCUMENT_AUTO_ARCHIVED'', ap_resourceType = ''DOCUMENT'',
             ap_resourceId = Some (d_id doc), ap_result = ''SUCCESS'',
             ap_reason = Some ''Retention policy exceeded'',
             ap_metadata = [(''docId'', JStr (d_id doc)), (''action'', JStr ''RETENTION''),
               (''fromStatus'', JStr ''PUBLISHED''), (''toStatus'', JStr ''ARCHIVED''),
               (''title'', JStr (d_title doc)),
               (''classification'', JStr (show_classification (d_classification doc))),
               (''retentionClass'', JStr (rr_retentionClass evidence)),
               (''retentionUntil'', j_nullable JDate (rr_retentionUntil evidence)),
               (''retentionReason'', JStr (rr_retentionReason evidence)),
               (''archivedAt'', JDate now), (''requestedBy'', JStr requestedBy),
               (''triggeredBy'', JStr ''system:retention''), (''triggeredAt'', JDate now)] \<rparr>
             (appendHistory \<lparr> h_docId = d_id doc, h_fromStatus = PUBLISHED, h_toStatus = ARCHIVED,
               h_action = RETENTION, h_actorId = ''system:retention'',
               h_reason = Some (''Auto-archived by retention policy '' @ rr_retentionClass evidence),
               h_createdAt = now \<rparr> s))))"

definition retentionCandidate :: "document \<Rightarrow> bool" where
  "retentionCandidate d = (d_status d = PUBLISHED \<and> d_publishedAt d \<noteq> None \<and> d_archivedAt d = None
     \<and> \<not> d_legalHold d)"

text \<open>One round of the loop, with the counters of archived and skipped documents.\<close>

definition retainOne :: "int \<Rightarrow> string \<Rightarrow> document \<Rightarrow> int \<times> int \<times> vault \<Rightarrow> int \<times> int \<times> vault" where
  "retainOne now requestedBy doc acc =
     (case acc of (archived, skipped, s) \<Rightarrow>
        if d_legalHold doc then (archived, skipped, s)
        else let evidence = toEvidenceRecord doc now in
          if rr_retentionUntil evidence = None \<or> rr_retentionStatus evidence \<noteq> RET_OVERDUE
          then (archived, skipped, s)
          else case archiveDocument doc now requestedBy s of
            (Inl _, s) \<Rightarrow> (archived, skipped + 1, s)
          | (Inr _, s) \<Rightarrow> (archived + 1, skipped, s))"

record retention_run_result =
  rn_archived :: int
  rn_skipped :: int
  rn_checkedAt :: int

definition runRetention :: "int \<Rightarrow> string option \<Rightarrow> vault \<Rightarrow> retention_run_result \<times> vault" where
  "runRetention now requestedBy s =
     (let candidates = filter retentionCandidate (documents s)
      in case fold (retainOne now (coalesce requestedBy ''system:cron'')) candidates (0, 0, s) of
           (archived, skipped, s) \<Rightarrow>
             (\<lparr> rn_archived = archived, rn_skipped = skipped, rn_checkedAt = now \<rparr>, s))"

record retention_summary =
  rs_tracked :: nat
  rs_active :: nat
  rs_dueSoon :: nat
  rs_overdue :: nat
  rs_archived :: nat

record retention_evidence_result =
  rx_checkedAt :: int
  rx_summary :: retention_summary
  rx_records :: "retention_record list"

definition MAX_SAFE_INTEGER :: int where
  "MAX_SAFE_INTEGER = 9007199254740991"

definition countStatus :: "retention_status \<Rightarrow> retention_record list \<Rightarrow> nat" where
  "countStatus st records = length (filter (\<lambda>r. rr_retentionStatus r = st) records)"

text \<open>
  The query orders by \<open>retentionUntil\<close> (rows without one last) and \<open>publishedAt\<close>;
  the service sorts the records again, by the effective date.
\<close>

definition retentionOrder :: "document \<Rightarrow> int \<times> int \<times> int" where
  "retentionOrder d =
     (let p = coalesce (d_publishedAt d) 0
      in case d_retentionUntil d of None \<Rightarrow> (1, 0, p) | Some t \<Rightarrow> (0, t, p))"

definition listRetentionEvidence :: "int \<Rightarrow> string option \<Rightarrow> vault \<Rightarrow> retention_evidence_result" where
  "listRetentionEvidence now organizationId s =
     (let docs = sort_key retentionOrder (filter (\<lambda>d.
            (\<not> truthy_opt organizationId \<or> Some (d_organizationId d) = organizationId)
            \<and> d_status d \<in> {PUBLISHED, ARCHIVED} \<and> d_publishedAt d \<noteq> None) (documents s));
          records = sort_key (\<lambda>r. coalesce (rr_retentionUntil r) MAX_SAFE_INTEGER)
            (map (\<lambda>d. toEvidenceRecord d now) docs)
      in \<lparr> rx_checkedAt = now,
           rx_summary = \<lparr> rs_tracked = length records, rs_active = countStatus RET_ACTIVE records,
             rs_dueSoon = countStatus RET_DUE_SOON records,
             rs_overdue = countStatus RET_OVERDUE records,
             rs_archived = countStatus RET_ARCHIVED records \<rparr>,
           rx_records = records \<rparr>)"

end
