(* ===== verification/Effects.thy ===== *)
theory Effects
  imports Documents_Service Versions_Service Retention_Service
begin

text \<open>
  What the handlers that write documents may do to the vault: at most one row of
  the document table is rewritten, in a way described by a relation between the
  old row and the new one. One lemma per handler; the invariants are proved from
  these relations alone.
\<close>

section \<open>Rewriting one row\<close>

definition same_tables :: "vault \<Rightarrow> vault \<Rightarrow> bool" where
  "same_tables s t =
     (versions t = versions s \<and> acls t = acls s \<and> comments t = comments s
      \<and> shareLinks t = shareLinks s \<and> organizations t = organizations s
      \<and> memberships t = memberships s \<and> (\<exists>hs. history t = history s @ hs)
      \<and> (org_inv s \<longrightarrow> org_inv t))"

definition rewrites_row :: "(document \<Rightarrow> document \<Rightarrow> bool) \<Rightarrow> string \<Rightarrow> vault \<Rightarrow> vault \<Rightarrow> bool" where
  "rewrites_row R i s t =
     (\<exists>f. documents t = update_row d_id i f (documents s)
        \<and> (\<forall>d \<in> set (documents s). d_id d = i \<longrightarrow> R d (f d) \<and> d_id (f d) = i)
        \<and> same_tables s t)"

definition effect :: "(document \<Rightarrow> document \<Rightarrow> bool) \<Rightarrow> string \<Rightarrow> vault \<Rightarrow> vault \<Rightarrow> bool" where
  "effect R i s t = (only_logs s t \<or> rewrites_row R i s t)"

lemma same_tables_logs: "only_logs s t \<Longrightarrow> same_tables s t"
  by (simp add: only_logs_def same_tables_def)

lemma same_tables_trans: "same_tables s t \<Longrightarrow> same_tables t u \<Longrightarrow> same_tables s u"
  by (auto simp: same_tables_def)

lemma effect_logs [intro]: "only_logs s t \<Longrightarrow> effect R i s t"
  by (simp add: effect_def)

lemma effect_after_logs:
  assumes "only_logs s t" "effect R i t u"
  shows "effect R i s u"
proof (cases "only_logs t u")
  case True
  then show ?thesis using assms(1) by (auto intro: only_logs_trans)
next
  case False
  then have "rewrites_row R i t u" using assms(2) by (simp add: effect_def)
  then have "rewrites_row R i s u"
    unfolding rewrites_row_def only_logsD(1) [OF assms(1)]
    using same_tables_trans [OF same_tables_logs [OF assms(1)]] by blast
  then show ?thesis by (simp add: effect_def)
qed

lemma effect_then_logs:
  assumes "effect R i s t" "only_logs t u"
  shows "effect R i s u"
proof (cases "only_logs s t")
  case True
  then show ?thesis using assms(2) by (auto intro: only_logs_trans)
next
  case False
  then have "rewrites_row R i s t" using assms(1) by (simp add: effect_def)
  then have "rewrites_row R i s u"
    unfolding rewrites_row_def only_logsD(1) [OF assms(2)]
    using same_tables_trans [OF _ same_tables_logs [OF assms(2)]] by blast
  then show ?thesis by (simp add: effect_def)
qed

lemma effect_mono: "effect R i s t \<Longrightarrow> (\<And>d d'. R d d' \<Longrightarrow> R' d d') \<Longrightarrow> effect R' i s t"
  unfolding effect_def rewrites_row_def by meson

lemma effect_prisma:
  assumes "\<And>d. d \<in> set (documents s) \<Longrightarrow> d_id d = i \<Longrightarrow> R d ((g d)\<lparr>d_updatedAt := now\<rparr>) \<and> d_id (g d) = i"
  shows "effect R i s (snd (prismaUpdateDocument now i g s))"
proof (cases "find_row d_id i (documents s)")
  case None
  then show ?thesis by (simp add: prismaUpdateDocument_def effect_logs)
next
  case (Some r)
  have "rewrites_row R i s (s\<lparr>documents := update_row d_id i (\<lambda>d. (g d)\<lparr>d_updatedAt := now\<rparr>) (documents s)\<rparr>)"
    using assms unfolding rewrites_row_def same_tables_def
    by (intro exI [of _ "\<lambda>d. (g d)\<lparr>d_updatedAt := now\<rparr>"]) simp
  then show ?thesis using Some by (simp add: prismaUpdateDocument_found effect_def)
qed

lemma effect_andThen:
  assumes "effect R i s (snd m)" "\<And>a t. m = (Inr a, t) \<Longrightarrow> only_logs t (snd (f a t))"
  shows "effect R i s (snd (andThen m f))"
  using assms by (cases m; cases "fst m") (auto intro: effect_then_logs)

text \<open>The only row with the key.\<close>

definition row_is :: "document \<Rightarrow> string \<Rightarrow> vault \<Rightarrow> bool" where
  "row_is d i s = (\<forall>x \<in> set (documents s). d_id x = i \<longrightarrow> x = d)"

lemma row_is_logs: "row_is d i s \<Longrightarrow> only_logs s t \<Longrightarrow> row_is d i t"
  by (simp add: row_is_def only_logsD)

lemma row_is_found: "distinct (map d_id (documents s)) \<Longrightarrow> find_row d_id i (documents s) = Some d \<Longrightarrow> row_is d i s"
  unfolding row_is_def using find_row_member [of d_id "documents s"] by fastforce

lemma effect_scoped:
  assumes "distinct (map d_id (documents s))"
    and "\<And>d t. docSeenBy now a i s = Some d \<Longrightarrow> only_logs s t \<Longrightarrow> row_is d i t \<Longrightarrow> d_id d = i \<Longrightarrow>
      effect R i t (snd (f d t))"
  shows "effect R i s (snd (andThen (findInOrgOrThrow now a i s) f))"
proof (cases rule: scoped_cases [of now a i s f])
  case (missing e)
  then show ?thesis using only_logs_findInOrgOrThrow [of s now a i] by (simp add: effect_logs)
next
  case (found d t)
  have "row_is d i t"
    using row_is_logs [OF row_is_found [OF assms(1) docSeenBy_row [OF assms(1) found(1)]] found(2)] .
  then show ?thesis using assms(2) [OF found(1,2)] found by (auto intro: effect_after_logs)
qed

lemma effect_write:
  assumes "row_is d i t" "R d ((g d)\<lparr>d_updatedAt := now\<rparr>)" "d_id (g d) = i"
    and "\<And>u v. only_logs v (snd (k u v))"
  shows "effect R i t (snd (andThen (prismaUpdateDocument now i g t) k))"
  by (rule effect_andThen, rule effect_prisma) (use assms in \<open>auto simp: row_is_def\<close>)

lemma effect_guard:
  assumes "only_logs s (snd m)" "\<And>a t. m = (Inr a, t) \<Longrightarrow> only_logs s t \<Longrightarrow> effect R i t (snd (f a t))"
  shows "effect R i s (snd (andThen m f))"
  using assms by (cases m; cases "fst m") (auto intro: effect_after_logs)

section \<open>Metadata\<close>

definition manages :: "request_context \<Rightarrow> document \<Rightarrow> bool" where
  "manages c d = (''admin'' \<in> set (c_roles c) \<or> ''editor'' \<in> set (c_roles c) \<and> d_ownerId d = c_actorId c)"

lemma assertCanManage_snd [simp]: "snd (assertCanManage own a rs s) = s"
  by (simp add: assertCanManage_def)

lemma assertCanManage_Inr:
  "assertCanManage own (c_actorId c) (c_roles c) s = (Inr x, t) \<Longrightarrow>
   t = s \<and> (''admin'' \<in> set (c_roles c) \<or> ''editor'' \<in> set (c_roles c) \<and> own = c_actorId c)"
  by (auto simp: assertCanManage_def Let_def split: if_splits)

lemma dlpDowngradeGuard_logs: "only_logs s (snd (dlpDowngradeGuard now i dto c d s))"
  by (auto simp: dlpDowngradeGuard_def Let_def split: option.splits)

text \<open>What the DLP guard lets through: no downgrade of a flagged document without an
  administrator's reason.\<close>

definition dlp_allowed :: "update_document_dto \<Rightarrow> request_context \<Rightarrow> document \<Rightarrow> bool" where
  "dlp_allowed dto c d =
     (case ud_classification dto of None \<Rightarrow> True
      | Some r \<Rightarrow> d_dlpStatus d = ''DETECTED'' \<and> r \<in> {PUBLIC, INTERNAL} \<longrightarrow>
          ''admin'' \<in> set (c_roles c)
          \<and> truthy_opt (map_option trim (ud_classificationOverrideReason dto)))"

lemma dlpDowngradeGuard_iff: "succeeds (dlpDowngradeGuard now i dto c d s) \<longleftrightarrow> dlp_allowed dto c d"
  by (auto simp: dlpDowngradeGuard_def dlp_allowed_def Let_def split: option.splits)

lemma applyUpdate_id [simp]: "d_id (applyUpdate dto x) = d_id x"
  by (auto simp: applyUpdate_def Let_def split: option.splits)

lemma dlpDowngradeGuard_Inr: "dlpDowngradeGuard now i dto c d s = (Inr u, t) \<Longrightarrow> dlp_allowed dto c d"
  using dlpDowngradeGuard_iff [of now i dto c d s] by simp

lemma updateDocument_effect:
  assumes "distinct (map d_id (documents s))"
  shows "effect (\<lambda>d d'. d' = (applyUpdate dto d)\<lparr>d_updatedAt := now\<rparr> \<and> manages c d \<and> dlp_allowed dto c d)
    i s (snd (updateDocument now i dto c s))"
  unfolding updateDocument_def
  by (rule effect_scoped [OF assms], rule effect_guard, simp, rule effect_guard,
      rule dlpDowngradeGuard_logs, rule effect_write)
    (auto intro: row_is_logs dest: assertCanManage_Inr dlpDowngradeGuard_Inr simp: manages_def)

lemma setLegalHold_effect:
  assumes "distinct (map d_id (documents s))"
  shows "effect (\<lambda>d d'. d' = (applyLegalHold now h (c_actorId c) d)\<lparr>d_updatedAt := now\<rparr>
      \<and> ''admin'' \<in> set (c_roles c) \<and> (lh_hold h \<longrightarrow> truthy_opt (map_option trim (lh_reason h))))
    i s (snd (setLegalHold now i h c s))"
  unfolding setLegalHold_def Let_def
  by (auto intro!: effect_scoped [OF assms] effect_write simp: applyLegalHold_def split: if_splits)

section \<open>Trash\<close>

lemma restoreFromTrash_effect:
  assumes "distinct (map d_id (documents s))"
  shows "effect (\<lambda>d d'. d' = d\<lparr>d_status := DRAFT, d_deletedAt := None, d_updatedAt := now\<rparr>
      \<and> d_status d = DELETED \<and> (''admin'' \<in> set (c_roles c) \<or> d_ownerId d = c_actorId c)
      \<and> (\<forall>t. d_deletedAt d = Some t \<longrightarrow> now \<le> t + trashRecoveryDays * DAY_MS))
    i s (snd (restoreFromTrash now i c s))"
  unfolding restoreFromTrash_def
  by (rule effect_scoped [OF assms])
    (auto intro!: effect_write [where d = d for d] split: option.splits if_splits)

lemma markDeleted_effect:
  assumes "distinct (map d_id (documents s))"
  shows "effect (\<lambda>d d'. d' = d\<lparr>d_status := DELETED, d_deletedAt := Some now, d_updatedAt := now\<rparr>
      \<and> d_status d \<noteq> DELETED) i s (snd (markDeleted now i s))"
proof (cases "find_row d_id i (documents s)")
  case None
  then show ?thesis by (simp add: markDeleted_def effect_logs)
next
  case (Some d)
  then have "row_is d i s" "d_id d = i" using row_is_found [OF assms] find_row_SomeD by fast+
  then show ?thesis using Some
    by (auto simp: markDeleted_def row_is_def effect_logs intro!: effect_prisma)
qed

section \<open>Approval chain\<close>

lemma setApprovalChain_effect:
  assumes "distinct (map d_id (documents s))"
  shows "effect (\<lambda>d d'. d' = d\<lparr>d_approvalChain := filter truthy (map trim as), d_approvalStep := 0, d_updatedAt := now\<rparr>
      \<and> manages c d \<and> d_status d = PENDING \<and> d_approvalStep d = 0
      \<and> filter truthy (map trim as) \<noteq> [] \<and> distinct (filter truthy (map trim as)))
    i s (snd (setApprovalChain now i as c s))"
proof -
  have dist: "length (unique xs) = length xs \<longleftrightarrow> distinct xs" for xs :: "string list"
    by (metis unique_def card_distinct distinct_card distinct_unique length_rev set_unique unique_distinct)
  show ?thesis
    unfolding setApprovalChain_def Let_def dist
    by (rule effect_scoped [OF assms])
      (auto intro!: effect_write [where d = d for d] simp: manages_def split: if_splits)
qed

lemma advanceApprovalStep_effect:
  assumes "distinct (map d_id (documents s))"
  shows "effect (\<lambda>d d'. d' = d\<lparr>d_approvalStep := d_approvalStep d + 1, d_updatedAt := now\<rparr>)
    i s (snd (advanceApprovalStep now i c s))"
  unfolding advanceApprovalStep_def Let_def
  by (rule effect_scoped [OF assms]) (auto intro!: effect_prisma simp: row_is_def)

section \<open>Transitions\<close>

definition transitioned :: "int \<Rightarrow> workflow_action \<Rightarrow> document \<Rightarrow> document \<Rightarrow> bool" where
  "transitioned now action d d' =
     (\<exists>tr. TRANSITION_MAP action = Some tr \<and> d_status d = tr_from tr
        \<and> d' = (statusUpdate now action (tr_to tr) (d_classification d) d)\<lparr>d_updatedAt := now\<rparr>)"

lemma statusUpdate_id [simp]: "d_id (statusUpdate now a to cls d) = d_id d"
  by (simp add: statusUpdate_def withRetentionEvidence_def Let_def)

lemma statusTransaction_effect:
  assumes "row_is d i t" "d_id d = i" "TRANSITION_MAP (us_action dto) = Some tr" "d_status d = tr_from tr"
    and "statusTransaction now i d (tr_to tr) dto a t = (Inr d', t')"
  shows "effect (transitioned now (us_action dto)) i t t'"
proof -
  let ?f = "\<lambda>r. (statusUpdate now (us_action dto) (tr_to tr) (d_classification d) r)\<lparr>d_updatedAt := now\<rparr>"
  have "documents t' = update_row d_id i ?f (documents t)" "same_tables t t'"
    using assms(5) by (auto simp: statusTransaction_Inr same_tables_def)
  moreover have "\<forall>x \<in> set (documents t). d_id x = i \<longrightarrow>
      transitioned now (us_action dto) x (?f x) \<and> d_id (?f x) = i"
    using assms(1-4) by (auto simp: row_is_def transitioned_def)
  ultimately show ?thesis unfolding effect_def rewrites_row_def by blast
qed

lemma updateStatus_effect:
  assumes "distinct (map d_id (documents s))"
  shows "effect (transitioned now (us_action dto)) i s (snd (updateStatus now i dto u c s))"
proof (cases "updateStatus now i dto u c s")
  case (Pair r s')
  show ?thesis
  proof (cases r)
    case (Inl e)
    then show ?thesis using updateStatus_Inl Pair by (auto intro: effect_logs)
  next
    case (Inr d')
    then obtain d tr t where d: "docSeenBy now (c_actorId c) i s = Some d"
      "TRANSITION_MAP (us_action dto) = Some tr" "d_status d = tr_from tr" "only_logs s t"
      "statusTransaction now i d (tr_to tr) dto (buildActorId u) t = (Inr d', s'\<lparr>auditPosts := auditPosts t\<rparr>)"
      using Pair updateStatus_Inr by metis
    have "row_is d i t"
      using row_is_logs [OF row_is_found [OF assms docSeenBy_row [OF assms d(1)]] d(4)] .
    from statusTransaction_effect [OF this _ d(2,3,5)] docSeenBy_id [OF d(1)]
    have "effect (transitioned now (us_action dto)) i t (s'\<lparr>auditPosts := auditPosts t\<rparr>)" by simp
    moreover have "only_logs (s'\<lparr>auditPosts := auditPosts t\<rparr>) s'" by (simp add: only_logs_def)
    ultimately have "effect (transitioned now (us_action dto)) i s s'"
      using effect_after_logs [OF d(4)] effect_then_logs by blast
    then show ?thesis using Pair by simp
  qed
qed

section \<open>Retention\<close>

definition retired :: "int \<Rightarrow> document \<Rightarrow> document \<Rightarrow> bool" where
  "retired now d d' = (d' = d\<lparr>d_status := ARCHIVED, d_archivedAt := Some now, d_updatedAt := now\<rparr>)"

lemma archiveDocument_effect: "effect (retired now) (d_id d) s (snd (archiveDocument d now who s))"
proof (cases "find_row d_id (d_id d) (documents s)")
  case None
  then show ?thesis by (simp add: archiveDocument_def prismaUpdateDocument_def Let_def effect_logs)
next
  case (Some r)
  let ?f = "\<lambda>x. x\<lparr>d_status := ARCHIVED, d_archivedAt := Some now, d_updatedAt := now\<rparr>"
  have "documents (snd (archiveDocument d now who s)) = update_row d_id (d_id d) ?f (documents s)"
    "same_tables s (snd (archiveDocument d now who s))"
    using Some by (simp_all add: archiveDocument_def prismaUpdateDocument_found appendHistory_def
        same_tables_def Let_def)
  then have "rewrites_row (retired now) (d_id d) s (snd (archiveDocument d now who s))"
    unfolding rewrites_row_def retired_def by (intro exI [of _ ?f]) simp
  then show ?thesis by (simp add: effect_def)
qed

end
