(* ===== verification/Acl_Service.thy ===== *)
theory Acl_Service
  imports Org_Service "HOL-Library.List_Lexorder" "HOL-Library.Char_ord"
begin

text \<open>
  Access rules: \<open>services/metadata-service/src/acl/acl.service.ts\<close>. Rules are
  added and deleted by the owner editor or an administrator; the subject is
  normalised before it is stored.
\<close>

record upsert_acl_dto =
  ua_subjectType :: subject_type
  ua_subjectId :: "string option"
  ua_permission :: permission
  ua_effect :: acl_effect

definition aclAssertCanManage :: "string \<Rightarrow> service_user \<Rightarrow> vault \<Rightarrow> (unit, vault) outcome" where
  "aclAssertCanManage ownerId user s =
     (let actorId = buildActorId user; roles = coalesce (u_roles user) []
      in if (''editor'' \<notin> set roles \<and> ''admin'' \<notin> set roles)
            \<or> (ownerId \<noteq> actorId \<and> ''admin'' \<notin> set roles)
         then throw (Forbidden ''Only the owner editor or admin can update ACL'') s
         else return () s)"

definition normalizeSubjectId :: "upsert_acl_dto \<Rightarrow> string option" where
  "normalizeSubjectId dto =
     (case ua_subjectType dto of
        ALL_SUBJECTS \<Rightarrow> None
      | GROUP \<Rightarrow> head_option (normalizeGroups (Some [coalesce (ua_subjectId dto) []]))
      | _ \<Rightarrow> (case ua_subjectId dto of None \<Rightarrow> None
              | Some i \<Rightarrow> if truthy (trim i) then Some (trim i) else None))"

definition upsertAcl :: "int \<Rightarrow> string \<Rightarrow> string \<Rightarrow> upsert_acl_dto \<Rightarrow> service_user \<Rightarrow> request_context \<Rightarrow>
  vault \<Rightarrow> (acl_entry, vault) outcome" where
  "upsertAcl now newId docId dto user context s =
     andThen (findInOrgOrThrow now (c_actorId context) docId s) (\<lambda>document s.
     andThen (aclAssertCanManage (d_ownerId document) user s) (\<lambda>_ s.
       let subjectId = normalizeSubjectId dto in
       if ua_subjectType dto \<noteq> ALL_SUBJECTS \<and> \<not> truthy_opt subjectId
       then throw (BadRequest ''Subject ID is required unless subject type is ALL'') s
       else if find_row a_id newId (acls s) \<noteq> None
       then throw (JsError ''Unique constraint failed'') s
       else let aclEntry = \<lparr> a_id = newId, a_docId = docId, a_subjectType = ua_subjectType dto,
                  a_subjectId = subjectId, a_permission = ua_permission dto,
                  a_effect = ua_effect dto, a_createdAt = now \<rparr>
         in return aclEntry (emitEvent now context \<lparr>
              ap_action = ''DOCUMENT_ACL_UPDATED'', ap_resourceType = ''DOCUMENT'',
              ap_resourceId = Some docId, ap_result = ''SUCCESS'', ap_reason = None,
              ap_metadata = [(''docId'', JStr docId), (''aclId'', JStr (a_id aclEntry)),
                (''subjectType'', JStr (show_subject_type (ua_subjectType dto)))] @
                j_optional ''subjectId'' JStr subjectId @
                [(''permission'', JStr (show_permission (ua_permission dto))),
                 (''effect'', JStr (show_effect (ua_effect dto)))] \<rparr>
              (s\<lparr>acls := acls s @ [aclEntry]\<rparr>))))"

definition listAcl :: "string \<Rightarrow> vault \<Rightarrow> acl_entry list" where
  "listAcl docId s = sort_key (\<lambda>a. a_id a) (aclEntriesOf docId s)"

definition deleteAcl :: "int \<Rightarrow> string \<Rightarrow> string \<Rightarrow> service_user \<Rightarrow> request_context \<Rightarrow>
  vault \<Rightarrow> (unit, vault) outcome" where
  "deleteAcl now docId aclId user context s =
     andThen (findInOrgOrThrow now (c_actorId context) docId s) (\<lambda>document s.
     andThen (aclAssertCanManage (d_ownerId document) user s) (\<lambda>_ s.
       case find_row a_id aclId (acls s) of
         None \<Rightarrow> throw (NotFound ''ACL entry not found'') s
       | Some aclEntry \<Rightarrow>
           if a_docId aclEntry \<noteq> docId then throw (NotFound ''ACL entry not found'') s
           else return () (emitEvent now context \<lparr>
             ap_action = ''DOCUMENT_ACL_DELETED'', ap_resourceType = ''DOCUMENT'',
             ap_resourceId = Some docId, ap_result = ''SUCCESS'', ap_reason = None,
             ap_metadata = [(''docId'', JStr docId), (''removedAclId'', JStr aclId),
               (''removedSubjectId'', j_nullable JStr (a_subjectId aclEntry)),
               (''removedSubjectType'', JStr (show_subject_type (a_subjectType aclEntry))),
               (''removedPermission'', JStr (show_permission (a_permission aclEntry))),
               (''removedEffect'', JStr (show_effect (a_effect aclEntry))),
               (''removedBy'', JStr (buildActorId user))] \<rparr>
             (s\<lparr>acls := delete_row a_id aclId (acls s)\<rparr>))))"

end
