(* ===== verification/Comments_Service.thy ===== *)
theory Comments_Service
  imports Org_Service
begin

text \<open>
  Comments: \<open>services/metadata-service/src/comments/comments.service.ts\<close> and
  \<open>mentions.util.ts\<close>. Only the author edits a comment, the author or an
  administrator deletes it; mentioned users are notified.
\<close>

section \<open>Mentions\<close>

definition user_char :: "char \<Rightarrow> bool" where
  "user_char c = (let n = of_char c :: nat in
     (97 \<le> n \<and> n \<le> 122) \<or> (65 \<le> n \<and> n \<le> 90) \<or> (48 \<le> n \<and> n \<le> 57) \<or> c \<in> set ''._-'')"

definition opens_mention :: "char \<Rightarrow> bool" where
  "opens_mention c = (js_space c \<or> c \<in> set ''(['')"

text \<open>
  The matches of \<open>/(?:^|[\s([])@([a-zA-Z0-9._-]+)/g\<close>, scanned from left to
  right; \<open>start\<close> tells whether the scan is at the start of the text.
\<close>

definition at_mention :: "string \<Rightarrow> bool" where
  "at_mention cs = (case cs of c # rest \<Rightarrow> c = CHR ''@'' \<and> takeWhile user_char rest \<noteq> [] | [] \<Rightarrow> False)"

function mention_tokens :: "bool \<Rightarrow> string \<Rightarrow> string list" where
  "mention_tokens start cs =
     (if start \<and> at_mention cs
      then takeWhile user_char (tl cs) # mention_tokens False (dropWhile user_char (tl cs))
      else case cs of
        [] \<Rightarrow> []
      | c # rest \<Rightarrow>
          if opens_mention c \<and> at_mention rest
          then takeWhile user_char (tl rest) # mention_tokens False (dropWhile user_char (tl rest))
          else mention_tokens False rest)"
  by pat_completeness auto
termination
proof (relation "measure (\<lambda>(_, cs). length cs)"; clarsimp)
  fix cs :: string
  assume "at_mention cs"
  then show "length (dropWhile user_char (tl cs)) < length cs"
    by (cases cs) (auto simp: at_mention_def intro: le_less_trans [OF length_dropWhile_le])
next
  fix rest :: string
  show "length (dropWhile user_char (tl rest)) < Suc (length rest)"
    by (cases rest) (auto intro: le_less_trans [OF length_dropWhile_le])
qed

declare mention_tokens.simps [simp del]

definition strip_trailing :: "string \<Rightarrow> string" where
  "strip_trailing cs = rev (dropWhile (\<lambda>c. c \<in> set ''.-_'') (rev cs))"

definition parseMentions :: "string \<Rightarrow> string list" where
  "parseMentions content =
     (if content = [] then []
      else unique (filter truthy (map strip_trailing (mention_tokens True content))))"

section \<open>Operations\<close>

definition createComment :: "int \<Rightarrow> string \<Rightarrow> string \<Rightarrow> string \<Rightarrow> service_user \<Rightarrow> request_context \<Rightarrow>
  vault \<Rightarrow> (doc_comment, vault) outcome" where
  "createComment now newId docId content user context s =
     (let authorId = buildActorId user; authorRoles = coalesce (u_roles user) [];
          comment = \<lparr> cm_id = newId, cm_docId = docId, cm_authorId = authorId,
            cm_authorRoles = authorRoles, cm_content = content, cm_createdAt = now,
            cm_updatedAt = now \<rparr>
      in if find_row d_id docId (documents s) = None
         then throw (JsError ''Foreign key constraint violated'') s
         else if find_row cm_id newId (comments s) \<noteq> None
         then throw (JsError ''Unique constraint failed'') s
         else let s = emitEvent now context \<lparr>
                ap_action = ''COMMENT_ADDED'', ap_resourceType = ''COMMENT'',
                ap_resourceId = Some (cm_id comment), ap_result = ''SUCCESS'', ap_reason = None,
                ap_metadata = [(''docId'', JStr docId), (''content'', JStr content),
                  (''authorId'', JStr authorId), (''authorRoles'', j_strs authorRoles),
                  (''createdAt'', JDate (cm_createdAt comment))] \<rparr>
                (s\<lparr>comments := comments s @ [comment]\<rparr>);
              mentioned = filter (\<lambda>username. username \<noteq> authorId) (parseMentions content)
           in return comment
                (if mentioned = [] then s
                 else notifyClient context \<lparr> np_type = ''MENTIONED'', np_docId = docId,
                   np_recipientIds = Some mentioned, np_recipientId = None, np_docTitle = None,
                   np_reason = None, np_metadata = [(''commentId'', JStr (cm_id comment)),
                     (''mentionedBy'', JStr authorId)] \<rparr> s))"

definition findCommentForDocument :: "string \<Rightarrow> string \<Rightarrow> vault \<Rightarrow> (doc_comment, vault) outcome" where
  "findCommentForDocument docId commentId s =
     (case find (\<lambda>c. cm_id c = commentId \<and> cm_docId c = docId) (comments s) of
        None \<Rightarrow> throw (NotFound ''Comment not found'') s
      | Some c \<Rightarrow> return c s)"

definition updateComment :: "int \<Rightarrow> string \<Rightarrow> string \<Rightarrow> string \<Rightarrow> service_user \<Rightarrow> request_context \<Rightarrow>
  vault \<Rightarrow> (doc_comment, vault) outcome" where
  "updateComment now docId commentId content user context s =
     (let actorId = buildActorId user
      in andThen (findCommentForDocument docId commentId s) (\<lambda>comment s.
        if cm_authorId comment \<noteq> actorId
        then throw (Forbidden ''Only the author can edit their own comment'')
          (emitEvent now context \<lparr>
            ap_action = ''COMMENT_UPDATE_DENIED'', ap_resourceType = ''COMMENT'',
            ap_resourceId = Some commentId, ap_result = ''DENY'',
            ap_reason = Some ''Only the author can edit their own comment'',
            ap_metadata = [(''docId'', JStr (cm_docId comment)), (''commentId'', JStr commentId),
              (''attemptedBy'', JStr actorId), (''actualAuthor'', JStr (cm_authorId comment))] \<rparr> s)
        else let f = (\<lambda>c. c\<lparr> cm_content := content, cm_updatedAt := now \<rparr>)
          in return (f comment) (emitEvent now context \<lparr>
               ap_action = ''COMMENT_UPDATED'', ap_resourceType = ''COMMENT'',
               ap_resourceId = Some commentId, ap_result = ''SUCCESS'', ap_reason = None,
               ap_metadata = [(''docId'', JStr (cm_docId comment)), (''commentId'', JStr commentId),
                 (''oldContent'', JStr (cm_content comment)), (''newContent'', JStr content),
                 (''authorId'', JStr (cm_authorId comment)), (''updatedAt'', JDate now)] \<rparr>
               (s\<lparr>comments := update_row cm_id commentId f (comments s)\<rparr>))))"

definition deleteComment :: "int \<Rightarrow> string \<Rightarrow> string \<Rightarrow> service_user \<Rightarrow> request_context \<Rightarrow>
  vault \<Rightarrow> (unit, vault) outcome" where
  "deleteComment now docId commentId user context s =
     (let actorId = buildActorId user;
          isAdmin = (''admin'' \<in> set (coalesce (u_roles user) []))
      in andThen (findCommentForDocument docId commentId s) (\<lambda>comment s.
        if cm_authorId comment \<noteq> actorId \<and> \<not> isAdmin
        then throw (Forbidden ''Only the author or an admin can delete a comment'')
          (emitEvent now context \<lparr>
            ap_action = ''COMMENT_DELETE_DENIED'', ap_resourceType = ''COMMENT'',
            ap_resourceId = Some commentId, ap_result = ''DENY'',
            ap_reason = Some ''Only the author or an admin can delete a comment'',
            ap_metadata = [(''docId'', JStr (cm_docId comment)), (''commentId'', JStr commentId),
              (''attemptedBy'', JStr actorId), (''actualAuthor'', JStr (cm_authorId comment))] \<rparr> s)
        else return () (emitEvent now context \<lparr>
            ap_action = ''COMMENT_DELETED'', ap_resourceType = ''COMMENT'',
            ap_resourceId = Some commentId, ap_result = ''SUCCESS'', ap_reason = None,
            ap_metadata = [(''docId'', JStr (cm_docId comment)), (''commentId'', JStr commentId),
              (''authorId'', JStr (cm_authorId comment)), (''deletedBy'', JStr actorId),
              (''deletedAt'', JDate now)] \<rparr>
            (s\<lparr>comments := delete_row cm_id commentId (comments s)\<rparr>))))"

definition findByDoc :: "string \<Rightarrow> vault \<Rightarrow> doc_comment list" where
  "findByDoc docId s = sort_key (\<lambda>c. - cm_createdAt c) (filter (\<lambda>c. cm_docId c = docId) (comments s))"

end
