(* ===== verification/Share_Links.thy ===== *)
theory Share_Links
  imports Org_Service Grant_Tokens
begin

text \<open>
  Share links:
  \<open>services/metadata-service/src/document-share-links/document-share-links.service.ts\<close>.
  The token is random and only its hash is stored; the token and the row's id
  are arguments of the model.
\<close>

definition MAX_EXPIRY_HOURS :: int where
  "MAX_EXPIRY_HOURS = 720"

definition HOUR_MS :: int where
  "HOUR_MS = 60 * 60 * 1000"

datatype share_status = SL_ACTIVE | SL_EXPIRED | SL_REVOKED | SL_EXHAUSTED

fun show_share_status :: "share_status \<Rightarrow> string" where
  "show_share_status SL_ACTIVE = ''ACTIVE''"
| "show_share_status SL_EXPIRED = ''EXPIRED''"
| "show_share_status SL_REVOKED = ''REVOKED''"
| "show_share_status SL_EXHAUSTED = ''EXHAUSTED''"

definition computeStatus :: "int \<Rightarrow> share_link \<Rightarrow> share_status" where
  "computeStatus now link =
     (if sl_revokedAt link \<noteq> None then SL_REVOKED
      else if sl_expiresAt link \<le> now then SL_EXPIRED
      else if (case sl_maxAccessCount link of None \<Rightarrow> False | Some m \<Rightarrow> m \<le> sl_accessCount link)
      then SL_EXHAUSTED
      else SL_ACTIVE)"

record share_view =
  sv_id :: string
  sv_docId :: string
  sv_permission :: share_permission
  sv_createdBy :: string
  sv_createdAt :: int
  sv_expiresAt :: int
  sv_maxAccessCount :: "int option"
  sv_accessCount :: int
  sv_lastAccessedAt :: "int option"
  sv_revokedAt :: "int option"
  sv_revokedBy :: "string option"
  sv_status :: share_status

definition toView :: "int \<Rightarrow> share_link \<Rightarrow> share_view" where
  "toView now link = \<lparr> sv_id = sl_id link, sv_docId = sl_docId link, sv_permission = sl_permission link,
     sv_createdBy = sl_createdBy link, sv_createdAt = sl_createdAt link,
     sv_expiresAt = sl_expiresAt link, sv_maxAccessCount = sl_maxAccessCount link,
     sv_accessCount = sl_accessCount link, sv_lastAccessedAt = sl_lastAccessedAt link,
     sv_revokedAt = sl_revokedAt link, sv_revokedBy = sl_revokedBy link,
     sv_status = computeStatus now link \<rparr>"

definition assertCanManageShares :: "string \<Rightarrow> request_context \<Rightarrow> vault \<Rightarrow> (unit, vault) outcome" where
  "assertCanManageShares ownerId context s =
     (let isAdmin = (''admin'' \<in> set (c_roles context));
          isOwnerEditor = (ownerId = c_actorId context
            \<and> (''editor'' \<in> set (c_roles context) \<or> ''admin'' \<in> set (c_roles context)))
      in if \<not> isAdmin \<and> \<not> isOwnerEditor
         then throw (Forbidden ''Only the owner editor or an admin can manage share links'') s
         else return () s)"

record create_share_dto =
  cs_permission :: "share_permission option"
  cs_expiresInHours :: int
  cs_maxAccessCount :: "int option"

definition createShareLink :: "crypto \<Rightarrow> int \<Rightarrow> string \<Rightarrow> string \<Rightarrow> string \<Rightarrow> create_share_dto \<Rightarrow>
  request_context \<Rightarrow> vault \<Rightarrow> (share_view \<times> string, vault) outcome" where
  "createShareLink cr now newId token docId dto context s =
     (if cs_expiresInHours dto < 1 \<or> cs_expiresInHours dto > MAX_EXPIRY_HOURS
      then throw (BadRequest ''expiresInHours must be between 1 and 720'') s
      else andThen (findInOrgOrThrow now (c_actorId context) docId s) (\<lambda>document s.
        andThen (assertCanManageShares (d_ownerId document) context s) (\<lambda>_ s.
          let permission = coalesce (cs_permission dto) VIEW;
              tokenHash = sha256_hex cr token;
              expiresAt = now + cs_expiresInHours dto * HOUR_MS;
              created = \<lparr> sl_id = newId, sl_docId = docId, sl_tokenHash = tokenHash,
                sl_permission = permission, sl_createdBy = c_actorId context,
                sl_expiresAt = expiresAt, sl_maxAccessCount = cs_maxAccessCount dto,
                sl_accessCount = 0, sl_lastAccessedAt = None, sl_revokedAt = None,
                sl_revokedBy = None, sl_createdAt = now \<rparr>
          in if find_row sl_id newId (shareLinks s) \<noteq> None
                \<or> find_row sl_tokenHash tokenHash (shareLinks s) \<noteq> None
             then throw (JsError ''Unique constraint failed'') s
             else return (toView now created, token) (emitEvent now context \<lparr>
               ap_action = ''DOCUMENT_SHARE_LINK_CREATED'', ap_resourceType = ''DOCUMENT'',
               ap_resourceId = Some docId, ap_result = ''SUCCESS'', ap_reason = None,
               ap_metadata = [(''shareLinkId'', JStr (sl_id created)),
                 (''permission'', JStr (show_share_permission permission)),
                 (''expiresAt'', JDate expiresAt),
                 (''maxAccessCount'', j_nullable JNum (cs_maxAccessCount dto))] \<rparr>
               (s\<lparr>shareLinks := shareLinks s @ [created]\<rparr>)))))"

definition listShareLinks :: "int \<Rightarrow> string \<Rightarrow> request_context \<Rightarrow> vault \<Rightarrow> (share_view list, vault) outcome" where
  "listShareLinks now docId context s =
     andThen (findInOrgOrThrow now (c_actorId context) docId s) (\<lambda>document s.
     andThen (assertCanManageShares (d_ownerId document) context s) (\<lambda>_ s.
       return (map (toView now) (sort_key (\<lambda>l. - sl_createdAt l)
         (filter (\<lambda>l. sl_docId l = docId) (shareLinks s)))) s))"

definition revokeShareLink :: "int \<Rightarrow> string \<Rightarrow> string \<Rightarrow> request_context \<Rightarrow> vault \<Rightarrow> (share_view, vault) outcome" where
  "revokeShareLink now docId linkId context s =
     andThen (findInOrgOrThrow now (c_actorId context) docId s) (\<lambda>document s.
     andThen (assertCanManageShares (d_ownerId document) context s) (\<lambda>_ s.
       case find_row sl_id linkId (shareLinks s) of
         None \<Rightarrow> throw (NotFound ''Share link not found'') s
       | Some link \<Rightarrow>
           if sl_docId link \<noteq> docId then throw (NotFound ''Share link not found'') s
           else if sl_revokedAt link \<noteq> None then return (toView now link) s
           else let revoke = (\<lambda>l. l\<lparr> sl_revokedAt := Some now, sl_revokedBy := Some (c_actorId context) \<rparr>)
             in return (toView now (revoke link)) (emitEvent now context \<lparr>
                  ap_action = ''DOCUMENT_SHARE_LINK_REVOKED'', ap_resourceType = ''DOCUMENT'',
                  ap_resourceId = Some docId, ap_result = ''SUCCESS'', ap_reason = None,
                  ap_metadata = [(''shareLinkId'', JStr linkId)] \<rparr>
                  (s\<lparr>shareLinks := update_row sl_id linkId revoke (shareLinks s)\<rparr>))))"

record redeem_result =
  rd_docId :: string
  rd_permission :: share_permission
  rd_documentTitle :: string
  rd_currentVersion :: int
  rd_expiresAt :: int

definition redeemShareLink :: "crypto \<Rightarrow> int \<Rightarrow> string \<Rightarrow> request_context \<Rightarrow> vault \<Rightarrow> (redeem_result, vault) outcome" where
  "redeemShareLink cr now token context s =
     (case find_row sl_tokenHash (sha256_hex cr token) (shareLinks s) of
        None \<Rightarrow> throw (NotFound ''Share link not found'') s
      | Some link \<Rightarrow>
          let status = computeStatus now link in
          if status \<noteq> SL_ACTIVE
          then throw (Forbidden (''Share link is '' @ lower (show_share_status status)))
            (emitEvent now context \<lparr>
              ap_action = ''DOCUMENT_SHARE_LINK_REDEEM_DENIED'', ap_resourceType = ''DOCUMENT'',
              ap_resourceId = Some (sl_docId link), ap_result = ''DENY'',
              ap_reason = Some (show_share_status status),
              ap_metadata = [(''shareLinkId'', JStr (sl_id link)),
                (''status'', JStr (show_share_status status))] \<rparr> s)
          else case find_row d_id (sl_docId link) (documents s) of
            None \<Rightarrow> throw (NotFound ''Document not found'') s
          | Some document \<Rightarrow>
              return \<lparr> rd_docId = sl_docId link, rd_permission = sl_permission link,
                  rd_documentTitle = d_title document, rd_currentVersion = d_currentVersion document,
                  rd_expiresAt = sl_expiresAt link \<rparr>
                (emitEvent now context \<lparr>
                  ap_action = ''DOCUMENT_SHARE_LINK_REDEEMED'', ap_resourceType = ''DOCUMENT'',
                  ap_resourceId = Some (sl_docId link), ap_result = ''SUCCESS'', ap_reason = None,
                  ap_metadata = [(''shareLinkId'', JStr (sl_id link)),
                    (''permission'', JStr (show_share_permission (sl_permission link)))] \<rparr>
                  (s\<lparr>shareLinks := update_row sl_id (sl_id link)
                       (\<lambda>l. l\<lparr> sl_accessCount := sl_accessCount l + 1, sl_lastAccessedAt := Some now \<rparr>)
                       (shareLinks s)\<rparr>)))"

end
