(* ===== verification/Workflow_Service.thy ===== *)
theory Workflow_Service
  imports Documents_Service Policy_Service
begin

text \<open>
  The workflow service: \<open>services/workflow-service/src/workflow/workflow.service.ts\<close>
  over the metadata client (\<open>metadata/metadata.client.ts\<close>). The operations take
  the client as a record of functions, as the code takes it by injection;
  \<open>vaultApi\<close> is the metadata service behind it: the controller's role guards, the
  handlers, and the translation of errors.
\<close>

section \<open>The client's interface\<close>

record 's metadata_api =
  api_getDocument :: "string \<Rightarrow> request_context \<Rightarrow> 's \<Rightarrow> (document, 's) outcome"
  api_getApprovers :: "request_context \<Rightarrow> 's \<Rightarrow> string list \<times> 's"
  api_updateStatus :: "string \<Rightarrow> doc_status \<Rightarrow> workflow_action \<Rightarrow> request_context \<Rightarrow> string option \<Rightarrow> 's \<Rightarrow> (document, 's) outcome"
  api_advanceApprovalStep :: "string \<Rightarrow> request_context \<Rightarrow> 's \<Rightarrow> (document, 's) outcome"
  api_notify :: "request_context \<Rightarrow> notify_payload \<Rightarrow> 's \<Rightarrow> 's"

definition buildWorkflowNotificationMetadata ::
  "workflow_action \<Rightarrow> doc_status \<Rightarrow> doc_status \<Rightarrow> string \<Rightarrow> fields" where
  "buildWorkflowNotificationMetadata action fromStatus toStatus actorId =
     [(''workflow'', JObj [(''action'', JStr (show_action action)),
       (''fromStatus'', JStr (show_status fromStatus)), (''toStatus'', JStr (show_status toStatus)),
       (''actorId'', JStr actorId)])]"

definition workflowNotification :: "string \<Rightarrow> string \<Rightarrow> string list option \<Rightarrow> string option \<Rightarrow> document \<Rightarrow>
  string option \<Rightarrow> fields \<Rightarrow> notify_payload" where
  "workflowNotification type docId recipientIds recipientId document reason metadata = \<lparr>
     np_type = type, np_docId = docId, np_recipientIds = recipientIds, np_recipientId = recipientId,
     np_docTitle = Some (d_title document), np_reason = reason, np_metadata = metadata \<rparr>"

section \<open>Operations\<close>

definition submit :: "'s metadata_api \<Rightarrow> string \<Rightarrow> service_user \<Rightarrow> request_context \<Rightarrow> 's \<Rightarrow> (document, 's) outcome" where
  "submit api docId user context s =
     andThen (api_getDocument api docId context s) (\<lambda>document s.
       let actorId = buildActorId user; roles = coalesce (u_roles user) []
       in if (''editor'' \<notin> set roles \<and> ''admin'' \<notin> set roles)
             \<or> (d_ownerId document \<noteq> actorId \<and> ''admin'' \<notin> set roles)
          then throw (Forbidden ''Only the owner editor or admin can submit a document'') s
          else if d_status document \<noteq> DRAFT
          then throw (Conflict ''Only DRAFT documents can be submitted'') s
          else andThen (api_updateStatus api docId PENDING SUBMIT context None s) (\<lambda>updated s.
            let (approverIds, s) = api_getApprovers api context s
            in return updated (api_notify api context
                 (workflowNotification ''SUBMITTED'' docId (Some approverIds) None document None
                   (buildWorkflowNotificationMetadata SUBMIT (d_status document) PENDING
                     (c_actorId context))) s)))"

text \<open>
  \<open>approve\<close>: with a chain, a caller without the admin role must be the approver
  of the current step; every step but the last only advances the chain.
\<close>

definition approvePublish :: "'s metadata_api \<Rightarrow> string \<Rightarrow> request_context \<Rightarrow> document \<Rightarrow> 's \<Rightarrow> (document, 's) outcome" where
  "approvePublish api docId context document s =
     andThen (api_updateStatus api docId PUBLISHED APPROVE context None s) (\<lambda>updated s.
       return updated (api_notify api context
         (workflowNotification ''APPROVED'' docId None (Some (d_ownerId document)) document None
           (buildWorkflowNotificationMetadata APPROVE (d_status document) PUBLISHED
             (c_actorId context))) s))"

definition approve :: "'s metadata_api \<Rightarrow> string \<Rightarrow> service_user \<Rightarrow> request_context \<Rightarrow> 's \<Rightarrow> (document, 's) outcome" where
  "approve api docId user context s =
     andThen (api_getDocument api docId context s) (\<lambda>document s.
       let roles = coalesce (u_roles user) []
       in if ''approver'' \<notin> set roles \<and> ''admin'' \<notin> set roles
          then throw (Forbidden ''Only approver or admin can approve'') s
          else if d_status document \<noteq> PENDING
          then throw (Conflict ''Only PENDING documents can be approved'') s
          else let approvalChain = d_approvalChain document in
            if approvalChain \<noteq> [] \<and> ''admin'' \<notin> set roles
            then let step = d_approvalStep document;
                     expectedApprover = js_nth approvalChain step
              in if Some (c_actorId context) \<noteq> expectedApprover
                 then throw (Forbidden ''It is not your turn to approve this document'') s
                 else if \<not> (step \<ge> int (length approvalChain) - 1)
                 then andThen (api_advanceApprovalStep api docId context s) (\<lambda>_ s.
                   return (document\<lparr> d_status := PENDING \<rparr>) (api_notify api context
                     (workflowNotification ''APPROVED'' docId None (js_nth approvalChain (step + 1))
                       document None (buildWorkflowNotificationMetadata APPROVE (d_status document)
                         PENDING (c_actorId context))) s))
                 else approvePublish api docId context document s
            else approvePublish api docId context document s)"

definition reject :: "'s metadata_api \<Rightarrow> string \<Rightarrow> string option \<Rightarrow> service_user \<Rightarrow> request_context \<Rightarrow> 's \<Rightarrow> (document, 's) outcome" where
  "reject api docId reason user context s =
     andThen (api_getDocument api docId context s) (\<lambda>document s.
       let roles = coalesce (u_roles user) []
       in if ''approver'' \<notin> set roles \<and> ''admin'' \<notin> set roles
          then throw (Forbidden ''Only approver or admin can reject'') s
          else if d_status document \<noteq> PENDING
          then throw (Conflict ''Only PENDING documents can be rejected'') s
          else andThen (api_updateStatus api docId DRAFT REJECT context reason s) (\<lambda>updated s.
            return updated (api_notify api context
              (workflowNotification ''REJECTED'' docId None (Some (d_ownerId document)) document reason
                (buildWorkflowNotificationMetadata REJECT (d_status document) DRAFT
                  (c_actorId context))) s)))"

definition archive :: "'s metadata_api \<Rightarrow> string \<Rightarrow> service_user \<Rightarrow> request_context \<Rightarrow> 's \<Rightarrow> (document, 's) outcome" where
  "archive api docId user context s =
     andThen (api_getDocument api docId context s) (\<lambda>document s.
       let actorId = buildActorId user; roles = coalesce (u_roles user) []
       in if (''editor'' \<notin> set roles \<and> ''admin'' \<notin> set roles)
             \<or> (d_ownerId document \<noteq> actorId \<and> ''admin'' \<notin> set roles)
          then throw (Forbidden ''Only the owner editor or admin can archive a document'') s
          else if d_status document \<noteq> PUBLISHED
          then throw (Conflict ''Only PUBLISHED documents can be archived'') s
          else andThen (api_updateStatus api docId ARCHIVED ARCHIVE context None s) (\<lambda>updated s.
            return updated (api_notify api context
              (workflowNotification ''ARCHIVED'' docId None (Some actorId) document None
                (buildWorkflowNotificationMetadata ARCHIVE (d_status document) ARCHIVED
                  (c_actorId context))) s)))"

definition deleteWorkflow :: "'s metadata_api \<Rightarrow> string \<Rightarrow> service_user \<Rightarrow> request_context \<Rightarrow> 's \<Rightarrow> (bool, 's) outcome" where
  "deleteWorkflow api docId user context s =
     andThen (api_getDocument api docId context s) (\<lambda>document s.
       let actorId = buildActorId user; roles = coalesce (u_roles user) []
       in if ''admin'' \<notin> set roles \<and> \<not> (''editor'' \<in> set roles \<and> d_ownerId document = actorId)
          then throw (Forbidden ''Only the document owner (editor) or admin can delete a document'') s
          else if d_status document \<noteq> DRAFT
          then throw (Conflict ''Only DRAFT documents can be deleted'') s
          else andThen (api_updateStatus api docId DELETED DELETE context None s) (\<lambda>_ s.
            return True (api_notify api context
              (workflowNotification ''DELETED'' docId None (Some actorId) document None
                (buildWorkflowNotificationMetadata DELETE (d_status document) DELETED
                  (c_actorId context))) s)))"

section \<open>The metadata service behind the client\<close>

definition rolesGuard :: "string list \<Rightarrow> service_user \<Rightarrow> bool" where
  "rolesGuard requiredRoles user =
     (if requiredRoles = [] then True
      else list_ex (\<lambda>role. role \<in> set (coalesce (u_roles user) [])) requiredRoles)"

definition guarded :: "string list \<Rightarrow> service_user \<Rightarrow> ('s \<Rightarrow> ('a, 's) outcome) \<Rightarrow> 's \<Rightarrow> ('a, 's) outcome" where
  "guarded requiredRoles user handler s =
     (if rolesGuard requiredRoles user then handler s else throw (Forbidden ''Forbidden resource'') s)"

text \<open>\<open>buildHeaders\<close>, and the request the metadata service reads from them.\<close>

definition clientRequest :: "service_user \<Rightarrow> request_context \<Rightarrow> http_request" where
  "clientRequest user context = \<lparr> r_traceId = None, r_user = user,
     r_requestIdHeader = c_traceId context, r_authorization = c_authorization context,
     r_xRoles = Some (join_with '','' (c_roles context)), r_xGroups = None, r_ip = None \<rparr>"

text \<open>\<open>rethrowHttpError\<close> after the exception filter: a plain error has become a 500.\<close>

definition rethrowHttpError :: "error \<Rightarrow> error" where
  "rethrowHttpError e = (case e of JsError _ \<Rightarrow> InternalError ''Internal server error'' | _ \<Rightarrow> e)"

definition request :: "('a, 's) outcome \<Rightarrow> ('a, 's) outcome" where
  "request m = (case m of (Inl e, s) \<Rightarrow> (Inl (rethrowHttpError e), s) | (Inr a, s) \<Rightarrow> (Inr a, s))"

lemma request_Inr: "request m = (Inr a, t) \<longleftrightarrow> m = (Inr a, t)"
  by (cases m; cases "fst m") (auto simp: request_def)

lemma guarded_Inr: "guarded rs u h s = (Inr a, t) \<longleftrightarrow> rolesGuard rs u \<and> h s = (Inr a, t)"
  by (simp add: guarded_def)

definition vaultApi :: "crypto \<Rightarrow> int \<Rightarrow> service_user \<Rightarrow> vault metadata_api" where
  "vaultApi cr now user = \<lparr>
     api_getDocument = (\<lambda>docId context s. request (guarded
       [''viewer'', ''editor'', ''approver'', ''compliance_officer'', ''admin''] user
       (assertCanReadMetadata cr now docId user (buildRequestContext (clientRequest user context)) None) s)),
     api_getApprovers = (\<lambda>context s. getApprovers now s),
     api_updateStatus = (\<lambda>docId status action context reason s. request (guarded
       [''editor'', ''approver'', ''admin''] user
       (updateStatus now docId \<lparr> us_status = status, us_action = action, us_reason = reason \<rparr> user
          (buildRequestContext (clientRequest user context))) s)),
     api_advanceApprovalStep = (\<lambda>docId context s. request (guarded [''approver'', ''admin''] user
       (advanceApprovalStep now docId (buildRequestContext (clientRequest user context))) s)),
     api_notify = notifyClient \<rparr>"

end
