(* ===== verification/Lifecycle.thy ===== *)
theory Lifecycle
  imports Effects Policy_Lemmas Org_Properties Acl_Service Comments_Service Share_Links Document_Listing Workflow_Service
begin

text \<open>
  The metadata service as a state machine: one step is one handler call with
  arbitrary arguments, at an arbitrary time, whatever its answer. The invariant
  of the vault holds in every reachable state.
\<close>

section \<open>Well-formed documents\<close>

definition doc_ok :: "document \<Rightarrow> bool" where
  "doc_ok d =
     (0 \<le> d_currentVersion d \<and> 0 \<le> d_approvalStep d
      \<and> (d_status d = PUBLISHED \<longrightarrow> d_publishedAt d \<noteq> None \<and> d_retentionUntil d \<noteq> None
           \<and> d_retentionClass d \<noteq> None \<and> d_retentionReason d \<noteq> None)
      \<and> (d_status d = ARCHIVED \<longrightarrow> d_publishedAt d \<noteq> None \<and> d_archivedAt d \<noteq> None)
      \<and> (d_status d = DELETED \<longleftrightarrow> d_deletedAt d \<noteq> None)
      \<and> (d_legalHold d \<longleftrightarrow> d_legalHoldBy d \<noteq> None)
      \<and> (d_legalHold d \<longrightarrow> truthy_opt (d_legalHoldReason d) \<and> d_legalHoldAt d \<noteq> None)
      \<and> distinct (d_approvalChain d) \<and> [] \<notin> set (d_approvalChain d)
      \<and> distinct (d_tags d) \<and> [] \<notin> set (d_tags d)
      \<and> (d_dlpStatus d = ''DETECTED'' \<longrightarrow> d_dlpDetectedAt d \<noteq> None))"

lemma sanitizeTags_ok: "distinct (sanitizeTags ts) \<and> [] \<notin> set (sanitizeTags ts)"
  by (auto simp: sanitizeTags_def truthy_def split: option.splits)

lemma doc_ok_new: "doc_ok (newDocument now i org dto a)"
  by (simp add: doc_ok_def newDocument_def sanitizeTags_ok)

lemma doc_ok_update: "doc_ok d \<Longrightarrow> doc_ok ((applyUpdate dto d)\<lparr>d_updatedAt := now\<rparr>)"
  using sanitizeTags_ok by (auto simp: doc_ok_def applyUpdate_def Let_def split: option.splits)

lemma applyUpdate_version: "d_currentVersion (applyUpdate dto d) = d_currentVersion d"
  by (auto simp: applyUpdate_def Let_def split: option.splits)

lemma doc_ok_hold:
  "doc_ok d \<Longrightarrow> (lh_hold h \<longrightarrow> truthy_opt (map_option trim (lh_reason h))) \<Longrightarrow>
   doc_ok ((applyLegalHold now h a d)\<lparr>d_updatedAt := t\<rparr>)"
  by (simp add: doc_ok_def applyLegalHold_def)

lemma applyLegalHold_version: "d_currentVersion (applyLegalHold now h a d) = d_currentVersion d"
  by (simp add: applyLegalHold_def)

lemma doc_ok_transition: "doc_ok d \<Longrightarrow> transitioned now action d d' \<Longrightarrow> doc_ok d'"
  by (cases action) (auto simp: transitioned_def doc_ok_def statusUpdate_def withRetentionEvidence_def Let_def)

lemma doc_ok_chain:
  "doc_ok d \<Longrightarrow> distinct as \<Longrightarrow> [] \<notin> set as \<Longrightarrow>
   doc_ok (d\<lparr>d_approvalChain := as, d_approvalStep := 0, d_updatedAt := now\<rparr>)"
  by (simp add: doc_ok_def)

lemma doc_ok_version:
  "doc_ok d \<Longrightarrow> 0 \<le> n \<Longrightarrow> doc_ok ((versionDocumentUpdate now n st fs esc d)\<lparr>d_updatedAt := t\<rparr>)"
  by (simp add: doc_ok_def versionDocumentUpdate_def Let_def)

section \<open>The invariant of the vault\<close>

definition version_numbers :: "string \<Rightarrow> doc_version list \<Rightarrow> int set" where
  "version_numbers i vs = v_version ` {v \<in> set vs. v_docId v = i}"

definition versions_ok :: "document list \<Rightarrow> doc_version list \<Rightarrow> bool" where
  "versions_ok ds vs =
     ((\<forall>d \<in> set ds. version_numbers (d_id d) vs = {1..d_currentVersion d})
      \<and> distinct (map (\<lambda>v. (v_docId v, v_version v)) vs)
      \<and> (\<forall>v \<in> set vs. v_docId v \<in> d_id ` set ds))"

lemma versions_ok_pairs:
  "versions_ok ds vs =
     ((\<forall>(i, n) \<in> set (zip (map d_id ds) (map d_currentVersion ds)). version_numbers i vs = {1..n})
      \<and> distinct (map (\<lambda>v. (v_docId v, v_version v)) vs)
      \<and> (\<forall>v \<in> set vs. v_docId v \<in> set (map d_id ds)))"
proof -
  have "zip (map d_id ds) (map d_currentVersion ds) = map (\<lambda>d. (d_id d, d_currentVersion d)) ds"
    by (induction ds) auto
  then show ?thesis by (simp add: versions_ok_def)
qed

lemma versions_ok_cong:
  "map d_id ds' = map d_id ds \<Longrightarrow> map d_currentVersion ds' = map d_currentVersion ds \<Longrightarrow>
   versions_ok ds' vs = versions_ok ds vs"
  by (simp only: versions_ok_pairs)

lemma version_numbers_filter:
  "j \<noteq> i \<Longrightarrow> version_numbers j (filter (\<lambda>v. v_docId v \<noteq> i) vs) = version_numbers j vs"
  by (auto simp: version_numbers_def image_def)

lemma version_numbers_append:
  "version_numbers j (vs @ [v]) = (if v_docId v = j then insert (v_version v) (version_numbers j vs)
     else version_numbers j vs)"
  by (auto simp: version_numbers_def)

definition vault_ok :: "vault \<Rightarrow> bool" where
  "vault_ok s =
     (distinct (map d_id (documents s)) \<and> (\<forall>d \<in> set (documents s). doc_ok d)
      \<and> versions_ok (documents s) (versions s) \<and> org_inv s)"

lemma vault_ok_distinct: "vault_ok s \<Longrightarrow> distinct (map d_id (documents s))"
  by (simp add: vault_ok_def)

lemma vault_ok_logs: "vault_ok s \<Longrightarrow> only_logs s t \<Longrightarrow> vault_ok t"
  by (simp add: vault_ok_def only_logsD)

lemma vault_ok_same:
  "vault_ok s \<Longrightarrow> documents t = documents s \<Longrightarrow> versions t = versions s \<Longrightarrow> org_inv t \<Longrightarrow> vault_ok t"
  by (simp add: vault_ok_def)

lemma vault_ok_simps [simp]:
  "vault_ok (emitEvent now c e s) = vault_ok s"
  "vault_ok (notifyClient c p s) = vault_ok s"
  "vault_ok (s\<lparr>acls := as\<rparr>) = vault_ok s"
  "vault_ok (s\<lparr>comments := cs\<rparr>) = vault_ok s"
  "vault_ok (s\<lparr>shareLinks := ls\<rparr>) = vault_ok s"
  by (simp_all add: vault_ok_def)

text \<open>A handler that rewrites one row keeps the invariant when its relation keeps the
  row well formed and its version number.\<close>

lemma vault_ok_effect:
  assumes ok: "vault_ok s" and eff: "effect R i s t"
    and R: "\<And>d d'. R d d' \<Longrightarrow> doc_ok d \<Longrightarrow> doc_ok d' \<and> d_currentVersion d' = d_currentVersion d"
  shows "vault_ok t"
proof (cases "only_logs s t")
  case True
  then show ?thesis using ok by (rule vault_ok_logs [rotated])
next
  case False
  then obtain f where docs: "documents t = update_row d_id i f (documents s)"
    and f: "\<And>d. d \<in> set (documents s) \<Longrightarrow> d_id d = i \<Longrightarrow> R d (f d) \<and> d_id (f d) = i"
    and tab: "same_tables s t"
    using eff by (auto simp: effect_def rewrites_row_def)
  let ?g = "\<lambda>d. if d_id d = i then f d else d"
  have g: "d_id (?g d) = d_id d \<and> doc_ok (?g d) \<and> d_currentVersion (?g d) = d_currentVersion d"
    if "d \<in> set (documents s)" for d
    using that f [OF that] R ok by (auto simp: vault_ok_def)
  have ids: "map d_id (documents t) = map d_id (documents s)"
    and cur: "map d_currentVersion (documents t) = map d_currentVersion (documents s)"
    using g by (auto simp: docs update_row_def)
  have "\<forall>d \<in> set (documents t). doc_ok d"
    using g unfolding docs set_update_row by blast
  then show ?thesis
    using ok tab versions_ok_cong [OF ids cur] by (simp add: vault_ok_def ids same_tables_def)
qed

section \<open>Handlers that write other tables\<close>

lemma createDocument_ok: "vault_ok s \<Longrightarrow> vault_ok (snd (createDocument now i dto c s))"
proof -
  assume ok: "vault_ok s"
  obtain r t where q: "requireOrgId now (c_actorId c) s = (r, t)" by fastforce
  have t: "documents t = documents s" "versions t = versions s" "org_inv t"
    using requireOrgId_frame [of now "c_actorId c" s] requireOrgId_inv [of s now "c_actorId c"] q ok
    by (auto simp: vault_ok_def)
  show ?thesis
  proof (cases r)
    case (Inl e)
    then show ?thesis using ok t q by (simp add: createDocument_def vault_ok_def)
  next
    case (Inr org)
    show ?thesis
    proof (cases "find_row d_id i (documents s)")
      case (Some x)
      then show ?thesis using ok t q Inr by (simp add: createDocument_def vault_ok_def)
    next
      case None
      let ?d = "newDocument now i org dto (c_actorId c)"
      have new: "i \<notin> d_id ` set (documents s)" using None by (simp add: find_row_None)
      have d: "d_id ?d = i" "d_currentVersion ?d = 0" by (simp_all add: newDocument_def)
      have "version_numbers i (versions s) = {}"
        using ok new by (auto simp: vault_ok_def versions_ok_def version_numbers_def)
      then have "versions_ok (documents s @ [?d]) (versions s)"
        using ok new d unfolding vault_ok_def versions_ok_def by auto
      then show ?thesis using ok new t q Inr None d doc_ok_new
        by (simp add: createDocument_def vault_ok_def Let_def)
    qed
  qed
qed

lemma deleteDocument_ok: "vault_ok s \<Longrightarrow> vault_ok (snd (prismaDeleteDocument i s))"
  by (auto simp: prismaDeleteDocument_def vault_ok_def versions_ok_def set_delete_row
      distinct_delete_row distinct_map_filter version_numbers_filter)

text \<open>Versions: a new row with the next number, and the document points to it.\<close>

lemma fetchApprovers_logs: "only_logs s (snd (fetchApprovers now s))"
  by (auto simp: fetchApprovers_def Let_def only_logs_def split: option.splits)

lemma getApprovers_logs: "only_logs s (snd (getApprovers now s))"
  using fetchApprovers_logs by (auto simp: getApprovers_def split: option.splits)

lemma notifyVersionUploaded_logs: "only_logs s (notifyVersionUploaded now i n fn u c info s)"
  using getApprovers_logs [of s now]
  by (auto simp: notifyVersionUploaded_def Let_def split: prod.splits)

lemma vault_ok_new_version:
  assumes ok: "vault_ok s" and row: "find_row d_id i (documents s) = Some d"
    and v: "v_docId v = i" "v_version v = d_currentVersion d + 1"
    and g: "\<And>x. d_id (g x) = d_id x" "\<And>x. d_currentVersion (g x) = d_currentVersion d + 1"
      "doc_ok d \<Longrightarrow> doc_ok (g d)"
  shows "vault_ok (s\<lparr>versions := versions s @ [v], documents := update_row d_id i g (documents s)\<rparr>)"
proof -
  have d: "d \<in> set (documents s)" "d_id d = i" using find_row_SomeD [OF row] by auto
  have only: "x = d" if "x \<in> set (documents s)" "d_id x = i" for x
    using row_is_found [OF vault_ok_distinct [OF ok] row] that by (auto simp: row_is_def)
  have nums: "version_numbers i (versions s) = {1..d_currentVersion d}" and cur: "0 \<le> d_currentVersion d"
    using ok d by (auto simp: vault_ok_def versions_ok_def doc_ok_def)
  have "insert (d_currentVersion d + 1) {1..d_currentVersion d} = {1..d_currentVersion d + 1}"
    using cur by auto
  then have grown: "version_numbers i (versions s @ [v]) = {1..d_currentVersion d + 1}"
    using v nums by (simp add: version_numbers_append)
  have "version_numbers (d_id (if d_id y = i then g y else y)) (versions s @ [v]) =
      {1..d_currentVersion (if d_id y = i then g y else y)}" if "y \<in> set (documents s)" for y
  proof (cases "d_id y = i")
    case True
    then show ?thesis using grown g(1,2) by simp
  next
    case False
    then show ?thesis using ok v(1) that
      by (simp add: version_numbers_append vault_ok_def versions_ok_def)
  qed
  then have "\<forall>x \<in> set (update_row d_id i g (documents s)).
      version_numbers (d_id x) (versions s @ [v]) = {1..d_currentVersion x}"
    unfolding set_update_row by blast
  moreover have "(i, d_currentVersion d + 1) \<notin> set (map (\<lambda>v. (v_docId v, v_version v)) (versions s))"
  proof
    assume "(i, d_currentVersion d + 1) \<in> set (map (\<lambda>v. (v_docId v, v_version v)) (versions s))"
    then have "d_currentVersion d + 1 \<in> version_numbers i (versions s)"
      by (auto simp: version_numbers_def)
    then show False using nums by simp
  qed
  moreover have ids: "map d_id (update_row d_id i g (documents s)) = map d_id (documents s)"
    by (rule map_key_update_row) (rule g)
  moreover have "d_id ` set (update_row d_id i g (documents s)) = d_id ` set (documents s)"
    using ids by (metis set_map)
  moreover have "i \<in> d_id ` set (documents s)" using d by blast
  ultimately have "versions_ok (update_row d_id i g (documents s)) (versions s @ [v])"
    using ok v by (auto simp: versions_ok_def vault_ok_def)
  moreover have "\<forall>x \<in> set (update_row d_id i g (documents s)). doc_ok x"
    using ok g(3) only by (auto simp: set_update_row vault_ok_def)
  ultimately show ?thesis using ok ids by (simp add: vault_ok_def)
qed

lemma vault_ok_guard:
  assumes "only_logs s (snd m)" "vault_ok s"
    "\<And>a t. m = (Inr a, t) \<Longrightarrow> only_logs s t \<Longrightarrow> vault_ok t \<Longrightarrow> vault_ok (snd (f a t))"
  shows "vault_ok (snd (andThen m f))"
  using assms by (cases m; cases "fst m") (auto intro: vault_ok_logs)

lemma vault_ok_scoped:
  assumes "vault_ok s"
    and "\<And>d t. find_row d_id i (documents t) = Some d \<Longrightarrow> vault_ok t \<Longrightarrow> only_logs s t \<Longrightarrow> vault_ok (snd (f d t))"
  shows "vault_ok (snd (andThen (findInOrgOrThrow now a i s) f))"
proof (cases rule: scoped_cases [of now a i s f])
  case (missing e)
  then show ?thesis
    using vault_ok_logs [OF assms(1) only_logs_findInOrgOrThrow [of s now a i]] by simp
next
  case (found d t)
  have "find_row d_id i (documents t) = Some d"
    using docSeenBy_row [OF vault_ok_distinct [OF assms(1)] found(1)] found(2) by (simp add: only_logsD)
  then show ?thesis using assms(2) [OF _ vault_ok_logs [OF assms(1) found(2)] found(2)] found(5) by simp
qed

lemma versionsAssertCanManage_snd [simp]: "snd (versionsAssertCanManage own u s) = s"
  by (simp add: versionsAssertCanManage_def Let_def)

lemma versionsAssertCanManage_Inr: "versionsAssertCanManage own u s = (Inr x, t) \<Longrightarrow> t = s"
  by (auto simp: versionsAssertCanManage_def Let_def split: if_splits)

lemma new_version_commit:
  assumes ok: "vault_ok t" and row: "find_row d_id i (documents t) = Some d"
    and v: "v_docId v = i" "v_version v = d_currentVersion d + 1"
    and g: "\<And>x. d_id (g x) = d_id x" "\<And>x. d_currentVersion (g x) = d_currentVersion d + 1"
      "doc_ok d \<Longrightarrow> doc_ok ((g d)\<lparr>d_updatedAt := now\<rparr>)"
    and k: "\<And>a b s. only_logs s (snd (k a b s))"
  shows "vault_ok (snd (andThen (prismaCreateVersion v t)
    (\<lambda>created s. andThen (prismaUpdateDocument now i g s) (\<lambda>u s. k created u s))))"
proof (cases "findVersion (v_docId v) (v_version v) t")
  case (Some w)
  then show ?thesis using ok by (simp add: prismaCreateVersion_def)
next
  case None
  let ?g = "\<lambda>x. (g x)\<lparr>d_updatedAt := now\<rparr>"
  let ?t = "t\<lparr>versions := versions t @ [v], documents := update_row d_id i ?g (documents t)\<rparr>"
  have "vault_ok ?t" by (rule vault_ok_new_version [OF ok row v]) (simp_all add: g)
  then have "vault_ok (snd (k v (?g d) ?t))" by (rule vault_ok_logs) (rule k)
  then show ?thesis using None row
    by (simp add: prismaCreateVersion_def prismaUpdateDocument_found)
qed

lemma createVersion_ok: "vault_ok s \<Longrightarrow> vault_ok (snd (createVersion now i dto u c s))"
  unfolding createVersion_def
  by (rule vault_ok_scoped, assumption, rule vault_ok_guard, simp, assumption)
    (auto simp: Let_def versionDocumentUpdate_def doc_ok_def notifyVersionUploaded_logs
      dest!: versionsAssertCanManage_Inr intro!: new_version_commit)

lemma restoreVersion_ok: "vault_ok s \<Longrightarrow> vault_ok (snd (restoreVersion now i n u c s))"
  unfolding restoreVersion_def
  by (rule vault_ok_scoped, assumption, rule vault_ok_guard, simp, assumption)
    (auto simp: Let_def doc_ok_def notifyVersionUploaded_logs split: option.splits
      dest!: versionsAssertCanManage_Inr findVersion_SomeD intro!: new_version_commit)

lemma purgeOne_ok: "vault_ok (snd (snd acc)) \<Longrightarrow> vault_ok (snd (snd (purgeOne now d acc)))"
  using deleteDocument_ok [of "snd (snd acc)" "d_id d"]
  by (auto simp: purgeOne_def split: prod.splits sum.splits intro: vault_ok_logs only_logs_emitEvent)

lemma purgeExpiredTrash_ok: "vault_ok s \<Longrightarrow> vault_ok (snd (purgeExpiredTrash now s))"
proof -
  assume ok: "vault_ok s"
  have "vault_ok (snd (snd acc)) \<Longrightarrow> vault_ok (snd (snd (fold (purgeOne now) ds acc)))" for ds acc
    by (induction ds arbitrary: acc) (simp_all add: purgeOne_ok)
  from this [of "(0, 0, s)" "filter (expiredTrash now) (documents s)"] ok show ?thesis
    by (auto simp: purgeExpiredTrash_def Let_def split: prod.splits)
qed

text \<open>
  The loop of the retention job: the candidates were read before the first
  archive, so each is archived whatever its row says by then; a row of the
  table keeps a publication date throughout.
\<close>

definition published_rows :: "document list \<Rightarrow> vault \<Rightarrow> bool" where
  "published_rows ds s =
     (\<forall>d \<in> set ds. \<forall>x \<in> set (documents s). d_id x = d_id d \<longrightarrow>
        d_publishedAt x \<noteq> None \<and> d_deletedAt x = None)"

lemma archiveDocument_ok:
  assumes "vault_ok s" "published_rows [d] s"
  shows "vault_ok (snd (archiveDocument d now who s))"
proof -
  have "effect (\<lambda>x x'. retired now x x' \<and> d_publishedAt x \<noteq> None \<and> d_deletedAt x = None)
      (d_id d) s (snd (archiveDocument d now who s))"
    using archiveDocument_effect [of now d s who] assms(2)
    unfolding effect_def rewrites_row_def published_rows_def by auto
  then show ?thesis
    by (rule vault_ok_effect [OF assms(1)]) (auto simp: retired_def doc_ok_def)
qed

lemma archiveDocument_published:
  assumes "published_rows ds s"
  shows "published_rows ds (snd (archiveDocument d now who s))"
  using archiveDocument_effect [of now d s who] assms
  unfolding effect_def rewrites_row_def retired_def
  by (elim disjE exE conjE)
    (auto simp: published_rows_def only_logsD set_update_row split: if_splits)

lemma retainOne_ok:
  assumes "vault_ok (snd (snd acc))" "published_rows (d # ds) (snd (snd acc))"
  shows "vault_ok (snd (snd (retainOne now who d acc))) \<and> published_rows ds (snd (snd (retainOne now who d acc)))"
proof -
  obtain n k s where acc: "acc = (n, k, s)" by (cases acc) auto
  have "snd (snd (retainOne now who d acc)) \<in> {s, snd (archiveDocument d now who s)}"
    by (auto simp: acc retainOne_def Let_def split: prod.splits sum.splits)
  moreover have "vault_ok (snd (archiveDocument d now who s))"
    using assms by (auto simp: acc published_rows_def intro!: archiveDocument_ok)
  moreover have "published_rows ds s" using assms(2) by (simp add: acc published_rows_def)
  ultimately show ?thesis using assms(1) archiveDocument_published [of ds s d now who]
    by (auto simp: acc)
qed

lemma runRetention_ok: "vault_ok s \<Longrightarrow> vault_ok (snd (runRetention now who s))"
proof -
  assume ok: "vault_ok s"
  have loop: "vault_ok (snd (snd acc)) \<Longrightarrow> published_rows ds (snd (snd acc)) \<Longrightarrow>
      vault_ok (snd (snd (fold (retainOne now by_who) ds acc)))" for ds acc by_who
  proof (induction ds arbitrary: acc)
    case (Cons d ds)
    then show ?case using retainOne_ok [OF Cons.prems] by simp
  qed simp
  have "published_rows (filter retentionCandidate (documents s)) s"
    unfolding published_rows_def
  proof (intro ballI impI)
    fix d x
    assume d: "d \<in> set (filter retentionCandidate (documents s))" and x: "x \<in> set (documents s)" "d_id x = d_id d"
    have rows: "find_row d_id (d_id y) (documents s) = Some y" if "y \<in> set (documents s)" for y
      using find_row_member [OF vault_ok_distinct [OF ok] that] .
    have "d \<in> set (documents s)" using d by simp
    from rows [OF this] rows [OF x(1)] x(2) have "x = d" by simp
    with d ok show "d_publishedAt x \<noteq> None \<and> d_deletedAt x = None"
      by (auto simp: retentionCandidate_def vault_ok_def doc_ok_def)
  qed
  then have "vault_ok (snd (snd (fold (retainOne now (coalesce who ''system:cron''))
      (filter retentionCandidate (documents s)) (0, 0, s))))"
    using loop [of "(0, 0, s)"] ok by simp
  then show ?thesis by (auto simp: runRetention_def Let_def split: prod.splits)
qed

section \<open>Handlers that leave documents and versions alone\<close>

lemma aclAssertCanManage_Inr: "aclAssertCanManage own u s = (Inr x, t) \<Longrightarrow> t = s"
  by (auto simp: aclAssertCanManage_def Let_def split: if_splits)

lemma aclAssertCanManage_snd [simp]: "snd (aclAssertCanManage own u s) = s"
  by (simp add: aclAssertCanManage_def Let_def)

lemma upsertAcl_ok: "vault_ok s \<Longrightarrow> vault_ok (snd (upsertAcl now n i dto u c s))"
  unfolding upsertAcl_def
  by (rule vault_ok_scoped, assumption, rule vault_ok_guard, simp, assumption)
    (auto simp: Let_def)

lemma deleteAcl_ok: "vault_ok s \<Longrightarrow> vault_ok (snd (deleteAcl now i n u c s))"
  unfolding deleteAcl_def
  by (rule vault_ok_scoped, assumption, rule vault_ok_guard, simp, assumption)
    (auto simp: Let_def split: option.splits)

lemma findCommentForDocument_snd [simp]: "snd (findCommentForDocument i k s) = s"
  by (simp add: findCommentForDocument_def split: option.splits)

lemma comments_ok:
  "vault_ok s \<Longrightarrow> vault_ok (snd (createComment now n i txt u c s))"
  "vault_ok s \<Longrightarrow> vault_ok (snd (updateComment now i k txt u c s))"
  "vault_ok s \<Longrightarrow> vault_ok (snd (deleteComment now i k u c s))"
proof -
  show "vault_ok s \<Longrightarrow> vault_ok (snd (createComment now n i txt u c s))"
    by (auto simp: createComment_def Let_def)
  show "vault_ok s \<Longrightarrow> vault_ok (snd (updateComment now i k txt u c s))"
    unfolding updateComment_def Let_def
    by (rule vault_ok_guard [where s = s]) (auto)
  show "vault_ok s \<Longrightarrow> vault_ok (snd (deleteComment now i k u c s))"
    unfolding deleteComment_def Let_def
    by (rule vault_ok_guard [where s = s]) (auto)
qed

lemma assertCanManageShares_snd [simp]: "snd (assertCanManageShares own c s) = s"
  by (simp add: assertCanManageShares_def Let_def)

lemma share_ok:
  "vault_ok s \<Longrightarrow> vault_ok (snd (createShareLink cr now n tok i sdto c s))"
  "vault_ok s \<Longrightarrow> vault_ok (snd (revokeShareLink now i l c s))"
  "vault_ok s \<Longrightarrow> vault_ok (snd (redeemShareLink cr now tok c s))"
proof -
  show "vault_ok s \<Longrightarrow> vault_ok (snd (createShareLink cr now n tok i sdto c s))"
    by (auto simp: createShareLink_def Let_def intro!: vault_ok_scoped vault_ok_guard)
  show "vault_ok s \<Longrightarrow> vault_ok (snd (revokeShareLink now i l c s))"
    by (auto simp: revokeShareLink_def Let_def split: option.splits
        intro!: vault_ok_scoped vault_ok_guard)
  show "vault_ok s \<Longrightarrow> vault_ok (snd (redeemShareLink cr now tok c s))"
    by (auto simp: redeemShareLink_def Let_def split: option.splits)
qed

lemma dropOrphanOrgs_docs:
  "documents (snd (dropOrphanOrgs tgt ms s)) = documents s \<and> versions (snd (dropOrphanOrgs tgt ms s)) = versions s"
  by (induction tgt ms s rule: dropOrphanOrgs.induct)
    (auto simp: Let_def deleteOrganization_def split: option.splits)

section \<open>Organizations\<close>

lemma addMember_docs:
  "documents (snd (addMember now c u r s)) = documents s \<and> versions (snd (addMember now c u r s)) = versions s"
  using dropOrphanOrgs_docs
  by (auto simp: addMember_def addMemberIn_def updateMembershipRole_def createMembership_def
      invalidate_def Let_def andThen_snd split: option.splits sum.splits if_splits)

lemma updateMemberRole_docs:
  "documents (snd (updateMemberRole now c u r s)) = documents s \<and> versions (snd (updateMemberRole now c u r s)) = versions s"
  by (auto simp: updateMemberRole_def updateMembershipRole_def invalidate_def andThen_snd
      split: option.splits sum.splits)

lemma removeMember_docs:
  "documents (snd (removeMember now c u s)) = documents s \<and> versions (snd (removeMember now c u s)) = versions s"
  by (auto simp: removeMember_def invalidate_def andThen_snd split: option.splits sum.splits)

lemma org_ok:
  "vault_ok s \<Longrightarrow> vault_ok (snd (addMember now c u r s))"
  "vault_ok s \<Longrightarrow> vault_ok (snd (updateMemberRole now c u r s))"
  "vault_ok s \<Longrightarrow> vault_ok (snd (removeMember now c u s))"
  by (rule vault_ok_same; simp add: addMember_docs updateMemberRole_docs removeMember_docs
      addMember_inv updateMemberRole_inv removeMember_inv vault_ok_def)+

section \<open>Steps\<close>

text \<open>
  One call of a handler of metadata-service. Handlers that only read or only
  ask for a decision are covered by the last rule: they change the caches and
  the posted messages at most. \<open>markDeleted\<close> is not a step: no route calls it.
\<close>

inductive vault_step :: "vault \<Rightarrow> vault \<Rightarrow> bool" where
  create: "vault_step s (snd (createDocument now newId cdto c s))"
| update: "vault_step s (snd (updateDocument now i udto c s))"
| status: "vault_step s (snd (updateStatus now i sdto u c s))"
| hold: "vault_step s (snd (setLegalHold now i h c s))"
| restore: "vault_step s (snd (restoreFromTrash now i c s))"
| chain: "vault_step s (snd (setApprovalChain now i as c s))"
| advance: "vault_step s (snd (advanceApprovalStep now i c s))"
| purge: "vault_step s (snd (purgeExpiredTrash now s))"
| retention: "vault_step s (snd (runRetention now who s))"
| version: "vault_step s (snd (createVersion now i vdto u c s))"
| version_restore: "vault_step s (snd (restoreVersion now i n u c s))"
| acl_add: "vault_step s (snd (upsertAcl now newId i adto u c s))"
| acl_delete: "vault_step s (snd (deleteAcl now i aid u c s))"
| comment: "vault_step s (snd (createComment now newId i txt u c s))"
| comment_update: "vault_step s (snd (updateComment now i k txt u c s))"
| comment_delete: "vault_step s (snd (deleteComment now i k u c s))"
| share: "vault_step s (snd (createShareLink cr now newId tok i ldto c s))"
| share_revoke: "vault_step s (snd (revokeShareLink now i l c s))"
| share_redeem: "vault_step s (snd (redeemShareLink cr now tok c s))"
| member_add: "vault_step s (snd (addMember now c target r s))"
| member_role: "vault_step s (snd (updateMemberRole now c target r s))"
| member_remove: "vault_step s (snd (removeMember now c target s))"
| reads: "only_logs s t \<Longrightarrow> vault_step s t"

lemma vault_step_ok: "vault_step s t \<Longrightarrow> vault_ok s \<Longrightarrow> vault_ok t"
proof (induction rule: vault_step.induct)
  case (update s now i udto c)
  show ?case
    by (rule vault_ok_effect [OF update updateDocument_effect [OF vault_ok_distinct [OF update]]])
      (auto simp: doc_ok_update applyUpdate_version)
next
  case (status s now i sdto u c)
  show ?case
    by (rule vault_ok_effect [OF status updateStatus_effect [OF vault_ok_distinct [OF status]]])
      (auto simp: doc_ok_transition transitioned_def statusUpdate_def withRetentionEvidence_def Let_def)
next
  case (hold s now i h c)
  show ?case
    by (rule vault_ok_effect [OF hold setLegalHold_effect [OF vault_ok_distinct [OF hold]]])
      (auto simp: doc_ok_hold applyLegalHold_version)
next
  case (restore s now i c)
  show ?case
    by (rule vault_ok_effect [OF restore restoreFromTrash_effect [OF vault_ok_distinct [OF restore]]])
      (auto simp: doc_ok_def)
next
  case (chain s now i as c)
  show ?case
    by (rule vault_ok_effect [OF chain setApprovalChain_effect [OF vault_ok_distinct [OF chain]]])
      (auto simp: doc_ok_def truthy_def)
next
  case (advance s now i c)
  show ?case
    by (rule vault_ok_effect [OF advance advanceApprovalStep_effect [OF vault_ok_distinct [OF advance]]])
      (auto simp: doc_ok_def)
qed (auto intro: createDocument_ok purgeExpiredTrash_ok runRetention_ok createVersion_ok
  restoreVersion_ok upsertAcl_ok deleteAcl_ok comments_ok share_ok org_ok vault_ok_logs)

definition reachable :: "vault \<Rightarrow> bool" where
  "reachable s = (\<exists>s0. documents s0 = [] \<and> versions s0 = [] \<and> org_inv s0 \<and> vault_step\<^sup>*\<^sup>* s0 s)"

lemma vault_invariant_of: "reachable s \<Longrightarrow> vault_ok s"
proof -
  assume "reachable s"
  then obtain s0 where s0: "documents s0 = []" "versions s0 = []" "org_inv s0" "vault_step\<^sup>*\<^sup>* s0 s"
    by (auto simp: reachable_def)
  have "vault_ok s0" using s0 by (simp add: vault_ok_def versions_ok_def)
  from s0(4) this show ?thesis
    by (induction rule: rtranclp_induct) (auto intro: vault_step_ok)
qed

text \<open>
  C1: the invariant of the vault. In every state reachable from a vault without
  documents by any sequence of handler calls: document ids are unique; every
  document is well formed (a published one carries its publication date and
  retention evidence, an archived one its dates, exactly the deleted ones a
  deletion date, a held one who holds it and a reason, an approval chain no
  duplicates, a flagged one its detection date); the versions of a document are
  numbered from 1 to its current version; users belong to one organization and
  the organization cache agrees with the memberships.
\<close>

theorem vault_invariant:
  assumes "reachable s"
  shows "vault_ok s"
  using assms by (rule vault_invariant_of)

definition start_vault :: vault where
  "start_vault = sample_vault\<lparr> documents := [], versions := [], acls := [], shareLinks := [] \<rparr>"

lemma start_org_inv: "org_inv start_vault"
  using sample_org_inv by (simp add: start_vault_def)

definition draft_dto :: create_document_dto where
  "draft_dto = \<lparr> cd_title = ''Plan'', cd_description = None, cd_classification = Some INTERNAL,
     cd_tags = Some [''q1'', '' q1 ''] \<rparr>"

definition alice :: request_context where
  "alice = sample_context ''alice'' [''editor'']"

definition submitted_vault :: vault where
  "submitted_vault =
     snd (updateStatus 2000 ''n1'' \<lparr> us_status = PENDING, us_action = SUBMIT, us_reason = None \<rparr>
       (sample_user ''alice'' [''editor'']) alice
       (snd (createDocument 1000 ''n1'' draft_dto alice start_vault)))"

lemma submitted_reachable: "reachable submitted_vault"
proof -
  have "vault_step start_vault (snd (createDocument 1000 ''n1'' draft_dto alice start_vault))"
    by (rule vault_step.create)
  moreover have "vault_step (snd (createDocument 1000 ''n1'' draft_dto alice start_vault)) submitted_vault"
    unfolding submitted_vault_def by (rule vault_step.status)
  ultimately have "vault_step\<^sup>*\<^sup>* start_vault submitted_vault" by auto
  then show ?thesis unfolding reachable_def using start_org_inv
    by (intro exI [of _ start_vault]) (simp add: start_vault_def)
qed

theorem vault_invariant_witness:
  "vault_ok submitted_vault \<and> map d_status (documents submitted_vault) = [PENDING]"
proof -
  have "map d_status (documents submitted_vault) = [PENDING]" by code_simp
  with vault_invariant [OF submitted_reachable] show ?thesis by simp
qed

end
