(* ===== verification/Job_Properties.thy ===== *)
theory Job_Properties
  imports Lifecycle
begin

text \<open>
  The scheduled jobs, exactly: which documents the retention job archives and
  which the trash purge deletes, and how the trash window divides deleted
  documents between restore and purge.
\<close>

section \<open>Retention\<close>

definition effectiveUntil :: "document \<Rightarrow> int option" where
  "effectiveUntil d =
     (case d_retentionUntil d of
        Some t \<Rightarrow> Some t
      | None \<Rightarrow> map_option (\<lambda>p. p + CLASSIFICATION_RETENTION_DAYS (d_classification d) * DAY_MS)
                  (d_publishedAt d))"

text \<open>Overdue: the retention date lies at least a whole day back.\<close>

definition overdue :: "int \<Rightarrow> document \<Rightarrow> bool" where
  "overdue now d = (case effectiveUntil d of None \<Rightarrow> False | Some t \<Rightarrow> t + DAY_MS \<le> now)"

lemma evidence_until: "rr_retentionUntil (toEvidenceRecord d now) = effectiveUntil d"
  by (cases "d_classification d"; cases "d_publishedAt d"; cases "d_retentionUntil d")
    (simp_all add: toEvidenceRecord_def effectiveUntil_def buildRetentionEvidence_def DAY_MS_def Let_def)

lemma evidence_overdue:
  "rr_retentionStatus (toEvidenceRecord d now) = RET_OVERDUE \<longleftrightarrow> d_status d \<noteq> ARCHIVED \<and> overdue now d"
proof -
  have day: "0 < DAY_MS" by (simp add: DAY_MS_def)
  have days: "rr_daysRemaining (toEvidenceRecord d now) =
      map_option (\<lambda>t. ceil_div (t - now) DAY_MS) (effectiveUntil d)"
    using evidence_until [of d now] by (simp add: toEvidenceRecord_def Let_def)
  have "rr_retentionStatus (toEvidenceRecord d now) =
     (if d_status d = ARCHIVED then RET_ARCHIVED
      else case rr_daysRemaining (toEvidenceRecord d now) of
        None \<Rightarrow> RET_UNSET
      | Some n \<Rightarrow> if n < 0 then RET_OVERDUE else if n \<le> DUE_SOON_DAYS then RET_DUE_SOON else RET_ACTIVE)"
    by (simp add: toEvidenceRecord_def Let_def)
  then show ?thesis
    unfolding days using ceil_div_less_iff [OF day, of _ 0]
    by (auto simp: overdue_def split: option.splits)
qed

definition archived_row :: "int \<Rightarrow> document \<Rightarrow> document" where
  "archived_row now d = d\<lparr>d_status := ARCHIVED, d_archivedAt := Some now, d_updatedAt := now\<rparr>"

definition due :: "int \<Rightarrow> document \<Rightarrow> bool" where
  "due now d = (retentionCandidate d \<and> overdue now d)"

lemma archiveDocument_run:
  assumes "find_row d_id (d_id d) (documents s) = Some r"
  shows "\<exists>s'. archiveDocument d now who s = (Inr (), s')
    \<and> documents s' = update_row d_id (d_id d) (archived_row now) (documents s)"
  using assms by (simp add: archiveDocument_def prismaUpdateDocument_found appendHistory_def
      archived_row_def [abs_def] return_def Let_def)

lemma retainOne_run:
  assumes "retentionCandidate d" "d \<in> set (documents s)"
  shows "\<exists>s'. retainOne now who d (n, k, s) = (if due now d then n + 1 else n, k, s')
    \<and> documents s' = (if due now d then update_row d_id (d_id d) (archived_row now) (documents s) else documents s)"
proof -
  obtain r where "find_row d_id (d_id d) (documents s) = Some r"
    using assms(2) by (cases "find_row d_id (d_id d) (documents s)") (auto simp: find_row_None)
  from archiveDocument_run [OF this, of now who] show ?thesis
    using assms(1) evidence_overdue [of d now]
    by (auto simp: retainOne_def due_def evidence_until retentionCandidate_def overdue_def Let_def
        split: option.splits)
qed

lemma retain_loop:
  assumes "distinct (map d_id (documents s0))" "distinct ds" "set ds \<subseteq> set (documents s0)"
    and "\<forall>d \<in> set ds. retentionCandidate d" and "set past \<inter> set ds = {}" "set past \<subseteq> set (documents s0)"
    and "documents s = map (\<lambda>x. if x \<in> set past \<and> due now x then archived_row now x else x) (documents s0)"
  shows "\<exists>s'. fold (retainOne now who) ds (n, k, s) = (n + int (length (filter (due now) ds)), k, s')
    \<and> documents s' = map (\<lambda>x. if x \<in> set past \<union> set ds \<and> due now x then archived_row now x else x) (documents s0)"
  using assms(2-)
proof (induction ds arbitrary: past n s)
  case Nil
  then show ?case by simp
next
  case (Cons d ds)
  let ?g = "\<lambda>x. if x \<in> set past \<and> due now x then archived_row now x else x"
  have d0: "d \<in> set (documents s0)" "d \<notin> set past" using Cons.prems by auto
  have "?g d = d" using d0 by simp
  then have ds: "d \<in> set (documents s)" using d0 Cons.prems(6) by force
  have ids: "distinct (map d_id (documents s))"
    using assms(1) by (simp add: Cons.prems(6) comp_def archived_row_def if_distrib cong: if_cong)
  have cand: "retentionCandidate d" using Cons.prems(3) by simp
  from retainOne_run [OF cand ds, of now who n k]
  obtain s1 where s1: "retainOne now who d (n, k, s) = (if due now d then n + 1 else n, k, s1)"
    "documents s1 = (if due now d then update_row d_id (d_id d) (archived_row now) (documents s) else documents s)"
    by blast
  have idd: "d_id (?g x) = d_id x" for x by (simp add: archived_row_def)
  have same: "x = d" if "x \<in> set (documents s0)" "d_id x = d_id d" for x
    using assms(1) that d0(1) by (auto simp: distinct_map inj_on_def)
  have docs1: "documents s1 = map (\<lambda>x. if x \<in> set (d # past) \<and> due now x then archived_row now x else x) (documents s0)"
  proof (cases "due now d")
    case True
    then have "documents s1 = map (\<lambda>x. if d_id (?g x) = d_id d then archived_row now (?g x) else ?g x) (documents s0)"
      by (simp add: s1(2) update_row_def Cons.prems(6) comp_def)
    also have "\<dots> = map (\<lambda>x. if x \<in> set (d # past) \<and> due now x then archived_row now x else x) (documents s0)"
    proof (rule map_cong [OF refl])
      fix x assume x: "x \<in> set (documents s0)"
      show "(if d_id (?g x) = d_id d then archived_row now (?g x) else ?g x) =
          (if x \<in> set (d # past) \<and> due now x then archived_row now x else x)"
        using idd [of x] same [OF x] d0(2) True by (cases "x = d") auto
    qed
    finally show ?thesis .
  next
    case False
    then show ?thesis by (auto simp: s1(2) Cons.prems(6))
  qed
  have "\<exists>s'. fold (retainOne now who) ds (if due now d then n + 1 else n, k, s1) =
      ((if due now d then n + 1 else n) + int (length (filter (due now) ds)), k, s')
    \<and> documents s' = map (\<lambda>x. if x \<in> set (d # past) \<union> set ds \<and> due now x then archived_row now x else x) (documents s0)"
  proof (rule Cons.IH)
    show "distinct ds" "set ds \<subseteq> set (documents s0)" "\<forall>d \<in> set ds. retentionCandidate d"
      "set (d # past) \<inter> set ds = {}" "set (d # past) \<subseteq> set (documents s0)"
      using Cons.prems(1-5) by auto
  qed (rule docs1)
  then obtain s' where s': "fold (retainOne now who) ds (if due now d then n + 1 else n, k, s1) =
      ((if due now d then n + 1 else n) + int (length (filter (due now) ds)), k, s')"
    "documents s' = map (\<lambda>x. if x \<in> set (d # past) \<union> set ds \<and> due now x then archived_row now x else x) (documents s0)"
    by blast
  have "set past \<union> set (d # ds) = set (d # past) \<union> set ds" by auto
  then show ?case using s' by (intro exI [of _ s']) (simp add: s1(1))
qed

lemma runRetention_run:
  assumes "distinct (map d_id (documents s))"
  shows "rn_archived (fst (runRetention now who s)) = int (length (filter (due now) (documents s)))
    \<and> rn_skipped (fst (runRetention now who s)) = 0
    \<and> documents (snd (runRetention now who s)) =
        map (\<lambda>d. if due now d then archived_row now d else d) (documents s)"
proof -
  let ?ds = "filter retentionCandidate (documents s)"
  have flt: "filter (due now) ?ds = filter (due now) (documents s)"
    unfolding filter_filter by (rule filter_cong) (auto simp: due_def)
  have "distinct ?ds" using assms by (simp add: distinct_map)
  then have "\<exists>s'. fold (retainOne now (coalesce who ''system:cron'')) ?ds (0, 0, s) =
      (0 + int (length (filter (due now) ?ds)), 0, s')
    \<and> documents s' = map (\<lambda>x. if x \<in> set [] \<union> set ?ds \<and> due now x then archived_row now x else x) (documents s)"
    by (rule retain_loop [OF assms]) simp_all
  then obtain s' where s': "fold (retainOne now (coalesce who ''system:cron'')) ?ds (0, 0, s) =
      (int (length (filter (due now) ?ds)), 0, s')"
    "documents s' = map (\<lambda>x. if x \<in> set ?ds \<and> due now x then archived_row now x else x) (documents s)"
    by auto
  have "documents s' = map (\<lambda>x. if due now x then archived_row now x else x) (documents s)"
    unfolding s'(2) by (auto simp: due_def)
  then show ?thesis using s'(1) flt by (simp add: runRetention_def Let_def)
qed

lemma runRetention_again:
  assumes "vault_ok s"
  shows "rn_archived (fst (runRetention now who' (snd (runRetention now who s)))) = 0"
proof -
  note run = runRetention_run [OF vault_ok_distinct [OF assms], of now who]
  have "filter (due now) (map (\<lambda>d. if due now d then archived_row now d else d) ds) = []" for ds
    by (induction ds) (auto simp: due_def retentionCandidate_def archived_row_def)
  with run have "filter (due now) (documents (snd (runRetention now who s))) = []" by simp
  then show ?thesis
    using runRetention_run [OF vault_ok_distinct [OF runRetention_ok [OF assms]], of now who' now who]
    by simp
qed

text \<open>
  C20: the retention job archives exactly the published documents that are not on
  legal hold and whose retention date (their own, or the one of their
  classification) lies at least a day back; it changes no other document, fails
  on none, reports their number, and finds nothing left to do when run again.
\<close>

theorem retention_archives_exactly_due:
  assumes "vault_ok s"
  shows "documents (snd (runRetention now who s)) =
      map (\<lambda>d. if d_status d = PUBLISHED \<and> d_publishedAt d \<noteq> None \<and> d_archivedAt d = None
               \<and> \<not> d_legalHold d \<and> overdue now d
           then d\<lparr>d_status := ARCHIVED, d_archivedAt := Some now, d_updatedAt := now\<rparr> else d) (documents s)
    \<and> rn_archived (fst (runRetention now who s)) = int (length (filter (due now) (documents s)))
    \<and> rn_skipped (fst (runRetention now who s)) = 0
    \<and> rn_archived (fst (runRetention now who' (snd (runRetention now who s)))) = 0"
  using runRetention_run [OF vault_ok_distinct [OF assms], of now who]
    runRetention_again [OF assms, of now who' who]
  by (simp only: due_def retentionCandidate_def archived_row_def conj_assoc simp_thms)

definition published_vault :: vault where
  "published_vault =
     snd (updateStatus 3000 ''n1'' \<lparr> us_status = PUBLISHED, us_action = APPROVE, us_reason = None \<rparr>
       (sample_user ''carol'' [''approver'']) (sample_context ''carol'' [''approver'']) submitted_vault)"

lemma published_ok: "vault_ok published_vault"
  unfolding published_vault_def
  using vault_step_ok [OF vault_step.status] vault_invariant_of [OF submitted_reachable] by blast

theorem retention_archives_exactly_due_witness:
  "map d_status (documents (snd (runRetention (3000 + 365 * DAY_MS + DAY_MS) None published_vault))) = [ARCHIVED]
   \<and> map d_status (documents (snd (runRetention (3000 + 365 * DAY_MS) None published_vault))) = [PUBLISHED]"
proof -
  have "map (\<lambda>d. (d_status d, d_publishedAt d, d_archivedAt d, d_legalHold d, d_retentionUntil d))
      (documents published_vault) = [(PUBLISHED, Some 3000, None, False, Some (3000 + 365 * DAY_MS))]"
    by code_simp
  then show ?thesis
    using retention_archives_exactly_due [OF published_ok, of "3000 + 365 * DAY_MS + DAY_MS" None None]
      retention_archives_exactly_due [OF published_ok, of "3000 + 365 * DAY_MS" None None]
    by (auto simp: overdue_def effectiveUntil_def DAY_MS_def)
qed

section \<open>Trash\<close>

lemma purge_one:
  assumes "find_row d_id (d_id d) (documents s) \<noteq> None"
  shows "\<exists>s1. purgeOne now d (n, k, s) = (n + 1, k, s1)
    \<and> documents s1 = filter (\<lambda>x. d_id x \<noteq> d_id d) (documents s)
    \<and> versions s1 = filter (\<lambda>v. v_docId v \<noteq> d_id d) (versions s)"
proof -
  obtain y where "find_row d_id (d_id d) (documents s) = Some y" using assms by auto
  then show ?thesis by (simp add: purgeOne_def prismaDeleteDocument_def return_def delete_row_def)
qed

lemma purge_loop:
  assumes "distinct (map d_id ds)" "d_id ` set ds \<subseteq> d_id ` set (documents s)"
  shows "\<exists>s'. fold (purgeOne now) ds (n, k, s) = (n + int (length ds), k, s')
    \<and> documents s' = filter (\<lambda>x. d_id x \<notin> d_id ` set ds) (documents s)
    \<and> versions s' = filter (\<lambda>v. v_docId v \<notin> d_id ` set ds) (versions s)"
  using assms
proof (induction ds arbitrary: n s)
  case Nil
  then show ?case by simp
next
  case (Cons d ds)
  have "find_row d_id (d_id d) (documents s) \<noteq> None"
    using Cons.prems(2) unfolding find_row_None by auto
  from purge_one [OF this, of now n k] obtain s1 where s1:
    "purgeOne now d (n, k, s) = (n + 1, k, s1)"
    "documents s1 = filter (\<lambda>x. d_id x \<noteq> d_id d) (documents s)"
    "versions s1 = filter (\<lambda>v. v_docId v \<noteq> d_id d) (versions s)" by blast
  have sub: "d_id ` set ds \<subseteq> d_id ` set (documents s1)"
  proof
    fix i assume i: "i \<in> d_id ` set ds"
    then have "i \<noteq> d_id d" using Cons.prems(1) by (metis distinct.simps(2) list.set_map list.simps(9))
    moreover have "i \<in> d_id ` set (documents s)" using i Cons.prems(2) by auto
    ultimately show "i \<in> d_id ` set (documents s1)" unfolding s1(2) by auto
  qed
  have dis: "distinct (map d_id ds)" using Cons.prems(1) by simp
  from Cons.IH [OF dis sub, of "n + 1"] obtain s' where s':
    "fold (purgeOne now) ds (n + 1, k, s1) = (n + 1 + int (length ds), k, s')"
    "documents s' = filter (\<lambda>x. d_id x \<notin> d_id ` set ds) (documents s1)"
    "versions s' = filter (\<lambda>v. v_docId v \<notin> d_id ` set ds) (versions s1)" by blast
  have 1: "fold (purgeOne now) (d # ds) (n, k, s) = (n + int (length (d # ds)), k, s')"
    by (simp add: s1(1) s'(1))
  have 2: "documents s' = filter (\<lambda>x. d_id x \<notin> d_id ` set (d # ds)) (documents s)"
    unfolding s'(2) s1(2) filter_filter by (rule filter_cong) auto
  have 3: "versions s' = filter (\<lambda>v. v_docId v \<notin> d_id ` set (d # ds)) (versions s)"
    unfolding s'(3) s1(3) filter_filter by (rule filter_cong) auto
  show ?case using 1 2 3 by blast
qed

lemma purge_run:
  assumes "distinct (map d_id (documents s))"
  shows "pr_purged (fst (purgeExpiredTrash now s)) = int (length (filter (expiredTrash now) (documents s)))
    \<and> pr_failed (fst (purgeExpiredTrash now s)) = 0
    \<and> documents (snd (purgeExpiredTrash now s)) = filter (\<lambda>d. \<not> expiredTrash now d) (documents s)
    \<and> versions (snd (purgeExpiredTrash now s)) =
        filter (\<lambda>v. \<not> (\<exists>d \<in> set (documents s). d_id d = v_docId v \<and> expiredTrash now d)) (versions s)"
proof -
  let ?ds = "filter (expiredTrash now) (documents s)"
  have "distinct (map d_id ?ds)" "d_id ` set ?ds \<subseteq> d_id ` set (documents s)"
    using assms by (auto simp: distinct_map_filter)
  from purge_loop [OF this, of now 0 0] obtain s' where
    s': "fold (purgeOne now) ?ds (0, 0, s) = (int (length ?ds), 0, s')"
    "documents s' = filter (\<lambda>x. d_id x \<notin> d_id ` set ?ds) (documents s)"
    "versions s' = filter (\<lambda>v. v_docId v \<notin> d_id ` set ?ds) (versions s)" by auto
  have "documents s' = filter (\<lambda>d. \<not> expiredTrash now d) (documents s)"
    unfolding s'(2)
  proof (rule filter_cong [OF refl])
    fix x assume x: "x \<in> set (documents s)"
    have "y = x" if "y \<in> set (documents s)" "d_id y = d_id x" for y
      using assms that x by (auto simp: distinct_map inj_on_def)
    then show "(d_id x \<notin> d_id ` set ?ds) = (\<not> expiredTrash now x)" using x by auto
  qed
  moreover have "versions s' =
      filter (\<lambda>v. \<not> (\<exists>d \<in> set (documents s). d_id d = v_docId v \<and> expiredTrash now d)) (versions s)"
    unfolding s'(3) by (rule filter_cong) (auto simp: image_iff)
  ultimately show ?thesis using s'(1) by (simp add: purgeExpiredTrash_def Let_def)
qed

lemma restore_iff:
  assumes "docSeenBy now (c_actorId c) i s = Some d" "distinct (map d_id (documents s))"
  shows "succeeds (restoreFromTrash now i c s) \<longleftrightarrow>
    d_status d = DELETED \<and> (''admin'' \<in> set (c_roles c) \<or> d_ownerId d = c_actorId c)
    \<and> (\<forall>t. d_deletedAt d = Some t \<longrightarrow> now \<le> t + trashRecoveryDays * DAY_MS)"
proof (cases rule: scoped_cases [of now "c_actorId c" i s "\<lambda>d t. (Inr d, t)"])
  case (missing e)
  then show ?thesis using assms(1) by simp
next
  case (found d' t)
  have "find_row d_id i (documents t) = Some d"
    using docSeenBy_row [OF assms(2,1)] found(2) by (simp add: only_logsD)
  then show ?thesis using found(1) assms(1)
    unfolding restoreFromTrash_def found(4) andThen_simps
    by (auto simp: prismaUpdateDocument_found split: option.splits)
qed

text \<open>
  C21: the trash window divides the deleted documents: at any instant, the owner
  or an administrator can restore a deleted document exactly when the purge job
  run at that instant would leave it in place; the job deletes exactly the
  expired ones, with their versions, and fails on none.
\<close>

theorem trash_restore_or_purge:
  assumes "vault_ok s" "docSeenBy now (c_actorId c) i s = Some d" "d_status d = DELETED"
    and "''admin'' \<in> set (c_roles c) \<or> d_ownerId d = c_actorId c"
  shows "(succeeds (restoreFromTrash now i c s) \<longleftrightarrow> d \<in> set (documents (snd (purgeExpiredTrash now s))))
    \<and> documents (snd (purgeExpiredTrash now s)) = filter (\<lambda>d. \<not> expiredTrash now d) (documents s)
    \<and> pr_purged (fst (purgeExpiredTrash now s)) = int (length (filter (expiredTrash now) (documents s)))
    \<and> pr_failed (fst (purgeExpiredTrash now s)) = 0
    \<and> (\<forall>v \<in> set (versions (snd (purgeExpiredTrash now s))).
         v_docId v \<in> d_id ` set (documents (snd (purgeExpiredTrash now s))))"
proof -
  note dist = vault_ok_distinct [OF assms(1)]
  note run = purge_run [OF dist, of now]
  have "succeeds (restoreFromTrash now i c s) \<longleftrightarrow> \<not> expiredTrash now d"
    using restore_iff [OF assms(2) dist] assms(3,4)
    by (auto simp: expiredTrash_def split: option.splits)
  moreover have "\<forall>v \<in> set (versions (snd (purgeExpiredTrash now s))).
         v_docId v \<in> d_id ` set (documents (snd (purgeExpiredTrash now s)))"
    using purgeExpiredTrash_ok [OF assms(1), of now] by (simp add: vault_ok_def versions_ok_def)
  ultimately show ?thesis using run docSeenBy_id [OF assms(2)] by simp
qed

definition trashed_vault :: vault where
  "trashed_vault =
     snd (updateStatus 2000 ''n1'' \<lparr> us_status = DELETED, us_action = DELETE, us_reason = None \<rparr>
       (sample_user ''alice'' [''editor'']) alice
       (snd (createDocument 1000 ''n1'' draft_dto alice start_vault)))"

lemma trashed_ok: "vault_ok trashed_vault"
proof -
  have "vault_ok start_vault" using start_org_inv by (simp add: vault_ok_def versions_ok_def start_vault_def)
  then show ?thesis unfolding trashed_vault_def
    using vault_step_ok [OF vault_step.status] vault_step_ok [OF vault_step.create] by blast
qed

theorem trash_restore_or_purge_witness:
  "succeeds (restoreFromTrash (2000 + 30 * DAY_MS) ''n1'' alice trashed_vault)
   \<and> map d_id (documents (snd (purgeExpiredTrash (2000 + 30 * DAY_MS) trashed_vault))) = [''n1'']"
proof -
  obtain d where d: "docSeenBy (2000 + 30 * DAY_MS) (c_actorId alice) ''n1'' trashed_vault = Some d"
    "d_status d = DELETED" "d_ownerId d = c_actorId alice" "documents trashed_vault = [d]"
    "\<not> expiredTrash (2000 + 30 * DAY_MS) d" "d_id d = ''n1''"
  proof -
    let ?d = "the (docSeenBy (2000 + 30 * DAY_MS) (c_actorId alice) ''n1'' trashed_vault)"
    have "docSeenBy (2000 + 30 * DAY_MS) (c_actorId alice) ''n1'' trashed_vault = Some ?d" by code_simp
    moreover have "d_status ?d = DELETED" "d_ownerId ?d = c_actorId alice" "documents trashed_vault = [?d]"
      "\<not> expiredTrash (2000 + 30 * DAY_MS) ?d" "d_id ?d = ''n1''" by code_simp+
    ultimately show thesis by (rule that)
  qed
  from trash_restore_or_purge [OF trashed_ok d(1,2)] d show ?thesis by simp
qed

end
