(* ===== verification/Frames.thy ===== *)
theory Frames
  imports Lifecycle
begin

text \<open>
  What the handlers leave alone. A part of the vault (\<open>view\<close>) that no logging
  touches is kept by a handler when the writes after its guards keep it; from
  this, which tables each group of handlers leaves as it found them.
\<close>

section \<open>Parts of the vault\<close>

definition view :: "(vault \<Rightarrow> 'a) \<Rightarrow> bool" where
  "view f = (\<forall>s t. only_logs s t \<longrightarrow> f t = f s)"

lemma viewD: "view f \<Longrightarrow> only_logs s t \<Longrightarrow> f t = f s"
  by (simp add: view_def)

lemma view_tables [simp]:
  "view documents" "view versions" "view acls" "view history" "view comments" "view shareLinks"
  by (simp_all add: view_def only_logsD)

lemma keeps_guard:
  assumes "view f" "only_logs s (snd m)" "\<And>a t. m = (Inr a, t) \<Longrightarrow> only_logs s t \<Longrightarrow> f (snd (g a t)) = f t"
  shows "f (snd (andThen m g)) = f s"
proof (cases m)
  case (Pair r t)
  have t: "f t = f s" using viewD [OF assms(1,2)] Pair by simp
  then show ?thesis using assms(2,3) Pair by (cases r) auto
qed

lemma keeps_scoped:
  assumes "view f"
    and "\<And>d t. docSeenBy now a i s = Some d \<Longrightarrow> only_logs s t \<Longrightarrow> d_id d = i \<Longrightarrow> f (snd (g d t)) = f t"
  shows "f (snd (andThen (findInOrgOrThrow now a i s) g)) = f s"
proof (cases rule: scoped_cases [of now a i s g])
  case (missing e)
  then show ?thesis by (simp add: viewD [OF assms(1) only_logs_findInOrgOrThrow])
next
  case (found d t)
  then show ?thesis using assms(2) by (simp add: viewD [OF assms(1)])
qed

lemma keeps_write:
  assumes "\<And>h. f (t\<lparr>documents := h\<rparr>) = f t" "view f" "\<And>u v. only_logs v (snd (k u v))"
  shows "f (snd (andThen (prismaUpdateDocument now i g t) k)) = f t"
proof (cases "find_row d_id i (documents t)")
  case None
  then show ?thesis by (simp add: prismaUpdateDocument_def)
next
  case (Some r)
  then show ?thesis using assms(1) viewD [OF assms(2,3)]
    by (simp add: prismaUpdateDocument_found)
qed

section \<open>Handlers of rules, comments and share links\<close>

lemma acl_docs [frame]:
  "documents (snd (upsertAcl now n i dto u c s)) = documents s"
  "documents (snd (deleteAcl now i aid u c s)) = documents s"
  unfolding upsertAcl_def deleteAcl_def
  by (rule keeps_scoped, simp, rule keeps_guard, simp_all add: Let_def split: option.splits)+

lemma acl_history [frame]:
  "history (snd (upsertAcl now n i dto u c s)) = history s"
  "history (snd (deleteAcl now i aid u c s)) = history s"
  unfolding upsertAcl_def deleteAcl_def
  by (rule keeps_scoped, simp, rule keeps_guard, simp_all add: Let_def split: option.splits)+

lemma comment_docs [frame]:
  "documents (snd (createComment now n i txt u c s)) = documents s"
  "documents (snd (updateComment now i k txt u c s)) = documents s"
  "documents (snd (deleteComment now i k u c s)) = documents s"
  unfolding updateComment_def deleteComment_def Let_def
  by (auto simp: createComment_def Let_def intro!: keeps_guard [where f = documents])

lemma comment_history [frame]:
  "history (snd (createComment now n i txt u c s)) = history s"
  "history (snd (updateComment now i k txt u c s)) = history s"
  "history (snd (deleteComment now i k u c s)) = history s"
  unfolding updateComment_def deleteComment_def Let_def
  by (auto simp: createComment_def Let_def intro!: keeps_guard [where f = history])

lemma share_docs [frame]:
  "documents (snd (createShareLink cr now n tok i dto c s)) = documents s"
  "documents (snd (revokeShareLink now i l c s)) = documents s"
  "documents (snd (redeemShareLink cr now tok c s)) = documents s"
  unfolding createShareLink_def revokeShareLink_def
  by (auto simp: redeemShareLink_def Let_def split: option.splits
      intro!: keeps_guard [where f = documents] keeps_scoped [where f = documents])

lemma share_history [frame]:
  "history (snd (createShareLink cr now n tok i dto c s)) = history s"
  "history (snd (revokeShareLink now i l c s)) = history s"
  "history (snd (redeemShareLink cr now tok c s)) = history s"
  unfolding createShareLink_def revokeShareLink_def
  by (auto simp: redeemShareLink_def Let_def split: option.splits
      intro!: keeps_guard [where f = history] keeps_scoped [where f = history])

section \<open>The workflow history\<close>

lemma member_history [frame]:
  "history (snd (addMember now c u r s)) = history s"
  "history (snd (updateMemberRole now c u r s)) = history s"
  "history (snd (removeMember now c u s)) = history s"
proof -
  have "history (snd (dropOrphanOrgs tgt ms s)) = history s" for tgt ms s
    by (induction tgt ms s rule: dropOrphanOrgs.induct)
      (auto simp: Let_def deleteOrganization_def split: option.splits)
  then show "history (snd (addMember now c u r s)) = history s"
    by (auto simp: addMember_def addMemberIn_def updateMembershipRole_def createMembership_def
        invalidate_def Let_def andThen_snd split: option.splits sum.splits if_splits)
  show "history (snd (updateMemberRole now c u r s)) = history s"
    by (auto simp: updateMemberRole_def updateMembershipRole_def invalidate_def andThen_snd
        split: option.splits sum.splits)
  show "history (snd (removeMember now c u s)) = history s"
    by (auto simp: removeMember_def invalidate_def andThen_snd split: option.splits sum.splits)
qed

lemma document_history [frame]:
  "history (snd (createDocument now i cdto c s)) = history s"
  "history (snd (updateDocument now i udto c s)) = history s"
  "history (snd (setLegalHold now i h c s)) = history s"
  "history (snd (restoreFromTrash now i c s)) = history s"
  "history (snd (setApprovalChain now i as c s)) = history s"
  "history (snd (advanceApprovalStep now i c s)) = history s"
proof -
  show "history (snd (createDocument now i cdto c s)) = history s"
    by (auto simp: createDocument_def andThen_snd Let_def split: sum.splits)
  show "history (snd (updateDocument now i udto c s)) = history s"
    unfolding updateDocument_def
    by (rule keeps_scoped, simp, rule keeps_guard, simp, simp, rule keeps_guard, simp,
        rule dlpDowngradeGuard_logs, rule keeps_write) auto
  show "history (snd (setLegalHold now i h c s)) = history s"
    unfolding setLegalHold_def Let_def by (auto intro!: keeps_scoped keeps_write)
  show "history (snd (restoreFromTrash now i c s)) = history s"
    unfolding restoreFromTrash_def
    by (rule keeps_scoped) (auto intro!: keeps_write split: option.splits if_splits)
  show "history (snd (setApprovalChain now i as c s)) = history s"
    unfolding setApprovalChain_def Let_def
    by (rule keeps_scoped) (auto intro!: keeps_write)
  show "history (snd (advanceApprovalStep now i c s)) = history s"
    unfolding advanceApprovalStep_def Let_def
    by (rule keeps_scoped) (auto simp: prismaUpdateDocument_def split: option.splits)
qed

lemma version_commit_history:
  assumes "\<And>a b s. only_logs s (snd (k a b s))"
  shows "history (snd (andThen (prismaCreateVersion v t)
    (\<lambda>created s. andThen (prismaUpdateDocument now i g s) (\<lambda>u s. k created u s)))) = history t"
  using only_logsD(4) [OF assms]
  by (auto simp: prismaCreateVersion_def prismaUpdateDocument_def split: option.splits)

lemma version_history [frame]:
  "history (snd (createVersion now i dto u c s)) = history s"
  "history (snd (restoreVersion now i n u c s)) = history s"
  unfolding createVersion_def restoreVersion_def
  by (rule keeps_scoped, simp, rule keeps_guard, simp, simp,
      auto simp: Let_def version_commit_history notifyVersionUploaded_logs split: option.splits)+

end
