(* ===== verification/Lifecycle_Refinement.thy ===== *)
theory Lifecycle_Refinement
  imports Job_Properties Frames
begin

text \<open>
  The abstract lifecycle of a document, and that every handler call of
  metadata-service is a move of it: the refinement of the status machine that
  the comment of \<open>status.service.ts\<close> draws, with the trash and the jobs. The
  workflow history is shown to explain the status of every document.
\<close>

section \<open>The abstract lifecycle\<close>

text \<open>The five transitions of the table, and the way back from the trash.\<close>

definition lifecycle :: "(doc_status \<times> doc_status) set" where
  "lifecycle = {(DRAFT, PENDING), (PENDING, PUBLISHED), (PENDING, DRAFT), (PUBLISHED, ARCHIVED),
     (DRAFT, DELETED), (DELETED, DRAFT)}"

definition same_identity :: "document \<Rightarrow> document \<Rightarrow> bool" where
  "same_identity d d' =
     (d_id d' = d_id d \<and> d_organizationId d' = d_organizationId d \<and> d_ownerId d' = d_ownerId d
      \<and> d_createdAt d' = d_createdAt d)"

definition moves :: "document \<Rightarrow> document \<Rightarrow> bool" where
  "moves d d' =
     (same_identity d d' \<and> d_currentVersion d \<le> d_currentVersion d'
      \<and> (d_status d' = d_status d \<or> (d_status d, d_status d') \<in> lifecycle))"

definition ids_of :: "vault \<Rightarrow> string set" where
  "ids_of s = d_id ` set (documents s)"

definition lives :: "vault \<Rightarrow> vault \<Rightarrow> bool" where
  "lives s t =
     ((\<forall>d \<in> set (documents s). (\<exists>d' \<in> set (documents t). moves d d')
         \<or> d_status d = DELETED \<and> d_id d \<notin> ids_of t)
      \<and> (\<forall>d' \<in> set (documents t). d_id d' \<notin> ids_of s \<longrightarrow>
           d_status d' = DRAFT \<and> d_currentVersion d' = 0))"

lemma moves_refl [simp, intro]: "moves d d"
  by (simp add: moves_def same_identity_def)

lemma lives_same: "documents t = documents s \<Longrightarrow> lives s t"
  by (auto simp: lives_def ids_of_def)

lemma lives_map:
  assumes "documents t = map f (documents s)" "\<And>d. d \<in> set (documents s) \<Longrightarrow> moves d (f d)"
  shows "lives s t"
proof -
  have "d_id (f d) = d_id d" if "d \<in> set (documents s)" for d
    using assms(2) [OF that] by (simp add: moves_def same_identity_def)
  then show ?thesis using assms by (auto simp: lives_def ids_of_def image_iff)
qed

lemma lives_row:
  assumes "documents t = update_row d_id i f (documents s)"
    and "\<And>d. d \<in> set (documents s) \<Longrightarrow> d_id d = i \<Longrightarrow> moves d (f d)"
  shows "lives s t"
  by (rule lives_map [of _ "\<lambda>d. if d_id d = i then f d else d"])
    (use assms in \<open>auto simp: update_row_def\<close>)

lemma lives_effect:
  assumes "effect R i s t" "\<And>d d'. R d d' \<Longrightarrow> moves d d'"
  shows "lives s t"
proof (cases "only_logs s t")
  case True
  then show ?thesis by (simp add: lives_same only_logsD)
next
  case False
  then obtain f where "documents t = update_row d_id i f (documents s)"
    "\<forall>d \<in> set (documents s). d_id d = i \<longrightarrow> R d (f d) \<and> d_id (f d) = i"
    using assms(1) by (auto simp: effect_def rewrites_row_def)
  then show ?thesis using assms(2) by (auto intro!: lives_row)
qed

section \<open>Each handler is a move\<close>

lemma moves_transition: "transitioned now a d d' \<Longrightarrow> moves d d'"
  by (cases a) (auto simp: transitioned_def moves_def same_identity_def lifecycle_def statusUpdate_def
      withRetentionEvidence_def Let_def)

lemma applyUpdate_moves: "moves d ((applyUpdate dto d)\<lparr>d_updatedAt := now\<rparr>)"
  by (auto simp: moves_def same_identity_def applyUpdate_def Let_def split: option.splits)

lemma createDocument_lives: "lives s (snd (createDocument now i dto c s))"
proof (cases "fst (requireOrgId now (c_actorId c) s)")
  case (Inl e)
  then show ?thesis by (auto intro!: lives_same simp: createDocument_def andThen_snd)
next
  case (Inr org)
  then show ?thesis
    by (cases "requireOrgId now (c_actorId c) s"; cases "find_row d_id i (documents (snd (requireOrgId now (c_actorId c) s)))")
      (auto simp: createDocument_def lives_def ids_of_def newDocument_def
        requireOrgId_frame [of now "c_actorId c" s, simplified] Let_def image_iff split: if_splits
        dest!: requireOrgId_eq_state)
qed

text \<open>Rows rewritten in place.\<close>

definition rewritten :: "(document \<Rightarrow> document \<Rightarrow> bool) \<Rightarrow> vault \<Rightarrow> vault \<Rightarrow> bool" where
  "rewritten Q s t = (\<exists>f. documents t = map f (documents s) \<and> (\<forall>d \<in> set (documents s). Q d (f d)))"

lemma rewritten_same: "documents t = documents s \<Longrightarrow> (\<And>d. Q d d) \<Longrightarrow> rewritten Q s t"
  unfolding rewritten_def by (rule exI [of _ "\<lambda>d. d"]) simp

lemma rewritten_row:
  assumes "documents t = update_row d_id i f (documents s)" "\<And>d. Q d d"
    and "\<And>d. d \<in> set (documents s) \<Longrightarrow> d_id d = i \<Longrightarrow> Q d (f d)"
  shows "rewritten Q s t"
  unfolding rewritten_def
  by (rule exI [of _ "\<lambda>d. if d_id d = i then f d else d"]) (use assms in \<open>auto simp: update_row_def\<close>)

lemma rewritten_effect:
  assumes "effect R i s t" "\<And>d. Q d d" "\<And>d d'. R d d' \<Longrightarrow> Q d d'"
  shows "rewritten Q s t"
proof (cases "only_logs s t")
  case True
  then show ?thesis using assms(2) by (simp add: rewritten_same only_logsD)
next
  case False
  then obtain f where "documents t = update_row d_id i f (documents s)"
    "\<forall>d \<in> set (documents s). d_id d = i \<longrightarrow> R d (f d) \<and> d_id (f d) = i"
    using assms(1) by (auto simp: effect_def rewrites_row_def)
  then show ?thesis using assms(2,3) by (auto intro!: rewritten_row)
qed

lemma rewritten_logs_trans: "only_logs s t \<Longrightarrow> rewritten Q t u \<Longrightarrow> rewritten Q s u"
  by (simp add: rewritten_def only_logsD)

lemma rewritten_guard:
  assumes "only_logs s (snd m)" "\<And>d. Q d d"
    "\<And>a t. m = (Inr a, t) \<Longrightarrow> only_logs s t \<Longrightarrow> rewritten Q t (snd (f a t))"
  shows "rewritten Q s (snd (andThen m f))"
proof (cases m)
  case (Pair r t)
  then have t: "only_logs s t" using assms(1) by simp
  show ?thesis
  proof (cases r)
    case (Inl e)
    then show ?thesis using Pair rewritten_same [OF only_logsD(1) [OF t], of Q] assms(2) by simp
  next
    case (Inr a)
    then show ?thesis using Pair rewritten_logs_trans [OF t assms(3) [OF _ t]] by simp
  qed
qed

lemma rewritten_scoped:
  assumes "distinct (map d_id (documents s))" "\<And>d. Q d d"
    and "\<And>d t. only_logs s t \<Longrightarrow> row_is d i t \<Longrightarrow> find_row d_id i (documents t) = Some d \<Longrightarrow>
      rewritten Q t (snd (f d t))"
  shows "rewritten Q s (snd (andThen (findInOrgOrThrow now a i s) f))"
proof (cases rule: scoped_cases [of now a i s f])
  case (missing e)
  then show ?thesis using assms(2) by (simp add: rewritten_same only_logsD(1) [OF only_logs_findInOrgOrThrow])
next
  case (found d t)
  have row: "find_row d_id i (documents s) = Some d" by (rule docSeenBy_row [OF assms(1) found(1)])
  have "row_is d i t" by (rule row_is_logs [OF row_is_found [OF assms(1) row] found(2)])
  moreover have "find_row d_id i (documents t) = Some d" using row found(2) by (simp add: only_logsD)
  ultimately have "rewritten Q t (snd (f d t))" using assms(3) found(2) by blast
  then show ?thesis using found(2,5) by (auto intro: rewritten_logs_trans)
qed

lemma version_commit_rewritten:
  assumes row: "find_row d_id i (documents t) = Some d" and Q: "\<And>d. Q d d"
    and mv: "\<And>x. x \<in> set (documents t) \<Longrightarrow> d_id x = i \<Longrightarrow> Q x ((g x)\<lparr>d_updatedAt := now\<rparr>)"
    and k: "\<And>a b s. only_logs s (snd (k a b s))"
  shows "rewritten Q t (snd (andThen (prismaCreateVersion v t)
    (\<lambda>created s. andThen (prismaUpdateDocument now i g s) (\<lambda>u s. k created u s))))"
proof (cases "findVersion (v_docId v) (v_version v) t")
  case (Some w)
  then show ?thesis using Q by (simp add: prismaCreateVersion_def rewritten_same)
next
  case None
  let ?g = "\<lambda>x. (g x)\<lparr>d_updatedAt := now\<rparr>"
  let ?t = "t\<lparr>versions := versions t @ [v], documents := update_row d_id i ?g (documents t)\<rparr>"
  have "documents (snd (k v (?g d) ?t)) = update_row d_id i ?g (documents t)"
    using only_logsD(1) [OF k] by simp
  then show ?thesis using None row mv Q
    by (simp add: prismaCreateVersion_def prismaUpdateDocument_found rewritten_row)
qed

text \<open>A new version moves the document's version and leaves its status.\<close>

definition reversioned :: "document \<Rightarrow> document \<Rightarrow> bool" where
  "reversioned d d' = (moves d d' \<and> d_status d' = d_status d)"

lemma version_rewritten:
  assumes "distinct (map d_id (documents s))"
  shows "rewritten reversioned s (snd (createVersion now i dto u c s))"
    and "rewritten reversioned s (snd (restoreVersion now i n u c s))"
proof -
  have refl: "reversioned d d" for d by (simp add: reversioned_def)
  show "rewritten reversioned s (snd (createVersion now i dto u c s))"
    unfolding createVersion_def
    by (rule rewritten_scoped [OF assms refl], rule rewritten_guard [OF _ refl], simp)
      (auto simp: Let_def rewritten_same refl versionDocumentUpdate_def reversioned_def moves_def
        same_identity_def row_is_def notifyVersionUploaded_logs
        dest!: versionsAssertCanManage_Inr intro!: version_commit_rewritten)
  show "rewritten reversioned s (snd (restoreVersion now i n u c s))"
    unfolding restoreVersion_def
    by (rule rewritten_scoped [OF assms refl], rule rewritten_guard [OF _ refl], simp)
      (auto simp: Let_def rewritten_same refl reversioned_def moves_def same_identity_def row_is_def
        notifyVersionUploaded_logs split: option.splits
        dest!: versionsAssertCanManage_Inr intro!: version_commit_rewritten)
qed

lemma lives_rewritten: "rewritten Q s t \<Longrightarrow> (\<And>d d'. Q d d' \<Longrightarrow> moves d d') \<Longrightarrow> lives s t"
  unfolding rewritten_def by (auto intro: lives_map)

lemma version_lives:
  assumes "distinct (map d_id (documents s))"
  shows "lives s (snd (createVersion now i dto u c s))" "lives s (snd (restoreVersion now i n u c s))"
  by (rule lives_rewritten, rule version_rewritten [OF assms], simp add: reversioned_def)+

lemma runRetention_lives:
  assumes "distinct (map d_id (documents s))"
  shows "lives s (snd (runRetention now who s))"
  by (rule lives_map [OF conjunct2 [OF conjunct2 [OF runRetention_run [OF assms]]]])
    (auto simp: moves_def same_identity_def archived_row_def due_def retentionCandidate_def lifecycle_def)

lemma purge_lives:
  assumes "distinct (map d_id (documents s))"
  shows "lives s (snd (purgeExpiredTrash now s))"
proof -
  have docs: "documents (snd (purgeExpiredTrash now s)) = filter (\<lambda>d. \<not> expiredTrash now d) (documents s)"
    using purge_run [OF assms, of now] by blast
  have "d_id d \<notin> d_id ` set (filter (\<lambda>d. \<not> expiredTrash now d) (documents s))"
    if "d \<in> set (documents s)" "expiredTrash now d" for d
    using assms that by (auto simp: distinct_map inj_on_def)
  then show ?thesis
    unfolding lives_def ids_of_def docs by (auto simp: expiredTrash_def)
qed


lemma vault_step_lives:
  assumes "vault_step s t" "vault_ok s"
  shows "lives s t"
proof -
  have dist: "distinct (map d_id (documents s))" using assms(2) by (rule vault_ok_distinct)
  from assms(1) dist show ?thesis
  proof cases
    case (update now i udto c)
    show ?thesis unfolding update
      by (rule lives_effect [OF updateDocument_effect [OF dist]]) (auto simp: applyUpdate_moves)
  next
    case (status now i sdto u c)
    show ?thesis unfolding status
      by (rule lives_effect [OF updateStatus_effect [OF dist]]) (rule moves_transition)
  next
    case (hold now i h c)
    show ?thesis unfolding hold
      by (rule lives_effect [OF setLegalHold_effect [OF dist]])
        (auto simp: moves_def same_identity_def applyLegalHold_def)
  next
    case (restore now i c)
    show ?thesis unfolding restore
      by (rule lives_effect [OF restoreFromTrash_effect [OF dist]])
        (auto simp: moves_def same_identity_def lifecycle_def)
  next
    case (chain now i as c)
    show ?thesis unfolding chain
      by (rule lives_effect [OF setApprovalChain_effect [OF dist]])
        (auto simp: moves_def same_identity_def)
  next
    case (advance now i c)
    show ?thesis unfolding advance
      by (rule lives_effect [OF advanceApprovalStep_effect [OF dist]])
        (auto simp: moves_def same_identity_def)
  qed (auto intro: createDocument_lives version_lives runRetention_lives
      purge_lives lives_same simp: acl_docs comment_docs share_docs addMember_docs updateMemberRole_docs
      removeMember_docs only_logsD)
qed


section \<open>Runs\<close>

lemma lives_archived:
  assumes "lives s t" "d \<in> set (documents s)"
  shows "(\<exists>d' \<in> set (documents t). same_identity d d' \<and> d_currentVersion d \<le> d_currentVersion d'
      \<and> (d_status d = ARCHIVED \<longrightarrow> d_status d' = ARCHIVED)) \<or> d_id d \<notin> ids_of t \<and> d_status d = DELETED"
  using assms by (fastforce simp: lives_def moves_def lifecycle_def)

lemma run_identity:
  assumes "vault_step\<^sup>*\<^sup>* s t" "vault_ok s" "d \<in> set (documents s)" "d_status d = ARCHIVED"
  shows "\<exists>d' \<in> set (documents t). same_identity d d' \<and> d_currentVersion d \<le> d_currentVersion d'
      \<and> d_status d' = ARCHIVED"
proof -
  from assms(1) have "vault_ok t \<and> (\<exists>d' \<in> set (documents t). same_identity d d'
      \<and> d_currentVersion d \<le> d_currentVersion d' \<and> d_status d' = ARCHIVED)"
  proof (induction rule: rtranclp_induct)
    case base
    then show ?case using assms(2-4) by (auto simp: same_identity_def)
  next
    case (step t u)
    then obtain d' where d': "d' \<in> set (documents t)" "same_identity d d'"
      "d_currentVersion d \<le> d_currentVersion d'" "d_status d' = ARCHIVED" by blast
    from lives_archived [OF vault_step_lives [OF step.hyps(2)] d'(1)] step.IH d'(4)
    obtain d'' where "d'' \<in> set (documents u)" "same_identity d' d''"
      "d_currentVersion d' \<le> d_currentVersion d''" "d_status d'' = ARCHIVED" by auto
    then show ?case using step d' vault_step_ok [OF step.hyps(2)]
      by (auto simp: same_identity_def intro!: bexI [of _ d''])
  qed
  then show ?thesis by blast
qed

text \<open>
  C7: the handlers refine the lifecycle. In one step from a reachable state,
  every document either keeps its id, organization, owner and creation time,
  does not lose versions, and keeps its status or makes one of the six moves of
  the lifecycle, or it was in the trash and is gone; new documents are empty
  drafts.
\<close>

theorem handlers_refine_lifecycle:
  assumes "reachable s" "vault_step s t"
  shows "(\<forall>d \<in> set (documents s).
      (\<exists>d' \<in> set (documents t). d_id d' = d_id d \<and> d_organizationId d' = d_organizationId d
         \<and> d_ownerId d' = d_ownerId d \<and> d_createdAt d' = d_createdAt d
         \<and> d_currentVersion d \<le> d_currentVersion d'
         \<and> (d_status d' = d_status d \<or> (d_status d, d_status d') \<in>
              {(DRAFT, PENDING), (PENDING, PUBLISHED), (PENDING, DRAFT), (PUBLISHED, ARCHIVED),
               (DRAFT, DELETED), (DELETED, DRAFT)}))
      \<or> d_status d = DELETED \<and> d_id d \<notin> d_id ` set (documents t))
    \<and> (\<forall>d' \<in> set (documents t). d_id d' \<notin> d_id ` set (documents s) \<longrightarrow>
        d_status d' = DRAFT \<and> d_currentVersion d' = 0)"
  using vault_step_lives [OF assms(2) vault_invariant_of [OF assms(1)]]
  unfolding lives_def moves_def same_identity_def lifecycle_def ids_of_def conj_assoc .

theorem handlers_refine_lifecycle_witness:
  "list_ex (\<lambda>d. d_id d = ''n1'' \<and> d_ownerId d = ''alice'' \<and> d_status d = PUBLISHED) (documents published_vault)"
proof -
  let ?d = "hd (documents submitted_vault)"
  have d: "d_id ?d = ''n1''" "d_ownerId ?d = ''alice''" "d_status ?d \<noteq> DELETED"
    "documents submitted_vault \<noteq> []" "list_all (\<lambda>d. d_status d = PUBLISHED) (documents published_vault)"
    by code_simp+
  have "vault_step submitted_vault published_vault"
    unfolding published_vault_def by (rule vault_step.status)
  from bspec [OF conjunct1 [OF handlers_refine_lifecycle [OF submitted_reachable this]], of ?d] d
  obtain d' where "d' \<in> set (documents published_vault)" "d_id d' = ''n1''" "d_ownerId d' = ''alice''"
    by auto
  then show ?thesis using d(5) by (auto simp: list_ex_iff list_all_iff)
qed

text \<open>
  C19: archiving is final. Whatever handlers run afterwards, an archived document
  stays in the vault, archived, with its owner, organization and versions.
\<close>

theorem archived_is_final:
  assumes "reachable s" "vault_step\<^sup>*\<^sup>* s t" "d \<in> set (documents s)" "d_status d = ARCHIVED"
  shows "\<exists>d' \<in> set (documents t). d_id d' = d_id d \<and> d_status d' = ARCHIVED
    \<and> d_ownerId d' = d_ownerId d \<and> d_organizationId d' = d_organizationId d
    \<and> d_currentVersion d \<le> d_currentVersion d'"
  using run_identity [OF assms(2) vault_invariant_of [OF assms(1)] assms(3,4)]
  by (auto simp: same_identity_def)


definition archived_vault :: vault where
  "archived_vault = snd (runRetention (3000 + 366 * DAY_MS) None published_vault)"

lemma archived_reachable: "reachable archived_vault"
proof -
  have "vault_step submitted_vault published_vault"
    unfolding published_vault_def by (rule vault_step.status)
  moreover have "vault_step published_vault archived_vault"
    unfolding archived_vault_def by (rule vault_step.retention)
  ultimately show ?thesis using submitted_reachable unfolding reachable_def
    by (meson rtranclp.rtrancl_into_rtrancl)
qed

theorem archived_is_final_witness:
  "list_ex (\<lambda>d. d_id d = ''n1'' \<and> d_status d = ARCHIVED)
     (documents (snd (updateStatus 9 ''n1'' \<lparr> us_status = DELETED, us_action = DELETE, us_reason = None \<rparr>
        (sample_user ''alice'' [''admin'']) alice archived_vault)))"
proof -
  let ?t = "snd (updateStatus 9 ''n1'' \<lparr> us_status = DELETED, us_action = DELETE, us_reason = None \<rparr>
        (sample_user ''alice'' [''admin'']) alice archived_vault)"
  have d: "d_id (hd (documents archived_vault)) = ''n1''" "d_status (hd (documents archived_vault)) = ARCHIVED"
    "documents archived_vault \<noteq> []" by code_simp+
  have "vault_step\<^sup>*\<^sup>* archived_vault ?t" by (rule r_into_rtranclp) (rule vault_step.status)
  from archived_is_final [OF archived_reachable this, of "hd (documents archived_vault)"] d
  show ?thesis by (auto simp: list_ex_iff)
qed

section \<open>The history explains the status\<close>

text \<open>
  The rows of a document, read as a walk from \<open>DRAFT\<close>: each row leaves the status
  the last one reached, except that a document restored from the trash starts
  again at \<open>DRAFT\<close> without a row.
\<close>

fun explains :: "doc_status \<Rightarrow> history_entry list \<Rightarrow> doc_status \<Rightarrow> bool" where
  "explains a [] b = (a = b \<or> a = DELETED \<and> b = DRAFT)"
| "explains a (h # hs) b =
     ((a = h_fromStatus h \<or> a = DELETED \<and> h_fromStatus h = DRAFT)
      \<and> (h_fromStatus h, h_toStatus h) \<in> lifecycle \<and> explains (h_toStatus h) hs b)"

definition rows_of :: "string \<Rightarrow> vault \<Rightarrow> history_entry list" where
  "rows_of i s = filter (\<lambda>h. h_docId h = i) (history s)"

definition history_ok :: "vault \<Rightarrow> bool" where
  "history_ok s =
     ((\<forall>d \<in> set (documents s). explains DRAFT (rows_of (d_id d) s) (d_status d))
      \<and> (\<forall>h \<in> set (history s). h_docId h \<in> ids_of s))"

lemma explains_snoc:
  "explains a hs b \<Longrightarrow> h_fromStatus h = b \<Longrightarrow> (b, h_toStatus h) \<in> lifecycle \<Longrightarrow> explains a (hs @ [h]) (h_toStatus h)"
  by (induction hs arbitrary: a) auto

lemma explains_restored: "explains a hs DELETED \<Longrightarrow> explains a hs DRAFT"
  by (induction hs arbitrary: a) auto

definition status_kept :: "document \<Rightarrow> document \<Rightarrow> bool" where
  "status_kept d d' =
     (d_id d' = d_id d \<and> (d_status d' = d_status d \<or> d_status d = DELETED \<and> d_status d' = DRAFT))"

lemma history_ok_rewritten:
  assumes "history_ok s" "history t = history s" "rewritten status_kept s t"
  shows "history_ok t"
proof -
  obtain f where f: "documents t = map f (documents s)" "\<And>d. d \<in> set (documents s) \<Longrightarrow> status_kept d (f d)"
    using assms(3) by (auto simp: rewritten_def)
  have "explains DRAFT (rows_of (d_id (f d)) t) (d_status (f d))" if "d \<in> set (documents s)" for d
    using f(2) [OF that] assms(1,2) that explains_restored
    by (auto simp: history_ok_def status_kept_def rows_of_def)
  moreover have "map d_id (documents t) = map d_id (documents s)" using f by (simp add: status_kept_def)
  then have "ids_of t = ids_of s" unfolding ids_of_def by (metis set_map)
  ultimately show ?thesis using assms(1,2) f(1) by (auto simp: history_ok_def)
qed

lemma history_ok_same: "history_ok s \<Longrightarrow> documents t = documents s \<Longrightarrow> history t = history s \<Longrightarrow> history_ok t"
  by (simp add: history_ok_def rows_of_def ids_of_def)

lemma history_ok_create: "history_ok s \<Longrightarrow> history_ok (snd (createDocument now i dto c s))"
proof -
  assume ok: "history_ok s"
  let ?t = "snd (createDocument now i dto c s)"
  have his: "history ?t = history s" by (rule document_history)
  have "documents ?t = documents s \<or>
      (\<exists>org. documents ?t = documents s @ [newDocument now i org dto (c_actorId c)] \<and> i \<notin> ids_of s)"
    by (cases "requireOrgId now (c_actorId c) s"; cases "fst (requireOrgId now (c_actorId c) s)")
      (auto simp: createDocument_def Let_def ids_of_def find_row_None dest!: requireOrgId_eq_state)
  then show ?thesis
  proof
    assume "\<exists>org. documents ?t = documents s @ [newDocument now i org dto (c_actorId c)] \<and> i \<notin> ids_of s"
    then obtain org where docs: "documents ?t = documents s @ [newDocument now i org dto (c_actorId c)]"
      and new: "i \<notin> ids_of s" by blast
    have "rows_of i ?t = []"
      using ok new by (auto simp: rows_of_def his history_ok_def filter_empty_conv)
    moreover have "d_id (newDocument now i org dto (c_actorId c)) = i"
      "d_status (newDocument now i org dto (c_actorId c)) = DRAFT" by (simp_all add: newDocument_def)
    ultimately show ?thesis using ok
      by (auto simp: history_ok_def docs his rows_of_def ids_of_def)
  qed (use ok his in \<open>auto intro: history_ok_same\<close>)
qed


text \<open>A handler that rewrites one row's status and appends the row that says so.\<close>

lemma history_ok_append:
  assumes ok: "history_ok s" and docs: "documents t = update_row d_id i f (documents s)"
    and his: "history t = history s @ [h]" and h: "h_docId h = i" "i \<in> ids_of s"
    and f: "\<And>d. d \<in> set (documents s) \<Longrightarrow> d_id d = i \<Longrightarrow>
      d_id (f d) = i \<and> d_status (f d) = h_toStatus h \<and> h_fromStatus h = d_status d
      \<and> (d_status d, h_toStatus h) \<in> lifecycle"
  shows "history_ok t"
proof -
  let ?g = "\<lambda>d. if d_id d = i then f d else d"
  have idg: "d_id (?g d) = d_id d" if "d \<in> set (documents s)" for d using f that by simp
  have "map d_id (documents t) = map d_id (documents s)" using idg by (simp add: docs update_row_def)
  then have ids: "ids_of t = ids_of s" unfolding ids_of_def by (metis set_map)
  have "explains DRAFT (rows_of (d_id (?g d)) t) (d_status (?g d))" if d: "d \<in> set (documents s)" for d
  proof (cases "d_id d = i")
    case True
    have "explains DRAFT (rows_of i s) (d_status d)" using ok d True by (auto simp: history_ok_def)
    moreover have "rows_of i t = rows_of i s @ [h]" by (simp add: rows_of_def his h)
    ultimately show ?thesis using f [OF d True] True explains_snoc [of DRAFT "rows_of i s" "d_status d" h]
      by simp
  next
    case False
    then have "rows_of (d_id d) t = rows_of (d_id d) s" using h by (auto simp: rows_of_def his)
    then show ?thesis using ok d False by (simp add: history_ok_def)
  qed
  then have "\<forall>d \<in> set (documents t). explains DRAFT (rows_of (d_id d) t) (d_status d)"
    unfolding docs update_row_def by (simp only: set_map ball_simps) blast
  then show ?thesis using ok ids h by (auto simp: history_ok_def his)
qed

lemma vault_parts:
  "s'\<lparr>auditPosts := ps\<rparr> = t \<Longrightarrow> documents s' = documents t \<and> history s' = history t"
  by auto

lemma history_ok_status:
  assumes ok: "history_ok s" and dist: "distinct (map d_id (documents s))"
  shows "history_ok (snd (updateStatus now i dto u c s))"
proof (cases "updateStatus now i dto u c s")
  case (Pair r s')
  show ?thesis
  proof (cases r)
    case (Inl e)
    then have "only_logs s s'" using updateStatus_Inl Pair by blast
    then show ?thesis using ok Pair by (auto intro: history_ok_same simp: only_logsD)
  next
    case (Inr d')
    then obtain d tr t where d: "docSeenBy now (c_actorId c) i s = Some d"
      "TRANSITION_MAP (us_action dto) = Some tr" "d_status d = tr_from tr" "only_logs s t"
      "statusTransaction now i d (tr_to tr) dto (buildActorId u) t = (Inr d', s'\<lparr>auditPosts := auditPosts t\<rparr>)"
      using Pair updateStatus_Inr by metis
    have row: "row_is d i s" using row_is_found [OF dist docSeenBy_row [OF dist d(1)]] .
    let ?f = "\<lambda>r. (statusUpdate now (us_action dto) (tr_to tr) (d_classification d) r)\<lparr>d_updatedAt := now\<rparr>"
    let ?h = "\<lparr> h_docId = i, h_fromStatus = d_status d, h_toStatus = tr_to tr, h_action = us_action dto,
      h_actorId = buildActorId u, h_reason = us_reason dto, h_createdAt = now \<rparr>"
    have "history_ok (s'\<lparr>auditPosts := auditPosts t\<rparr>)"
    proof (rule history_ok_append [OF ok, of _ i ?f ?h])
      show "documents (s'\<lparr>auditPosts := auditPosts t\<rparr>) = update_row d_id i ?f (documents s)"
        "history (s'\<lparr>auditPosts := auditPosts t\<rparr>) = history s @ [?h]"
        using d(5) only_logsD [OF d(4)]
        by (auto simp: statusTransaction_Inr dest!: vault_parts)
      show "i \<in> ids_of s" using docSeenBy_id [OF d(1)] by (auto simp: ids_of_def)
      fix x assume x: "x \<in> set (documents s)" "d_id x = i"
      then have "x = d" using row by (simp add: row_is_def)
      moreover have "(tr_from tr, tr_to tr) \<in> lifecycle"
        using d(2) by (cases "us_action dto") (auto simp: lifecycle_def)
      ultimately show "d_id (?f x) = i \<and> d_status (?f x) = h_toStatus ?h \<and> h_fromStatus ?h = d_status x
          \<and> (d_status x, h_toStatus ?h) \<in> lifecycle"
        using x d(3) by (simp add: statusUpdate_def withRetentionEvidence_def Let_def)
    qed simp
    then show ?thesis using Pair by (auto intro: history_ok_same)
  qed
qed

lemma history_ok_delete: "history_ok s \<Longrightarrow> history_ok (snd (prismaDeleteDocument i s))"
proof -
  assume ok: "history_ok s"
  have rows: "filter (\<lambda>h. h_docId h \<noteq> i \<and> h_docId h = j) hs = filter (\<lambda>h. h_docId h = j) hs"
    if "j \<noteq> i" for j hs
    by (rule filter_cong) (use that in auto)
  show ?thesis using ok
    by (auto simp: prismaDeleteDocument_def history_ok_def ids_of_def rows_of_def set_delete_row rows)
qed

lemma history_ok_purge: "history_ok s \<Longrightarrow> history_ok (snd (purgeExpiredTrash now s))"
proof -
  assume ok: "history_ok s"
  have one: "history_ok (snd (snd acc)) \<Longrightarrow> history_ok (snd (snd (purgeOne now d acc)))" for d acc
    using history_ok_delete [of "snd (snd acc)" "d_id d"]
    by (auto simp: purgeOne_def split: prod.splits sum.splits intro: history_ok_same)
  have "history_ok (snd (snd acc)) \<Longrightarrow> history_ok (snd (snd (fold (purgeOne now) ds acc)))" for ds acc
    by (induction ds arbitrary: acc) (simp_all add: one)
  from this [of "(0, 0, s)" "filter (expiredTrash now) (documents s)"] ok show ?thesis
    by (auto simp: purgeExpiredTrash_def Let_def split: prod.splits)
qed

text \<open>The retention loop: the candidates not yet visited are still published.\<close>

definition still_published :: "document list \<Rightarrow> vault \<Rightarrow> bool" where
  "still_published ds s = (\<forall>d \<in> set ds. \<forall>x \<in> set (documents s). d_id x = d_id d \<longrightarrow> d_status x = PUBLISHED)"

lemma archiveDocument_rows:
  assumes "find_row d_id (d_id d) (documents s) \<noteq> None"
  shows "\<exists>h. documents (snd (archiveDocument d now who s)) =
        update_row d_id (d_id d) (archived_row now) (documents s)
    \<and> history (snd (archiveDocument d now who s)) = history s @ [h]
    \<and> h_docId h = d_id d \<and> h_fromStatus h = PUBLISHED \<and> h_toStatus h = ARCHIVED"
proof -
  obtain r where "find_row d_id (d_id d) (documents s) = Some r" using assms by auto
  then show ?thesis
    by (simp add: archiveDocument_def prismaUpdateDocument_found appendHistory_def
        archived_row_def [abs_def] return_def Let_def)
qed

lemma history_ok_archive:
  assumes "history_ok s" "still_published (d # ds) s" "d_id d \<notin> d_id ` set ds"
  shows "history_ok (snd (archiveDocument d now who s)) \<and> still_published ds (snd (archiveDocument d now who s))"
proof (cases "find_row d_id (d_id d) (documents s)")
  case None
  then show ?thesis using assms
    by (auto simp: archiveDocument_def prismaUpdateDocument_def Let_def still_published_def)
next
  case (Some r)
  then obtain h where h: "documents (snd (archiveDocument d now who s)) =
        update_row d_id (d_id d) (archived_row now) (documents s)"
    "history (snd (archiveDocument d now who s)) = history s @ [h]"
    "h_docId h = d_id d" "h_fromStatus h = PUBLISHED" "h_toStatus h = ARCHIVED"
    using archiveDocument_rows [of d s now who] by auto
  have "d_id d \<in> ids_of s" using find_row_SomeD [OF Some] by (auto simp: ids_of_def intro: rev_image_eqI)
  then have "history_ok (snd (archiveDocument d now who s))"
    using assms(2)
    by (intro history_ok_append [OF assms(1) h(1,2,3)])
      (auto simp: h still_published_def archived_row_def lifecycle_def)
  moreover have "still_published ds (snd (archiveDocument d now who s))"
    using assms(2,3) unfolding still_published_def h(1)
    by (auto simp: set_update_row archived_row_def image_iff split: if_splits)
  ultimately show ?thesis by blast
qed

lemma history_ok_retention:
  assumes ok: "history_ok s" and dist: "distinct (map d_id (documents s))"
  shows "history_ok (snd (runRetention now who s))"
proof -
  have loop: "history_ok (snd (snd acc)) \<Longrightarrow> still_published ds (snd (snd acc)) \<Longrightarrow> distinct (map d_id ds) \<Longrightarrow>
      history_ok (snd (snd (fold (retainOne now w) ds acc)))" for ds acc w
  proof (induction ds arbitrary: acc)
    case (Cons d ds)
    obtain n k u where acc: "acc = (n, k, u)" by (cases acc) auto
    have "snd (snd (retainOne now w d acc)) \<in> {u, snd (archiveDocument d now w u)}"
      by (auto simp: acc retainOne_def Let_def split: prod.splits sum.splits)
    moreover have "history_ok (snd (archiveDocument d now w u)) \<and> still_published ds (snd (archiveDocument d now w u))"
      using Cons.prems by (intro history_ok_archive) (auto simp: acc)
    moreover have "still_published ds u" using Cons.prems(2) by (simp add: acc still_published_def)
    ultimately have "history_ok (snd (snd (retainOne now w d acc))) \<and> still_published ds (snd (snd (retainOne now w d acc)))"
      using Cons.prems(1) by (auto simp: acc)
    then show ?case using Cons.IH Cons.prems(3) by simp
  qed simp
  let ?ds = "filter retentionCandidate (documents s)"
  have "still_published ?ds s"
    using dist unfolding still_published_def
    by (auto simp: retentionCandidate_def distinct_map dest: inj_onD)
  moreover have "distinct (map d_id ?ds)" using dist by (rule distinct_map_filter)
  ultimately have "history_ok (snd (snd (fold (retainOne now (coalesce who ''system:cron'')) ?ds (0, 0, s))))"
    using loop [of "(0, 0, s)" ?ds] ok by simp
  then show ?thesis by (auto simp: runRetention_def Let_def split: prod.splits)
qed


lemma history_ok_effect:
  assumes "history_ok s" "history t = history s" "effect R i s t" "\<And>d d'. R d d' \<Longrightarrow> status_kept d d'"
  shows "history_ok t"
  by (rule history_ok_rewritten [OF assms(1,2)], rule rewritten_effect [OF assms(3) _ assms(4)])
    (simp_all add: status_kept_def)

lemma vault_step_history:
  assumes "vault_step s t" "vault_ok s" "history_ok s"
  shows "history_ok t"
proof -
  have dist: "distinct (map d_id (documents s))" using assms(2) by (rule vault_ok_distinct)
  have vers: "history_ok u" if "history u = history s" "rewritten reversioned s u" for u
    by (rule history_ok_rewritten [OF assms(3) that(1)])
      (use that(2) in \<open>auto simp: rewritten_def reversioned_def moves_def same_identity_def status_kept_def\<close>)
  from assms(1) assms(3) dist show ?thesis
  proof cases
    case (update now i udto c)
    show ?thesis unfolding update
      by (rule history_ok_effect [OF assms(3) document_history(2) updateDocument_effect [OF dist]])
        (auto simp: status_kept_def applyUpdate_def Let_def split: option.splits)
  next
    case (hold now i h c)
    show ?thesis unfolding hold
      by (rule history_ok_effect [OF assms(3) document_history(3) setLegalHold_effect [OF dist]])
        (auto simp: status_kept_def applyLegalHold_def)
  next
    case (restore now i c)
    show ?thesis unfolding restore
      by (rule history_ok_effect [OF assms(3) document_history(4) restoreFromTrash_effect [OF dist]])
        (auto simp: status_kept_def)
  next
    case (chain now i as c)
    show ?thesis unfolding chain
      by (rule history_ok_effect [OF assms(3) document_history(5) setApprovalChain_effect [OF dist]])
        (auto simp: status_kept_def)
  next
    case (advance now i c)
    show ?thesis unfolding advance
      by (rule history_ok_effect [OF assms(3) document_history(6) advanceApprovalStep_effect [OF dist]])
        (auto simp: status_kept_def)
  next
    case (version now i vdto u c)
    show ?thesis unfolding version by (rule vers [OF version_history(1) version_rewritten(1) [OF dist]])
  next
    case (version_restore now i n u c)
    show ?thesis unfolding version_restore
      by (rule vers [OF version_history(2) version_rewritten(2) [OF dist]])
  qed (auto intro: history_ok_create history_ok_status history_ok_purge history_ok_retention
      intro: history_ok_same simp: acl_docs acl_history comment_docs comment_history share_docs share_history
      addMember_docs updateMemberRole_docs removeMember_docs member_history only_logsD)
qed

text \<open>
  C18: the workflow history explains every status. In every vault reached by
  handler calls from one without documents and history, the history rows of a
  document, in the order written, form a walk along the lifecycle from DRAFT to
  the document's status, up to a return from the trash to DRAFT, which leaves no
  row; and no row belongs to a document that is gone.
\<close>

theorem history_explains_status:
  assumes "vault_step\<^sup>*\<^sup>* s0 s" "documents s0 = []" "versions s0 = []" "history s0 = []" "org_inv s0"
  shows "(\<forall>d \<in> set (documents s). explains DRAFT (filter (\<lambda>h. h_docId h = d_id d) (history s)) (d_status d))
    \<and> (\<forall>h \<in> set (history s). h_docId h \<in> d_id ` set (documents s))"
proof -
  have "vault_ok s0" "history_ok s0"
    using assms(2-) by (simp_all add: vault_ok_def versions_ok_def history_ok_def)
  from assms(1) this have "vault_ok s \<and> history_ok s"
    by (induction rule: rtranclp_induct) (auto intro: vault_step_ok vault_step_history)
  then show ?thesis by (simp add: history_ok_def rows_of_def ids_of_def)
qed

theorem history_explains_status_witness:
  "map (\<lambda>h. (h_fromStatus h, h_toStatus h)) (history published_vault) = [(DRAFT, PENDING), (PENDING, PUBLISHED)]
   \<and> list_all (\<lambda>d. explains DRAFT (history published_vault) (d_status d)) (documents published_vault)"
proof -
  let ?v = "snd (createDocument 1000 ''n1'' draft_dto alice start_vault)"
  have "vault_step start_vault ?v" by (rule vault_step.create)
  moreover have "vault_step ?v submitted_vault" unfolding submitted_vault_def by (rule vault_step.status)
  moreover have "vault_step submitted_vault published_vault"
    unfolding published_vault_def by (rule vault_step.status)
  ultimately have run: "vault_step\<^sup>*\<^sup>* start_vault published_vault" by auto
  have start: "documents start_vault = []" "versions start_vault = []" "history start_vault = []"
    by code_simp+
  have rows: "map (\<lambda>h. (h_fromStatus h, h_toStatus h)) (history published_vault) = [(DRAFT, PENDING), (PENDING, PUBLISHED)]"
    "list_all (\<lambda>d. filter (\<lambda>h. h_docId h = d_id d) (history published_vault) = history published_vault)
       (documents published_vault)" by code_simp+
  from history_explains_status [OF run start start_org_inv] rows show ?thesis
    by (auto simp: list_all_iff)
qed

end
