(* ===== verification/Approval_Chain.thy ===== *)
theory Approval_Chain
  imports Lifecycle_Refinement "HOL-Library.Sublist"
begin

text \<open>
  The workflow service over any metadata backend that keeps its contract
  (\<open>approval_backend\<close>), and over the vault, which does: what one approval does,
  and that a sequential approval chain publishes a document exactly after every
  approver has approved in order.
\<close>

section \<open>Runs of approvals\<close>

text \<open>
  Calls of \<open>approve\<close> in sequence, each with its own session (for the vault: the
  clock and the caller's token), caller and context; the run stops at the first
  error.
\<close>

fun approveAll :: "('r \<Rightarrow> 's metadata_api) \<Rightarrow> string \<Rightarrow> ('r \<times> service_user \<times> request_context) list \<Rightarrow> 's \<Rightarrow>
  (unit, 's) outcome" where
  "approveAll api i [] s = return () s"
| "approveAll api i ((r, u, c) # rest) s = andThen (approve (api r) i u c s) (\<lambda>_ s. approveAll api i rest s)"

definition callers :: "('r \<times> service_user \<times> request_context) list \<Rightarrow> string list" where
  "callers rs = map (\<lambda>(_, _, c). c_actorId c) rs"

definition roles_of :: "service_user \<Rightarrow> string set" where
  "roles_of u = set (coalesce (u_roles u) [])"

definition no_admins :: "('r \<times> service_user \<times> request_context) list \<Rightarrow> bool" where
  "no_admins rs = list_all (\<lambda>(_, u, _). ''admin'' \<notin> roles_of u) rs"

lemma callers_simps [simp]:
  "callers [] = []" "callers ((r, u, c) # rs) = c_actorId c # callers rs" "length (callers rs) = length rs"
  by (simp_all add: callers_def)

lemma no_admins_simps [simp]:
  "no_admins []" "no_admins ((r, u, c) # rs) \<longleftrightarrow> ''admin'' \<notin> roles_of u \<and> no_admins rs"
  by (simp_all add: no_admins_def)

section \<open>The contract of the metadata backend\<close>

locale approval_backend =
  fixes api :: "'r \<Rightarrow> 's metadata_api"
    and doc :: "'s \<Rightarrow> string \<Rightarrow> document option"
    and ok :: "'s \<Rightarrow> bool"
  assumes get: "ok s \<Longrightarrow> api_getDocument (api r) i c s = (x, t) \<Longrightarrow>
        ok t \<and> doc t = doc s \<and> (\<forall>d. x = Inr d \<longrightarrow> doc s i = Some d)"
    and update: "ok s \<Longrightarrow> api_updateStatus (api r) i st a c why s = (Inr d', t) \<Longrightarrow>
        ok t \<and> doc t = (doc s)(i \<mapsto> d') \<and> d_status d' = st
        \<and> (\<exists>d. doc s i = Some d \<and> d_approvalChain d' = d_approvalChain d
             \<and> d_approvalStep d' = d_approvalStep d \<and> d_ownerId d' = d_ownerId d \<and> d_organizationId d' = d_organizationId d)"
    and update_failed: "ok s \<Longrightarrow> api_updateStatus (api r) i st a c why s = (Inl e, t) \<Longrightarrow> ok t \<and> doc t = doc s"
    and advance: "ok s \<Longrightarrow> api_advanceApprovalStep (api r) i c s = (Inr d', t) \<Longrightarrow>
        ok t \<and> doc t = (doc s)(i \<mapsto> d')
        \<and> (\<exists>d. doc s i = Some d \<and> d_status d' = d_status d \<and> d_approvalChain d' = d_approvalChain d
             \<and> d_approvalStep d' = d_approvalStep d + 1 \<and> d_ownerId d' = d_ownerId d \<and> d_organizationId d' = d_organizationId d)"
    and advance_failed: "ok s \<Longrightarrow> api_advanceApprovalStep (api r) i c s = (Inl e, t) \<Longrightarrow> ok t \<and> doc t = doc s"
    and approvers: "ok s \<Longrightarrow> ok (snd (api_getApprovers (api r) c s)) \<and> doc (snd (api_getApprovers (api r) c s)) = doc s"
    and notify: "ok s \<Longrightarrow> ok (api_notify (api r) c p s) \<and> doc (api_notify (api r) c p s) = doc s"
begin

definition approved :: "string set \<Rightarrow> string \<Rightarrow> document \<Rightarrow> document \<Rightarrow> bool" where
  "approved roles actor d d' =
     ((''approver'' \<in> roles \<or> ''admin'' \<in> roles) \<and> d_status d = PENDING
      \<and> d_approvalChain d' = d_approvalChain d \<and> d_ownerId d' = d_ownerId d \<and> d_organizationId d' = d_organizationId d
      \<and> (if d_approvalChain d = [] \<or> ''admin'' \<in> roles
         then d_status d' = PUBLISHED \<and> d_approvalStep d' = d_approvalStep d
         else js_nth (d_approvalChain d) (d_approvalStep d) = Some actor
           \<and> (if int (length (d_approvalChain d)) - 1 \<le> d_approvalStep d
              then d_status d' = PUBLISHED \<and> d_approvalStep d' = d_approvalStep d
              else d_status d' = PENDING \<and> d_approvalStep d' = d_approvalStep d + 1)))"

lemma approvePublish_Inr:
  assumes "ok s" "approvePublish (api r) i c d s = (Inr x, t)"
  shows "ok t \<and> (\<exists>d0 d'. doc s i = Some d0 \<and> doc t = (doc s)(i \<mapsto> d') \<and> d_status d' = PUBLISHED
    \<and> d_approvalChain d' = d_approvalChain d0 \<and> d_approvalStep d' = d_approvalStep d0
    \<and> d_ownerId d' = d_ownerId d0 \<and> d_organizationId d' = d_organizationId d0)"
proof -
  obtain d' t' where u: "api_updateStatus (api r) i PUBLISHED APPROVE c None s = (Inr d', t')"
    and t: "\<exists>p. t = api_notify (api r) c p t'"
    using assms(2) by (auto simp: approvePublish_def andThen_Inr_iff)
  from update [OF assms(1) u] have "ok t'" "doc t' = (doc s)(i \<mapsto> d')" by blast+
  with t notify have "ok t" "doc t = (doc s)(i \<mapsto> d')" by auto
  then show ?thesis using update [OF assms(1) u] by blast
qed

lemma approve_Inr:
  assumes s: "ok s" and run: "approve (api r) i u c s = (Inr x, t)"
  shows "ok t \<and> (\<exists>d d'. doc s i = Some d \<and> doc t = (doc s)(i \<mapsto> d') \<and> approved (roles_of u) (c_actorId c) d d')"
proof -
  obtain d s1 where g: "api_getDocument (api r) i c s = (Inr d, s1)"
    using run by (auto simp: approve_def andThen_Inr_iff)
  from get [OF s g] have s1: "ok s1" "doc s1 = doc s" and d: "doc s i = Some d" by auto
  note run' = run [unfolded approve_def g andThen_simps Let_def, folded roles_of_def]
  have guards: "''approver'' \<in> roles_of u \<or> ''admin'' \<in> roles_of u" "d_status d = PENDING"
    using run' by (auto split: if_splits)
  show ?thesis
  proof (cases "d_approvalChain d = [] \<or> ''admin'' \<in> roles_of u")
    case True
    then have "approvePublish (api r) i c d s1 = (Inr x, t)" using run' guards by auto
    from approvePublish_Inr [OF s1(1) this] show ?thesis
      using True guards d s1(2) by (fastforce simp: approved_def)
  next
    case chain: False
    then have turn: "js_nth (d_approvalChain d) (d_approvalStep d) = Some (c_actorId c)"
      using run' guards by (auto split: if_splits)
    show ?thesis
    proof (cases "int (length (d_approvalChain d)) - 1 \<le> d_approvalStep d")
      case True
      then have "approvePublish (api r) i c d s1 = (Inr x, t)" using run' guards chain turn by auto
      from approvePublish_Inr [OF s1(1) this] show ?thesis
        using True chain turn guards d s1(2) by (fastforce simp: approved_def)
    next
      case False
      then obtain d' t' p where a: "api_advanceApprovalStep (api r) i c s1 = (Inr d', t')"
        and t: "t = api_notify (api r) c p t'"
        using run' guards chain turn by (auto simp: andThen_Inr_iff)
      from advance [OF s1(1) a] have t': "ok t'" "doc t' = (doc s)(i \<mapsto> d')" using s1(2) by auto
      have "ok t" "doc t = (doc s)(i \<mapsto> d')" using notify [OF t'(1)] t' t by auto
      moreover have "approved (roles_of u) (c_actorId c) d d'"
        using advance [OF s1(1) a] s1(2) d False chain turn guards by (auto simp: approved_def)
      ultimately show ?thesis using d by blast
    qed
  qed
qed

text \<open>A run of approvals without administrators walks along the chain.\<close>

lemma chain_walk:
  assumes "ok s" "doc s i = Some d" "d_status d = PENDING" "0 \<le> d_approvalStep d"
    and "d_approvalStep d < int (length (d_approvalChain d))" "no_admins rs"
    and "approveAll api i rs s = (Inr (), t)"
  shows "\<exists>d'. doc t i = Some d' \<and> ok t \<and> d_approvalChain d' = d_approvalChain d
    \<and> prefix (callers rs) (drop (nat (d_approvalStep d)) (d_approvalChain d))
    \<and> (d_status d' = PUBLISHED \<longleftrightarrow> callers rs = drop (nat (d_approvalStep d)) (d_approvalChain d))
    \<and> (d_status d' \<noteq> PUBLISHED \<longrightarrow> d_status d' = PENDING \<and> d_approvalStep d' = d_approvalStep d + int (length rs))"
  using assms
proof (induction rs arbitrary: s d)
  case Nil
  then show ?case by simp
next
  case (Cons req rs)
  obtain r u c where req: "req = (r, u, c)" by (cases req) auto
  let ?n = "nat (d_approvalStep d)"
  obtain x s1 where first: "approve (api r) i u c s = (Inr x, s1)"
    and rest: "approveAll api i rs s1 = (Inr (), t)"
    using Cons.prems(7) by (auto simp: req andThen_Inr_iff)
  from approve_Inr [OF Cons.prems(1) first] Cons.prems(2) obtain d' where
    s1: "ok s1" "doc s1 = (doc s)(i \<mapsto> d')" and ap: "approved (roles_of u) (c_actorId c) d d'" by auto
  have chain: "d_approvalChain d \<noteq> []" "''admin'' \<notin> roles_of u" using Cons.prems(5,6) Cons.prems(4) req by auto
  have keep: "d_approvalChain d' = d_approvalChain d" using ap by (simp add: approved_def)
  have "js_nth (d_approvalChain d) (d_approvalStep d) = Some (c_actorId c)"
    using ap chain by (simp add: approved_def)
  then have drop: "drop ?n (d_approvalChain d) = c_actorId c # drop (Suc ?n) (d_approvalChain d)"
    using Cons.prems(4,5) Cons_nth_drop_Suc [of ?n "d_approvalChain d"] by (simp add: js_nth_Some)
  show ?case
  proof (cases "int (length (d_approvalChain d)) - 1 \<le> d_approvalStep d")
    case True
    then have pub: "d_status d' = PUBLISHED" using ap chain by (simp add: approved_def)
    have "rs = []"
    proof (cases rs)
      case (Cons req' rs')
      obtain r' u' c' where "req' = (r', u', c')" by (cases req') auto
      then obtain y s2 where "approve (api r') i u' c' s1 = (Inr y, s2)"
        using rest Cons by (auto simp: andThen_Inr_iff)
      from approve_Inr [OF s1(1) this] s1(2) pub show ?thesis by (auto simp: approved_def)
    qed simp
    moreover have "drop (Suc ?n) (d_approvalChain d) = []" using True by simp
    ultimately show ?thesis using rest s1 pub keep drop by (simp add: req)
  next
    case False
    then have nxt: "d_status d' = PENDING" "d_approvalStep d' = d_approvalStep d + 1"
      using ap chain by (simp_all add: approved_def)
    have len: "d_approvalStep d' < int (length (d_approvalChain d'))" "0 \<le> d_approvalStep d'"
      using False nxt keep Cons.prems(4) by simp_all
    have "no_admins rs" using Cons.prems(6) by (simp add: req)
    from Cons.IH [OF s1(1) _ nxt(1) len(2,1) this rest] s1(2)
    have ih: "\<exists>d''. doc t i = Some d'' \<and> ok t \<and> d_approvalChain d'' = d_approvalChain d'
      \<and> prefix (callers rs) (drop (nat (d_approvalStep d')) (d_approvalChain d'))
      \<and> (d_status d'' = PUBLISHED \<longleftrightarrow> callers rs = drop (nat (d_approvalStep d')) (d_approvalChain d'))
      \<and> (d_status d'' \<noteq> PUBLISHED \<longrightarrow> d_status d'' = PENDING
           \<and> d_approvalStep d'' = d_approvalStep d' + int (length rs))" by simp
    have "nat (d_approvalStep d') = Suc ?n" using nxt(2) Cons.prems(4) by simp
    with ih show ?thesis unfolding keep by (auto simp: req drop nxt(2))
  qed
qed

end

section \<open>The vault keeps the contract\<close>

definition row :: "vault \<Rightarrow> string \<Rightarrow> document option" where
  "row s i = find_row d_id i (documents s)"

lemma row_logs: "only_logs s t \<Longrightarrow> row t = row s"
  by (simp add: row_def [abs_def] only_logsD)

lemma row_update:
  assumes "documents t = update_row d_id i f (documents s)" "row s i = Some d" "\<And>x. d_id (f x) = d_id x"
  shows "row t = (row s)(i \<mapsto> f d)"
proof
  fix j
  show "row t j = ((row s)(i \<mapsto> f d)) j"
    using assms by (cases "j = i") (simp_all add: row_def row_simps)
qed

lemma guarded_snd: "snd (guarded rs u h s) = (if rolesGuard rs u then snd (h s) else s)"
  by (simp add: guarded_def)

lemma request_snd [simp]: "snd (request m) = snd m"
  by (cases m; cases "fst m") (auto simp: request_def)

lemma updateStatus_row:
  assumes "vault_ok s" "updateStatus now i dto u c s = (Inr d', t)"
  shows "row t = (row s)(i \<mapsto> d') \<and> d_status d' = us_status dto
    \<and> (\<exists>d. row s i = Some d \<and> d_approvalChain d' = d_approvalChain d
         \<and> d_approvalStep d' = d_approvalStep d \<and> d_ownerId d' = d_ownerId d \<and> d_organizationId d' = d_organizationId d)"
proof -
  obtain d s1 and tr :: transition where d: "docSeenBy now (c_actorId c) i s = Some d" "us_status dto = tr_to tr" "only_logs s s1"
    "statusTransaction now i d (tr_to tr) dto (buildActorId u) s1 = (Inr d', t\<lparr>auditPosts := auditPosts s1\<rparr>)"
    by (rule updateStatus_Inr [OF assms(2)], rule that) assumption+
  let ?f = "\<lambda>r. (statusUpdate now (us_action dto) (tr_to tr) (d_classification d) r)\<lparr>d_updatedAt := now\<rparr>"
  obtain r where r: "row s i = Some r" "d' = ?f r"
    and docs: "documents t = update_row d_id i ?f (documents s)"
    using d(4) only_logsD(1) [OF d(3)] by (auto simp: statusTransaction_Inr row_def dest!: vault_parts)
  have "row t = (row s)(i \<mapsto> ?f r)" by (rule row_update [OF docs r(1)]) simp
  moreover have "d_status (?f r) = tr_to tr \<and> d_approvalChain (?f r) = d_approvalChain r
      \<and> d_approvalStep (?f r) = d_approvalStep r \<and> d_ownerId (?f r) = d_ownerId r \<and> d_organizationId (?f r) = d_organizationId r"
    by (simp add: statusUpdate_def withRetentionEvidence_def Let_def)
  ultimately show ?thesis using r d(2) by auto
qed

lemma advanceApprovalStep_row:
  assumes "vault_ok s" "advanceApprovalStep now i c s = (Inr d', t)"
  shows "row t = (row s)(i \<mapsto> d')
    \<and> (\<exists>d. row s i = Some d \<and> d_status d' = d_status d \<and> d_approvalChain d' = d_approvalChain d
         \<and> d_approvalStep d' = d_approvalStep d + 1 \<and> d_ownerId d' = d_ownerId d \<and> d_organizationId d' = d_organizationId d)"
proof (cases rule: scoped_cases [of now "c_actorId c" i s "\<lambda>d t. (Inr d, t)"])
  case (missing e)
  then show ?thesis using assms(2)
    by (cases "findInOrgOrThrow now (c_actorId c) i s") (auto simp: advanceApprovalStep_def docSeenBy_def split: sum.splits)
next
  case (found d s1)
  have r: "row s i = Some d" using docSeenBy_row [OF vault_ok_distinct [OF assms(1)] found(1)] by (simp add: row_def)
  let ?f = "\<lambda>x. x\<lparr>d_approvalStep := d_approvalStep d + 1, d_updatedAt := now\<rparr>"
  have "d' = ?f d" and docs: "documents t = update_row d_id i ?f (documents s)"
    using assms(2) r only_logsD(1) [OF found(2)]
    by (auto simp: advanceApprovalStep_def found(4) prismaUpdateDocument_Inr row_def)
  moreover have "row t = (row s)(i \<mapsto> ?f d)" by (rule row_update [OF docs r]) simp
  ultimately show ?thesis using r by auto
qed

lemma advanceApprovalStep_Inl:
  assumes "vault_ok s" "advanceApprovalStep now i c s = (Inl e, t)"
  shows "only_logs s t"
proof (cases rule: scoped_cases [of now "c_actorId c" i s "\<lambda>d t. (Inr d, t)"])
  case (missing e)
  then show ?thesis using assms(2) only_logs_findInOrgOrThrow [of s now "c_actorId c" i]
    by (cases "findInOrgOrThrow now (c_actorId c) i s")
      (auto simp: advanceApprovalStep_def docSeenBy_def split: sum.splits)
next
  case (found d s1)
  then show ?thesis using assms(2)
    by (auto simp: advanceApprovalStep_def prismaUpdateDocument_def return_def throw_def Let_def split: option.splits)
qed

lemma vault_ok_step: "vault_ok s \<Longrightarrow> vault_step s t \<Longrightarrow> vault_ok t"
  by (rule vault_step_ok)

definition vaultSession :: "crypto \<times> int \<times> service_user \<Rightarrow> vault metadata_api" where
  "vaultSession r = (case r of (cr, now, user) \<Rightarrow> vaultApi cr now user)"

interpretation vault: approval_backend vaultSession row vault_ok
proof
  fix s t :: vault and r :: "crypto \<times> int \<times> service_user" and i c x st a why d' e p
  obtain cr now u where r: "r = (cr, now, u)" by (cases r) auto
  let ?c = "buildRequestContext (clientRequest u c)"
  assume ok: "vault_ok s"
  {
    assume g: "api_getDocument (vaultSession r) i c s = (x, t)"
    have logs: "only_logs s t"
      using arg_cong [OF g, of snd] assertCanReadMetadata_logs [of s cr now i u ?c None]
      by (auto simp: r vaultSession_def vaultApi_def guarded_snd)
    have "row s i = Some d" if "x = Inr d" for d
    proof -
      have "assertCanReadMetadata cr now i u ?c None s = (Inr d, t)"
        using g that by (simp add: r vaultSession_def vaultApi_def request_Inr guarded_Inr)
      then have "docSeenBy now (c_actorId ?c) i s = Some d" using assertCanReadMetadata_Inr_iff by blast
      then show ?thesis using docSeenBy_row [OF vault_ok_distinct [OF ok]] by (simp add: row_def)
    qed
    then show "vault_ok t \<and> row t = row s \<and> (\<forall>d. x = Inr d \<longrightarrow> row s i = Some d)"
      using logs ok by (auto simp: row_logs intro: vault_ok_logs)
  }
  {
    assume g: "api_updateStatus (vaultSession r) i st a c why s = (Inr d', t)"
    then have up: "updateStatus now i \<lparr>us_status = st, us_action = a, us_reason = why\<rparr> u ?c s = (Inr d', t)"
      by (simp add: r vaultSession_def vaultApi_def request_Inr guarded_Inr)
    have "vault_step s t" using vault_step.status [of s now i _ u ?c] up by (metis snd_conv)
    then show "vault_ok t \<and> row t = (row s)(i \<mapsto> d') \<and> d_status d' = st
        \<and> (\<exists>d. row s i = Some d \<and> d_approvalChain d' = d_approvalChain d
             \<and> d_approvalStep d' = d_approvalStep d \<and> d_ownerId d' = d_ownerId d \<and> d_organizationId d' = d_organizationId d)"
      using updateStatus_row [OF ok up] vault_ok_step [OF ok] by simp
  }
  {
    assume g: "api_updateStatus (vaultSession r) i st a c why s = (Inl e, t)"
    let ?m = "updateStatus now i \<lparr>us_status = st, us_action = a, us_reason = why\<rparr> u ?c s"
    have "only_logs s t"
    proof (cases "rolesGuard [''editor'', ''approver'', ''admin''] u")
      case True
      then obtain e' where "?m = (Inl e', t)" using g
        by (cases ?m; cases "fst ?m") (auto simp: r vaultSession_def vaultApi_def request_def guarded_def)
      then show ?thesis by (rule updateStatus_Inl)
    next
      case False
      then show ?thesis using g by (simp add: r vaultSession_def vaultApi_def request_def guarded_def throw_def)
    qed
    then show "vault_ok t \<and> row t = row s" using ok by (auto simp: row_logs intro: vault_ok_logs)
  }
  {
    assume g: "api_advanceApprovalStep (vaultSession r) i c s = (Inr d', t)"
    then have up: "advanceApprovalStep now i ?c s = (Inr d', t)"
      by (simp add: r vaultSession_def vaultApi_def request_Inr guarded_Inr)
    have "vault_step s t" using vault_step.advance [of s now i ?c] up by (metis snd_conv)
    then show "vault_ok t \<and> row t = (row s)(i \<mapsto> d')
        \<and> (\<exists>d. row s i = Some d \<and> d_status d' = d_status d \<and> d_approvalChain d' = d_approvalChain d
             \<and> d_approvalStep d' = d_approvalStep d + 1 \<and> d_ownerId d' = d_ownerId d \<and> d_organizationId d' = d_organizationId d)"
      using advanceApprovalStep_row [OF ok up] vault_ok_step [OF ok] by simp
  }
  {
    assume g: "api_advanceApprovalStep (vaultSession r) i c s = (Inl e, t)"
    let ?m = "advanceApprovalStep now i ?c s"
    have "only_logs s t"
    proof (cases "rolesGuard [''approver'', ''admin''] u")
      case True
      then obtain e' where "?m = (Inl e', t)" using g
        by (cases ?m; cases "fst ?m") (auto simp: r vaultSession_def vaultApi_def request_def guarded_def)
      then show ?thesis by (rule advanceApprovalStep_Inl [OF ok])
    next
      case False
      then show ?thesis using g by (simp add: r vaultSession_def vaultApi_def request_def guarded_def throw_def)
    qed
    then show "vault_ok t \<and> row t = row s" using ok by (auto simp: row_logs intro: vault_ok_logs)
  }
  show "vault_ok (snd (api_getApprovers (vaultSession r) c s)) \<and> row (snd (api_getApprovers (vaultSession r) c s)) = row s"
    using getApprovers_logs [of s now] ok
    by (auto simp: r vaultSession_def vaultApi_def row_logs intro: vault_ok_logs)
  show "vault_ok (api_notify (vaultSession r) c p s) \<and> row (api_notify (vaultSession r) c p s) = row s"
    using ok by (simp add: r vaultSession_def vaultApi_def row_def [abs_def])
qed

section \<open>The chain, in order\<close>

text \<open>
  C12: a sequential approval chain publishes in order. When a pending document
  has a chain and nobody has approved yet, a run of successful approvals by
  callers without the administrator role is a prefix of the chain, in its order;
  the document is published exactly when everybody on the chain has approved,
  and stays pending, one step per approval, before that.
\<close>

theorem chain_publishes_in_order:
  assumes "vault_ok s" "find_row d_id i (documents s) = Some d" "d_status d = PENDING"
    and "d_approvalStep d = 0" "d_approvalChain d \<noteq> []" "no_admins rs"
    and "approveAll vaultSession i rs s = (Inr (), t)"
  shows "\<exists>d'. find_row d_id i (documents t) = Some d' \<and> prefix (callers rs) (d_approvalChain d)
    \<and> (d_status d' = PUBLISHED \<longleftrightarrow> callers rs = d_approvalChain d)
    \<and> (d_status d' \<noteq> PUBLISHED \<longrightarrow> d_status d' = PENDING \<and> d_approvalStep d' = int (length rs))"
  using vault.chain_walk [of s i d rs t] assms unfolding row_def by auto

section \<open>The chain completes\<close>

lemma requireOrgId_member:
  assumes inv: "org_inv s" and bel: "belongs s a org"
  shows "\<exists>t. requireOrgId now a s = (Inr org, t)"
proof -
  have uniq: "o' = org" if "belongs s a o'" for o'
    using belongs_unique [of s a o' org] inv bel that by (simp add: org_inv_def)
  have "fst (resolveOrgId a s) = Inr org"
  proof -
    from bel obtain m where "m \<in> set (filter (\<lambda>m. m_userId m = a) (memberships s))" by (auto simp: belongs_def)
    then have "sort_key m_createdAt (filter (\<lambda>m. m_userId m = a) (memberships s)) \<noteq> []"
      by (metis list.set(1) empty_iff set_sort)
    then obtain j where j: "resolveOrgId a s = (Inr j, s)"
      by (auto simp: resolveOrgId_def neq_Nil_conv return_def)
    then show ?thesis using uniq resolveOrgId_Inr [OF j] by simp
  qed
  then have "resolveOrgId a s = (Inr org, s)" by (simp add: prod_eq_iff)
  moreover have "ce_orgId e = org" if "orgCache s a = Some e" for e
    using uniq inv that by (auto simp: org_inv_def)
  ultimately show ?thesis by (auto simp: requireOrgId_def return_def split: option.splits)
qed

lemma docSeenBy_member:
  assumes ok: "vault_ok s" and r: "row s i = Some d" and bel: "belongs s a (d_organizationId d)"
  shows "docSeenBy now a i s = Some d"
proof -
  obtain t where q: "requireOrgId now a s = (Inr (d_organizationId d), t)"
    using requireOrgId_member [OF _ bel] ok by (auto simp: vault_ok_def)
  have docs: "documents t = documents s" using requireOrgId_frame(1) [of now a s] q by simp
  have d: "d \<in> set (documents s)" "d_id d = i" using r find_row_SomeD by (fastforce simp: row_def)+
  have only: "x = d" if "x \<in> set (documents s)" "d_id x = i" for x
    using that row_is_found [OF vault_ok_distinct [OF ok]] r by (auto simp: row_def row_is_def)
  have "find (\<lambda>x. d_id x = i \<and> d_organizationId x = d_organizationId d) (documents s) = Some d"
  proof (cases "find (\<lambda>x. d_id x = i \<and> d_organizationId x = d_organizationId d) (documents s)")
    case None
    then show ?thesis using d by (auto simp: find_None_iff)
  next
    case (Some x)
    then have "x \<in> set (documents s)" "d_id x = i" by (auto simp: find_Some_iff)
    then show ?thesis using Some only by simp
  qed
  then show ?thesis by (simp add: docSeenBy_def findInOrgOrThrow_def findInOrg_def q docs)
qed

text \<open>A caller who may approve: an approver, and nothing else, of the document's organization,
  whom no rule keeps from reading.\<close>

definition read_open :: "vault \<Rightarrow> string \<Rightarrow> bool" where
  "read_open s i = list_all (\<lambda>a. \<not> (a_docId a = i \<and> a_permission a = READ \<and> a_effect a = DENY)) (acls s)"

definition kept :: "vault \<Rightarrow> vault \<Rightarrow> bool" where
  "kept s t = (memberships t = memberships s \<and> acls t = acls s)"

lemma kept_logs: "only_logs s t \<Longrightarrow> kept s t"
  by (simp add: kept_def only_logsD)

lemma kept_effect: "effect R i s t \<Longrightarrow> kept s t"
  by (auto simp: effect_def rewrites_row_def same_tables_def kept_def only_logsD)

lemma kept_trans: "kept s t \<Longrightarrow> kept t u \<Longrightarrow> kept s u"
  by (simp add: kept_def)

lemma approver_reads:
  assumes ok: "vault_ok s" and r: "row s i = Some d" and pend: "d_status d = PENDING"
    and open_: "read_open s i" and u: "u_roles u = Some [''approver'']"
    and bel: "belongs s (buildActorId u) (d_organizationId d)"
  shows "\<exists>t. api_getDocument (vaultSession (cr, now, u)) i c s = (Inr d, t) \<and> only_logs s t"
proof -
  let ?c = "buildRequestContext (clientRequest u c)"
  have ctx: "c_actorId ?c = buildActorId u" by (simp add: buildRequestContext_def clientRequest_def)
  have "d_id d = i" using r find_row_SomeD by (fastforce simp: row_def)
  then have "metadata_readable (shareOpensMetadata cr now i None [''approver''] s)
      (buildActorId u) [''approver''] (getActorGroups u ?c) d s"
    using open_ pend by (auto simp: metadata_readable_def acl_rule_def read_open_def list_all_iff)
  then obtain t where t: "assertCanReadMetadata cr now i u ?c None s = (Inr d, t)"
    using assertCanReadMetadata_Inr_iff [of cr now i u ?c None s d] docSeenBy_member [OF ok r bel, of now] u ctx pend
    by auto
  then have "api_getDocument (vaultSession (cr, now, u)) i c s = (Inr d, t)"
    by (simp add: vaultSession_def vaultApi_def request_Inr guarded_Inr rolesGuard_def u)
  then show ?thesis using assertCanReadMetadata_logs [of s cr now i u ?c None] t by auto
qed

lemma found_member:
  assumes "vault_ok s" "row s i = Some d" "belongs s a (d_organizationId d)"
  shows "\<exists>t. findInOrgOrThrow now a i s = (Inr d, t) \<and> only_logs s t \<and> row t i = Some d"
proof -
  have "fst (findInOrgOrThrow now a i s) = Inr d"
    using docSeenBy_member [OF assms, of now] by (simp add: docSeenBy_Some)
  then obtain t where t: "findInOrgOrThrow now a i s = (Inr d, t)" by (cases "findInOrgOrThrow now a i s") auto
  then have "only_logs s t" using only_logs_findInOrgOrThrow [of s now a i] by simp
  then show ?thesis using t assms(2) row_logs by auto
qed

lemma advance_enabled:
  assumes "vault_ok s" "row s i = Some d" "belongs s (c_actorId c) (d_organizationId d)"
  shows "\<exists>d' t. advanceApprovalStep now i c s = (Inr d', t) \<and> kept s t"
proof -
  obtain t where t: "findInOrgOrThrow now (c_actorId c) i s = (Inr d, t)" "row t i = Some d"
    using found_member [OF assms] by blast
  then obtain d' u where u: "advanceApprovalStep now i c s = (Inr d', u)"
    by (auto simp: advanceApprovalStep_def prismaUpdateDocument_found row_def Let_def)
  then show ?thesis
    using kept_effect [OF advanceApprovalStep_effect [OF vault_ok_distinct [OF assms(1)], of now i c]] by simp
qed

lemma publish_enabled:
  assumes "vault_ok s" "row s i = Some d" "belongs s (c_actorId c) (d_organizationId d)"
    and "d_status d = PENDING" "u_roles u = Some [''approver'']"
  shows "\<exists>d' t. updateStatus now i \<lparr>us_status = PUBLISHED, us_action = APPROVE, us_reason = None\<rparr> u c s = (Inr d', t)
    \<and> kept s t"
proof -
  let ?dto = "\<lparr>us_status = PUBLISHED, us_action = APPROVE, us_reason = None\<rparr>"
  obtain t where t: "findInOrgOrThrow now (c_actorId c) i s = (Inr d, t)" "row t i = Some d"
    using found_member [OF assms(1-3)] by blast
  then obtain d' v where v: "updateStatus now i ?dto u c s = (Inr d', v)"
    using assms(4,5)
    by (auto simp: updateStatus_def statusTransaction_def prismaUpdateDocument_found row_def Let_def return_def)
  then show ?thesis
    using kept_effect [OF updateStatus_effect [OF vault_ok_distinct [OF assms(1)], of now ?dto i u c]] by simp
qed

lemma approve_enabled:
  assumes ok: "vault_ok s" and r: "row s i = Some d" and pend: "d_status d = PENDING"
    and open_: "read_open s i" and u: "u_roles u = Some [''approver'']" and c: "c_actorId c = buildActorId u"
    and bel: "belongs s (buildActorId u) (d_organizationId d)"
    and turn: "js_nth (d_approvalChain d) (d_approvalStep d) = Some (c_actorId c)"
  shows "\<exists>x t. approve (vaultSession (cr, now, u)) i u c s = (Inr x, t) \<and> kept s t"
proof -
  let ?c = "buildRequestContext (clientRequest u c)"
  have ctx: "c_actorId ?c = buildActorId u" by (simp add: buildRequestContext_def clientRequest_def)
  obtain s1 where g: "api_getDocument (vaultSession (cr, now, u)) i c s = (Inr d, s1)" and l: "only_logs s s1"
    using approver_reads [OF ok r pend open_ u bel] by blast
  have s1: "vault_ok s1" "row s1 i = Some d" "belongs s1 (c_actorId ?c) (d_organizationId d)"
    using vault_ok_logs [OF ok l] row_logs [OF l] r bel only_logsD(8) [OF l] ctx by (auto simp: belongs_def)
  have roles: "rolesGuard [''editor'', ''approver'', ''admin''] u" "rolesGuard [''approver'', ''admin''] u"
    by (simp_all add: rolesGuard_def u)
  have chain: "d_approvalChain d \<noteq> []" using turn by (auto simp: js_nth_def split: if_splits)
  have log_notify: "kept t' (api_notify (vaultSession (cr, now, u)) c p t')" for p t'
    by (simp add: vaultSession_def vaultApi_def kept_def)
  show ?thesis
  proof (cases "int (length (d_approvalChain d)) - 1 \<le> d_approvalStep d")
    case True
    obtain d' t where "updateStatus now i \<lparr>us_status = PUBLISHED, us_action = APPROVE, us_reason = None\<rparr> u ?c s1 = (Inr d', t)"
      "kept s1 t" using publish_enabled [OF s1 pend u] by blast
    then have up: "api_updateStatus (vaultSession (cr, now, u)) i PUBLISHED APPROVE c None s1 = (Inr d', t)" and k: "kept s1 t"
      by (simp_all add: vaultSession_def vaultApi_def request_Inr guarded_Inr roles)
    have "\<exists>p. approve (vaultSession (cr, now, u)) i u c s = (Inr d', api_notify (vaultSession (cr, now, u)) c p t)"
      using True chain turn pend u
      by (simp add: approve_def g approvePublish_def up return_def) (rule exI, rule refl)
    then show ?thesis using kept_trans [OF kept_trans [OF kept_logs [OF l] k] log_notify] by blast
  next
    case False
    obtain d' t where "advanceApprovalStep now i ?c s1 = (Inr d', t)" "kept s1 t"
      using advance_enabled [OF s1] by blast
    then have up: "api_advanceApprovalStep (vaultSession (cr, now, u)) i c s1 = (Inr d', t)" and k: "kept s1 t"
      by (simp_all add: vaultSession_def vaultApi_def request_Inr guarded_Inr roles)
    have "\<exists>p x. approve (vaultSession (cr, now, u)) i u c s = (Inr x, api_notify (vaultSession (cr, now, u)) c p t)"
      using False chain turn pend u
      by (simp add: approve_def g up return_def Let_def) (rule exI, rule refl)
    then show ?thesis using kept_trans [OF kept_trans [OF kept_logs [OF l] k] log_notify] by blast
  qed
qed

text \<open>The sessions of the approvers: each with the approver's token and context.\<close>

definition approver_sessions :: "((crypto \<times> int \<times> service_user) \<times> service_user \<times> request_context) list \<Rightarrow> bool" where
  "approver_sessions rs = list_all (\<lambda>((cr, now, u'), u, c).
     u' = u \<and> u_roles u = Some [''approver''] \<and> c_actorId c = buildActorId u) rs"

lemma chain_run:
  assumes "vault_ok s" "row s i = Some d" "d_status d = PENDING" "0 \<le> d_approvalStep d"
    and "approver_sessions rs" "read_open s i"
    and "\<forall>a \<in> set (d_approvalChain d). belongs s a (d_organizationId d)"
    and "prefix (callers rs) (drop (nat (d_approvalStep d)) (d_approvalChain d))"
  shows "succeeds (approveAll vaultSession i rs s)"
  using assms
proof (induction rs arbitrary: s d)
  case Nil
  then show ?case by simp
next
  case (Cons req rs)
  let ?n = "nat (d_approvalStep d)"
  obtain cr now u u2 c where req: "req = ((cr, now, u2), u, c)" by (cases req) auto
  have u: "u2 = u" "u_roles u = Some [''approver'']" "c_actorId c = buildActorId u"
    using Cons.prems(5) by (simp_all add: req approver_sessions_def)
  obtain rest where rest: "drop ?n (d_approvalChain d) = c_actorId c # rest" "prefix (callers rs) rest"
    using Cons.prems(8) by (cases "drop ?n (d_approvalChain d)") (auto simp: req)
  have len: "?n < length (d_approvalChain d)" using rest(1) by (metis drop_all list.distinct(1) not_less)
  have at: "d_approvalChain d ! ?n = c_actorId c" using rest(1) len by (simp add: nth_via_drop)
  have dropS: "drop (Suc ?n) (d_approvalChain d) = rest" using rest(1) by (metis drop_Suc list.sel(3) tl_drop)
  have turn: "js_nth (d_approvalChain d) (d_approvalStep d) = Some (c_actorId c)"
    using len at Cons.prems(4) by (auto simp: js_nth_Some)
  have bel: "belongs s (buildActorId u) (d_organizationId d)"
    using Cons.prems(7) len at u(3) nth_mem by metis
  obtain x t where run: "approve (vaultSession (cr, now, u)) i u c s = (Inr x, t)" and k: "kept s t"
    using approve_enabled [OF Cons.prems(1-3,6) u(2,3) bel turn] by blast
  from vault.approve_Inr [OF Cons.prems(1) run] Cons.prems(2) obtain d' where
    t: "vault_ok t" "row t i = Some d'" and ap: "vault.approved (roles_of u) (c_actorId c) d d'" by auto
  show ?case
  proof (cases rs)
    case Nil
    then show ?thesis using run by (simp add: req u(1))
  next
    case (Cons req' rs')
    then have "rest \<noteq> []" using rest(2) by (cases req') auto
    then have "Suc ?n < length (d_approvalChain d)" using dropS by (metis drop_all not_less)
    then have "\<not> int (length (d_approvalChain d)) - 1 \<le> d_approvalStep d" using Cons.prems(4) by simp
    then have d': "d_status d' = PENDING" "d_approvalStep d' = d_approvalStep d + 1"
      "d_approvalChain d' = d_approvalChain d" "d_organizationId d' = d_organizationId d"
      using ap turn by (auto simp: vault.approved_def roles_of_def u js_nth_def split: if_splits)
    have "succeeds (approveAll vaultSession i rs t)"
    proof (rule Cons.IH [OF t d'(1)])
      show "0 \<le> d_approvalStep d'" using d'(2) Cons.prems(4) by simp
      show "approver_sessions rs" using Cons.prems(5) by (simp add: approver_sessions_def)
      show "read_open t i" using Cons.prems(6) k by (simp add: read_open_def kept_def)
      show "\<forall>a \<in> set (d_approvalChain d'). belongs t a (d_organizationId d')"
        using Cons.prems(7) d' k by (simp add: belongs_def kept_def)
      show "prefix (callers rs) (drop (nat (d_approvalStep d')) (d_approvalChain d'))"
        using rest(2) dropS d'(2,3) Cons.prems(4) by (simp add: nat_add_distrib)
    qed
    then show ?thesis using run by (simp add: req u(1))
  qed
qed

text \<open>
  C14: a sequential approval chain completes. When every approver on the chain of
  a pending document belongs to its organization, holds the approver role and no
  READ DENY rule stands on the document, their approvals in the order of the
  chain all succeed, and they publish the document.
\<close>

theorem chain_completes:
  assumes "vault_ok s" "find_row d_id i (documents s) = Some d" "d_status d = PENDING"
    and "d_approvalStep d = 0" "d_approvalChain d \<noteq> []"
    and "callers rs = d_approvalChain d" "approver_sessions rs"
    and "\<forall>a \<in> set (d_approvalChain d). belongs s a (d_organizationId d)" "read_open s i"
  shows "succeeds (approveAll vaultSession i rs s)
    \<and> map_option d_status (find_row d_id i (documents (snd (approveAll vaultSession i rs s)))) = Some PUBLISHED"
proof -
  have r: "row s i = Some d" using assms(2) by (simp add: row_def)
  have ok: "succeeds (approveAll vaultSession i rs s)"
    using chain_run [OF assms(1) r assms(3) _ assms(7,9,8)] assms(4,6) by simp
  then obtain t where t: "approveAll vaultSession i rs s = (Inr (), t)" by (auto simp: succeeds_iff)
  have "no_admins rs" using assms(7) unfolding no_admins_def approver_sessions_def roles_of_def
    by (auto simp: list_all_iff)
  have step: "0 \<le> d_approvalStep d" "d_approvalStep d < int (length (d_approvalChain d))"
    using assms(4,5) by simp_all
  from vault.chain_walk [OF assms(1) r assms(3) step \<open>no_admins rs\<close> t]
  obtain d' where "row t i = Some d'" "d_status d' = PUBLISHED" using assms(4,6) by auto
  then show ?thesis using ok t by (simp add: row_def)
qed

section \<open>Examples\<close>

definition chained_vault :: vault where
  "chained_vault = snd (setApprovalChain 2500 ''n1'' [''carol'', ''dave ''] alice submitted_vault)"

lemma chained_reachable: "reachable chained_vault"
proof -
  have "vault_step submitted_vault chained_vault" unfolding chained_vault_def by (rule vault_step.chain)
  then show ?thesis using submitted_reachable unfolding reachable_def
    by (meson rtranclp.rtrancl_into_rtrancl)
qed

definition chained_document :: document where
  "chained_document = hd (documents chained_vault)"

lemma chained_row: "find_row d_id ''n1'' (documents chained_vault) = Some chained_document"
  unfolding chained_document_def by code_simp

lemma chained_doc: "d_status chained_document = PENDING" "d_approvalStep chained_document = 0"
  "d_approvalChain chained_document = [''carol'', ''dave'']" "d_organizationId chained_document = ''o1''"
  unfolding chained_document_def by code_simp+

definition session :: "string \<Rightarrow> (crypto \<times> int \<times> service_user) \<times> service_user \<times> request_context" where
  "session name = ((sample_crypto JNull, 3000, sample_user name [''approver'']), sample_user name [''approver''],
     sample_context name [''approver''])"

theorem chain_publishes_in_order_witness:
  "map d_status (documents (snd (approveAll vaultSession ''n1'' [session ''carol''] chained_vault))) = [PENDING]
   \<and> prefix [''carol''] [''carol'', ''dave'']"
proof -
  obtain t where t: "approveAll vaultSession ''n1'' [session ''carol''] chained_vault = (Inr (), t)"
    "map d_id (documents t) = [''n1'']"
  proof -
    have "case approveAll vaultSession ''n1'' [session ''carol''] chained_vault of
      (Inl _, _) \<Rightarrow> False | (Inr _, t) \<Rightarrow> map d_id (documents t) = [''n1'']"
      by code_simp
    then show ?thesis using that by (auto split: prod.splits sum.splits)
  qed
  have na: "no_admins [session ''carol'']" "callers [session ''carol''] = [''carol'']" by code_simp+
  from chain_publishes_in_order [OF vault_invariant_of [OF chained_reachable] chained_row chained_doc(1,2) _ na(1) t(1)]
  obtain d' where d': "find_row d_id ''n1'' (documents t) = Some d'" "prefix [''carol''] [''carol'', ''dave'']"
    "d_status d' = PENDING" by (auto simp: chained_doc na(2))
  then have "map d_status (documents t) = [PENDING]" using t(2)
    by (cases "documents t") (auto split: if_splits)
  then show ?thesis using t(1) d'(2) by simp
qed

theorem chain_completes_witness:
  "map d_status (documents (snd (approveAll vaultSession ''n1'' [session ''carol'', session ''dave''] chained_vault)))
     = [PUBLISHED]"
proof -
  let ?rs = "[session ''carol'', session ''dave'']"
  have rs: "callers ?rs = [''carol'', ''dave'']" "approver_sessions ?rs" "read_open chained_vault ''n1''" by code_simp+
  have mem: "list_all (\<lambda>a. list_ex (\<lambda>m. m_userId m = a \<and> m_organizationId m = ''o1'') (memberships chained_vault))
      [''carol'', ''dave'']" by code_simp
  have bel: "\<forall>a \<in> set (d_approvalChain chained_document). belongs chained_vault a (d_organizationId chained_document)"
    using mem by (auto simp: chained_doc belongs_def list_ex_iff)
  have one: "map d_id (documents (snd (approveAll vaultSession ''n1'' ?rs chained_vault))) = [''n1'']" by code_simp
  from chain_completes [OF vault_invariant_of [OF chained_reachable] chained_row chained_doc(1,2) _ _ rs(2) bel rs(3)]
  have "map_option d_status (find_row d_id ''n1''
      (documents (snd (approveAll vaultSession ''n1'' ?rs chained_vault)))) = Some PUBLISHED"
    by (simp add: chained_doc rs(1))
  then show ?thesis using one
    by (cases "documents (snd (approveAll vaultSession ''n1'' ?rs chained_vault))") (auto split: if_splits)
qed

section \<open>Two ways around the chain\<close>

text \<open>
  the chain binds only the workflow service. The status handler of metadata-service,
  which the gateway forwards to editors too, checks no chain and no approver: in a
  vault that handlers reached, every editor, approver or administrator who sees a
  pending document publishes it, wherever its chain stands.
\<close>

theorem status_route_skips_chain:
  assumes "reachable s" "docSeenBy now (c_actorId c) i s = Some d" "d_status d = PENDING"
    and "role \<in> set (coalesce (u_roles u) [])" "role \<in> {''editor'', ''approver'', ''admin''}"
  shows "\<exists>d' t. updateStatus now i \<lparr> us_status = PUBLISHED, us_action = APPROVE, us_reason = reason \<rparr> u c s = (Inr d', t)
    \<and> find_row d_id i (documents t) = Some d' \<and> d_status d' = PUBLISHED
    \<and> d_approvalChain d' = d_approvalChain d \<and> d_approvalStep d' = d_approvalStep d"
proof -
  obtain t where t: "findInOrgOrThrow now (c_actorId c) i s = (Inr d, t)"
    using assms(2) by (metis docSeenBy_Some prod.collapse)
  have "distinct (map d_id (documents s))" using vault_ok_distinct [OF vault_invariant_of [OF assms(1)]] .
  from findInOrgOrThrow_row [OF this t] have row: "find_row d_id i (documents t) = Some d" .
  let ?dto = "\<lparr> us_status = PUBLISHED, us_action = APPROVE, us_reason = reason \<rparr>"
  obtain d' t' where tx: "statusTransaction now i d PUBLISHED ?dto (buildActorId u) t = (Inr d', t')"
    "find_row d_id i (documents t') = Some d'" "d_status d' = PUBLISHED"
    "d_approvalChain d' = d_approvalChain d" "d_approvalStep d' = d_approvalStep d"
    using row by (auto simp: statusTransaction_Inr find_row_update_same statusUpdate_def withRetentionEvidence_def Let_def)
  have "list_ex (\<lambda>r. r \<in> set [''editor'', ''approver'', ''admin'']) (coalesce (u_roles u) [])"
    using assms(4,5) by (auto simp: list_ex_iff)
  then have "\<exists>w. updateStatus now i ?dto u c s = (Inr d', w) \<and> documents w = documents t'"
    using assms(3) tx(1) by (simp add: updateStatus_def t Let_def return_def)
  then show ?thesis using tx by auto
qed

theorem status_route_skips_chain_witness:
  "\<exists>d t. updateStatus 3000 ''n1'' \<lparr> us_status = PUBLISHED, us_action = APPROVE, us_reason = None \<rparr>
      (sample_user ''alice'' [''editor'']) alice chained_vault = (Inr d, t)
    \<and> d_status d = PUBLISHED \<and> d_approvalStep d = 0"
proof -
  have seen: "docSeenBy 3000 (c_actorId alice) ''n1'' chained_vault = Some chained_document"
    unfolding chained_document_def by code_simp
  have "''editor'' \<in> set (coalesce (u_roles (sample_user ''alice'' [''editor''])) [])" by (simp add: sample_user_def)
  from status_route_skips_chain [OF chained_reachable seen chained_doc(1) this, of None] show ?thesis
    using chained_doc(2) by fastforce
qed

text \<open>
  a rejection leaves the chain where it stood. After carol approves and dave
  rejects, the resubmitted document waits for dave again, not for carol, and its
  owner can no longer configure the chain; dave alone then publishes it.
\<close>

theorem rejection_keeps_step:
  "\<exists>s s'. reachable s \<and> vault_step\<^sup>*\<^sup>* s s'
     \<and> map d_approvalStep (documents s') = [1] \<and> map d_status (documents s') = [PENDING]
     \<and> map (\<lambda>h. h_action h) (history s') = [SUBMIT, REJECT, SUBMIT]
     \<and> \<not> succeeds (setApprovalChain 5000 ''n1'' [''carol'', ''dave''] alice s')
     \<and> map d_status (documents (snd (approveAll vaultSession ''n1'' [session ''dave''] s'))) = [PUBLISHED]"
proof -
  define s1 where "s1 = snd (advanceApprovalStep 3000 ''n1'' (sample_context ''carol'' [''approver'']) chained_vault)"
  define s2 where "s2 = snd (updateStatus 3500 ''n1'' \<lparr> us_status = DRAFT, us_action = REJECT, us_reason = None \<rparr>
    (sample_user ''dave'' [''approver'']) (sample_context ''dave'' [''approver'']) s1)"
  define s3 where "s3 = snd (updateStatus 4000 ''n1'' \<lparr> us_status = PENDING, us_action = SUBMIT, us_reason = None \<rparr>
    (sample_user ''alice'' [''editor'']) alice s2)"
  have "vault_step chained_vault s1" unfolding s1_def by (rule vault_step.advance)
  moreover have "vault_step s1 s2" unfolding s2_def by (rule vault_step.status)
  moreover have "vault_step s2 s3" unfolding s3_def by (rule vault_step.status)
  ultimately have run: "vault_step\<^sup>*\<^sup>* chained_vault s3" by auto
  have s3: "map d_approvalStep (documents s3) = [1]" "map d_status (documents s3) = [PENDING]"
    "map h_action (history s3) = [SUBMIT, REJECT, SUBMIT]"
    "\<not> succeeds (setApprovalChain 5000 ''n1'' [''carol'', ''dave''] alice s3)"
    "map d_status (documents (snd (approveAll vaultSession ''n1'' [session ''dave''] s3))) = [PUBLISHED]"
    unfolding s3_def s2_def s1_def by code_simp+
  show ?thesis by (rule exI [of _ chained_vault], rule exI [of _ s3], intro conjI chained_reachable run s3)
qed

end
