(* ===== verification/Vault_Rules.thy ===== *)
theory Vault_Rules
  imports Lifecycle_Refinement
begin

text \<open>
  Rules of the vault that hold over every handler: the DLP label of a flagged
  document, the last administrator of an organization, the access limit of share
  links, and who may change comments.
\<close>

section \<open>Flagged documents stay labelled\<close>

definition dlp_labelled :: "document \<Rightarrow> bool" where
  "dlp_labelled d = (d_dlpStatus d = ''DETECTED'' \<longrightarrow> d_classification d \<in> {CONFIDENTIAL, SECRET})"

definition dlp_safe :: "vault \<Rightarrow> bool" where
  "dlp_safe s = list_all dlp_labelled (documents s)"

lemma dlp_safe_same: "dlp_safe s \<Longrightarrow> documents t = documents s \<Longrightarrow> dlp_safe t"
  by (simp add: dlp_safe_def)

lemma dlp_safe_rewritten:
  "dlp_safe s \<Longrightarrow> rewritten Q s t \<Longrightarrow> (\<And>d d'. Q d d' \<Longrightarrow> dlp_labelled d \<Longrightarrow> dlp_labelled d') \<Longrightarrow> dlp_safe t"
  unfolding dlp_safe_def rewritten_def list_all_iff by (elim exE conjE) (simp, blast)

lemma dlp_safe_effect:
  assumes "dlp_safe s" "effect R i s t" "\<And>d d'. R d d' \<Longrightarrow> dlp_labelled d \<Longrightarrow> dlp_labelled d'"
  shows "dlp_safe t"
  by (rule dlp_safe_rewritten [OF assms(1) rewritten_effect [OF assms(2), of "\<lambda>d d'. dlp_labelled d \<longrightarrow> dlp_labelled d'"]])
    (use assms(3) in auto)

lemma dlp_transition: "transitioned now a d d' \<Longrightarrow> dlp_labelled d \<Longrightarrow> dlp_labelled d'"
  by (cases a) (auto simp: transitioned_def dlp_labelled_def statusUpdate_def withRetentionEvidence_def Let_def)

text \<open>The versions: a detection labels the document, and a restored version leaves it.\<close>

definition labels :: "document \<Rightarrow> document \<Rightarrow> bool" where
  "labels d d' = (dlp_labelled d \<longrightarrow> dlp_labelled d')"

lemma labels_refl: "labels d d" by (simp add: labels_def)

lemma escalate_labels:
  assumes "d_classification d = cls"
  shows "labels d ((versionDocumentUpdate now n st fs (st = ''DETECTED'' \<and> cls \<in> {PUBLIC, INTERNAL}) d)\<lparr>d_updatedAt := t\<rparr>)"
  using assms by (cases cls) (auto simp: labels_def dlp_labelled_def versionDocumentUpdate_def Let_def)

lemma version_labels:
  assumes dist: "distinct (map d_id (documents s))"
  shows "rewritten labels s (snd (createVersion now i dto u c s))"
    and "rewritten labels s (snd (restoreVersion now i n u c s))"
proof -
  show "rewritten labels s (snd (createVersion now i dto u c s))"
    unfolding createVersion_def Let_def
    by (rule rewritten_scoped [OF dist labels_refl], rule rewritten_guard [OF _ labels_refl], simp)
      (auto simp: rewritten_same labels_refl row_is_def notifyVersionUploaded_logs escalate_labels
        simp del: insert_iff dest!: versionsAssertCanManage_Inr intro!: version_commit_rewritten)
  show "rewritten labels s (snd (restoreVersion now i n u c s))"
    unfolding restoreVersion_def
    by (rule rewritten_scoped [OF dist labels_refl], rule rewritten_guard [OF _ labels_refl], simp)
      (auto simp: Let_def rewritten_same labels_refl row_is_def notifyVersionUploaded_logs
        labels_def dlp_labelled_def split: option.splits
        dest!: versionsAssertCanManage_Inr intro!: version_commit_rewritten)
qed

lemma create_labels: "dlp_safe s \<Longrightarrow> dlp_safe (snd (createDocument now i dto c s))"
  by (cases "requireOrgId now (c_actorId c) s"; cases "fst (requireOrgId now (c_actorId c) s)")
    (auto simp: createDocument_def Let_def dlp_safe_def newDocument_def dlp_labelled_def
      dest!: requireOrgId_eq_state)

lemma purge_labels:
  assumes "dlp_safe s" "distinct (map d_id (documents s))"
  shows "dlp_safe (snd (purgeExpiredTrash now s))"
  using assms(1) purge_run [OF assms(2), of now] by (auto simp: dlp_safe_def list_all_iff)

lemma retention_labels:
  assumes "dlp_safe s" "distinct (map d_id (documents s))"
  shows "dlp_safe (snd (runRetention now who s))"
  using assms(1) runRetention_run [OF assms(2), of now who]
  by (auto simp: dlp_safe_def list_all_iff dlp_labelled_def archived_row_def)

definition overridden :: "update_document_dto \<Rightarrow> request_context \<Rightarrow> bool" where
  "overridden dto c = (''admin'' \<in> set (c_roles c) \<and> ud_classification dto \<in> {Some PUBLIC, Some INTERNAL}
     \<and> truthy_opt (map_option trim (ud_classificationOverrideReason dto)))"

lemma update_labels:
  "dlp_allowed dto c d \<Longrightarrow> \<not> overridden dto c \<Longrightarrow> dlp_labelled d \<Longrightarrow> dlp_labelled ((applyUpdate dto d)\<lparr>d_updatedAt := now\<rparr>)"
  by (cases "ud_classification dto"; cases "the (ud_classification dto)")
    (auto simp: dlp_allowed_def overridden_def dlp_labelled_def applyUpdate_def Let_def split: option.splits)

lemma step_labels:
  assumes "vault_step s t" "vault_ok s" "dlp_safe s"
    and "\<not> (\<exists>now i dto c. t = snd (updateDocument now i dto c s) \<and> overridden dto c)"
  shows "dlp_safe t"
proof -
  have dist: "distinct (map d_id (documents s))" using assms(2) by (rule vault_ok_distinct)
  from assms(1) show ?thesis
  proof cases
    case (update now i udto c)
    then have no: "\<not> overridden udto c" using assms(4) by blast
    show ?thesis unfolding update
      by (rule dlp_safe_effect [OF assms(3) updateDocument_effect [OF dist]]) (use no update_labels in blast)
  next
    case (status now i sdto u c)
    show ?thesis unfolding status
      by (rule dlp_safe_effect [OF assms(3) updateStatus_effect [OF dist]]) (rule dlp_transition)
  next
    case (hold now i h c)
    show ?thesis unfolding hold
      by (rule dlp_safe_effect [OF assms(3) setLegalHold_effect [OF dist]])
        (auto simp: dlp_labelled_def applyLegalHold_def)
  next
    case (restore now i c)
    show ?thesis unfolding restore
      by (rule dlp_safe_effect [OF assms(3) restoreFromTrash_effect [OF dist]]) (auto simp: dlp_labelled_def)
  next
    case (chain now i as c)
    show ?thesis unfolding chain
      by (rule dlp_safe_effect [OF assms(3) setApprovalChain_effect [OF dist]]) (auto simp: dlp_labelled_def)
  next
    case (advance now i c)
    show ?thesis unfolding advance
      by (rule dlp_safe_effect [OF assms(3) advanceApprovalStep_effect [OF dist]]) (auto simp: dlp_labelled_def)
  next
    case (version now i vdto u c)
    show ?thesis unfolding version
      by (rule dlp_safe_rewritten [OF assms(3) version_labels(1) [OF dist]]) (simp add: labels_def)
  next
    case (version_restore now i n u c)
    show ?thesis unfolding version_restore
      by (rule dlp_safe_rewritten [OF assms(3) version_labels(2) [OF dist]]) (simp add: labels_def)
  qed (use assms(3) dist in \<open>auto intro: create_labels purge_labels retention_labels dlp_safe_same
      simp: acl_docs comment_docs share_docs addMember_docs updateMemberRole_docs removeMember_docs only_logsD\<close>)
qed

text \<open>
  a flagged document keeps its label. While every document on which DLP
  detected something is CONFIDENTIAL or SECRET, each step keeps that so, unless
  it is a metadata update that lowers the label by an administrator who gives a
  reason; uploads that detect something raise the label themselves.
\<close>

theorem dlp_label_kept:
  assumes "reachable s" "vault_step s t" "list_all dlp_labelled (documents s)"
  shows "list_all dlp_labelled (documents t)
    \<or> (\<exists>now i dto c. t = snd (updateDocument now i dto c s) \<and> ''admin'' \<in> set (c_roles c)
        \<and> ud_classification dto \<in> {Some PUBLIC, Some INTERNAL}
        \<and> truthy_opt (map_option trim (ud_classificationOverrideReason dto)))"
  using step_labels [OF assms(2) vault_invariant_of [OF assms(1)]] assms(3)
  unfolding dlp_safe_def overridden_def by blast

definition detected_dto :: create_version_dto where
  "detected_dto = \<lparr> cv_version = 1, cv_objectKey = ''doc/n1/v1/plan.txt'', cv_checksum = ''sha256:ab'',
     cv_size = 12, cv_filename = ''plan.txt'', cv_contentType = Some ''text/plain'',
     cv_dlpStatus = Some ''DETECTED'', cv_dlpFindings = Some [], cv_dlpSuggestedClassification = None \<rparr>"

theorem dlp_label_kept_witness:
  "map (\<lambda>d. (d_dlpStatus d, d_classification d))
     (documents (snd (createVersion 2600 ''n1'' detected_dto (sample_user ''alice'' [''editor'']) alice submitted_vault)))
     = [(''DETECTED'', CONFIDENTIAL)]
   \<and> list_all dlp_labelled (documents (snd (updateDocument 2700 ''n1''
        \<lparr> ud_title = None, ud_description = None, ud_classification = Some PUBLIC,
          ud_classificationOverrideReason = None, ud_tags = None \<rparr> alice
        (snd (createVersion 2600 ''n1'' detected_dto (sample_user ''alice'' [''editor'']) alice submitted_vault)))))"
proof -
  let ?s = "snd (createVersion 2600 ''n1'' detected_dto (sample_user ''alice'' [''editor'']) alice submitted_vault)"
  let ?t = "snd (updateDocument 2700 ''n1''
        \<lparr> ud_title = None, ud_description = None, ud_classification = Some PUBLIC,
          ud_classificationOverrideReason = None, ud_tags = None \<rparr> alice ?s)"
  have d: "map (\<lambda>d. (d_dlpStatus d, d_classification d)) (documents ?s) = [(''DETECTED'', CONFIDENTIAL)]"
    "list_all dlp_labelled (documents ?s)" by code_simp+
  have t: "map (\<lambda>d. (d_dlpStatus d, d_classification d)) (documents ?t) = [(''DETECTED'', CONFIDENTIAL)]"
    by code_simp
  have "vault_step submitted_vault ?s" by (rule vault_step.version)
  then have r: "reachable ?s" using submitted_reachable unfolding reachable_def
    by (meson rtranclp.rtrancl_into_rtrancl)
  have "list_all dlp_labelled (documents ?t)"
    using dlp_label_kept [OF r vault_step.update d(2), of 2700 "''n1''" "\<lparr> ud_title = None, ud_description = None,
      ud_classification = Some PUBLIC, ud_classificationOverrideReason = None, ud_tags = None \<rparr>" alice]
    t by (auto simp: list_all_iff dlp_labelled_def)
  with d show ?thesis by simp
qed

section \<open>The last administrator\<close>

lemma has_admin_same: "memberships t = memberships s \<Longrightarrow> has_admin t j = has_admin s j"
  by (simp add: has_admin_def)

lemma effect_members: "effect R i s t \<Longrightarrow> memberships t = memberships s"
  by (auto simp: effect_def rewrites_row_def same_tables_def only_logsD)

text \<open>
  C33: an organization keeps an administrator: neither a change of role nor a
  removal, by whomever and of whomever, leaves an organization without one.
\<close>

theorem last_admin_protected:
  assumes "org_inv s" "has_admin s j"
  shows "has_admin (snd (updateMemberRole now c target role s)) j
    \<and> has_admin (snd (removeMember now c target s)) j"
  using updateMemberRole_keeps_admin [OF assms] removeMember_keeps_admin [OF assms] by blast

theorem last_admin_protected_witness:
  "has_admin (snd (removeMember 5 (sample_context ''root'' [''admin'']) ''root'' sample_vault)) ''o1''"
proof -
  have "has_admin sample_vault ''o1''"
    by (auto simp: has_admin_def sample_defs)
  from last_admin_protected [OF sample_org_inv this] show ?thesis by blast
qed

text \<open>
  adding a member is the way around that guard: adding the only
  administrator of an organization again, as a member, demotes him.
\<close>

theorem add_member_demotes_last_admin:
  "\<exists>s c. org_inv s \<and> has_admin s ''o1'' \<and> c_actorId c = ''root'' \<and> c_roles c = [''admin'']
     \<and> succeeds (addMember 5 c ''root'' MEMBER s)
     \<and> \<not> has_admin (snd (addMember 5 c ''root'' MEMBER s)) ''o1''
     \<and> \<not> succeeds (updateMemberRole 5 c ''root'' MEMBER s)"
proof -
  let ?c = "sample_context ''root'' [''admin'']"
  have adm: "has_admin sample_vault ''o1''" by (auto simp: has_admin_def sample_defs)
  have "list_all (\<lambda>m. \<not> (m_organizationId m = ''o1'' \<and> m_role m = ADMIN))
      (memberships (snd (addMember 5 ?c ''root'' MEMBER sample_vault)))" by code_simp
  then have gone: "\<not> has_admin (snd (addMember 5 ?c ''root'' MEMBER sample_vault)) ''o1''"
    by (auto simp: has_admin_def list_all_iff)
  have "succeeds (addMember 5 ?c ''root'' MEMBER sample_vault)"
    "\<not> succeeds (updateMemberRole 5 ?c ''root'' MEMBER sample_vault)" by code_simp+
  with adm gone sample_org_inv show ?thesis
    by (intro exI [of _ sample_vault] exI [of _ ?c]) (simp add: sample_context_def)
qed

section \<open>Share links\<close>

text \<open>
  redeeming and using a share link agree: a non-blank token of a link to the
  document opens it in the policy exactly while the link shows as active, and
  with the link's permission.
\<close>

theorem share_grant_iff_active:
  assumes "trim token \<noteq> []" "find_row sl_tokenHash (sha256_hex cr token) (shareLinks s) = Some l"
    and "sl_docId l = i"
  shows "resolveShareGrant cr now i (Some token) s =
    (if computeStatus now l = SL_ACTIVE then Some (sl_permission l) else None)"
  using assms by (auto simp: resolveShareGrant_def computeStatus_def split: option.splits)

theorem share_grant_iff_active_witness:
  "resolveShareGrant (sample_crypto JNull) 1000 ''d1'' (Some ''token'') sample_vault = Some SHARE_DOWNLOAD
   \<and> computeStatus 1000 sample_link = SL_ACTIVE"
proof -
  have "find_row sl_tokenHash (sha256_hex (sample_crypto JNull) ''token'') (shareLinks sample_vault) = Some sample_link"
    "trim ''token'' \<noteq> []" "computeStatus 1000 sample_link = SL_ACTIVE" "sl_docId sample_link = ''d1''"
    "sl_permission sample_link = SHARE_DOWNLOAD" by code_simp+
  then show ?thesis using share_grant_iff_active [of "''token''" "sample_crypto JNull" sample_vault sample_link "''d1''" 1000]
    by simp
qed

definition links_capped :: "vault \<Rightarrow> bool" where
  "links_capped s =
     ((\<forall>l \<in> set (shareLinks s). 0 \<le> sl_accessCount l
         \<and> (\<forall>k. sl_maxAccessCount l = Some k \<longrightarrow> sl_accessCount l \<le> max 0 k))
      \<and> distinct (map sl_id (shareLinks s)))"

lemma links_capped_same: "links_capped s \<Longrightarrow> shareLinks t = shareLinks s \<Longrightarrow> links_capped t"
  by (simp add: links_capped_def)

lemma capped_append:
  "links_capped s \<Longrightarrow> find_row sl_id (sl_id l) (shareLinks s) = None \<Longrightarrow> sl_accessCount l = 0 \<Longrightarrow>
   shareLinks t = shareLinks s @ [l] \<Longrightarrow> links_capped t"
  by (auto simp: links_capped_def find_row_None)

lemma capped_update:
  assumes ok: "links_capped s" and links: "shareLinks t = update_row sl_id i f (shareLinks s)"
    and f: "\<And>l. sl_id (f l) = sl_id l" "\<And>l. sl_maxAccessCount (f l) = sl_maxAccessCount l"
    and cnt: "\<And>l. l \<in> set (shareLinks s) \<Longrightarrow> sl_id l = i \<Longrightarrow> 0 \<le> sl_accessCount (f l)
      \<and> (\<forall>k. sl_maxAccessCount l = Some k \<longrightarrow> sl_accessCount (f l) \<le> max 0 k)"
  shows "links_capped t"
proof -
  have "map sl_id (shareLinks t) = map sl_id (shareLinks s)" unfolding links by (rule map_key_update_row) (rule f)
  moreover have "\<forall>l \<in> set (shareLinks t). 0 \<le> sl_accessCount l
      \<and> (\<forall>k. sl_maxAccessCount l = Some k \<longrightarrow> sl_accessCount l \<le> max 0 k)"
    unfolding links set_update_row using ok cnt f(2) by (auto simp: links_capped_def)
  ultimately show ?thesis using ok by (simp add: links_capped_def)
qed

lemma capped_guard:
  assumes "links_capped s" "only_logs s (snd m)"
    "\<And>a t. m = (Inr a, t) \<Longrightarrow> only_logs s t \<Longrightarrow> links_capped t \<Longrightarrow> links_capped (snd (g a t))"
  shows "links_capped (snd (andThen m g))"
proof (cases m)
  case (Pair r t)
  then have "only_logs s t" using assms(2) by simp
  moreover from this have "links_capped t" using assms(1) links_capped_same only_logsD(6) by blast
  ultimately show ?thesis using assms(3) Pair by (cases r) auto
qed

lemma capped_emit [simp]: "links_capped (emitEvent now c e s) = links_capped s"
  by (simp add: links_capped_def)

lemma capped_new:
  "links_capped s \<Longrightarrow> find_row sl_id (sl_id l) (shareLinks s) = None \<Longrightarrow> sl_accessCount l = 0 \<Longrightarrow>
   links_capped (s\<lparr>shareLinks := shareLinks s @ [l]\<rparr>)"
  by (rule capped_append [of s l]) simp_all

lemma capped_revoked:
  "links_capped s \<Longrightarrow> links_capped (s\<lparr>shareLinks := update_row sl_id i
     (\<lambda>l. l\<lparr>sl_revokedAt := a, sl_revokedBy := b\<rparr>) (shareLinks s)\<rparr>)"
  by (rule capped_update [of s _ i "\<lambda>l. l\<lparr>sl_revokedAt := a, sl_revokedBy := b\<rparr>"])
    (auto simp: links_capped_def)

lemma only_logs_assertCanManageShares: "only_logs s (snd (assertCanManageShares own c s))"
  by simp

lemma links_capped_create: "links_capped s \<Longrightarrow> links_capped (snd (createShareLink cr now n tok i dto c s))"
  unfolding createShareLink_def
  by (cases "cs_expiresInHours dto < 1 \<or> MAX_EXPIRY_HOURS < cs_expiresInHours dto")
    (auto simp: Let_def intro!: capped_guard [OF _ only_logs_findInOrgOrThrow]
      capped_guard [OF _ only_logs_assertCanManageShares] capped_new)

lemma links_capped_revoke: "links_capped s \<Longrightarrow> links_capped (snd (revokeShareLink now i l c s))"
  unfolding revokeShareLink_def
  by (rule capped_guard [OF _ only_logs_findInOrgOrThrow], assumption,
      rule capped_guard [OF _ only_logs_assertCanManageShares], assumption)
    (auto simp: Let_def split: option.splits intro: capped_revoked)

lemma active_below: "computeStatus now l = SL_ACTIVE \<Longrightarrow> sl_maxAccessCount l = Some k \<Longrightarrow> sl_accessCount l < k"
  by (auto simp: computeStatus_def split: if_splits)

lemma links_capped_redeem:
  assumes ok: "links_capped s"
  shows "links_capped (snd (redeemShareLink cr now tok c s))"
proof -
  let ?f = "\<lambda>l. l\<lparr> sl_accessCount := sl_accessCount l + 1, sl_lastAccessedAt := Some now \<rparr>"
  have "shareLinks (snd (redeemShareLink cr now tok c s)) = shareLinks s
    \<or> (\<exists>l \<in> set (shareLinks s). computeStatus now l = SL_ACTIVE
         \<and> shareLinks (snd (redeemShareLink cr now tok c s)) = update_row sl_id (sl_id l) ?f (shareLinks s))"
    by (auto simp: redeemShareLink_def Let_def split: option.splits dest: find_row_SomeD)
  then show ?thesis
  proof
    assume "\<exists>l \<in> set (shareLinks s). computeStatus now l = SL_ACTIVE
         \<and> shareLinks (snd (redeemShareLink cr now tok c s)) = update_row sl_id (sl_id l) ?f (shareLinks s)"
    then obtain l where l: "l \<in> set (shareLinks s)" "computeStatus now l = SL_ACTIVE"
      "shareLinks (snd (redeemShareLink cr now tok c s)) = update_row sl_id (sl_id l) ?f (shareLinks s)" by blast
    have same: "x = l" if "x \<in> set (shareLinks s)" "sl_id x = sl_id l" for x
      using ok l(1) that by (auto simp: links_capped_def distinct_map dest: inj_onD)
    show ?thesis
    proof (rule capped_update [OF ok l(3)])
      fix x assume "x \<in> set (shareLinks s)" "sl_id x = sl_id l"
      then have "x = l" by (rule same)
      then show "0 \<le> sl_accessCount (?f x) \<and> (\<forall>k. sl_maxAccessCount x = Some k \<longrightarrow> sl_accessCount (?f x) \<le> max 0 k)"
        using ok l(1) active_below [OF l(2)] by (fastforce simp: links_capped_def)
    qed simp_all
  qed (use ok in \<open>auto intro: links_capped_same\<close>)
qed

section \<open>Handlers that leave the share links alone\<close>

lemma effect_links: "effect R i s t \<Longrightarrow> shareLinks t = shareLinks s"
  by (auto simp: effect_def rewrites_row_def same_tables_def only_logsD)

lemma retention_links [frame]: "shareLinks (snd (runRetention now who s)) = shareLinks s"
proof -
  have one: "shareLinks (snd (snd (retainOne now w d acc))) = shareLinks (snd (snd acc))" for w d acc
    using effect_links [OF archiveDocument_effect [of now d "snd (snd acc)" w]]
    by (auto simp: retainOne_def Let_def split: prod.splits sum.splits)
  have "shareLinks (snd (snd (fold (retainOne now w) ds acc))) = shareLinks (snd (snd acc))" for w ds acc
    by (induction ds arbitrary: acc) (simp_all add: one)
  from this [of "coalesce who ''system:cron''" "filter retentionCandidate (documents s)" "(0, 0, s)"]
  show ?thesis by (auto simp: runRetention_def Let_def split: prod.splits)
qed

lemma purge_links: "links_capped s \<Longrightarrow> links_capped (snd (purgeExpiredTrash now s))"
proof -
  assume ok: "links_capped s"
  have one: "links_capped (snd (snd acc)) \<Longrightarrow> links_capped (snd (snd (purgeOne now d acc)))" for d acc
    by (auto simp: purgeOne_def prismaDeleteDocument_def links_capped_def return_def throw_def distinct_map_filter
        split: prod.splits sum.splits if_splits)
  have "links_capped (snd (snd acc)) \<Longrightarrow> links_capped (snd (snd (fold (purgeOne now) ds acc)))" for ds acc
    by (induction ds arbitrary: acc) (simp_all add: one)
  from this [of "(0, 0, s)" "filter (expiredTrash now) (documents s)"] ok show ?thesis
    by (auto simp: purgeExpiredTrash_def Let_def split: prod.splits)
qed

lemma version_commit_links:
  assumes "\<And>a b s. only_logs s (snd (k a b s))"
  shows "shareLinks (snd (andThen (prismaCreateVersion v t)
    (\<lambda>created s. andThen (prismaUpdateDocument now i g s) (\<lambda>u s. k created u s)))) = shareLinks t"
  using only_logsD(6) [OF assms]
  by (auto simp: prismaCreateVersion_def prismaUpdateDocument_def split: option.splits)

lemma version_links [frame]:
  "shareLinks (snd (createVersion now i dto u c s)) = shareLinks s"
  "shareLinks (snd (restoreVersion now i n u c s)) = shareLinks s"
  unfolding createVersion_def restoreVersion_def
  by (rule keeps_scoped, simp, rule keeps_guard, simp, simp,
      auto simp: Let_def version_commit_links notifyVersionUploaded_logs split: option.splits)+

lemma acl_links [frame]:
  "shareLinks (snd (upsertAcl now n i dto u c s)) = shareLinks s"
  "shareLinks (snd (deleteAcl now i aid u c s)) = shareLinks s"
  unfolding upsertAcl_def deleteAcl_def
  by (rule keeps_scoped, simp, rule keeps_guard, simp_all add: Let_def split: option.splits)+

lemma comment_links [frame]:
  "shareLinks (snd (createComment now n i txt u c s)) = shareLinks s"
  "shareLinks (snd (updateComment now i k txt u c s)) = shareLinks s"
  "shareLinks (snd (deleteComment now i k u c s)) = shareLinks s"
  unfolding updateComment_def deleteComment_def Let_def
  by (auto simp: createComment_def Let_def intro!: keeps_guard [where f = shareLinks])

lemma create_links [frame]: "shareLinks (snd (createDocument now i cdto c s)) = shareLinks s"
  by (auto simp: createDocument_def andThen_snd Let_def split: sum.splits)

lemma member_links [frame]:
  "shareLinks (snd (addMember now c u r s)) = shareLinks s"
  "shareLinks (snd (updateMemberRole now c u r s)) = shareLinks s"
  "shareLinks (snd (removeMember now c u s)) = shareLinks s"
proof -
  have "shareLinks (snd (dropOrphanOrgs tgt ms s)) = shareLinks s" for tgt ms s
    by (induction tgt ms s rule: dropOrphanOrgs.induct)
      (auto simp: Let_def deleteOrganization_def split: option.splits)
  then show "shareLinks (snd (addMember now c u r s)) = shareLinks s"
    by (auto simp: addMember_def addMemberIn_def updateMembershipRole_def createMembership_def
        invalidate_def Let_def andThen_snd split: option.splits sum.splits if_splits)
  show "shareLinks (snd (updateMemberRole now c u r s)) = shareLinks s"
    by (auto simp: updateMemberRole_def updateMembershipRole_def invalidate_def andThen_snd
        split: option.splits sum.splits)
  show "shareLinks (snd (removeMember now c u s)) = shareLinks s"
    by (auto simp: removeMember_def invalidate_def andThen_snd split: option.splits sum.splits)
qed

lemma step_capped:
  assumes "vault_step s t" "links_capped s" "vault_ok s"
  shows "links_capped t"
proof -
  have dist: "distinct (map d_id (documents s))" using assms(3) by (rule vault_ok_distinct)
  from assms(1) show ?thesis
    by cases (use assms(2) in \<open>auto intro: links_capped_create links_capped_revoke links_capped_redeem purge_links
        intro: links_capped_same simp: retention_links version_links acl_links comment_links create_links
        member_links only_logsD effect_links [OF updateDocument_effect [OF dist]]
        effect_links [OF updateStatus_effect [OF dist]] effect_links [OF setLegalHold_effect [OF dist]]
        effect_links [OF restoreFromTrash_effect [OF dist]] effect_links [OF setApprovalChain_effect [OF dist]]
        effect_links [OF advanceApprovalStep_effect [OF dist]]\<close>)
qed

text \<open>
  the access limit of a share link holds. In every vault reached by handler
  calls from one without documents and links, no link has been redeemed more
  often than its limit allows.
\<close>

theorem share_accesses_bounded:
  assumes "vault_step\<^sup>*\<^sup>* s0 s" "documents s0 = []" "versions s0 = []" "shareLinks s0 = []" "org_inv s0"
    and "l \<in> set (shareLinks s)" "sl_maxAccessCount l = Some k" "1 \<le> k"
  shows "0 \<le> sl_accessCount l \<and> sl_accessCount l \<le> k"
proof -
  have "vault_ok s0" "links_capped s0"
    using assms(2-5) by (simp_all add: vault_ok_def versions_ok_def links_capped_def)
  from assms(1) this have "vault_ok s \<and> links_capped s"
    by (induction rule: rtranclp_induct) (auto intro: vault_step_ok step_capped)
  then show ?thesis using assms(6-) by (fastforce simp: links_capped_def)
qed

definition linked_vault :: vault where
  "linked_vault = snd (createShareLink (sample_crypto JNull) 1500 ''l1'' ''token'' ''n1''
     \<lparr> cs_permission = None, cs_expiresInHours = 1, cs_maxAccessCount = Some 1 \<rparr> alice
     (snd (createDocument 1000 ''n1'' draft_dto alice start_vault)))"

definition redeemed_vault :: vault where
  "redeemed_vault = snd (redeemShareLink (sample_crypto JNull) 1600 ''token'' (sample_context ''bob'' [''viewer'']) linked_vault)"

theorem share_accesses_bounded_witness:
  "map sl_accessCount (shareLinks redeemed_vault) = [1]
   \<and> list_all (\<lambda>l. sl_accessCount l \<le> 1) (shareLinks (snd (redeemShareLink (sample_crypto JNull) 1700 ''token''
        (sample_context ''bob'' [''viewer'']) redeemed_vault)))"
proof -
  let ?v = "snd (createDocument 1000 ''n1'' draft_dto alice start_vault)"
  let ?t = "snd (redeemShareLink (sample_crypto JNull) 1700 ''token'' (sample_context ''bob'' [''viewer'']) redeemed_vault)"
  have "vault_step start_vault ?v" by (rule vault_step.create)
  moreover have "vault_step ?v linked_vault" unfolding linked_vault_def by (rule vault_step.share)
  moreover have "vault_step linked_vault redeemed_vault" unfolding redeemed_vault_def by (rule vault_step.share_redeem)
  moreover have "vault_step redeemed_vault ?t" by (rule vault_step.share_redeem)
  ultimately have run: "vault_step\<^sup>*\<^sup>* start_vault ?t" by (meson rtranclp.rtrancl_into_rtrancl rtranclp.rtrancl_refl)
  have start: "documents start_vault = []" "versions start_vault = []" "shareLinks start_vault = []"
    by code_simp+
  have l: "map sl_accessCount (shareLinks redeemed_vault) = [1]"
    "list_all (\<lambda>l. sl_maxAccessCount l = Some 1) (shareLinks ?t)" by code_simp+
  then show ?thesis using share_accesses_bounded [OF run start start_org_inv, of _ 1]
    by (auto simp: list_all_iff)
qed

lemma find_row_update_key:
  "(\<And>r. key' (f r) = key' r) \<Longrightarrow>
   find_row key' j (update_row key k f rows) = map_option (\<lambda>r. if key r = k then f r else r) (find_row key' j rows)"
  by (induction rows) auto

text \<open>
  the last redeem of a limited link is void. Redeeming a link that has one
  access left succeeds, but the token then opens the document no more: neither
  the metadata, preview and download checks nor another redeem accept it, at any
  later time.
\<close>

theorem last_redeem_is_void:
  assumes "redeemShareLink cr now tok c s = (Inr r, t)"
    and "find_row sl_tokenHash (sha256_hex cr tok) (shareLinks s) = Some l"
    and "sl_maxAccessCount l = Some (sl_accessCount l + 1)"
  shows "resolveShareGrant cr later (rd_docId r) (Some tok) t = None
    \<and> \<not> succeeds (redeemShareLink cr later tok c' t)"
proof -
  let ?f = "\<lambda>l. l\<lparr> sl_accessCount := sl_accessCount l + 1, sl_lastAccessedAt := Some now \<rparr>"
  have "shareLinks t = update_row sl_id (sl_id l) ?f (shareLinks s)"
    using assms(1,2) by (auto simp: redeemShareLink_def Let_def split: option.splits if_splits)
  then have l: "find_row sl_tokenHash (sha256_hex cr tok) (shareLinks t) = Some (?f l)"
    using assms(2) by (simp add: find_row_update_key)
  then have "computeStatus later (?f l) \<noteq> SL_ACTIVE" using assms(3) by (simp add: computeStatus_def)
  then show ?thesis using l assms(3)
    by (auto simp: redeemShareLink_def resolveShareGrant_def Let_def)
qed

theorem last_redeem_is_void_witness:
  "succeeds (redeemShareLink (sample_crypto JNull) 1600 ''token'' (sample_context ''bob'' [''viewer'']) linked_vault)
   \<and> resolveShareGrant (sample_crypto JNull) 1601 ''n1'' (Some ''token'') redeemed_vault = None"
proof -
  let ?m = "redeemShareLink (sample_crypto JNull) 1600 ''token'' (sample_context ''bob'' [''viewer'']) linked_vault"
  have ok: "succeeds ?m" "map_option rd_docId (case fst ?m of Inl _ \<Rightarrow> None | Inr r \<Rightarrow> Some r) = Some ''n1''"
    by code_simp+
  then obtain r where r: "?m = (Inr r, redeemed_vault)" "rd_docId r = ''n1''"
    by (cases ?m) (auto simp: redeemed_vault_def split: sum.splits)
  have "list_all (\<lambda>l. sl_tokenHash l = sha256_hex (sample_crypto JNull) ''token''
      \<and> sl_maxAccessCount l = Some (sl_accessCount l + 1)) (shareLinks linked_vault)"
    "shareLinks linked_vault \<noteq> []" by code_simp+
  then obtain l where "find_row sl_tokenHash (sha256_hex (sample_crypto JNull) ''token'') (shareLinks linked_vault) = Some l"
    "sl_maxAccessCount l = Some (sl_accessCount l + 1)" by (cases "shareLinks linked_vault") auto
  from last_redeem_is_void [OF r(1) this] ok(1) r(2) show ?thesis by simp
qed

section \<open>Comments\<close>

text \<open>
  a comment belongs to its author. Only the author can change it, only the
  author or an administrator can delete it, and a refused attempt leaves every
  comment as it was and is audited once, as a DENY naming the caller.
\<close>

theorem comment_authority:
  assumes "find (\<lambda>x. cm_id x = k \<and> cm_docId x = i) (comments s) = Some cm" "audit_on s"
  shows "(succeeds (updateComment now i k txt u c s) \<longleftrightarrow> buildActorId u = cm_authorId cm)
    \<and> (succeeds (deleteComment now i k u c s) \<longleftrightarrow>
         buildActorId u = cm_authorId cm \<or> ''admin'' \<in> set (coalesce (u_roles u) []))
    \<and> (buildActorId u \<noteq> cm_authorId cm \<longrightarrow> comments (snd (updateComment now i k txt u c s)) = comments s
         \<and> (\<exists>p. auditPosts (snd (updateComment now i k txt u c s)) = auditPosts s @ [p]
              \<and> po_actorId p = c_actorId c \<and> ap_result (po_event p) = ''DENY''))"
  using assms
  by (auto simp: updateComment_def deleteComment_def findCommentForDocument_def Let_def emitEvent_def audit_on_def)

theorem comment_authority_witness:
  "\<not> succeeds (updateComment 9 ''d1'' ''c1'' ''x'' (sample_user ''bob'' [''viewer'']) (sample_context ''bob'' [''viewer''])
     (sample_vault\<lparr>comments := [\<lparr> cm_id = ''c1'', cm_docId = ''d1'', cm_authorId = ''alice'',
        cm_authorRoles = [''editor''], cm_content = ''hi'', cm_createdAt = 1, cm_updatedAt = 1 \<rparr>]\<rparr>))"
proof -
  let ?cm = "\<lparr> cm_id = ''c1'', cm_docId = ''d1'', cm_authorId = ''alice'',
        cm_authorRoles = [''editor''], cm_content = ''hi'', cm_createdAt = 1, cm_updatedAt = 1 \<rparr>"
  have "find (\<lambda>x. cm_id x = ''c1'' \<and> cm_docId x = ''d1'') (comments (sample_vault\<lparr>comments := [?cm]\<rparr>)) = Some ?cm"
    "audit_on (sample_vault\<lparr>comments := [?cm]\<rparr>)" by code_simp+
  from comment_authority [OF this, of 9 "''x''" "sample_user ''bob'' [''viewer'']"]
  show ?thesis by (simp add: sample_user_def buildActorId_def)
qed

lemma mention_tokens_chars: "list_all (list_all user_char) (mention_tokens b cs)"
proof (induction b cs rule: mention_tokens.induct)
  case (1 start cs)
  have tw: "list_all user_char (takeWhile user_char xs)" for xs
    by (auto simp: list_all_iff dest: set_takeWhileD)
  show ?case
    by (subst mention_tokens.simps) (use 1 tw in \<open>auto split: list.splits\<close>)
qed

lemma strip_trailing_ok:
  "list_all user_char w \<Longrightarrow> list_all user_char (strip_trailing w)"
  "strip_trailing w \<noteq> [] \<Longrightarrow> last (strip_trailing w) \<notin> set ''.-_''"
proof -
  show "list_all user_char w \<Longrightarrow> list_all user_char (strip_trailing w)"
    by (auto simp: strip_trailing_def list_all_iff dest: set_dropWhileD)
  show "strip_trailing w \<noteq> [] \<Longrightarrow> last (strip_trailing w) \<notin> set ''.-_''"
    using hd_dropWhile [of "\<lambda>c. c \<in> set ''.-_''" "rev w"]
    by (auto simp: strip_trailing_def last_rev)
qed

text \<open>
  C37: whatever a comment says, the users it mentions form a list without
  duplicates of non-empty names over the characters of user names that do not
  end in a dot, dash or underscore.
\<close>

theorem mentions_well_formed:
  "distinct (parseMentions content)
   \<and> list_all (\<lambda>w. w \<noteq> [] \<and> list_all user_char w \<and> last w \<notin> set ''.-_'') (parseMentions content)"
  using mention_tokens_chars [of True content] strip_trailing_ok
  by (auto simp: parseMentions_def list_all_iff truthy_def)

section \<open>What a legal hold and an approval do not cover\<close>

definition held_vault :: vault where
  "held_vault =
     snd (updateStatus 2000 ''n1'' \<lparr> us_status = DELETED, us_action = DELETE, us_reason = None \<rparr>
       (sample_user ''alice'' [''editor'']) alice
     (snd (setLegalHold 1500 ''n1'' \<lparr> lh_hold = True, lh_reason = Some ''case 7'' \<rparr>
       (sample_context ''root'' [''admin''])
     (snd (createDocument 1000 ''n1'' draft_dto alice start_vault)))))"

text \<open>
  a legal hold stops only the retention job. A document on hold can be
  deleted by its owner, and the trash purge then destroys it, hold and all.
\<close>

theorem purge_destroys_held_document:
  "\<exists>s d. reachable s \<and> documents s = [d] \<and> d_legalHold d \<and> d_status d = DELETED
     \<and> documents (snd (purgeExpiredTrash (2000 + 30 * DAY_MS + 1) s)) = []"
proof -
  let ?a = "snd (createDocument 1000 ''n1'' draft_dto alice start_vault)"
  let ?b = "snd (setLegalHold 1500 ''n1'' \<lparr> lh_hold = True, lh_reason = Some ''case 7'' \<rparr>
       (sample_context ''root'' [''admin'']) ?a)"
  have "vault_step start_vault ?a" by (rule vault_step.create)
  moreover have "vault_step ?a ?b" by (rule vault_step.hold)
  moreover have "vault_step ?b held_vault" unfolding held_vault_def by (rule vault_step.status)
  ultimately have "vault_step\<^sup>*\<^sup>* start_vault held_vault"
    by (meson rtranclp.rtrancl_into_rtrancl rtranclp.rtrancl_refl)
  moreover have "documents start_vault = []" "versions start_vault = []" by code_simp+
  ultimately have r: "reachable held_vault" using start_org_inv unfolding reachable_def by blast
  have d: "d_legalHold (hd (documents held_vault))" "d_status (hd (documents held_vault)) = DELETED"
    "documents held_vault = [hd (documents held_vault)]"
    "documents (snd (purgeExpiredTrash (2000 + 30 * DAY_MS + 1) held_vault)) = []" by code_simp+
  show ?thesis
    by (rule exI [of _ held_vault], rule exI [of _ "hd (documents held_vault)"], intro conjI r d)
qed

text \<open>
  an approval covers no version. After a document is published, its owner
  can upload another version; the document stays published, and the new file is
  what a viewer then downloads, though nobody approved it.
\<close>

theorem new_version_needs_no_approval:
  "\<exists>s t. reachable s \<and> t = snd (createVersion 4000 ''n1'' (detected_dto\<lparr> cv_dlpStatus := Some ''CLEAR'' \<rparr>)
        (sample_user ''alice'' [''editor'']) alice s)
     \<and> map d_status (documents s) = [PUBLISHED] \<and> map d_status (documents t) = [PUBLISHED]
     \<and> history t = history s
     \<and> (case fst (authorizeDownload (sample_crypto JNull) 5000 ''n1'' None
          (sample_user ''bob'' [''editor'']) (sample_context ''bob'' [''editor'']) None t) of
          Inl _ \<Rightarrow> False | Inr g \<Rightarrow> g_objectKey g = ''doc/n1/v1/plan.txt'')"
proof -
  let ?t = "snd (createVersion 4000 ''n1'' (detected_dto\<lparr> cv_dlpStatus := Some ''CLEAR'' \<rparr>)
        (sample_user ''alice'' [''editor'']) alice published_vault)"
  have "vault_step submitted_vault published_vault" unfolding published_vault_def by (rule vault_step.status)
  then have r: "reachable published_vault" using submitted_reachable unfolding reachable_def
    by (meson rtranclp.rtrancl_into_rtrancl)
  have h: "history ?t = history published_vault" by (rule version_history)
  have e: "map d_status (documents published_vault) = [PUBLISHED]" "map d_status (documents ?t) = [PUBLISHED]"
    "case fst (authorizeDownload (sample_crypto JNull) 5000 ''n1'' None
          (sample_user ''bob'' [''editor'']) (sample_context ''bob'' [''editor'']) None ?t) of
          Inl _ \<Rightarrow> False | Inr g \<Rightarrow> g_objectKey g = ''doc/n1/v1/plan.txt''" by code_simp+
  show ?thesis by (rule exI [of _ published_vault], rule exI [of _ ?t], intro conjI r h e refl)
qed

end
