(* ===== verification/Audit_Events.thy ===== *)
theory Audit_Events
  imports Prelude Store "HOL-Library.List_Lexorder" "HOL-Library.Char_ord"
begin

text \<open>
  The audit service (\<open>src/services/audit-service/src\<close>): its three collections, the
  canonical text of an event, its hash and its signature
  (\<open>audit.service.ts\<close>, \<open>mongo/*.schema.ts\<close>). SHA-256 and HMAC are those of the
  \<open>crypto\<close> module of Node and are parameters of the model.
\<close>

section \<open>Dates as text\<close>

text \<open>
  \<open>Date.prototype.toISOString\<close> for a time in milliseconds since the epoch, in the
  proleptic Gregorian calendar.
\<close>

definition pad :: "nat \<Rightarrow> string \<Rightarrow> string" where
  "pad n cs = replicate (n - length cs) CHR ''0'' @ cs"

definition civilFromDays :: "int \<Rightarrow> int \<times> int \<times> int" where
  "civilFromDays days =
     (let z = days + 719468;
          era = z div 146097;
          doe = z mod 146097;
          yoe = (doe - doe div 1460 + doe div 36524 - doe div 146096) div 365;
          doy = doe - (365 * yoe + yoe div 4 - yoe div 100);
          mp = (5 * doy + 2) div 153;
          d = doy - (153 * mp + 2) div 5 + 1;
          m = (if mp < 10 then mp + 3 else mp - 9)
       in (yoe + era * 400 + (if m \<le> 2 then 1 else 0), m, d))"

definition isoYear :: "int \<Rightarrow> string" where
  "isoYear y =
     (if 0 \<le> y \<and> y \<le> 9999 then pad 4 (show_nat (nat y))
      else (if y < 0 then ''-'' else ''+'') @ pad 6 (show_nat (nat \<bar>y\<bar>)))"

definition toISOString :: "int \<Rightarrow> string" where
  "toISOString t =
     (let (y, m, d) = civilFromDays (t div 86400000);
          ms = t mod 86400000;
          two = (\<lambda>n. pad 2 (show_nat (nat n)))
       in isoYear y @ ''-'' @ two m @ ''-'' @ two d @ ''T''
          @ two (ms div 3600000) @ '':'' @ two (ms div 60000 mod 60) @ '':''
          @ two (ms div 1000 mod 60) @ ''.'' @ pad 3 (show_nat (nat (ms mod 1000))) @ ''Z'')"

lemma toISOString_examples:
  "toISOString 0 = ''1970-01-01T00:00:00.000Z''"
  "toISOString 1780531200123 = ''2026-06-04T00:00:00.123Z''"
  "toISOString (- 1) = ''1969-12-31T23:59:59.999Z''"
  by code_simp+

section \<open>JSON text\<close>

text \<open>
  \<open>JSON.stringify\<close> on the values the service stores. In an object the keys that are
  array indices come first, in numeric order, whatever order they were set in.
\<close>

definition hex_digit :: "nat \<Rightarrow> char" where
  "hex_digit n = (if n < 10 then char_of (48 + n) else char_of (87 + n))"

definition escape_char :: "char \<Rightarrow> string" where
  "escape_char c =
     (let n = of_char c :: nat; bs = char_of (92 :: nat) in
      if n = 34 \<or> n = 92 then [bs, c]
      else if n = 8 then [bs, CHR ''b'']
      else if n = 9 then [bs, CHR ''t'']
      else if n = 10 then [bs, CHR ''n'']
      else if n = 12 then [bs, CHR ''f'']
      else if n = 13 then [bs, CHR ''r'']
      else if n < 32 then [bs] @ ''u00'' @ [hex_digit (n div 16), hex_digit (n mod 16)]
      else [c])"

definition quote :: "string \<Rightarrow> string" where
  "quote cs = [char_of (34 :: nat)] @ concat (map escape_char cs) @ [char_of (34 :: nat)]"

fun stringify :: "json \<Rightarrow> string" where
  "stringify JNull = ''null''"
| "stringify (JBool b) = (if b then ''true'' else ''false'')"
| "stringify (JNum n) = show_int n"
| "stringify (JStr cs) = quote cs"
| "stringify (JDate t) = quote (toISOString t)"
| "stringify (JArr vs) = ''['' @ join_with '','' (map stringify vs) @ '']''"
| "stringify (JObj kvs) =
     ''{'' @ join_with '','' (map (\<lambda>kv. quote (fst kv) @ '':'' @ stringify (snd kv)) kvs) @ ''}''"

definition is_digit :: "char \<Rightarrow> bool" where
  "is_digit c = (let n = of_char c :: nat in 48 \<le> n \<and> n \<le> 57)"

definition numeral_of :: "string \<Rightarrow> nat" where
  "numeral_of cs = foldl (\<lambda>n c. 10 * n + (of_char c - 48)) 0 cs"

definition array_index :: "string \<Rightarrow> bool" where
  "array_index k =
     (k \<noteq> [] \<and> list_all is_digit k \<and> (hd k = CHR ''0'' \<longrightarrow> k = ''0'')
      \<and> length k \<le> 10 \<and> numeral_of k < 4294967295)"

definition own_order :: "(string \<times> 'a) list \<Rightarrow> (string \<times> 'a) list" where
  "own_order kvs =
     sort_key (\<lambda>kv. numeral_of (fst kv)) (filter (\<lambda>kv. array_index (fst kv)) kvs)
     @ filter (\<lambda>kv. \<not> array_index (fst kv)) kvs"

text \<open>
  \<open>sortMetadataValue\<close>: the entries of an object are set in the order of their keys;
  setting \<open>__proto__\<close> makes no entry.
\<close>

fun sortMetadataValue :: "json \<Rightarrow> json" where
  "sortMetadataValue (JArr vs) = JArr (map sortMetadataValue vs)"
| "sortMetadataValue (JObj kvs) =
     JObj (own_order (filter (\<lambda>kv. fst kv \<noteq> ''__proto__'')
       (sort_key fst (map (\<lambda>kv. (fst kv, sortMetadataValue (snd kv))) kvs))))"
| "sortMetadataValue v = v"

definition canonicalMetadata :: "fields option \<Rightarrow> string option" where
  "canonicalMetadata metadata =
     (case metadata of
        None \<Rightarrow> None
      | Some kvs \<Rightarrow> if kvs = [] then None else Some (stringify (sortMetadataValue (JObj kvs))))"

section \<open>Collections\<close>

text \<open>
  An \<open>epochId\<close> is absent from the events written before epochs existed. The
  object id \<open>e_oid\<close> is the tie-breaker of the sorts.
\<close>

record audit_event =
  e_oid :: nat
  e_epochId :: "string option"
  e_eventId :: string
  e_timestamp :: int
  e_actorId :: string
  e_actorRoles :: "string list"
  e_action :: string
  e_resourceType :: string
  e_resourceId :: "string option"
  e_result :: string
  e_reason :: "string option"
  e_ip :: "string option"
  e_traceId :: "string option"
  e_metadata :: "fields option"
  e_prevHash :: "string option"
  e_hash :: string
  e_signature :: "string option"
  e_signatureKid :: "string option"

datatype epoch_status = ACTIVE | SEALED | COMPROMISED

datatype genesis_reason = INITIAL | ROTATION | COMPROMISE_RECOVERY

record chain_epoch =
  ep_epochId :: string
  ep_status :: epoch_status
  ep_startedAt :: int
  ep_endedAt :: "int option"
  ep_genesisReason :: genesis_reason
  ep_previousEpochId :: "string option"
  ep_lastTrustedHash :: "string option"
  ep_firstBrokenIndex :: "nat option"
  ep_firstBrokenEventId :: "string option"
  ep_incidentId :: "string option"
  ep_createdBy :: string
  ep_reason :: string

datatype incident_status = INCIDENT_OPEN | ACKNOWLEDGED | INCIDENT_RESOLVED

datatype incident_resolution = RESTORED_FROM_TRUSTED_BACKUP | NEW_EPOCH_STARTED

record chain_incident =
  in_incidentId :: string
  in_detectedAt :: int
  in_detectedBy :: string
  in_affectedEpochId :: string
  in_firstBrokenIndex :: nat
  in_firstBrokenEventId :: "string option"
  in_lastTrustedHash :: "string option"
  in_verifyMessage :: string
  in_status :: incident_status
  in_resolution :: incident_resolution
  in_reason :: string

text \<open>
  The body of \<open>POST /audit/events\<close>. The time of an event is read with \<open>new Date\<close>,
  which gives an invalid date (\<open>Some None\<close>) on some strings the validator lets pass.
\<close>

record create_event_dto =
  ce_eventId :: "string option"
  ce_timestamp :: "int option option"
  ce_actorId :: string
  ce_actorRoles :: "string list"
  ce_action :: string
  ce_resourceType :: string
  ce_resourceId :: "string option"
  ce_result :: string
  ce_reason :: "string option"
  ce_ip :: "string option"
  ce_traceId :: "string option"
  ce_metadata :: "fields option"

record audit_crypto =
  sha256 :: "string \<Rightarrow> string"
  hmac_hex :: "string \<Rightarrow> string \<Rightarrow> string"

section \<open>The canonical payload\<close>

datatype canon_value = Missing | Text string | Items "string list"

definition text_opt :: "string option \<Rightarrow> canon_value" where
  "text_opt v = (case v of None \<Rightarrow> Missing | Some cs \<Rightarrow> Text cs)"

definition canon_entry :: "string \<times> canon_value \<Rightarrow> string" where
  "canon_entry kv =
     fst kv @ ''='' @ (case snd kv of Missing \<Rightarrow> '''' | Text cs \<Rightarrow> cs | Items xs \<Rightarrow> join_with '','' xs)"

definition buildCanonicalPayload :: "(string \<times> canon_value) list \<Rightarrow> string" where
  "buildCanonicalPayload kvs = join_with ''|'' (map canon_entry (sort_key fst kvs))"

definition canonicalFields :: "audit_event \<Rightarrow> (string \<times> canon_value) list" where
  "canonicalFields e =
     [(''eventId'', Text (e_eventId e)),
      (''timestamp'', Text (toISOString (e_timestamp e))),
      (''actorId'', Text (e_actorId e)),
      (''actorRoles'', Items (e_actorRoles e)),
      (''action'', Text (e_action e)),
      (''resourceType'', Text (e_resourceType e)),
      (''resourceId'', text_opt (e_resourceId e)),
      (''result'', Text (e_result e)),
      (''reason'', text_opt (e_reason e)),
      (''ip'', text_opt (e_ip e)),
      (''traceId'', text_opt (e_traceId e))]
     @ (case canonicalMetadata (e_metadata e) of None \<Rightarrow> [] | Some cs \<Rightarrow> [(''metadata'', Text cs)])"

definition canonicalPayload :: "audit_event \<Rightarrow> string" where
  "canonicalPayload e = buildCanonicalPayload (canonicalFields e)"

definition hash_input :: "string option \<Rightarrow> string \<Rightarrow> string" where
  "hash_input prevHash payload = coalesce prevHash '''' @ ''|'' @ payload"

definition computeHash :: "audit_crypto \<Rightarrow> string option \<Rightarrow> string \<Rightarrow> string" where
  "computeHash cr prevHash payload = sha256 cr (hash_input prevHash payload)"

section \<open>Signatures\<close>

definition configured_secret :: "string option \<Rightarrow> string option" where
  "configured_secret v = (case v of None \<Rightarrow> None | Some x \<Rightarrow> if trim x = [] then None else Some x)"

definition getSigningSecret_audit :: "(string \<rightharpoonup> string) \<Rightarrow> (string option \<times> string) option" where
  "getSigningSecret_audit vars =
     (let kid = map_option trim (vars ''AUDIT_SIGNING_KID'') in
      if truthy_opt kid then
        map_option (\<lambda>secret. (kid, secret)) (configured_secret (vars (''AUDIT_SIGNING_SECRET_'' @ the kid)))
      else map_option (\<lambda>secret. (None, secret)) (configured_secret (vars ''AUDIT_SIGNING_SECRET'')))"

definition getVerifySecret :: "(string \<rightharpoonup> string) \<Rightarrow> string option \<Rightarrow> string option" where
  "getVerifySecret vars kid =
     (if truthy_opt kid then configured_secret (vars (''AUDIT_SIGNING_SECRET_'' @ the kid))
      else configured_secret (vars ''AUDIT_SIGNING_SECRET''))"

definition signHash :: "audit_crypto \<Rightarrow> string \<Rightarrow> string \<Rightarrow> string" where
  "signHash cr hash secret = hmac_hex cr secret hash"

lemma verify_secret_signing:
  "getSigningSecret_audit vars = Some (kid, secret) \<Longrightarrow> getVerifySecret vars kid = Some secret"
  by (auto simp: getSigningSecret_audit_def getVerifySecret_def Let_def truthy_opt_def split: if_splits)

section \<open>What the canonical payload leaves out\<close>

text \<open>The payload in the order of its keys.\<close>

lemma sorted_fields:
  "sort_key fst (canonicalFields e) =
     [(''action'', Text (e_action e)), (''actorId'', Text (e_actorId e)),
      (''actorRoles'', Items (e_actorRoles e)), (''eventId'', Text (e_eventId e)),
      (''ip'', text_opt (e_ip e))]
     @ (case canonicalMetadata (e_metadata e) of None \<Rightarrow> [] | Some cs \<Rightarrow> [(''metadata'', Text cs)])
     @ [(''reason'', text_opt (e_reason e)), (''resourceId'', text_opt (e_resourceId e)),
        (''resourceType'', Text (e_resourceType e)), (''result'', Text (e_result e)),
        (''timestamp'', Text (toISOString (e_timestamp e))), (''traceId'', text_opt (e_traceId e))]"
  by (cases "canonicalMetadata (e_metadata e)") (simp_all add: canonicalFields_def char_of_def)

text \<open>For evaluation: the sorting of the fixed keys done once.\<close>

lemma canonicalPayload_code [code]:
  "canonicalPayload e = join_with ''|'' (map canon_entry (
     [(''action'', Text (e_action e)), (''actorId'', Text (e_actorId e)),
      (''actorRoles'', Items (e_actorRoles e)), (''eventId'', Text (e_eventId e)),
      (''ip'', text_opt (e_ip e))]
     @ (case canonicalMetadata (e_metadata e) of None \<Rightarrow> [] | Some cs \<Rightarrow> [(''metadata'', Text cs)])
     @ [(''reason'', text_opt (e_reason e)), (''resourceId'', text_opt (e_resourceId e)),
        (''resourceType'', Text (e_resourceType e)), (''result'', Text (e_result e)),
        (''timestamp'', Text (toISOString (e_timestamp e))), (''traceId'', text_opt (e_traceId e))]))"
  by (simp only: canonicalPayload_def buildCanonicalPayload_def sorted_fields)

lemma join_with_append:
  "xs \<noteq> [] \<Longrightarrow> ys \<noteq> [] \<Longrightarrow> join_with sep (xs @ ys) = join_with sep xs @ sep @ join_with sep ys"
  by (induction sep xs rule: join_with.induct) (auto simp: neq_Nil_conv)

end
