(* ===== verification/Audit_Service.thy ===== *)
theory Audit_Service
  imports Audit_Events
begin

text \<open>
  \<open>audit.service.ts\<close>, the hash chain: which epoch is active, the tail of its
  chain, appending an event, putting the events of an epoch in chain order,
  verifying them, and starting a new epoch when the chain is compromised. The
  unique index on \<open>(epochId, prevHash)\<close> is that of \<open>audit-event.schema.ts\<close>.
\<close>

section \<open>State\<close>

text \<open>
  The collections hold their rows in the order of insertion, which is also the
  order of the object ids. \<open>a_epochStorage\<close> says whether the two optional models
  were injected.
\<close>

record audit_store =
  a_events :: "audit_event list"
  a_epochs :: "chain_epoch list"
  a_incidents :: "chain_incident list"
  a_env :: "string \<rightharpoonup> string"
  a_epochStorage :: bool

definition MAX_CHAIN_APPEND_ATTEMPTS :: nat where
  "MAX_CHAIN_APPEND_ATTEMPTS = 25"

definition DEFAULT_EPOCH_ID :: string where
  "DEFAULT_EPOCH_ID = ''default''"

section \<open>Epochs\<close>

definition activeEpochs :: "audit_store \<Rightarrow> chain_epoch list" where
  "activeEpochs s =
     sort_key (\<lambda>ep. - ep_startedAt ep) (rev (filter (\<lambda>ep. ep_status ep = ACTIVE) (a_epochs s)))"

definition initialEpoch :: "int \<Rightarrow> chain_epoch" where
  "initialEpoch now = \<lparr>
     ep_epochId = DEFAULT_EPOCH_ID,
     ep_status = ACTIVE,
     ep_startedAt = now,
     ep_endedAt = None,
     ep_genesisReason = INITIAL,
     ep_previousEpochId = None,
     ep_lastTrustedHash = None,
     ep_firstBrokenIndex = None,
     ep_firstBrokenEventId = None,
     ep_incidentId = None,
     ep_createdBy = ''system'',
     ep_reason = ''Initial audit chain epoch'' \<rparr>"

text \<open>The id of an epoch is unique; losing that race means reading again.\<close>

definition getActiveEpochRecord :: "int \<Rightarrow> audit_store \<Rightarrow> (chain_epoch option, audit_store) outcome" where
  "getActiveEpochRecord now s =
     (if \<not> a_epochStorage s then return None s
      else
        let activeEpoch = head_option (activeEpochs s) in
        if truthy_opt (map_option ep_epochId activeEpoch) then return activeEpoch s
        else if find_row ep_epochId DEFAULT_EPOCH_ID (a_epochs s) \<noteq> None then return activeEpoch s
        else return (Some (initialEpoch now)) (s\<lparr>a_epochs := a_epochs s @ [initialEpoch now]\<rparr>))"

definition getActiveEpochId :: "int \<Rightarrow> audit_store \<Rightarrow> (string, audit_store) outcome" where
  "getActiveEpochId now s =
     andThen (getActiveEpochRecord now s) (\<lambda>activeEpoch.
     return (coalesce (map_option ep_epochId activeEpoch) DEFAULT_EPOCH_ID))"

definition epochEventFilter :: "string \<Rightarrow> audit_event \<Rightarrow> bool" where
  "epochEventFilter epochId e =
     (if epochId \<noteq> DEFAULT_EPOCH_ID then e_epochId e = Some epochId
      else e_epochId e = Some epochId \<or> e_epochId e = None)"

definition loadEpochEvents :: "string \<Rightarrow> audit_store \<Rightarrow> audit_event list" where
  "loadEpochEvents epochId s =
     sort_key e_timestamp (sort_key e_oid (filter (epochEventFilter epochId) (a_events s)))"

section \<open>Appending an event\<close>

definition ambiguousTail :: "nat \<Rightarrow> string \<Rightarrow> error" where
  "ambiguousTail n epochId =
     ServiceUnavailable (''Audit chain tail is ambiguous; found '' @ show_nat n
       @ '' candidate tails in epoch '' @ epochId @ ''.'')"

definition getCurrentChainTail :: "string \<Rightarrow> audit_store \<Rightarrow> (audit_event option, audit_store) outcome" where
  "getCurrentChainTail epochId s =
     (let events = loadEpochEvents epochId s in
      if events = [] then return None s
      else
        let tails = filter (\<lambda>e. Some (e_hash e) \<notin> set (map e_prevHash events)) events in
        (case tails of
           [tail] \<Rightarrow> return (Some tail) s
         | _ \<Rightarrow> throw (ambiguousTail (length tails) epochId) s))"

text \<open>
  An event whose canonical fields are computed, waiting for its place in the
  chain: its \<open>prevHash\<close>, \<open>hash\<close> and signature are set when it is linked.
\<close>

record pending_event =
  p_epochId :: string
  p_event :: audit_event
  p_signing :: "(string option \<times> string) option"

definition draftEvent :: "string \<Rightarrow> string \<Rightarrow> int \<Rightarrow> create_event_dto \<Rightarrow> audit_event" where
  "draftEvent epochId eventId time dto = \<lparr>
     e_oid = 0,
     e_epochId = Some epochId,
     e_eventId = eventId,
     e_timestamp = time,
     e_actorId = ce_actorId dto,
     e_actorRoles = ce_actorRoles dto,
     e_action = ce_action dto,
     e_resourceType = ce_resourceType dto,
     e_resourceId = ce_resourceId dto,
     e_result = ce_result dto,
     e_reason = ce_reason dto,
     e_ip = ce_ip dto,
     e_traceId = ce_traceId dto,
     e_metadata = ce_metadata dto,
     e_prevHash = None,
     e_hash = '''',
     e_signature = None,
     e_signatureKid = None \<rparr>"

definition prepareEvent ::
  "string \<Rightarrow> int \<Rightarrow> create_event_dto \<Rightarrow> audit_store \<Rightarrow> (pending_event, audit_store) outcome" where
  "prepareEvent uuid now dto s =
     andThen (getActiveEpochId now s) (\<lambda>epochId s.
       case coalesce (ce_timestamp dto) (Some now) of
         None \<Rightarrow> throw (JsError ''Invalid time value'') s
       | Some time \<Rightarrow> return \<lparr>
           p_epochId = epochId,
           p_event = draftEvent epochId (coalesce (ce_eventId dto) uuid) time dto,
           p_signing = getSigningSecret_audit (a_env s) \<rparr> s)"

definition linkEvent :: "audit_crypto \<Rightarrow> pending_event \<Rightarrow> string option \<Rightarrow> audit_event" where
  "linkEvent cr p prevHash =
     (let hash = computeHash cr prevHash (canonicalPayload (p_event p));
          signature = map_option (\<lambda>(_, secret). signHash cr hash secret) (p_signing p);
          e = (p_event p)\<lparr>e_prevHash := prevHash, e_hash := hash\<rparr>
      in if truthy_opt signature
         then e\<lparr>e_signature := signature, e_signatureKid := Option.bind (p_signing p) fst\<rparr>
         else e)"

text \<open>The validators of the schema, and its unique index.\<close>

definition schema_ok :: "audit_event \<Rightarrow> bool" where
  "schema_ok e =
     (e_eventId e \<noteq> [] \<and> e_actorId e \<noteq> []
      \<and> e_action e \<noteq> [] \<and> length (e_action e) \<le> 120
      \<and> e_resourceType e \<noteq> [] \<and> length (e_resourceType e) \<le> 120
      \<and> e_result e \<noteq> [] \<and> length (e_result e) \<le> 40 \<and> e_hash e \<noteq> [])"

text \<open>
  The schema declares \<open>metadata\<close> as a plain object and leaves the option \<open>minimize\<close> of
  Mongoose on, which is documented to remove empty objects when a document is saved:
  an entry of an object whose value is an empty object, or becomes one, is not
  stored. Elements of arrays stay. The hash is computed before, from the metadata as
  they came.
\<close>

fun minimizeJson :: "json \<Rightarrow> json" where
  "minimizeJson (JObj kvs) = JObj (filter (\<lambda>kv. snd kv \<noteq> JObj []) (map (\<lambda>kv. (fst kv, minimizeJson (snd kv))) kvs))"
| "minimizeJson (JArr vs) = JArr (map minimizeJson vs)"
| "minimizeJson v = v"

definition storedMetadata :: "fields option \<Rightarrow> fields option" where
  "storedMetadata metadata =
     (case metadata of
        None \<Rightarrow> None
      | Some kvs \<Rightarrow> (case minimizeJson (JObj kvs) of JObj (kv # rest) \<Rightarrow> Some (kv # rest) | _ \<Rightarrow> None))"

definition storedEvent :: "nat \<Rightarrow> audit_event \<Rightarrow> audit_event" where
  "storedEvent n e = e\<lparr>e_oid := n, e_metadata := storedMetadata (e_metadata e)\<rparr>"

datatype insert_result = Inserted audit_event | DuplicatePrevHash | ValidationFailed

definition insertEvent :: "audit_event \<Rightarrow> audit_store \<Rightarrow> insert_result \<times> audit_store" where
  "insertEvent e s =
     (if \<not> schema_ok e then (ValidationFailed, s)
      else if \<exists>x \<in> set (a_events s). e_epochId x = e_epochId e \<and> e_prevHash x = e_prevHash e
           then (DuplicatePrevHash, s)
      else let saved = storedEvent (length (a_events s)) e
           in (Inserted saved, s\<lparr>a_events := a_events s @ [saved]\<rparr>))"

definition contention :: error where
  "contention =
     ServiceUnavailable (''Could not append audit event after '' @ show_nat MAX_CHAIN_APPEND_ATTEMPTS
       @ '' attempts due to write contention.'')"

fun appendAttempts ::
  "audit_crypto \<Rightarrow> nat \<Rightarrow> pending_event \<Rightarrow> audit_store \<Rightarrow> (audit_event, audit_store) outcome" where
  "appendAttempts cr 0 p s = throw contention s"
| "appendAttempts cr (Suc n) p s =
     andThen (getCurrentChainTail (p_epochId p) s) (\<lambda>lastEvent s.
       case insertEvent (linkEvent cr p (map_option e_hash lastEvent)) s of
         (Inserted saved, s) \<Rightarrow> return saved s
       | (DuplicatePrevHash, s) \<Rightarrow> appendAttempts cr n p s
       | (ValidationFailed, s) \<Rightarrow> throw (JsError ''AuditEvent validation failed'') s)"

text \<open>
  \<open>create\<close>, which queues \<open>appendEvent\<close> behind the appends of the same instance.
\<close>

definition appendEvent ::
  "audit_crypto \<Rightarrow> string \<Rightarrow> int \<Rightarrow> create_event_dto \<Rightarrow> audit_store \<Rightarrow> (audit_event, audit_store) outcome" where
  "appendEvent cr uuid now dto s =
     andThen (prepareEvent uuid now dto s) (appendAttempts cr MAX_CHAIN_APPEND_ATTEMPTS)"

section \<open>Verifying a chain\<close>

record active_summary =
  av_epochId :: string
  av_status :: epoch_status
  av_valid :: bool
  av_checked :: nat
  av_startedAt :: "int option"
  av_genesisReason :: "genesis_reason option"
  av_previousEpochId :: "string option"
  av_incidentId :: "string option"

record verification =
  v_valid :: bool
  v_checked :: nat
  v_firstBrokenIndex :: "nat option"
  v_firstBrokenEventId :: "string option"
  v_lastTrustedHash :: "string option"
  v_message :: "string option"
  v_signedCount :: "nat option"
  v_unsignedCount :: "nat option"
  v_signatureValid :: "bool option"
  v_epochId :: "string option"
  v_activeEpoch :: "active_summary option"
  v_historicalCompromisedCount :: "nat option"
  v_compromisedEpochs :: "chain_epoch list option"

definition broken ::
  "nat \<Rightarrow> nat option \<Rightarrow> string option \<Rightarrow> string option \<Rightarrow> bool option \<Rightarrow> string \<Rightarrow> verification" where
  "broken checked index eventId trusted sig msg = \<lparr>
     v_valid = False, v_checked = checked, v_firstBrokenIndex = index,
     v_firstBrokenEventId = eventId, v_lastTrustedHash = trusted, v_message = Some msg,
     v_signedCount = None, v_unsignedCount = None, v_signatureValid = sig, v_epochId = None,
     v_activeEpoch = None, v_historicalCompromisedCount = None, v_compromisedEpochs = None \<rparr>"

definition intact :: "nat \<Rightarrow> nat \<Rightarrow> nat \<Rightarrow> bool option \<Rightarrow> verification" where
  "intact checked signed unsigned sig = \<lparr>
     v_valid = True, v_checked = checked, v_firstBrokenIndex = None,
     v_firstBrokenEventId = None, v_lastTrustedHash = None, v_message = None,
     v_signedCount = Some signed, v_unsignedCount = Some unsigned, v_signatureValid = sig,
     v_epochId = None, v_activeEpoch = None, v_historicalCompromisedCount = None,
     v_compromisedEpochs = None \<rparr>"

text \<open>\<open>eventIdentity\<close>: every stored event has an event id.\<close>

definition eventIdentity :: "audit_event \<Rightarrow> string" where
  "eventIdentity e = e_eventId e"

fun firstDuplicate :: "string list \<Rightarrow> audit_event list \<Rightarrow> string option" where
  "firstDuplicate eventKeys [] = None"
| "firstDuplicate eventKeys (e # es) =
     (if eventIdentity e \<in> set eventKeys then Some (eventIdentity e)
      else firstDuplicate (eventIdentity e # eventKeys) es)"

definition childrenOf :: "string option \<Rightarrow> audit_event list \<Rightarrow> audit_event list" where
  "childrenOf prevHash events = filter (\<lambda>e. e_prevHash e = prevHash) events"

text \<open>
  The loop that follows the chain from the genesis event. \<open>visited\<close> holds the
  identities of \<open>ordered\<close>; every turn but the last adds one of the events, so
  that \<open>length events + 1\<close> turns are enough.
\<close>

fun followChain ::
  "nat \<Rightarrow> audit_event list \<Rightarrow> audit_event list \<Rightarrow> audit_event option
   \<Rightarrow> (audit_event list \<times> verification option) option" where
  "followChain fuel events ordered None = Some (ordered, None)"
| "followChain 0 events ordered (Some current) = None"
| "followChain (Suc fuel) events ordered (Some current) =
     (if eventIdentity current \<in> set (map eventIdentity ordered) then
        Some (ordered, Some (broken (length ordered) None (Some (e_eventId current)) None None
          (''Audit chain cycle detected at eventId='' @ e_eventId current @ ''.'')))
      else
        let ordered = ordered @ [current];
            children = childrenOf (Some (e_hash current)) events
        in if 1 < length children then
             Some (ordered, Some (broken (length ordered) None (Some (e_eventId current))
               (Some (e_hash current)) None
               (''Audit chain fork detected after eventId='' @ e_eventId current @ ''; ''
                @ show_nat (length children) @ '' events reference the same prevHash.'')))
           else followChain fuel events ordered (head_option children))"

definition orderEventsByChain :: "audit_event list \<Rightarrow> (audit_event list \<times> verification option) option" where
  "orderEventsByChain events =
     (if events = [] then Some ([], None)
      else case firstDuplicate [] events of
        Some key \<Rightarrow> Some ([], Some (broken 0 None None None None
          (''Duplicate audit event identity detected: '' @ key @ ''.'')))
      | None \<Rightarrow>
          (case childrenOf None events of
             [genesis] \<Rightarrow>
               (case followChain (Suc (length events)) events [] (Some genesis) of
                  None \<Rightarrow> None
                | Some (ordered, Some err) \<Rightarrow> Some (ordered, Some err)
                | Some (ordered, None) \<Rightarrow>
                    if length ordered \<noteq> length events then
                      Some (ordered, Some (broken (length ordered) None
                        (map_option e_eventId
                          (find (\<lambda>e. eventIdentity e \<notin> set (map eventIdentity ordered)) events))
                        None None
                        (''Audit chain has '' @ show_int (int (length events) - int (length ordered))
                         @ '' disconnected event(s).'')))
                    else Some (ordered, None))
           | genesisEvents \<Rightarrow> Some ([], Some (broken 0 None None None None
               (''Expected exactly one audit-chain genesis event, found ''
                @ show_nat (length genesisEvents) @ ''.'')))))"

text \<open>
  \<open>verifyEventSequence\<close> from index \<open>i\<close>, where \<open>prev\<close> is the hash of the event
  before it.
\<close>

fun verifyFrom ::
  "audit_crypto \<Rightarrow> (string \<rightharpoonup> string) \<Rightarrow> string option \<Rightarrow> nat \<Rightarrow> nat \<Rightarrow> nat \<Rightarrow> audit_event list \<Rightarrow> verification" where
  "verifyFrom cr vars prev i signedCount unsignedCount [] =
     intact i signedCount unsignedCount
       (if i = 0 then None else if unsignedCount = 0 then Some True else None)"
| "verifyFrom cr vars prev i signedCount unsignedCount (e # es) =
     (let expectedHash = computeHash cr prev (canonicalPayload e);
          at = '' at event index '' @ show_nat i @ '' (eventId='' @ e_eventId e @ '')''
      in if e_hash e \<noteq> expectedHash then
           broken (Suc i) (Some i) (Some (e_eventId e)) prev None
             (''Hash mismatch'' @ at @ ''. Expected='' @ expectedHash @ '', got='' @ e_hash e)
         else if e_prevHash e \<noteq> prev then
           broken (Suc i) (Some i) (Some (e_eventId e)) prev None
             (''prevHash mismatch'' @ at @ ''. Expected='' @ coalesce prev ''null''
              @ '', got='' @ coalesce (e_prevHash e) ''null'')
         else if truthy_opt (e_signature e) then
           (case getVerifySecret vars (e_signatureKid e) of
              None \<Rightarrow> verifyFrom cr vars (Some (e_hash e)) (Suc i) signedCount (Suc unsignedCount) es
            | Some secret \<Rightarrow>
                if Some (signHash cr (e_hash e) secret) \<noteq> e_signature e then
                  broken (Suc i) (Some i) (Some (e_eventId e)) prev (Some False)
                    (''Signature mismatch'' @ at @ ''.'')
                else verifyFrom cr vars (Some (e_hash e)) (Suc i) (Suc signedCount) unsignedCount es)
         else verifyFrom cr vars (Some (e_hash e)) (Suc i) signedCount (Suc unsignedCount) es)"

definition verifyEventSequence ::
  "audit_crypto \<Rightarrow> (string \<rightharpoonup> string) \<Rightarrow> audit_event list \<Rightarrow> verification" where
  "verifyEventSequence cr vars es = verifyFrom cr vars None 0 0 0 es"

text \<open>\<open>xs.slice(0, n)\<close>, where \<open>None\<close> is \<open>NaN\<close> and counts as 0.\<close>

definition slice_to :: "int option \<Rightarrow> 'a list \<Rightarrow> 'a list" where
  "slice_to n xs =
     (case n of
        None \<Rightarrow> []
      | Some k \<Rightarrow> if k < 0 then take (nat (int (length xs) + k)) xs else take (nat k) xs)"

definition getCompromisedEpochs :: "audit_store \<Rightarrow> chain_epoch list" where
  "getCompromisedEpochs s =
     (if \<not> a_epochStorage s then []
      else take 20 (sort_key (\<lambda>ep. if ep_endedAt ep = None then 1 else (0::nat))
        (sort_key (\<lambda>ep. - coalesce (ep_endedAt ep) 0)
          (sort_key (\<lambda>ep. - ep_startedAt ep)
            (filter (\<lambda>ep. ep_status ep = COMPROMISED) (a_epochs s))))))"

definition withEpoch ::
  "chain_epoch option \<Rightarrow> string \<Rightarrow> chain_epoch list \<Rightarrow> verification \<Rightarrow> verification" where
  "withEpoch activeEpoch epochId compromised chain =
     chain\<lparr>
       v_epochId := Some epochId,
       v_activeEpoch := Some \<lparr>
         av_epochId = epochId,
         av_status = coalesce (map_option ep_status activeEpoch) ACTIVE,
         av_valid = v_valid chain,
         av_checked = v_checked chain,
         av_startedAt = map_option ep_startedAt activeEpoch,
         av_genesisReason = map_option ep_genesisReason activeEpoch,
         av_previousEpochId = Option.bind activeEpoch ep_previousEpochId,
         av_incidentId = Option.bind activeEpoch ep_incidentId \<rparr>,
       v_historicalCompromisedCount := Some (length compromised),
       v_compromisedEpochs := Some compromised \<rparr>"

definition verifyEvents ::
  "audit_crypto \<Rightarrow> (string \<rightharpoonup> string) \<Rightarrow> int option \<Rightarrow> audit_event list \<Rightarrow> verification option" where
  "verifyEvents cr vars limit events =
     (case orderEventsByChain events of
        None \<Rightarrow> None
      | Some (_, Some err) \<Rightarrow> Some err
      | Some (ordered, None) \<Rightarrow> Some (verifyEventSequence cr vars (slice_to limit ordered)))"

definition verifyChain ::
  "audit_crypto \<Rightarrow> int \<Rightarrow> int option \<Rightarrow> audit_store \<Rightarrow> (verification option, audit_store) outcome" where
  "verifyChain cr now limit s =
     andThen (getActiveEpochRecord now s) (\<lambda>activeEpoch s.
       let epochId = coalesce (map_option ep_epochId activeEpoch) DEFAULT_EPOCH_ID;
           chain = verifyEvents cr (a_env s) limit (loadEpochEvents epochId s)
       in return
            (if a_epochStorage s
             then map_option (withEpoch activeEpoch epochId (getCompromisedEpochs s)) chain
             else chain) s)"

text \<open>\<open>GET /audit/verify-chain?limit=\<close>, with \<open>number\<close> for \<open>Number\<close>.\<close>

definition verifyLimit :: "(string \<Rightarrow> int option) \<Rightarrow> string option \<Rightarrow> int option" where
  "verifyLimit number limitStr =
     (if truthy_opt limitStr then map_option (\<lambda>n. min n 5000) (number (the limitStr)) else Some 1000)"

section \<open>A new epoch after a compromise\<close>

record summary_viewer =
  vw_actorId :: "string option"
  vw_roles :: "string list option"
  vw_ip :: "string option"
  vw_traceId :: "string option"

record seal_result =
  sr_incident :: chain_incident
  sr_newEpoch :: chain_epoch
  sr_event :: audit_event

definition markCompromised :: "int \<Rightarrow> verification \<Rightarrow> string \<Rightarrow> string \<Rightarrow> chain_epoch \<Rightarrow> chain_epoch" where
  "markCompromised now v incidentId reason ep =
     ep\<lparr>ep_status := COMPROMISED,
        ep_endedAt := Some now,
        ep_firstBrokenIndex := Some (coalesce (v_firstBrokenIndex v) 0),
        ep_firstBrokenEventId := or_else (v_firstBrokenEventId v) (ep_firstBrokenEventId ep),
        ep_lastTrustedHash := or_else (v_lastTrustedHash v) (ep_lastTrustedHash ep),
        ep_incidentId := Some incidentId,
        ep_reason := reason\<rparr>"

definition compromiseIncident ::
  "int \<Rightarrow> string \<Rightarrow> string \<Rightarrow> string \<Rightarrow> verification \<Rightarrow> string \<Rightarrow> chain_incident" where
  "compromiseIncident now incidentId actorId epochId v reason = \<lparr>
     in_incidentId = incidentId,
     in_detectedAt = now,
     in_detectedBy = actorId,
     in_affectedEpochId = epochId,
     in_firstBrokenIndex = coalesce (v_firstBrokenIndex v) 0,
     in_firstBrokenEventId = v_firstBrokenEventId v,
     in_lastTrustedHash = v_lastTrustedHash v,
     in_verifyMessage = coalesce (v_message v) ''Audit chain verification failed.'',
     in_status = INCIDENT_OPEN,
     in_resolution = NEW_EPOCH_STARTED,
     in_reason = reason \<rparr>"

definition recoveryEpoch :: "int \<Rightarrow> string \<Rightarrow> string \<Rightarrow> string \<Rightarrow> string \<Rightarrow> string \<Rightarrow> chain_epoch" where
  "recoveryEpoch now epochId previousEpochId incidentId actorId reason = \<lparr>
     ep_epochId = epochId,
     ep_status = ACTIVE,
     ep_startedAt = now,
     ep_endedAt = None,
     ep_genesisReason = COMPROMISE_RECOVERY,
     ep_previousEpochId = Some previousEpochId,
     ep_lastTrustedHash = None,
     ep_firstBrokenIndex = None,
     ep_firstBrokenEventId = None,
     ep_incidentId = Some incidentId,
     ep_createdBy = actorId,
     ep_reason = reason \<rparr>"

definition epochStartedDto ::
  "int \<Rightarrow> summary_viewer \<Rightarrow> string \<Rightarrow> string \<Rightarrow> string \<Rightarrow> verification \<Rightarrow> string \<Rightarrow> create_event_dto" where
  "epochStartedDto now viewer epochId previousEpochId incidentId v reason = \<lparr>
     ce_eventId = None,
     ce_timestamp = Some (Some now),
     ce_actorId = coalesce (vw_actorId viewer) ''unknown'',
     ce_actorRoles = coalesce (vw_roles viewer) [],
     ce_action = ''AUDIT_CHAIN_EPOCH_STARTED'',
     ce_resourceType = ''AUDIT_CHAIN_EPOCH'',
     ce_resourceId = Some epochId,
     ce_result = ''SUCCESS'',
     ce_reason = Some reason,
     ce_ip = vw_ip viewer,
     ce_traceId = vw_traceId viewer,
     ce_metadata = Some ([(''previousEpochId'', JStr previousEpochId), (''incidentId'', JStr incidentId)]
       @ j_optional ''firstBrokenIndex'' (\<lambda>n. JNum (int n)) (v_firstBrokenIndex v)
       @ j_optional ''firstBrokenEventId'' JStr (v_firstBrokenEventId v)
       @ j_optional ''lastTrustedHash'' JStr (v_lastTrustedHash v)) \<rparr>"

definition sealCompromisedChainAndStartEpoch ::
  "audit_crypto \<Rightarrow> string \<Rightarrow> string \<Rightarrow> string \<Rightarrow> int \<Rightarrow> string \<Rightarrow> summary_viewer \<Rightarrow> audit_store
   \<Rightarrow> (seal_result, audit_store) outcome" where
  "sealCompromisedChainAndStartEpoch cr uuid1 uuid2 uuid3 now reason viewer s =
     (if \<not> a_epochStorage s then
        throw (ServiceUnavailable ''Audit chain epoch storage is not configured.'') s
      else
        andThen (getActiveEpochRecord now s) (\<lambda>activeEpoch s.
        andThen (verifyChain cr now (Some 5000) s) (\<lambda>verified s.
          case verified of
            None \<Rightarrow> throw (InternalError ''verification did not end'') s
          | Some v \<Rightarrow>
              if v_valid v then
                throw (BadRequest ''Audit chain is valid; no recovery epoch is needed.'') s
              else
                let previousEpochId = coalesce (or_else (v_epochId v) (map_option ep_epochId activeEpoch))
                      DEFAULT_EPOCH_ID;
                    incidentId = ''AUDIT-INC-'' @ uuid1;
                    actorId = coalesce (vw_actorId viewer) ''unknown'';
                    incident = compromiseIncident now incidentId actorId previousEpochId v reason;
                    newEpoch = recoveryEpoch now (''epoch-'' @ uuid2) previousEpochId incidentId actorId reason;
                    s = s\<lparr>a_incidents := a_incidents s @ [incident],
                          a_epochs := update_row ep_epochId previousEpochId
                            (markCompromised now v incidentId reason) (a_epochs s) @ [newEpoch]\<rparr>
                in andThen (appendEvent cr uuid3 now
                     (epochStartedDto now viewer (ep_epochId newEpoch) previousEpochId incidentId v reason) s)
                   (\<lambda>event. return \<lparr> sr_incident = incident, sr_newEpoch = newEpoch, sr_event = event \<rparr>))))"

end
