(* ===== verification/Audit_Chain.thy ===== *)
theory Audit_Chain
  imports Audit_Service "HOL-Library.Multiset"
begin

text \<open>
  The hash chain of one epoch as a list, what \<open>verifyEventSequence\<close> checks of it,
  and how \<open>orderEventsByChain\<close> and \<open>getCurrentChainTail\<close> find it again among the
  events in whatever order the collection returns them.
\<close>

section \<open>Chains\<close>

fun chained :: "audit_crypto \<Rightarrow> string option \<Rightarrow> audit_event list \<Rightarrow> bool" where
  "chained cr prev [] = True"
| "chained cr prev (e # es) =
     (e_prevHash e = prev \<and> computeHash cr prev (canonicalPayload e) = e_hash e
      \<and> chained cr (Some (e_hash e)) es)"

definition signature_ok :: "audit_crypto \<Rightarrow> (string \<rightharpoonup> string) \<Rightarrow> audit_event \<Rightarrow> bool" where
  "signature_ok cr vars e =
     (truthy_opt (e_signature e) \<longrightarrow>
       (case getVerifySecret vars (e_signatureKid e) of
          None \<Rightarrow> True
        | Some secret \<Rightarrow> e_signature e = Some (signHash cr (e_hash e) secret)))"

lemma verifyFrom_valid:
  "v_valid (verifyFrom cr vars prev i m n es) \<longleftrightarrow> chained cr prev es \<and> list_all (signature_ok cr vars) es"
proof (induction es arbitrary: prev i m n)
  case Nil
  then show ?case by (simp add: intact_def)
next
  case (Cons e es)
  then show ?case
    by (auto simp: Let_def broken_def signature_ok_def split: option.splits)
qed

lemma verifyEventSequence_valid:
  "v_valid (verifyEventSequence cr vars es) \<longleftrightarrow> chained cr None es \<and> list_all (signature_ok cr vars) es"
  by (simp add: verifyEventSequence_def verifyFrom_valid)

lemma chained_append:
  "chained cr prev (xs @ ys) \<longleftrightarrow>
     chained cr prev xs \<and> chained cr (if xs = [] then prev else Some (e_hash (last xs))) ys"
  by (induction xs arbitrary: prev) auto

text \<open>
  Two halves: the events name the hash of the one before, and every event, as it is
  stored, hashes to the hash stored with it.
\<close>

fun links :: "string option \<Rightarrow> audit_event list \<Rightarrow> bool" where
  "links prev [] = True"
| "links prev (e # es) = (e_prevHash e = prev \<and> links (Some (e_hash e)) es)"

definition hash_kept :: "audit_crypto \<Rightarrow> audit_event \<Rightarrow> bool" where
  "hash_kept cr e = (computeHash cr (e_prevHash e) (canonicalPayload e) = e_hash e)"

lemma chained_links: "chained cr prev es \<longleftrightarrow> links prev es \<and> list_all (hash_kept cr) es"
  by (induction es arbitrary: prev) (auto simp: hash_kept_def)

lemma links_append:
  "links prev (xs @ ys) \<longleftrightarrow> links prev xs \<and> links (if xs = [] then prev else Some (e_hash (last xs))) ys"
  by (induction xs arbitrary: prev) auto

lemma links_take: "links prev es \<Longrightarrow> links prev (take n es)"
  by (metis append_take_drop_id links_append)

lemma links_successor:
  assumes "links prev (xs @ x # y # ys)"
  shows "e_prevHash y = Some (e_hash x)"
  using assms by (simp add: links_append)

lemma links_prev:
  "links prev es \<Longrightarrow> map e_prevHash es = (if es = [] then [] else prev # map (\<lambda>e. Some (e_hash e)) (butlast es))"
  by (induction es arbitrary: prev) auto

definition hashes :: "audit_event list \<Rightarrow> string list" where
  "hashes es = map e_hash es"

definition ids :: "audit_event list \<Rightarrow> string list" where
  "ids es = map eventIdentity es"

lemma hashes_simps [simp]:
  "hashes [] = []" "hashes (e # es) = e_hash e # hashes es" "hashes (xs @ ys) = hashes xs @ hashes ys"
  by (simp_all add: hashes_def)

lemma ids_simps [simp]:
  "ids [] = []" "ids (e # es) = eventIdentity e # ids es" "ids (xs @ ys) = ids xs @ ids ys"
  "length (ids es) = length es"
  by (simp_all add: ids_def)

text \<open>In a chain with distinct hashes, the events that name a hash are its successor.\<close>

lemma none_refer:
  assumes "links (Some h) es" "h' \<notin> set (hashes es)" "h \<noteq> h'"
  shows "childrenOf (Some h') es = []"
  using assms
proof (induction es arbitrary: h)
  case Nil
  then show ?case by (simp add: childrenOf_def)
next
  case (Cons e es)
  then show ?case by (auto simp: childrenOf_def)
qed

lemma childrenOf_append [simp]: "childrenOf p (xs @ ys) = childrenOf p xs @ childrenOf p ys"
  by (simp add: childrenOf_def)

lemma childrenOf_simps [simp]:
  "childrenOf p [] = []"
  "childrenOf p (e # es) = (if e_prevHash e = p then e # childrenOf p es else childrenOf p es)"
  by (simp_all add: childrenOf_def)

lemma prefix_refers:
  assumes "links prev (xs @ [x])" "prev \<noteq> Some (e_hash x)" "e_hash x \<notin> set (hashes xs)"
  shows "childrenOf (Some (e_hash x)) (xs @ [x]) = []"
  using assms
proof (induction xs arbitrary: prev)
  case Nil
  then show ?case by auto
next
  case (Cons e es)
  have "e_prevHash e = prev" and c: "links (Some (e_hash e)) (es @ [x])"
    using Cons.prems(1) by simp_all
  then show ?case using Cons.IH [OF c] Cons.prems(2,3) by (auto split: if_splits)
qed

lemma childrenOf_chain:
  assumes "links None (pre @ cur # post)" "distinct (hashes (pre @ cur # post))"
  shows "childrenOf (Some (e_hash cur)) (pre @ cur # post) = (case post of [] \<Rightarrow> [] | x # _ \<Rightarrow> [x])"
proof -
  have "links None (pre @ [cur])"
    using assms(1) links_append [of None "pre @ [cur]" post] by simp
  then have pre: "childrenOf (Some (e_hash cur)) (pre @ [cur]) = []"
    using assms(2) by (intro prefix_refers) auto
  have c: "links (Some (e_hash cur)) post"
    using assms(1) links_append [of None "pre @ [cur]" post] by simp
  have "childrenOf (Some (e_hash cur)) post = (case post of [] \<Rightarrow> [] | x # _ \<Rightarrow> [x])"
  proof (cases post)
    case (Cons x xs)
    then have "childrenOf (Some (e_hash cur)) xs = []"
      using c assms(2) by (intro none_refer [of "e_hash x"]) auto
    then show ?thesis using Cons c by simp
  qed simp
  then show ?thesis using pre by (auto split: if_splits)
qed

lemma childrenOf_genesis:
  assumes "links None es"
  shows "childrenOf None es = (case es of [] \<Rightarrow> [] | x # _ \<Rightarrow> [x])"
proof -
  have none: "childrenOf None xs = []" if "links (Some h) xs" for h xs
    using that by (induction xs arbitrary: h) auto
  show ?thesis using assms none by (cases es) auto
qed

section \<open>The order does not matter\<close>

text \<open>The children found in a permutation of the chain.\<close>

lemma mset_childrenOf: "mset es = mset cs \<Longrightarrow> mset (childrenOf p es) = mset (childrenOf p cs)"
  by (simp add: childrenOf_def)

lemma childrenOf_perm:
  assumes "mset es = mset cs" "childrenOf p cs = [x]"
  shows "childrenOf p es = [x]"
  using mset_childrenOf [OF assms(1), of p] assms(2) by (simp add: mset_single_iff)

lemma childrenOf_perm_Nil:
  assumes "mset es = mset cs" "childrenOf p cs = []"
  shows "childrenOf p es = []"
  using mset_childrenOf [OF assms(1), of p] assms(2) by simp

lemma followChain_chain:
  assumes "mset es = mset (pre @ cur # post)" "links None (pre @ cur # post)"
    "distinct (hashes (pre @ cur # post))" "distinct (ids (pre @ cur # post))"
    "length post < fuel"
  shows "followChain fuel es pre (Some cur) = Some (pre @ cur # post, None)"
  using assms
proof (induction post arbitrary: pre cur fuel)
  case Nil
  then obtain f where f: "fuel = Suc f" by (cases fuel) auto
  have "childrenOf (Some (e_hash cur)) es = []"
    using childrenOf_perm_Nil [OF Nil(1)] childrenOf_chain [OF Nil(2,3)] by simp
  then show ?case using Nil f by (auto simp: ids_def)
next
  case (Cons x xs)
  then obtain f where f: "fuel = Suc f" by (cases fuel) auto
  have "childrenOf (Some (e_hash cur)) es = [x]"
    using childrenOf_perm [OF Cons(2)] childrenOf_chain [OF Cons(3,4)] by simp
  moreover have "followChain f es (pre @ [cur]) (Some x) = Some ((pre @ [cur]) @ x # xs, None)"
    using Cons.prems f by (intro Cons.IH) auto
  ultimately show ?case using Cons.prems f by (auto simp: ids_def)
qed

lemma firstDuplicate_None: "firstDuplicate keys es = None \<longleftrightarrow> distinct (ids es) \<and> set (ids es) \<inter> set keys = {}"
  by (induction keys es rule: firstDuplicate.induct) auto

lemma ids_mset: "mset es = mset cs \<Longrightarrow> distinct (ids es) = distinct (ids cs)"
  unfolding ids_def by (metis mset_eq_imp_distinct_iff mset_map)

lemma orderEventsByChain_chain:
  assumes "mset es = mset cs" "links None cs" "distinct (hashes cs)" "distinct (ids cs)"
  shows "orderEventsByChain es = Some (cs, None)"
proof (cases cs)
  case Nil
  then show ?thesis using assms(1) by (simp add: orderEventsByChain_def)
next
  case (Cons c rest)
  have len: "length es = length cs" using assms(1) by (rule mset_eq_length)
  have "childrenOf None es = [c]"
    using childrenOf_perm [OF assms(1)] childrenOf_genesis [OF assms(2)] Cons by simp
  moreover have "followChain (Suc (length es)) es [] (Some c) = Some (cs, None)"
    using followChain_chain [of es "[]" c rest "Suc (length es)"] assms Cons len
    by (simp del: followChain.simps links.simps)
  moreover have "firstDuplicate [] es = None"
    using assms(4) ids_mset [OF assms(1)] by (simp add: firstDuplicate_None)
  moreover have "es \<noteq> []" using len Cons by auto
  ultimately show ?thesis using len by (simp add: orderEventsByChain_def del: followChain.simps)
qed

text \<open>The loop that follows the chain never runs out of turns.\<close>

lemma followChain_returns:
  assumes "distinct (ids ordered)" "set (ids ordered) \<subseteq> set (ids es)"
    "current \<noteq> None \<longrightarrow> the current \<in> set es" "length es < length ordered + fuel"
  shows "\<exists>r. followChain fuel es ordered current = Some r"
  using assms
proof (induction fuel es ordered current rule: followChain.induct)
  case (1 fuel es ordered)
  then show ?case by simp
next
  case (2 es ordered current)
  have "length (ids ordered) = card (set (ids ordered))" using 2(1) by (simp add: distinct_card)
  also have "\<dots> \<le> card (set (ids es))" using 2(2) by (simp add: card_mono)
  also have "\<dots> \<le> length (ids es)" by (rule card_length)
  finally show ?case using 2 by simp
next
  case (3 fuel es ordered current)
  have member: "eventIdentity current \<in> set (ids es)" using 3(4) by (auto simp: ids_def)
  have child: "\<And>x. head_option (childrenOf (Some (e_hash current)) es) = Some x \<Longrightarrow> x \<in> set es"
    by (auto simp: childrenOf_def head_option_def split: list.splits dest!: filter_eq_ConsD)
  show ?case
    using 3 member child by (cases "head_option (childrenOf (Some (e_hash current)) es)")
      (auto simp: ids_def Let_def)
qed

lemma orderEventsByChain_returns: "\<exists>r. orderEventsByChain es = Some r"
proof -
  have follow: "\<exists>r. followChain (Suc (length es)) es [] (Some x) = Some r" if "childrenOf None es = [x]" for x
  proof -
    have "x \<in> set (childrenOf None es)" using that by simp
    then have "x \<in> set es" by (simp add: childrenOf_def)
    then show ?thesis by (intro followChain_returns) auto
  qed
  show ?thesis unfolding orderEventsByChain_def
    using follow by (auto split: option.splits list.splits)
qed

lemma verifyEvents_returns: "\<exists>v. verifyEvents cr vars limit es = Some v"
  using orderEventsByChain_returns [of es]
  by (auto simp: verifyEvents_def split: option.splits)

lemma getActiveEpochRecord_returns: "\<exists>ep t. getActiveEpochRecord now s = (Inr ep, t)"
  by (simp add: getActiveEpochRecord_def Let_def return_def)

lemma verifyChain_returns: "\<exists>v t. verifyChain cr now limit s = (Inr (Some v), t)"
proof -
  obtain ep t where g: "getActiveEpochRecord now s = (Inr ep, t)"
    using getActiveEpochRecord_returns by blast
  obtain v where "verifyEvents cr (a_env t) limit
      (loadEpochEvents (coalesce (map_option ep_epochId ep) DEFAULT_EPOCH_ID) t) = Some v"
    using verifyEvents_returns by blast
  then show ?thesis by (auto simp: verifyChain_def g Let_def return_def)
qed

text \<open>
  C32: the endpoint that verifies the chain always answers, also on a collection
  somebody has tampered with: the loop that follows the links stops, because it
  never visits an event twice.
\<close>

theorem verification_terminates:
  "(\<exists>r. orderEventsByChain es = Some r) \<and> (\<exists>v t. verifyChain cr now limit s = (Inr (Some v), t))"
  by (rule conjI [OF orderEventsByChain_returns verifyChain_returns])

section \<open>The tail\<close>

lemma tails_chain:
  assumes "links None cs" "distinct (hashes cs)"
  shows "filter (\<lambda>e. Some (e_hash e) \<notin> set (map e_prevHash cs)) cs = (if cs = [] then [] else [last cs])"
proof (cases "cs = []")
  case False
  then obtain xs x where cs: "cs = xs @ [x]" by (metis rev_exhaust)
  have p: "map e_prevHash cs = None # map (\<lambda>e. Some (e_hash e)) xs"
    using links_prev [OF assms(1)] cs by simp
  have "filter (\<lambda>e. Some (e_hash e) \<notin> set (map e_prevHash cs)) xs = []"
    unfolding p by (auto simp: filter_empty_conv)
  moreover have "Some (e_hash x) \<notin> set (map e_prevHash cs)"
    unfolding p using assms(2) cs by (auto simp: hashes_def)
  ultimately show ?thesis using cs by simp
qed simp

lemma mset_loadEpochEvents:
  "mset (loadEpochEvents epochId s) = mset (filter (epochEventFilter epochId) (a_events s))"
  by (simp add: loadEpochEvents_def)

lemma tail_of_chain:
  assumes "cs = filter (epochEventFilter epochId) (a_events s)" "links None cs" "distinct (hashes cs)"
  shows "getCurrentChainTail epochId s = (Inr (if cs = [] then None else Some (last cs)), s)"
proof (cases "cs = []")
  case True
  then have "loadEpochEvents epochId s = []" using mset_loadEpochEvents [of epochId s] assms(1) by simp
  then show ?thesis using True by (simp add: getCurrentChainTail_def return_def)
next
  case False
  have m: "mset (loadEpochEvents epochId s) = mset cs" using mset_loadEpochEvents assms(1) by simp
  then have ne: "loadEpochEvents epochId s \<noteq> []" using False by auto
  have same: "set (map e_prevHash (loadEpochEvents epochId s)) = set (map e_prevHash cs)"
    using mset_eq_setD [OF m] by simp
  have "mset (filter (\<lambda>e. Some (e_hash e) \<notin> set (map e_prevHash cs)) (loadEpochEvents epochId s))
      = mset (filter (\<lambda>e. Some (e_hash e) \<notin> set (map e_prevHash cs)) cs)"
    using m by (simp only: mset_filter)
  also have "\<dots> = {# last cs #}" using tails_chain [OF assms(2,3)] False by simp
  finally have "filter (\<lambda>e. Some (e_hash e) \<notin> set (map e_prevHash (loadEpochEvents epochId s)))
      (loadEpochEvents epochId s) = [last cs]"
    unfolding same by (simp only: mset_single_iff)
  then show ?thesis using ne False by (simp add: getCurrentChainTail_def return_def Let_def)
qed

end
