(* ===== verification/Audit_Log.thy ===== *)
theory Audit_Log
  imports Audit_Chain
begin

text \<open>
  The audit log under concurrent writers. Several instances of the service append
  to one collection; an append reads the tail of the chain and inserts an event
  linked to it in two separate database calls, and only the unique index keeps
  two of them from extending the same event.
\<close>

section \<open>Writers\<close>

datatype writer =
    Reading nat pending_event
  | Linking nat pending_event "string option"
  | Finished audit_event
  | Refused error

text \<open>One database call of \<open>appendEvent\<close>; the number counts the attempts left.\<close>

fun writerStep :: "audit_crypto \<Rightarrow> writer \<Rightarrow> audit_store \<Rightarrow> writer \<times> audit_store" where
  "writerStep cr (Reading 0 p) s = (Refused contention, s)"
| "writerStep cr (Reading (Suc n) p) s =
     (case getCurrentChainTail (p_epochId p) s of
        (Inl e, s) \<Rightarrow> (Refused e, s)
      | (Inr lastEvent, s) \<Rightarrow> (Linking n p (map_option e_hash lastEvent), s))"
| "writerStep cr (Linking n p prevHash) s =
     (case insertEvent (linkEvent cr p prevHash) s of
        (Inserted saved, s) \<Rightarrow> (Finished saved, s)
      | (DuplicatePrevHash, s) \<Rightarrow> (Reading n p, s)
      | (ValidationFailed, s) \<Rightarrow> (Refused (JsError ''AuditEvent validation failed''), s))"
| "writerStep cr (Finished e) s = (Finished e, s)"
| "writerStep cr (Refused e) s = (Refused e, s)"

text \<open>
  A request enters when its handler has read the active epoch; the handlers that
  verify and seal run to their end.
\<close>

inductive audit_step :: "audit_crypto \<Rightarrow> audit_store \<times> writer list \<Rightarrow> audit_store \<times> writer list \<Rightarrow> bool"
  for cr where
  call: "prepareEvent uuid now dto s = (Inr p, t)
    \<Longrightarrow> audit_step cr (s, ws) (t, ws @ [Reading MAX_CHAIN_APPEND_ATTEMPTS p])"
| bad_call: "prepareEvent uuid now dto s = (Inl e, t) \<Longrightarrow> audit_step cr (s, ws) (t, ws @ [Refused e])"
| run: "i < length ws \<Longrightarrow> writerStep cr (ws ! i) s = (w, t) \<Longrightarrow> audit_step cr (s, ws) (t, ws[i := w])"
| verify: "verifyChain cr now limit s = (r, t) \<Longrightarrow> audit_step cr (s, ws) (t, ws)"
| sealing: "sealCompromisedChainAndStartEpoch cr uuid1 uuid2 uuid3 now reason viewer s = (sealed, t)
    \<Longrightarrow> audit_step cr (s, ws) (t, ws)"

definition empty_log :: "(string \<rightharpoonup> string) \<Rightarrow> bool \<Rightarrow> audit_store" where
  "empty_log vars storage =
     \<lparr> a_events = [], a_epochs = [], a_incidents = [], a_env = vars, a_epochStorage = storage \<rparr>"

definition logged :: "audit_crypto \<Rightarrow> audit_store \<times> writer list \<Rightarrow> bool" where
  "logged cr sw = (\<exists>vars storage. (audit_step cr)\<^sup>*\<^sup>* (empty_log vars storage, []) sw)"

text \<open>The events of an epoch, in the order in which they were inserted.\<close>

definition epochChain :: "string \<Rightarrow> audit_store \<Rightarrow> audit_event list" where
  "epochChain epochId s = filter (epochEventFilter epochId) (a_events s)"

section \<open>An append alone is its writer run to the end\<close>

fun writerRun :: "audit_crypto \<Rightarrow> nat \<Rightarrow> writer \<times> audit_store \<Rightarrow> writer \<times> audit_store" where
  "writerRun cr 0 ws = ws"
| "writerRun cr (Suc k) ws = writerRun cr k (writerStep cr (fst ws) (snd ws))"

lemma appendAttempts_run:
  "\<exists>k. writerRun cr k (Reading n p, s) =
     (case fst (appendAttempts cr n p s) of Inl e \<Rightarrow> Refused e | Inr e \<Rightarrow> Finished e,
      snd (appendAttempts cr n p s))"
proof (induction n arbitrary: s)
  case 0
  then show ?case by (intro exI [of _ 1]) simp
next
  case (Suc n)
  obtain r t where tail: "getCurrentChainTail (p_epochId p) s = (r, t)" by fastforce
  show ?case
  proof (cases r)
    case (Inl e)
    then show ?thesis using tail by (intro exI [of _ 1]) simp
  next
    case (Inr lastEvent)
    obtain i u where ins: "insertEvent (linkEvent cr p (map_option e_hash lastEvent)) t = (i, u)"
      by fastforce
    show ?thesis
    proof (cases i)
      case DuplicatePrevHash
      obtain k where "writerRun cr k (Reading n p, u) =
          (case fst (appendAttempts cr n p u) of Inl e \<Rightarrow> Refused e | Inr e \<Rightarrow> Finished e,
           snd (appendAttempts cr n p u))" using Suc by blast
      then show ?thesis using tail Inr ins DuplicatePrevHash by (intro exI [of _ "Suc (Suc k)"]) simp
    qed (use tail Inr ins in \<open>intro exI [of _ "Suc (Suc 0)"]; simp\<close>)+
  qed
qed

section \<open>The invariant of the log\<close>

text \<open>The hash of a row is that of the metadata it came with, of which the row holds what is stored.\<close>

definition hash_drafted :: "audit_crypto \<Rightarrow> audit_event \<Rightarrow> bool" where
  "hash_drafted cr e =
     (\<exists>m. storedMetadata m = e_metadata e
        \<and> computeHash cr (e_prevHash e) (canonicalPayload (e\<lparr>e_metadata := m\<rparr>)) = e_hash e)"

definition log_ok :: "audit_crypto \<Rightarrow> audit_store \<Rightarrow> bool" where
  "log_ok cr s =
     ((\<forall>e \<in> set (a_events s). e_epochId e \<noteq> None \<and> signature_ok cr (a_env s) e \<and> hash_drafted cr e)
      \<and> (\<forall>epochId. links None (epochChain epochId s)))"

definition pending_ok :: "audit_store \<Rightarrow> pending_event \<Rightarrow> bool" where
  "pending_ok s p =
     (e_epochId (p_event p) = Some (p_epochId p) \<and> e_signature (p_event p) = None
      \<and> p_signing p = getSigningSecret_audit (a_env s))"

definition seen_hash :: "audit_store \<Rightarrow> string \<Rightarrow> string option \<Rightarrow> bool" where
  "seen_hash s epochId prevHash =
     (case prevHash of None \<Rightarrow> True | Some h \<Rightarrow> h \<in> set (hashes (epochChain epochId s)))"

fun writer_ok :: "audit_store \<Rightarrow> writer \<Rightarrow> bool" where
  "writer_ok s (Reading n p) = pending_ok s p"
| "writer_ok s (Linking n p prevHash) = (pending_ok s p \<and> seen_hash s (p_epochId p) prevHash)"
| "writer_ok s w = True"

definition grows :: "audit_store \<Rightarrow> audit_store \<Rightarrow> bool" where
  "grows s t = (a_env t = a_env s \<and> (\<exists>es. a_events t = a_events s @ es))"

lemma grows_refl [simp]: "grows s s"
  by (simp add: grows_def)

lemma grows_trans: "grows s t \<Longrightarrow> grows t u \<Longrightarrow> grows s u"
  by (auto simp: grows_def)

lemma grows_chain: "grows s t \<Longrightarrow> \<exists>es. epochChain epochId t = epochChain epochId s @ es"
  by (auto simp: grows_def epochChain_def)

lemma writer_ok_grows: "grows s t \<Longrightarrow> writer_ok s w \<Longrightarrow> writer_ok t w"
  using grows_chain [of s t]
  by (cases w) (auto simp: pending_ok_def seen_hash_def grows_def hashes_def split: option.splits
      dest!: spec, (metis Un_iff image_eqI set_append list.set_map)+)?

lemma canonicalPayload_linked [simp]:
  "canonicalPayload (e\<lparr>e_prevHash := p, e_hash := h\<rparr>) = canonicalPayload e"
  "canonicalPayload (e\<lparr>e_signature := sg, e_signatureKid := kid\<rparr>) = canonicalPayload e"
  "canonicalPayload (e\<lparr>e_oid := n\<rparr>) = canonicalPayload e"
  by (simp_all add: canonicalPayload_def canonicalFields_def)

lemma canonicalPayload_metadata:
  "canonicalMetadata m = canonicalMetadata (e_metadata e) \<Longrightarrow> canonicalPayload (e\<lparr>e_metadata := m\<rparr>) = canonicalPayload e"
  by (simp add: canonicalPayload_def canonicalFields_def)

lemma storedEvent_fields [simp]:
  "e_prevHash (storedEvent n e) = e_prevHash e" "e_hash (storedEvent n e) = e_hash e"
  "e_epochId (storedEvent n e) = e_epochId e" "e_eventId (storedEvent n e) = e_eventId e"
  "e_metadata (storedEvent n e) = storedMetadata (e_metadata e)"
  "canonicalPayload ((storedEvent n e)\<lparr>e_metadata := m\<rparr>) = canonicalPayload (e\<lparr>e_metadata := m\<rparr>)"
  "signature_ok cr vars (storedEvent n e) = signature_ok cr vars e"
  by (simp_all add: storedEvent_def canonicalPayload_def canonicalFields_def signature_ok_def split: option.split)

lemma linkEvent_fields [simp]:
  "e_metadata (linkEvent cr p prevHash) = e_metadata (p_event p)"
  "canonicalPayload (linkEvent cr p prevHash) = canonicalPayload (p_event p)"
  "e_prevHash (linkEvent cr p prevHash) = prevHash"
  "e_hash (linkEvent cr p prevHash) = computeHash cr prevHash (canonicalPayload (p_event p))"
  "e_epochId (linkEvent cr p prevHash) = e_epochId (p_event p)"
  "e_eventId (linkEvent cr p prevHash) = e_eventId (p_event p)"
  by (simp_all add: linkEvent_def Let_def)

lemma linkEvent_signature:
  assumes "pending_ok s p"
  shows "signature_ok cr (a_env s) (linkEvent cr p prevHash)"
proof (cases "p_signing p")
  case None
  then show ?thesis using assms
    by (simp add: signature_ok_def linkEvent_def pending_ok_def Let_def truthy_opt_def)
next
  case (Some ks)
  obtain kid secret where ks: "ks = (kid, secret)" by fastforce
  have v: "getVerifySecret (a_env s) kid = Some secret"
    using assms Some ks by (intro verify_secret_signing) (simp add: pending_ok_def)
  have unsigned: "e_signature (p_event p) = None" using assms by (simp add: pending_ok_def)
  show ?thesis
    by (simp add: signature_ok_def linkEvent_def Let_def truthy_opt_def Some ks v unsigned)
qed

lemma epochEventFilter_own:
  "e_epochId e = Some i \<Longrightarrow> epochEventFilter epochId e \<longleftrightarrow> epochId = i"
  by (auto simp: epochEventFilter_def)

lemma linkEvent_drafted: "hash_drafted cr (storedEvent n (linkEvent cr p prevHash))"
proof -
  have "canonicalPayload ((linkEvent cr p prevHash)\<lparr>e_metadata := e_metadata (p_event p)\<rparr>) = canonicalPayload (p_event p)"
    using canonicalPayload_metadata [of "e_metadata (p_event p)" "linkEvent cr p prevHash"] by simp
  then show ?thesis by (auto simp: hash_drafted_def intro!: exI [of _ "e_metadata (p_event p)"])
qed

text \<open>The unique index lets an event in only behind the last one of its epoch.\<close>

lemma insert_behind_last:
  assumes "log_ok cr s" "e_epochId e = Some epochId" "seen_hash s epochId (e_prevHash e)"
    and "insertEvent e s = (Inserted saved, t)"
  shows "e_prevHash e = (if epochChain epochId s = [] then None else Some (e_hash (last (epochChain epochId s))))"
    and "saved = storedEvent (length (a_events s)) e" and "t = s\<lparr>a_events := a_events s @ [saved]\<rparr>"
proof -
  have fresh: "\<forall>x \<in> set (a_events s). e_epochId x = e_epochId e \<longrightarrow> e_prevHash x \<noteq> e_prevHash e"
    and "saved = storedEvent (length (a_events s)) e" "t = s\<lparr>a_events := a_events s @ [saved]\<rparr>"
    using assms(4) by (auto simp: insertEvent_def Let_def split: if_splits)
  then show "saved = storedEvent (length (a_events s)) e" "t = s\<lparr>a_events := a_events s @ [saved]\<rparr>"
    by simp_all
  let ?cs = "epochChain epochId s"
  have chain: "links None ?cs" using assms(1) by (simp add: log_ok_def)
  have new: "\<forall>x \<in> set ?cs. e_prevHash x \<noteq> e_prevHash e"
  proof
    fix x assume x: "x \<in> set ?cs"
    then have "e_epochId x \<noteq> None" using assms(1) by (auto simp: log_ok_def epochChain_def)
    then have "e_epochId x = Some epochId"
      using x by (auto simp: epochChain_def epochEventFilter_def split: if_splits)
    then show "e_prevHash x \<noteq> e_prevHash e"
      using x fresh assms(2) by (auto simp: epochChain_def)
  qed
  show "e_prevHash e = (if ?cs = [] then None else Some (e_hash (last ?cs)))"
  proof (cases "e_prevHash e")
    case None
    then have "?cs = []" using new chain by (cases ?cs) auto
    then show ?thesis using None by simp
  next
    case (Some h)
    then obtain x where x: "x \<in> set ?cs" "e_hash x = h"
      using assms(3) by (auto simp: seen_hash_def hashes_def)
    then obtain as bs where cs: "?cs = as @ x # bs" by (meson split_list)
    have "bs = []"
    proof (cases bs)
      case (Cons y ys)
      then have "e_prevHash y = Some h" using links_successor [of None as x y ys] chain cs x by simp
      then show ?thesis using new Some cs Cons by auto
    qed simp
    then show ?thesis using Some x cs by simp
  qed
qed

lemma insert_ok:
  assumes "log_ok cr s" "pending_ok s p" "seen_hash s (p_epochId p) prevHash"
    and "insertEvent (linkEvent cr p prevHash) s = (r, t)"
  shows "log_ok cr t \<and> grows s t"
proof (cases r)
  case (Inserted saved)
  let ?e = "linkEvent cr p prevHash"
  have ep: "e_epochId ?e = Some (p_epochId p)" using assms(2) by (simp add: pending_ok_def)
  note behind = insert_behind_last [OF assms(1) ep _ assms(4) [unfolded Inserted]]
  have prev: "prevHash = (if epochChain (p_epochId p) s = [] then None
      else Some (e_hash (last (epochChain (p_epochId p) s))))"
    and saved: "saved = storedEvent (length (a_events s)) ?e" and t: "t = s\<lparr>a_events := a_events s @ [saved]\<rparr>"
    using behind assms(3) by simp_all
  have eps: "e_epochId saved = Some (p_epochId p)" using saved ep by simp
  have row: "signature_ok cr (a_env s) saved" "hash_drafted cr saved"
    unfolding saved using linkEvent_signature [OF assms(2)] linkEvent_drafted by simp_all
  have "links None (epochChain epochId t)" for epochId
  proof (cases "epochId = p_epochId p")
    case True
    then have "epochChain epochId t = epochChain epochId s @ [saved]"
      using t epochEventFilter_own [OF eps] by (simp add: epochChain_def)
    moreover have "links None (epochChain epochId s)" using assms(1) by (simp add: log_ok_def)
    ultimately show ?thesis using prev saved True by (simp add: links_append)
  next
    case False
    then have "epochChain epochId t = epochChain epochId s"
      using t epochEventFilter_own [OF eps] by (simp add: epochChain_def)
    then show ?thesis using assms(1) by (simp add: log_ok_def)
  qed
  moreover have "\<forall>e \<in> set (a_events t). e_epochId e \<noteq> None \<and> signature_ok cr (a_env t) e \<and> hash_drafted cr e"
    using assms(1) t eps row by (simp add: log_ok_def)
  moreover have "grows s t" using t by (simp add: grows_def)
  ultimately show ?thesis by (simp add: log_ok_def)
qed (use assms in \<open>auto simp: insertEvent_def Let_def split: if_splits\<close>)

lemma tail_member:
  assumes "getCurrentChainTail epochId s = (r, t)"
  shows "t = s" "r = Inr (Some e) \<Longrightarrow> e \<in> set (epochChain epochId s)"
proof -
  show "t = s" using assms
    by (auto simp: getCurrentChainTail_def Let_def return_def throw_def split: if_splits list.splits)
  assume "r = Inr (Some e)"
  then have "e \<in> set (loadEpochEvents epochId s)" using assms
    by (auto simp: getCurrentChainTail_def Let_def return_def throw_def split: if_splits list.splits
        dest!: filter_eq_ConsD)
  then show "e \<in> set (epochChain epochId s)"
    using mset_eq_setD [OF mset_loadEpochEvents] by (simp add: epochChain_def)
qed

lemma writerStep_ok:
  assumes "log_ok cr s" "writer_ok s w" "writerStep cr w s = (w', t)"
  shows "log_ok cr t \<and> writer_ok t w' \<and> grows s t"
proof (cases "(cr, w, s)" rule: writerStep.cases)
  case (2 cr' n p s')
  obtain r u where tail: "getCurrentChainTail (p_epochId p) s = (r, u)" by fastforce
  have "seen_hash s (p_epochId p) (map_option e_hash lastEvent)" if "r = Inr lastEvent" for lastEvent
    using tail_member(2) [OF tail] that
    by (cases lastEvent) (auto simp: seen_hash_def hashes_def)
  then show ?thesis using assms 2 tail tail_member(1) [OF tail] by (auto split: sum.splits)
next
  case (3 cr' n p prevHash s')
  obtain r u where ins: "insertEvent (linkEvent cr p prevHash) s = (r, u)" by fastforce
  have ok: "log_ok cr u \<and> grows s u" using insert_ok [OF assms(1) _ _ ins] assms(2) 3 by simp
  moreover have "pending_ok u p" using ok assms(2) 3 by (simp add: pending_ok_def grows_def)
  ultimately show ?thesis using assms 3 ins by (cases r) auto
qed (use assms in auto)

lemma writerRun_ok:
  assumes "log_ok cr s" "writer_ok s w" "writerRun cr k (w, s) = (w', t)"
  shows "log_ok cr t \<and> writer_ok t w' \<and> grows s t"
  using assms
proof (induction k arbitrary: w s)
  case 0
  then show ?case by simp
next
  case (Suc k)
  obtain v u where step: "writerStep cr w s = (v, u)" by fastforce
  note one = writerStep_ok [OF Suc.prems(1,2) step]
  have "log_ok cr t \<and> writer_ok t w' \<and> grows u t"
    using Suc.IH [of u v] one Suc.prems(3) step by simp
  then show ?case using one grows_trans by blast
qed


section \<open>Every handler keeps the invariant\<close>

text \<open>Only the epochs and the incidents change, or nothing does.\<close>

definition same_events :: "audit_store \<Rightarrow> audit_store \<Rightarrow> bool" where
  "same_events s t = (a_events t = a_events s \<and> a_env t = a_env s \<and> a_epochStorage t = a_epochStorage s)"

lemma same_events_grows: "same_events s t \<Longrightarrow> grows s t"
  by (simp add: same_events_def grows_def)

lemma same_events_ok: "same_events s t \<Longrightarrow> log_ok cr s \<Longrightarrow> log_ok cr t"
  by (simp add: same_events_def log_ok_def epochChain_def)

lemma same_events_trans: "same_events s t \<Longrightarrow> same_events t u \<Longrightarrow> same_events s u"
  by (simp add: same_events_def)

lemma getActiveEpochRecord_same: "getActiveEpochRecord now s = (r, t) \<Longrightarrow> same_events s t"
  by (auto simp: getActiveEpochRecord_def Let_def return_def same_events_def split: if_splits)

lemma getActiveEpochId_same: "getActiveEpochId now s = (r, t) \<Longrightarrow> same_events s t"
proof -
  assume a: "getActiveEpochId now s = (r, t)"
  obtain ep u where g: "getActiveEpochRecord now s = (Inr ep, u)" using getActiveEpochRecord_returns by blast
  show "same_events s t" using a getActiveEpochRecord_same [OF g] by (simp add: getActiveEpochId_def g return_def)
qed

lemma getActiveEpochId_returns: "\<exists>i t. getActiveEpochId now s = (Inr i, t)"
  using getActiveEpochRecord_returns [of now s] by (auto simp: getActiveEpochId_def return_def)

lemma verifyChain_same: "verifyChain cr now limit s = (r, t) \<Longrightarrow> same_events s t"
proof -
  assume a: "verifyChain cr now limit s = (r, t)"
  obtain ep u where g: "getActiveEpochRecord now s = (Inr ep, u)" using getActiveEpochRecord_returns by blast
  show "same_events s t" using a getActiveEpochRecord_same [OF g] by (simp add: verifyChain_def g return_def Let_def)
qed

lemma prepareEvent_same:
  assumes "prepareEvent uuid now dto s = (r, t)"
  shows "same_events s t" "r = Inr p \<Longrightarrow> pending_ok t p"
    "r = Inr p \<Longrightarrow> e_eventId (p_event p) = coalesce (ce_eventId dto) uuid"
proof -
  obtain i u where i: "getActiveEpochId now s = (Inr i, u)" using getActiveEpochId_returns by blast
  show "same_events s t" "r = Inr p \<Longrightarrow> pending_ok t p"
    "r = Inr p \<Longrightarrow> e_eventId (p_event p) = coalesce (ce_eventId dto) uuid"
    using assms getActiveEpochId_same [OF i] i
    by (auto simp: prepareEvent_def return_def throw_def pending_ok_def draftEvent_def split: option.splits)
qed

lemma appendEvent_ok:
  assumes "log_ok cr s" "appendEvent cr uuid now dto s = (r, t)"
  shows "log_ok cr t \<and> grows s t"
proof -
  obtain q u where prep: "prepareEvent uuid now dto s = (q, u)" by fastforce
  note same = prepareEvent_same [OF prep]
  have u: "log_ok cr u" "grows s u" using same_events_ok [OF same(1) assms(1)] same_events_grows [OF same(1)]
    by simp_all
  show ?thesis
  proof (cases q)
    case (Inl e)
    then show ?thesis using assms(2) prep u by (simp add: appendEvent_def)
  next
    case (Inr p)
    obtain k where run: "writerRun cr k (Reading MAX_CHAIN_APPEND_ATTEMPTS p, u) =
        (case r of Inl e \<Rightarrow> Refused e | Inr e \<Rightarrow> Finished e, t)"
      using appendAttempts_run [of cr MAX_CHAIN_APPEND_ATTEMPTS p u] assms(2) prep Inr
      by (auto simp: appendEvent_def)
    have "writer_ok u (Reading MAX_CHAIN_APPEND_ATTEMPTS p)" using same(2) [OF Inr] by simp
    then have "log_ok cr t \<and> grows u t" using writerRun_ok [OF u(1) _ run] by simp
    then show ?thesis using u grows_trans by blast
  qed
qed

lemma andThen_return_state: "andThen m (\<lambda>a. return (f a)) = (r, t) \<Longrightarrow> snd m = t"
  by (cases m; cases "fst m") (auto simp: return_def)

lemma seal_ok:
  assumes "log_ok cr s"
    and "sealCompromisedChainAndStartEpoch cr uuid1 uuid2 uuid3 now reason viewer s = (r, t)"
  shows "log_ok cr t \<and> grows s t"
proof -
  obtain ep u where ep: "getActiveEpochRecord now s = (Inr ep, u)" using getActiveEpochRecord_returns by blast
  obtain v w where v: "verifyChain cr now (Some 5000) u = (Inr (Some v), w)" using verifyChain_returns by blast
  have w: "log_ok cr w" "grows s w"
    using same_events_trans [OF getActiveEpochRecord_same [OF ep] verifyChain_same [OF v]]
      same_events_ok same_events_grows assms(1) by blast+
  have "log_ok cr t \<and> grows w t" if bad: "\<not> v_valid v" "a_epochStorage s"
  proof -
    obtain eps ins dto where "snd (appendEvent cr uuid3 now dto (w\<lparr>a_incidents := ins, a_epochs := eps\<rparr>)) = t"
      using assms(2) bad
      by (auto simp: sealCompromisedChainAndStartEpoch_def Let_def ep v dest!: andThen_return_state)
    then obtain r' where app: "appendEvent cr uuid3 now dto (w\<lparr>a_incidents := ins, a_epochs := eps\<rparr>) = (r', t)"
      by (metis prod.collapse)
    have "same_events w (w\<lparr>a_incidents := ins, a_epochs := eps\<rparr>)" by (simp add: same_events_def)
    then show ?thesis using appendEvent_ok [OF _ app] same_events_ok same_events_grows grows_trans w by metis
  qed
  moreover have "t = s" if "\<not> a_epochStorage s"
    using assms(2) that by (simp add: sealCompromisedChainAndStartEpoch_def throw_def)
  moreover have "t = w" if "a_epochStorage s" "v_valid v"
    using assms(2) that by (simp add: sealCompromisedChainAndStartEpoch_def throw_def ep v)
  ultimately show ?thesis using assms(1) w grows_trans [OF w(2)] grows_refl by metis
qed

lemma audit_step_ok:
  assumes "audit_step cr (s, ws) (t, ws')" "log_ok cr s" "list_all (writer_ok s) ws"
  shows "log_ok cr t \<and> list_all (writer_ok t) ws' \<and> grows s t"
proof -
  have keep: "list_all (writer_ok t) ws" if "grows s t"
    using assms(3) writer_ok_grows [OF that] by (auto simp: list_all_iff)
  show ?thesis using assms(1)
  proof (cases rule: audit_step.cases)
    case (call uuid now dto p)
    then show ?thesis using prepareEvent_same [OF call(2)] same_events_ok same_events_grows keep assms(2) by auto
  next
    case (bad_call uuid now dto e)
    then show ?thesis using prepareEvent_same(1) [OF bad_call(2)] same_events_ok same_events_grows keep assms(2)
      by auto
  next
    case (run i w)
    have "writer_ok s (ws ! i)" using assms(3) run by (simp add: list_all_length)
    note one = writerStep_ok [OF assms(2) this run(3)]
    then have "list_all (writer_ok t) (ws[i := w])" using keep run(2) by (auto simp: list_all_length nth_list_update)
    then show ?thesis using one run by simp
  next
    case (verify now limit r)
    then show ?thesis using verifyChain_same [OF verify(2)] same_events_ok same_events_grows keep assms(2) by auto
  next
    case (sealing uuid1 uuid2 uuid3 now reason viewer r)
    then show ?thesis using seal_ok [OF assms(2) sealing(2)] keep by auto
  qed
qed

lemma audit_run_ok:
  assumes "(audit_step cr)\<^sup>*\<^sup>* (s, ws) (t, ws')" "log_ok cr s" "list_all (writer_ok s) ws"
  shows "log_ok cr t \<and> list_all (writer_ok t) ws' \<and> grows s t"
proof -
  have "log_ok cr (fst sw) \<and> list_all (writer_ok (fst sw)) (snd sw) \<and> grows s (fst sw)"
    if "(audit_step cr)\<^sup>*\<^sup>* (s, ws) sw" for sw
    using that
  proof (induction rule: rtranclp_induct)
    case base
    then show ?case using assms by simp
  next
    case (step sw1 sw2)
    then have st: "audit_step cr (fst sw1, snd sw1) (fst sw2, snd sw2)" by simp
    show ?case using audit_step_ok [OF st] step.IH grows_trans by blast
  qed
  from this [OF assms(1)] show ?thesis by simp
qed

lemma logged_ok:
  assumes "logged cr (s, ws)"
  shows "log_ok cr s" "list_all (writer_ok s) ws"
proof -
  obtain vars storage where run: "(audit_step cr)\<^sup>*\<^sup>* (empty_log vars storage, []) (s, ws)"
    using assms by (auto simp: logged_def)
  have "log_ok cr (empty_log vars storage)" by (simp add: log_ok_def empty_log_def epochChain_def)
  then show "log_ok cr s" "list_all (writer_ok s) ws" using audit_run_ok [OF run] by simp_all
qed

lemma logged_run: "logged cr sw \<Longrightarrow> (audit_step cr)\<^sup>*\<^sup>* sw tw \<Longrightarrow> logged cr tw"
  unfolding logged_def by (meson rtranclp_trans)

section \<open>Metadata that are stored as they came\<close>

definition lossless :: "fields option \<Rightarrow> bool" where
  "lossless m = (canonicalMetadata (storedMetadata m) = canonicalMetadata m)"

fun carries :: "(fields option \<Rightarrow> bool) \<Rightarrow> writer \<Rightarrow> bool" where
  "carries P (Reading n p) = P (e_metadata (p_event p))"
| "carries P (Linking n p prevHash) = P (e_metadata (p_event p))"
| "carries P w = True"

text \<open>The logs reached when the metadata of every request satisfy \<open>P\<close>.\<close>

definition logged_by :: "(fields option \<Rightarrow> bool) \<Rightarrow> audit_crypto \<Rightarrow> audit_store \<times> writer list \<Rightarrow> bool" where
  "logged_by P cr sw =
     (\<exists>vars storage. (\<lambda>a b. audit_step cr a b \<and> list_all (carries P) (snd b))\<^sup>*\<^sup>* (empty_log vars storage, []) sw)"

lemma carries_all: "carries (\<lambda>_. True) w"
  by (cases w) simp_all

lemma logged_by_all: "logged_by (\<lambda>_. True) cr = logged cr"
  by (simp add: fun_eq_iff logged_by_def logged_def carries_all list_all_iff)

lemma logged_by_step:
  "logged_by P cr sw \<Longrightarrow> audit_step cr sw tw \<Longrightarrow> list_all (carries P) (snd tw) \<Longrightarrow> logged_by P cr tw"
  unfolding logged_by_def by (metis (no_types, lifting) rtranclp.rtrancl_into_rtrancl)

lemma logged_by_carries:
  assumes "logged_by P cr sw"
  shows "list_all (carries P) (snd sw)"
proof -
  obtain vars storage where
    run: "(\<lambda>a b. audit_step cr a b \<and> list_all (carries P) (snd b))\<^sup>*\<^sup>* (empty_log vars storage, []) sw"
    using assms by (auto simp: logged_by_def)
  show ?thesis using run by (cases rule: rtranclp.cases) auto
qed

lemma writerStep_carries: "writerStep cr w s = (w', t) \<Longrightarrow> carries P w \<Longrightarrow> carries P w'"
  by (cases "(cr, w, s)" rule: writerStep.cases)
    (auto split: prod.splits sum.splits insert_result.splits)

definition rows_kept :: "audit_crypto \<Rightarrow> audit_store \<Rightarrow> bool" where
  "rows_kept cr s = list_all (hash_kept cr) (a_events s)"

lemma linkEvent_kept:
  "lossless (e_metadata (p_event p)) \<Longrightarrow> hash_kept cr (storedEvent n (linkEvent cr p prevHash))"
proof -
  assume "lossless (e_metadata (p_event p))"
  then have "canonicalPayload (storedEvent n (linkEvent cr p prevHash)) = canonicalPayload (linkEvent cr p prevHash)"
    by (auto simp: storedEvent_def canonicalPayload_def canonicalFields_def lossless_def)
  then show ?thesis by (simp add: hash_kept_def)
qed

lemma insert_kept:
  "rows_kept cr s \<Longrightarrow> lossless (e_metadata (p_event p)) \<Longrightarrow> insertEvent (linkEvent cr p prevHash) s = (r, t)
    \<Longrightarrow> rows_kept cr t"
  by (auto simp: insertEvent_def Let_def rows_kept_def linkEvent_kept split: if_splits)

lemma writerStep_kept:
  assumes "rows_kept cr s" "carries lossless w" "writerStep cr w s = (w', t)"
  shows "rows_kept cr t"
proof (cases "(cr, w, s)" rule: writerStep.cases)
  case (2 cr' n p s')
  obtain r u where tail: "getCurrentChainTail (p_epochId p) s = (r, u)" by fastforce
  show ?thesis using assms 2 tail tail_member(1) [OF tail] by (auto split: sum.splits)
next
  case (3 cr' n p prevHash s')
  obtain r u where ins: "insertEvent (linkEvent cr p prevHash) s = (r, u)" by fastforce
  show ?thesis using assms 3 ins insert_kept [OF assms(1) _ ins] by (cases r) auto
qed (use assms in auto)

lemma writerRun_kept:
  "writerRun cr k (w, s) = (w', t) \<Longrightarrow> rows_kept cr s \<Longrightarrow> carries lossless w \<Longrightarrow> rows_kept cr t"
proof (induction k arbitrary: w s)
  case (Suc k)
  obtain v u where step: "writerStep cr w s = (v, u)" by fastforce
  show ?case
    using Suc.IH [of v u] Suc.prems step writerStep_kept [OF _ _ step] writerStep_carries [OF step] by simp
qed simp

lemma same_events_kept: "same_events s t \<Longrightarrow> rows_kept cr s \<Longrightarrow> rows_kept cr t"
  by (simp add: same_events_def rows_kept_def)

lemma prepareEvent_metadata:
  "prepareEvent uuid now dto s = (Inr p, t) \<Longrightarrow> e_metadata (p_event p) = ce_metadata dto"
  using getActiveEpochId_returns [of now s]
  by (auto simp: prepareEvent_def return_def throw_def draftEvent_def split: option.splits)

lemma appendEvent_kept:
  assumes "appendEvent cr uuid now dto s = (r, t)" "rows_kept cr s" "lossless (ce_metadata dto)"
  shows "rows_kept cr t"
proof -
  obtain q u where prep: "prepareEvent uuid now dto s = (q, u)" by fastforce
  have u: "rows_kept cr u" using same_events_kept [OF prepareEvent_same(1) [OF prep] assms(2)] .
  show ?thesis
  proof (cases q)
    case (Inl e)
    then show ?thesis using assms(1) prep u by (simp add: appendEvent_def)
  next
    case (Inr p)
    obtain k where "writerRun cr k (Reading MAX_CHAIN_APPEND_ATTEMPTS p, u) =
        (case r of Inl e \<Rightarrow> Refused e | Inr e \<Rightarrow> Finished e, t)"
      using appendAttempts_run [of cr MAX_CHAIN_APPEND_ATTEMPTS p u] assms(1) prep Inr by (auto simp: appendEvent_def)
    then show ?thesis
      by (rule writerRun_kept) (use u prep Inr prepareEvent_metadata assms(3) in auto)
  qed
qed

lemma epochStarted_lossless: "lossless (ce_metadata (epochStartedDto now viewer i prev inc v reason))"
  by (simp add: lossless_def storedMetadata_def epochStartedDto_def j_optional_def split: option.split)

lemma seal_kept:
  assumes "sealCompromisedChainAndStartEpoch cr uuid1 uuid2 uuid3 now reason viewer s = (r, t)" "rows_kept cr s"
  shows "rows_kept cr t"
proof -
  obtain ep u where ep: "getActiveEpochRecord now s = (Inr ep, u)" using getActiveEpochRecord_returns by blast
  obtain v w where v: "verifyChain cr now (Some 5000) u = (Inr (Some v), w)" using verifyChain_returns by blast
  have w: "rows_kept cr w"
    using same_events_kept [OF verifyChain_same [OF v]] same_events_kept [OF getActiveEpochRecord_same [OF ep]]
      assms(2) by blast
  have "rows_kept cr t" if bad: "\<not> v_valid v" "a_epochStorage s"
  proof -
    obtain eps ins i prev inc where
      "snd (appendEvent cr uuid3 now (epochStartedDto now viewer i prev inc v reason)
        (w\<lparr>a_incidents := ins, a_epochs := eps\<rparr>)) = t"
      using assms(1) bad
      by (auto simp: sealCompromisedChainAndStartEpoch_def Let_def ep v dest!: andThen_return_state)
    then obtain r' where app: "appendEvent cr uuid3 now (epochStartedDto now viewer i prev inc v reason)
        (w\<lparr>a_incidents := ins, a_epochs := eps\<rparr>) = (r', t)"
      by (metis prod.collapse)
    show ?thesis by (rule appendEvent_kept [OF app _ epochStarted_lossless]) (use w in \<open>simp add: rows_kept_def\<close>)
  qed
  moreover have "t = s" if "\<not> a_epochStorage s"
    using assms(1) that by (simp add: sealCompromisedChainAndStartEpoch_def throw_def)
  moreover have "t = w" if "a_epochStorage s" "v_valid v"
    using assms(1) that by (simp add: sealCompromisedChainAndStartEpoch_def throw_def ep v)
  ultimately show ?thesis using assms(2) w by metis
qed

lemma audit_step_kept:
  assumes "audit_step cr (s, ws) (t, ws')" "rows_kept cr s" "list_all (carries lossless) ws"
  shows "rows_kept cr t"
  using assms(1)
proof (cases rule: audit_step.cases)
  case (run i w)
  then show ?thesis using writerStep_kept [OF assms(2) _ run(3)] assms(3) by (simp add: list_all_length)
next
  case (sealing uuid1 uuid2 uuid3 now reason viewer r)
  then show ?thesis using seal_kept [OF sealing(2) assms(2)] by simp
qed (use assms(2) same_events_kept prepareEvent_same(1) verifyChain_same in blast)+

lemma logged_by_lossless:
  assumes "logged_by lossless cr (s, ws)"
  shows "rows_kept cr s"
proof -
  obtain vars storage where
    run: "(\<lambda>a b. audit_step cr a b \<and> list_all (carries lossless) (snd b))\<^sup>*\<^sup>* (empty_log vars storage, []) (s, ws)"
    using assms by (auto simp: logged_by_def)
  have "rows_kept cr (fst sw) \<and> list_all (carries lossless) (snd sw)"
    if "(\<lambda>a b. audit_step cr a b \<and> list_all (carries lossless) (snd b))\<^sup>*\<^sup>* (empty_log vars storage, []) sw" for sw
    using that
  proof (induction rule: rtranclp_induct)
    case base
    then show ?case by (simp add: rows_kept_def empty_log_def)
  next
    case (step sw tw)
    then have "audit_step cr (fst sw, snd sw) (fst tw, snd tw)" by simp
    from audit_step_kept [OF this] step show ?case by simp
  qed
  from this [OF run] show ?thesis by simp
qed

section \<open>Digests\<close>

text \<open>
  What the log needs of SHA-256: a digest is printed in hexadecimal, so it is not
  empty and has no bar; and no two events of the log that name different events
  before them or are stored with different texts have the same hash.
\<close>

definition hex_digests :: "audit_crypto \<Rightarrow> bool" where
  "hex_digests cr = (\<forall>x. sha256 cr x \<noteq> [] \<and> CHR ''|'' \<notin> set (sha256 cr x))"

definition event_input :: "audit_event \<Rightarrow> string" where
  "event_input e = hash_input (e_prevHash e) (canonicalPayload e)"

definition collision_free :: "audit_event list \<Rightarrow> bool" where
  "collision_free es =
     list_all (\<lambda>e. list_all (\<lambda>f. e_hash e \<noteq> e_hash f \<or> event_input e = event_input f) es) es"

definition digest_or_none :: "string option \<Rightarrow> bool" where
  "digest_or_none p = (case p of None \<Rightarrow> True | Some h \<Rightarrow> h \<noteq> [] \<and> CHR ''|'' \<notin> set h)"

lemma collision_freeD:
  "collision_free es \<Longrightarrow> e \<in> set es \<Longrightarrow> f \<in> set es \<Longrightarrow> e_hash e = e_hash f \<Longrightarrow> event_input e = event_input f"
  unfolding collision_free_def list_all_iff by blast

lemma collision_free_subset: "collision_free es \<Longrightarrow> set fs \<subseteq> set es \<Longrightarrow> collision_free fs"
  unfolding collision_free_def list_all_iff by blast

lemma bar_split:
  assumes "c \<notin> set p" "c \<notin> set q" "p @ c # x = q @ c # y"
  shows "p = q \<and> x = y"
  using assms by (auto simp: append_eq_append_conv2 append_eq_Cons_conv Cons_eq_append_conv)

lemma hash_input_eq:
  assumes "hash_input p x = hash_input q y" "digest_or_none p" "digest_or_none q"
  shows "p = q \<and> x = y"
  using bar_split [of "CHR ''|''" "coalesce p []" "coalesce q []" x y] assms
  by (auto simp: hash_input_def digest_or_none_def split: option.splits)

text \<open>Every hash in the log is one of the digests.\<close>

definition digested :: "audit_crypto \<Rightarrow> audit_event \<Rightarrow> bool" where
  "digested cr e = (\<exists>x. e_hash e = sha256 cr x)"

lemma digested_kept: "hash_kept cr e \<Longrightarrow> digested cr e"
  by (metis computeHash_def digested_def hash_kept_def)

lemma digested_drafted: "hash_drafted cr e \<Longrightarrow> digested cr e"
  by (metis computeHash_def digested_def hash_drafted_def)

lemma digested_hash: "hex_digests cr \<Longrightarrow> digested cr e \<Longrightarrow> digest_or_none (Some (e_hash e))"
proof -
  assume h: "hex_digests cr" and "digested cr e"
  then obtain x where "e_hash e = sha256 cr x" by (auto simp: digested_def)
  then show "digest_or_none (Some (e_hash e))" using h by (simp add: digest_or_none_def hex_digests_def)
qed

lemma links_digests:
  assumes "hex_digests cr" "links prev es" "list_all (digested cr) es" "digest_or_none prev"
  shows "list_all (\<lambda>e. digest_or_none (e_prevHash e) \<and> digest_or_none (Some (e_hash e))) es"
  using assms(2-) by (induction es arbitrary: prev) (simp_all add: digested_hash [OF assms(1)])

lemma chained_digests:
  "hex_digests cr \<Longrightarrow> chained cr prev es \<Longrightarrow> digest_or_none prev
    \<Longrightarrow> list_all (\<lambda>e. digest_or_none (e_prevHash e) \<and> digest_or_none (Some (e_hash e))) es"
  by (rule links_digests) (auto simp: chained_links list_all_iff digested_kept)

lemma distinct_hashes:
  assumes "hex_digests cr" "links None es" "list_all (digested cr) es" "collision_free es"
  shows "distinct (hashes es)"
  using assms(2-)
proof (induction es rule: rev_induct)
  case (snoc x xs)
  have c: "links None xs" and px: "e_prevHash x = (if xs = [] then None else Some (e_hash (last xs)))"
    using snoc.prems(1) unfolding links_append by simp_all
  have d: "distinct (hashes xs)"
    using snoc.IH [OF c _ collision_free_subset [OF snoc.prems(3)]] snoc.prems(2) by auto
  have "e_hash x \<notin> set (hashes xs)"
  proof
    assume "e_hash x \<in> set (hashes xs)"
    then obtain y where y: "y \<in> set xs" "e_hash x = e_hash y" by (auto simp: hashes_def)
    then have "event_input x = event_input y" by (intro collision_freeD [OF snoc.prems(3)]) auto
    moreover have "digest_or_none (e_prevHash x)" "digest_or_none (e_prevHash y)"
      using links_digests [OF assms(1) snoc.prems(1,2)] y by (auto simp: digest_or_none_def list_all_iff)
    ultimately have same: "e_prevHash x = e_prevHash y" using hash_input_eq by (simp add: event_input_def)
    obtain as bs where xs: "xs = as @ y # bs" using y by (meson split_list)
    then have py: "e_prevHash y = (if as = [] then None else Some (e_hash (last as)))"
      using c by (simp add: links_append)
    have ne: "as \<noteq> []" "e_hash (last as) = e_hash (last (y # bs))"
      using same px py xs by (auto split: if_splits)
    then have "e_hash (last as) \<in> set (hashes as)" "e_hash (last as) \<in> set (hashes (y # bs))"
      unfolding hashes_def by (metis in_set_conv_decomp last_in_set list.set_map image_eqI,
          metis last_in_set list.distinct(1) list.set_map image_eqI)
    then show False using d xs by (auto simp: hashes_def)
  qed
  then show ?case using d by simp
qed simp

lemma log_chain:
  assumes "logged cr (s, ws)" "hex_digests cr" "collision_free (a_events s)"
  shows "links None (epochChain epochId s)" "distinct (hashes (epochChain epochId s))"
    "list_all (signature_ok cr (a_env s)) (epochChain epochId s)"
    "list_all (hash_drafted cr) (epochChain epochId s)"
proof -
  note ok = logged_ok(1) [OF assms(1)]
  show c: "links None (epochChain epochId s)" using ok by (simp add: log_ok_def)
  show rows: "list_all (signature_ok cr (a_env s)) (epochChain epochId s)"
    "list_all (hash_drafted cr) (epochChain epochId s)"
    using ok by (simp_all add: log_ok_def epochChain_def list_all_iff)
  have "collision_free (epochChain epochId s)"
    by (rule collision_free_subset [OF assms(3)]) (auto simp: epochChain_def)
  then show "distinct (hashes (epochChain epochId s))"
    using distinct_hashes [OF assms(2) c] rows(2) digested_drafted by (auto simp: list_all_iff)
qed

end
