(* ===== verification/Audit_Properties.thy ===== *)
theory Audit_Properties
  imports Audit_Log
begin

text \<open>
  What the hash chain guarantees and what it does not: appends never fork it,
  whatever their interleaving; a chain that verifies pins down the canonical text
  of every event; and the rewrites of the collection that verification cannot see.
\<close>

section \<open>A sample log\<close>

definition sample_digests :: audit_crypto where
  "sample_digests = \<lparr> sha256 = (\<lambda>x. ''h'' @ show_nat (length x)), hmac_hex = (\<lambda>k m. k @ m) \<rparr>"

lemma show_nat_digits: "list_all is_digit (show_nat n)"
proof (induction n rule: show_nat.induct)
  case (1 n)
  have "is_digit (char_of (48 + m))" if "m < 10" for m :: nat
    using that by (simp add: is_digit_def of_char_of)
  then show ?case using 1 by (subst show_nat.simps) simp
qed

lemma sample_hex: "hex_digests sample_digests"
proof -
  have "CHR ''|'' \<notin> set (show_nat n)" for n
    using show_nat_digits [of n] by (auto simp: list_all_iff is_digit_def)
  then show ?thesis by (simp add: hex_digests_def sample_digests_def)
qed

definition sample_event_dto :: "string \<Rightarrow> string \<Rightarrow> create_event_dto" where
  "sample_event_dto i action = \<lparr>
     ce_eventId = Some i, ce_timestamp = None, ce_actorId = ''alice'', ce_actorRoles = [''editor'', ''approver''],
     ce_action = action, ce_resourceType = ''DOCUMENT'', ce_resourceId = Some ''d1'', ce_result = ''SUCCESS'',
     ce_reason = None, ce_ip = None, ce_traceId = None, ce_metadata = None \<rparr>"

definition signing_vars :: "string \<rightharpoonup> string" where
  "signing_vars = [''AUDIT_SIGNING_KID'' \<mapsto> ''k1'', ''AUDIT_SIGNING_SECRET_k1'' \<mapsto> ''secret'']"

text \<open>Let the writers take database calls in the order given.\<close>

fun play :: "audit_crypto \<Rightarrow> nat list \<Rightarrow> audit_store \<times> writer list \<Rightarrow> audit_store \<times> writer list" where
  "play cr [] sw = sw"
| "play cr (i # is) (s, ws) =
     (if i < length ws then
        (case writerStep cr (ws ! i) s of (w, t) \<Rightarrow> play cr is (t, ws[i := w]))
      else play cr is (s, ws))"

lemma play_logged_by: "logged_by P cr sw \<Longrightarrow> logged_by P cr (play cr is sw)"
proof (induction cr "is" sw rule: play.induct)
  case (2 cr i "is" s ws)
  obtain w t where st: "writerStep cr (ws ! i) s = (w, t)" by fastforce
  show ?case
  proof (cases "i < length ws")
    case True
    note c = logged_by_carries [OF 2(3)]
    then have "carries P w" using writerStep_carries [OF st] True by (simp add: list_all_length)
    then have "list_all (carries P) (snd (t, ws[i := w]))"
      using c True by (auto simp: list_all_length nth_list_update)
    then have "logged_by P cr (t, ws[i := w])"
      using logged_by_step [OF 2(3)] audit_step.run [OF True st] by blast
    then show ?thesis using 2 True st by simp
  qed (use 2 in simp)
qed simp

lemma start_logged_by: "logged_by P cr (empty_log vars storage, [])"
  by (auto simp: logged_by_def)

fun enter :: "(string \<times> create_event_dto) list \<Rightarrow> audit_store \<times> writer list \<Rightarrow> audit_store \<times> writer list" where
  "enter [] sw = sw"
| "enter ((uuid, dto) # calls) (s, ws) =
     (case prepareEvent uuid 1000 dto s of
        (Inr p, t) \<Rightarrow> enter calls (t, ws @ [Reading MAX_CHAIN_APPEND_ATTEMPTS p])
      | (Inl e, t) \<Rightarrow> enter calls (t, ws @ [Refused e]))"

lemma enter_logged_by:
  "logged_by P cr sw \<Longrightarrow> list_all (\<lambda>call. P (ce_metadata (snd call))) calls \<Longrightarrow> logged_by P cr (enter calls sw)"
proof (induction calls sw rule: enter.induct)
  case (2 uuid dto calls s ws)
  obtain r t where p: "prepareEvent uuid 1000 dto s = (r, t)" by fastforce
  note c = logged_by_carries [OF 2(3)]
  show ?case
  proof (cases r)
    case (Inl e)
    then have "logged_by P cr (t, ws @ [Refused e])"
      using logged_by_step [OF 2(3) audit_step.bad_call [OF p [unfolded Inl]]] c by simp
    then show ?thesis using 2 p Inl by simp
  next
    case (Inr q)
    then have "logged_by P cr (t, ws @ [Reading MAX_CHAIN_APPEND_ATTEMPTS q])"
      using logged_by_step [OF 2(3) audit_step.call [OF p [unfolded Inr]]] c 2(4) prepareEvent_metadata [OF p [unfolded Inr]]
      by simp
    then show ?thesis using 2 p Inr by simp
  qed
qed simp

lemmas play_logged = play_logged_by [where P = "\<lambda>_. True", unfolded logged_by_all]
lemmas start_logged = start_logged_by [where P = "\<lambda>_. True", unfolded logged_by_all]

lemma enter_logged: "logged cr sw \<Longrightarrow> logged cr (enter calls sw)"
  using enter_logged_by [where P = "\<lambda>_. True"] by (simp add: logged_by_all list_all_iff)

text \<open>Two writers that both read the empty chain; the loser reads again and retries.\<close>

definition raced_log :: "audit_store \<times> writer list" where
  "raced_log =
     play sample_digests [0, 1, 0, 1, 1, 1]
       (enter [(''u1'', sample_event_dto ''e1'' ''DOCUMENT_ARCHIVE''), (''u2'', sample_event_dto ''e2'' ''DOCUMENT_UPLOADED'')]
         (empty_log signing_vars True, []))"

lemma raced_logged: "logged sample_digests raced_log"
  unfolding raced_log_def by (intro play_logged enter_logged start_logged)

lemma raced_lossless: "logged_by lossless sample_digests raced_log"
  unfolding raced_log_def
  by (intro play_logged_by enter_logged_by start_logged_by)
    (simp add: sample_event_dto_def lossless_def storedMetadata_def)

lemma raced_eval:
  "(case raced_log of (s, ws) \<Rightarrow> (a_events s, a_epochs s, a_epochStorage s)) =
     ([\<lparr> e_oid = 0, e_epochId = Some ''default'', e_eventId = ''e1'', e_timestamp = 1000,
         e_actorId = ''alice'', e_actorRoles = [''editor'', ''approver''], e_action = ''DOCUMENT_ARCHIVE'',
         e_resourceType = ''DOCUMENT'', e_resourceId = Some ''d1'', e_result = ''SUCCESS'', e_reason = None,
         e_ip = None, e_traceId = None, e_metadata = None, e_prevHash = None, e_hash = ''h183'',
         e_signature = Some ''secreth183'', e_signatureKid = Some ''k1'' \<rparr>,
       \<lparr> e_oid = 1, e_epochId = Some ''default'', e_eventId = ''e2'', e_timestamp = 1000,
         e_actorId = ''alice'', e_actorRoles = [''editor'', ''approver''], e_action = ''DOCUMENT_UPLOADED'',
         e_resourceType = ''DOCUMENT'', e_resourceId = Some ''d1'', e_result = ''SUCCESS'', e_reason = None,
         e_ip = None, e_traceId = None, e_metadata = None, e_prevHash = Some ''h183'', e_hash = ''h188'',
         e_signature = Some ''secreth188'', e_signatureKid = Some ''k1'' \<rparr>],
      [initialEpoch 1000], True)"
  by code_simp

lemma raced_rows:
  "map (\<lambda>e. (e_eventId e, e_epochId e, e_hash e)) (a_events (fst raced_log)) =
     [(''e1'', Some ''default'', ''h183''), (''e2'', Some ''default'', ''h188'')]"
  using raced_eval by (simp add: case_prod_beta)

lemma raced_active: "getActiveEpochId now (fst raced_log) = (Inr ''default'', fst raced_log)"
proof -
  have "a_epochs (fst raced_log) = [initialEpoch 1000]" using raced_eval by (simp add: case_prod_beta)
  then show ?thesis
    by (simp add: getActiveEpochId_def getActiveEpochRecord_def activeEpochs_def initialEpoch_def Let_def return_def
        truthy_opt_def truthy_def DEFAULT_EPOCH_ID_def)
qed

lemma collision_free_distinct: "distinct (map e_hash es) \<Longrightarrow> collision_free es"
  unfolding collision_free_def list_all_iff by (metis distinct_map inj_on_eq_iff)

lemma rows_collision_free:
  assumes "map (\<lambda>e. (e_eventId e, e_epochId e, e_hash e)) es = rows" "distinct (map (snd \<circ> snd) rows)"
  shows "collision_free es"
  using assms by (intro collision_free_distinct) (simp add: o_def flip: assms(1))

lemma raced_free: "collision_free (a_events (fst raced_log))"
  by (rule rows_collision_free [OF raced_rows]) simp

lemma chain_of_rows:
  assumes "map (\<lambda>e. (e_eventId e, e_epochId e, e_hash e)) (a_events s) = rows"
    "list_all (\<lambda>r. fst (snd r) = Some ''default'') rows"
  shows "map e_eventId (epochChain ''default'' s) = map fst rows"
proof -
  have "\<forall>e \<in> set (a_events s). epochEventFilter ''default'' e"
    using assms by (auto simp: epochEventFilter_def DEFAULT_EPOCH_ID_def list_all_iff)
  then have "epochChain ''default'' s = a_events s" by (simp add: epochChain_def)
  then show ?thesis by (simp add: o_def flip: assms(1))
qed

section \<open>Appends never fork the chain\<close>

text \<open>
  C5: whatever the order of the database calls of any number of concurrent appends,
  with verifications and recoveries between them, each run as a whole, the events of
  an epoch form one chain in the order of their insertion: each names the hash of the
  one before, no hash occurs twice, every hash is that of the text the event came
  with, and the tail that the next append reads is the last one. When no request has
  metadata that lose an entry as they are stored, every stored event hashes to its hash.
\<close>

theorem appends_never_fork:
  assumes "logged cr (s, ws)" "hex_digests cr" "collision_free (a_events s)"
  shows "links None (epochChain epochId s) \<and> list_all (hash_drafted cr) (epochChain epochId s)
    \<and> distinct (map e_hash (epochChain epochId s))
    \<and> fst (getCurrentChainTail epochId s) =
        Inr (if epochChain epochId s = [] then None else Some (last (epochChain epochId s)))
    \<and> (logged_by lossless cr (s, ws) \<longrightarrow> chained cr None (epochChain epochId s))"
  using log_chain [OF assms] tail_of_chain [OF epochChain_def log_chain(1,2) [OF assms]] logged_by_lossless [of cr s ws]
  by (auto simp: hashes_def chained_links rows_kept_def epochChain_def list_all_iff)

theorem appends_never_fork_witness:
  "chained sample_digests None (epochChain ''default'' (fst raced_log))
    \<and> map e_eventId (epochChain ''default'' (fst raced_log)) = [''e1'', ''e2'']"
proof -
  have "logged sample_digests (fst raced_log, snd raced_log)" using raced_logged by simp
  moreover have "logged_by lossless sample_digests (fst raced_log, snd raced_log)" using raced_lossless by simp
  ultimately have "chained sample_digests None (epochChain ''default'' (fst raced_log))"
    using appends_never_fork [OF _ sample_hex raced_free] by blast
  then show ?thesis using chain_of_rows [OF raced_rows] by simp
qed

lemma slice_to_take: "\<exists>n. slice_to limit xs = take n xs"
  by (cases limit) (auto simp: slice_to_def intro: exI [of _ 0])

lemma verifyChain_events:
  assumes "getActiveEpochId now s = (Inr epochId, u)" "verifyChain cr now limit s = (Inr (Some v), t)"
  obtains v' where "verifyEvents cr (a_env s) limit (loadEpochEvents epochId s) = Some v'" "v_valid v = v_valid v'"
proof -
  obtain ep w where ep: "getActiveEpochRecord now s = (Inr ep, w)" using getActiveEpochRecord_returns by blast
  have E: "epochId = coalesce (map_option ep_epochId ep) DEFAULT_EPOCH_ID"
    using assms(1) by (simp add: getActiveEpochId_def ep return_def)
  have same: "a_events w = a_events s" "a_env w = a_env s" "a_epochStorage w = a_epochStorage s"
    using getActiveEpochRecord_same [OF ep] by (simp_all add: same_events_def)
  then have load: "loadEpochEvents epochId w = loadEpochEvents epochId s" by (simp add: loadEpochEvents_def)
  obtain v' where v': "verifyEvents cr (a_env s) limit (loadEpochEvents epochId s) = Some v'"
    using verifyEvents_returns by blast
  moreover have "v_valid v = v_valid v'"
    using assms(2) v'
    by (auto simp: verifyChain_def ep return_def same load E [symmetric] Let_def withEpoch_def split: if_splits)
  ultimately show thesis using that by blast
qed

text \<open>
  C30: nobody having touched the collection, \<open>verifyChain\<close> answers \<open>valid\<close> exactly when
  the event ids of the active epoch are distinct and every event it checks was stored
  with the text it was hashed with; the latter holds of all events when no request had
  metadata with an entry that is not stored. \<open>create\<close> takes the id from the body and
  nothing stops a second event with the same id, after which the epoch never verifies
  again.
\<close>

theorem verification_iff_distinct_ids:
  assumes "logged cr (s, ws)" "hex_digests cr" "collision_free (a_events s)"
    and "getActiveEpochId now s = (Inr epochId, u)" "verifyChain cr now limit s = (Inr (Some v), t)"
  shows "(v_valid v \<longleftrightarrow> distinct (map e_eventId (epochChain epochId s))
      \<and> list_all (hash_kept cr) (slice_to limit (epochChain epochId s)))
    \<and> (logged_by lossless cr (s, ws) \<longrightarrow> v_valid v = distinct (map e_eventId (epochChain epochId s)))"
proof -
  let ?cs = "epochChain epochId s"
  obtain v' where v': "verifyEvents cr (a_env s) limit (loadEpochEvents epochId s) = Some v'" "v_valid v = v_valid v'"
    using verifyChain_events [OF assms(4,5)] .
  note chain = log_chain [OF assms(1-3), of epochId]
  have m: "mset (loadEpochEvents epochId s) = mset ?cs" by (simp add: mset_loadEpochEvents epochChain_def)
  obtain n where n: "slice_to limit ?cs = take n ?cs" using slice_to_take by blast
  have valid: "v_valid v \<longleftrightarrow> distinct (map e_eventId ?cs) \<and> list_all (hash_kept cr) (slice_to limit ?cs)"
  proof (cases "distinct (ids ?cs)")
    case True
    then have "orderEventsByChain (loadEpochEvents epochId s) = Some (?cs, None)"
      using orderEventsByChain_chain [OF m chain(1,2)] by simp
    moreover have "links None (take n ?cs)" "list_all (signature_ok cr (a_env s)) (take n ?cs)"
      using links_take [OF chain(1)] chain(3) by (auto simp: list_all_iff dest: in_set_takeD)
    ultimately have "v_valid v' \<longleftrightarrow> list_all (hash_kept cr) (take n ?cs)"
      using v'(1) by (auto simp: verifyEvents_def verifyEventSequence_valid n chained_links)
    then show ?thesis using v'(2) True n by (simp add: ids_def eventIdentity_def cong: map_cong)
  next
    case False
    then have "\<not> distinct (ids (loadEpochEvents epochId s))" using ids_mset [OF m] by simp
    then have "firstDuplicate [] (loadEpochEvents epochId s) \<noteq> None" "loadEpochEvents epochId s \<noteq> []"
      by (auto simp: firstDuplicate_None)
    then have "\<not> v_valid v'"
      using v'(1) by (auto simp: verifyEvents_def orderEventsByChain_def broken_def)
    then show ?thesis using v'(2) False by (simp add: ids_def eventIdentity_def cong: map_cong)
  qed
  moreover have "list_all (hash_kept cr) (take n ?cs)" if "logged_by lossless cr (s, ws)"
    using logged_by_lossless [OF that] by (auto simp: rows_kept_def epochChain_def list_all_iff dest: in_set_takeD)
  ultimately show ?thesis using n by auto
qed

definition repeated_log :: "audit_store \<times> writer list" where
  "repeated_log =
     play sample_digests [0, 0, 1, 1]
       (enter [(''u1'', sample_event_dto ''e1'' ''DOCUMENT_ARCHIVE''), (''u2'', sample_event_dto ''e1'' ''DOCUMENT_UPLOADED'')]
         (empty_log signing_vars True, []))"

lemma repeated_eval:
  "(case repeated_log of (s, ws) \<Rightarrow>
      (map (\<lambda>e. (e_eventId e, e_epochId e, e_hash e)) (a_events s), fst (getActiveEpochId 2000 s))) =
     ([(''e1'', Some ''default'', ''h183''), (''e1'', Some ''default'', ''h188'')], Inr ''default'')"
  by code_simp

lemma repeated_rows:
  "map (\<lambda>e. (e_eventId e, e_epochId e, e_hash e)) (a_events (fst repeated_log)) =
     [(''e1'', Some ''default'', ''h183''), (''e1'', Some ''default'', ''h188'')]"
  "fst (getActiveEpochId 2000 (fst repeated_log)) = Inr ''default''"
  using repeated_eval by (simp_all add: case_prod_beta)

theorem verification_iff_distinct_ids_witness:
  "(\<exists>v t. verifyChain sample_digests 2000 (Some 1000) (fst repeated_log) = (Inr (Some v), t) \<and> \<not> v_valid v)
   \<and> (\<exists>v t. verifyChain sample_digests 2000 (Some 1000) (fst raced_log) = (Inr (Some v), t) \<and> v_valid v)"
proof
  have l: "logged sample_digests (fst repeated_log, snd repeated_log)"
    unfolding repeated_log_def prod.collapse by (intro play_logged enter_logged start_logged)
  have c: "collision_free (a_events (fst repeated_log))"
    by (rule rows_collision_free [OF repeated_rows(1)]) simp
  have a: "getActiveEpochId 2000 (fst repeated_log) = (Inr ''default'', snd (getActiveEpochId 2000 (fst repeated_log)))"
    by (metis prod.collapse repeated_rows(2))
  obtain v t where v: "verifyChain sample_digests 2000 (Some 1000) (fst repeated_log) = (Inr (Some v), t)"
    using verifyChain_returns by blast
  from verification_iff_distinct_ids [OF l sample_hex c a v] chain_of_rows [OF repeated_rows(1)] v
  show "\<exists>v t. verifyChain sample_digests 2000 (Some 1000) (fst repeated_log) = (Inr (Some v), t) \<and> \<not> v_valid v"
    by simp
next
  have l: "logged sample_digests (fst raced_log, snd raced_log)" using raced_logged by simp
  have a: "getActiveEpochId 2000 (fst raced_log) = (Inr ''default'', fst raced_log)" by (rule raced_active)
  obtain v t where v: "verifyChain sample_digests 2000 (Some 1000) (fst raced_log) = (Inr (Some v), t)"
    using verifyChain_returns by blast
  have "logged_by lossless sample_digests (fst raced_log, snd raced_log)" using raced_lossless by simp
  with verification_iff_distinct_ids [OF l sample_hex raced_free a v, THEN conjunct2] chain_of_rows [OF raced_rows]
  have "v_valid v" by simp
  then show "\<exists>v t. verifyChain sample_digests 2000 (Some 1000) (fst raced_log) = (Inr (Some v), t) \<and> v_valid v"
    using v by blast
qed

section \<open>Appends make progress\<close>

lemma collision_free_grows: "grows s t \<Longrightarrow> collision_free (a_events t) \<Longrightarrow> collision_free (a_events s)"
  by (rule collision_free_subset) (auto simp: grows_def)

lemma last_unreferenced:
  assumes "links None cs" "distinct (hashes cs)" "x \<in> set cs" "e_prevHash x = Some (e_hash (last cs))"
  shows False
proof -
  obtain xs y where cs: "cs = xs @ [y]" using assms(3) by (metis empty_iff empty_set rev_exhaust)
  have "childrenOf (Some (e_hash y)) (xs @ y # []) = []"
    using childrenOf_chain [of xs y "[]"] assms(1,2) cs by simp
  then show False using assms(3,4) cs by (auto simp: childrenOf_def filter_empty_conv)
qed

text \<open>
  an append that read the tail and then tries to insert is turned away as a
  duplicate exactly when another append to the same epoch got in between: of all
  competing writers one always succeeds, and a writer uses up its 25 attempts only
  while 25 other events are appended.
\<close>

theorem insert_refused_iff_overtaken:
  assumes "logged cr (s, ws)" "(audit_step cr)\<^sup>*\<^sup>* (s, ws) (t, vs)" "hex_digests cr" "collision_free (a_events t)"
    and "getCurrentChainTail (p_epochId p) s = (Inr lastEvent, s')"
    and "e_epochId (p_event p) = Some (p_epochId p)" "schema_ok (linkEvent cr p (map_option e_hash lastEvent))"
  shows "fst (insertEvent (linkEvent cr p (map_option e_hash lastEvent)) t) = DuplicatePrevHash
    \<longleftrightarrow> epochChain (p_epochId p) t \<noteq> epochChain (p_epochId p) s"
proof -
  let ?E = "p_epochId p" let ?e = "linkEvent cr p (map_option e_hash lastEvent)"
  have g: "grows s t" using audit_run_ok [OF assms(2)] logged_ok [OF assms(1)] by simp
  note at_s = log_chain [OF assms(1,3) collision_free_grows [OF g assms(4)], of ?E]
  note at_t = log_chain [OF logged_run [OF assms(1,2)] assms(3,4), of ?E]
  obtain es where es: "epochChain ?E t = epochChain ?E s @ es" using grows_chain [OF g] by blast
  have prev: "map_option e_hash lastEvent =
      (if epochChain ?E s = [] then None else Some (e_hash (last (epochChain ?E s))))"
    using tail_of_chain [OF epochChain_def at_s(1,2)] assms(5) by (simp split: if_splits)
  have own: "x \<in> set (a_events t) \<and> e_epochId x = Some ?E \<longleftrightarrow> x \<in> set (epochChain ?E t)" for x
    using logged_ok(1) [OF logged_run [OF assms(1,2)]]
    by (auto simp: epochChain_def epochEventFilter_def log_ok_def)
  have "fst (insertEvent ?e t) = DuplicatePrevHash
      \<longleftrightarrow> (\<exists>x \<in> set (epochChain ?E t). e_prevHash x = map_option e_hash lastEvent)"
  proof -
    have "fst (insertEvent ?e t) = DuplicatePrevHash
        \<longleftrightarrow> (\<exists>x \<in> set (a_events t). e_epochId x = Some ?E \<and> e_prevHash x = map_option e_hash lastEvent)"
      using assms(6,7) by (simp add: insertEvent_def Let_def)
    then show ?thesis using own by blast
  qed
  also have "\<dots> \<longleftrightarrow> es \<noteq> []"
  proof
    assume "es \<noteq> []"
    then obtain y ys where "es = y # ys" by (meson neq_Nil_conv)
    moreover from this have "e_prevHash y = map_option e_hash lastEvent"
      using at_t(1) unfolding es links_append prev by simp
    ultimately show "\<exists>x \<in> set (epochChain ?E t). e_prevHash x = map_option e_hash lastEvent" using es by auto
  next
    assume "\<exists>x \<in> set (epochChain ?E t). e_prevHash x = map_option e_hash lastEvent"
    then obtain x where x: "x \<in> set (epochChain ?E t)" "e_prevHash x = map_option e_hash lastEvent" by blast
    show "es \<noteq> []"
    proof
      assume "es = []"
      then have "e_prevHash x = Some (e_hash (last (epochChain ?E t)))" using x prev es by (auto split: if_splits)
      then show False using last_unreferenced [OF at_t(1,2)] x by blast
    qed
  qed
  finally show ?thesis using es by simp
qed

definition racing_log :: "audit_store \<times> writer list" where
  "racing_log =
     play sample_digests [0, 1]
       (enter [(''u1'', sample_event_dto ''e1'' ''DOCUMENT_ARCHIVE''), (''u2'', sample_event_dto ''e2'' ''DOCUMENT_UPLOADED'')]
         (empty_log signing_vars True, []))"

definition waiting_event :: pending_event where
  "waiting_event = \<lparr>
     p_epochId = ''default'',
     p_event = draftEvent ''default'' ''e2'' 1000 (sample_event_dto ''e2'' ''DOCUMENT_UPLOADED''),
     p_signing = Some (Some ''k1'', ''secret'') \<rparr>"

lemma play_runs: "(audit_step cr)\<^sup>*\<^sup>* sw (play cr is sw)"
proof (induction cr "is" sw rule: play.induct)
  case (2 cr i "is" s ws)
  obtain w t where st: "writerStep cr (ws ! i) s = (w, t)" by fastforce
  show ?case
  proof (cases "i < length ws")
    case True
    then have "audit_step cr (s, ws) (t, ws[i := w])" using st by (rule audit_step.run)
    then show ?thesis using 2 st True by (simp add: converse_rtranclp_into_rtranclp)
  qed (use 2 in simp)
qed simp

theorem insert_refused_iff_overtaken_witness:
  "fst (insertEvent (linkEvent sample_digests waiting_event None) (fst (play sample_digests [0] racing_log)))
     = DuplicatePrevHash"
proof -
  have l: "logged sample_digests (fst racing_log, snd racing_log)"
    unfolding racing_log_def prod.collapse by (intro play_logged enter_logged start_logged)
  have r: "(audit_step sample_digests)\<^sup>*\<^sup>* (fst racing_log, snd racing_log)
      (fst (play sample_digests [0] racing_log), snd (play sample_digests [0] racing_log))"
    using play_runs by simp
  have rows: "map (\<lambda>e. (e_eventId e, e_epochId e, e_hash e)) (a_events (fst (play sample_digests [0] racing_log)))
      = [(''e1'', Some ''default'', ''h183'')]" by code_simp
  have before: "a_events (fst racing_log) = []" by code_simp
  have tail: "getCurrentChainTail (p_epochId waiting_event) (fst racing_log) = (Inr None, fst racing_log)"
    using before by (simp add: getCurrentChainTail_def loadEpochEvents_def return_def)
  have ok: "schema_ok (linkEvent sample_digests waiting_event (map_option e_hash None))" by code_simp
  have "epochChain ''default'' (fst (play sample_digests [0] racing_log)) \<noteq> epochChain ''default'' (fst racing_log)"
    using chain_of_rows [OF rows] before by (auto simp: epochChain_def)
  with insert_refused_iff_overtaken [OF l r sample_hex rows_collision_free [OF rows] tail _ ok]
  show ?thesis by (simp add: waiting_event_def draftEvent_def)
qed

text \<open>What \<open>create\<close> asks of its body, with the id it generates when there is none.\<close>

definition dto_ok :: "string \<Rightarrow> create_event_dto \<Rightarrow> bool" where
  "dto_ok uuid dto =
     (coalesce (ce_eventId dto) uuid \<noteq> [] \<and> ce_timestamp dto \<noteq> Some None \<and> ce_actorId dto \<noteq> []
      \<and> ce_action dto \<noteq> [] \<and> length (ce_action dto) \<le> 120
      \<and> ce_resourceType dto \<noteq> [] \<and> length (ce_resourceType dto) \<le> 120
      \<and> ce_result dto \<noteq> [] \<and> length (ce_result dto) \<le> 40)"

lemma prepare_draft:
  assumes "dto_ok uuid dto" "getActiveEpochId now s = (Inr epochId, t)"
  shows "prepareEvent uuid now dto s = (Inr \<lparr> p_epochId = epochId,
      p_event = draftEvent epochId (coalesce (ce_eventId dto) uuid)
        (coalesce (Option.bind (ce_timestamp dto) id) now) dto,
      p_signing = getSigningSecret_audit (a_env t) \<rparr>, t)"
  using assms
  by (cases "ce_timestamp dto"; cases "the (ce_timestamp dto)")
    (auto simp: prepareEvent_def return_def dto_ok_def)

lemma linked_schema:
  assumes "dto_ok uuid dto" "hex_digests cr" "p_event p = draftEvent epochId (coalesce (ce_eventId dto) uuid) time dto"
  shows "schema_ok (linkEvent cr p prevHash)"
  using assms by (auto simp: schema_ok_def linkEvent_def Let_def dto_ok_def draftEvent_def hex_digests_def computeHash_def)

lemma append_alone:
  assumes "links None (epochChain (p_epochId p) s)" "distinct (hashes (epochChain (p_epochId p) s))"
    and "pending_ok s p" "\<And>prev. schema_ok (linkEvent cr p prev)"
  shows "\<exists>e. appendAttempts cr (Suc n) p s = (Inr e, s\<lparr>a_events := a_events s @ [e]\<rparr>)
    \<and> e_eventId e = e_eventId (p_event p) \<and> e_epochId e = Some (p_epochId p)
    \<and> (\<exists>prev. e = storedEvent (length (a_events s)) (linkEvent cr p prev))
    \<and> e_prevHash e = (if epochChain (p_epochId p) s = [] then None else Some (e_hash (last (epochChain (p_epochId p) s))))"
proof -
  let ?E = "p_epochId p" let ?cs = "epochChain ?E s"
  let ?prev = "if ?cs = [] then None else Some (e_hash (last ?cs))"
  let ?e = "storedEvent (length (a_events s)) (linkEvent cr p ?prev)"
  have tail: "getCurrentChainTail ?E s = (Inr (if ?cs = [] then None else Some (last ?cs)), s)"
    using tail_of_chain [OF epochChain_def assms(1,2)] .
  have "e_prevHash x \<noteq> ?prev" if "x \<in> set (a_events s)" "e_epochId x = Some ?E" for x
  proof
    assume px: "e_prevHash x = ?prev"
    have x: "x \<in> set ?cs" using that by (auto simp: epochChain_def epochEventFilter_def)
    then have "e_prevHash x = Some (e_hash (last ?cs))" using px by (auto split: if_splits)
    then show False using last_unreferenced [OF assms(1,2) x] by blast
  qed
  then have "insertEvent (linkEvent cr p ?prev) s = (Inserted ?e, s\<lparr>a_events := a_events s @ [?e]\<rparr>)"
    using assms(3,4) by (auto simp: insertEvent_def Let_def pending_ok_def)
  moreover have "map_option e_hash (if ?cs = [] then None else Some (last ?cs)) = ?prev" by simp
  ultimately have "appendAttempts cr (Suc n) p s = (Inr ?e, s\<lparr>a_events := a_events s @ [?e]\<rparr>)"
    by (simp only: appendAttempts.simps tail andThen_simps) (simp add: return_def)
  then show ?thesis using assms(3) by (intro exI [of _ ?e]) (auto simp: pending_ok_def)
qed

text \<open>
  an append that nobody overtakes succeeds at its first attempt, adds one
  event behind the last of the active epoch, and leaves every other epoch alone.
\<close>

theorem lone_append_succeeds:
  assumes "logged cr (s, ws)" "hex_digests cr" "collision_free (a_events s)" "dto_ok uuid dto"
  shows "\<exists>epochId e t. fst (getActiveEpochId now s) = Inr epochId \<and> appendEvent cr uuid now dto s = (Inr e, t)
    \<and> e_eventId e = coalesce (ce_eventId dto) uuid
    \<and> epochChain epochId t = epochChain epochId s @ [e]
    \<and> (\<forall>other. other = epochId \<or> epochChain other t = epochChain other s)"
proof -
  obtain epochId u where ep: "getActiveEpochId now s = (Inr epochId, u)" using getActiveEpochId_returns by blast
  have same: "same_events s u" using getActiveEpochId_same [OF ep] .
  obtain p where p: "prepareEvent uuid now dto s = (Inr p, u)" "p_epochId p = epochId"
    "p_event p = draftEvent epochId (coalesce (ce_eventId dto) uuid) (coalesce (Option.bind (ce_timestamp dto) id) now) dto"
    using prepare_draft [OF assms(4) ep] by simp
  have chains: "epochChain i u = epochChain i s" for i using same by (simp add: same_events_def epochChain_def)
  note cs = log_chain [OF assms(1-3), of epochId]
  have "\<And>prev. schema_ok (linkEvent cr p prev)" using linked_schema [OF assms(4,2) p(3)] .
  then obtain e where e: "appendAttempts cr 25 p u = (Inr e, u\<lparr>a_events := a_events u @ [e]\<rparr>)"
      "e_eventId e = e_eventId (p_event p)" "e_epochId e = Some (p_epochId p)"
    using append_alone [of p u cr 24] cs prepareEvent_same(2) [OF p(1)] p(2) chains by auto
  let ?t = "u\<lparr>a_events := a_events u @ [e]\<rparr>"
  have "appendEvent cr uuid now dto s = (Inr e, ?t)"
    using p(1) e(1) by (simp add: appendEvent_def MAX_CHAIN_APPEND_ATTEMPTS_def)
  moreover have "e_eventId e = coalesce (ce_eventId dto) uuid" using e(2) p(3) by (simp add: draftEvent_def)
  moreover have "epochChain i ?t = (if i = epochId then epochChain i s @ [e] else epochChain i s)" for i
    using e(3) p(2) epochEventFilter_own [of e epochId i] chains [of i] by (simp add: epochChain_def)
  ultimately show ?thesis using ep
    by (intro exI [of _ epochId] exI [of _ e] exI [of _ ?t]) auto
qed

theorem lone_append_succeeds_witness:
  "\<exists>e t. appendEvent sample_digests ''u3'' 2000 (sample_event_dto ''e3'' ''DOCUMENT_ARCHIVE'') (fst raced_log) = (Inr e, t)
     \<and> e_eventId e = ''e3''"
proof -
  have l: "logged sample_digests (fst raced_log, snd raced_log)" using raced_logged by simp
  have "dto_ok ''u3'' (sample_event_dto ''e3'' ''DOCUMENT_ARCHIVE'')" by code_simp
  from lone_append_succeeds [OF l sample_hex raced_free this, of 2000] show ?thesis
    by (auto simp: sample_event_dto_def)
qed

end
