(* ===== verification/Audit_Tampering.thy ===== *)
theory Audit_Tampering
  imports Audit_Properties
begin

text \<open>
  The hash chain against somebody who can write to the collection: what a log
  that verifies pins down, and the changes that verification does not see.
\<close>

section \<open>What orderEventsByChain returns\<close>

lemma followChain_sound:
  assumes "followChain fuel es ordered current = Some (cs, None)" "distinct (ids ordered)" "set ordered \<subseteq> set es"
    "current \<noteq> None \<longrightarrow> the current \<in> set es"
  shows "distinct (ids cs) \<and> set cs \<subseteq> set es"
  using assms
proof (induction fuel es ordered current rule: followChain.induct)
  case (3 fuel es ordered current)
  let ?children = "childrenOf (Some (e_hash current)) es"
  have new: "eventIdentity current \<notin> set (ids ordered)" and one: "\<not> 1 < length ?children"
    and rest: "followChain fuel es (ordered @ [current]) (head_option ?children) = Some (cs, None)"
    using 3(2) by (auto simp: Let_def ids_def split: if_splits)
  have "x \<in> set es" if "head_option ?children = Some x" for x
    using that by (auto simp: childrenOf_def head_option_def split: list.splits dest!: filter_eq_ConsD)
  then show ?case
    using 3(1) [OF _ refl refl _ rest] new one 3(3-5) by (auto simp: ids_def)
qed auto

lemma distinct_subset_same:
  assumes "distinct (map f xs)" "set xs \<subseteq> set ys" "length xs = length ys"
  shows "set xs = set ys" "distinct ys"
proof -
  have d: "distinct xs" using assms(1) by (simp add: distinct_map)
  have "card (set ys) \<le> length ys" by (rule card_length)
  then show "set xs = set ys" using d assms(2,3) by (metis card_seteq distinct_card finite_set)
  then show "distinct ys" using d assms(3) by (metis card_distinct distinct_card)
qed

lemma orderEventsByChain_sound:
  assumes "orderEventsByChain es = Some (cs, None)"
  shows "mset cs = mset es" "distinct (ids cs)"
proof -
  have both: "mset cs = mset es \<and> distinct (ids cs)"
  proof (cases "es = []")
    case True
    then show ?thesis using assms by (simp add: orderEventsByChain_def)
  next
    case False
    obtain g where g: "childrenOf None es = [g]"
      "followChain (Suc (length es)) es [] (Some g) = Some (cs, None)" "length cs = length es"
      using assms False
      by (auto simp: orderEventsByChain_def simp del: followChain.simps
          split: option.splits list.splits prod.splits if_splits)
    have "g \<in> set (childrenOf None es)" using g(1) by simp
    then have "g \<in> set es" by (simp add: childrenOf_def)
    then have cs: "distinct (ids cs)" "set cs \<subseteq> set es" using followChain_sound [OF g(2)] by simp_all
    then have "set cs = set es" "distinct es" using distinct_subset_same [of eventIdentity cs es] g(3)
      by (simp_all add: ids_def)
    moreover have "distinct cs" using cs(1) by (simp add: ids_def distinct_map)
    ultimately show ?thesis using cs(1) by (simp add: set_eq_iff_mset_eq_distinct)
  qed
  then show "mset cs = mset es" "distinct (ids cs)" by simp_all
qed

section \<open>A verified log is pinned down by its last hash\<close>

lemma chains_agree:
  assumes "hex_digests cr" "chained cr None cs" "chained cr None ds"
    and "\<And>e f. e \<in> set cs \<Longrightarrow> f \<in> set ds \<Longrightarrow> e_hash e = e_hash f \<Longrightarrow> event_input e = event_input f"
    and "cs \<noteq> []" "ds \<noteq> []" "e_hash (last cs) = e_hash (last ds)"
  shows "map canonicalPayload cs = map canonicalPayload ds"
  using assms(2-)
proof (induction cs arbitrary: ds rule: rev_induct)
  case (snoc x xs)
  obtain ys y where ds: "ds = ys @ [y]" using snoc.prems(5) by (metis rev_exhaust)
  have cx: "chained cr None xs" and px: "e_prevHash x = (if xs = [] then None else Some (e_hash (last xs)))"
    using snoc.prems(1) unfolding chained_append by simp_all
  have cy: "chained cr None ys" and py: "e_prevHash y = (if ys = [] then None else Some (e_hash (last ys)))"
    using snoc.prems(2) unfolding ds chained_append by simp_all
  have "event_input x = event_input y" using snoc.prems(3) [of x y] snoc.prems(6) ds by simp
  moreover have "digest_or_none (e_prevHash x)" "digest_or_none (e_prevHash y)"
    using chained_digests [OF assms(1) snoc.prems(1)] chained_digests [OF assms(1) snoc.prems(2)] ds
    by (simp_all add: digest_or_none_def)
  ultimately have same: "e_prevHash x = e_prevHash y" "canonicalPayload x = canonicalPayload y"
    using hash_input_eq by (auto simp: event_input_def)
  have "map canonicalPayload xs = map canonicalPayload ys"
  proof (cases "xs = []")
    case True
    then show ?thesis using same(1) px py by (auto split: if_splits)
  next
    case False
    then have "ys \<noteq> []" "e_hash (last xs) = e_hash (last ys)" using same(1) px py by (auto split: if_splits)
    moreover have "\<And>e f. e \<in> set xs \<Longrightarrow> f \<in> set ys \<Longrightarrow> e_hash e = e_hash f \<Longrightarrow> event_input e = event_input f"
      using snoc.prems(3) ds by simp
    ultimately show ?thesis using snoc.IH [OF cx cy] False by blast
  qed
  then show ?case using ds same(2) by simp
qed simp

text \<open>
  C11: if two versions of an epoch both verify as a whole and their chains end in
  the same hash, then they hold the same canonical text event by event, unless two
  different texts with the same SHA-256 hash are among them. Somebody who keeps
  the hash of the last event notices any change of an event's canonical text.
\<close>

theorem verified_logs_agree:
  assumes "hex_digests cr"
    and "orderEventsByChain es = Some (cs, None)" "orderEventsByChain fs = Some (ds, None)"
    and "verifyEvents cr vars (Some (int (length es))) es = Some v" "v_valid v"
    and "verifyEvents cr vars (Some (int (length fs))) fs = Some w" "v_valid w"
    and "cs \<noteq> []" "ds \<noteq> []" "e_hash (last cs) = e_hash (last ds)"
  shows "map canonicalPayload cs = map canonicalPayload ds \<and> mset cs = mset es \<and> mset ds = mset fs
    \<or> (\<exists>e \<in> set es. \<exists>f \<in> set fs. event_input e \<noteq> event_input f
          \<and> sha256 cr (event_input e) = sha256 cr (event_input f))"
proof -
  note cs = orderEventsByChain_sound [OF assms(2)]
  note ds = orderEventsByChain_sound [OF assms(3)]
  have len: "length cs = length es" "length ds = length fs" using cs(1) ds(1) by (auto dest: mset_eq_length)
  have chain: "chained cr None cs" "chained cr None ds"
    using assms(2-7) len by (auto simp: verifyEvents_def verifyEventSequence_valid slice_to_def)
  have input: "e_hash e = sha256 cr (event_input e)" if "chained cr p xs" "e \<in> set xs" for p xs e
    using that by (induction xs arbitrary: p) (auto simp: event_input_def computeHash_def)
  show ?thesis
  proof (cases "\<exists>e \<in> set cs. \<exists>f \<in> set ds. event_input e \<noteq> event_input f \<and> e_hash e = e_hash f")
    case True
    then obtain e f where ef: "e \<in> set cs" "f \<in> set ds" "event_input e \<noteq> event_input f" "e_hash e = e_hash f"
      by blast
    then have "sha256 cr (event_input e) = sha256 cr (event_input f)"
      using input [OF chain(1)] input [OF chain(2)] by metis
    then show ?thesis using ef mset_eq_setD [OF cs(1)] mset_eq_setD [OF ds(1)] by blast
  next
    case False
    then show ?thesis using chains_agree [OF assms(1) chain _ assms(8-10)] cs(1) ds(1) by blast
  qed
qed

lemma chain_verifies:
  assumes "mset es = mset cs" "chained cr None cs" "distinct (hashes cs)" "distinct (ids cs)"
    "list_all (signature_ok cr vars) cs"
  shows "orderEventsByChain es = Some (cs, None)"
    "\<exists>v. verifyEvents cr vars limit es = Some v \<and> v_valid v"
proof -
  show ord: "orderEventsByChain es = Some (cs, None)"
    using orderEventsByChain_chain [OF assms(1) _ assms(3,4)] assms(2) by (simp add: chained_links)
  obtain n where "slice_to limit cs = take n cs" using slice_to_take by blast
  then have "chained cr None (slice_to limit cs)" "list_all (signature_ok cr vars) (slice_to limit cs)"
    using assms(2,5) links_take by (auto simp: chained_links list_all_iff dest: in_set_takeD)
  then show "\<exists>v. verifyEvents cr vars limit es = Some v \<and> v_valid v"
    by (simp add: verifyEvents_def ord verifyEventSequence_valid)
qed

lemma raced_chain:
  "chained sample_digests None (a_events (fst raced_log))" "distinct (hashes (a_events (fst raced_log)))"
  "distinct (ids (a_events (fst raced_log)))"
  "list_all (signature_ok sample_digests (a_env (fst raced_log))) (a_events (fst raced_log))"
  "a_events (fst raced_log) \<noteq> []"
proof -
  have "logged sample_digests (fst raced_log, snd raced_log)" using raced_logged by simp
  note chain = log_chain [OF this sample_hex raced_free, of "''default''"]
  have "\<forall>e \<in> set (a_events (fst raced_log)). epochEventFilter ''default'' e"
    using raced_rows by (auto simp: epochEventFilter_def DEFAULT_EPOCH_ID_def)
  then have "epochChain ''default'' (fst raced_log) = a_events (fst raced_log)" by (simp add: epochChain_def)
  then show "distinct (hashes (a_events (fst raced_log)))"
    "list_all (signature_ok sample_digests (a_env (fst raced_log))) (a_events (fst raced_log))"
    "chained sample_digests None (a_events (fst raced_log))"
    using chain logged_by_lossless [of sample_digests "fst raced_log" "snd raced_log"] raced_lossless
    by (simp_all add: chained_links rows_kept_def)
  have "ids (a_events (fst raced_log)) = [''e1'', ''e2'']"
    using arg_cong [OF raced_rows, of "map fst"] by (simp add: ids_def eventIdentity_def o_def cong: map_cong)
  then show "distinct (ids (a_events (fst raced_log)))" by simp
  show "a_events (fst raced_log) \<noteq> []" using raced_rows by auto
qed

theorem verified_logs_agree_witness:
  "orderEventsByChain (rev (a_events (fst raced_log))) = Some (a_events (fst raced_log), None)
   \<and> map canonicalPayload (a_events (fst raced_log)) = map canonicalPayload (a_events (fst raced_log))
   \<and> mset (rev (a_events (fst raced_log))) = mset (a_events (fst raced_log))"
proof -
  let ?es = "a_events (fst raced_log)" let ?vars = "a_env (fst raced_log)"
  note a = chain_verifies [OF refl raced_chain(1-4)]
  have m: "mset (rev ?es) = mset ?es" by simp
  note b = chain_verifies [OF m raced_chain(1-4)]
  obtain v where v: "verifyEvents sample_digests ?vars (Some (int (length ?es))) ?es = Some v" "v_valid v"
    using a(2) by blast
  obtain w where w: "verifyEvents sample_digests ?vars (Some (int (length (rev ?es)))) (rev ?es) = Some w" "v_valid w"
    using b(2) by blast
  from verified_logs_agree [OF sample_hex a(1) b(1) v w raced_chain(5,5) refl] b(1) show ?thesis by auto
qed

section \<open>Changes that keep the links\<close>

definition keeps_links :: "(audit_event \<Rightarrow> audit_event) \<Rightarrow> bool" where
  "keeps_links f = (\<forall>e. e_eventId (f e) = e_eventId e \<and> e_prevHash (f e) = e_prevHash e
     \<and> e_hash (f e) = e_hash e)"

definition keeps_place :: "(audit_event \<Rightarrow> audit_event) \<Rightarrow> bool" where
  "keeps_place f = (\<forall>e. e_timestamp (f e) = e_timestamp e \<and> e_oid (f e) = e_oid e \<and> e_epochId (f e) = e_epochId e)"

definition keeps_content :: "(audit_event \<Rightarrow> audit_event) \<Rightarrow> bool" where
  "keeps_content f = (\<forall>e. canonicalPayload (f e) = canonicalPayload e
     \<and> e_signature (f e) = e_signature e \<and> e_signatureKid (f e) = e_signatureKid e)"

lemma childrenOf_map: "keeps_links f \<Longrightarrow> childrenOf p (map f es) = map f (childrenOf p es)"
  by (induction es) (simp_all add: keeps_links_def)

lemma head_option_map: "head_option (map f xs) = map_option f (head_option xs)"
  by (cases xs) auto

lemma followChain_map:
  assumes "keeps_links f"
  shows "followChain fuel (map f es) (map f ordered) (map_option f current)
    = map_option (\<lambda>r. (map f (fst r), snd r)) (followChain fuel es ordered current)"
  using assms
proof (induction fuel es ordered current rule: followChain.induct)
  case (3 fuel es ordered current)
  have "set (map eventIdentity (map f ordered)) = set (map eventIdentity ordered)"
    using 3(2) by (simp add: keeps_links_def eventIdentity_def image_image)
  then show ?case
    using 3 by (auto simp: Let_def childrenOf_map head_option_map keeps_links_def eventIdentity_def)
qed auto

lemma firstDuplicate_map: "keeps_links f \<Longrightarrow> firstDuplicate keys (map f es) = firstDuplicate keys es"
  by (induction keys es rule: firstDuplicate.induct) (simp_all add: keeps_links_def eventIdentity_def)

lemma find_map: "find P (map f xs) = map_option f (find (P \<circ> f) xs)"
  by (induction xs) auto

lemma orderEventsByChain_map:
  assumes "keeps_links f"
  shows "orderEventsByChain (map f es) = map_option (\<lambda>r. (map f (fst r), snd r)) (orderEventsByChain es)"
proof -
  have same: "eventIdentity (f e) = eventIdentity e" "e_eventId (f e) = e_eventId e" for e
    using assms by (simp_all add: keeps_links_def eventIdentity_def)
  have lost: "map_option e_eventId (find (\<lambda>e. eventIdentity e \<notin> set (map eventIdentity (map f cs))) (map f es))
      = map_option e_eventId (find (\<lambda>e. eventIdentity e \<notin> set (map eventIdentity cs)) es)" for cs
    by (simp add: find_map o_def same image_image option.map_comp)
  show ?thesis
  proof (cases "es = [] \<or> firstDuplicate [] es \<noteq> None")
    case True
    then show ?thesis by (auto simp: orderEventsByChain_def firstDuplicate_map [OF assms] split: option.splits)
  next
    case False
    show ?thesis
    proof (cases "\<exists>g. childrenOf None es = [g]")
      case True
      then obtain g where g: "childrenOf None es = [g]" by blast
      have follow: "followChain (Suc (length es)) (map f es) [] (Some (f g))
          = map_option (\<lambda>r. (map f (fst r), snd r)) (followChain (Suc (length es)) es [] (Some g))"
        using followChain_map [OF assms, of "Suc (length es)" es "[]" "Some g"] by simp
      show ?thesis
      proof (cases "followChain (Suc (length es)) es [] (Some g)")
        case None
        then show ?thesis using follow False g
          by (simp add: orderEventsByChain_def firstDuplicate_map [OF assms] childrenOf_map [OF assms]
              del: followChain.simps)
      next
        case (Some r)
        obtain cs err where r: "r = (cs, err)" by fastforce
        show ?thesis using follow False g lost [of cs] Some r
          by (cases err) (auto simp: orderEventsByChain_def firstDuplicate_map [OF assms] childrenOf_map [OF assms]
              simp del: followChain.simps)
      qed
    next
      case no: False
      then obtain xs where "childrenOf None es = xs" "length xs \<noteq> 1" by (auto simp: length_Suc_conv)
      then show ?thesis using False
        by (cases xs rule: remdups_adj.cases)
          (auto simp: orderEventsByChain_def firstDuplicate_map [OF assms] childrenOf_map [OF assms])
    qed
  qed
qed

lemma verifyFrom_map:
  "keeps_links f \<Longrightarrow> keeps_content f \<Longrightarrow> verifyFrom cr vars prev i m n (map f es) = verifyFrom cr vars prev i m n es"
  by (induction es arbitrary: prev i m n) (simp_all add: keeps_links_def keeps_content_def Let_def split: option.splits)

lemma slice_to_map: "slice_to n (map f xs) = map f (slice_to n xs)"
  by (simp add: slice_to_def take_map split: option.splits)

lemma verifyEvents_map:
  assumes "keeps_links f" "keeps_content f"
  shows "verifyEvents cr vars limit (map f es) = verifyEvents cr vars limit es"
  using assms
  by (auto simp: verifyEvents_def orderEventsByChain_map slice_to_map verifyEventSequence_def verifyFrom_map
      split: option.splits)

lemma insort_key_map: "insort_key k (f x) (map f xs) = map f (insort_key (k \<circ> f) x xs)"
  by (induction xs) auto

lemma sort_key_map: "sort_key k (map f xs) = map f (sort_key (k \<circ> f) xs)"
  by (induction xs) (auto simp: insort_key_map o_def)

lemma loadEpochEvents_map:
  assumes "keeps_place f"
  shows "loadEpochEvents epochId (s\<lparr>a_events := map f (a_events s)\<rparr>) = map f (loadEpochEvents epochId s)"
proof -
  have "e_timestamp \<circ> f = e_timestamp" "e_oid \<circ> f = e_oid" "epochEventFilter epochId \<circ> f = epochEventFilter epochId"
    using assms by (auto simp: keeps_place_def epochEventFilter_def fun_eq_iff)
  then show ?thesis by (simp add: loadEpochEvents_def filter_map sort_key_map)
qed

lemma getActiveEpochRecord_events:
  "getActiveEpochRecord now (s\<lparr>a_events := es\<rparr>)
   = (fst (getActiveEpochRecord now s), (snd (getActiveEpochRecord now s))\<lparr>a_events := es\<rparr>)"
  by (simp add: getActiveEpochRecord_def activeEpochs_def return_def Let_def)

lemma getCompromisedEpochs_events: "getCompromisedEpochs (s\<lparr>a_events := es\<rparr>) = getCompromisedEpochs s"
  by (simp add: getCompromisedEpochs_def)

lemma verifyChain_map:
  assumes "keeps_links f" "keeps_content f" "keeps_place f"
  shows "fst (verifyChain cr now limit (s\<lparr>a_events := map f (a_events s)\<rparr>)) = fst (verifyChain cr now limit s)"
proof -
  obtain ep t where ep: "getActiveEpochRecord now s = (Inr ep, t)" using getActiveEpochRecord_returns by blast
  have t: "a_events t = a_events s" using getActiveEpochRecord_same [OF ep] by (simp add: same_events_def)
  have "loadEpochEvents i (t\<lparr>a_events := map f (a_events s)\<rparr>) = map f (loadEpochEvents i t)" for i
    using loadEpochEvents_map [OF assms(3), of i t] t by simp
  then show ?thesis
    using verifyEvents_map [OF assms(1,2)]
    by (simp add: verifyChain_def getActiveEpochRecord_events ep return_def Let_def getCompromisedEpochs_events)
qed

definition mergeRoles :: "string \<Rightarrow> audit_event \<Rightarrow> audit_event" where
  "mergeRoles i e =
     (if e_eventId e = i then e\<lparr>e_actorRoles := [join_with '','' (e_actorRoles e)]\<rparr> else e)"

text \<open>
  the roles of an event are hashed as one string with commas, so the list of
  roles of any stored event can be replaced by one role that spells them out: it
  verifies as before, signature included, and queries by role no longer find it.
\<close>

theorem merged_roles_unseen:
  "fst (verifyChain cr now limit (s\<lparr>a_events := map (mergeRoles i) (a_events s)\<rparr>))
   = fst (verifyChain cr now limit s)"
  by (rule verifyChain_map)
    (simp_all add: keeps_links_def keeps_content_def keeps_place_def mergeRoles_def
      canonicalPayload_code canon_entry_def)

text \<open>
  only the first \<open>limit\<close> events of the chain are hashed again (1000 for the
  security summary, at most 5000 for the endpoint, none for a limit that is not a
  number). Whatever is done to the content of the later ones, as long as ids and
  links stay, the answer is the same.
\<close>

theorem unchecked_beyond_limit:
  assumes "keeps_links f" "orderEventsByChain es = Some (cs, None)" "map f (slice_to limit cs) = slice_to limit cs"
  shows "verifyEvents cr vars limit (map f es) = verifyEvents cr vars limit es"
  using assms(2,3) by (simp add: verifyEvents_def orderEventsByChain_map [OF assms(1)] slice_to_map)

definition blame_bob :: "audit_event \<Rightarrow> audit_event" where
  "blame_bob e = (if e_eventId e = ''e2'' then e\<lparr>e_actorId := ''bob''\<rparr> else e)"

theorem unchecked_beyond_limit_witness:
  "verifyEvents sample_digests signing_vars (Some 1) (map blame_bob (a_events (fst raced_log)))
     = verifyEvents sample_digests signing_vars (Some 1) (a_events (fst raced_log))
   \<and> verifyLimit (\<lambda>_. None) (Some ''all'') = None"
proof -
  let ?es = "a_events (fst raced_log)"
  have ids: "map e_eventId ?es = [''e1'', ''e2'']"
    using arg_cong [OF raced_rows, of "map fst"] by (simp add: o_def)
  then obtain x y where es: "?es = [x, y]" "e_eventId x = ''e1''"
    by (auto simp: map_eq_Cons_conv)
  have k: "keeps_links blame_bob" by (simp add: keeps_links_def blame_bob_def)
  have "map blame_bob (slice_to (Some 1) ?es) = slice_to (Some 1) ?es"
    using es by (simp add: slice_to_def blame_bob_def)
  from unchecked_beyond_limit [OF k chain_verifies(1) [OF refl raced_chain(1-4)] this]
  show ?thesis by (simp add: verifyLimit_def truthy_opt_def truthy_def)
qed

section \<open>Rewriting a log without the key\<close>

text \<open>
  What anybody with write access can do: put any events in any order, drop their
  signatures and link them anew.
\<close>

fun relink :: "audit_crypto \<Rightarrow> string option \<Rightarrow> audit_event list \<Rightarrow> audit_event list" where
  "relink cr prev [] = []"
| "relink cr prev (e # es) =
     (let hash = computeHash cr prev (canonicalPayload e)
      in e\<lparr>e_prevHash := prev, e_hash := hash, e_signature := None, e_signatureKid := None\<rparr>
         # relink cr (Some hash) es)"

lemma canonicalPayload_relinked [simp]:
  "canonicalPayload (e\<lparr>e_prevHash := p, e_hash := h, e_signature := None, e_signatureKid := None\<rparr>)
   = canonicalPayload e"
  by (simp add: canonicalPayload_def canonicalFields_def)

lemma relink_chained: "chained cr prev (relink cr prev es)"
  by (induction es arbitrary: prev) (simp_all add: Let_def)

lemma relink_unsigned: "list_all (\<lambda>e. e_signature e = None) (relink cr prev es)"
  by (induction es arbitrary: prev) (simp_all add: Let_def)

lemma relink_content: "map canonicalPayload (relink cr prev es) = map canonicalPayload es"
  by (induction es arbitrary: prev) (simp_all add: Let_def)

lemma ids_event: "ids es = map e_eventId es"
  by (simp add: ids_def eventIdentity_def)

lemma relink_ids [simp]: "ids (relink cr prev es) = ids es"
  by (induction es arbitrary: prev) (simp_all add: Let_def eventIdentity_def)

text \<open>
  the signatures do not stop a rewrite of the log by somebody without the
  secret. Any list of events with distinct ids, linked anew and left unsigned,
  verifies under every signing configuration, because an event without a
  signature counts as a legacy one.
\<close>

theorem unsigned_rewrite_verifies:
  assumes "hex_digests cr" "distinct (map e_eventId es)" "collision_free (relink cr None es)"
  shows "\<exists>v. verifyEvents cr vars limit (relink cr None es) = Some v \<and> v_valid v
    \<and> map canonicalPayload (relink cr None es) = map canonicalPayload es"
proof -
  have "distinct (ids (relink cr None es))" by (simp only: relink_ids) (simp only: ids_event assms(2))
  moreover have "list_all (signature_ok cr vars) (relink cr None es)"
    using relink_unsigned [of cr None es] by (auto simp: list_all_iff signature_ok_def truthy_opt_def)
  moreover have relinked: "links None (relink cr None es)" "list_all (digested cr) (relink cr None es)"
    using relink_chained [of cr None es] digested_kept by (auto simp: chained_links list_all_iff)
  ultimately show ?thesis
    using chain_verifies(2) [OF refl relink_chained distinct_hashes [OF assms(1) relinked assms(3)]]
      relink_content by blast
qed

theorem unsigned_rewrite_verifies_witness:
  "\<exists>v. verifyEvents sample_digests signing_vars (Some 1000)
      (relink sample_digests None (map blame_bob (a_events (fst raced_log)))) = Some v \<and> v_valid v
    \<and> map canonicalPayload (relink sample_digests None (map blame_bob (a_events (fst raced_log))))
      = map canonicalPayload (map blame_bob (a_events (fst raced_log)))"
proof -
  have "map e_eventId (a_events (fst raced_log)) = [''e1'', ''e2'']"
    using arg_cong [OF raced_rows, of "map fst"] by (simp add: o_def)
  then have d: "distinct (map e_eventId (map blame_bob (a_events (fst raced_log))))"
    by (simp add: blame_bob_def o_def if_distrib [of e_eventId] cong: if_cong)
  have ev: "a_events (fst raced_log) = fst (case raced_log of (s, ws) \<Rightarrow> (a_events s, a_epochs s, a_epochStorage s))"
    by (simp add: case_prod_beta)
  have "distinct (map e_hash (relink sample_digests None (map blame_bob (a_events (fst raced_log)))))"
    unfolding ev raced_eval by code_simp
  from unsigned_rewrite_verifies [OF sample_hex d collision_free_distinct [OF this], of signing_vars "Some 1000"]
  show ?thesis .
qed

text \<open>
  deleting the newest events of an epoch that verified leaves a log that verifies.
\<close>

theorem truncated_log_verifies:
  assumes "logged cr (s, ws)" "hex_digests cr" "collision_free (a_events s)"
    and "distinct (map e_eventId (epochChain epochId s))" "list_all (hash_kept cr) (epochChain epochId s)"
  shows "\<exists>v. verifyEvents cr (a_env s) limit (take n (epochChain epochId s)) = Some v \<and> v_valid v"
proof -
  let ?cs = "epochChain epochId s"
  note chain = log_chain [OF assms(1-3), of epochId]
  have "distinct (ids ?cs)" using assms(4) by (simp add: ids_def eventIdentity_def cong: map_cong)
  then have "distinct (hashes (take n ?cs))" "distinct (ids (take n ?cs))"
    using chain(2) by (simp_all add: hashes_def ids_def distinct_take flip: take_map)
  moreover have "list_all (signature_ok cr (a_env s)) (take n ?cs)"
    using chain(3) by (auto simp: list_all_iff dest: in_set_takeD)
  moreover have "chained cr None (take n ?cs)"
    using links_take [OF chain(1)] assms(5) by (auto simp: chained_links list_all_iff dest: in_set_takeD)
  ultimately show ?thesis using chain_verifies(2) [OF refl] by blast
qed

theorem truncated_log_verifies_witness:
  "\<exists>v. verifyEvents sample_digests (a_env (fst raced_log)) (Some 1000)
      (take 1 (epochChain ''default'' (fst raced_log))) = Some v \<and> v_valid v"
proof -
  have l: "logged sample_digests (fst raced_log, snd raced_log)" using raced_logged by simp
  have "distinct (map e_eventId (epochChain ''default'' (fst raced_log)))"
    using chain_of_rows [OF raced_rows] by simp
  moreover have "list_all (hash_kept sample_digests) (epochChain ''default'' (fst raced_log))"
    using logged_by_lossless [of sample_digests "fst raced_log" "snd raced_log"] raced_lossless
    by (auto simp: rows_kept_def epochChain_def list_all_iff)
  ultimately show ?thesis by (rule truncated_log_verifies [OF l sample_hex raced_free])
qed

section \<open>Metadata\<close>

text \<open>
  the order in which the entries of the metadata arrive or come back from the
  collection does not matter to the hash.
\<close>

theorem metadata_order_irrelevant:
  assumes "mset kvs = mset kvs'" "distinct (map fst kvs)"
  shows "canonicalMetadata (Some kvs) = canonicalMetadata (Some kvs')"
proof -
  let ?f = "\<lambda>kv :: string \<times> json. (fst kv, sortMetadataValue (snd kv))"
  have "inj_on fst (set (map ?f kvs))"
    using assms(2) by (auto simp: distinct_map inj_on_def)
  moreover have "mset (map ?f kvs) = mset (map ?f kvs')" using assms(1) by simp
  ultimately have "sort_key fst (map ?f kvs) = sort_key fst (map ?f kvs')"
    by (intro sort_key_inj_key_eq) simp_all
  moreover have "kvs = [] \<longleftrightarrow> kvs' = []" using assms(1) by (metis mset_zero_iff mset_zero_iff_right)
  ultimately show ?thesis by (simp add: canonicalMetadata_def)
qed

theorem metadata_order_irrelevant_witness:
  "canonicalMetadata (Some [(''docId'', JStr ''d1''), (''10'', JNull), (''9'', JNum 3)])
   = canonicalMetadata (Some [(''9'', JNum 3), (''10'', JNull), (''docId'', JStr ''d1'')])"
  by (rule metadata_order_irrelevant) auto

end
