(* ===== verification/Audit_Recovery.thy ===== *)
theory Audit_Recovery
  imports Audit_Tampering
begin

text \<open>
  Recovery from a compromised chain: sealing an epoch that does not verify starts
  an epoch that does, and removes nothing.
\<close>

lemma verifyFrom_checked:
  "v_valid (verifyFrom cr vars prev i m n es) \<Longrightarrow> v_checked (verifyFrom cr vars prev i m n es) = i + length es"
proof (induction es arbitrary: prev i m n)
  case (Cons e es)
  then show ?case by (auto simp: Let_def broken_def split: option.splits if_splits)
qed (simp add: intact_def)

lemma mset_singleton: "mset xs = mset [x] \<Longrightarrow> xs = [x]"
  by (simp add: mset_single_iff)

lemma single_epoch_verifies:
  assumes "a_epochStorage s" "activeEpochs s = [ep]" "ep_epochId ep \<noteq> []" "epochChain (ep_epochId ep) s = [e]"
    and "e_prevHash e = None" "e_hash e = computeHash cr None (canonicalPayload e)" "signature_ok cr (a_env s) e"
  shows "\<exists>w. verifyChain cr now (Some 1000) s = (Inr (Some w), s) \<and> v_valid w \<and> v_checked w = 1"
proof -
  have ep: "getActiveEpochRecord now s = (Inr (Some ep), s)"
    using assms(1-3) by (simp add: getActiveEpochRecord_def Let_def return_def truthy_opt_def truthy_def)
  have load: "loadEpochEvents (ep_epochId ep) s = [e]"
    by (rule mset_singleton) (simp only: mset_loadEpochEvents epochChain_def [symmetric] assms(4))
  have c: "chained cr None [e]" "list_all (signature_ok cr (a_env s)) [e]" using assms(5-7) by simp_all
  have ord: "orderEventsByChain [e] = Some ([e], None)"
    using orderEventsByChain_chain [OF refl, of "[e]"] c(1) by simp
  have "v_valid (verifyFrom cr (a_env s) None 0 0 0 [e])" using c by (simp only: verifyFrom_valid)
  moreover from this have "v_checked (verifyFrom cr (a_env s) None 0 0 0 [e]) = 1"
    using verifyFrom_checked by fastforce
  ultimately show ?thesis using assms(1) ord
    by (simp add: verifyChain_def ep return_def Let_def load verifyEvents_def slice_to_def
        verifyEventSequence_def withEpoch_def del: verifyFrom.simps)
qed

lemma seal_runs:
  assumes "a_epochStorage s" "activeEpochs s = [ep]" "ep_epochId ep \<noteq> []"
    and "verifyChain cr now (Some 5000) s = (Inr (Some v), u)" "\<not> v_valid v"
  shows "u = s \<and> v_epochId v = Some (ep_epochId ep)
    \<and> sealCompromisedChainAndStartEpoch cr uuid1 uuid2 uuid3 now reason viewer s =
      (let incidentId = ''AUDIT-INC-'' @ uuid1;
           actorId = coalesce (vw_actorId viewer) ''unknown'';
           incident = compromiseIncident now incidentId actorId (ep_epochId ep) v reason;
           newEpoch = recoveryEpoch now (''epoch-'' @ uuid2) (ep_epochId ep) incidentId actorId reason
       in andThen (appendEvent cr uuid3 now
            (epochStartedDto now viewer (ep_epochId newEpoch) (ep_epochId ep) incidentId v reason)
            (s\<lparr>a_incidents := a_incidents s @ [incident],
               a_epochs := update_row ep_epochId (ep_epochId ep) (markCompromised now v incidentId reason)
                 (a_epochs s) @ [newEpoch]\<rparr>))
          (\<lambda>event. return \<lparr> sr_incident = incident, sr_newEpoch = newEpoch, sr_event = event \<rparr>))"
proof -
  have ep: "getActiveEpochRecord now s = (Inr (Some ep), s)"
    using assms(1-3) by (simp add: getActiveEpochRecord_def Let_def return_def truthy_opt_def truthy_def)
  have v: "u = s" "v_epochId v = Some (ep_epochId ep)"
    using assms(1,4) by (auto simp: verifyChain_def ep return_def Let_def withEpoch_def)
  then show ?thesis using assms(1,4,5)
    by (simp add: sealCompromisedChainAndStartEpoch_def ep Let_def)
qed

lemma filter_active:
  assumes "activeEpochs s = [ep]"
  shows "filter (\<lambda>e. ep_status e = ACTIVE) (a_epochs s) = [ep]"
  by (rule mset_singleton) (simp flip: assms add: activeEpochs_def)

lemma active_after_seal:
  assumes "activeEpochs s = [ep]"
  shows "activeEpochs (s\<lparr>a_incidents := ins, a_epochs := update_row ep_epochId (ep_epochId ep)
      (markCompromised now v incidentId reason) (a_epochs s) @ [recoveryEpoch now i prev inc actor reason']\<rparr>)
    = [recoveryEpoch now i prev inc actor reason']"
proof -
  have "ep_status x \<noteq> ACTIVE" if "x \<in> set (update_row ep_epochId (ep_epochId ep)
      (markCompromised now v incidentId reason) (a_epochs s))" for x
  proof
    assume a: "ep_status x = ACTIVE"
    then have "x \<in> set (a_epochs s)" "ep_epochId x \<noteq> ep_epochId ep"
      using that by (auto simp: update_row_def markCompromised_def split: if_splits)
    then have "x \<in> set (filter (\<lambda>e. ep_status e = ACTIVE) (a_epochs s))" using a by simp
    then show False using filter_active [OF assms] \<open>ep_epochId x \<noteq> ep_epochId ep\<close> by simp
  qed
  then have "filter (\<lambda>e. ep_status e = ACTIVE) (update_row ep_epochId (ep_epochId ep)
      (markCompromised now v incidentId reason) (a_epochs s)) = []" by (simp add: filter_empty_conv)
  then show ?thesis by (simp add: activeEpochs_def recoveryEpoch_def)
qed

text \<open>
  when the chain of the active epoch does not verify, sealing it always
  succeeds: the epoch becomes COMPROMISED, a fresh one is active whose first event
  records the recovery and verifies, and every event stored before is still there.
\<close>

theorem seal_starts_verified_epoch:
  assumes "a_epochStorage s" "activeEpochs s = [ep]" "ep_epochId ep \<noteq> []"
    and "verifyChain cr now (Some 5000) s = (Inr (Some v), u)" "\<not> v_valid v"
    and "hex_digests cr" "Some (''epoch-'' @ uuid2) \<notin> set (map e_epochId (a_events s))"
    and "vw_actorId viewer \<noteq> Some []" "uuid3 \<noteq> []"
  shows "\<exists>r t w. sealCompromisedChainAndStartEpoch cr uuid1 uuid2 uuid3 now reason viewer s = (Inr r, t)
    \<and> a_events t = a_events s @ [sr_event r] \<and> activeEpochs t = [sr_newEpoch r]
    \<and> list_all (\<lambda>x. ep_epochId x \<noteq> ep_epochId ep \<or> ep_status x = COMPROMISED) (butlast (a_epochs t))
    \<and> verifyChain cr now' (Some 1000) t = (Inr (Some w), t) \<and> v_valid w \<and> v_checked w = 1"
proof -
  let ?inc = "''AUDIT-INC-'' @ uuid1" and ?actor = "coalesce (vw_actorId viewer) ''unknown''"
  let ?incident = "compromiseIncident now ?inc ?actor (ep_epochId ep) v reason"
  let ?new = "recoveryEpoch now (''epoch-'' @ uuid2) (ep_epochId ep) ?inc ?actor reason"
  let ?dto = "epochStartedDto now viewer (ep_epochId ?new) (ep_epochId ep) ?inc v reason"
  let ?s = "s\<lparr>a_incidents := a_incidents s @ [?incident],
      a_epochs := update_row ep_epochId (ep_epochId ep) (markCompromised now v ?inc reason) (a_epochs s) @ [?new]\<rparr>"
  have active: "activeEpochs ?s = [?new]" by (rule active_after_seal [OF assms(2)])
  have newId: "ep_epochId ?new = ''epoch-'' @ uuid2" by (simp add: recoveryEpoch_def)
  have ep: "getActiveEpochId now ?s = (Inr (ep_epochId ?new), ?s)"
    using active assms(1) newId
    by (simp add: getActiveEpochId_def getActiveEpochRecord_def Let_def return_def truthy_opt_def truthy_def)
  have dto: "dto_ok uuid3 ?dto"
    using assms(8,9) by (auto simp: dto_ok_def epochStartedDto_def coalesce_def split: option.splits)
  obtain p where p: "prepareEvent uuid3 now ?dto ?s = (Inr p, ?s)" "p_epochId p = ep_epochId ?new"
    "p_event p = draftEvent (ep_epochId ?new) (coalesce (ce_eventId ?dto) uuid3)
      (coalesce (Option.bind (ce_timestamp ?dto) id) now) ?dto"
    using prepare_draft [OF dto ep] by simp
  have "e_epochId x \<noteq> Some (ep_epochId ?new)" if "x \<in> set (a_events s)" for x
    using assms(7) that newId by (metis image_eqI set_map)
  then have none: "epochChain (ep_epochId ?new) ?s = []"
    using newId by (simp add: epochChain_def epochEventFilter_def DEFAULT_EPOCH_ID_def filter_empty_conv)
  have schema: "\<And>prev. schema_ok (linkEvent cr p prev)" using linked_schema [OF dto assms(6) p(3)] .
  note pend = prepareEvent_same(2) [OF p(1) refl]
  obtain e prev where e: "appendAttempts cr (Suc 24) p ?s = (Inr e, ?s\<lparr>a_events := a_events ?s @ [e]\<rparr>)"
      "e_epochId e = Some (p_epochId p)" "e = storedEvent (length (a_events ?s)) (linkEvent cr p prev)"
      "e_prevHash e = None"
    using append_alone [of p ?s cr 24] none p(2) pend schema by auto
  let ?t = "?s\<lparr>a_events := a_events s @ [e]\<rparr>"
  have app: "appendEvent cr uuid3 now ?dto ?s = (Inr e, ?t)"
    using p(1) e(1) by (simp add: appendEvent_def MAX_CHAIN_APPEND_ATTEMPTS_def del: appendAttempts.simps)
  have run: "sealCompromisedChainAndStartEpoch cr uuid1 uuid2 uuid3 now reason viewer s
      = (Inr \<lparr> sr_incident = ?incident, sr_newEpoch = ?new, sr_event = e \<rparr>, ?t)"
    using seal_runs [OF assms(1-5), of uuid1 uuid2 uuid3 reason viewer] app by (simp add: Let_def return_def)
  have at: "activeEpochs ?t = [?new]" using active by (simp add: activeEpochs_def)
  have single: "epochChain (ep_epochId ?new) ?t = [e]"
    using none e(2) p(2) epochEventFilter_own [of e] by (simp add: epochChain_def)
  have sig: "signature_ok cr (a_env ?t) e" using linkEvent_signature [OF pend] e(3) by simp
  have "hash_kept cr e"
    unfolding e(3) using linkEvent_kept prepareEvent_metadata [OF p(1)] epochStarted_lossless by simp
  then have "e_hash e = computeHash cr None (canonicalPayload e)" using e(4) by (simp add: hash_kept_def)
  from single_epoch_verifies [OF _ at _ single e(4) this sig] assms(1) newId
  obtain w where w: "verifyChain cr now' (Some 1000) ?t = (Inr (Some w), ?t)" "v_valid w" "v_checked w = 1"
    by fastforce
  have marked: "list_all (\<lambda>x. ep_epochId x \<noteq> ep_epochId ep \<or> ep_status x = COMPROMISED) (butlast (a_epochs ?t))"
    by (auto simp: list_all_iff update_row_def markCompromised_def)
  show ?thesis using run at w marked
    by (intro exI [of _ "\<lparr> sr_incident = ?incident, sr_newEpoch = ?new, sr_event = e \<rparr>"] exI [of _ ?t] exI [of _ w])
      simp
qed

definition tampered_log :: audit_store where
  "tampered_log = (fst raced_log)\<lparr>a_events := map blame_bob (a_events (fst raced_log))\<rparr>"

lemma tampered_facts:
  "activeEpochs (fst raced_log) = [initialEpoch 1000]" "a_epochStorage (fst raced_log)"
  "\<not> chained sample_digests None (map blame_bob (a_events (fst raced_log)))"
proof -
  have parts: "a_events (fst raced_log) = fst (case raced_log of (s, ws) \<Rightarrow> (a_events s, a_epochs s, a_epochStorage s))"
    "a_epochs (fst raced_log) = [initialEpoch 1000]" "a_epochStorage (fst raced_log)"
    using raced_eval by (simp_all add: case_prod_beta)
  show "activeEpochs (fst raced_log) = [initialEpoch 1000]"
    unfolding activeEpochs_def parts(2) by (simp add: initialEpoch_def)
  show "a_epochStorage (fst raced_log)" by (rule parts(3))
  show "\<not> chained sample_digests None (map blame_bob (a_events (fst raced_log)))"
    unfolding parts(1) raced_eval by code_simp
qed

lemma tampered_broken:
  assumes "verifyChain sample_digests 9000 (Some 5000) tampered_log = (Inr (Some v), u)"
  shows "\<not> v_valid v"
proof -
  let ?es = "a_events (fst raced_log)"
  have act: "activeEpochs tampered_log = [initialEpoch 1000]"
    using tampered_facts(1) by (simp add: tampered_log_def activeEpochs_def)
  then have ep: "getActiveEpochRecord 9000 tampered_log = (Inr (Some (initialEpoch 1000)), tampered_log)"
    using tampered_facts(2)
    by (simp add: getActiveEpochRecord_def Let_def return_def truthy_opt_def truthy_def initialEpoch_def
        DEFAULT_EPOCH_ID_def tampered_log_def)
  have all: "\<forall>e \<in> set ?es. epochEventFilter ''default'' e"
    using raced_rows by (auto simp: epochEventFilter_def DEFAULT_EPOCH_ID_def)
  have k: "keeps_links blame_bob" "keeps_place blame_bob"
    by (simp_all add: keeps_links_def keeps_place_def blame_bob_def)
  have "mset (loadEpochEvents ''default'' (fst raced_log)) = mset ?es"
    using all by (simp add: mset_loadEpochEvents filter_True flip: mset_filter)
  then have "orderEventsByChain (loadEpochEvents ''default'' (fst raced_log)) = Some (?es, None)"
    using chain_verifies(1) raced_chain(1-4) by blast
  then have ord: "orderEventsByChain (loadEpochEvents ''default'' tampered_log) = Some (map blame_bob ?es, None)"
    unfolding tampered_log_def loadEpochEvents_map [OF k(2)] by (simp add: orderEventsByChain_map [OF k(1)])
  have "length ?es = 2" using arg_cong [OF raced_rows, of length] by simp
  then have "slice_to (Some 5000) (map blame_bob ?es) = map blame_bob ?es" by (simp add: slice_to_def)
  then have "verifyEvents sample_digests (a_env tampered_log) (Some 5000) (loadEpochEvents ''default'' tampered_log)
      = Some (verifyEventSequence sample_digests (a_env tampered_log) (map blame_bob ?es))"
    using ord by (simp add: verifyEvents_def)
  moreover have "\<not> v_valid (verifyEventSequence sample_digests (a_env tampered_log) (map blame_bob ?es))"
    using tampered_facts(3) by (simp only: verifyEventSequence_valid simp_thms)
  moreover have "ep_epochId (initialEpoch 1000) = ''default''" by (simp add: initialEpoch_def DEFAULT_EPOCH_ID_def)
  moreover have "a_epochStorage tampered_log" using tampered_facts(2) by (simp add: tampered_log_def)
  ultimately show ?thesis using assms by (auto simp: verifyChain_def ep return_def Let_def withEpoch_def)
qed

theorem seal_starts_verified_epoch_witness:
  "\<exists>r t w. sealCompromisedChainAndStartEpoch sample_digests ''i'' ''n'' ''u'' 9000 ''tampering found''
      \<lparr> vw_actorId = Some ''carol'', vw_roles = Some [''admin''], vw_ip = None, vw_traceId = None \<rparr> tampered_log
      = (Inr r, t)
    \<and> activeEpochs t = [sr_newEpoch r]
    \<and> verifyChain sample_digests 9500 (Some 1000) t = (Inr (Some w), t) \<and> v_valid w"
proof -
  obtain v u where v: "verifyChain sample_digests 9000 (Some 5000) tampered_log = (Inr (Some v), u)"
    using verifyChain_returns by blast
  have act: "a_epochStorage tampered_log" "activeEpochs tampered_log = [initialEpoch 1000]"
    "ep_epochId (initialEpoch 1000) \<noteq> []"
    using tampered_facts by (simp_all add: tampered_log_def activeEpochs_def initialEpoch_def DEFAULT_EPOCH_ID_def)
  have "map e_epochId (a_events tampered_log) = map (fst \<circ> snd) [(''e1'', Some ''default'', ''h183''), (''e2'', Some ''default'', ''h188'')]"
    unfolding raced_rows [symmetric] by (simp add: tampered_log_def blame_bob_def)
  then have new: "Some (''epoch-'' @ ''n'') \<notin> set (map e_epochId (a_events tampered_log))" by simp
  have actor: "vw_actorId \<lparr> vw_actorId = Some ''carol'', vw_roles = Some [''admin''], vw_ip = None, vw_traceId = None \<rparr>
      \<noteq> Some []" "''u'' \<noteq> []" by simp_all
  from seal_starts_verified_epoch [OF act v tampered_broken [OF v] sample_hex new actor,
      of "''i''" "''tampering found''" 9500]
  show ?thesis by blast
qed

end
