(* ===== verification/Audit_Minimize.thy ===== *)
theory Audit_Minimize
  imports Audit_Tampering Documents_Service Sample_Vault
begin

text \<open>
  From a handler of the metadata service to the chain of the audit service: the body
  that \<open>AuditClient\<close> (\<open>services/metadata-service/src/audit/audit.client.ts\<close>) posts, the
  event \<open>create\<close> makes of it, and what verification later says of the row. An
  update that changes nothing is logged with an empty object in its metadata, which
  is hashed but not stored.
\<close>

section \<open>The body of a post\<close>

text \<open>\<open>JSON.stringify\<close> and \<open>JSON.parse\<close> on the way: dates arrive as strings.\<close>

fun wireJson :: "json \<Rightarrow> json" where
  "wireJson (JDate t) = JStr (toISOString t)"
| "wireJson (JArr vs) = JArr (map wireJson vs)"
| "wireJson (JObj kvs) = JObj (map (\<lambda>kv. (fst kv, wireJson (snd kv))) kvs)"
| "wireJson v = v"

definition auditBody :: "audit_post \<Rightarrow> create_event_dto" where
  "auditBody p = \<lparr>
     ce_eventId = None,
     ce_timestamp = Some (Some (po_timestamp p)),
     ce_actorId = po_actorId p,
     ce_actorRoles = po_actorRoles p,
     ce_action = ap_action (po_event p),
     ce_resourceType = ap_resourceType (po_event p),
     ce_resourceId = ap_resourceId (po_event p),
     ce_result = ap_result (po_event p),
     ce_reason = ap_reason (po_event p),
     ce_ip = po_ip p,
     ce_traceId = po_traceId p,
     ce_metadata = Some (map (\<lambda>kv. (fst kv, wireJson (snd kv))) (ap_metadata (po_event p))) \<rparr>"

section \<open>An update that changes nothing\<close>

definition changes_nothing :: "update_document_dto \<Rightarrow> bool" where
  "changes_nothing dto =
     (ud_title dto = None \<and> ud_description dto = None \<and> ud_classification dto = None \<and> ud_tags dto = None)"

lemma blank_update_post:
  assumes "updateDocument now i dto context s = (Inr d, t)" "audit_on s" "changes_nothing dto"
  shows "ce_metadata (auditBody (last (auditPosts t)))
    = Some [(''docId'', JStr i), (''changes'', JObj []), (''updatedAt'', JStr (toISOString (d_updatedAt d)))]"
proof -
  obtain doc u where doc: "findInOrgOrThrow now (c_actorId context) i s = (Inr doc, u)"
    using assms(1) by (cases "findInOrgOrThrow now (c_actorId context) i s"; cases "fst (findInOrgOrThrow now (c_actorId context) i s)")
      (auto simp: updateDocument_def)
  have changes: "metadataChanges doc dto = []"
    using assms(3) by (simp add: metadataChanges_def changes_nothing_def j_optional_def)
  have "env u = env s" using only_logs_findInOrgOrThrow [of s now "c_actorId context" i] doc by (simp add: only_logsD)
  then have on: "audit_on w" if "env w = env u" for w using assms(2) that by (simp add: audit_on_def)
  let ?w = "u\<lparr>documents := update_row d_id i (\<lambda>d. applyUpdate dto d\<lparr>d_updatedAt := now\<rparr>) (documents u)\<rparr>"
  have "d_updatedAt d = now \<and> t = emitEvent now context \<lparr>
      ap_action = ''DOCUMENT_METADATA_UPDATED'', ap_resourceType = ''DOCUMENT'', ap_resourceId = Some i,
      ap_result = ''SUCCESS'', ap_reason = None,
      ap_metadata = [(''docId'', JStr i), (''changes'', JObj []), (''updatedAt'', JDate now)] \<rparr> ?w"
    using assms(1,3) doc changes
    by (auto simp: updateDocument_def assertCanManage_def dlpDowngradeGuard_def changes_nothing_def Let_def return_def
        throw_def prismaUpdateDocument_def split: if_splits option.splits)
  moreover have "audit_on ?w" by (rule on) simp
  ultimately show ?thesis by (simp add: auditPosts_emitEvent auditBody_def)
qed

lemma blank_metadata_lost:
  "canonicalMetadata (storedMetadata (Some [(''docId'', JStr i), (''changes'', JObj []), (''updatedAt'', JStr t)]))
   \<noteq> canonicalMetadata (Some [(''docId'', JStr i), (''changes'', JObj []), (''updatedAt'', JStr t)])"
  by (simp add: storedMetadata_def canonicalMetadata_def own_order_def array_index_def is_digit_def quote_def
      escape_char_def Let_def char_of_def)

lemma blank_metadata_texts:
  "canonicalMetadata (Some ((k, x) # m)) \<noteq> None"
  "canonicalMetadata (storedMetadata (Some [(''docId'', JStr i), (''changes'', JObj []), (''updatedAt'', JStr t)])) \<noteq> None"
  by (simp_all add: storedMetadata_def canonicalMetadata_def)

section \<open>The canonical text pins down the metadata\<close>

lemma payload_metadata_inj:
  assumes "canonicalPayload (e\<lparr>e_metadata := m\<rparr>) = canonicalPayload (e\<lparr>e_metadata := m'\<rparr>)"
    "canonicalMetadata m \<noteq> None" "canonicalMetadata m' \<noteq> None"
  shows "canonicalMetadata m = canonicalMetadata m'"
  using assms by (auto simp: canonicalPayload_code canon_entry_def)

section \<open>Rows whose text was not kept\<close>

lemma followChain_error: "followChain fuel es ordered current = Some (cs, Some err) \<Longrightarrow> \<not> v_valid err"
proof (induction fuel es ordered current rule: followChain.induct)
  case (3 fuel es ordered current)
  then show ?case by (auto simp: Let_def broken_def split: if_splits)
qed simp_all

lemma orderEventsByChain_error: "orderEventsByChain es = Some (cs, Some err) \<Longrightarrow> \<not> v_valid err"
  by (auto simp: orderEventsByChain_def broken_def simp del: followChain.simps dest: followChain_error
      split: option.splits list.splits prod.splits if_splits)

lemma lost_row_fails:
  assumes "getActiveEpochId now s = (Inr epochId, u)" "verifyChain cr now (Some limit) s = (Inr (Some r), t)"
    and "e \<in> set (epochChain epochId s)" "\<not> hash_kept cr e" "int (length (epochChain epochId s)) \<le> limit"
  shows "\<not> v_valid r"
proof -
  let ?es = "loadEpochEvents epochId s"
  obtain v where v: "verifyEvents cr (a_env s) (Some limit) ?es = Some v" "v_valid r = v_valid v"
    using verifyChain_events [OF assms(1,2)] .
  have m: "mset ?es = mset (epochChain epochId s)" by (simp add: mset_loadEpochEvents epochChain_def)
  obtain cs err where ord: "orderEventsByChain ?es = Some (cs, err)"
    using v(1) by (auto simp: verifyEvents_def split: option.splits)
  show ?thesis
  proof (cases err)
    case None
    have cs: "mset cs = mset (epochChain epochId s)" using orderEventsByChain_sound(1) [OF ord [unfolded None]] m by simp
    then have "length cs = length (epochChain epochId s)" "e \<in> set cs"
      using assms(3) by (metis size_mset, metis set_mset_mset)
    then have "slice_to (Some limit) cs = cs" using assms(5) by (simp add: slice_to_def)
    then have "v = verifyEventSequence cr (a_env s) cs" using v(1) ord None by (simp add: verifyEvents_def)
    moreover have "\<not> list_all (hash_kept cr) cs" using \<open>e \<in> set cs\<close> assms(4) by (auto simp: list_all_iff)
    ultimately show ?thesis using v(2) by (simp add: verifyEventSequence_valid chained_links)
  next
    case (Some x)
    then show ?thesis using v ord orderEventsByChain_error by (simp add: verifyEvents_def)
  qed
qed

lemma appendAttempts_row:
  "appendAttempts cr n p s = (Inr e, t) \<Longrightarrow>
     (\<exists>k prev. e = storedEvent k (linkEvent cr p prev)) \<and> e \<in> set (a_events t)"
proof (induction n arbitrary: s)
  case 0
  then show ?case by (simp add: throw_def)
next
  case (Suc n)
  obtain q u where tail: "getCurrentChainTail (p_epochId p) s = (q, u)" by fastforce
  obtain lastEvent where q: "q = Inr lastEvent" using Suc.prems tail by (cases q) auto
  obtain i w where ins: "insertEvent (linkEvent cr p (map_option e_hash lastEvent)) u = (i, w)" by fastforce
  show ?case
  proof (cases i)
    case DuplicatePrevHash
    then show ?thesis using Suc tail q ins by simp
  next
    case (Inserted saved)
    then have "e = saved" "t = w" using Suc.prems tail q ins by (simp_all add: return_def)
    then show ?thesis using ins Inserted by (auto simp: insertEvent_def Let_def split: if_splits)
  next
    case ValidationFailed
    then show ?thesis using Suc.prems tail q ins by (simp add: throw_def)
  qed
qed

lemma appendEvent_row:
  assumes "appendEvent cr uuid now dto s = (Inr e, t)"
  obtains k p prev where "e = storedEvent k (linkEvent cr p prev)" "e_metadata (p_event p) = ce_metadata dto"
    "e \<in> set (a_events t)"
proof -
  obtain p u where p: "prepareEvent uuid now dto s = (Inr p, u)" "appendAttempts cr MAX_CHAIN_APPEND_ATTEMPTS p u = (Inr e, t)"
    using assms unfolding appendEvent_def by (cases "prepareEvent uuid now dto s"; cases "fst (prepareEvent uuid now dto s)") auto
  show thesis using that appendAttempts_row [OF p(2)] prepareEvent_metadata [OF p(1)] by blast
qed

definition no_collision :: "audit_crypto \<Rightarrow> string \<Rightarrow> string \<Rightarrow> bool" where
  "no_collision cr x y = (sha256 cr x = sha256 cr y \<longrightarrow> x = y)"

lemma lossy_row:
  assumes "e = storedEvent k (linkEvent cr p prev)" "e_metadata (p_event p) = m"
    and "canonicalMetadata m \<noteq> None" "canonicalMetadata (storedMetadata m) \<noteq> None"
    and "canonicalMetadata (storedMetadata m) \<noteq> canonicalMetadata m"
    and "no_collision cr (event_input (e\<lparr>e_metadata := m\<rparr>)) (event_input e)"
  shows "\<not> hash_kept cr e"
proof
  assume kept: "hash_kept cr e"
  have "e_metadata e = storedMetadata m" using assms(1,2) by simp
  then have whole: "e\<lparr>e_metadata := storedMetadata m\<rparr> = e" by (metis audit_event.surjective audit_event.update_convs(14))
  have text_hashed: "canonicalPayload (e\<lparr>e_metadata := m\<rparr>) = canonicalPayload (p_event p)"
    unfolding assms(1) using canonicalPayload_metadata [of m "linkEvent cr p prev"] assms(2) by simp
  have "e_prevHash e = prev" "e_hash e = computeHash cr prev (canonicalPayload (p_event p))"
    unfolding assms(1) by simp_all
  then have "sha256 cr (event_input (e\<lparr>e_metadata := m\<rparr>)) = e_hash e"
    by (simp add: event_input_def computeHash_def text_hashed)
  moreover have "sha256 cr (event_input e) = e_hash e"
    using kept unfolding hash_kept_def computeHash_def event_input_def .
  ultimately have "event_input (e\<lparr>e_metadata := m\<rparr>) = event_input e"
    using assms(6) unfolding no_collision_def by simp
  then have "canonicalPayload (e\<lparr>e_metadata := m\<rparr>) = canonicalPayload (e\<lparr>e_metadata := storedMetadata m\<rparr>)"
    using whole by (simp add: event_input_def hash_input_def)
  from payload_metadata_inj [OF this assms(3,4)] show False using assms(5) by simp
qed

section \<open>A blank update breaks the chain\<close>

text \<open>
  C36: an update of a document that asks for no change succeeds and is logged, and
  from then on the epoch it was logged in never verifies: whatever the other writers
  do afterwards, \<open>verifyChain\<close> answers \<open>valid: false\<close> whenever its limit reaches the
  whole epoch, unless the text that was hashed and the one that was stored have the
  same SHA-256 hash. Nobody touched the collection: the empty \<open>changes\<close> of the event
  is hashed and not stored.
\<close>

theorem blank_update_breaks_chain:
  assumes "updateDocument now i dto context v = (Inr d, v')" "audit_on v" "changes_nothing dto"
    and "logged cr (s, ws)" "appendEvent cr uuid now' (auditBody (last (auditPosts v'))) s = (Inr e, t)"
    and "no_collision cr (event_input (e\<lparr>e_metadata := ce_metadata (auditBody (last (auditPosts v')))\<rparr>)) (event_input e)"
    and "(audit_step cr)\<^sup>*\<^sup>* (t, ws) (t', ws')"
    and "getActiveEpochId now'' t' = (Inr epochId, u)" "e_epochId e = Some epochId"
    and "int (length (epochChain epochId t')) \<le> limit"
    and "verifyChain cr now'' (Some limit) t' = (Inr (Some r), u')"
  shows "\<not> v_valid r"
proof -
  let ?m = "ce_metadata (auditBody (last (auditPosts v')))"
  obtain k p prev where e: "e = storedEvent k (linkEvent cr p prev)" "e_metadata (p_event p) = ?m" "e \<in> set (a_events t)"
    using appendEvent_row [OF assms(5)] .
  have lost: "\<not> hash_kept cr e"
    by (rule lossy_row [OF e(1,2) _ _ _ assms(6)])
      (use blank_metadata_lost [of i] in \<open>simp_all add: blank_update_post [OF assms(1-3)] blank_metadata_texts\<close>)
  note ok = logged_ok [OF assms(4)]
  note app = appendEvent_ok [OF ok(1) assms(5)]
  have "list_all (writer_ok t) ws" using ok(2) writer_ok_grows app by (auto simp: list_all_iff)
  then have "grows t t'" using audit_run_ok [OF assms(7)] app by blast
  then have "e \<in> set (epochChain epochId t')"
    using e(3) assms(9) by (auto simp: grows_def epochChain_def epochEventFilter_def)
  from lost_row_fails [OF assms(8,11) this lost assms(10)] show ?thesis .
qed

definition blank_update :: update_document_dto where
  "blank_update = \<lparr> ud_title = None, ud_description = None, ud_classification = None,
     ud_classificationOverrideReason = None, ud_tags = None \<rparr>"

definition blank_run :: "(document, vault) outcome" where
  "blank_run = updateDocument 3000 ''d1'' blank_update (sample_context ''alice'' [''editor'']) sample_vault"

text \<open>Digests without any collision.\<close>

definition plain_digests :: audit_crypto where
  "plain_digests = \<lparr> sha256 = (\<lambda>x. x), hmac_hex = (\<lambda>k m. k @ m) \<rparr>"

definition blank_log :: "(audit_event, audit_store) outcome" where
  "blank_log = appendEvent plain_digests ''u1'' 3001 (auditBody (last (auditPosts (snd blank_run)))) (empty_log signing_vars True)"

lemma blank_eval:
  "(case blank_run of (Inl _, _) \<Rightarrow> False | (Inr _, _) \<Rightarrow> True)"
  "(case blank_log of (Inl _, _) \<Rightarrow> None | (Inr e, t) \<Rightarrow>
      Some (e_epochId e, length (epochChain ''default'' t), fst (getActiveEpochId 4000 t))) = Some (Some ''default'', 1, Inr ''default'')"
  by code_simp+

theorem blank_update_breaks_chain_witness:
  "\<exists>e t. blank_log = (Inr e, t)
     \<and> (\<exists>r u. verifyChain plain_digests 4000 (Some 1000) t = (Inr (Some r), u) \<and> \<not> v_valid r)"
proof -
  obtain d v' where run: "blank_run = (Inr d, v')"
    using blank_eval(1) by (auto split: prod.splits sum.splits)
  obtain e t where log: "blank_log = (Inr e, t)" "e_epochId e = Some ''default''" "length (epochChain ''default'' t) = 1"
    "fst (getActiveEpochId 4000 t) = Inr ''default''"
    using blank_eval(2) by (auto split: prod.splits sum.splits)
  obtain u where u: "getActiveEpochId 4000 t = (Inr ''default'', u)" using log(4) by (metis prod.collapse)
  obtain r u' where r: "verifyChain plain_digests 4000 (Some 1000) t = (Inr (Some r), u')"
    using verifyChain_returns by blast
  have "no_collision plain_digests x y" for x y
    by (simp add: no_collision_def plain_digests_def)
  moreover have "audit_on sample_vault" "changes_nothing blank_update" by code_simp+
  ultimately have "\<not> v_valid r"
    using blank_update_breaks_chain [OF run [unfolded blank_run_def] _ _ start_logged
        log(1) [unfolded blank_log_def run snd_conv] _ rtranclp.rtrancl_refl u log(2) _ r] log(3) by simp
  then show ?thesis using log(1) r by blast
qed

end
