(* ===== verification/Audit_Query.thy ===== *)
theory Audit_Query
  imports Audit_Service
begin

text \<open>
  \<open>AuditService.query\<close>: the MongoDB filter that the query parameters are turned
  into, what the filter selects, and the page that is returned.
\<close>

section \<open>Filters\<close>

text \<open>
  The filter document has equalities on paths, a time range, and at most one
  \<open>$or\<close> and one \<open>$and\<close>. A branch of an \<open>$or\<close> is a conjunction of equalities.
\<close>

datatype scope =
    ActionIn "string list"
  | ActionNotIn "string list"
  | AnyOf "(string \<times> string) list list"

record mongo_filter =
  mf_equal :: "(string \<times> string) list"
  mf_timestamp :: "(int option \<times> int option) option"
  mf_or :: "(string \<times> string) list list option"
  mf_and :: "scope list option"

definition metadataValue :: "string \<Rightarrow> audit_event \<Rightarrow> json option" where
  "metadataValue k e = Option.bind (e_metadata e) (\<lambda>kvs. map_of kvs k)"

text \<open>An equality with a string also holds for an array that contains the string.\<close>

definition json_matches :: "json option \<Rightarrow> string \<Rightarrow> bool" where
  "json_matches v cs =
     (case v of
        Some (JStr x) \<Rightarrow> x = cs
      | Some (JArr vs) \<Rightarrow> JStr cs \<in> set vs
      | _ \<Rightarrow> False)"

definition pathEquals :: "audit_event \<Rightarrow> string \<times> string \<Rightarrow> bool" where
  "pathEquals e kv =
     (let k = fst kv; v = snd kv in
      if k = ''actorId'' then e_actorId e = v
      else if k = ''action'' then e_action e = v
      else if k = ''resourceType'' then e_resourceType e = v
      else if k = ''resourceId'' then e_resourceId e = Some v
      else if k = ''result'' then e_result e = v
      else if k = ''metadata.docId'' then json_matches (metadataValue ''docId'' e) v
      else if k = ''metadata.aclId'' then json_matches (metadataValue ''aclId'' e) v
      else if k = ''metadata.removedAclId'' then json_matches (metadataValue ''removedAclId'' e) v
      else if k = ''metadata.recommendationId'' then json_matches (metadataValue ''recommendationId'' e) v
      else False)"

definition anyBranch :: "audit_event \<Rightarrow> (string \<times> string) list list \<Rightarrow> bool" where
  "anyBranch e branches = list_ex (list_all (pathEquals e)) branches"

fun scopeMatches :: "audit_event \<Rightarrow> scope \<Rightarrow> bool" where
  "scopeMatches e (ActionIn xs) = (e_action e \<in> set xs)"
| "scopeMatches e (ActionNotIn xs) = (e_action e \<notin> set xs)"
| "scopeMatches e (AnyOf branches) = anyBranch e branches"

definition inRange :: "int option \<times> int option \<Rightarrow> int \<Rightarrow> bool" where
  "inRange r t =
     ((case fst r of None \<Rightarrow> True | Some a \<Rightarrow> a \<le> t) \<and> (case snd r of None \<Rightarrow> True | Some b \<Rightarrow> t \<le> b))"

definition matchesFilter :: "mongo_filter \<Rightarrow> audit_event \<Rightarrow> bool" where
  "matchesFilter f e =
     (list_all (pathEquals e) (mf_equal f)
      \<and> (case mf_timestamp f of None \<Rightarrow> True | Some r \<Rightarrow> inRange r (e_timestamp e))
      \<and> (case mf_or f of None \<Rightarrow> True | Some branches \<Rightarrow> anyBranch e branches)
      \<and> (case mf_and f of None \<Rightarrow> True | Some scopes \<Rightarrow> list_all (scopeMatches e) scopes))"

definition addAuditScope :: "mongo_filter \<Rightarrow> scope \<Rightarrow> mongo_filter" where
  "addAuditScope f scope =
     (case mf_and f of
        Some scopes \<Rightarrow> f\<lparr>mf_and := Some (scopes @ [scope])\<rparr>
      | None \<Rightarrow>
          (case mf_or f of
             Some branches \<Rightarrow> f\<lparr>mf_or := None, mf_and := Some [AnyOf branches, scope]\<rparr>
           | None \<Rightarrow> f\<lparr>mf_and := Some [scope]\<rparr>))"

definition emptyFilter :: mongo_filter where
  "emptyFilter = \<lparr> mf_equal = [], mf_timestamp = None, mf_or = None, mf_and = None \<rparr>"

section \<open>From the query parameters to the filter\<close>

datatype action_group = AUTHORIZED_CONTENT_ACCESS | DESTRUCTIVE_ACTIVITY

definition AUTHORIZED_CONTENT_ACTIONS :: "string list" where
  "AUTHORIZED_CONTENT_ACTIONS = [''DOCUMENT_DOWNLOAD_AUTHORIZED'', ''DOCUMENT_PREVIEW_AUTHORIZED'']"

definition DESTRUCTIVE_ACTIVITY_ACTIONS :: "string list" where
  "DESTRUCTIVE_ACTIVITY_ACTIONS = [''DOCUMENT_ACL_DELETED'', ''DOCUMENT_ARCHIVE'', ''DOCUMENT_AUTO_ARCHIVED'']"

definition AUDIT_ACTION_GROUP_ACTIONS :: "action_group \<Rightarrow> string list" where
  "AUDIT_ACTION_GROUP_ACTIONS g =
     (case g of
        AUTHORIZED_CONTENT_ACCESS \<Rightarrow> AUTHORIZED_CONTENT_ACTIONS
      | DESTRUCTIVE_ACTIVITY \<Rightarrow> DESTRUCTIVE_ACTIVITY_ACTIONS)"

record query_audit_dto =
  qa_actorId :: "string option"
  qa_action :: "string option"
  qa_actionGroup :: "action_group option"
  qa_resourceType :: "string option"
  qa_resourceId :: "string option"
  qa_documentId :: "string option"
  qa_aclId :: "string option"
  qa_recommendationId :: "string option"
  qa_result :: "string option"
  qa_from :: "int option"
  qa_to :: "int option"
  qa_page :: "nat option"
  qa_pageSize :: "nat option"
  qa_limit :: "nat option"
  qa_excludeActions :: "string list option"

definition given :: "string option \<Rightarrow> (string \<Rightarrow> mongo_filter \<Rightarrow> mongo_filter) \<Rightarrow> mongo_filter \<Rightarrow> mongo_filter" where
  "given v f flt = (if truthy_opt v then f (the v) flt else flt)"

definition setEqual :: "string \<Rightarrow> string \<Rightarrow> mongo_filter \<Rightarrow> mongo_filter" where
  "setEqual k v f = f\<lparr>mf_equal := mf_equal f @ [(k, v)]\<rparr>"

definition documentScope :: "string \<Rightarrow> (string \<times> string) list list" where
  "documentScope i = [[(''resourceType'', ''DOCUMENT''), (''resourceId'', i)], [(''metadata.docId'', i)]]"

definition noKeys :: "mongo_filter \<Rightarrow> bool" where
  "noKeys f = (mf_equal f = [] \<and> mf_timestamp f = None \<and> mf_or f = None \<and> mf_and f = None)"

definition addDocumentScope :: "string \<Rightarrow> mongo_filter \<Rightarrow> mongo_filter" where
  "addDocumentScope i f =
     (if noKeys f then f\<lparr>mf_or := Some (documentScope i)\<rparr> else addAuditScope f (AnyOf (documentScope i)))"

definition addActionGroup :: "action_group option \<Rightarrow> mongo_filter \<Rightarrow> mongo_filter" where
  "addActionGroup g f =
     (case g of None \<Rightarrow> f | Some grp \<Rightarrow> addAuditScope f (ActionIn (AUDIT_ACTION_GROUP_ACTIONS grp)))"

definition setTimestamp :: "int option \<Rightarrow> int option \<Rightarrow> mongo_filter \<Rightarrow> mongo_filter" where
  "setTimestamp a b f = (if a = None \<and> b = None then f else f\<lparr>mf_timestamp := Some (a, b)\<rparr>)"

definition addExclusion :: "string list option \<Rightarrow> mongo_filter \<Rightarrow> mongo_filter" where
  "addExclusion xs f =
     (case xs of None \<Rightarrow> f | Some acts \<Rightarrow> if acts = [] then f else addAuditScope f (ActionNotIn acts))"

definition auditFilter :: "query_audit_dto \<Rightarrow> mongo_filter" where
  "auditFilter dto =
     (let f = given (qa_actorId dto) (setEqual ''actorId'') emptyFilter;
          f = given (qa_action dto) (setEqual ''action'') f;
          f = addActionGroup (qa_actionGroup dto) f;
          f = given (qa_resourceType dto) (setEqual ''resourceType'') f;
          f = given (qa_resourceId dto) (setEqual ''resourceId'') f;
          f = given (qa_result dto) (setEqual ''result'') f;
          f = given (qa_documentId dto) addDocumentScope f;
          f = given (qa_aclId dto) (\<lambda>i f. addAuditScope f
                (AnyOf [[(''metadata.aclId'', i)], [(''metadata.removedAclId'', i)]])) f;
          f = given (qa_recommendationId dto) (\<lambda>i f. addAuditScope f
                (AnyOf [[(''resourceType'', ''SECURITY_RECOMMENDATION''), (''resourceId'', i)],
                        [(''metadata.recommendationId'', i)]])) f;
          f = setTimestamp (qa_from dto) (qa_to dto) f
      in addExclusion (qa_excludeActions dto) f)"

section \<open>The page\<close>

record query_result =
  qr_data :: "audit_event list"
  qr_total :: nat
  qr_page :: nat
  qr_pageSize :: nat

text \<open>
  The cursor is sorted by time alone. MongoDB leaves the order of events of the same
  time open, and may choose another one for the next request: \<open>rank\<close> is the order it
  chooses for this one. The page and the count are read at the same moment here.
\<close>

definition matchingEvents :: "(audit_event \<Rightarrow> nat) \<Rightarrow> query_audit_dto \<Rightarrow> audit_store \<Rightarrow> audit_event list" where
  "matchingEvents rank dto s =
     sort_key (\<lambda>e. - e_timestamp e) (sort_key rank (filter (matchesFilter (auditFilter dto)) (a_events s)))"

definition auditQuery :: "(audit_event \<Rightarrow> nat) \<Rightarrow> query_audit_dto \<Rightarrow> audit_store \<Rightarrow> query_result" where
  "auditQuery rank dto s =
     (let page = coalesce (qa_page dto) 1;
          pageSize = coalesce (or_else (qa_pageSize dto) (qa_limit dto)) 20;
          skip = (page - 1) * pageSize
      in \<lparr> qr_data = take pageSize (drop skip (matchingEvents rank dto s)),
           qr_total = length (filter (matchesFilter (auditFilter dto)) (a_events s)),
           qr_page = page,
           qr_pageSize = pageSize \<rparr>)"

section \<open>What a query selects\<close>

text \<open>The meaning of the parameters, one condition each.\<close>

definition wanted :: "string option \<Rightarrow> (string \<Rightarrow> bool) \<Rightarrow> bool" where
  "wanted v P = (\<not> truthy_opt v \<or> P (the v))"

definition selected :: "query_audit_dto \<Rightarrow> audit_event \<Rightarrow> bool" where
  "selected dto e =
     (wanted (qa_actorId dto) (\<lambda>v. e_actorId e = v)
      \<and> wanted (qa_action dto) (\<lambda>v. e_action e = v)
      \<and> (case qa_actionGroup dto of None \<Rightarrow> True | Some g \<Rightarrow> e_action e \<in> set (AUDIT_ACTION_GROUP_ACTIONS g))
      \<and> wanted (qa_resourceType dto) (\<lambda>v. e_resourceType e = v)
      \<and> wanted (qa_resourceId dto) (\<lambda>v. e_resourceId e = Some v)
      \<and> wanted (qa_result dto) (\<lambda>v. e_result e = v)
      \<and> wanted (qa_documentId dto) (\<lambda>v. e_resourceType e = ''DOCUMENT'' \<and> e_resourceId e = Some v
           \<or> json_matches (metadataValue ''docId'' e) v)
      \<and> wanted (qa_aclId dto) (\<lambda>v. json_matches (metadataValue ''aclId'' e) v
           \<or> json_matches (metadataValue ''removedAclId'' e) v)
      \<and> wanted (qa_recommendationId dto) (\<lambda>v. e_resourceType e = ''SECURITY_RECOMMENDATION'' \<and> e_resourceId e = Some v
           \<or> json_matches (metadataValue ''recommendationId'' e) v)
      \<and> inRange (qa_from dto, qa_to dto) (e_timestamp e)
      \<and> e_action e \<notin> set (coalesce (qa_excludeActions dto) []))"

lemma matches_addAuditScope: "matchesFilter (addAuditScope f sc) e \<longleftrightarrow> matchesFilter f e \<and> scopeMatches e sc"
  by (auto simp: addAuditScope_def matchesFilter_def split: option.splits)

lemma matches_setEqual: "matchesFilter (setEqual k v f) e \<longleftrightarrow> matchesFilter f e \<and> pathEquals e (k, v)"
  by (auto simp: setEqual_def matchesFilter_def)

lemma matches_given:
  assumes "\<And>v. matchesFilter (g v f) e \<longleftrightarrow> matchesFilter f e \<and> P v"
  shows "matchesFilter (given v g f) e \<longleftrightarrow> matchesFilter f e \<and> wanted v P"
  using assms by (simp add: given_def wanted_def)

lemma matches_documentScope:
  "matchesFilter (addDocumentScope i f) e \<longleftrightarrow> matchesFilter f e \<and> anyBranch e (documentScope i)"
  by (cases "noKeys f")
    (simp add: addDocumentScope_def matchesFilter_def noKeys_def, simp add: addDocumentScope_def matches_addAuditScope)

lemma matches_actionGroup:
  "matchesFilter (addActionGroup g f) e \<longleftrightarrow> matchesFilter f e
     \<and> (case g of None \<Rightarrow> True | Some grp \<Rightarrow> e_action e \<in> set (AUDIT_ACTION_GROUP_ACTIONS grp))"
  by (simp add: addActionGroup_def matches_addAuditScope split: option.splits)

lemma matches_exclusion:
  "matchesFilter (addExclusion xs f) e \<longleftrightarrow> matchesFilter f e \<and> e_action e \<notin> set (coalesce xs [])"
  by (simp add: addExclusion_def matches_addAuditScope coalesce_def split: option.splits)

lemma matches_timestamp:
  "mf_timestamp f = None \<Longrightarrow> matchesFilter (setTimestamp a b f) e \<longleftrightarrow> matchesFilter f e \<and> inRange (a, b) (e_timestamp e)"
  by (auto simp: setTimestamp_def matchesFilter_def inRange_def)

lemma no_timestamp [simp]:
  "mf_timestamp (setEqual k v f) = mf_timestamp f" "mf_timestamp (addAuditScope f sc) = mf_timestamp f"
  "mf_timestamp (addDocumentScope i f) = mf_timestamp f" "mf_timestamp (addActionGroup g f) = mf_timestamp f"
  "mf_timestamp emptyFilter = None"
  by (simp_all add: setEqual_def addAuditScope_def addDocumentScope_def addActionGroup_def emptyFilter_def
      split: option.splits)

lemma given_timestamp:
  "(\<And>v. mf_timestamp (g v f) = mf_timestamp f) \<Longrightarrow> mf_timestamp (given v g f) = mf_timestamp f"
  by (simp add: given_def)

lemma matches_empty: "matchesFilter emptyFilter e"
  by (simp add: emptyFilter_def matchesFilter_def)

lemma auditFilter_selected: "matchesFilter (auditFilter dto) e \<longleftrightarrow> selected dto e"
proof -
  have paths: "pathEquals e (''actorId'', v) = (e_actorId e = v)" "pathEquals e (''action'', v) = (e_action e = v)"
    "pathEquals e (''resourceType'', v) = (e_resourceType e = v)"
    "pathEquals e (''resourceId'', v) = (e_resourceId e = Some v)" "pathEquals e (''result'', v) = (e_result e = v)"
    "pathEquals e (''metadata.docId'', v) = json_matches (metadataValue ''docId'' e) v"
    "pathEquals e (''metadata.aclId'', v) = json_matches (metadataValue ''aclId'' e) v"
    "pathEquals e (''metadata.removedAclId'', v) = json_matches (metadataValue ''removedAclId'' e) v"
    "pathEquals e (''metadata.recommendationId'', v) = json_matches (metadataValue ''recommendationId'' e) v" for v
    by (simp_all add: pathEquals_def)
  show ?thesis
    unfolding auditFilter_def Let_def matches_exclusion
    by (subst matches_timestamp, simp add: given_timestamp)
      (simp only: matches_given [OF matches_setEqual] matches_given [OF matches_documentScope] matches_actionGroup
        matches_given [OF matches_addAuditScope] matches_empty selected_def anyBranch_def documentScope_def
        scopeMatches.simps list.simps paths conj_assoc simp_thms list_ex_Cons_iff
        list_ex_Nil_iff list_all_Cons_iff list_all_Nil_iff)
qed


lemma pages_concat: "concat (map (\<lambda>p. take k (drop (p * k) xs)) [0..<n]) = take (n * k) xs"
proof (induction n)
  case (Suc n)
  have "Suc n * k = n * k + k" by simp
  then show ?case using Suc by (simp only: take_add) simp
qed simp

text \<open>
  the filter that \<open>query\<close> builds selects exactly the events that satisfy every
  parameter given, and the pages, put together, hold each of them once, newest
  first, none with more events than the page size, when no event is added between the
  requests and events of the same time come in the same order.
\<close>

theorem audit_query_exact:
  assumes "coalesce (or_else (qa_pageSize dto) (qa_limit dto)) 20 = k" "length (filter (selected dto) (a_events s)) \<le> n * k"
  shows "concat (map (\<lambda>p. qr_data (auditQuery rank (dto\<lparr>qa_page := Some (Suc p)\<rparr>) s)) [0..<n])
      = sort_key (\<lambda>e. - e_timestamp e) (sort_key rank (filter (selected dto) (a_events s)))
    \<and> qr_total (auditQuery rank dto s) = length (filter (selected dto) (a_events s))
    \<and> length (qr_data (auditQuery rank dto s)) \<le> k"
proof -
  have f: "matchesFilter (auditFilter d) = selected d" for d by (rule ext) (rule auditFilter_selected)
  have page: "selected (dto\<lparr>qa_page := q\<rparr>) = selected dto" for q by (rule ext) (simp add: selected_def)
  have "qr_data (auditQuery rank (dto\<lparr>qa_page := Some (Suc p)\<rparr>) s)
      = take k (drop (p * k) (sort_key (\<lambda>e. - e_timestamp e) (sort_key rank (filter (selected dto) (a_events s)))))" for p
    using assms(1) by (simp add: auditQuery_def matchingEvents_def f page Let_def)
  then have "concat (map (\<lambda>p. qr_data (auditQuery rank (dto\<lparr>qa_page := Some (Suc p)\<rparr>) s)) [0..<n])
      = take (n * k) (sort_key (\<lambda>e. - e_timestamp e) (sort_key rank (filter (selected dto) (a_events s))))"
    using pages_concat by simp
  then show ?thesis using assms by (simp add: auditQuery_def f Let_def)
qed

definition query_store :: audit_store where
  "query_store = \<lparr>
     a_events = map (\<lambda>(i, time, action).
       (draftEvent ''default'' i time \<lparr>
          ce_eventId = Some i, ce_timestamp = None, ce_actorId = ''alice'', ce_actorRoles = [], ce_action = action,
          ce_resourceType = ''DOCUMENT'', ce_resourceId = Some ''d1'', ce_result = ''SUCCESS'', ce_reason = None,
          ce_ip = None, ce_traceId = None, ce_metadata = Some [(''docId'', JStr ''d1'')] \<rparr>)\<lparr>e_hash := i\<rparr>)
       [(''e1'', 10, ''DOCUMENT_ARCHIVE''), (''e2'', 30, ''DOCUMENT_UPLOADED''),
        (''e3'', 20, ''DOCUMENT_ARCHIVE''), (''e4'', 40, ''DOCUMENT_ARCHIVE'')],
     a_epochs = [], a_incidents = [], a_env = Map.empty, a_epochStorage = True \<rparr>"

definition destructive_query :: query_audit_dto where
  "destructive_query = \<lparr>
     qa_actorId = Some ''alice'', qa_action = None, qa_actionGroup = Some DESTRUCTIVE_ACTIVITY, qa_resourceType = None,
     qa_resourceId = None, qa_documentId = Some ''d1'', qa_aclId = None, qa_recommendationId = None,
     qa_result = None, qa_from = Some 5, qa_to = None, qa_page = None, qa_pageSize = Some 2, qa_limit = None,
     qa_excludeActions = Some [''LOGIN''] \<rparr>"

lemma destructive_selected:
  "map e_eventId (sort_key (\<lambda>e. - e_timestamp e) (sort_key e_oid (filter (selected destructive_query) (a_events query_store))))
     = [''e4'', ''e3'', ''e1'']"
  by code_simp

theorem audit_query_exact_witness:
  "map e_eventId (concat (map (\<lambda>p. qr_data (auditQuery e_oid (destructive_query\<lparr>qa_page := Some (Suc p)\<rparr>) query_store)) [0..<2]))
     = [''e4'', ''e3'', ''e1'']"
proof -
  have "length (filter (selected destructive_query) (a_events query_store)) \<le> 2 * 2"
    using arg_cong [OF destructive_selected, of length] by simp
  moreover have "coalesce (or_else (qa_pageSize destructive_query) (qa_limit destructive_query)) 20 = 2"
    by (simp add: destructive_query_def)
  ultimately show ?thesis
    using audit_query_exact [of destructive_query 2 query_store 2 e_oid] destructive_selected by simp
qed

end
