(* ===== verification/Security_Summary.thy ===== *)
theory Security_Summary
  imports Audit_Query
begin

text \<open>
  \<open>AuditService.securitySummary\<close>: risky documents, behaviour signals and repeated
  denials computed from recent events, the recommendations built from them, their
  workflow states, and the log entry of who looked at them.
\<close>

section \<open>Reading an event\<close>

definition DAY_IN_MS :: int where
  "DAY_IN_MS = 24 * 60 * 60 * 1000"

definition BEHAVIOR_SIGNAL_ACTIONS :: "string list" where
  "BEHAVIOR_SIGNAL_ACTIONS =
     AUTHORIZED_CONTENT_ACTIONS
     @ [''DOCUMENT_DOWNLOAD_DENIED'', ''DOCUMENT_METADATA_READ_DENIED'']
     @ DESTRUCTIVE_ACTIVITY_ACTIONS
     @ [''DOCUMENT_METADATA_UPDATED'', ''DOCUMENT_UPLOADED'']"

text \<open>\<open>String(v)\<close> of a stored value; inside an array \<open>null\<close> prints as nothing.\<close>

fun js_string :: "json \<Rightarrow> string" where
  "js_string JNull = ''null''"
| "js_string (JBool b) = (if b then ''true'' else ''false'')"
| "js_string (JNum n) = show_int n"
| "js_string (JStr cs) = cs"
| "js_string (JDate t) = toISOString t"
| "js_string (JArr vs) = join_with '','' (map (\<lambda>v. if v = JNull then [] else js_string v) vs)"
| "js_string (JObj kvs) = ''[object Object]''"

definition extractDocumentId :: "audit_event \<Rightarrow> string option" where
  "extractDocumentId e =
     (case metadataValue ''docId'' e of
        Some (JStr i) \<Rightarrow>
          if i \<noteq> [] then Some i
          else if e_resourceType e = ''DOCUMENT'' \<and> truthy_opt (e_resourceId e) then e_resourceId e else None
      | _ \<Rightarrow> if e_resourceType e = ''DOCUMENT'' \<and> truthy_opt (e_resourceId e) then e_resourceId e else None)"

definition extractClassification :: "audit_event \<Rightarrow> string" where
  "extractClassification e =
     (let classification = upper (case metadataValue ''classification'' e of
            None \<Rightarrow> [] | Some JNull \<Rightarrow> [] | Some v \<Rightarrow> js_string v)
      in if classification \<in> set [''SECRET'', ''CONFIDENTIAL'', ''INTERNAL'', ''PUBLIC''] then classification
         else ''UNKNOWN'')"

definition classificationWeight :: "string \<Rightarrow> nat" where
  "classificationWeight c =
     (if c = ''SECRET'' then 45 else if c = ''CONFIDENTIAL'' then 30 else if c = ''INTERNAL'' then 10 else 0)"

definition isDeniedSecurityEvent :: "audit_event \<Rightarrow> bool" where
  "isDeniedSecurityEvent e =
     (e_result e = ''DENY'' \<or> e_action e = ''DOCUMENT_DOWNLOAD_DENIED''
      \<or> e_action e = ''DOCUMENT_METADATA_READ_DENIED'')"

definition isDestructiveAction :: "string \<Rightarrow> bool" where
  "isDestructiveAction action =
     (action = ''DOCUMENT_ACL_DELETED'' \<or> action = ''DOCUMENT_ARCHIVE'' \<or> action = ''DOCUMENT_AUTO_ARCHIVED'')"

definition plural :: "nat \<Rightarrow> string \<Rightarrow> string" where
  "plural count singular = (if count = 1 then singular else singular @ ''s'')"

definition wasWere :: "nat \<Rightarrow> string" where
  "wasWere count = (if count = 1 then ''was'' else ''were'')"

text \<open>\<open>set.add\<close> on a \<open>Set\<close>, kept in the order of insertion.\<close>

definition set_add :: "string \<Rightarrow> string list \<Rightarrow> string list" where
  "set_add x xs = (if x \<in> set xs then xs else xs @ [x])"

definition set_add_opt :: "string option \<Rightarrow> string list \<Rightarrow> string list" where
  "set_add_opt v xs = (if truthy_opt v then set_add (the v) xs else xs)"

text \<open>\<open>map.get(k) ?? initial\<close> followed by \<open>map.set\<close>: a \<open>Map\<close> keeps its entries in the order of insertion.\<close>

fun map_upsert :: "('b \<Rightarrow> string) \<Rightarrow> string \<Rightarrow> 'b \<Rightarrow> ('b \<Rightarrow> 'b) \<Rightarrow> 'b list \<Rightarrow> 'b list" where
  "map_upsert key k initial f [] = [f initial]"
| "map_upsert key k initial f (b # bs) =
     (if key b = k then f b # bs else b # map_upsert key k initial f bs)"

section \<open>Repeated denials\<close>

record deny_actor =
  da_actorId :: string
  da_denyCount :: nat

text \<open>
  \<open>windowDays\<close> is \<open>BEHAVIOR_SIGNAL_WINDOW_DAYS\<close>, 7 unless the environment says
  otherwise.
\<close>

definition windowStart :: "int \<Rightarrow> int \<Rightarrow> int" where
  "windowStart windowDays now = now - windowDays * DAY_IN_MS"

definition countDeny :: "audit_event \<Rightarrow> deny_actor list \<Rightarrow> deny_actor list" where
  "countDeny e = map_upsert da_actorId (e_actorId e) \<lparr> da_actorId = e_actorId e, da_denyCount = 0 \<rparr>
     (\<lambda>a. a\<lparr>da_denyCount := da_denyCount a + 1\<rparr>)"

definition getRepeatedDenyActors :: "int \<Rightarrow> int \<Rightarrow> audit_store \<Rightarrow> deny_actor list" where
  "getRepeatedDenyActors windowDays now s =
     take 5 (sort_key (\<lambda>a. - int (da_denyCount a)) (filter (\<lambda>a. 3 \<le> da_denyCount a)
       (fold countDeny
         (filter (\<lambda>e. e_result e = ''DENY'' \<and> windowStart windowDays now \<le> e_timestamp e) (a_events s)) [])))"

section \<open>Risky documents\<close>

record risk_bucket =
  rb_documentId :: string
  rb_classification :: string
  rb_accessCount :: nat
  rb_actors :: "string list"
  rb_downloadCount :: nat
  rb_latestAccessAt :: int

record risky_document =
  rd_documentId :: string
  rd_classification :: string
  rd_accessCount :: nat
  rd_actorCount :: nat
  rd_latestAccessAt :: int
  rd_riskScore :: nat
  rd_reasons :: "string list"

definition touchRiskBucket :: "audit_event \<Rightarrow> risk_bucket \<Rightarrow> risk_bucket" where
  "touchRiskBucket e b =
     (let classification = extractClassification e in
      b\<lparr>rb_accessCount := rb_accessCount b + 1,
        rb_actors := set_add_opt (Some (e_actorId e)) (rb_actors b),
        rb_downloadCount := rb_downloadCount b
          + (if e_action e = ''DOCUMENT_DOWNLOAD_AUTHORIZED'' then 1 else 0),
        rb_latestAccessAt := max (rb_latestAccessAt b) (e_timestamp e),
        rb_classification :=
          (if classificationWeight (rb_classification b) < classificationWeight classification
           then classification else rb_classification b)\<rparr>)"

definition addRiskEvent :: "audit_event \<Rightarrow> risk_bucket list \<Rightarrow> risk_bucket list" where
  "addRiskEvent e buckets =
     (case extractDocumentId e of
        None \<Rightarrow> buckets
      | Some documentId \<Rightarrow>
          map_upsert rb_documentId documentId
            \<lparr> rb_documentId = documentId, rb_classification = extractClassification e, rb_accessCount = 0,
              rb_actors = [], rb_downloadCount = 0, rb_latestAccessAt = e_timestamp e \<rparr>
            (touchRiskBucket e) buckets)"

definition downloadGrants :: "nat \<Rightarrow> string" where
  "downloadGrants n = show_nat n @ '' download grant'' @ (if n = 1 then '''' else ''s'')"

definition buildRiskyDocumentSummary :: "risk_bucket \<Rightarrow> risky_document" where
  "buildRiskyDocumentSummary b =
     (let actorCount = length (rb_actors b) in \<lparr>
        rd_documentId = rb_documentId b,
        rd_classification = rb_classification b,
        rd_accessCount = rb_accessCount b,
        rd_actorCount = actorCount,
        rd_latestAccessAt = rb_latestAccessAt b,
        rd_riskScore = min 100
          (classificationWeight (rb_classification b) + min (rb_accessCount b * 8) 30
           + min ((actorCount - 1) * 10) 20 + min (rb_downloadCount b * 5) 15),
        rd_reasons =
          (if 0 < classificationWeight (rb_classification b) then [rb_classification b @ '' classification''] else [])
          @ (if 2 \<le> rb_accessCount b
             then [show_nat (rb_accessCount b) @ '' successful preview/download grants''] else [])
          @ (if 2 \<le> actorCount then [show_nat actorCount @ '' distinct actors''] else [])
          @ (if 0 < rb_downloadCount b then [downloadGrants (rb_downloadCount b)] else []) \<rparr>)"

definition recentFirst :: "nat \<Rightarrow> audit_event list \<Rightarrow> audit_event list" where
  "recentFirst n es = take n (sort_key (\<lambda>e. - e_timestamp e) es)"

definition getRiskyDocuments :: "int \<Rightarrow> int \<Rightarrow> audit_store \<Rightarrow> risky_document list" where
  "getRiskyDocuments windowDays now s =
     (let events = recentFirst 500 (filter (\<lambda>e. e_action e \<in> set AUTHORIZED_CONTENT_ACTIONS
            \<and> e_result e = ''SUCCESS'' \<and> windowStart windowDays now \<le> e_timestamp e) (a_events s));
          buckets = fold addRiskEvent events []
      in take 5 (sort_key (\<lambda>d. - int (rd_riskScore d)) (sort_key (\<lambda>d. - rd_latestAccessAt d)
           (filter (\<lambda>d. 0 < rd_riskScore d) (map buildRiskyDocumentSummary buckets)))))"

section \<open>Behaviour signals\<close>

datatype signal_type = MASS_CONTENT_ACCESS | DENY_BURST | DESTRUCTIVE_BEHAVIOR

datatype signal_severity = Critical | Warning | Watch

fun show_signal_type :: "signal_type \<Rightarrow> string" where
  "show_signal_type MASS_CONTENT_ACCESS = ''MASS_CONTENT_ACCESS''"
| "show_signal_type DENY_BURST = ''DENY_BURST''"
| "show_signal_type DESTRUCTIVE_BEHAVIOR = ''DESTRUCTIVE_ACTIVITY''"

record behavior_bucket =
  bb_actorId :: string
  bb_contentAccessCount :: nat
  bb_downloadCount :: nat
  bb_sensitiveAccessCount :: nat
  bb_denyCount :: nat
  bb_destructiveCount :: nat
  bb_contentDocuments :: "string list"
  bb_denyDocuments :: "string list"
  bb_destructiveDocuments :: "string list"
  bb_windowStartedAt :: int
  bb_windowEndedAt :: int

record behavior_signal =
  bs_signalId :: string
  bs_type :: signal_type
  bs_severity :: signal_severity
  bs_actorId :: string
  bs_actionCount :: nat
  bs_documentCount :: nat
  bs_windowStartedAt :: int
  bs_windowEndedAt :: int
  bs_riskScore :: nat
  bs_reasons :: "string list"

definition touchContent :: "audit_event \<Rightarrow> string option \<Rightarrow> behavior_bucket \<Rightarrow> behavior_bucket" where
  "touchContent e documentId b =
     (if e_action e \<in> set AUTHORIZED_CONTENT_ACTIONS then
        b\<lparr>bb_contentAccessCount := bb_contentAccessCount b + 1,
          bb_contentDocuments := set_add_opt documentId (bb_contentDocuments b),
          bb_downloadCount := bb_downloadCount b
            + (if e_action e = ''DOCUMENT_DOWNLOAD_AUTHORIZED'' then 1 else 0),
          bb_sensitiveAccessCount := bb_sensitiveAccessCount b
            + (if extractClassification e \<in> set [''SECRET'', ''CONFIDENTIAL''] then 1 else 0)\<rparr>
      else b)"

definition touchDeny :: "audit_event \<Rightarrow> string option \<Rightarrow> behavior_bucket \<Rightarrow> behavior_bucket" where
  "touchDeny e documentId b =
     (if isDeniedSecurityEvent e then
        b\<lparr>bb_denyCount := bb_denyCount b + 1,
          bb_denyDocuments := set_add_opt documentId (bb_denyDocuments b)\<rparr>
      else b)"

definition touchDestructive :: "audit_event \<Rightarrow> string option \<Rightarrow> behavior_bucket \<Rightarrow> behavior_bucket" where
  "touchDestructive e documentId b =
     (if isDestructiveAction (e_action e) then
        b\<lparr>bb_destructiveCount := bb_destructiveCount b + 1,
          bb_destructiveDocuments := set_add_opt documentId (bb_destructiveDocuments b)\<rparr>
      else b)"

definition touchBehaviorBucket :: "audit_event \<Rightarrow> behavior_bucket \<Rightarrow> behavior_bucket" where
  "touchBehaviorBucket e b =
     (let documentId = extractDocumentId e;
          b = b\<lparr>bb_windowStartedAt := min (bb_windowStartedAt b) (e_timestamp e),
                bb_windowEndedAt := max (bb_windowEndedAt b) (e_timestamp e)\<rparr>
      in touchDestructive e documentId (touchDeny e documentId (touchContent e documentId b)))"

definition addBehaviorEvent :: "audit_event \<Rightarrow> behavior_bucket list \<Rightarrow> behavior_bucket list" where
  "addBehaviorEvent e buckets =
     (if e_actorId e = [] then buckets
      else map_upsert bb_actorId (e_actorId e)
        \<lparr> bb_actorId = e_actorId e, bb_contentAccessCount = 0, bb_downloadCount = 0,
          bb_sensitiveAccessCount = 0, bb_denyCount = 0, bb_destructiveCount = 0, bb_contentDocuments = [],
          bb_denyDocuments = [], bb_destructiveDocuments = [], bb_windowStartedAt = e_timestamp e,
          bb_windowEndedAt = e_timestamp e \<rparr>
        (touchBehaviorBucket e) buckets)"

definition behaviorSeverity :: "nat \<Rightarrow> signal_severity" where
  "behaviorSeverity riskScore =
     (if 80 \<le> riskScore then Critical else if 50 \<le> riskScore then Warning else Watch)"

definition createBehaviorSignal ::
  "signal_type \<Rightarrow> behavior_bucket \<Rightarrow> nat \<Rightarrow> nat \<Rightarrow> nat \<Rightarrow> string list \<Rightarrow> behavior_signal" where
  "createBehaviorSignal type b actionCount documentCount riskScore reasons = \<lparr>
     bs_signalId = show_signal_type type @ '':'' @ bb_actorId b,
     bs_type = type,
     bs_severity = behaviorSeverity riskScore,
     bs_actorId = bb_actorId b,
     bs_actionCount = actionCount,
     bs_documentCount = documentCount,
     bs_windowStartedAt = bb_windowStartedAt b,
     bs_windowEndedAt = bb_windowEndedAt b,
     bs_riskScore = riskScore,
     bs_reasons = reasons \<rparr>"

definition massAccessSignal :: "behavior_bucket \<Rightarrow> behavior_signal list" where
  "massAccessSignal b =
     (let accesses = bb_contentAccessCount b; docs = length (bb_contentDocuments b) in
      if 5 \<le> accesses \<or> 3 \<le> accesses \<and> 5 \<le> docs then
        [createBehaviorSignal MASS_CONTENT_ACCESS b accesses docs
          (min 100 (30 + min (accesses * 8) 40 + min (docs * 6) 30
             + min (bb_sensitiveAccessCount b * 8) 24 + min (bb_downloadCount b * 4) 12))
          ([show_nat accesses @ '' successful preview/download grants'', show_nat docs @ '' distinct documents'']
           @ (if 0 < bb_sensitiveAccessCount b
              then [show_nat (bb_sensitiveAccessCount b) @ '' sensitive document grants''] else [])
           @ (if 0 < bb_downloadCount b then [downloadGrants (bb_downloadCount b)] else []))]
      else [])"

definition denyBurstSignal :: "behavior_bucket \<Rightarrow> behavior_signal list" where
  "denyBurstSignal b =
     (let denies = bb_denyCount b; docs = length (bb_denyDocuments b) in
      if 3 \<le> denies then
        [createBehaviorSignal DENY_BURST b denies docs (min 100 (25 + denies * 7 + docs * 4))
          [show_nat denies @ '' denied security events'', show_nat docs @ '' distinct documents'']]
      else [])"

definition destructiveSignal :: "behavior_bucket \<Rightarrow> behavior_signal list" where
  "destructiveSignal b =
     (let acts = bb_destructiveCount b; docs = length (bb_destructiveDocuments b) in
      if 2 \<le> acts then
        [createBehaviorSignal DESTRUCTIVE_BEHAVIOR b acts docs (min 100 (45 + acts * 15 + docs * 5))
          [show_nat acts @ '' destructive document events'', show_nat docs @ '' distinct documents'']]
      else [])"

definition buildBehaviorSignals :: "behavior_bucket \<Rightarrow> behavior_signal list" where
  "buildBehaviorSignals b = massAccessSignal b @ denyBurstSignal b @ destructiveSignal b"

definition getBehaviorSignals :: "int \<Rightarrow> int \<Rightarrow> audit_store \<Rightarrow> behavior_signal list" where
  "getBehaviorSignals windowDays now s =
     (let events = recentFirst 1000 (filter (\<lambda>e. e_action e \<in> set BEHAVIOR_SIGNAL_ACTIONS
            \<and> windowStart windowDays now \<le> e_timestamp e) (a_events s));
          buckets = fold addBehaviorEvent events []
      in take 5 (sort_key (\<lambda>x. - int (bs_riskScore x)) (sort_key (\<lambda>x. - bs_windowEndedAt x)
           (concat (map buildBehaviorSignals buckets)))))"


section \<open>Recommendations\<close>

datatype recommendation_type =
    AUDIT_CHAIN_REVIEW
  | DLP_CLASSIFICATION_REVIEW
  | MALWARE_UPLOAD_REVIEW
  | DOCUMENT_ACCESS_REVIEW
  | ACTOR_ACCESS_REVIEW

fun show_recommendation_type :: "recommendation_type \<Rightarrow> string" where
  "show_recommendation_type AUDIT_CHAIN_REVIEW = ''AUDIT_CHAIN_REVIEW''"
| "show_recommendation_type DLP_CLASSIFICATION_REVIEW = ''DLP_CLASSIFICATION_REVIEW''"
| "show_recommendation_type MALWARE_UPLOAD_REVIEW = ''MALWARE_UPLOAD_REVIEW''"
| "show_recommendation_type DOCUMENT_ACCESS_REVIEW = ''DOCUMENT_ACCESS_REVIEW''"
| "show_recommendation_type ACTOR_ACCESS_REVIEW = ''ACTOR_ACCESS_REVIEW''"

datatype recommendation_severity = CRITICAL | WARNING | INFO

datatype workflow_status = OPEN | INVESTIGATING | REVIEWED | RESOLVED

record recommendation_workflow =
  rw_status :: workflow_status
  rw_note :: "string option"
  rw_updatedAt :: "int option"
  rw_updatedBy :: "string option"

record recommendation =
  rc_id :: string
  rc_type :: recommendation_type
  rc_severity :: recommendation_severity
  rc_title :: string
  rc_reason :: string
  rc_recommendedAction :: string
  rc_evidence :: "string list"
  rc_affectedDocumentIds :: "string list"
  rc_affectedActorIds :: "string list"
  rc_auditFilters :: "(string \<times> string) list"
  rc_workflow :: recommendation_workflow

record summary_totals =
  st_deniedEvents :: nat
  st_malwareBlocked :: nat
  st_dlpDetections :: nat
  st_downloadDenied :: nat

definition openWorkflow :: recommendation_workflow where
  "openWorkflow = \<lparr> rw_status = OPEN, rw_note = None, rw_updatedAt = None, rw_updatedBy = None \<rparr>"

definition chainRecommendation :: "verification \<Rightarrow> recommendation list" where
  "chainRecommendation chain =
     (if v_valid chain then []
      else [\<lparr> rc_id = ''audit-chain-review'', rc_type = AUDIT_CHAIN_REVIEW, rc_severity = CRITICAL,
        rc_title = ''Verify audit-chain integrity before exporting evidence'',
        rc_reason = coalesce (v_message chain)
          ''Audit hash-chain verification reported an integrity mismatch.'',
        rc_recommendedAction =
          ''Run tamper-evidence verification, isolate the audit store, and compare the broken event with trusted backups.'',
        rc_evidence = [show_nat (v_checked chain) @ '' audit '' @ plural (v_checked chain) ''event'' @ '' checked''],
        rc_affectedDocumentIds = [], rc_affectedActorIds = [], rc_auditFilters = [],
        rc_workflow = openWorkflow \<rparr>])"

definition documentRecommendation :: "risky_document \<Rightarrow> recommendation list" where
  "documentRecommendation d =
     (if rd_riskScore d < 50 then []
      else
        let critical = 80 \<le> rd_riskScore d in
        [\<lparr> rc_id = ''document-access-review:'' @ rd_documentId d, rc_type = DOCUMENT_ACCESS_REVIEW,
           rc_severity = (if critical then CRITICAL else WARNING),
           rc_title =
             (if critical then ''Tighten access for high-risk '' @ rd_classification d @ '' document''
              else ''Review access for elevated-risk '' @ rd_classification d @ '' document''),
           rc_reason = ''Document '' @ rd_documentId d @ '' reached risk score '' @ show_nat (rd_riskScore d)
             @ '' from classification and access metadata.'',
           rc_recommendedAction =
             ''Review ACLs, confirm business need for recent grants, and keep watermark-required delivery for sensitive content.'',
           rc_evidence = rd_reasons d, rc_affectedDocumentIds = [rd_documentId d], rc_affectedActorIds = [],
           rc_auditFilters = [(''documentId'', rd_documentId d)], rc_workflow = openWorkflow \<rparr>])"

definition getBehaviorRecommendationTitle :: "behavior_signal \<Rightarrow> string" where
  "getBehaviorRecommendationTitle x =
     (case bs_type x of
        MASS_CONTENT_ACCESS \<Rightarrow> ''Review mass content access by '' @ bs_actorId x
      | DENY_BURST \<Rightarrow> ''Investigate denied access burst for '' @ bs_actorId x
      | DESTRUCTIVE_BEHAVIOR \<Rightarrow> ''Review destructive document activity by '' @ bs_actorId x)"

definition getBehaviorRecommendationAction :: "signal_type \<Rightarrow> string" where
  "getBehaviorRecommendationAction type =
     (case type of
        MASS_CONTENT_ACCESS \<Rightarrow>
          ''Confirm business need, inspect document spread, and tighten ACLs for sensitive documents.''
      | DENY_BURST \<Rightarrow> ''Inspect role, group membership, and ACL assignments before broadening access.''
      | DESTRUCTIVE_BEHAVIOR \<Rightarrow>
          ''Review workflow history, validate retention intent, and restore documents if activity was unauthorized.'')"

definition getBehaviorSignalAuditFilters :: "behavior_signal \<Rightarrow> (string \<times> string) list" where
  "getBehaviorSignalAuditFilters x =
     [(''actorId'', bs_actorId x), (''from'', toISOString (bs_windowStartedAt x)),
      (''to'', toISOString (bs_windowEndedAt x))]
     @ (case bs_type x of
          MASS_CONTENT_ACCESS \<Rightarrow> [(''actionGroup'', ''AUTHORIZED_CONTENT_ACCESS'')]
        | DESTRUCTIVE_BEHAVIOR \<Rightarrow> [(''actionGroup'', ''DESTRUCTIVE_ACTIVITY'')]
        | DENY_BURST \<Rightarrow> [(''result'', ''DENY'')])"

definition actorRecommendation :: "behavior_signal \<Rightarrow> recommendation list" where
  "actorRecommendation x =
     (if bs_riskScore x < 50 then []
      else [\<lparr> rc_id = ''actor-access-review:'' @ show_signal_type (bs_type x) @ '':'' @ bs_actorId x,
        rc_type = ACTOR_ACCESS_REVIEW,
        rc_severity = (case bs_severity x of Critical \<Rightarrow> CRITICAL | Warning \<Rightarrow> WARNING | Watch \<Rightarrow> INFO),
        rc_title = getBehaviorRecommendationTitle x,
        rc_reason = ''Actor '' @ bs_actorId x @ '' triggered '' @ show_signal_type (bs_type x) @ '' with score ''
          @ show_nat (bs_riskScore x) @ '' across '' @ show_nat (bs_documentCount x) @ '' ''
          @ plural (bs_documentCount x) ''document'' @ ''.'',
        rc_recommendedAction = getBehaviorRecommendationAction (bs_type x),
        rc_evidence = bs_reasons x, rc_affectedDocumentIds = [], rc_affectedActorIds = [bs_actorId x],
        rc_auditFilters = getBehaviorSignalAuditFilters x, rc_workflow = openWorkflow \<rparr>])"

definition denyRecommendation :: "behavior_signal list \<Rightarrow> deny_actor \<Rightarrow> recommendation list" where
  "denyRecommendation signals a =
     (if list_ex (\<lambda>x. 50 \<le> bs_riskScore x
           \<and> show_signal_type (bs_type x) @ '':'' @ bs_actorId x = ''DENY_BURST:'' @ da_actorId a) signals then []
      else [\<lparr> rc_id = ''actor-access-review:repeated-deny:'' @ da_actorId a, rc_type = ACTOR_ACCESS_REVIEW,
        rc_severity = WARNING,
        rc_title = ''Review repeated denied access for '' @ da_actorId a,
        rc_reason = ''Actor '' @ da_actorId a @ '' has '' @ show_nat (da_denyCount a) @ '' denied audit events.'',
        rc_recommendedAction =
          ''Inspect role, group membership, and ACL assignments before broadening access.'',
        rc_evidence = [show_nat (da_denyCount a) @ '' denied '' @ plural (da_denyCount a) ''event''],
        rc_affectedDocumentIds = [], rc_affectedActorIds = [da_actorId a],
        rc_auditFilters = [(''actorId'', da_actorId a)], rc_workflow = openWorkflow \<rparr>])"

definition dlpRecommendation :: "nat \<Rightarrow> recommendation list" where
  "dlpRecommendation n =
     (if n = 0 then []
      else [\<lparr> rc_id = ''dlp-classification-review'', rc_type = DLP_CLASSIFICATION_REVIEW, rc_severity = WARNING,
        rc_title = ''Review DLP-driven classification controls'',
        rc_reason = show_nat n @ '' DLP detection '' @ plural n ''event'' @ '' '' @ wasWere n
          @ '' recorded in the audit summary.'',
        rc_recommendedAction =
          ''Confirm classification escalation, verify override reasons, and block unsafe downgrade paths.'',
        rc_evidence = [show_nat n @ '' DLP detection '' @ plural n ''event''],
        rc_affectedDocumentIds = [], rc_affectedActorIds = [],
        rc_auditFilters = [(''action'', ''DLP_PATTERN_DETECTED'')], rc_workflow = openWorkflow \<rparr>])"

definition malwareRecommendation :: "nat \<Rightarrow> recommendation list" where
  "malwareRecommendation n =
     (if n = 0 then []
      else [\<lparr> rc_id = ''malware-upload-review'', rc_type = MALWARE_UPLOAD_REVIEW, rc_severity = WARNING,
        rc_title = ''Review blocked malware upload attempts'',
        rc_reason = show_nat n @ '' malware upload '' @ plural n ''attempt'' @ '' '' @ wasWere n
          @ '' blocked before object storage.'',
        rc_recommendedAction =
          ''Review source actor, checksum, filename, and endpoint context for the blocked upload.'',
        rc_evidence = [show_nat n @ '' malware '' @ plural n ''upload'' @ '' blocked''],
        rc_affectedDocumentIds = [], rc_affectedActorIds = [],
        rc_auditFilters = [(''action'', ''MALWARE_UPLOAD_BLOCKED'')], rc_workflow = openWorkflow \<rparr>])"

definition buildSecurityRecommendations ::
  "verification \<Rightarrow> summary_totals \<Rightarrow> deny_actor list \<Rightarrow> risky_document list \<Rightarrow> behavior_signal list
   \<Rightarrow> recommendation list" where
  "buildSecurityRecommendations chain totals denyActors riskyDocuments signals =
     take 8 (chainRecommendation chain
       @ concat (map documentRecommendation riskyDocuments)
       @ concat (map actorRecommendation signals)
       @ concat (map (denyRecommendation signals) denyActors)
       @ dlpRecommendation (st_dlpDetections totals)
       @ malwareRecommendation (st_malwareBlocked totals))"

section \<open>Workflow of a recommendation\<close>

definition tryRecommendationWorkflowStatus :: "json option \<Rightarrow> workflow_status option" where
  "tryRecommendationWorkflowStatus v =
     (case v of
        Some (JStr cs) \<Rightarrow>
          (let normalized = upper (trim cs) in
           if normalized = ''OPEN'' then Some OPEN
           else if normalized = ''INVESTIGATING'' then Some INVESTIGATING
           else if normalized = ''REVIEWED'' then Some REVIEWED
           else if normalized = ''RESOLVED'' then Some RESOLVED
           else None)
      | _ \<Rightarrow> None)"

fun show_workflow_status :: "workflow_status \<Rightarrow> string" where
  "show_workflow_status OPEN = ''OPEN''"
| "show_workflow_status INVESTIGATING = ''INVESTIGATING''"
| "show_workflow_status REVIEWED = ''REVIEWED''"
| "show_workflow_status RESOLVED = ''RESOLVED''"

definition string_value :: "json option \<Rightarrow> string option" where
  "string_value v = (case v of Some (JStr cs) \<Rightarrow> Some cs | _ \<Rightarrow> None)"

definition normalizeRecommendationWorkflowNote :: "string option \<Rightarrow> string option" where
  "normalizeRecommendationWorkflowNote note =
     (let normalized = map_option trim note in
      if \<not> truthy_opt normalized then None else Some (take 500 (the normalized)))"

text \<open>The status events of a recommendation, newest first.\<close>

definition statusEvents :: "string \<Rightarrow> audit_store \<Rightarrow> audit_event list" where
  "statusEvents recommendationId s =
     sort_key (\<lambda>e. - e_timestamp e) (sort_key (\<lambda>e. - int (e_oid e))
       (filter (\<lambda>e. e_action e = ''SECURITY_RECOMMENDATION_STATUS_UPDATED''
            \<and> e_resourceType e = ''SECURITY_RECOMMENDATION'' \<and> e_resourceId e = Some recommendationId)
         (a_events s)))"

definition recommendationWorkflow :: "string \<Rightarrow> audit_store \<Rightarrow> recommendation_workflow option" where
  "recommendationWorkflow recommendationId s =
     (case statusEvents recommendationId s of
        [] \<Rightarrow> None
      | e # _ \<Rightarrow> map_option (\<lambda>status. \<lparr>
            rw_status = status, rw_note = string_value (metadataValue ''note'' e),
            rw_updatedAt = Some (e_timestamp e), rw_updatedBy = Some (e_actorId e) \<rparr>)
          (tryRecommendationWorkflowStatus (metadataValue ''status'' e)))"

record workflow_history_entry =
  wh_eventId :: string
  wh_status :: workflow_status
  wh_note :: "string option"
  wh_updatedAt :: int
  wh_updatedBy :: string

definition getSecurityRecommendationWorkflowHistory :: "string \<Rightarrow> audit_store \<Rightarrow> workflow_history_entry list" where
  "getSecurityRecommendationWorkflowHistory recommendationId s =
     List.map_filter (\<lambda>e. map_option (\<lambda>status. \<lparr>
         wh_eventId = e_eventId e, wh_status = status, wh_note = string_value (metadataValue ''note'' e),
         wh_updatedAt = e_timestamp e, wh_updatedBy = e_actorId e \<rparr>)
       (tryRecommendationWorkflowStatus (metadataValue ''status'' e)))
     (take 50 (statusEvents recommendationId s))"

definition statusUpdateDto :: "int \<Rightarrow> string \<Rightarrow> workflow_status \<Rightarrow> string option \<Rightarrow> summary_viewer \<Rightarrow> create_event_dto" where
  "statusUpdateDto now recommendationId status note viewer = \<lparr>
     ce_eventId = None,
     ce_timestamp = Some (Some now),
     ce_actorId = coalesce (vw_actorId viewer) ''unknown'',
     ce_actorRoles = coalesce (vw_roles viewer) [],
     ce_action = ''SECURITY_RECOMMENDATION_STATUS_UPDATED'',
     ce_resourceType = ''SECURITY_RECOMMENDATION'',
     ce_resourceId = Some recommendationId,
     ce_result = ''SUCCESS'',
     ce_reason = Some (coalesce note (''Security recommendation marked '' @ show_workflow_status status)),
     ce_ip = vw_ip viewer,
     ce_traceId = vw_traceId viewer,
     ce_metadata = Some ([(''recommendationId'', JStr recommendationId), (''status'', JStr (show_workflow_status status))]
       @ (if truthy_opt note then [(''note'', JStr (the note))] else [])) \<rparr>"

definition updateSecurityRecommendationWorkflow ::
  "audit_crypto \<Rightarrow> string \<Rightarrow> int \<Rightarrow> string \<Rightarrow> string \<Rightarrow> string option \<Rightarrow> summary_viewer \<Rightarrow> audit_store
   \<Rightarrow> (audit_event, audit_store) outcome" where
  "updateSecurityRecommendationWorkflow cr uuid now recommendationId status note viewer s =
     (case tryRecommendationWorkflowStatus (Some (JStr status)) of
        None \<Rightarrow> throw (BadRequest (''Invalid recommendation workflow status: '' @ status)) s
      | Some st \<Rightarrow> appendEvent cr uuid now
          (statusUpdateDto now recommendationId st (normalizeRecommendationWorkflowNote note) viewer) s)"

section \<open>Who looked\<close>

definition severityCount :: "recommendation_severity \<Rightarrow> recommendation list \<Rightarrow> nat" where
  "severityCount sev rs = length (filter (\<lambda>r. rc_severity r = sev) rs)"

definition recommendationsViewedDto ::
  "int \<Rightarrow> string \<Rightarrow> summary_viewer \<Rightarrow> recommendation list \<Rightarrow> create_event_dto" where
  "recommendationsViewedDto now actorId viewer rs = \<lparr>
     ce_eventId = None,
     ce_timestamp = Some (Some now),
     ce_actorId = actorId,
     ce_actorRoles = coalesce (vw_roles viewer) [],
     ce_action = ''SECURITY_RECOMMENDATIONS_VIEWED'',
     ce_resourceType = ''AUDIT'',
     ce_resourceId = None,
     ce_result = ''SUCCESS'',
     ce_reason = None,
     ce_ip = vw_ip viewer,
     ce_traceId = vw_traceId viewer,
     ce_metadata = Some
       [(''recommendationCount'', JNum (int (length rs))),
        (''recommendationIds'', j_strs (map rc_id rs)),
        (''criticalCount'', JNum (int (severityCount CRITICAL rs))),
        (''warningCount'', JNum (int (severityCount WARNING rs))),
        (''recommendationTypes'', j_strs (map show_recommendation_type (unique (map rc_type rs)))),
        (''auditFilters'', JArr (map (\<lambda>r. JObj
           [(''id'', JStr (rc_id r)), (''filters'', JObj (map (\<lambda>kv. (fst kv, JStr (snd kv))) (rc_auditFilters r)))]) rs))] \<rparr>"

definition viewedRecently :: "int \<Rightarrow> string \<Rightarrow> audit_store \<Rightarrow> bool" where
  "viewedRecently now actorId s =
     list_ex (\<lambda>e. e_actorId e = actorId \<and> e_action e = ''SECURITY_RECOMMENDATIONS_VIEWED''
        \<and> now - 15 * 60 * 1000 \<le> e_timestamp e) (a_events s)"

definition recordRecommendationView ::
  "audit_crypto \<Rightarrow> string \<Rightarrow> int \<Rightarrow> summary_viewer option \<Rightarrow> recommendation list \<Rightarrow> audit_store
   \<Rightarrow> (unit, audit_store) outcome" where
  "recordRecommendationView cr uuid now viewer rs s =
     (let actorId = Option.bind viewer vw_actorId in
      if \<not> truthy_opt actorId then return () s
      else if viewedRecently now (the actorId) s then return () s
      else andThen (appendEvent cr uuid now (recommendationsViewedDto now (the actorId) (the viewer) rs) s)
             (\<lambda>_. return ()))"

section \<open>The summary\<close>

record security_summary =
  ss_chain :: verification
  ss_totals :: summary_totals
  ss_repeatedDenyActors :: "deny_actor list"
  ss_riskyDocuments :: "risky_document list"
  ss_behaviorSignals :: "behavior_signal list"
  ss_recommendations :: "recommendation list"

definition countEvents :: "(audit_event \<Rightarrow> bool) \<Rightarrow> audit_store \<Rightarrow> nat" where
  "countEvents P s = length (filter P (a_events s))"

definition withWorkflow :: "audit_store \<Rightarrow> recommendation \<Rightarrow> recommendation" where
  "withWorkflow s r = r\<lparr>rc_workflow := coalesce (recommendationWorkflow (rc_id r) s) openWorkflow\<rparr>"

definition securitySummary ::
  "audit_crypto \<Rightarrow> int \<Rightarrow> string \<Rightarrow> int \<Rightarrow> summary_viewer option \<Rightarrow> audit_store
   \<Rightarrow> (security_summary, audit_store) outcome" where
  "securitySummary cr windowDays uuid now viewer s =
     andThen (verifyChain cr now (Some 1000) s) (\<lambda>verified s.
       case verified of
         None \<Rightarrow> throw (InternalError ''verification did not end'') s
       | Some chain \<Rightarrow>
           let totals = \<lparr>
                 st_deniedEvents = countEvents (\<lambda>e. e_result e = ''DENY'') s,
                 st_malwareBlocked = countEvents (\<lambda>e. e_action e = ''MALWARE_UPLOAD_BLOCKED'') s,
                 st_dlpDetections = countEvents (\<lambda>e. e_action e = ''DLP_PATTERN_DETECTED'') s,
                 st_downloadDenied = countEvents (\<lambda>e. e_action e = ''DOCUMENT_DOWNLOAD_DENIED'') s \<rparr>;
               denyActors = getRepeatedDenyActors windowDays now s;
               riskyDocuments = getRiskyDocuments windowDays now s;
               signals = getBehaviorSignals windowDays now s;
               rs = map (withWorkflow s)
                 (buildSecurityRecommendations chain totals denyActors riskyDocuments signals)
           in andThen (recordRecommendationView cr uuid now viewer rs s) (\<lambda>_. return \<lparr>
                ss_chain = chain, ss_totals = totals, ss_repeatedDenyActors = denyActors,
                ss_riskyDocuments = riskyDocuments, ss_behaviorSignals = signals,
                ss_recommendations = rs \<rparr>))"

end
