(* ===== verification/Text_Scan.thy ===== *)
theory Text_Scan
  imports Grant_Tokens
begin

text \<open>
  The scanners of document-service: the data-leak rules
  (\<open>security/dlp-scanner.service.ts\<close>), with the regular expressions they use as
  backtracking matchers, and the malware scan (\<open>security/malware-scanner.service.ts\<close>).
  A file is the string of its bytes. Text extraction by the PDF and ZIP libraries,
  UTF-8 decoding and the answer of the ClamAV daemon are parameters.
\<close>

section \<open>Substrings\<close>

text \<open>\<open>text.includes(needle)\<close>.\<close>

fun js_includes :: "string \<Rightarrow> string \<Rightarrow> bool" where
  "js_includes [] needle = (needle = [])"
| "js_includes (c # cs) needle = (take (length needle) (c # cs) = needle \<or> js_includes cs needle)"

lemma js_includes_iff: "js_includes cs needle \<longleftrightarrow> (\<exists>pre post. cs = pre @ needle @ post)"
proof (induction cs)
  case (Cons c cs)
  have "take (length needle) (c # cs) = needle \<longleftrightarrow> (\<exists>post. c # cs = needle @ post)"
    by (metis append_take_drop_id append_eq_conv_conj)
  moreover have "(\<exists>pre post. c # cs = pre @ needle @ post) \<longleftrightarrow>
      (\<exists>post. c # cs = needle @ post) \<or> (\<exists>pre post. cs = pre @ needle @ post)"
    by (metis append_Cons append_Nil list.exhaust list.sel(3))
  ultimately show ?case using Cons by simp
qed simp

definition starts_with :: "string \<Rightarrow> string \<Rightarrow> bool" where
  "starts_with cs prefix = (take (length prefix) cs = prefix)"

section \<open>Regular expressions\<close>

text \<open>
  A matcher returns every way to match at a position, the preferred one first, as a
  JavaScript engine tries them: a greedy repetition prefers more rounds, a lazy one
  fewer. A position is the character before it and the rest of the text.
\<close>

datatype rx =
    One "char \<Rightarrow> bool"
  | Seq rx rx
  | Alt rx rx
  | Greedy rx nat "nat option"
  | Lazily rx
  | Boundary

type_synonym position = "char option \<times> string"

definition digit :: "char \<Rightarrow> bool" where
  "digit c = (let n = of_char c :: nat in 48 \<le> n \<and> n \<le> 57)"

definition letter :: "char \<Rightarrow> bool" where
  "letter c = (let n = of_char c :: nat in (65 \<le> n \<and> n \<le> 90) \<or> (97 \<le> n \<and> n \<le> 122))"

definition word_char :: "char \<Rightarrow> bool" where
  "word_char c = (digit c \<or> letter c \<or> c = CHR ''_'')"

definition at_boundary :: "position \<Rightarrow> bool" where
  "at_boundary pos =
     ((case fst pos of None \<Rightarrow> False | Some c \<Rightarrow> word_char c)
      \<noteq> (case snd pos of [] \<Rightarrow> False | c # _ \<Rightarrow> word_char c))"

primrec rounds :: "(position \<Rightarrow> position list) \<Rightarrow> nat \<Rightarrow> nat \<Rightarrow> nat option \<Rightarrow> position \<Rightarrow> position list" where
  "rounds m 0 lo hi pos = (if lo = 0 then [pos] else [])"
| "rounds m (Suc fuel) lo hi pos =
     (if hi = Some 0 then []
      else concat (map (rounds m fuel (lo - 1) (map_option (\<lambda>n. n - 1) hi))
             (filter (\<lambda>q. length (snd q) < length (snd pos)) (m pos))))
     @ (if lo = 0 then [pos] else [])"

primrec lazy_rounds :: "(position \<Rightarrow> position list) \<Rightarrow> nat \<Rightarrow> position \<Rightarrow> position list" where
  "lazy_rounds m 0 pos = [pos]"
| "lazy_rounds m (Suc fuel) pos =
     pos # concat (map (lazy_rounds m fuel) (filter (\<lambda>q. length (snd q) < length (snd pos)) (m pos)))"

primrec rx_match :: "rx \<Rightarrow> position \<Rightarrow> position list" where
  "rx_match (One p) pos = (case snd pos of [] \<Rightarrow> [] | c # cs \<Rightarrow> if p c then [(Some c, cs)] else [])"
| "rx_match (Seq a b) pos = concat (map (rx_match b) (rx_match a pos))"
| "rx_match (Alt a b) pos = rx_match a pos @ rx_match b pos"
| "rx_match (Greedy r lo hi) pos = rounds (rx_match r) (Suc (length (snd pos))) lo hi pos"
| "rx_match (Lazily r) pos = lazy_rounds (rx_match r) (Suc (length (snd pos))) pos"
| "rx_match Boundary pos = (if at_boundary pos then [pos] else [])"

text \<open>
  A text cut along the matches of a global expression, from left to right.
\<close>

datatype piece = Plain char | Matched string

definition consumed :: "position \<Rightarrow> position \<Rightarrow> string" where
  "consumed pos q = take (length (snd pos) - length (snd q)) (snd pos)"

function pieces :: "rx \<Rightarrow> position \<Rightarrow> piece list" where
  "pieces r pos =
     (case rx_match r pos of
        q # _ \<Rightarrow>
          if length (snd q) < length (snd pos) then Matched (consumed pos q) # pieces r q
          else Matched [] # (case snd pos of [] \<Rightarrow> [] | c # cs \<Rightarrow> Plain c # pieces r (Some c, cs))
      | [] \<Rightarrow> (case snd pos of [] \<Rightarrow> [] | c # cs \<Rightarrow> Plain c # pieces r (Some c, cs)))"
  by pat_completeness auto

termination pieces
  by (relation "measure (\<lambda>(r, pos). length (snd pos))") auto

declare pieces.simps [simp del]

definition match_all :: "rx \<Rightarrow> string \<Rightarrow> string list" where
  "match_all r cs = List.map_filter (\<lambda>p. case p of Matched w \<Rightarrow> Some w | Plain _ \<Rightarrow> None) (pieces r (None, cs))"

definition replace_all :: "rx \<Rightarrow> (string \<Rightarrow> string) \<Rightarrow> string \<Rightarrow> string" where
  "replace_all r f cs = concat (map (\<lambda>p. case p of Matched w \<Rightarrow> f w | Plain c \<Rightarrow> [c]) (pieces r (None, cs)))"

text \<open>\<open>cs.replace(r, '')\<close> without the global flag: the first match only.\<close>

fun drop_first :: "piece list \<Rightarrow> string" where
  "drop_first [] = []"
| "drop_first (Plain c # ps) = c # drop_first ps"
| "drop_first (Matched w # ps) = concat (map (\<lambda>p. case p of Matched v \<Rightarrow> v | Plain c \<Rightarrow> [c]) ps)"

definition remove_first :: "rx \<Rightarrow> string \<Rightarrow> string" where
  "remove_first r cs = drop_first (pieces r (None, cs))"

fun lit :: "string \<Rightarrow> rx" where
  "lit [] = Greedy (One (\<lambda>_. False)) 0 (Some 0)"
| "lit [c] = One (\<lambda>d. d = c)"
| "lit (c # d # cs) = Seq (One (\<lambda>x. x = c)) (lit (d # cs))"

fun lit_i :: "string \<Rightarrow> rx" where
  "lit_i [] = Greedy (One (\<lambda>_. False)) 0 (Some 0)"
| "lit_i [c] = One (\<lambda>d. to_lower d = to_lower c)"
| "lit_i (c # d # cs) = Seq (One (\<lambda>x. to_lower x = to_lower c)) (lit_i (d # cs))"

section \<open>Data-leak rules\<close>

datatype dlp_type = EMAIL | PHONE | NATIONAL_ID | KEYWORD

fun show_dlp_type :: "dlp_type \<Rightarrow> string" where
  "show_dlp_type EMAIL = ''EMAIL''"
| "show_dlp_type PHONE = ''PHONE''"
| "show_dlp_type NATIONAL_ID = ''NATIONAL_ID''"
| "show_dlp_type KEYWORD = ''KEYWORD''"

record dlp_rule =
  dr_type :: dlp_type
  dr_pattern :: string
  dr_severity :: string
  dr_regex :: rx

record dlp_finding =
  df_type :: dlp_type
  df_pattern :: string
  df_severity :: string
  df_count :: nat

datatype dlp_result = Dlp_clear | Dlp_detected "dlp_finding list"

definition email_rx :: rx where
  "email_rx = Seq Boundary
     (Seq (Greedy (One (\<lambda>c. letter c \<or> digit c \<or> c \<in> set ''._%+-'')) 1 None)
     (Seq (One (\<lambda>c. c = CHR ''@''))
     (Seq (Greedy (One (\<lambda>c. letter c \<or> digit c \<or> c \<in> set ''.-'')) 1 None)
     (Seq (One (\<lambda>c. c = CHR ''.''))
     (Seq (Greedy (One letter) 2 None) Boundary)))))"

definition phone_rx :: rx where
  "phone_rx = Seq Boundary
     (Seq (Alt (Seq (Greedy (One (\<lambda>c. c = CHR ''+'')) 0 (Some 1)) (lit ''84'')) (lit ''0''))
     (Seq (Greedy (Seq (One digit)
            (Greedy (One (\<lambda>c. js_space c \<or> c \<in> set ''.-'')) 0 (Some 1))) 8 (Some 10))
      Boundary))"

definition national_id_rx :: rx where
  "national_id_rx = Seq Boundary
     (Seq (Alt (Greedy (One digit) 9 (Some 9)) (Greedy (One digit) 12 (Some 12))) Boundary)"

definition keyword_rx :: "string \<Rightarrow> rx" where
  "keyword_rx w = Seq Boundary (Seq (lit_i w) Boundary)"

definition internal_only_rx :: rx where
  "internal_only_rx = Seq Boundary
     (Seq (lit_i ''internal'') (Seq (Greedy (One js_space) 1 None) (Seq (lit_i ''only'') Boundary)))"

definition RULES :: "dlp_rule list" where
  "RULES = [
     \<lparr> dr_type = EMAIL, dr_pattern = ''email address'', dr_severity = ''MEDIUM'', dr_regex = email_rx \<rparr>,
     \<lparr> dr_type = PHONE, dr_pattern = ''phone number'', dr_severity = ''MEDIUM'', dr_regex = phone_rx \<rparr>,
     \<lparr> dr_type = NATIONAL_ID, dr_pattern = ''national id'', dr_severity = ''HIGH'', dr_regex = national_id_rx \<rparr>,
     \<lparr> dr_type = KEYWORD, dr_pattern = ''secret'', dr_severity = ''HIGH'', dr_regex = keyword_rx ''secret'' \<rparr>,
     \<lparr> dr_type = KEYWORD, dr_pattern = ''confidential'', dr_severity = ''HIGH'',
       dr_regex = keyword_rx ''confidential'' \<rparr>,
     \<lparr> dr_type = KEYWORD, dr_pattern = ''internal only'', dr_severity = ''MEDIUM'',
       dr_regex = internal_only_rx \<rparr>]"

definition MAX_SCAN_CHARS :: nat where
  "MAX_SCAN_CHARS = 1000000"

text \<open>\<open>text.slice(0, MAX_SCAN_CHARS)\<close>.\<close>

definition clip :: "string \<Rightarrow> string" where
  "clip cs = take MAX_SCAN_CHARS cs"

lemma clip_code [code]: "clip cs = (if int (length cs) \<le> 1000000 then cs else take MAX_SCAN_CHARS cs)"
  by (simp add: clip_def MAX_SCAN_CHARS_def)

definition scanText :: "string \<Rightarrow> dlp_result" where
  "scanText text =
     (let content = clip text;
          findings = concat (map (\<lambda>rule.
            let matches = match_all (dr_regex rule) content
            in if matches = [] then []
               else [\<lparr> df_type = dr_type rule, df_pattern = dr_pattern rule,
                       df_severity = dr_severity rule, df_count = length matches \<rparr>]) RULES)
      in if findings = [] then Dlp_clear else Dlp_detected findings)"

section \<open>Text extraction\<close>

text \<open>
  \<open>xp_pdfPages\<close>: the text items of the pages of a PDF, a page the library fails on
  being \<open>None\<close>; \<open>None\<close> if the document does not load. \<open>xp_docxXml\<close>: the entry
  \<open>word/document.xml\<close> of a ZIP archive, if it has one.
\<close>

record extractors =
  xp_utf8 :: "string \<Rightarrow> string"
  xp_pdfPages :: "string \<Rightarrow> string list option list option"
  xp_docxXml :: "string \<Rightarrow> string option option"

fun collectPages :: "string list \<Rightarrow> string list option list \<Rightarrow> string list option" where
  "collectPages acc [] = Some acc"
| "collectPages acc (None # pages) = None"
| "collectPages acc (Some items # pages) =
     (let pageTexts = acc @ [join_with '' '' items]
      in if MAX_SCAN_CHARS < length (join_with [CHR 10] pageTexts) then Some pageTexts
         else collectPages pageTexts pages)"

definition extractPdfText :: "extractors \<Rightarrow> string \<Rightarrow> string" where
  "extractPdfText xp buffer =
     (case xp_pdfPages xp buffer of
        None \<Rightarrow> []
      | Some pages \<Rightarrow> (case collectPages [] pages of None \<Rightarrow> [] | Some texts \<Rightarrow> join_with [CHR 10] texts))"

text \<open>
  \<open>String.fromCodePoint\<close> throws above \<open>10FFFF\<close>. A code point above 255 becomes the
  character 255, which is in no class of the rules.
\<close>

fun parse_digits :: "nat \<Rightarrow> (char \<Rightarrow> nat) \<Rightarrow> nat \<Rightarrow> string \<Rightarrow> nat" where
  "parse_digits base value acc [] = acc"
| "parse_digits base value acc (c # cs) = parse_digits base value (acc * base + value c) cs"

definition hex_value :: "char \<Rightarrow> nat" where
  "hex_value c = (let n = of_char c :: nat in if n \<le> 57 then n - 48 else if n \<le> 70 then n - 55 else n - 87)"

definition fromCodePoint :: "nat \<Rightarrow> string option" where
  "fromCodePoint n = (if 1114111 < n then None else if 255 < n then Some [CHR 255] else Some [char_of n])"

definition replace_codes :: "rx \<Rightarrow> (string \<Rightarrow> nat) \<Rightarrow> string \<Rightarrow> string option" where
  "replace_codes r value cs =
     (if list_all (\<lambda>w. fromCodePoint (value w) \<noteq> None) (match_all r cs)
      then Some (replace_all r (\<lambda>w. the (fromCodePoint (value w))) cs) else None)"

definition decimal_entity :: rx where
  "decimal_entity = Seq (lit ''&#'') (Seq (Greedy (One digit) 1 None) (lit '';''))"

definition hex_entity :: rx where
  "hex_entity = Seq (lit ''&#x'')
     (Seq (Greedy (One (\<lambda>c. digit c \<or> c \<in> set ''abcdefABCDEF'')) 1 None) (lit '';''))"

definition decodeXmlEntities :: "string \<Rightarrow> string option" where
  "decodeXmlEntities value =
     (let value = replace_all (lit ''&lt;'') (\<lambda>_. ''<'') value;
          value = replace_all (lit ''&gt;'') (\<lambda>_. ''>'') value;
          value = replace_all (lit ''&quot;'') (\<lambda>_. [CHR 34]) value;
          value = replace_all (lit ''&apos;'') (\<lambda>_. [CHR 39]) value
      in case replace_codes decimal_entity (\<lambda>w. parse_digits 10 (\<lambda>c. of_char c - 48) 0 (drop 2 (butlast w))) value of
           None \<Rightarrow> None
         | Some value \<Rightarrow>
             (case replace_codes hex_entity (\<lambda>w. parse_digits 16 hex_value 0 (drop 3 (butlast w))) value of
                None \<Rightarrow> None
              | Some value \<Rightarrow> Some (replace_all (lit ''&amp;'') (\<lambda>_. ''&'') value)))"

definition not_gt :: rx where
  "not_gt = Greedy (One (\<lambda>c. c \<noteq> CHR ''>'')) 0 None"

definition run_open_rx :: rx where
  "run_open_rx = Seq (lit ''<w:t'') (Seq Boundary (Seq not_gt (lit ''>'')))"

definition extractDocxXmlText :: "string \<Rightarrow> string option" where
  "extractDocxXmlText xml =
     (let paragraphs = replace_all (lit ''</w:p>'') (\<lambda>_. [CHR 10]) xml;
          withBreaks = replace_all (Seq (lit ''<w:'') (Seq (Alt (lit ''br'') (Alt (lit ''tab'') (lit ''cr'')))
            (Seq Boundary (Seq not_gt (Seq (Greedy (lit ''/'') 0 (Some 1)) (lit ''>''))))))
            (\<lambda>_. '' '') paragraphs;
          runs = match_all (Seq run_open_rx (Seq (Lazily (One (\<lambda>_. True))) (lit ''</w:t>''))) withBreaks;
          text = join_with '' '' (map (\<lambda>run. remove_first (lit ''</w:t>'') (remove_first run_open_rx run)) runs)
      in decodeXmlEntities text)"

definition extractDocxText :: "extractors \<Rightarrow> string \<Rightarrow> string" where
  "extractDocxText xp buffer =
     (if take 2 buffer \<noteq> ''PK'' then []
      else case xp_docxXml xp buffer of
        None \<Rightarrow> []
      | Some None \<Rightarrow> []
      | Some (Some xml) \<Rightarrow>
          (case extractDocxXmlText xml of None \<Rightarrow> [] | Some text \<Rightarrow> clip text))"

definition DOCX_MIME :: string where
  "DOCX_MIME = ''application/vnd.openxmlformats-officedocument.wordprocessingml.document''"

definition isPdf :: "string \<Rightarrow> string option \<Rightarrow> bool" where
  "isPdf buffer mimeType = (mimeType = Some ''application/pdf'' \<or> take 5 buffer = ''%PDF-'')"

definition isTextLike :: "string option \<Rightarrow> bool" where
  "isTextLike mimeType =
     (case mimeType of
        None \<Rightarrow> False
      | Some m \<Rightarrow> truthy m \<and> (starts_with m ''text/''
          \<or> m \<in> {''application/json'', ''application/xml'', ''application/csv''}))"

definition extractText :: "extractors \<Rightarrow> string \<Rightarrow> string option \<Rightarrow> string option" where
  "extractText xp buffer mimeType =
     (if isPdf buffer mimeType then Some (extractPdfText xp buffer)
      else if mimeType = Some DOCX_MIME then Some (extractDocxText xp buffer)
      else if isTextLike mimeType then Some (xp_utf8 xp (clip buffer))
      else None)"

definition dlpScan :: "extractors \<Rightarrow> string \<Rightarrow> string option \<Rightarrow> dlp_result" where
  "dlpScan xp buffer mimeType =
     (case extractText xp buffer mimeType of None \<Rightarrow> Dlp_clear | Some text \<Rightarrow> scanText text)"

section \<open>Malware\<close>

definition EICAR_SIGNATURE :: string where
  "EICAR_SIGNATURE = ''X5O!P%@AP[4'' @ [CHR 92] @
     ''PZX54(P^)7CC)7}$EICAR-STANDARD-ANTIVIRUS-TEST-FILE!$H+H*''"

datatype malware_result =
    Clean string bool "string option"
  | Infected string string "string option"

text \<open>\<open>buffer.toString('ascii')\<close> drops the highest bit of every byte.\<close>

definition ascii :: "string \<Rightarrow> string" where
  "ascii = map (\<lambda>c. char_of (of_char c mod 128 :: nat))"

definition scanEicar :: "string \<Rightarrow> malware_result" where
  "scanEicar buffer =
     (if js_includes (ascii buffer) EICAR_SIGNATURE
      then Infected ''local-eicar'' ''EICAR-Test-File'' None
      else Clean ''local-eicar'' False None)"

definition line_char :: "char \<Rightarrow> bool" where
  "line_char c = (c \<noteq> CHR 10 \<and> c \<noteq> CHR 13)"

definition found_rx :: rx where
  "found_rx = Seq (lit '': '') (Seq (Greedy (One line_char) 1 None) (lit_i '' FOUND''))"

text \<open>The answer of the daemon, or the message of the error that ended the connection.\<close>

definition scanWithClamAv :: "(string \<rightharpoonup> string) \<Rightarrow> string + string \<Rightarrow> malware_result" where
  "scanWithClamAv ev answer =
     (case answer of
        Inr response \<Rightarrow>
          (case match_all found_rx response of
             m # _ \<Rightarrow> Infected ''clamav'' (drop 2 (take (length m - 6) m)) None
           | [] \<Rightarrow>
               if match_all (keyword_rx ''OK'') response \<noteq> [] then Clean ''clamav'' False None
               else Infected ''clamav'' ''CLAMAV_UNKNOWN_RESPONSE'' (Some (trim response)))
      | Inl message \<Rightarrow>
          if ev ''MALWARE_SCANNER_FAILURE_POLICY'' = Some ''fail-open''
          then Clean ''clamav'' True (Some message)
          else Infected ''clamav'' ''SCANNER_UNAVAILABLE'' (Some message))"

definition malwareScan :: "(string \<rightharpoonup> string) \<Rightarrow> (string \<Rightarrow> string + string) \<Rightarrow> string \<Rightarrow> malware_result" where
  "malwareScan ev clamav buffer =
     (case scanEicar buffer of
        Infected e t m \<Rightarrow> Infected e t m
      | Clean e d m \<Rightarrow>
          if ev ''MALWARE_SCANNER_MODE'' = Some ''clamav'' then scanWithClamAv ev (clamav buffer)
          else Clean e d m)"

end
