(* ===== verification/Web_Permissions.thy ===== *)
theory Web_Permissions
  imports Policy_Service Text_Scan
begin

text \<open>
  The permission helpers of the web client,
  \<open>apps/web/src/lib/auth/permissions.ts\<close> and \<open>roles.ts\<close>: which documents a session
  may read, preview and download, the reason shown when it may not, and which
  buttons the pages offer. The helpers work on what the client knows: the session
  and a document as a listing or a detail page returned it.
\<close>

section \<open>Sessions and document contexts\<close>

record web_session =
  ws_sub :: string
  ws_roles :: "string list"
  ws_groups :: "string list option"

text \<open>
  \<open>ownerId?: string | null\<close> is \<open>None\<close> when absent and \<open>Some None\<close> when \<open>null\<close>; a
  property that an object may own with the value \<open>undefined\<close> is an option of an option.
\<close>

record acl_context =
  ac_subjectType :: subject_type
  ac_subjectId :: "string option"
  ac_permission :: permission
  ac_effect :: acl_effect

record version_context =
  vc_version :: "int option"
  vc_versionNumber :: "int option"

record document_context =
  dc_status :: doc_status
  dc_ownerId :: "string option option"
  dc_classification :: "classification option"
  dc_currentVersion :: "int option"
  dc_versions :: "version_context list option"
  dc_aclEntries :: "acl_context list option option"
  dc_acl :: "acl_context list option option"

datatype access_action = Metadata_action | Preview_action | Download_action

record access_decision =
  dn_allowed :: bool
  dn_reason :: "string option"

definition allow :: access_decision where
  "allow = \<lparr> dn_allowed = True, dn_reason = None \<rparr>"

definition deny :: "string \<Rightarrow> access_decision" where
  "deny reason = \<lparr> dn_allowed = False, dn_reason = Some reason \<rparr>"

section \<open>Roles, ownership and ACL entries\<close>

definition hasRole :: "web_session option \<Rightarrow> string \<Rightarrow> bool" where
  "hasRole session role = (case session of None \<Rightarrow> False | Some s \<Rightarrow> role \<in> set (ws_roles s))"

definition hasAnyRole :: "web_session option \<Rightarrow> string list \<Rightarrow> bool" where
  "hasAnyRole session roles =
     (case session of None \<Rightarrow> False | Some s \<Rightarrow> list_ex (\<lambda>r. r \<in> set (ws_roles s)) roles)"

definition isOwner :: "web_session option \<Rightarrow> string option option \<Rightarrow> bool" where
  "isOwner session ownerId =
     (case session of None \<Rightarrow> ownerId = None | Some s \<Rightarrow> ownerId = Some (Some (ws_sub s)))"

definition hasAnyUserRole :: "web_session option \<Rightarrow> string list \<Rightarrow> bool" where
  "hasAnyUserRole session roles = list_ex (hasRole session) roles"

definition getAclEntries :: "document_context \<Rightarrow> acl_context list" where
  "getAclEntries doc =
     coalesce (or_else (coalesce (dc_aclEntries doc) None) (coalesce (dc_acl doc) None)) []"

definition hasAclContext :: "document_context \<Rightarrow> bool" where
  "hasAclContext doc = (dc_aclEntries doc \<noteq> None \<or> dc_acl doc \<noteq> None)"

definition isAclDependentDenial :: "string \<Rightarrow> bool" where
  "isAclDependentDenial reason =
     (js_includes reason ''explicit READ ACL allow''
      \<or> js_includes reason ''explicit DOWNLOAD ACL allow''
      \<or> js_includes reason ''denied by classification policy'')"

text \<open>The callback of \<open>matchesAcl\<close>, after the permission and the effect are compared.\<close>

definition entrySubjectMatches :: "acl_context \<Rightarrow> string \<Rightarrow> string list \<Rightarrow> string list \<Rightarrow> bool" where
  "entrySubjectMatches entry actorId roles groups =
     (case ac_subjectType entry of
        ALL_SUBJECTS \<Rightarrow> True
      | USER \<Rightarrow> ac_subjectId entry = Some actorId
      | ROLE \<Rightarrow> (case ac_subjectId entry of None \<Rightarrow> False | Some i \<Rightarrow> truthy i \<and> i \<in> set roles)
      | GROUP \<Rightarrow>
          (case head_option (normalizeGroups (Some
              (case ac_subjectId entry of None \<Rightarrow> [] | Some i \<Rightarrow> if truthy i then [i] else []))) of
             None \<Rightarrow> False
           | Some normalizedSubject \<Rightarrow> truthy normalizedSubject \<and> normalizedSubject \<in> set groups))"

definition matchesAcl_web ::
  "web_session option \<Rightarrow> document_context \<Rightarrow> permission \<Rightarrow> acl_effect \<Rightarrow> bool" where
  "matchesAcl_web session doc permission eff =
     (case session of None \<Rightarrow> False
      | Some s \<Rightarrow>
          (let groups = normalizeGroups (ws_groups s)
           in list_ex (\<lambda>entry.
                if ac_permission entry \<noteq> permission \<or> ac_effect entry \<noteq> eff then False
                else entrySubjectMatches entry (ws_sub s) (ws_roles s) groups) (getAclEntries doc)))"

definition hasDocumentVersion :: "document_context \<Rightarrow> bool" where
  "hasDocumentVersion doc =
     (case dc_currentVersion doc of
        Some n \<Rightarrow> 0 < n
      | None \<Rightarrow>
          (case dc_versions doc of
             Some vs \<Rightarrow> list_ex (\<lambda>v. 0 < coalesce (or_else (vc_versionNumber v) (vc_version v)) 0) vs
           | None \<Rightarrow> True))"

section \<open>Access decisions\<close>

definition getClassificationContentDecision ::
  "web_session option \<Rightarrow> document_context \<Rightarrow> permission \<Rightarrow> bool \<Rightarrow> bool \<Rightarrow> access_decision" where
  "getClassificationContentDecision session doc permission approverBypasses ownerBypasses =
     (case dc_classification doc of
        None \<Rightarrow> allow
      | Some cls \<Rightarrow>
          if hasRole session ''admin'' then allow
          else if approverBypasses \<and> hasRole session ''approver'' then allow
          else if ownerBypasses \<and> isOwner session (dc_ownerId doc) then allow
          else
            let explicitAllow = matchesAcl_web session doc permission ALLOW
            in case cls of
                 PUBLIC \<Rightarrow> allow
               | INTERNAL \<Rightarrow>
                   (if hasAnyUserRole session [''editor'', ''approver'', ''admin''] then allow
                    else deny ''INTERNAL documents require at least the editor role.'')
               | CONFIDENTIAL \<Rightarrow>
                   (if isOwner session (dc_ownerId doc) \<or> explicitAllow then allow
                    else if \<not> hasAnyUserRole session [''editor'', ''approver'', ''admin'']
                    then deny ''CONFIDENTIAL documents require at least the editor role.''
                    else deny (''CONFIDENTIAL documents require ownership or explicit ''
                           @ show_permission permission @ '' ACL allow.''))
               | SECRET \<Rightarrow>
                   (if \<not> hasAnyUserRole session [''approver'', ''admin'']
                    then deny ''SECRET documents require at least the approver role.''
                    else if isOwner session (dc_ownerId doc) \<or> explicitAllow then allow
                    else deny (''SECRET documents require ownership or explicit ''
                           @ show_permission permission @ '' ACL allow.'')))"

definition getMetadataAccessDecision :: "web_session option \<Rightarrow> document_context \<Rightarrow> access_decision" where
  "getMetadataAccessDecision session doc =
     (if session = None then deny ''Authentication is required.''
      else if dc_status doc = DELETED then deny ''Document is deleted.''
      else if matchesAcl_web session doc READ DENY then deny ''Metadata read denied by ACL.''
      else if hasRole session ''admin'' then allow
      else
        let explicitReadAllow = matchesAcl_web session doc READ ALLOW;
            explicitDownloadAllow = matchesAcl_web session doc DOWNLOAD ALLOW
        in if isOwner session (dc_ownerId doc) \<or> explicitReadAllow \<or> explicitDownloadAllow then allow
           else if hasRole session ''compliance_officer'' then
             (if dc_status doc \<in> {PUBLISHED, ARCHIVED} then allow
              else deny ''Compliance officers can only read published or archived metadata.'')
           else if hasRole session ''approver'' then
             (if dc_status doc \<in> {PENDING, PUBLISHED, ARCHIVED} then allow
              else deny ''Approvers can only read pending, published, or archived metadata.'')
           else if dc_status doc \<notin> {PUBLISHED, ARCHIVED}
           then deny ''Only published or archived documents are readable by this user.''
           else if dc_classification doc \<in> {None, Some PUBLIC} then allow
           else if dc_classification doc = Some INTERNAL \<and> hasAnyUserRole session [''editor''] then allow
           else if dc_classification doc = Some CONFIDENTIAL \<and> hasRole session ''editor'' \<and> explicitReadAllow
           then allow
           else deny ''Metadata read denied by classification policy.'')"

definition getDownloadAccessDecision :: "web_session option \<Rightarrow> document_context \<Rightarrow> access_decision" where
  "getDownloadAccessDecision session doc =
     (if session = None then deny ''Authentication is required.''
      else if hasRole session ''compliance_officer''
      then deny ''Compliance officers cannot download file content.''
      else if dc_status doc \<noteq> PUBLISHED then deny ''Only published documents can be downloaded.''
      else if \<not> hasDocumentVersion doc then deny ''Document has no uploaded version.''
      else if matchesAcl_web session doc DOWNLOAD DENY then deny ''Download denied by ACL.''
      else getClassificationContentDecision session doc DOWNLOAD False False)"

definition getPreviewAccessDecision :: "web_session option \<Rightarrow> document_context \<Rightarrow> access_decision" where
  "getPreviewAccessDecision session doc =
     (if session = None then deny ''Authentication is required.''
      else if hasRole session ''compliance_officer''
      then deny ''Compliance officers cannot preview file content.''
      else if dc_status doc = DELETED then deny ''Deleted documents cannot be previewed.''
      else if \<not> hasDocumentVersion doc then deny ''Document has no uploaded version.''
      else if matchesAcl_web session doc READ DENY then deny ''Preview denied by ACL.''
      else getClassificationContentDecision session doc READ True True)"

definition getDocumentAccessDecision ::
  "web_session option \<Rightarrow> document_context \<Rightarrow> access_action \<Rightarrow> access_decision" where
  "getDocumentAccessDecision session doc action =
     (if action = Metadata_action then getMetadataAccessDecision session doc
      else if action = Download_action then getDownloadAccessDecision session doc
      else getPreviewAccessDecision session doc)"

definition getExplainableDocumentAccessDecision ::
  "web_session option \<Rightarrow> document_context \<Rightarrow> access_action \<Rightarrow> access_decision" where
  "getExplainableDocumentAccessDecision session doc action =
     (let decision = getDocumentAccessDecision session doc action
      in case dn_reason decision of
           None \<Rightarrow> decision
         | Some reason \<Rightarrow>
             if dn_allowed decision \<or> \<not> truthy reason \<or> hasAclContext doc then decision
             else if isAclDependentDenial reason then \<lparr> dn_allowed = False, dn_reason = None \<rparr>
             else decision)"

section \<open>Buttons\<close>

definition canViewDocuments :: "web_session option \<Rightarrow> bool" where
  "canViewDocuments session = (session \<noteq> None)"

definition canViewDocumentDetail :: "web_session option \<Rightarrow> document_context option \<Rightarrow> bool" where
  "canViewDocumentDetail session doc =
     (if session = None then False
      else case doc of None \<Rightarrow> True
        | Some d \<Rightarrow> dn_allowed (getDocumentAccessDecision session d Metadata_action))"

definition canCreateDocument :: "web_session option \<Rightarrow> bool" where
  "canCreateDocument session = hasAnyRole session [''editor'', ''admin'']"

definition canEditDocument :: "web_session option \<Rightarrow> document_context \<Rightarrow> bool" where
  "canEditDocument session doc =
     (if session = None then False
      else if hasRole session ''admin'' then True
      else if hasRole session ''editor'' \<and> isOwner session (dc_ownerId doc) then True
      else False)"

definition canSubmitDocument :: "web_session option \<Rightarrow> document_context \<Rightarrow> bool" where
  "canSubmitDocument session doc =
     (if session = None then False
      else if dc_status doc \<noteq> DRAFT then False
      else if hasRole session ''admin'' then True
      else hasRole session ''editor'' \<and> isOwner session (dc_ownerId doc))"

definition canApproveDocument :: "web_session option \<Rightarrow> document_context \<Rightarrow> bool" where
  "canApproveDocument session doc =
     (if session = None then False
      else if dc_status doc \<noteq> PENDING then False
      else hasAnyRole session [''approver'', ''admin''])"

definition canRejectDocument :: "web_session option \<Rightarrow> document_context \<Rightarrow> bool" where
  "canRejectDocument session doc =
     (if session = None then False
      else if dc_status doc \<noteq> PENDING then False
      else hasAnyRole session [''approver'', ''admin''])"

definition canArchiveDocument :: "web_session option \<Rightarrow> document_context \<Rightarrow> bool" where
  "canArchiveDocument session doc =
     (if session = None then False
      else if dc_status doc \<noteq> PUBLISHED then False
      else if hasRole session ''admin'' then True
      else hasRole session ''editor'' \<and> isOwner session (dc_ownerId doc))"

definition canDeleteDocument :: "web_session option \<Rightarrow> document_context \<Rightarrow> bool" where
  "canDeleteDocument session doc =
     (if session = None then False
      else if dc_status doc \<noteq> DRAFT then False
      else if hasRole session ''admin'' then True
      else hasRole session ''editor'' \<and> isOwner session (dc_ownerId doc))"

definition canDownloadDocument :: "web_session option \<Rightarrow> document_context \<Rightarrow> bool" where
  "canDownloadDocument session doc = dn_allowed (getDocumentAccessDecision session doc Download_action)"

definition canPreviewDocument :: "web_session option \<Rightarrow> document_context \<Rightarrow> bool" where
  "canPreviewDocument session doc = dn_allowed (getDocumentAccessDecision session doc Preview_action)"

definition canManageAcl :: "web_session option \<Rightarrow> document_context \<Rightarrow> bool" where
  "canManageAcl session doc =
     (if session = None then False
      else if hasRole session ''admin'' then True
      else if hasRole session ''editor'' \<and> isOwner session (dc_ownerId doc) then True
      else False)"

definition canReadAcl :: "web_session option \<Rightarrow> bool" where
  "canReadAcl session = hasAnyRole session [''editor'', ''approver'', ''compliance_officer'', ''admin'']"

definition canViewAudit :: "web_session option \<Rightarrow> bool" where
  "canViewAudit session = hasAnyRole session [''compliance_officer'', ''admin'']"

definition canViewComplianceEvidencePacket :: "web_session option \<Rightarrow> bool" where
  "canViewComplianceEvidencePacket session = hasAnyRole session [''compliance_officer'', ''admin'']"

definition canManageLegalHold :: "web_session option \<Rightarrow> bool" where
  "canManageLegalHold session = hasAnyRole session [''admin'']"

definition canViewApprovals :: "web_session option \<Rightarrow> bool" where
  "canViewApprovals session = hasAnyRole session [''approver'', ''admin'']"

record analytics_visibility =
  canViewApprovalAggregates :: bool
  canViewRetentionAggregates :: bool
  canViewSecurityAggregates :: bool
  canViewSensitiveDocumentAggregates :: bool

definition getAnalyticsVisibility :: "web_session option \<Rightarrow> analytics_visibility" where
  "getAnalyticsVisibility session =
     (let canViewComplianceAggregates = hasAnyRole session [''compliance_officer'', ''admin'']
      in \<lparr> canViewApprovalAggregates = canViewApprovals session,
           canViewRetentionAggregates = canViewComplianceAggregates,
           canViewSecurityAggregates = canViewComplianceAggregates,
           canViewSensitiveDocumentAggregates = canViewComplianceAggregates \<rparr>)"

end
