(* ===== verification/Web_Properties.thy ===== *)
theory Web_Properties
  imports Web_Permissions Policy_Properties Workflow_Service
begin

text \<open>
  What the pages of the web client offer against what the services decide: the
  access decisions equal those of the policy service for the same user and
  document, a workflow button is offered exactly when the workflow service lets
  the action through, and the explanations shown without ACL data hold whatever
  the ACL says, outside the confidential class.
\<close>

section \<open>The same user and document on both sides\<close>

definition acl_context_of :: "acl_entry \<Rightarrow> acl_context" where
  "acl_context_of a = \<lparr> ac_subjectType = a_subjectType a, ac_subjectId = a_subjectId a,
     ac_permission = a_permission a, ac_effect = a_effect a \<rparr>"

lemma context_fields:
  "ac_permission (acl_context_of a) = a_permission a" "ac_effect (acl_context_of a) = a_effect a"
  by (simp_all add: acl_context_of_def)

definition context_of :: "document \<Rightarrow> vault \<Rightarrow> document_context" where
  "context_of d s = \<lparr> dc_status = d_status d, dc_ownerId = Some (Some (d_ownerId d)),
     dc_classification = Some (d_classification d), dc_currentVersion = Some (d_currentVersion d),
     dc_versions = None, dc_aclEntries = Some (Some (map acl_context_of (aclEntriesOf (d_id d) s))),
     dc_acl = None \<rparr>"

definition session_matches :: "web_session \<Rightarrow> service_user \<Rightarrow> request_context \<Rightarrow> bool" where
  "session_matches w u c = (ws_sub w = buildActorId u \<and> u_roles u = Some (ws_roles w)
     \<and> normalizeGroups (ws_groups w) = getActorGroups u c)"

lemmas role_simps = hasRole_def hasAnyRole_def hasAnyUserRole_def isOwner_def list_ex_iff

lemma matchesAcl_web_rule:
  "matchesAcl_web (Some w) (context_of d s) p e \<longleftrightarrow>
     acl_rule s (d_id d) p e (ws_sub w) (ws_roles w) (normalizeGroups (ws_groups w))"
proof -
  have "entrySubjectMatches (acl_context_of a) x rs gs = matchesSubject a x rs gs" for a x rs gs
    by (cases "a_subjectType a")
      (simp_all add: entrySubjectMatches_def matchesSubject_def matchesGroupSubject_def acl_context_of_def)
  then show ?thesis
    by (auto simp: matchesAcl_web_def context_of_def getAclEntries_def acl_rule_def aclEntriesOf_def
        list_ex_iff Let_def context_fields)
qed

lemma content_decision:
  "dn_allowed (getClassificationContentDecision (Some w) (context_of d s) p ap ow) \<longleftrightarrow>
     ap \<and> ''approver'' \<in> set (ws_roles w) \<or> ow \<and> ws_sub w = d_ownerId d
     \<or> clearance (d_classification d) (set (ws_roles w)) (ws_sub w = d_ownerId d)
         (acl_rule s (d_id d) p ALLOW (ws_sub w) (ws_roles w) (normalizeGroups (ws_groups w)))"
  unfolding getClassificationContentDecision_def matchesAcl_web_rule
  by (cases "d_classification d")
    (auto simp: context_of_def role_simps clearance_def allow_def deny_def Let_def)

lemma web_metadata:
  "dn_allowed (getMetadataAccessDecision (Some w) (context_of d s)) \<longleftrightarrow>
     d_status d \<noteq> DELETED \<and> metadata_readable False (ws_sub w) (ws_roles w) (normalizeGroups (ws_groups w)) d s"
  unfolding getMetadataAccessDecision_def matchesAcl_web_rule
  by (cases "d_classification d"; cases "d_status d")
    (auto simp: context_of_def role_simps metadata_readable_def allow_def deny_def Let_def)

lemma web_download:
  "dn_allowed (getDownloadAccessDecision (Some w) (context_of d s)) \<longleftrightarrow>
     ''compliance_officer'' \<notin> set (ws_roles w) \<and> d_status d = PUBLISHED \<and> 1 \<le> d_currentVersion d
     \<and> \<not> acl_rule s (d_id d) DOWNLOAD DENY (ws_sub w) (ws_roles w) (normalizeGroups (ws_groups w))
     \<and> clearance (d_classification d) (set (ws_roles w)) (ws_sub w = d_ownerId d)
         (acl_rule s (d_id d) DOWNLOAD ALLOW (ws_sub w) (ws_roles w) (normalizeGroups (ws_groups w)))"
  unfolding getDownloadAccessDecision_def matchesAcl_web_rule
  by (auto simp: content_decision hasRole_def hasDocumentVersion_def deny_def)
    (auto simp: context_of_def)

lemma web_preview:
  "dn_allowed (getPreviewAccessDecision (Some w) (context_of d s)) \<longleftrightarrow>
     ''compliance_officer'' \<notin> set (ws_roles w) \<and> d_status d \<noteq> DELETED \<and> 1 \<le> d_currentVersion d
     \<and> \<not> acl_rule s (d_id d) READ DENY (ws_sub w) (ws_roles w) (normalizeGroups (ws_groups w))
     \<and> (''approver'' \<in> set (ws_roles w) \<or> ws_sub w = d_ownerId d
        \<or> clearance (d_classification d) (set (ws_roles w)) (ws_sub w = d_ownerId d)
            (acl_rule s (d_id d) READ ALLOW (ws_sub w) (ws_roles w) (normalizeGroups (ws_groups w))))"
  unfolding getPreviewAccessDecision_def matchesAcl_web_rule
  by (auto simp: content_decision hasRole_def hasDocumentVersion_def deny_def)
    (auto simp: context_of_def)

text \<open>
  C9: for the same user, document and ACL, the web client and the policy service
  decide alike, when no share link is involved: metadata shown exactly when the
  service reads it out, the download button enabled exactly when the service
  issues a grant, and the preview likewise, except that the service also previews
  deleted documents.
\<close>

theorem web_agrees_with_policy:
  assumes "session_matches w u c" and "docSeenBy now (c_actorId c) i s = Some d" and "d_id d = i"
    and "findVersion (d_id d) (d_currentVersion d) s \<noteq> None"
    and "can_sign (env s) ''DOWNLOAD_GRANT_SECRET''" "can_sign (env s) ''PREVIEW_GRANT_SECRET''"
  shows "canViewDocumentDetail (Some w) (Some (context_of d s))
        = succeeds (assertCanReadMetadata cr now i u c None s)
    \<and> canDownloadDocument (Some w) (context_of d s) = succeeds (authorizeDownload cr now i None u c None s)
    \<and> canPreviewDocument (Some w) (context_of d s)
        = (d_status d \<noteq> DELETED \<and> succeeds (authorizePreview cr now i None u c None s))"
proof (intro conjI)
  have roles: "u_roles u = Some (ws_roles w)" "buildActorId u = ws_sub w"
      "getActorGroups u c = normalizeGroups (ws_groups w)"
    using assms(1) by (auto simp: session_matches_def)
  have "succeeds (assertCanReadMetadata cr now i u c None s) \<longleftrightarrow>
      (\<exists>d'. \<exists>t. assertCanReadMetadata cr now i u c None s = (Inr d', t))"
    by (simp add: succeeds_iff)
  then show "canViewDocumentDetail (Some w) (Some (context_of d s))
        = succeeds (assertCanReadMetadata cr now i u c None s)"
    unfolding assertCanReadMetadata_Inr_iff
    using assms(2) roles by (simp add: canViewDocumentDetail_def getDocumentAccessDecision_def web_metadata)
  show "canDownloadDocument (Some w) (context_of d s) = succeeds (authorizeDownload cr now i None u c None s)"
    unfolding authorizeDownload_iff using assms roles
    by (auto simp: canDownloadDocument_def getDocumentAccessDecision_def web_download download_permitted_def Let_def)
  show "canPreviewDocument (Some w) (context_of d s)
        = (d_status d \<noteq> DELETED \<and> succeeds (authorizePreview cr now i None u c None s))"
    unfolding authorizePreview_iff using assms roles
    by (auto simp: canPreviewDocument_def getDocumentAccessDecision_def web_preview preview_permitted_def Let_def)
qed

definition bob_session :: web_session where
  "bob_session = \<lparr> ws_sub = ''bob'', ws_roles = [''viewer''], ws_groups = Some [] \<rparr>"

theorem web_agrees_with_policy_witness:
  "canDownloadDocument (Some bob_session) (context_of published_document sample_vault)
   \<and> succeeds (authorizeDownload (sample_crypto JNull) 1000 ''d1'' None
       (sample_user ''bob'' [''viewer'']) (sample_context ''bob'' [''viewer'']) None sample_vault)"
proof -
  have "session_matches bob_session (sample_user ''bob'' [''viewer'']) (sample_context ''bob'' [''viewer''])"
    "docSeenBy 1000 (c_actorId (sample_context ''bob'' [''viewer''])) ''d1'' sample_vault = Some published_document"
    "d_id published_document = ''d1''"
    "findVersion (d_id published_document) (d_currentVersion published_document) sample_vault \<noteq> None"
    "can_sign (env sample_vault) ''DOWNLOAD_GRANT_SECRET''"
    "can_sign (env sample_vault) ''PREVIEW_GRANT_SECRET''"
    "canDownloadDocument (Some bob_session) (context_of published_document sample_vault)"
    by code_simp+
  then show ?thesis
    using web_agrees_with_policy [of bob_session "sample_user ''bob'' [''viewer'']"
        "sample_context ''bob'' [''viewer'']" 1000 "''d1''" sample_vault published_document "sample_crypto JNull"]
    by blast
qed

section \<open>Workflow buttons\<close>

text \<open>The chain lets this caller's approval through, and what it then asks of the metadata service.\<close>

definition approval_goes_through :: "'s metadata_api \<Rightarrow> string \<Rightarrow> request_context \<Rightarrow> document \<Rightarrow> bool \<Rightarrow> 's \<Rightarrow> bool" where
  "approval_goes_through api i c d admin s =
     (if d_approvalChain d \<noteq> [] \<and> \<not> admin
      then js_nth (d_approvalChain d) (d_approvalStep d) = Some (c_actorId c)
        \<and> (if d_approvalStep d < int (length (d_approvalChain d)) - 1
           then succeeds (api_advanceApprovalStep api i c s)
           else succeeds (api_updateStatus api i PUBLISHED APPROVE c None s))
      else succeeds (api_updateStatus api i PUBLISHED APPROVE c None s))"

lemma succeeds_andThen_total: "(\<And>a t. succeeds (f a t)) \<Longrightarrow> succeeds (andThen m f) = succeeds m"
  by (auto simp: succeeds_andThen succeeds_iff [of m])

text \<open>
  C28: a workflow button is enabled exactly when the workflow service accepts the
  action from this user on this document, as far as the metadata service then
  performs it; the one exception is an approval chain, of whose turn the approve
  button knows nothing.
\<close>

theorem workflow_buttons_match_service:
  fixes api :: "'s metadata_api"
  assumes "session_matches w u c" and "api_getDocument api i c s = (Inr d, t)"
  shows "succeeds (submit api i u c s) = (canSubmitDocument (Some w) (context_of d v)
        \<and> succeeds (api_updateStatus api i PENDING SUBMIT c None t))
    \<and> succeeds (approve api i u c s) = (canApproveDocument (Some w) (context_of d v)
        \<and> approval_goes_through api i c d (hasRole (Some w) ''admin'') t)
    \<and> succeeds (reject api i reason u c s) = (canRejectDocument (Some w) (context_of d v)
        \<and> succeeds (api_updateStatus api i DRAFT REJECT c reason t))
    \<and> succeeds (archive api i u c s) = (canArchiveDocument (Some w) (context_of d v)
        \<and> succeeds (api_updateStatus api i ARCHIVED ARCHIVE c None t))
    \<and> succeeds (deleteWorkflow api i u c s) = (canDeleteDocument (Some w) (context_of d v)
        \<and> succeeds (api_updateStatus api i DELETED DELETE c None t))"
proof (intro conjI)
  have roles: "u_roles u = Some (ws_roles w)" "buildActorId u = ws_sub w"
    using assms(1) by (auto simp: session_matches_def)
  note simps = assms(2) roles Let_def role_simps context_of_def succeeds_andThen_total
  show "succeeds (submit api i u c s) = (canSubmitDocument (Some w) (context_of d v)
        \<and> succeeds (api_updateStatus api i PENDING SUBMIT c None t))"
    by (auto simp: submit_def canSubmitDocument_def simps split: prod.splits)
  show "succeeds (approve api i u c s) = (canApproveDocument (Some w) (context_of d v)
        \<and> approval_goes_through api i c d (hasRole (Some w) ''admin'') t)"
    by (auto simp: approve_def canApproveDocument_def approval_goes_through_def approvePublish_def simps)
  show "succeeds (reject api i reason u c s) = (canRejectDocument (Some w) (context_of d v)
        \<and> succeeds (api_updateStatus api i DRAFT REJECT c reason t))"
    by (auto simp: reject_def canRejectDocument_def simps)
  show "succeeds (archive api i u c s) = (canArchiveDocument (Some w) (context_of d v)
        \<and> succeeds (api_updateStatus api i ARCHIVED ARCHIVE c None t))"
    by (auto simp: archive_def canArchiveDocument_def simps)
  show "succeeds (deleteWorkflow api i u c s) = (canDeleteDocument (Some w) (context_of d v)
        \<and> succeeds (api_updateStatus api i DELETED DELETE c None t))"
    by (auto simp: deleteWorkflow_def canDeleteDocument_def simps)
qed

definition carol_session :: web_session where
  "carol_session = \<lparr> ws_sub = ''carol'', ws_roles = [''approver''], ws_groups = Some [] \<rparr>"

theorem workflow_buttons_match_service_witness:
  "canRejectDocument (Some carol_session) (context_of pending_document sample_vault)
   \<and> succeeds (reject (vaultApi (sample_crypto JNull) 1000 (sample_user ''carol'' [''approver''])) ''d2'' None
       (sample_user ''carol'' [''approver'']) (sample_context ''carol'' [''approver'']) sample_vault)"
proof -
  let ?u = "sample_user ''carol'' [''approver'']" and ?c = "sample_context ''carol'' [''approver'']"
  let ?api = "vaultApi (sample_crypto JNull) 1000 ?u"
  let ?t = "snd (api_getDocument ?api ''d2'' ?c sample_vault)"
  have "session_matches carol_session ?u ?c" "fst (api_getDocument ?api ''d2'' ?c sample_vault) = Inr pending_document"
    "canRejectDocument (Some carol_session) (context_of pending_document sample_vault)"
    "succeeds (api_updateStatus ?api ''d2'' DRAFT REJECT ?c None ?t)"
    by code_simp+
  then show ?thesis
    using workflow_buttons_match_service [of carol_session ?u ?c ?api "''d2''" sample_vault pending_document ?t
        sample_vault None]
    by (metis prod.collapse)
qed

section \<open>Explanations\<close>

lemma no_acl_context: "\<not> hasAclContext doc \<Longrightarrow> \<not> matchesAcl_web w doc p e"
  by (auto simp: hasAclContext_def matchesAcl_web_def getAclEntries_def Let_def split: option.splits)

lemma acl_dependent_reasons:
  "isAclDependentDenial ''SECRET documents require ownership or explicit READ ACL allow.''"
  "isAclDependentDenial ''SECRET documents require ownership or explicit DOWNLOAD ACL allow.''"
  by code_simp+

lemma explained_content_denial:
  assumes "\<not> hasAclContext doc" "dc_classification doc \<noteq> Some CONFIDENTIAL" "p \<in> {READ, DOWNLOAD}"
    and "getClassificationContentDecision w doc p ap ow = deny reason" "\<not> isAclDependentDenial reason"
  shows "getClassificationContentDecision w (doc\<lparr>dc_aclEntries := a\<rparr>) p ap ow = deny reason"
proof (cases "dc_classification doc")
  case None
  then show ?thesis using assms(4) by (simp add: getClassificationContentDecision_def allow_def deny_def)
next
  case (Some cls)
  then show ?thesis using assms acl_dependent_reasons
    by (cases cls) (auto simp: getClassificationContentDecision_def allow_def deny_def no_acl_context Let_def
        split: if_splits)
qed

lemma explained_reason:
  assumes "\<not> hasAclContext doc" "dn_reason (getExplainableDocumentAccessDecision w doc act) = Some reason"
  shows "getDocumentAccessDecision w doc act = deny reason \<and> \<not> isAclDependentDenial reason
    \<or> getDocumentAccessDecision w doc act = \<lparr> dn_allowed = True, dn_reason = Some reason \<rparr> \<or> reason = []"
  using assms by (cases "getDocumentAccessDecision w doc act")
    (auto simp: getExplainableDocumentAccessDecision_def Let_def deny_def truthy_def split: option.splits if_splits)

definition shaped :: "access_decision \<Rightarrow> bool" where
  "shaped x = (x = allow \<or> (\<exists>r. r \<noteq> [] \<and> x = deny r))"

lemma shaped_simps [simp]: "shaped allow" "r \<noteq> [] \<Longrightarrow> shaped (deny r)"
  by (auto simp: shaped_def)

lemma shaped_content: "shaped (getClassificationContentDecision w doc p ap ow)"
  by (cases "dc_classification doc"; cases "the (dc_classification doc)")
    (simp_all add: getClassificationContentDecision_def Let_def)

lemma decisions_shape: "shaped (getDocumentAccessDecision w doc act)"
  by (simp add: getDocumentAccessDecision_def getMetadataAccessDecision_def getDownloadAccessDecision_def
      getPreviewAccessDecision_def shaped_content Let_def)

text \<open>
  a page that has no ACL data only explains a refused preview or download with
  a reason that no ACL entry could lift, outside the confidential class.
\<close>

theorem explanations_hold_for_every_acl:
  assumes "\<not> hasAclContext doc" and "dc_classification doc \<noteq> Some CONFIDENTIAL" and "act \<noteq> Metadata_action"
    and "dn_reason (getExplainableDocumentAccessDecision w doc act) = Some reason"
  shows "\<not> dn_allowed (getDocumentAccessDecision w (doc\<lparr>dc_aclEntries := Some (Some entries)\<rparr>) act)"
proof -
  have d: "getDocumentAccessDecision w doc act = deny reason" "\<not> isAclDependentDenial reason"
    using explained_reason [OF assms(1,4)] decisions_shape [of w doc act] assms(4)
    by (auto simp: shaped_def allow_def deny_def getExplainableDocumentAccessDecision_def Let_def truthy_def
        split: if_splits)
  have version: "hasDocumentVersion (doc\<lparr>dc_aclEntries := a\<rparr>) = hasDocumentVersion doc" for a
    by (simp add: hasDocumentVersion_def split: option.split)
  note content = explained_content_denial [OF assms(1,2) _ _ d(2)]
  consider "act = Download_action" | "act = Preview_action" using assms(3) by (cases act) auto
  then show ?thesis
  proof cases
    case 1
    then show ?thesis
      using d(1) content [of DOWNLOAD w False False "Some (Some entries)"]
      by (auto simp: getDocumentAccessDecision_def getDownloadAccessDecision_def no_acl_context [OF assms(1)]
          version deny_def split: if_splits)
  next
    case 2
    then show ?thesis
      using d(1) content [of READ w True True "Some (Some entries)"]
      by (auto simp: getDocumentAccessDecision_def getPreviewAccessDecision_def no_acl_context [OF assms(1)]
          version deny_def split: if_splits)
  qed
qed

definition listed_context :: "classification \<Rightarrow> document_context" where
  "listed_context cls = \<lparr> dc_status = PUBLISHED, dc_ownerId = Some (Some ''alice''), dc_classification = Some cls,
     dc_currentVersion = Some 1, dc_versions = None, dc_aclEntries = None, dc_acl = None \<rparr>"

theorem explanations_hold_for_every_acl_witness:
  "\<not> dn_allowed (getDocumentAccessDecision (Some bob_session) ((listed_context SECRET)\<lparr>dc_aclEntries :=
     Some (Some [\<lparr> ac_subjectType = USER, ac_subjectId = Some ''bob'', ac_permission = DOWNLOAD,
                   ac_effect = ALLOW \<rparr>])\<rparr>) Download_action)"
  by (rule explanations_hold_for_every_acl
      [where reason = "''SECRET documents require at least the approver role.''"]; code_simp)

text \<open>
  in the confidential class the explanation can be wrong: a viewer is told the
  editor role is required, though an ACL entry the page has not loaded grants the
  download to that very viewer.
\<close>

theorem confidential_explanation_wrong:
  "getExplainableDocumentAccessDecision (Some bob_session) (listed_context CONFIDENTIAL) Download_action
     = deny ''CONFIDENTIAL documents require at least the editor role.''
   \<and> dn_allowed (getDocumentAccessDecision (Some bob_session) ((listed_context CONFIDENTIAL)\<lparr>dc_aclEntries :=
     Some (Some [\<lparr> ac_subjectType = USER, ac_subjectId = Some ''bob'', ac_permission = DOWNLOAD,
                   ac_effect = ALLOW \<rparr>])\<rparr>) Download_action)"
  by code_simp

end
