(* ===== verification/Sensitive_Actions.thy ===== *)
theory Sensitive_Actions
  imports Grant_Tokens
begin

text \<open>
  Step-up proofs of the gateway,
  \<open>services/gateway/src/proxy/sensitive-action-proof.service.ts\<close>, and the routes of
  \<open>metadata.proxy.controller.ts\<close> that issue and demand them. A proof is a signed
  payload bound to an actor, an action and five minutes. Base64url decoding of a
  signature is a parameter beside those of \<open>crypto\<close>; so are the numbers the
  JavaScript runtime reads from a claim or a variable (\<open>Number\<close>).
\<close>

record proof_crypto = crypto +
  b64url_bytes :: "string \<Rightarrow> nat list"
  number_of_text :: "string \<Rightarrow> int option"

section \<open>Requests at the gateway\<close>

text \<open>
  \<open>gr_authTime\<close> is the claim \<open>auth_time\<close> of the verified token; header values are
  strings or arrays of strings.
\<close>

record gateway_request =
  gr_user :: service_user
  gr_authTime :: "json option"
  gr_headers :: fields
  gr_traceId :: "string option"
  gr_ip :: "string option"

section \<open>The actions\<close>

definition STEP_UP_PROOF_HEADER :: string where
  "STEP_UP_PROOF_HEADER = ''x-docvault-step-up-proof''"

definition PROOF_TTL_MS :: int where
  "PROOF_TTL_MS = 5 * 60 * 1000"

datatype sensitive_action = Export_evidence_packet | Run_retention

fun show_sensitive_action :: "sensitive_action \<Rightarrow> string" where
  "show_sensitive_action Export_evidence_packet = ''export-evidence-packet''"
| "show_sensitive_action Run_retention = ''run-retention''"

fun challengePhrase :: "sensitive_action \<Rightarrow> string" where
  "challengePhrase Export_evidence_packet = ''EXPORT EVIDENCE''"
| "challengePhrase Run_retention = ''RUN RETENTION''"

definition SENSITIVE_ACTIONS :: "string list" where
  "SENSITIVE_ACTIONS = map show_sensitive_action [Export_evidence_packet, Run_retention]"

section \<open>Helpers\<close>

text \<open>\<open>replace(/\s+/g, ' ')\<close>.\<close>

fun collapse_spaces :: "string \<Rightarrow> string" where
  "collapse_spaces [] = []"
| "collapse_spaces [c] = (if js_space c then '' '' else [c])"
| "collapse_spaces (c # d # cs) =
     (if js_space c then (if js_space d then collapse_spaces (d # cs) else CHR '' '' # collapse_spaces (d # cs))
      else c # collapse_spaces (d # cs))"

definition normalizePhrase :: "json option \<Rightarrow> string" where
  "normalizePhrase v = (case v of Some (JStr cs) \<Rightarrow> upper (collapse_spaces (trim cs)) | _ \<Rightarrow> [])"

definition firstHeaderValue :: "json option \<Rightarrow> string option" where
  "firstHeaderValue v =
     (case v of
        Some (JArr (JStr cs # _)) \<Rightarrow> Some cs
      | Some (JStr cs) \<Rightarrow> Some cs
      | _ \<Rightarrow> None)"

definition isEnabled :: "string option \<Rightarrow> bool" where
  "isEnabled v = (lower (coalesce v []) \<in> {''1'', ''true'', ''yes'', ''on''})"

definition invalidProof :: error where
  "invalidProof = Forbidden ''Invalid or expired sensitive action proof''"

definition parseAction :: "json option \<Rightarrow> error + sensitive_action" where
  "parseAction action =
     (case action of
        Some (JStr a) \<Rightarrow>
          (case find (\<lambda>x. show_sensitive_action x = a) [Export_evidence_packet, Run_retention] of
             Some x \<Rightarrow> Inr x
           | None \<Rightarrow> Inl (BadRequest ''Unsupported sensitive action''))
      | _ \<Rightarrow> Inl (BadRequest ''Unsupported sensitive action''))"

definition getActor :: "gateway_request \<Rightarrow> error + string" where
  "getActor req =
     (case or_else (u_sub (gr_user req)) (u_username (gr_user req)) of
        Some actor \<Rightarrow> if trim actor \<noteq> [] then Inr actor
                      else Inl (Forbidden ''Sensitive action actor is required'')
      | None \<Rightarrow> Inl (Forbidden ''Sensitive action actor is required''))"

definition getProofHeader :: "gateway_request \<Rightarrow> string option" where
  "getProofHeader req =
     (case map_of (gr_headers req) STEP_UP_PROOF_HEADER of
        Some direct \<Rightarrow>
          if j_truthy direct then firstHeaderValue (Some direct)
          else firstHeaderValue (map_option snd (find (\<lambda>(key, _). lower key = STEP_UP_PROOF_HEADER) (gr_headers req)))
      | None \<Rightarrow>
          firstHeaderValue (map_option snd (find (\<lambda>(key, _). lower key = STEP_UP_PROOF_HEADER) (gr_headers req))))"

section \<open>Recent authentication\<close>

record recent_auth =
  ra_checked :: bool
  ra_maxAgeSeconds :: int
  ra_authTime :: "int option"
  ra_ageSeconds :: "int option"

definition getRecentAuthMaxAgeSeconds :: "proof_crypto \<Rightarrow> (string \<rightharpoonup> string) \<Rightarrow> int" where
  "getRecentAuthMaxAgeSeconds cr ev =
     (case map_option (number_of_text cr) (ev ''SENSITIVE_ACTION_REAUTH_MAX_AGE_SECONDS'') of
        Some (Some value) \<Rightarrow> if 0 < value then value else 600
      | _ \<Rightarrow> 600)"

text \<open>\<open>Number(v)\<close> of a claim; \<open>None\<close> is not finite.\<close>

fun js_Number :: "(string \<Rightarrow> int option) \<Rightarrow> json option \<Rightarrow> int option" where
  "js_Number num (Some (JNum n)) = Some n"
| "js_Number num (Some JNull) = Some 0"
| "js_Number num (Some (JBool b)) = Some (if b then 1 else 0)"
| "js_Number num (Some (JStr cs)) = num cs"
| "js_Number num (Some (JArr [])) = Some 0"
| "js_Number num _ = None"

definition MAX_DATE_MS :: int where
  "MAX_DATE_MS = 8640000000000000"

definition getRecentAuthStatus ::
  "proof_crypto \<Rightarrow> (string \<rightharpoonup> string) \<Rightarrow> int \<Rightarrow> gateway_request \<Rightarrow> error + recent_auth" where
  "getRecentAuthStatus cr ev now req =
     (let maxAgeSeconds = getRecentAuthMaxAgeSeconds cr ev;
          requireRecentAuth = isEnabled (ev ''SENSITIVE_ACTION_REQUIRE_RECENT_AUTH'')
      in case js_Number (number_of_text cr) (gr_authTime req) of
           None \<Rightarrow>
             if requireRecentAuth
             then Inl (Forbidden ''Recent authentication is required for sensitive actions'')
             else Inr \<lparr> ra_checked = False, ra_maxAgeSeconds = maxAgeSeconds,
                        ra_authTime = None, ra_ageSeconds = None \<rparr>
         | Some authTimeSeconds \<Rightarrow>
             (let ageSeconds = now div 1000 - authTimeSeconds
              in if requireRecentAuth \<and> maxAgeSeconds < ageSeconds
                 then Inl (Forbidden ''Recent authentication is required for sensitive actions'')
                 else if MAX_DATE_MS < \<bar>authTimeSeconds * 1000\<bar> then Inl (JsError ''Invalid time value'')
                 else Inr \<lparr> ra_checked = requireRecentAuth, ra_maxAgeSeconds = maxAgeSeconds,
                            ra_authTime = Some (authTimeSeconds * 1000), ra_ageSeconds = Some ageSeconds \<rparr>))"

section \<open>Signing and verifying\<close>

definition getSecret :: "(string \<rightharpoonup> string) \<Rightarrow> error + string" where
  "getSecret ev =
     (case or_else (ev ''SENSITIVE_ACTION_PROOF_SECRET'') (ev ''KEYCLOAK_CLIENT_SECRET'') of
        Some secret \<Rightarrow>
          if truthy secret then Inr secret
          else if ev ''NODE_ENV'' = Some ''production''
          then Inl (InternalError ''SENSITIVE_ACTION_PROOF_SECRET is required'')
          else Inr ''dev-sensitive-action-proof-secret''
      | None \<Rightarrow>
          if ev ''NODE_ENV'' = Some ''production''
          then Inl (InternalError ''SENSITIVE_ACTION_PROOF_SECRET is required'')
          else Inr ''dev-sensitive-action-proof-secret'')"

definition signature_of :: "proof_crypto \<Rightarrow> (string \<rightharpoonup> string) \<Rightarrow> string \<Rightarrow> error + string" where
  "signature_of cr ev encodedPayload =
     (case getSecret ev of Inl e \<Rightarrow> Inl e | Inr secret \<Rightarrow> Inr (hmac_b64 cr secret encodedPayload))"

definition signPayload :: "proof_crypto \<Rightarrow> (string \<rightharpoonup> string) \<Rightarrow> json \<Rightarrow> error + string" where
  "signPayload cr ev payload =
     (let encodedPayload = encode_json cr payload
      in case signature_of cr ev encodedPayload of
           Inl e \<Rightarrow> Inl e
         | Inr sig \<Rightarrow> Inr (encodedPayload @ ''.'' @ sig))"

definition isExpectedSignature ::
  "proof_crypto \<Rightarrow> (string \<rightharpoonup> string) \<Rightarrow> string \<Rightarrow> string \<Rightarrow> error + bool" where
  "isExpectedSignature cr ev encodedPayload actualSignature =
     (case signature_of cr ev encodedPayload of
        Inl e \<Rightarrow> Inl e
      | Inr expected \<Rightarrow> Inr (b64url_bytes cr actualSignature = b64url_bytes cr expected))"

text \<open>
  A value used as a property name is first turned into a string, so that an array
  of one action name names the action too.
\<close>

fun names_action :: "json \<Rightarrow> bool" where
  "names_action (JStr a) = (a \<in> set SENSITIVE_ACTIONS)"
| "names_action (JArr [x]) = names_action x"
| "names_action _ = False"

definition isProofPayload :: "json \<Rightarrow> bool" where
  "isProofPayload value =
     ((case j_field ''actor'' value of Some (JStr _) \<Rightarrow> True | _ \<Rightarrow> False)
      \<and> (case j_field ''action'' value of Some a \<Rightarrow> names_action a | None \<Rightarrow> False)
      \<and> (case j_field ''expiresAt'' value of Some (JNum _) \<Rightarrow> True | _ \<Rightarrow> False)
      \<and> (case j_field ''nonce'' value of Some (JStr _) \<Rightarrow> True | _ \<Rightarrow> False))"

definition verifyProof :: "proof_crypto \<Rightarrow> (string \<rightharpoonup> string) \<Rightarrow> string \<Rightarrow> error + json" where
  "verifyProof cr ev proof =
     (let parts = split_on (CHR ''.'') proof;
          encodedPayload = coalesce (js_nth parts 0) [];
          sig = coalesce (js_nth parts 1) []
      in if \<not> truthy encodedPayload \<or> \<not> truthy sig \<or> js_nth parts 2 \<noteq> None then Inl invalidProof
         else case isExpectedSignature cr ev encodedPayload sig of
           Inl e \<Rightarrow> Inl e
         | Inr False \<Rightarrow> Inl invalidProof
         | Inr True \<Rightarrow>
             (case decode_json cr encodedPayload of
                None \<Rightarrow> Inl invalidProof
              | Some payload \<Rightarrow> if isProofPayload payload then Inr payload else Inl invalidProof))"

section \<open>Issuing and demanding a proof\<close>

record issued_proof =
  ip_proof :: string
  ip_expiresAt :: int
  ip_reauth :: recent_auth

definition proofPayload :: "string \<Rightarrow> sensitive_action \<Rightarrow> int \<Rightarrow> string \<Rightarrow> json" where
  "proofPayload actor action expiresAt nonce =
     JObj [(''actor'', JStr actor), (''action'', JStr (show_sensitive_action action)),
           (''expiresAt'', JNum expiresAt), (''nonce'', JStr nonce)]"

definition issueProof :: "proof_crypto \<Rightarrow> (string \<rightharpoonup> string) \<Rightarrow> int \<Rightarrow> string \<Rightarrow> gateway_request \<Rightarrow>
  json option \<Rightarrow> json option \<Rightarrow> error + issued_proof" where
  "issueProof cr ev now nonce req bodyAction bodyPhrase =
     (case parseAction bodyAction of
        Inl e \<Rightarrow> Inl e
      | Inr action \<Rightarrow>
          if normalizePhrase bodyPhrase \<noteq> normalizePhrase (Some (JStr (challengePhrase action)))
          then Inl (BadRequest ''Invalid sensitive action challenge phrase'')
          else case getActor req of
            Inl e \<Rightarrow> Inl e
          | Inr actor \<Rightarrow>
              (case getRecentAuthStatus cr ev now req of
                 Inl e \<Rightarrow> Inl e
               | Inr reauth \<Rightarrow>
                   (let expiresAt = now + PROOF_TTL_MS
                    in case signPayload cr ev (proofPayload actor action expiresAt nonce) of
                         Inl e \<Rightarrow> Inl e
                       | Inr proof \<Rightarrow> Inr \<lparr> ip_proof = proof, ip_expiresAt = expiresAt, ip_reauth = reauth \<rparr>)))"

definition assertProof :: "proof_crypto \<Rightarrow> (string \<rightharpoonup> string) \<Rightarrow> int \<Rightarrow> gateway_request \<Rightarrow>
  sensitive_action \<Rightarrow> error + unit" where
  "assertProof cr ev now req action =
     (case getProofHeader req of
        None \<Rightarrow> Inl invalidProof
      | Some proof \<Rightarrow>
          if \<not> truthy proof then Inl invalidProof
          else case verifyProof cr ev proof of
            Inl e \<Rightarrow> Inl e
          | Inr payload \<Rightarrow>
              (case getActor req of
                 Inl e \<Rightarrow> Inl e
               | Inr actor \<Rightarrow>
                   if j_field ''actor'' payload \<noteq> Some (JStr actor)
                      \<or> j_field ''action'' payload \<noteq> Some (JStr (show_sensitive_action action))
                      \<or> (case j_field ''expiresAt'' payload of Some (JNum t) \<Rightarrow> t \<le> now | _ \<Rightarrow> False)
                   then Inl invalidProof
                   else Inr ()))"

section \<open>The audit trail and the guarded routes\<close>

text \<open>
  The gateway's own state: its environment and the events it posts to the audit
  service (a failed post is swallowed); \<open>gs_rest\<close> stands for the services behind it.
\<close>

record 's gateway =
  gs_env :: "string \<rightharpoonup> string"
  gs_audits :: "audit_post list"
  gs_rest :: 's

definition gatewayEmit :: "int \<Rightarrow> gateway_request \<Rightarrow> audit_payload \<Rightarrow> 's gateway \<Rightarrow> 's gateway" where
  "gatewayEmit now req event g =
     (if \<not> truthy_opt (gs_env g ''AUDIT_SERVICE_URL'') then g
      else if \<not> truthy_opt (gs_env g ''AUDIT_INGEST_TOKEN'') then g
      else g\<lparr>gs_audits := gs_audits g @ [\<lparr>
             po_timestamp = now,
             po_actorId = buildActorId (gr_user req),
             po_actorRoles = coalesce (u_roles (gr_user req)) [],
             po_event = event,
             po_ip = gr_ip req,
             po_traceId = or_else (gr_traceId req)
               (firstHeaderValue (map_of (gr_headers req) ''x-request-id'')) \<rparr>]\<rparr>)"

definition getAuditReason :: "error \<Rightarrow> string option" where
  "getAuditReason e = Some (error_message e)"

definition readSensitiveActionResourceId :: "json option \<Rightarrow> string option" where
  "readSensitiveActionResourceId v =
     (case v of
        Some (JStr cs) \<Rightarrow>
          (let trimmed = trim cs in if 0 < length trimmed then Some (take 120 trimmed) else None)
      | _ \<Rightarrow> None)"

definition sensitiveEvent :: "string \<Rightarrow> string option \<Rightarrow> string \<Rightarrow> string option \<Rightarrow> fields \<Rightarrow> audit_payload" where
  "sensitiveEvent action resourceId result reason metadata = \<lparr>
     ap_action = action, ap_resourceType = ''SENSITIVE_ACTION'', ap_resourceId = resourceId,
     ap_result = result, ap_reason = reason, ap_metadata = metadata \<rparr>"

definition issueSensitiveActionProof :: "proof_crypto \<Rightarrow> int \<Rightarrow> string \<Rightarrow> gateway_request \<Rightarrow>
  json option \<Rightarrow> json option \<Rightarrow> 's gateway \<Rightarrow> (issued_proof, 's gateway) outcome" where
  "issueSensitiveActionProof cr now nonce req bodyAction bodyPhrase g =
     (let sensitiveAction = readSensitiveActionResourceId bodyAction
      in case issueProof cr (gs_env g) now nonce req bodyAction bodyPhrase of
           Inr issued \<Rightarrow>
             return issued (gatewayEmit now req (sensitiveEvent ''SENSITIVE_ACTION_PROOF_ISSUED''
               sensitiveAction ''SUCCESS'' None
               (j_optional ''sensitiveAction'' JStr sensitiveAction @
                [(''reauthChecked'', JBool (ra_checked (ip_reauth issued))),
                 (''reauthMaxAgeSeconds'', JNum (ra_maxAgeSeconds (ip_reauth issued)))] @
                j_optional ''reauthAgeSeconds'' JNum (ra_ageSeconds (ip_reauth issued)))) g)
         | Inl e \<Rightarrow>
             throw e (gatewayEmit now req (sensitiveEvent ''SENSITIVE_ACTION_PROOF_DENIED''
               sensitiveAction ''DENY'' (getAuditReason e)
               (j_optional ''sensitiveAction'' JStr sensitiveAction)) g))"

definition assertSensitiveActionUse :: "proof_crypto \<Rightarrow> int \<Rightarrow> gateway_request \<Rightarrow> sensitive_action \<Rightarrow>
  's gateway \<Rightarrow> (unit, 's gateway) outcome" where
  "assertSensitiveActionUse cr now req action g =
     (let metadata = [(''sensitiveAction'', JStr (show_sensitive_action action))];
          resourceId = Some (show_sensitive_action action)
      in case assertProof cr (gs_env g) now req action of
           Inl e \<Rightarrow> throw e (gatewayEmit now req (sensitiveEvent ''SENSITIVE_ACTION_PROOF_USE_DENIED''
             resourceId ''DENY'' (getAuditReason e) metadata) g)
         | Inr _ \<Rightarrow> return () (gatewayEmit now req (sensitiveEvent ''SENSITIVE_ACTION_PROOF_USED''
             resourceId ''SUCCESS'' None metadata) g))"

text \<open>A request to a service behind the gateway, with that service as a parameter.\<close>

definition forwarded :: "('s \<Rightarrow> ('a, 's) outcome) \<Rightarrow> 's gateway \<Rightarrow> ('a, 's gateway) outcome" where
  "forwarded call g = (case call (gs_rest g) of (r, t) \<Rightarrow> (r, g\<lparr>gs_rest := t\<rparr>))"

text \<open>
  \<open>POST metadata/retention/run\<close> behind the guards: \<open>runJob\<close> is the retention job of
  the metadata service, given the query string.
\<close>

definition gatewayRoles :: "string list \<Rightarrow> gateway_request \<Rightarrow> bool" where
  "gatewayRoles requiredRoles req =
     list_ex (\<lambda>role. role \<in> set (coalesce (u_roles (gr_user req)) [])) requiredRoles"

definition runRetention_route :: "proof_crypto \<Rightarrow> int \<Rightarrow> gateway_request \<Rightarrow>
  ('s \<Rightarrow> ('a, 's) outcome) \<Rightarrow> 's gateway \<Rightarrow> ('a, 's gateway) outcome" where
  "runRetention_route cr now req runJob g =
     (if \<not> gatewayRoles [''admin''] req then throw (Forbidden ''Forbidden resource'') g
      else andThen (assertSensitiveActionUse cr now req Run_retention g) (\<lambda>_ g. forwarded runJob g))"

section \<open>Evidence packets\<close>

definition EVIDENCE_PACKET_SENSITIVE_FIELD_NAMES :: "string list" where
  "EVIDENCE_PACKET_SENSITIVE_FIELD_NAMES =
     [''fileContent'', ''objectKey'', ''storagePath'', ''presignedUrl'', ''grantToken'', ''downloadToken'']"

definition isExcludedEvidenceField :: "string \<Rightarrow> bool" where
  "isExcludedEvidenceField key = (key \<in> set EVIDENCE_PACKET_SENSITIVE_FIELD_NAMES)"

fun sanitizeEvidencePacket :: "json \<Rightarrow> json" where
  "sanitizeEvidencePacket (JArr js) = JArr (map sanitizeEvidencePacket js)"
| "sanitizeEvidencePacket (JObj fs) =
     JObj (map (\<lambda>(k, v). (k, sanitizeEvidencePacket v)) (filter (\<lambda>(k, _). \<not> isExcludedEvidenceField k) fs))"
| "sanitizeEvidencePacket v = v"

end
