(* ===== verification/Sensitive_Properties.thy ===== *)
theory Sensitive_Properties
  imports Sensitive_Actions Grant_Properties
begin

text \<open>
  Step-up proofs: a proof issued for an action opens that action for that actor for
  five minutes and nothing else; only signed proofs are accepted; the retention job
  runs only behind one, and every attempt is audited; a proof can be used again
  until it expires. Evidence packets keep no excluded field at any depth.
\<close>

section \<open>Round trip\<close>

lemma split_token:
  assumes "CHR ''.'' \<notin> set a" "CHR ''.'' \<notin> set b"
  shows "split_on (CHR ''.'') (a @ CHR ''.'' # b) = [a, b]"
  using split_on_append [OF assms(1), of b] split_on_no_sep [OF assms(2)] by simp

lemma js_nth_pair [simp]: "js_nth [a, b] 0 = Some a" "js_nth [a, b] 1 = Some b" "js_nth [a, b] 2 = None"
  by (simp_all add: js_nth_def)

lemma parseAction_Inr: "parseAction v = Inr a \<longleftrightarrow> v = Some (JStr (show_sensitive_action a))"
  by (cases a) (auto simp: parseAction_def split: option.splits json.splits if_splits)

lemma proofPayload_fields [simp]:
  "j_field ''actor'' (proofPayload a x t n) = Some (JStr a)"
  "j_field ''action'' (proofPayload a x t n) = Some (JStr (show_sensitive_action x))"
  "j_field ''expiresAt'' (proofPayload a x t n) = Some (JNum t)"
  "j_field ''nonce'' (proofPayload a x t n) = Some (JStr n)"
  by (simp_all add: proofPayload_def j_field_def)

lemma proofPayload_valid [simp]: "isProofPayload (proofPayload a x t n)"
  by (cases x) (simp_all add: isProofPayload_def SENSITIVE_ACTIONS_def)

lemma show_sensitive_action_inj [simp]: "show_sensitive_action a = show_sensitive_action b \<longleftrightarrow> a = b"
  by (cases a; cases b) simp_all

lemma issueProof_Inr:
  assumes "issueProof cr ev now nonce req act phrase = Inr issued"
  obtains a actor secret where "parseAction act = Inr a" "getActor req = Inr actor" "getSecret ev = Inr secret"
    "ip_expiresAt issued = now + PROOF_TTL_MS"
    "ip_proof issued = encode_json cr (proofPayload actor a (now + PROOF_TTL_MS) nonce) @ ''.''
       @ hmac_b64 cr secret (encode_json cr (proofPayload actor a (now + PROOF_TTL_MS) nonce))"
  using assms
  by (auto simp: issueProof_def signPayload_def signature_of_def Let_def split: sum.splits if_splits)

text \<open>
  C22: a proof issued for an action opens exactly that action, for the same actor and
  until five minutes have passed, when the encodings are as they are: texts without
  a full stop, which decoding gives back.
\<close>

theorem step_up_round_trip:
  assumes "issueProof cr ev now nonce req act phrase = Inr issued"
    and "codec_ok (crypto.truncate cr)"
    and "getProofHeader req' = Some (ip_proof issued)" and "getActor req' = getActor req"
  shows "assertProof cr ev later req' a = Inr () \<longleftrightarrow>
    later < now + PROOF_TTL_MS \<and> act = Some (JStr (show_sensitive_action a))"
proof -
  obtain b actor secret where b: "parseAction act = Inr b" "getActor req = Inr actor" "getSecret ev = Inr secret"
    and tok: "ip_proof issued = encode_json cr (proofPayload actor b (now + PROOF_TTL_MS) nonce) @ ''.''
       @ hmac_b64 cr secret (encode_json cr (proofPayload actor b (now + PROOF_TTL_MS) nonce))"
    using issueProof_Inr [OF assms(1)] by metis
  have codec: "CHR ''.'' \<notin> set (encode_json cr j)" "encode_json cr j \<noteq> []" "decode_json cr (encode_json cr j) = Some j"
    "CHR ''.'' \<notin> set (hmac_b64 cr k m)" "hmac_b64 cr k m \<noteq> []" for j k m
    using assms(2) by (auto simp: codec_ok_def crypto.truncate_def)
  have "verifyProof cr ev (ip_proof issued) = Inr (proofPayload actor b (now + PROOF_TTL_MS) nonce)"
    using codec b(3) unfolding tok
    by (simp add: verifyProof_def split_token Let_def isExpectedSignature_def signature_of_def truthy_def)
  then show ?thesis
    using assms(3,4) b parseAction_Inr [of act b]
    by (auto simp: assertProof_def truthy_def tok)
qed

definition admin_request :: "fields \<Rightarrow> gateway_request" where
  "admin_request hs = \<lparr> gr_user = \<lparr> u_sub = Some ''root'', u_username = None, u_roles = Some [''admin''],
     u_groups = None \<rparr>, gr_authTime = None, gr_headers = hs, gr_traceId = None, gr_ip = None \<rparr>"

definition counting_proof_crypto :: proof_crypto where
  "counting_proof_crypto = crypto.extend counting_crypto
     \<lparr> b64url_bytes = map of_char, number_of_text = (\<lambda>_. None) \<rparr>"

lemma counting_proof_codec: "codec_ok (crypto.truncate counting_proof_crypto)"
  using counting_codec by (simp add: counting_proof_crypto_def crypto.truncate_def crypto.extend_def codec_ok_def)

lemma lower_header [simp]: "lower STEP_UP_PROOF_HEADER = STEP_UP_PROOF_HEADER"
  by code_simp

lemma admin_header [simp]:
  "getProofHeader (admin_request [(STEP_UP_PROOF_HEADER, JStr tok)]) = (if tok = [] then Some [] else Some tok)"
  by (simp add: getProofHeader_def admin_request_def firstHeaderValue_def truthy_def)

lemma admin_actor [simp]: "getActor (admin_request hs) = Inr ''root''"
  by (simp add: getActor_def admin_request_def trim_def js_space_def)

definition step_env :: "string \<rightharpoonup> string" where
  "step_env = [''AUDIT_SERVICE_URL'' \<mapsto> ''http://audit'', ''AUDIT_INGEST_TOKEN'' \<mapsto> ''t'',
     ''SENSITIVE_ACTION_PROOF_SECRET'' \<mapsto> ''psst'']"

definition retention_proof :: string where
  "retention_proof = encode_json counting_proof_crypto (proofPayload ''root'' Run_retention 301000 ''n'') @ ''.''
     @ hmac_b64 counting_proof_crypto ''psst''
         (encode_json counting_proof_crypto (proofPayload ''root'' Run_retention 301000 ''n''))"

lemma retention_proof_issued:
  "issueProof counting_proof_crypto step_env 1000 ''n'' (admin_request []) (Some (JStr ''run-retention''))
     (Some (JStr ''  run   Retention '')) = Inr \<lparr> ip_proof = retention_proof, ip_expiresAt = 301000,
       ip_reauth = \<lparr> ra_checked = False, ra_maxAgeSeconds = 600, ra_authTime = None, ra_ageSeconds = None \<rparr> \<rparr>"
proof -
  have "parseAction (Some (JStr ''run-retention'')) = Inr Run_retention"
    "normalizePhrase (Some (JStr ''  run   Retention '')) = normalizePhrase (Some (JStr (challengePhrase Run_retention)))"
    "getSecret step_env = Inr ''psst''"
    by code_simp+
  moreover have "getRecentAuthStatus counting_proof_crypto step_env 1000 (admin_request [])
      = Inr \<lparr> ra_checked = False, ra_maxAgeSeconds = 600, ra_authTime = None, ra_ageSeconds = None \<rparr>"
    by (simp add: getRecentAuthStatus_def getRecentAuthMaxAgeSeconds_def step_env_def admin_request_def
        isEnabled_def lower_def)
  ultimately show ?thesis
    by (simp add: issueProof_def signPayload_def signature_of_def retention_proof_def Let_def
        PROOF_TTL_MS_def)
qed

theorem step_up_round_trip_witness:
  "assertProof counting_proof_crypto step_env 2000
     (admin_request [(STEP_UP_PROOF_HEADER, JStr retention_proof)]) Run_retention = Inr ()"
proof -
  have "retention_proof \<noteq> []" by (simp add: retention_proof_def)
  then show ?thesis
    using step_up_round_trip [OF retention_proof_issued counting_proof_codec,
        of "admin_request [(STEP_UP_PROOF_HEADER, JStr retention_proof)]" 2000 Run_retention]
    by (simp add: PROOF_TTL_MS_def)
qed

lemma retention_proof_accepted:
  assumes "later < 301000"
  shows "assertProof counting_proof_crypto step_env later
     (admin_request [(STEP_UP_PROOF_HEADER, JStr retention_proof)]) Run_retention = Inr ()"
proof -
  have "CHR ''.'' \<notin> set (encode_json counting_proof_crypto j)" "encode_json counting_proof_crypto j \<noteq> []"
    "decode_json counting_proof_crypto (encode_json counting_proof_crypto j) = Some j"
    "CHR ''.'' \<notin> set (hmac_b64 counting_proof_crypto k m)" "hmac_b64 counting_proof_crypto k m \<noteq> []" for j k m
    using counting_proof_codec by (auto simp: codec_ok_def crypto.truncate_def)
  moreover have "getSecret step_env = Inr ''psst''" by code_simp
  ultimately have "verifyProof counting_proof_crypto step_env retention_proof
      = Inr (proofPayload ''root'' Run_retention 301000 ''n'')"
    unfolding retention_proof_def
    by (simp add: verifyProof_def split_token Let_def isExpectedSignature_def signature_of_def truthy_def)
  moreover have "retention_proof \<noteq> []" by (simp add: retention_proof_def)
  ultimately show ?thesis using assms by (simp add: assertProof_def truthy_def)
qed

section \<open>Only signed proofs\<close>

lemma isExpectedSignature_Inr:
  "isExpectedSignature cr ev enc sig = Inr b \<longleftrightarrow>
     (\<exists>secret. getSecret ev = Inr secret \<and> b = (b64url_bytes cr sig = b64url_bytes cr (hmac_b64 cr secret enc)))"
  by (auto simp: isExpectedSignature_def signature_of_def split: sum.splits)

lemma verifyProof_Inr:
  assumes "verifyProof cr ev proof = Inr payload"
  shows "\<exists>enc sig secret. split_on (CHR ''.'') proof = [enc, sig] \<and> getSecret ev = Inr secret
    \<and> b64url_bytes cr sig = b64url_bytes cr (hmac_b64 cr secret enc)
    \<and> decode_json cr enc = Some payload \<and> isProofPayload payload"
proof -
  obtain enc ws where parts: "split_on (CHR ''.'') proof = enc # ws"
    using split_on_not_Nil by (metis list.exhaust)
  show ?thesis
  proof (cases ws)
    case Nil
    then show ?thesis using assms parts by (simp add: verifyProof_def js_nth_def truthy_def)
  next
    case (Cons sig us)
    then show ?thesis
      using assms parts isExpectedSignature_Inr [of cr ev enc sig]
      by (cases us)
        (auto simp: verifyProof_def js_nth_def Let_def split: sum.splits bool.splits option.splits if_splits)
  qed
qed

text \<open>
  a sensitive action goes through only on a proof whose signature is the keyed
  hash of its payload, and whose payload names this actor and this action and has
  not expired.
\<close>

theorem accepted_proof_is_signed:
  assumes "assertProof cr ev now req a = Inr ()"
  shows "\<exists>proof enc sig secret payload actor t. getProofHeader req = Some proof
    \<and> split_on (CHR ''.'') proof = [enc, sig] \<and> getSecret ev = Inr secret
    \<and> b64url_bytes cr sig = b64url_bytes cr (hmac_b64 cr secret enc)
    \<and> decode_json cr enc = Some payload \<and> getActor req = Inr actor
    \<and> j_field ''actor'' payload = Some (JStr actor)
    \<and> j_field ''action'' payload = Some (JStr (show_sensitive_action a))
    \<and> j_field ''expiresAt'' payload = Some (JNum t) \<and> now < t"
proof -
  obtain tok payload actor where p: "getProofHeader req = Some tok" "verifyProof cr ev tok = Inr payload"
      "getActor req = Inr actor" "j_field ''actor'' payload = Some (JStr actor)"
      "j_field ''action'' payload = Some (JStr (show_sensitive_action a))"
      "\<not> (case j_field ''expiresAt'' payload of Some (JNum t) \<Rightarrow> t \<le> now | _ \<Rightarrow> False)"
    using assms by (auto simp: assertProof_def split: option.splits sum.splits if_splits)
  obtain enc sig secret where v: "split_on (CHR ''.'') tok = [enc, sig]" "getSecret ev = Inr secret"
      "b64url_bytes cr sig = b64url_bytes cr (hmac_b64 cr secret enc)"
      "decode_json cr enc = Some payload" "isProofPayload payload"
    using verifyProof_Inr [OF p(2)] by blast
  obtain t where "j_field ''expiresAt'' payload = Some (JNum t)"
    using v(5) by (auto simp: isProofPayload_def split: option.splits json.splits)
  then show ?thesis using p v by fastforce
qed

theorem accepted_proof_is_signed_witness:
  "\<exists>t. j_field ''expiresAt'' (proofPayload ''root'' Run_retention 301000 ''n'') = Some (JNum t) \<and> 2000 < t"
proof -
  have "\<exists>tok enc sig secret payload actor t.
      getProofHeader (admin_request [(STEP_UP_PROOF_HEADER, JStr retention_proof)]) = Some tok
    \<and> split_on (CHR ''.'') tok = [enc, sig] \<and> getSecret step_env = Inr secret
    \<and> b64url_bytes counting_proof_crypto sig = b64url_bytes counting_proof_crypto (hmac_b64 counting_proof_crypto secret enc)
    \<and> decode_json counting_proof_crypto enc = Some payload
    \<and> getActor (admin_request [(STEP_UP_PROOF_HEADER, JStr retention_proof)]) = Inr actor
    \<and> j_field ''actor'' payload = Some (JStr actor)
    \<and> j_field ''action'' payload = Some (JStr (show_sensitive_action Run_retention))
    \<and> j_field ''expiresAt'' payload = Some (JNum t) \<and> 2000 < t"
    by (rule accepted_proof_is_signed, rule retention_proof_accepted) simp
  then show ?thesis by simp
qed

section \<open>The guarded retention job\<close>

definition audits_on :: "(string \<rightharpoonup> string) \<Rightarrow> bool" where
  "audits_on ev = (truthy_opt (ev ''AUDIT_SERVICE_URL'') \<and> truthy_opt (ev ''AUDIT_INGEST_TOKEN''))"

lemma gatewayEmit_on:
  "audits_on (gs_env g) \<Longrightarrow> \<exists>p. gatewayEmit now req e g = g\<lparr>gs_audits := gs_audits g @ [p]\<rparr>
     \<and> po_event p = e \<and> po_actorId p = buildActorId (gr_user req)"
  by (auto simp: gatewayEmit_def audits_on_def intro!: exI)

lemma gatewayEmit_frame [simp]:
  "gs_rest (gatewayEmit now req e g) = gs_rest g" "gs_env (gatewayEmit now req e g) = gs_env g"
  by (simp_all add: gatewayEmit_def)

lemma assertSensitiveActionUse_cases:
  "assertSensitiveActionUse cr now req a g =
     (case assertProof cr (gs_env g) now req a of
        Inl e \<Rightarrow> (Inl e, gatewayEmit now req (sensitiveEvent ''SENSITIVE_ACTION_PROOF_USE_DENIED''
          (Some (show_sensitive_action a)) ''DENY'' (getAuditReason e)
          [(''sensitiveAction'', JStr (show_sensitive_action a))]) g)
      | Inr u \<Rightarrow> (Inr (), gatewayEmit now req (sensitiveEvent ''SENSITIVE_ACTION_PROOF_USED''
          (Some (show_sensitive_action a)) ''SUCCESS'' None
          [(''sensitiveAction'', JStr (show_sensitive_action a))]) g))"
  by (simp add: assertSensitiveActionUse_def Let_def throw_def return_def split: sum.split)

lemma gatewayEmit_cases:
  "\<exists>p. gatewayEmit now req ev g = g\<lparr>gs_audits := gs_audits g @ (if audits_on (gs_env g) then [p] else [])\<rparr>
    \<and> po_actorId p = buildActorId (gr_user req) \<and> po_event p = ev"
  by (intro exI [of _ "\<lparr> po_timestamp = now, po_actorId = buildActorId (gr_user req),
      po_actorRoles = coalesce (u_roles (gr_user req)) [], po_event = ev, po_ip = gr_ip req,
      po_traceId = or_else (gr_traceId req) (firstHeaderValue (map_of (gr_headers req) ''x-request-id'')) \<rparr>"])
    (simp add: gatewayEmit_def audits_on_def)

text \<open>
  C13: the retention job behind the gateway runs only for an administrator with a
  valid proof for that action. Anybody else is refused before anything happens; an
  administrator without the proof is refused with the services behind untouched.
  Where the gateway is configured to reach the audit service, every attempt by an
  administrator leaves exactly one audit event that tells whether the proof was
  accepted; where it is not, none.
\<close>

theorem retention_run_needs_proof:
  "case runRetention_route cr now req job g of (r, g') \<Rightarrow>
    if \<not> gatewayRoles [''admin''] req then r = Inl (Forbidden ''Forbidden resource'') \<and> g' = g
    else \<exists>p. gs_audits g' = gs_audits g @ (if audits_on (gs_env g) then [p] else [])
      \<and> po_actorId p = buildActorId (gr_user req)
      \<and> (case assertProof cr (gs_env g) now req Run_retention of
           Inl e \<Rightarrow> ap_result (po_event p) = ''DENY'' \<and> gs_rest g' = gs_rest g \<and> r = Inl e
         | Inr _ \<Rightarrow> ap_action (po_event p) = ''SENSITIVE_ACTION_PROOF_USED''
             \<and> r = fst (job (gs_rest g)) \<and> gs_rest g' = snd (job (gs_rest g)))"
proof (cases "gatewayRoles [''admin''] req")
  case False
  then show ?thesis by (simp add: runRetention_route_def throw_def)
next
  case True
  show ?thesis
  proof (cases "assertProof cr (gs_env g) now req Run_retention")
    case (Inl e)
    obtain p where "gatewayEmit now req (sensitiveEvent ''SENSITIVE_ACTION_PROOF_USE_DENIED''
        (Some (show_sensitive_action Run_retention)) ''DENY'' (getAuditReason e)
        [(''sensitiveAction'', JStr (show_sensitive_action Run_retention))]) g
      = g\<lparr>gs_audits := gs_audits g @ (if audits_on (gs_env g) then [p] else [])\<rparr>"
      "po_actorId p = buildActorId (gr_user req)" "ap_result (po_event p) = ''DENY''"
      using gatewayEmit_cases by (metis audit_payload.select_convs(4) sensitiveEvent_def)
    then show ?thesis using True Inl
      by (auto simp: runRetention_route_def assertSensitiveActionUse_cases intro!: exI [of _ p])
  next
    case (Inr u)
    obtain p where "gatewayEmit now req (sensitiveEvent ''SENSITIVE_ACTION_PROOF_USED''
        (Some (show_sensitive_action Run_retention)) ''SUCCESS'' None
        [(''sensitiveAction'', JStr (show_sensitive_action Run_retention))]) g
      = g\<lparr>gs_audits := gs_audits g @ (if audits_on (gs_env g) then [p] else [])\<rparr>"
      "po_actorId p = buildActorId (gr_user req)" "ap_action (po_event p) = ''SENSITIVE_ACTION_PROOF_USED''"
      using gatewayEmit_cases by (metis audit_payload.select_convs(1) sensitiveEvent_def)
    then show ?thesis using True Inr
      by (auto simp: runRetention_route_def assertSensitiveActionUse_cases forwarded_def split: prod.split
          intro!: exI [of _ p])
  qed
qed

definition counting_gateway :: "nat gateway" where
  "counting_gateway = \<lparr> gs_env = step_env, gs_audits = [], gs_rest = 0 \<rparr>"

definition counting_job :: "nat \<Rightarrow> (nat, nat) outcome" where
  "counting_job n = return n (Suc n)"

theorem retention_run_needs_proof_witness:
  "gs_rest (snd (runRetention_route counting_proof_crypto 2000 (admin_request []) counting_job counting_gateway)) = 0
   \<and> gs_rest (snd (runRetention_route counting_proof_crypto 2000
       (admin_request [(STEP_UP_PROOF_HEADER, JStr retention_proof)]) counting_job counting_gateway)) = 1"
proof -
  have roles: "gatewayRoles [''admin''] (admin_request hs)" for hs
    by (simp add: gatewayRoles_def admin_request_def)
  have no: "assertProof counting_proof_crypto (gs_env counting_gateway) 2000 (admin_request []) Run_retention = Inl invalidProof"
    by (simp add: assertProof_def getProofHeader_def admin_request_def firstHeaderValue_def)
  have yes: "assertProof counting_proof_crypto (gs_env counting_gateway) 2000
      (admin_request [(STEP_UP_PROOF_HEADER, JStr retention_proof)]) Run_retention = Inr ()"
    using retention_proof_accepted [of 2000] by (simp add: counting_gateway_def)
  show ?thesis
    using retention_run_needs_proof [where cr = counting_proof_crypto and now = 2000 and req = "admin_request []"
        and job = counting_job and g = counting_gateway]
      retention_run_needs_proof [where cr = counting_proof_crypto and now = 2000
        and req = "admin_request [(STEP_UP_PROOF_HEADER, JStr retention_proof)]"
        and job = counting_job and g = counting_gateway]
    unfolding no yes by (auto simp: roles counting_gateway_def counting_job_def case_prod_beta)
qed

text \<open>
  nothing remembers that a proof was used: an accepted proof is accepted again,
  for every later run until it expires.
\<close>

theorem proof_can_be_replayed:
  assumes "assertProof cr (gs_env g) now req Run_retention = Inr ()" "gatewayRoles [''admin''] req"
  shows "gs_env (snd (runRetention_route cr now req job g)) = gs_env g
    \<and> fst (runRetention_route cr now req job (snd (runRetention_route cr now req job g)))
      = fst (job (snd (job (gs_rest g))))"
  using assms
  by (auto simp: runRetention_route_def assertSensitiveActionUse_cases forwarded_def gatewayEmit_def split: prod.split)

theorem proof_can_be_replayed_witness:
  "fst (runRetention_route counting_proof_crypto 2000 (admin_request [(STEP_UP_PROOF_HEADER, JStr retention_proof)])
     counting_job (snd (runRetention_route counting_proof_crypto 2000
       (admin_request [(STEP_UP_PROOF_HEADER, JStr retention_proof)]) counting_job counting_gateway))) = Inr 1"
proof -
  have "assertProof counting_proof_crypto (gs_env counting_gateway) 2000
      (admin_request [(STEP_UP_PROOF_HEADER, JStr retention_proof)]) Run_retention = Inr ()"
    using retention_proof_accepted [of 2000] by (simp add: counting_gateway_def)
  moreover have "gatewayRoles [''admin''] (admin_request hs)" for hs
    by (simp add: gatewayRoles_def admin_request_def)
  ultimately show ?thesis
    using proof_can_be_replayed [of counting_proof_crypto counting_gateway 2000
        "admin_request [(STEP_UP_PROOF_HEADER, JStr retention_proof)]" counting_job]
    by (simp add: counting_job_def counting_gateway_def)
qed

section \<open>Evidence packets\<close>

fun mentions_key :: "string \<Rightarrow> json \<Rightarrow> bool" where
  "mentions_key k (JArr js) = (\<exists>j \<in> set js. mentions_key k j)"
| "mentions_key k (JObj fs) = (\<exists>f \<in> set fs. fst f = k \<or> mentions_key k (snd f))"
| "mentions_key k _ = False"

lemma sanitize_keys:
  "mentions_key k (sanitizeEvidencePacket j) \<Longrightarrow> mentions_key k j \<and> \<not> isExcludedEvidenceField k"
proof (induction j rule: sanitizeEvidencePacket.induct)
  case (1 js)
  then show ?case by auto
next
  case (2 fs)
  then obtain f where f: "f \<in> set fs" "\<not> isExcludedEvidenceField (fst f)"
      "fst f = k \<or> mentions_key k (sanitizeEvidencePacket (snd f))"
    by auto
  then have "mentions_key k (sanitizeEvidencePacket (snd f)) \<Longrightarrow> mentions_key k (snd f) \<and> \<not> isExcludedEvidenceField k"
    using 2(1) [of f "fst f" "snd f"] by (simp add: split_beta)
  then show ?case using f by auto
qed simp_all

lemma sanitize_clean:
  "(\<And>k. isExcludedEvidenceField k \<Longrightarrow> \<not> mentions_key k j) \<Longrightarrow> sanitizeEvidencePacket j = j"
proof (induction j rule: sanitizeEvidencePacket.induct)
  case (1 js)
  then show ?case by (simp add: map_idI)
next
  case (2 fs)
  have "filter (\<lambda>(k, _). \<not> isExcludedEvidenceField k) fs = fs"
    using 2(2) by (fastforce simp: filter_id_conv)
  moreover have "map (\<lambda>(k, v). (k, sanitizeEvidencePacket v)) fs = fs"
    using 2 by (intro map_idI) (fastforce simp: split_beta)
  ultimately show ?case by simp
qed simp_all

definition excluded_free :: "json \<Rightarrow> bool" where
  "excluded_free j = (\<forall>k. isExcludedEvidenceField k \<longrightarrow> \<not> mentions_key k j)"

text \<open>
  an exported evidence packet names no excluded field at any depth, and a packet
  that names none is exported unchanged.
\<close>

theorem evidence_packet_sanitized:
  "excluded_free (sanitizeEvidencePacket j) \<and> (sanitizeEvidencePacket j = j) = excluded_free j"
proof
  show "excluded_free (sanitizeEvidencePacket j)" using sanitize_keys by (auto simp: excluded_free_def)
  then show "(sanitizeEvidencePacket j = j) = excluded_free j"
    using sanitize_clean [of j] by (auto simp: excluded_free_def)
qed

end
