(* ===== verification/Document_Blobs.thy ===== *)
theory Document_Blobs
  imports Text_Scan Versions_Service Workflow_Service
begin

text \<open>
  File content: \<open>services/document-service/src\<close>, with \<open>documents.service.ts\<close>,
  \<open>storage.service.ts\<close>, \<open>metadata.client.ts\<close> and \<open>watermark.service.ts\<close>. The object
  store is a map from keys to objects; the metadata service is a parameter of the
  operations, and \<open>vaultBlobApi\<close> is the model of it that the development has. The S3
  client's failures and signed URLs, and the PDF library, are parameters.
\<close>

section \<open>State and libraries\<close>

record stored_object =
  ob_body :: string
  ob_contentType :: string
  ob_checksum :: string
  ob_uploadedBy :: string

record 'm blob_state =
  bl_env :: "string \<rightharpoonup> string"
  bl_objects :: "string \<rightharpoonup> stored_object"
  bl_audits :: "audit_post list"
  bl_meta :: 'm

text \<open>
  \<open>li_putError\<close> and \<open>li_deleteError\<close> are the failures of the object store by key;
  \<open>li_watermarkPdf\<close> draws the watermark on a PDF, if the library can read it.
\<close>

record blob_libs =
  li_crypto :: crypto
  li_extractors :: extractors
  li_clamav :: "string \<Rightarrow> string + string"
  li_putError :: "string \<Rightarrow> error option"
  li_deleteError :: "string \<Rightarrow> error option"
  li_signedUrl :: "string \<Rightarrow> string \<Rightarrow> int \<Rightarrow> string"
  li_watermarkPdf :: "string \<Rightarrow> string \<Rightarrow> string \<Rightarrow> int \<Rightarrow> string option"

record uploaded_file =
  fl_buffer :: string
  fl_originalname :: string
  fl_mimetype :: string
  fl_size :: int

section \<open>The metadata client\<close>

record 'm blob_api =
  ba_getDocument :: "string \<Rightarrow> request_context \<Rightarrow> 'm \<Rightarrow> (document, 'm) outcome"
  ba_createVersion :: "string \<Rightarrow> create_version_dto \<Rightarrow> request_context \<Rightarrow> 'm \<Rightarrow> (doc_version, 'm) outcome"
  ba_authorizeDownload :: "string \<Rightarrow> int option \<Rightarrow> request_context \<Rightarrow> 'm \<Rightarrow> (download_grant, 'm) outcome"
  ba_authorizePreview :: "string \<Rightarrow> int option \<Rightarrow> string option \<Rightarrow> request_context \<Rightarrow> 'm \<Rightarrow> (preview_grant, 'm) outcome"

definition onMeta :: "('m \<Rightarrow> ('a, 'm) outcome) \<Rightarrow> 'm blob_state \<Rightarrow> ('a, 'm blob_state) outcome" where
  "onMeta call b = (case call (bl_meta b) of (r, t) \<Rightarrow> (r, b\<lparr>bl_meta := t\<rparr>))"

text \<open>\<open>CreateVersionDto\<close>, as the validation pipe of metadata-service checks it.\<close>

definition validCreateVersion :: "create_version_dto \<Rightarrow> bool" where
  "validCreateVersion dto =
     (1 \<le> cv_version dto \<and> length (cv_objectKey dto) \<le> 1024 \<and> 1 \<le> cv_size dto
      \<and> length (cv_filename dto) \<le> 255
      \<and> (case cv_dlpStatus dto of None \<Rightarrow> True
           | Some st \<Rightarrow> st \<in> {''NOT_SCANNED'', ''CLEAR'', ''DETECTED''}))"

definition vaultBlobApi :: "crypto \<Rightarrow> int \<Rightarrow> service_user \<Rightarrow> vault blob_api" where
  "vaultBlobApi cr now user = \<lparr>
     ba_getDocument = (\<lambda>docId context s. request (guarded
       [''viewer'', ''editor'', ''approver'', ''compliance_officer'', ''admin''] user
       (assertCanReadMetadata cr now docId user (buildRequestContext (clientRequest user context)) None) s)),
     ba_createVersion = (\<lambda>docId dto context s. request (guarded [''editor'', ''admin''] user (\<lambda>s.
       if \<not> validCreateVersion dto then throw (BadRequest ''Validation failed'') s
       else createVersion now docId dto user (buildRequestContext (clientRequest user context)) s) s)),
     ba_authorizeDownload = (\<lambda>docId version context s. request (guarded
       [''viewer'', ''editor'', ''approver'', ''admin''] user
       (authorizeDownload cr now docId version user (buildRequestContext (clientRequest user context)) None) s)),
     ba_authorizePreview = (\<lambda>docId version shareToken context s. request (guarded
       [''viewer'', ''editor'', ''approver'', ''admin''] user
       (authorizePreview cr now docId version user (buildRequestContext (clientRequest user context)) shareToken) s)) \<rparr>"

section \<open>Audit client and object store\<close>

definition blobEmit :: "int \<Rightarrow> request_context \<Rightarrow> audit_payload \<Rightarrow> 'm blob_state \<Rightarrow> 'm blob_state" where
  "blobEmit now context event b =
     (if \<not> truthy_opt (bl_env b ''AUDIT_SERVICE_URL'') then b
      else if \<not> truthy_opt (bl_env b ''AUDIT_INGEST_TOKEN'') then b
      else b\<lparr>bl_audits := bl_audits b @ [\<lparr>
             po_timestamp = now, po_actorId = c_actorId context, po_actorRoles = c_roles context,
             po_event = event, po_ip = c_ip context, po_traceId = c_traceId context \<rparr>]\<rparr>)"

definition safe_char :: "char \<Rightarrow> bool" where
  "safe_char c = (letter c \<or> digit c \<or> c \<in> set ''._-'')"

definition buildObjectKey :: "string \<Rightarrow> int \<Rightarrow> string \<Rightarrow> string" where
  "buildObjectKey docId version filename =
     (let safeFilename = map (\<lambda>c. if safe_char c then c else CHR ''-'') filename
      in ''doc/'' @ docId @ ''/v'' @ show_int version @ ''/'' @ safeFilename)"

definition storageUpload :: "blob_libs \<Rightarrow> string \<Rightarrow> stored_object \<Rightarrow> 'm blob_state \<Rightarrow> (unit, 'm blob_state) outcome" where
  "storageUpload li objectKey ob b =
     (case li_putError li objectKey of
        Some e \<Rightarrow> throw e b
      | None \<Rightarrow> return () (b\<lparr>bl_objects := (bl_objects b)(objectKey \<mapsto> ob)\<rparr>))"

text \<open>\<open>deleteObject(objectKey).catch(...)\<close>: a failed clean-up is only logged.\<close>

definition cleanupObject :: "blob_libs \<Rightarrow> string \<Rightarrow> 'm blob_state \<Rightarrow> 'm blob_state" where
  "cleanupObject li objectKey b =
     (case li_deleteError li objectKey of
        Some e \<Rightarrow> b
      | None \<Rightarrow> b\<lparr>bl_objects := (bl_objects b)(objectKey := None)\<rparr>)"

definition createDownloadUrl :: "blob_libs \<Rightarrow> (string \<rightharpoonup> string) \<Rightarrow> (string \<Rightarrow> string \<Rightarrow> string \<Rightarrow> string) \<Rightarrow>
  string \<Rightarrow> string \<Rightarrow> int \<Rightarrow> string" where
  "createDownloadUrl li ev replace_host objectKey filename seconds =
     (let signedUrl = li_signedUrl li objectKey filename seconds;
          endpoint = (case ev ''S3_ENDPOINT'' of Some e \<Rightarrow> if truthy e then Some e else None | None \<Rightarrow> None);
          publicUrl = (case endpoint of None \<Rightarrow> None | Some e \<Rightarrow> Some (coalesce (ev ''S3_PUBLIC_URL'') e))
      in case (endpoint, publicUrl) of
           (Some e, Some p) \<Rightarrow> if truthy p \<and> p \<noteq> e then replace_host signedUrl e p else signedUrl
         | _ \<Rightarrow> signedUrl)"

definition getObject :: "string \<Rightarrow> 'm blob_state \<Rightarrow> (stored_object, 'm blob_state) outcome" where
  "getObject objectKey b =
     (if objectKey = [] then throw (NotFound ''Object key not found'') b
      else case bl_objects b objectKey of
        None \<Rightarrow> throw (JsError ''NoSuchKey'') b
      | Some ob \<Rightarrow> return ob b)"

section \<open>Upload\<close>

definition assertCanUpload :: "string \<Rightarrow> service_user \<Rightarrow> bool" where
  "assertCanUpload ownerId user =
     (let actorId = buildActorId user; roles = coalesce (u_roles user) []
      in \<not> ((''editor'' \<notin> set roles \<and> ''admin'' \<notin> set roles)
            \<or> (ownerId \<noteq> actorId \<and> ''admin'' \<notin> set roles)))"

definition fileMetadata :: "uploaded_file \<Rightarrow> int \<Rightarrow> fields" where
  "fileMetadata file version =
     [(''fileName'', JStr (fl_originalname file)), (''mimeType'', JStr (fl_mimetype file)),
      (''size'', JNum (fl_size file)), (''version'', JNum version)]"

definition blobEvent :: "string \<Rightarrow> string \<Rightarrow> string \<Rightarrow> string option \<Rightarrow> fields \<Rightarrow> audit_payload" where
  "blobEvent action docId result reason metadata = \<lparr>
     ap_action = action, ap_resourceType = ''DOCUMENT'', ap_resourceId = Some docId,
     ap_result = result, ap_reason = reason, ap_metadata = metadata \<rparr>"

definition finding_json :: "dlp_finding \<Rightarrow> json" where
  "finding_json f = JObj [(''type'', JStr (show_dlp_type (df_type f))), (''pattern'', JStr (df_pattern f)),
     (''severity'', JStr (df_severity f)), (''count'', JNum (int (df_count f)))]"

definition dlp_status :: "dlp_result \<Rightarrow> string" where
  "dlp_status r = (case r of Dlp_clear \<Rightarrow> ''CLEAR'' | Dlp_detected _ \<Rightarrow> ''DETECTED'')"

definition dlp_findings :: "dlp_result \<Rightarrow> dlp_finding list" where
  "dlp_findings r = (case r of Dlp_clear \<Rightarrow> [] | Dlp_detected fs \<Rightarrow> fs)"

text \<open>
  \<open>upload\<close> up to the point where the object is stored and audited, and the rest,
  which registers the version or takes the object back. Another request may run
  between the two.
\<close>

record pending_upload =
  pu_docId :: string
  pu_version :: int
  pu_objectKey :: string
  pu_checksum :: string
  pu_file :: uploaded_file
  pu_dlp :: dlp_result

definition uploadBegin :: "blob_libs \<Rightarrow> 'm blob_api \<Rightarrow> int \<Rightarrow> string \<Rightarrow> uploaded_file option \<Rightarrow> service_user \<Rightarrow>
  request_context \<Rightarrow> 'm blob_state \<Rightarrow> (pending_upload, 'm blob_state) outcome" where
  "uploadBegin li api now docId fileOpt user context b =
     (case fileOpt of
        None \<Rightarrow> throw (BadRequest ''File is required'') b
      | Some file \<Rightarrow>
          andThen (onMeta (ba_getDocument api docId context) b) (\<lambda>document b.
          if \<not> assertCanUpload (d_ownerId document) user
          then throw (Forbidden ''Only the owner editor or admin can upload document blobs'') b
          else let nextVersion = d_currentVersion document + 1 in
            case malwareScan (bl_env b) (li_clamav li) (fl_buffer file) of
              Infected engine threatName _ \<Rightarrow>
                throw (BadRequest ''Malware detected in upload'')
                  (blobEmit now context (blobEvent ''MALWARE_UPLOAD_BLOCKED'' docId ''DENY'' (Some threatName)
                    (fileMetadata file nextVersion @
                      [(''engine'', JStr engine), (''threatName'', JStr threatName)])) b)
            | Clean _ _ _ \<Rightarrow>
                let dlp = dlpScan (li_extractors li) (fl_buffer file) (Some (fl_mimetype file));
                    b = (case dlp of
                        Dlp_clear \<Rightarrow> b
                      | Dlp_detected findings \<Rightarrow>
                          blobEmit now context (blobEvent ''DLP_PATTERN_DETECTED'' docId ''SUCCESS'' None
                            (fileMetadata file nextVersion @
                              [(''findingCount'', JNum (int (sum_list (map df_count findings)))),
                               (''findings'', JArr (map finding_json findings)),
                               (''suggestedClassification'', JStr ''CONFIDENTIAL'')])) b);
                    checksum = sha256_hex (li_crypto li) (fl_buffer file);
                    objectKey = buildObjectKey docId nextVersion (fl_originalname file)
                in andThen (storageUpload li objectKey \<lparr> ob_body = fl_buffer file,
                     ob_contentType = fl_mimetype file, ob_checksum = checksum,
                     ob_uploadedBy = buildActorId user \<rparr> b) (\<lambda>_ b.
                   return \<lparr> pu_docId = docId, pu_version = nextVersion, pu_objectKey = objectKey,
                     pu_checksum = checksum, pu_file = file, pu_dlp = dlp \<rparr>
                   (blobEmit now context (blobEvent ''DOCUMENT_UPLOADED'' docId ''SUCCESS'' None
                     (fileMetadata file nextVersion)) b))))"

definition versionDto :: "pending_upload \<Rightarrow> create_version_dto" where
  "versionDto p = \<lparr> cv_version = pu_version p, cv_objectKey = pu_objectKey p, cv_checksum = pu_checksum p,
     cv_size = fl_size (pu_file p), cv_filename = fl_originalname (pu_file p),
     cv_contentType = Some (fl_mimetype (pu_file p)), cv_dlpStatus = Some (dlp_status (pu_dlp p)),
     cv_dlpFindings = Some (map finding_json (dlp_findings (pu_dlp p))),
     cv_dlpSuggestedClassification = (case pu_dlp p of Dlp_clear \<Rightarrow> None | Dlp_detected _ \<Rightarrow> Some ''CONFIDENTIAL'') \<rparr>"

definition uploadFinish :: "blob_libs \<Rightarrow> 'm blob_api \<Rightarrow> request_context \<Rightarrow> pending_upload \<Rightarrow> 'm blob_state \<Rightarrow>
  (doc_version, 'm blob_state) outcome" where
  "uploadFinish li api context p b =
     (case onMeta (ba_createVersion api (pu_docId p) (versionDto p) context) b of
        (Inr versionRecord, b) \<Rightarrow>
          return (versionRecord\<lparr> v_checksum := pu_checksum p, v_objectKey := pu_objectKey p \<rparr>) b
      | (Inl e, b) \<Rightarrow> throw e (cleanupObject li (pu_objectKey p) b))"

definition upload :: "blob_libs \<Rightarrow> 'm blob_api \<Rightarrow> int \<Rightarrow> string \<Rightarrow> uploaded_file option \<Rightarrow> service_user \<Rightarrow>
  request_context \<Rightarrow> 'm blob_state \<Rightarrow> (doc_version, 'm blob_state) outcome" where
  "upload li api now docId fileOpt user context b =
     andThen (uploadBegin li api now docId fileOpt user context b) (uploadFinish li api context)"

section \<open>Download\<close>

text \<open>
  \<open>auditDownloadError\<close>: the exceptions that reach it carry their HTTP status in
  \<open>response.statusCode\<close>, not in \<open>response.status\<close>, so the status read is always
  \<open>undefined\<close>.
\<close>

fun response_status :: "error \<Rightarrow> int option" where
  "response_status e = None"

definition auditDownloadError :: "int \<Rightarrow> string \<Rightarrow> request_context \<Rightarrow> error \<Rightarrow> 'm blob_state \<Rightarrow> 'm blob_state" where
  "auditDownloadError now docId context e b =
     (let status = response_status e in
      blobEmit now context (blobEvent ''DOCUMENT_DOWNLOAD_DENIED'' docId
        (if status = Some 409 then ''CONFLICT''
         else if (case status of None \<Rightarrow> False | Some n \<Rightarrow> n \<noteq> 0 \<and> 400 \<le> n \<and> n < 500) then ''DENY''
         else ''ERROR'')
        (Some (error_message e)) []) b)"

text \<open>\<open>try { body } catch (error) { await auditDownloadError(...); throw error; }\<close>.\<close>

definition auditing_errors :: "int \<Rightarrow> string \<Rightarrow> request_context \<Rightarrow> ('a, 'm blob_state) outcome \<Rightarrow>
  ('a, 'm blob_state) outcome" where
  "auditing_errors now docId context m =
     (case m of
        (Inr r, b) \<Rightarrow> return r b
      | (Inl e, b) \<Rightarrow> throw e (auditDownloadError now docId context e b))"

definition lift_result :: "error + 'a \<Rightarrow> 's \<Rightarrow> ('a, 's) outcome" where
  "lift_result r s = (r, s)"

text \<open>The fields of a payload whose signature was checked, which metadata-service wrote.\<close>

definition payload_text :: "string \<Rightarrow> json \<Rightarrow> string" where
  "payload_text k payload = (case j_field k payload of Some (JStr cs) \<Rightarrow> cs | _ \<Rightarrow> [])"

definition payload_type :: "json \<Rightarrow> string option" where
  "payload_type payload = (case j_field ''contentType'' payload of Some (JStr cs) \<Rightarrow> Some cs | _ \<Rightarrow> None)"

definition payload_number :: "string \<Rightarrow> json \<Rightarrow> string" where
  "payload_number k payload = (case j_field k payload of Some (JNum n) \<Rightarrow> show_int n | _ \<Rightarrow> ''undefined'')"

record presigned =
  pd_docId :: string
  pd_version :: "json option"
  pd_filename :: string
  pd_expiresAt :: int
  pd_expiresInSeconds :: int
  pd_url :: "string option"
  pd_streamingEndpoint :: "string option"

definition grantFor :: "blob_libs \<Rightarrow> 'm blob_api \<Rightarrow> int \<Rightarrow> string \<Rightarrow> int option \<Rightarrow> string option \<Rightarrow>
  request_context \<Rightarrow> 'm blob_state \<Rightarrow> (json \<times> int, 'm blob_state) outcome" where
  "grantFor li api now docId version grantToken context b =
     (case grantToken of
        Some token \<Rightarrow>
          if truthy token
          then andThen (lift_result (verifyGrantToken (li_crypto li) (bl_env b) now token (c_actorId context)) b)
                 (\<lambda>payload b. return (payload, 300) b)
          else andThen (onMeta (ba_authorizeDownload api docId version context) b) (\<lambda>grant b.
                 andThen (lift_result (verifyGrantToken (li_crypto li) (bl_env b) now (g_grantToken grant)
                   (c_actorId context)) b) (\<lambda>payload b. return (payload, g_expiresInSeconds grant) b))
      | None \<Rightarrow>
          andThen (onMeta (ba_authorizeDownload api docId version context) b) (\<lambda>grant b.
            andThen (lift_result (verifyGrantToken (li_crypto li) (bl_env b) now (g_grantToken grant)
              (c_actorId context)) b) (\<lambda>payload b. return (payload, g_expiresInSeconds grant) b)))"

definition presignDownload :: "blob_libs \<Rightarrow> 'm blob_api \<Rightarrow> (string \<Rightarrow> string \<Rightarrow> string \<Rightarrow> string) \<Rightarrow> int \<Rightarrow>
  string \<Rightarrow> int option \<Rightarrow> string option \<Rightarrow> request_context \<Rightarrow> 'm blob_state \<Rightarrow>
  (presigned, 'm blob_state) outcome" where
  "presignDownload li api replace_host now docId version grantToken context b =
     auditing_errors now docId context
       (andThen (grantFor li api now docId version grantToken context b) (\<lambda>(payload, seconds) b.
          let base = \<lparr> pd_docId = docId, pd_version = j_field ''version'' payload,
                pd_filename = payload_text ''filename'' payload,
                pd_expiresAt = now + seconds * 1000, pd_expiresInSeconds = seconds,
                pd_url = None, pd_streamingEndpoint = None \<rparr>
          in if field_truthy ''watermarkRequired'' payload
             then return (base\<lparr> pd_streamingEndpoint := Some (''/documents/'' @ docId @ ''/versions/''
                    @ payload_number ''version'' payload @ ''/stream'') \<rparr>) b
             else return (base\<lparr> pd_url := Some (createDownloadUrl li (bl_env b) replace_host
                    (payload_text ''objectKey'' payload) (payload_text ''filename'' payload)
                    seconds) \<rparr>) b))"

section \<open>Watermarks and streams\<close>

definition applyWatermark :: "blob_libs \<Rightarrow> int \<Rightarrow> string \<Rightarrow> string \<Rightarrow> string option \<Rightarrow> string \<Rightarrow> string" where
  "applyWatermark li now username cls contentType data =
     (if js_includes (lower (coalesce contentType [])) ''application/pdf''
      then if \<not> starts_with (ascii (take 5 data)) ''%PDF'' then data
           else case li_watermarkPdf li data username cls now of None \<Rightarrow> data | Some marked \<Rightarrow> marked
      else data)"

record streamed =
  sr_filename :: string
  sr_contentType :: "string option"
  sr_body :: string

definition readGranted :: "blob_libs \<Rightarrow> int \<Rightarrow> string \<Rightarrow> bool \<Rightarrow> json \<Rightarrow> 'm blob_state \<Rightarrow>
  (streamed, 'm blob_state) outcome" where
  "readGranted li now actorId watermarkRequired payload b =
     andThen (getObject (payload_text ''objectKey'' payload) b) (\<lambda>ob b.
       return \<lparr> sr_filename = payload_text ''filename'' payload, sr_contentType = payload_type payload,
         sr_body = (if watermarkRequired
            then applyWatermark li now actorId (payload_text ''classification'' payload)
                   (payload_type payload) (ob_body ob)
            else ob_body ob) \<rparr> b)"

definition getStreamWithToken :: "blob_libs \<Rightarrow> int \<Rightarrow> string \<Rightarrow> int \<Rightarrow> string \<Rightarrow> string \<Rightarrow> 'm blob_state \<Rightarrow>
  (streamed, 'm blob_state) outcome" where
  "getStreamWithToken li now docId version grantToken actorId b =
     andThen (lift_result (verifyGrantToken (li_crypto li) (bl_env b) now grantToken actorId) b) (\<lambda>payload b.
       if j_field ''docId'' payload \<noteq> Some (JStr docId)
       then throw (Forbidden ''Grant token document mismatch'') b
       else if j_field ''version'' payload \<noteq> Some (JNum version)
       then throw (Forbidden ''Requested version is not authorized'') b
       else readGranted li now actorId (field_truthy ''watermarkRequired'' payload) payload b)"

definition getStream :: "blob_libs \<Rightarrow> 'm blob_api \<Rightarrow> int \<Rightarrow> string \<Rightarrow> int \<Rightarrow> request_context \<Rightarrow> 'm blob_state \<Rightarrow>
  (streamed, 'm blob_state) outcome" where
  "getStream li api now docId version context b =
     auditing_errors now docId context
       (andThen (onMeta (ba_authorizeDownload api docId (Some version) context) b) (\<lambda>grant b.
        andThen (lift_result (verifyGrantToken (li_crypto li) (bl_env b) now (g_grantToken grant)
          (c_actorId context)) b) (\<lambda>payload b.
        if j_field ''version'' payload \<noteq> Some (JNum version)
        then throw (Forbidden ''Requested version is not authorized'') b
        else readGranted li now (c_actorId context) (field_truthy ''watermarkRequired'' payload) payload b)))"

definition WATERMARK_CLASSIFICATIONS :: "string list" where
  "WATERMARK_CLASSIFICATIONS = [''CONFIDENTIAL'', ''SECRET'']"

text \<open>
  \<open>preview\<close>: what reaches the client is the whole object for a marked class, and the
  requested range of it otherwise.
\<close>

record previewed = streamed +
  pv_watermarked :: bool
  pv_range :: "(int \<times> int) option"

definition preview :: "blob_libs \<Rightarrow> 'm blob_api \<Rightarrow> int \<Rightarrow> string \<Rightarrow> int option \<Rightarrow> (int \<times> int) option \<Rightarrow>
  string option \<Rightarrow> request_context \<Rightarrow> 'm blob_state \<Rightarrow> (previewed, 'm blob_state) outcome" where
  "preview li api now docId version byteRange shareToken context b =
     andThen (onMeta (ba_authorizePreview api docId version
         (case shareToken of Some t \<Rightarrow> if truthy t then Some t else None | None \<Rightarrow> None) context) b) (\<lambda>grant b.
     andThen (lift_result (verifyPreviewGrantToken (li_crypto li) (bl_env b) now (g_grantToken grant)
       (c_actorId context)) b) (\<lambda>payload b.
     if version \<noteq> None \<and> j_field ''version'' payload \<noteq> map_option JNum version
     then throw (Forbidden ''Requested version is not authorized'') b
     else let watermarkRequired = (payload_text ''classification'' payload \<in> set WATERMARK_CLASSIFICATIONS)
       in andThen (readGranted li now (c_actorId context) watermarkRequired payload b) (\<lambda>r b.
            return \<lparr> sr_filename = sr_filename r, sr_contentType = sr_contentType r, sr_body = sr_body r,
              pv_watermarked = watermarkRequired,
              pv_range = (if watermarkRequired then None else byteRange) \<rparr> b)))"

end
