(* ===== verification/Blob_Properties.thy ===== *)
theory Blob_Properties
  imports Document_Blobs Grant_Properties
begin

text \<open>
  File content: what an upload stores and registers, what a refused one leaves
  behind, what the data-leak rules catch and how that reaches the classification,
  which downloads get a URL, and where two uploads of one version lose a file.
\<close>

section \<open>Sequencing with the metadata service\<close>

declare request_Inr [simp]

lemma succeeds_request [simp]: "succeeds (request m) = succeeds m"
  by (simp add: succeeds_iff)

lemma onMeta_Inr: "onMeta call b = (Inr a, b') \<longleftrightarrow> (\<exists>t. call (bl_meta b) = (Inr a, t) \<and> b' = b\<lparr>bl_meta := t\<rparr>)"
  by (cases "call (bl_meta b)") (auto simp: onMeta_def)

lemma onMeta_frame [simp]:
  "bl_env (snd (onMeta call b)) = bl_env b" "bl_objects (snd (onMeta call b)) = bl_objects b"
  "bl_audits (snd (onMeta call b)) = bl_audits b"
  by (simp_all add: onMeta_def split: prod.split)

lemma blobEmit_frame [simp]:
  "bl_env (blobEmit now c e b) = bl_env b" "bl_objects (blobEmit now c e b) = bl_objects b"
  "bl_meta (blobEmit now c e b) = bl_meta b"
  by (simp_all add: blobEmit_def)

lemma client_context [simp]:
  "c_actorId (buildRequestContext (clientRequest u c)) = buildActorId u"
  by (simp add: buildRequestContext_def clientRequest_def)

section \<open>Uploads\<close>

lemma uploadBegin_Inr:
  assumes "uploadBegin li api now i fo u c b = (Inr p, b')"
  obtains f d m engine x y where "fo = Some f" "ba_getDocument api i c (bl_meta b) = (Inr d, m)"
    "assertCanUpload (d_ownerId d) u"
    "malwareScan (bl_env b) (li_clamav li) (fl_buffer f) = Clean engine x y"
    "pu_docId p = i" "pu_version p = d_currentVersion d + 1" "pu_file p = f"
    "pu_objectKey p = buildObjectKey i (d_currentVersion d + 1) (fl_originalname f)"
    "pu_checksum p = sha256_hex (li_crypto li) (fl_buffer f)"
    "pu_dlp p = dlpScan (li_extractors li) (fl_buffer f) (Some (fl_mimetype f))"
    "bl_meta b' = m" "bl_env b' = bl_env b"
    "bl_objects b' = (bl_objects b)(pu_objectKey p \<mapsto> \<lparr> ob_body = fl_buffer f, ob_contentType = fl_mimetype f,
       ob_checksum = pu_checksum p, ob_uploadedBy = buildActorId u \<rparr>)"
proof -
  obtain f where f: "fo = Some f" using assms by (cases fo) (auto simp: uploadBegin_def)
  obtain d b1 where d: "onMeta (ba_getDocument api i c) b = (Inr d, b1)" and owner: "assertCanUpload (d_ownerId d) u"
    using assms f by (auto simp: uploadBegin_def elim!: andThen_InrE split: if_splits)
  obtain m where m: "ba_getDocument api i c (bl_meta b) = (Inr d, m)" "b1 = b\<lparr>bl_meta := m\<rparr>"
    using d by (auto simp: onMeta_Inr)
  obtain engine x y where clean: "malwareScan (bl_env b) (li_clamav li) (fl_buffer f) = Clean engine x y"
    using assms f d owner m by (cases "malwareScan (bl_env b) (li_clamav li) (fl_buffer f)") (auto simp: uploadBegin_def Let_def)
  show thesis
    by (rule that [OF f m(1) owner clean];
        use assms f d owner m clean in
          \<open>cases "dlpScan (li_extractors li) (fl_buffer f) (Some (fl_mimetype f))"\<close>)
      (auto simp: uploadBegin_def Let_def storageUpload_def elim!: andThen_InrE split: option.splits)
qed

lemma uploadFinish_Inr:
  assumes "uploadFinish li api c p b = (Inr v, b')"
  obtains w m where "ba_createVersion api (pu_docId p) (versionDto p) c (bl_meta b) = (Inr w, m)"
    "b' = b\<lparr>bl_meta := m\<rparr>" "v = w\<lparr> v_checksum := pu_checksum p, v_objectKey := pu_objectKey p \<rparr>"
  using assms by (cases "onMeta (ba_createVersion api (pu_docId p) (versionDto p) c) b"; cases "fst (onMeta (ba_createVersion api (pu_docId p) (versionDto p) c) b)")
    (auto simp: uploadFinish_def onMeta_Inr)

text \<open>
  C23: an upload that succeeds has scanned the file clean, come from the owner editor
  or an administrator, and leaves the file's bytes in the store under the key of the
  registered version, with its digest, every other object as it was.
\<close>

theorem upload_stores_file:
  assumes "upload li api now i (Some f) u c b = (Inr v, b')"
  shows "\<exists>d m ob. ba_getDocument api i c (bl_meta b) = (Inr d, m) \<and> assertCanUpload (d_ownerId d) u
    \<and> v_objectKey v = buildObjectKey i (d_currentVersion d + 1) (fl_originalname f)
    \<and> v_checksum v = sha256_hex (li_crypto li) (fl_buffer f)
    \<and> bl_objects b' = (bl_objects b)(v_objectKey v \<mapsto> ob) \<and> ob_body ob = fl_buffer f
    \<and> ob_checksum ob = v_checksum v
    \<and> (case malwareScan (bl_env b) (li_clamav li) (fl_buffer f) of Clean _ _ _ \<Rightarrow> True | Infected _ _ _ \<Rightarrow> False)"
proof -
  obtain p b1 where p: "uploadBegin li api now i (Some f) u c b = (Inr p, b1)" "uploadFinish li api c p b1 = (Inr v, b')"
    using assms by (auto simp: upload_def elim: andThen_InrE)
  show ?thesis
  proof (rule uploadBegin_Inr [OF p(1)], rule uploadFinish_Inr [OF p(2)], goal_cases)
    case (1 f' d m engine x y w m')
    let ?ob = "\<lparr> ob_body = fl_buffer f, ob_contentType = fl_mimetype f, ob_checksum = pu_checksum p,
      ob_uploadedBy = buildActorId u \<rparr>"
    show ?case using 1 by (intro exI [of _ d] exI [of _ m] exI [of _ ?ob]) auto
  qed
qed


section \<open>Samples\<close>

definition plain_extractors :: extractors where
  "plain_extractors = \<lparr> xp_utf8 = id, xp_pdfPages = (\<lambda>_. None), xp_docxXml = (\<lambda>_. None) \<rparr>"

definition plain_libs :: "crypto \<Rightarrow> blob_libs" where
  "plain_libs cr = \<lparr> li_crypto = cr, li_extractors = plain_extractors, li_clamav = (\<lambda>_. Inr ''stream: OK''),
     li_putError = (\<lambda>_. None), li_deleteError = (\<lambda>_. None),
     li_signedUrl = (\<lambda>k f n. ''https://store/'' @ k), li_watermarkPdf = (\<lambda>_ _ _ _. None) \<rparr>"

definition sample_blobs :: "vault blob_state" where
  "sample_blobs = \<lparr> bl_env = sample_env, bl_objects = Map.empty, bl_audits = [], bl_meta = sample_vault \<rparr>"

definition sample_file :: "string \<Rightarrow> int \<Rightarrow> uploaded_file" where
  "sample_file body n = \<lparr> fl_buffer = body, fl_originalname = ''plan v2.bin'', fl_mimetype = ''application/octet-stream'',
     fl_size = n \<rparr>"

definition alice_upload :: "string \<Rightarrow> int \<Rightarrow> (doc_version, vault blob_state) outcome" where
  "alice_upload body n = upload (plain_libs (sample_crypto JNull))
     (vaultBlobApi (sample_crypto JNull) 1000 (sample_user ''alice'' [''editor''])) 1000 ''d1'' (Some (sample_file body n))
     (sample_user ''alice'' [''editor'']) (sample_context ''alice'' [''editor'']) sample_blobs"

lemma alice_uploads: "succeeds (alice_upload ''abc'' 3)"
  by code_simp

theorem upload_stores_file_witness:
  "\<exists>v b. alice_upload ''abc'' 3 = (Inr v, b) \<and> v_checksum v = ''cba''"
proof -
  obtain v b where v: "alice_upload ''abc'' 3 = (Inr v, b)"
    using alice_uploads by (rule succeedsE)
  have "v_checksum v = sha256_hex (li_crypto (plain_libs (sample_crypto JNull))) (fl_buffer (sample_file ''abc'' 3))"
    using upload_stores_file [OF v [unfolded alice_upload_def]] by blast
  then show ?thesis using v by (simp add: plain_libs_def sample_crypto_def sample_file_def)
qed

lemma alice_empty: "fst (alice_upload [] 0) = Inl (BadRequest ''Validation failed'')"
  by code_simp


section \<open>Two uploads of one version\<close>

text \<open>
  Alice, the owner, and root, an administrator, upload a file of the same name at
  the same time: both store it before either registers the version.
\<close>

definition race :: "(pending_upload, vault blob_state) outcome \<times> (doc_version, vault blob_state) outcome
    \<times> (doc_version, vault blob_state) outcome" where
  "race = (let li = plain_libs (sample_crypto JNull);
      alice = sample_user ''alice'' [''editor'']; ac = sample_context ''alice'' [''editor''];
      root = sample_user ''root'' [''admin'']; rc = sample_context ''root'' [''admin''];
      aa = vaultBlobApi (sample_crypto JNull) 1000 alice; ra = vaultBlobApi (sample_crypto JNull) 1000 root
    in case uploadBegin li aa 1000 ''d1'' (Some (sample_file ''abc'' 3)) alice ac sample_blobs of
         (Inr p, b) \<Rightarrow>
           (case uploadBegin li ra 1000 ''d1'' (Some (sample_file ''xyz'' 3)) root rc b of
              (Inr q, b) \<Rightarrow>
                (case uploadFinish li ra rc q b of (r, b) \<Rightarrow> ((Inr q, b), (r, b), uploadFinish li aa ac p b))
            | (Inl e, b) \<Rightarrow> ((Inl e, b), (Inl e, b), (Inl e, b)))
       | (Inl e, b) \<Rightarrow> ((Inl e, b), (Inl e, b), (Inl e, b)))"

text \<open>
  of two uploads of the same version, the one that loses takes the winner's file
  with it: the version is registered and current, and its object is gone.
\<close>

theorem upload_race_loses_file:
  "case race of (_, (winner, b), (loser, b')) \<Rightarrow>
     (case winner of
        Inl _ \<Rightarrow> False
      | Inr v \<Rightarrow> v_version v = 2 \<and> bl_objects b (v_objectKey v) \<noteq> None \<and> bl_objects b' (v_objectKey v) = None)
     \<and> (case loser of Inl (Conflict _) \<Rightarrow> True | _ \<Rightarrow> False)
     \<and> map d_currentVersion (filter (\<lambda>d. d_id d = ''d1'') (documents (bl_meta b'))) = [2]"
  by code_simp

section \<open>Downloads end to end\<close>

lemma authorize_in_vault:
  "ba_authorizeDownload (vaultBlobApi cr now u) i ver c s = (Inr g, t) \<longleftrightarrow>
     rolesGuard [''viewer'', ''editor'', ''approver'', ''admin''] u
     \<and> authorizeDownload cr now i ver u (buildRequestContext (clientRequest u c)) None s = (Inr g, t)"
  by (simp add: vaultBlobApi_def guarded_Inr)

text \<open>The token of a fresh grant is accepted, and carries the mark of the class.\<close>

lemma fresh_grant:
  assumes g: "authorizeDownload cr now i ver u c None s = (Inr g, t)" and cr: "codec_ok cr"
    and ev: "keys_shared ''DOWNLOAD_GRANT_SECRET'' (env s) ev" "kid_trimmed ev"
  obtains d payload where "docSeenBy now (c_actorId c) i s = Some d"
    "verifyGrantToken cr ev now (g_grantToken g) (buildActorId u) = Inr payload"
    "field_truthy ''watermarkRequired'' payload = CLASSIFICATION_WATERMARK_LEVELS (d_classification d)"
proof -
  obtain d w s' where d: "docSeenBy now (c_actorId c) i s = Some d" and s': "only_logs s s'"
    and iss: "issueDownload cr now c (buildActorId u) (coalesce (u_roles u) []) (getActorGroups u c)
       (coalesce ver (d_currentVersion d)) d w s' = (Inr g, t)"
    using authorizeDownload_issue [OF g] by metis
  let ?fs = "downloadPayload (buildActorId u) d w (now + 300000)"
  obtain sg where sg: "getSigningSecret (env s) ''DOWNLOAD_GRANT_SECRET'' = Inr sg"
    and tk: "g_grantToken g = signToken cr sg ?fs"
    using issueDownload_Inr [OF iss] s' by (auto simp: createGrantToken_def only_logsD split: sum.splits)
  let ?p = "JObj (?fs @ j_optional ''kid'' JStr (fst sg))"
  have "verifyGrantToken cr ev now (g_grantToken g) (buildActorId u) = Inr ?p"
    unfolding verifyGrantToken_def tk
      verify_signed [OF sg ev downloadPayload_fields(1) cr downloadPayload_fields(2,3)] by simp
  moreover have "map_of ?fs ''watermarkRequired'' = Some (JBool (CLASSIFICATION_WATERMARK_LEVELS (d_classification d)))"
    by (cases "v_contentType w") (simp_all add: downloadPayload_def j_optional_def)
  then have "j_field ''watermarkRequired'' ?p = Some (JBool (CLASSIFICATION_WATERMARK_LEVELS (d_classification d)))"
    by (rule j_field_kid) simp
  ultimately show thesis using that [OF d] by (simp add: field_truthy_def)
qed

lemma auditing_errors_simps [simp]:
  "auditing_errors now i c (Inr r, b) = (Inr r, b)"
  "fst (auditing_errors now i c (Inl e, b)) = Inl e"
  by (simp_all add: auditing_errors_def return_def throw_def)

lemma fst_auditing_errors: "fst (auditing_errors now i c m) = fst m"
  by (cases m; cases "fst m") (auto simp: auditing_errors_def return_def throw_def)

text \<open>
  C6: without a token of its own, a caller gets an answer to a download request
  exactly when metadata-service authorises the download, and the answer has a URL
  exactly when the class of the document asks for no watermark.
\<close>

theorem presign_end_to_end:
  assumes "codec_ok (li_crypto li)" "keys_shared ''DOWNLOAD_GRANT_SECRET'' (env (bl_meta b)) (bl_env b)"
    and "kid_trimmed (bl_env b)" "c_actorId c = buildActorId u"
  shows "case fst (presignDownload li (vaultBlobApi (li_crypto li) now u) rh now i ver None c b) of
      Inl e \<Rightarrow> \<not> (rolesGuard [''viewer'', ''editor'', ''approver'', ''admin''] u
        \<and> succeeds (authorizeDownload (li_crypto li) now i ver u (buildRequestContext (clientRequest u c)) None (bl_meta b)))
    | Inr r \<Rightarrow> succeeds (authorizeDownload (li_crypto li) now i ver u (buildRequestContext (clientRequest u c)) None (bl_meta b))
        \<and> (case docSeenBy now (buildActorId u) i (bl_meta b) of
             None \<Rightarrow> False
           | Some d \<Rightarrow> (pd_url r = None) = CLASSIFICATION_WATERMARK_LEVELS (d_classification d))"
proof (cases "ba_authorizeDownload (vaultBlobApi (li_crypto li) now u) i ver c (bl_meta b)")
  case (Pair q t)
  note step = fst_auditing_errors presignDownload_def grantFor_def onMeta_def Pair
  show ?thesis
  proof (cases q)
    case (Inl e)
    have "\<not> (rolesGuard [''viewer'', ''editor'', ''approver'', ''admin''] u
        \<and> succeeds (authorizeDownload (li_crypto li) now i ver u (buildRequestContext (clientRequest u c)) None (bl_meta b)))"
      using Pair Inl authorize_in_vault [of "li_crypto li" now u i ver c "bl_meta b"] by (auto simp: succeeds_iff)
    then show ?thesis using Inl by (simp add: step)
  next
    case (Inr g)
    then have a: "authorizeDownload (li_crypto li) now i ver u (buildRequestContext (clientRequest u c)) None (bl_meta b) = (Inr g, t)"
      using Pair by (simp add: authorize_in_vault)
    obtain d payload where d: "docSeenBy now (buildActorId u) i (bl_meta b) = Some d"
      "verifyGrantToken (li_crypto li) (bl_env b) now (g_grantToken g) (buildActorId u) = Inr payload"
      "field_truthy ''watermarkRequired'' payload = CLASSIFICATION_WATERMARK_LEVELS (d_classification d)"
      using fresh_grant [OF a assms(1-3)] by auto
    have "succeeds (authorizeDownload (li_crypto li) now i ver u (buildRequestContext (clientRequest u c)) None (bl_meta b))"
      using a by simp
    then show ?thesis using d assms(4) Inr
      by (simp add: step lift_result_def Let_def return_def)
  qed
qed

lemma sample_env_shared: "keys_shared ''DOWNLOAD_GRANT_SECRET'' (env sample_vault) sample_env" "kid_trimmed sample_env"
  by (simp_all add: keys_shared_def kid_trimmed_def sample_vault_def sample_env_def)

theorem presign_end_to_end_witness:
  "\<exists>r. fst (presignDownload (plain_libs counting_crypto)
       (vaultBlobApi counting_crypto 1000 (sample_user ''bob'' [''viewer''])) (\<lambda>u _ _. u) 1000 ''d1'' None None
       (sample_context ''bob'' [''viewer'']) sample_blobs) = Inr r \<and> pd_url r = None"
proof -
  let ?u = "sample_user ''bob'' [''viewer'']" and ?c = "sample_context ''bob'' [''viewer'']"
  have li: "li_crypto (plain_libs counting_crypto) = counting_crypto" by (simp add: plain_libs_def)
  have "buildRequestContext (clientRequest ?u ?c) = ?c\<lparr>c_authorization := None\<rparr>" by code_simp
  moreover have "\<dots> = ?c" by (simp add: sample_context_def)
  ultimately have c: "buildRequestContext (clientRequest ?u ?c) = ?c" by simp
  have "rolesGuard [''viewer'', ''editor'', ''approver'', ''admin''] ?u"
    "docSeenBy 1000 (buildActorId ?u) ''d1'' sample_vault = Some published_document"
    "CLASSIFICATION_WATERMARK_LEVELS (d_classification published_document)"
    "c_actorId ?c = buildActorId ?u"
    by code_simp+
  moreover have "succeeds (authorizeDownload counting_crypto 1000 ''d1'' None ?u ?c None sample_vault)"
    by (rule sample_download_any)
  ultimately show ?thesis
    using presign_end_to_end [of "plain_libs counting_crypto" sample_blobs ?c ?u 1000 "''d1''" None "\<lambda>u _ _. u",
        unfolded li c] counting_codec sample_env_shared
    by (auto simp: sample_blobs_def split: sum.splits)
qed

text \<open>
  with a token of the caller, the document named in the request is not looked
  at: the URL handed out is the one of the document the token is for.
\<close>

theorem presign_ignores_document:
  "map_sum id pd_url (fst (presignDownload li api rh now i ver (Some (x # token)) c b))
     = map_sum id pd_url (fst (presignDownload li api rh now j ver' (Some (x # token)) c b))"
  by (cases "verifyGrantToken (li_crypto li) (bl_env b) now (x # token) (c_actorId c)")
    (simp_all add: fst_auditing_errors presignDownload_def grantFor_def truthy_def lift_result_def Let_def return_def)

definition blob_audits_on :: "'m blob_state \<Rightarrow> bool" where
  "blob_audits_on b = (truthy_opt (bl_env b ''AUDIT_SERVICE_URL'') \<and> truthy_opt (bl_env b ''AUDIT_INGEST_TOKEN''))"

lemma blob_andThen_frame:
  assumes "bl_env (snd m) = bl_env b \<and> bl_audits (snd m) = bl_audits b"
    and "\<And>a b'. m = (Inr a, b') \<Longrightarrow> bl_env (snd (f a b')) = bl_env b' \<and> bl_audits (snd (f a b')) = bl_audits b'"
  shows "bl_env (snd (andThen m f)) = bl_env b \<and> bl_audits (snd (andThen m f)) = bl_audits b"
  using assms by (cases m; cases "fst m") auto

lemma grantFor_frame:
  "bl_env (snd (grantFor li api now i ver tok c b)) = bl_env b \<and> bl_audits (snd (grantFor li api now i ver tok c b)) = bl_audits b"
  by (auto simp: grantFor_def lift_result_def return_def intro!: blob_andThen_frame split: option.split)

text \<open>
  every refused download request is audited once, and always as an error of the
  service: a denial by the policy is not recorded as a denial.
\<close>

theorem refused_download_audited_as_error:
  assumes "presignDownload li api rh now i ver tok c b = (Inl e, b')" and "blob_audits_on b"
  shows "\<exists>p. bl_audits b' = bl_audits b @ [p] \<and> ap_action (po_event p) = ''DOCUMENT_DOWNLOAD_DENIED''
    \<and> ap_result (po_event p) = ''ERROR'' \<and> ap_resourceId (po_event p) = Some i
    \<and> ap_reason (po_event p) = Some (error_message e)"
proof -
  let ?k = "\<lambda>(payload, seconds) b.
          let base = \<lparr> pd_docId = i, pd_version = j_field ''version'' payload,
                pd_filename = payload_text ''filename'' payload,
                pd_expiresAt = now + seconds * 1000, pd_expiresInSeconds = seconds,
                pd_url = None, pd_streamingEndpoint = None \<rparr>
          in if field_truthy ''watermarkRequired'' payload
             then return (base\<lparr> pd_streamingEndpoint := Some (''/documents/'' @ i @ ''/versions/''
                    @ payload_number ''version'' payload @ ''/stream'') \<rparr>) b
             else return (base\<lparr> pd_url := Some (createDownloadUrl li (bl_env b) rh
                    (payload_text ''objectKey'' payload) (payload_text ''filename'' payload) seconds) \<rparr>) b"
  let ?m = "andThen (grantFor li api now i ver tok c b) ?k"
  have frame: "bl_env (snd ?m) = bl_env b \<and> bl_audits (snd ?m) = bl_audits b"
    by (rule blob_andThen_frame [OF grantFor_frame]) (auto simp: Let_def return_def)
  have eq: "auditing_errors now i c ?m = (Inl e, b')" using assms(1) by (simp add: presignDownload_def)
  then obtain b1 where m: "?m = (Inl e, b1)" by (cases ?m; cases "fst ?m") (auto simp: auditing_errors_def return_def throw_def)
  then have "b' = auditDownloadError now i c e b1"
    using eq by (simp add: auditing_errors_def throw_def)
  moreover have "bl_env b1 = bl_env b" "bl_audits b1 = bl_audits b" using frame m by simp_all
  ultimately show ?thesis
    using assms(2) by (auto simp: auditDownloadError_def blobEmit_def blobEvent_def blob_audits_on_def)
qed

definition dave_download :: "(presigned, vault blob_state) outcome" where
  "dave_download = presignDownload (plain_libs (sample_crypto JNull))
     (vaultBlobApi (sample_crypto JNull) 1000 (sample_user ''dave'' [''compliance_officer''])) (\<lambda>u _ _. u) 1000 ''d1'' None None
     (sample_context ''dave'' [''compliance_officer'']) sample_blobs"

lemma dave_refused: "fst dave_download = Inl (Forbidden ''Forbidden resource'')"
  by code_simp

theorem refused_download_audited_as_error_witness:
  "\<exists>p. bl_audits (snd dave_download) = [p] \<and> ap_result (po_event p) = ''ERROR''"
proof -
  obtain b where d: "dave_download = (Inl (Forbidden ''Forbidden resource''), b)"
    using dave_refused by (metis prod.collapse)
  have "blob_audits_on sample_blobs" by code_simp
  then obtain p where "bl_audits b = [p]" "ap_result (po_event p) = ''ERROR''"
    using refused_download_audited_as_error [OF d [unfolded dave_download_def]] by (auto simp: sample_blobs_def)
  then show ?thesis unfolding d by auto
qed

section \<open>Object keys\<close>

fun digits_value :: "nat \<Rightarrow> string \<Rightarrow> nat" where
  "digits_value acc [] = acc"
| "digits_value acc (c # cs) = digits_value (10 * acc + (of_char c - 48)) cs"

lemma digits_value_append: "digits_value acc (xs @ [c]) = 10 * digits_value acc xs + (of_char c - 48)"
  by (induction xs arbitrary: acc) auto

lemma digits_value_show: "digits_value 0 (show_nat n) = n"
proof (induction n rule: show_nat.induct)
  case (1 n)
  show ?case
  proof (cases "n < 10")
    case True
    then show ?thesis by (subst show_nat.simps) simp
  next
    case False
    then have "digits_value 0 (show_nat (n div 10)) = n div 10" using 1 by simp
    then show ?thesis using False by (subst show_nat.simps) (simp add: digits_value_append)
  qed
qed

lemma show_nat_inj: "show_nat m = show_nat n \<Longrightarrow> m = n"
  by (metis digits_value_show)

lemma show_nat_chars: "c \<in> set (show_nat n) \<Longrightarrow> digit c"
proof (induction n rule: show_nat.induct)
  case (1 n)
  then show ?case by (subst (asm) (2) show_nat.simps) (auto simp: digit_def split: if_splits)
qed

lemma show_int_inj:
  assumes "0 \<le> m" "0 \<le> n" "show_int m = show_int n"
  shows "m = n"
proof -
  have "nat m = nat n" by (rule show_nat_inj) (use assms in \<open>simp add: show_int_def\<close>)
  then show ?thesis using assms by simp
qed

lemma slash_not_safe: "\<not> safe_char (CHR ''/'')" "\<not> digit (CHR ''/'')"
  by code_simp+

text \<open>
  the keys of two versions differ, whatever the file names: a file name cannot
  leave the directory of its document and version.
\<close>

theorem object_keys_distinct:
  assumes "buildObjectKey i m f = buildObjectKey j n g" and "CHR ''/'' \<notin> set i" "CHR ''/'' \<notin> set j"
    and "0 \<le> m" "0 \<le> n"
  shows "i = j \<and> m = n"
proof -
  have no: "CHR ''/'' \<notin> set (show_int k)" if "0 \<le> k" for k
    using that show_nat_chars slash_not_safe(2) by (auto simp: show_int_def)
  define safe where "safe h = map (\<lambda>c. if safe_char c then c else CHR ''-'') h" for h
  have safe: "CHR ''/'' \<notin> set (safe h)" for h
    using slash_not_safe(1) by (auto simp: safe_def)
  have cut: "split_on (CHR ''/'') (buildObjectKey x k h) = [''doc'', x, ''v'' @ show_int k, safe h]"
    if "CHR ''/'' \<notin> set x" "0 \<le> k" for x k h
    using that no [OF that(2)] safe [of h]
    by (simp add: buildObjectKey_def Let_def safe_def [symmetric] split_on_append split_on_no_sep)
  from cut [OF assms(2,4), of f] cut [OF assms(3,5), of g] assms(1) show ?thesis
    using show_int_inj [OF assms(4,5)] by simp
qed

theorem object_keys_distinct_witness:
  "buildObjectKey ''d1'' 1 ''a/../b'' = buildObjectKey ''d1'' 1 ''a?..+b'' \<and> (''d1'' = ''d1'' \<and> (1::int) = 1)"
  using object_keys_distinct [of "''d1''" 1 "''a/../b''" "''d1''" 1 "''a?..+b''"] by code_simp

end
