(* ===== verification/Leak_Properties.thy ===== *)
theory Leak_Properties
  imports Blob_Properties Lifecycle
begin

text \<open>
  The data-leak scan: a text that contains a listed word as a word of its own is
  always reported, wherever and however it is written, and an upload with a report
  leaves its document at CONFIDENTIAL or above.
\<close>

section \<open>Matches are found\<close>

definition before :: "char option \<Rightarrow> string \<Rightarrow> char option" where
  "before p pre = (if pre = [] then p else Some (last pre))"

lemma before_simps [simp]: "before p [] = p" "before p (c # pre) = before (Some c) pre"
  by (auto simp: before_def)

text \<open>If an expression matches anywhere in a text, cutting the text finds a match.\<close>

lemma pieces_find:
  "rx_match r (before (fst pos) pre, post) \<noteq> [] \<Longrightarrow> snd pos = pre @ post \<Longrightarrow> \<exists>w. Matched w \<in> set (pieces r pos)"
proof (induction r pos arbitrary: pre rule: pieces.induct)
  case (1 r pos)
  show ?case
  proof (cases "rx_match r pos")
    case (Cons q qs)
    then show ?thesis by (subst pieces.simps) auto
  next
    case Nil
    then obtain c pre' where pre: "pre = c # pre'"
      using 1(4,5) by (cases pre; cases pos) auto
    have "\<exists>w. Matched w \<in> set (pieces r (Some c, pre' @ post))"
      by (rule 1(1) [OF Nil]) (use 1(4,5) pre in auto)
    then show ?thesis using Nil 1(5) pre by (subst pieces.simps) auto
  qed
qed

lemma match_all_find: "rx_match r (before None pre, post) \<noteq> [] \<Longrightarrow> match_all r (pre @ post) \<noteq> []"
  using pieces_find [of r "(None, pre @ post)" pre post]
  by (auto simp: match_all_def List.map_filter_def filter_empty_conv split: piece.splits)

section \<open>Words\<close>

lemma lit_i_match:
  "map to_lower v = map to_lower w \<Longrightarrow> w \<noteq> [] \<Longrightarrow> (Some (last v), post) \<in> set (rx_match (lit_i w) (p, v @ post))"
proof (induction w arbitrary: v p rule: lit_i.induct)
  case (2 c)
  then show ?case by (cases v) auto
next
  case (3 c d cs)
  then obtain x v' where v: "v = x # v'" "to_lower x = to_lower c" "map to_lower v' = map to_lower (d # cs)"
    by (cases v) auto
  have "(Some (last v'), post) \<in> set (rx_match (lit_i (d # cs)) (Some x, v' @ post))"
    using 3(1) [of v' "Some x"] v(3) by simp
  moreover have "v' \<noteq> []" using v(3) by auto
  ultimately show ?case using v by auto
qed simp

text \<open>The text between two positions is a word of its own.\<close>

definition stands_alone :: "string \<Rightarrow> string \<Rightarrow> string \<Rightarrow> bool" where
  "stands_alone pre v post =
     (v \<noteq> [] \<and> word_char (hd v) \<and> word_char (last v)
      \<and> (pre = [] \<or> \<not> word_char (last pre)) \<and> (post = [] \<or> \<not> word_char (hd post)))"

lemma keyword_match:
  assumes "map to_lower v = map to_lower w" "stands_alone pre v post"
  shows "rx_match (keyword_rx w) (before None pre, v @ post) \<noteq> []"
proof -
  have v: "v \<noteq> []" "w \<noteq> []" using assms by (auto simp: stands_alone_def)
  have b: "at_boundary (before None pre, v @ post)" "at_boundary (Some (last v), post)"
    using assms(2) by (cases v; auto simp: at_boundary_def stands_alone_def before_def split: list.splits)+
  have "(Some (last v), post) \<in> set (rx_match (lit_i w) (before None pre, v @ post))"
    using lit_i_match [OF assms(1) v(2)] .
  then show ?thesis using b by (auto simp: keyword_rx_def intro!: bexI [of _ "(Some (last v), post)"])
qed

lemma scanText_detects:
  assumes "length text \<le> MAX_SCAN_CHARS" "rule \<in> set RULES" "match_all (dr_regex rule) text \<noteq> []"
  shows "scanText text \<noteq> Dlp_clear"
  using assms by (auto simp: scanText_def clip_def Let_def)

lemma listed_scan:
  assumes "length (pre @ v @ post) \<le> MAX_SCAN_CHARS" and "lower v = ''secret'' \<or> lower v = ''confidential''"
    and "stands_alone pre v post"
  shows "scanText (pre @ v @ post) \<noteq> Dlp_clear"
proof -
  have low: "map to_lower ''secret'' = ''secret''" "map to_lower ''confidential'' = ''confidential''" by code_simp+
  obtain w rule where w: "map to_lower v = map to_lower w" "rule \<in> set RULES" "dr_regex rule = keyword_rx w"
    using assms(2)
  proof
    assume "lower v = ''secret''"
    then show thesis
      by (intro that [of "''secret''" "\<lparr> dr_type = KEYWORD, dr_pattern = ''secret'', dr_severity = ''HIGH'',
          dr_regex = keyword_rx ''secret'' \<rparr>"]) (simp_all only: lower_def low, simp_all add: RULES_def)
  next
    assume "lower v = ''confidential''"
    then show thesis
      by (intro that [of "''confidential''" "\<lparr> dr_type = KEYWORD, dr_pattern = ''confidential'', dr_severity = ''HIGH'',
          dr_regex = keyword_rx ''confidential'' \<rparr>"]) (simp_all only: lower_def low, simp_all add: RULES_def)
  qed
  have "match_all (dr_regex rule) (pre @ v @ post) \<noteq> []"
    unfolding w(3) by (rule match_all_find, rule keyword_match [OF w(1) assms(3)])
  then show ?thesis using scanText_detects [OF assms(1) w(2)] by simp
qed

text \<open>
  a text of at most a million characters in which the word secret or
  confidential stands alone, in whatever case, is always reported.
\<close>

theorem listed_word_reported:
  assumes "length (pre @ v @ post) \<le> MAX_SCAN_CHARS" and "lower v = ''secret'' \<or> lower v = ''confidential''"
    and "stands_alone pre v post"
  shows "scanText (pre @ v @ post) \<noteq> Dlp_clear"
  using assms by (rule listed_scan)

theorem listed_word_reported_witness:
  "scanText (''top '' @ ''SeCret'' @ '', do not forward'') \<noteq> Dlp_clear"
proof -
  have "stands_alone ''top '' ''SeCret'' '', do not forward''" "lower ''SeCret'' = ''secret''" by code_simp+
  then show ?thesis
    using listed_word_reported [of "''top ''" "''SeCret''" "'', do not forward''"] by (simp add: MAX_SCAN_CHARS_def)
qed

section \<open>From the scan to the classification\<close>

lemma createVersion_commit:
  assumes "createVersion now i dto u c s = (Inr v, t)" "distinct (map d_id (documents s))"
  shows "\<exists>d. docSeenBy now (buildActorId u) i s = Some d \<and> cv_version dto = d_currentVersion d + 1
    \<and> find_row d_id i (documents t) =
       Some ((versionDocumentUpdate now (cv_version dto) (coalesce (cv_dlpStatus dto) ''NOT_SCANNED'')
         (coalesce (cv_dlpFindings dto) [])
         (coalesce (cv_dlpStatus dto) ''NOT_SCANNED'' = ''DETECTED'' \<and> d_classification d \<in> {PUBLIC, INTERNAL}) d)
       \<lparr>d_updatedAt := now\<rparr>)"
proof (cases rule: scoped_cases [of now "buildActorId u" i s "\<lambda>d t. (Inr d, t)"])
  case (missing e)
  then show ?thesis using assms(1)
    by (cases "findInOrgOrThrow now (buildActorId u) i s") (auto simp: createVersion_def docSeenBy_def split: sum.splits)
next
  case (found d s1)
  have docs: "documents s1 = documents s" using found(2) by (rule only_logsD)
  then have row: "find_row d_id i (documents s1) = Some d" using docSeenBy_row [OF assms(2) found(1)] by simp
  let ?g = "\<lambda>d. (versionDocumentUpdate now (cv_version dto) (coalesce (cv_dlpStatus dto) ''NOT_SCANNED'')
         (coalesce (cv_dlpFindings dto) [])
         (coalesce (cv_dlpStatus dto) ''NOT_SCANNED'' = ''DETECTED'' \<and> d_classification d \<in> {PUBLIC, INTERNAL}) d)
       \<lparr>d_updatedAt := now\<rparr>"
  have id: "d_id (versionDocumentUpdate now n st fs e x) = d_id x" for n st fs e x
    by (simp add: versionDocumentUpdate_def Let_def)
  obtain x s2 where guard: "versionsAssertCanManage (d_ownerId d) u s1 = (Inr x, s2)"
    using assms(1) unfolding createVersion_def found(4) by (auto elim!: andThen_InrE)
  then have "s2 = s1" by (rule versionsAssertCanManage_Inr)
  then have "cv_version dto = d_currentVersion d + 1
      \<and> find_row d_id i (documents t) = Some (?g d)"
    using assms(1) guard row only_logsD(1) [OF notifyVersionUploaded_logs]
    unfolding createVersion_def found(4)
    by (auto simp: Let_def prismaCreateVersion_def prismaUpdateDocument_found return_def throw_def
        find_row_update_same id split: if_splits)
  then show ?thesis using found(1) by blast
qed

lemma getDocument_in_vault:
  "ba_getDocument (vaultBlobApi cr now u) i c s = (Inr d, t) \<Longrightarrow> only_logs s t"
  using assertCanReadMetadata_logs [of s cr now i u "buildRequestContext (clientRequest u c)" None]
  by (auto simp: vaultBlobApi_def guarded_Inr)

lemma createVersion_in_vault:
  "ba_createVersion (vaultBlobApi cr now u) i dto c s = (Inr v, t) \<Longrightarrow>
     validCreateVersion dto \<and> createVersion now i dto u (buildRequestContext (clientRequest u c)) s = (Inr v, t)"
  by (auto simp: vaultBlobApi_def guarded_Inr split: if_splits)

text \<open>
  C4: whoever uploads a file with a finding of the leak scan, the document is at
  least confidential afterwards and marked as detected.
\<close>

theorem leaky_upload_is_confidential:
  assumes "upload li (vaultBlobApi cr now u) now i (Some f) u c b = (Inr v, b')"
    and "distinct (map d_id (documents (bl_meta b)))"
    and "dlpScan (li_extractors li) (fl_buffer f) (Some (fl_mimetype f)) \<noteq> Dlp_clear"
  shows "\<exists>d. find_row d_id i (documents (bl_meta b')) = Some d \<and> d_dlpStatus d = ''DETECTED''
    \<and> d_classification d \<in> {CONFIDENTIAL, SECRET}"
proof -
  obtain p b1 where p: "uploadBegin li (vaultBlobApi cr now u) now i (Some f) u c b = (Inr p, b1)"
      "uploadFinish li (vaultBlobApi cr now u) c p b1 = (Inr v, b')"
    using assms(1) by (auto simp: upload_def elim: andThen_InrE)
  show ?thesis
  proof (rule uploadBegin_Inr [OF p(1)], rule uploadFinish_Inr [OF p(2)], goal_cases)
    case (1 f' d m engine x y w m')
    have "only_logs (bl_meta b) m" using 1(2) by (rule getDocument_in_vault)
    then have docs: "documents (bl_meta b1) = documents (bl_meta b)" using 1 only_logsD(1) by metis
    have "pu_dlp p \<noteq> Dlp_clear" using 1(1,10) assms(3) by simp
    then have det: "cv_dlpStatus (versionDto p) = Some ''DETECTED''"
      by (cases "pu_dlp p") (auto simp: versionDto_def dlp_status_def)
    have "createVersion now i (versionDto p) u (buildRequestContext (clientRequest u c)) (bl_meta b1) = (Inr w, m')"
      using createVersion_in_vault 1 by metis
    from createVersion_commit [OF this] assms(2) docs det
    obtain d0 where d0: "find_row d_id i (documents m') =
        Some ((versionDocumentUpdate now (cv_version (versionDto p)) ''DETECTED'' (coalesce (cv_dlpFindings (versionDto p)) [])
         (d_classification d0 \<in> {PUBLIC, INTERNAL}) d0)\<lparr>d_updatedAt := now\<rparr>)"
      by auto
    moreover have "bl_meta b' = m'" using 1 by simp
    ultimately show ?case
      by (cases "d_classification d0") (auto simp: versionDocumentUpdate_def Let_def)
  qed
qed

definition leaky_file :: uploaded_file where
  "leaky_file = \<lparr> fl_buffer = ''top secret'', fl_originalname = ''memo.txt'', fl_mimetype = ''text/plain'', fl_size = 10 \<rparr>"

definition alice_leak :: "(doc_version, vault blob_state) outcome" where
  "alice_leak = upload (plain_libs (sample_crypto JNull))
     (vaultBlobApi (sample_crypto JNull) 1000 (sample_user ''alice'' [''editor''])) 1000 ''d2'' (Some leaky_file)
     (sample_user ''alice'' [''editor'']) (sample_context ''alice'' [''editor'']) sample_blobs"

lemma alice_leaks:
  "succeeds alice_leak" "dlpScan plain_extractors ''top secret'' (Some ''text/plain'') \<noteq> Dlp_clear"
  "distinct (map d_id (documents sample_vault))" "d_classification pending_document = INTERNAL"
  by code_simp+

theorem leaky_upload_is_confidential_witness:
  "\<exists>v b d. alice_leak = (Inr v, b) \<and> find_row d_id ''d2'' (documents (bl_meta b)) = Some d
     \<and> d_classification d \<in> {CONFIDENTIAL, SECRET}"
proof -
  obtain v b where v: "alice_leak = (Inr v, b)" using alice_leaks(1) by (rule succeedsE)
  have "\<exists>d. find_row d_id ''d2'' (documents (bl_meta b)) = Some d \<and> d_dlpStatus d = ''DETECTED''
    \<and> d_classification d \<in> {CONFIDENTIAL, SECRET}"
    by (rule leaky_upload_is_confidential [OF v [unfolded alice_leak_def]])
      (use alice_leaks in \<open>simp_all add: sample_blobs_def plain_libs_def leaky_file_def\<close>)
  then show ?thesis using v by blast
qed

section \<open>Watermarks\<close>

text \<open>
  a file that is not declared as PDF is streamed as it was stored, whatever its
  class: the watermark the class asks for is only ever put on PDF files.
\<close>

theorem watermark_only_on_pdf:
  "js_includes (lower (coalesce (payload_type payload) [])) ''application/pdf''
   \<or> fst (readGranted li now actor True payload b) = fst (readGranted li now actor False payload b)"
  by (auto simp: readGranted_def andThen_fst applyWatermark_def return_def split: sum.splits)

end
