(* ===== verification/Saved_Views.thy ===== *)
theory Saved_Views
  imports Org_Service
begin

text \<open>
  Saved document views:
  \<open>services/metadata-service/src/document-saved-views/document-saved-views.service.ts\<close>.
  Private views belong to their owner; team views, which only administrators create,
  are seen by the organization. The table stands beside the rest of the vault.
\<close>

datatype view_scope = PRIVATE_VIEW | TEAM_VIEW

record saved_view =
  sw_id :: string
  sw_organizationId :: string
  sw_name :: string
  sw_description :: "string option"
  sw_filters :: fields
  sw_scope :: view_scope
  sw_ownerId :: string
  sw_createdAt :: int

record create_view_dto =
  cw_name :: string
  cw_description :: "string option"
  cw_filters :: fields
  cw_scope :: "view_scope option"

record views_state =
  vs_views :: "saved_view list"
  vs_vault :: vault

definition inVault :: "(vault \<Rightarrow> ('a, vault) outcome) \<Rightarrow> views_state \<Rightarrow> ('a, views_state) outcome" where
  "inVault call x = (case call (vs_vault x) of (r, s) \<Rightarrow> (r, x\<lparr>vs_vault := s\<rparr>))"

definition isAdmin :: "request_context \<Rightarrow> bool" where
  "isAdmin context = (''admin'' \<in> set (c_roles context))"

definition createView :: "int \<Rightarrow> string \<Rightarrow> create_view_dto \<Rightarrow> request_context \<Rightarrow> views_state \<Rightarrow>
  (saved_view, views_state) outcome" where
  "createView now newId dto context x =
     (let scope = coalesce (cw_scope dto) PRIVATE_VIEW in
      if scope = TEAM_VIEW \<and> \<not> isAdmin context
      then throw (Forbidden ''Only admins can create team saved views'') x
      else andThen (inVault (requireOrgId now (c_actorId context)) x) (\<lambda>organizationId x.
        let view = \<lparr> sw_id = newId, sw_organizationId = organizationId, sw_name = cw_name dto,
              sw_description = cw_description dto, sw_filters = cw_filters dto, sw_scope = scope,
              sw_ownerId = c_actorId context, sw_createdAt = now \<rparr>
        in return view (x\<lparr>vs_views := vs_views x @ [view]\<rparr>)))"

text \<open>\<open>orderBy: [{ scope: 'asc' }, { createdAt: 'desc' }]\<close>, PRIVATE before TEAM.\<close>

definition view_order :: "saved_view list \<Rightarrow> saved_view list" where
  "view_order vs =
     (let newest = sort_key (\<lambda>v. - sw_createdAt v) vs
      in filter (\<lambda>v. sw_scope v = PRIVATE_VIEW) newest @ filter (\<lambda>v. sw_scope v = TEAM_VIEW) newest)"

definition findAllViews :: "int \<Rightarrow> request_context \<Rightarrow> views_state \<Rightarrow> (saved_view list, views_state) outcome" where
  "findAllViews now context x =
     andThen (inVault (requireOrgId now (c_actorId context)) x) (\<lambda>organizationId x.
       return (view_order (filter (\<lambda>v. sw_organizationId v = organizationId
         \<and> ((sw_scope v = PRIVATE_VIEW \<and> sw_ownerId v = c_actorId context) \<or> sw_scope v = TEAM_VIEW))
         (vs_views x))) x)"

definition deleteView :: "int \<Rightarrow> string \<Rightarrow> request_context \<Rightarrow> views_state \<Rightarrow> (saved_view, views_state) outcome" where
  "deleteView now i context x =
     andThen (inVault (requireOrgId now (c_actorId context)) x) (\<lambda>organizationId x.
       case find (\<lambda>v. sw_id v = i \<and> sw_organizationId v = organizationId) (vs_views x) of
         None \<Rightarrow> throw (NotFound ''Document saved view not found'') x
       | Some savedView \<Rightarrow>
           let canDeletePrivate = (sw_scope savedView = PRIVATE_VIEW \<and> sw_ownerId savedView = c_actorId context);
               canDeleteTeam = (sw_scope savedView = TEAM_VIEW
                 \<and> (sw_ownerId savedView = c_actorId context \<or> isAdmin context))
           in if \<not> canDeletePrivate \<and> \<not> canDeleteTeam
              then throw (Forbidden ''Not allowed to delete this saved view'') x
              else return savedView (x\<lparr>vs_views := delete_row sw_id i (vs_views x)\<rparr>))"

section \<open>Who sees and who deletes a view\<close>

lemma set_view_order [simp]: "set (view_order vs) = set vs"
proof -
  have "sw_scope v = PRIVATE_VIEW \<or> sw_scope v = TEAM_VIEW" for v by (cases "sw_scope v") auto
  then show ?thesis by (auto simp: view_order_def Let_def)
qed

definition view_visible :: "string \<Rightarrow> string \<Rightarrow> saved_view \<Rightarrow> bool" where
  "view_visible orgId actor v = (sw_organizationId v = orgId \<and> (sw_scope v = TEAM_VIEW \<or> sw_ownerId v = actor))"

lemma inVault_Inr:
  "inVault call x = (Inr a, y) \<longleftrightarrow> call (vs_vault x) = (Inr a, vs_vault y) \<and> y = x\<lparr>vs_vault := vs_vault y\<rparr>"
  by (cases "call (vs_vault x)") (auto simp: inVault_def)

lemma findAllViews_set:
  assumes "findAllViews now c x = (Inr vs, y)"
  obtains orgId s where "requireOrgId now (c_actorId c) (vs_vault x) = (Inr orgId, s)"
    "set vs = {v \<in> set (vs_views x). view_visible orgId (c_actorId c) v}"
proof -
  obtain orgId z where o: "inVault (requireOrgId now (c_actorId c)) x = (Inr orgId, z)"
    and vs: "vs = view_order (filter (\<lambda>v. sw_organizationId v = orgId
         \<and> ((sw_scope v = PRIVATE_VIEW \<and> sw_ownerId v = c_actorId c) \<or> sw_scope v = TEAM_VIEW)) (vs_views z))"
    using assms by (auto simp: findAllViews_def elim!: andThen_InrE)
  have z: "requireOrgId now (c_actorId c) (vs_vault x) = (Inr orgId, vs_vault z)" "z = x\<lparr>vs_vault := vs_vault z\<rparr>"
    using o by (simp_all add: inVault_Inr)
  then have "vs_views z = vs_views x" by (metis views_state.select_convs(1) views_state.surjective views_state.update_convs(2))
  moreover have "sw_scope v = PRIVATE_VIEW \<or> sw_scope v = TEAM_VIEW" for v by (cases "sw_scope v") auto
  ultimately show ?thesis using that [OF z(1)] vs by (auto simp: view_visible_def)
qed

text \<open>
  a caller is shown exactly the team views of the caller's organization and the
  caller's own views there, and can delete a view only if it is one of those, or,
  for a team view of another owner, as an administrator.
\<close>

theorem saved_views_visibility:
  "(case findAllViews now c x of
      (Inl e, _) \<Rightarrow> True
    | (Inr vs, _) \<Rightarrow> (\<exists>orgId s. requireOrgId now (c_actorId c) (vs_vault x) = (Inr orgId, s)
        \<and> set vs = {v \<in> set (vs_views x). view_visible orgId (c_actorId c) v}))
   \<and> (case deleteView now i c x of
      (Inl e, y) \<Rightarrow> vs_views y = vs_views x
    | (Inr v, y) \<Rightarrow> vs_views y = filter (\<lambda>w. sw_id w \<noteq> i) (vs_views x) \<and> sw_id v = i
        \<and> (sw_ownerId v = c_actorId c \<or> sw_scope v = TEAM_VIEW \<and> isAdmin c))"
proof
  show "case findAllViews now c x of
      (Inl e, _) \<Rightarrow> True
    | (Inr vs, _) \<Rightarrow> (\<exists>orgId s. requireOrgId now (c_actorId c) (vs_vault x) = (Inr orgId, s)
        \<and> set vs = {v \<in> set (vs_views x). view_visible orgId (c_actorId c) v})"
    by (cases "findAllViews now c x"; cases "fst (findAllViews now c x)")
      (auto elim: findAllViews_set)
  have org: "vs_views (snd (inVault call x)) = vs_views x" for call :: "vault \<Rightarrow> (string, vault) outcome"
    by (simp add: inVault_def split: prod.split)
  show "case deleteView now i c x of
      (Inl e, y) \<Rightarrow> vs_views y = vs_views x
    | (Inr v, y) \<Rightarrow> vs_views y = filter (\<lambda>w. sw_id w \<noteq> i) (vs_views x) \<and> sw_id v = i
        \<and> (sw_ownerId v = c_actorId c \<or> sw_scope v = TEAM_VIEW \<and> isAdmin c)"
  proof (cases "inVault (requireOrgId now (c_actorId c)) x")
    case (Pair r z)
    then have "vs_views z = vs_views x" using org [of "requireOrgId now (c_actorId c)"] by simp
    then show ?thesis using Pair
      by (cases r)
        (auto simp: deleteView_def throw_def return_def delete_row_def find_Some_iff Let_def
          split: option.splits)
  qed
qed

end
