(* ===== verification/Notifications.thy ===== *)
theory Notifications
  imports Sensitive_Actions
begin

text \<open>
  The notification service: \<open>services/notification-service/src/notification\<close>, with
  \<open>notification.service.ts\<close>, \<open>notification.controller.ts\<close>, \<open>email.service.ts\<close> and
  \<open>user-email.resolver.ts\<close>. The collection is the list of its rows in the order of
  insertion. The answers of Keycloak and of the mail provider are parameters.
\<close>

section \<open>Rows and requests\<close>

datatype notify_type =
    N_SUBMITTED | N_APPROVED | N_REJECTED | N_ARCHIVED | N_DELETED | N_MENTIONED
  | N_COMMENTED | N_VERSION_UPLOADED | N_DLP_DETECTED

fun show_notify_type :: "notify_type \<Rightarrow> string" where
  "show_notify_type N_SUBMITTED = ''SUBMITTED''"
| "show_notify_type N_APPROVED = ''APPROVED''"
| "show_notify_type N_REJECTED = ''REJECTED''"
| "show_notify_type N_ARCHIVED = ''ARCHIVED''"
| "show_notify_type N_DELETED = ''DELETED''"
| "show_notify_type N_MENTIONED = ''MENTIONED''"
| "show_notify_type N_COMMENTED = ''COMMENTED''"
| "show_notify_type N_VERSION_UPLOADED = ''VERSION_UPLOADED''"
| "show_notify_type N_DLP_DETECTED = ''DLP_DETECTED''"

record notify_dto =
  nd_type :: notify_type
  nd_docId :: string
  nd_recipientId :: "string option"
  nd_recipientIds :: "string list option"
  nd_docTitle :: "string option"
  nd_reason :: "string option"
  nd_traceId :: "string option"
  nd_metadata :: "fields option"

record notification =
  nt_id :: string
  nt_type :: notify_type
  nt_docId :: string
  nt_recipientId :: string
  nt_docTitle :: "string option"
  nt_reason :: "string option"
  nt_traceId :: "string option"
  nt_metadata :: "fields option"
  nt_createdAt :: int
  nt_read :: bool

record sent_mail =
  ml_to :: string
  ml_subject :: string
  ml_text :: string

record cached_email =
  em_email :: "string option"
  em_expiresAt :: int

text \<open>
  \<open>nf_cache\<close> is the cache of \<open>UserEmailResolver\<close>; \<open>nf_mails\<close> are the messages the
  provider accepted.
\<close>

record notifications =
  nf_env :: "string \<rightharpoonup> string"
  nf_rows :: "notification list"
  nf_cache :: "string \<rightharpoonup> cached_email"
  nf_mails :: "sent_mail list"

record mail_world =
  mw_lookup :: "string \<Rightarrow> string option"
  mw_accepts :: "sent_mail \<Rightarrow> bool"

section \<open>E-mail\<close>

definition trimmed_env :: "(string \<rightharpoonup> string) \<Rightarrow> string \<Rightarrow> string option" where
  "trimmed_env ev k = (case ev k of None \<Rightarrow> None | Some v \<Rightarrow> if trim v = [] then None else Some (trim v))"

definition emailEnabled :: "(string \<rightharpoonup> string) \<Rightarrow> bool" where
  "emailEnabled ev = (trimmed_env ev ''EMAIL_API_KEY'' \<noteq> None \<and> trimmed_env ev ''EMAIL_FROM'' \<noteq> None)"

definition send_mail :: "mail_world \<Rightarrow> sent_mail \<Rightarrow> notifications \<Rightarrow> notifications" where
  "send_mail mw m s =
     (if \<not> emailEnabled (nf_env s) then s
      else if mw_accepts mw m then s\<lparr>nf_mails := nf_mails s @ [m]\<rparr> else s)"

definition resolverEnabled :: "(string \<rightharpoonup> string) \<Rightarrow> bool" where
  "resolverEnabled ev = list_all (\<lambda>k. trimmed_env ev k \<noteq> None)
     [''KEYCLOAK_BASE_URL'', ''KEYCLOAK_REALM'', ''KEYCLOAK_CLIENT_ID'', ''KEYCLOAK_CLIENT_SECRET'']"

definition RESOLVER_TTL_MS :: int where
  "RESOLVER_TTL_MS = 5 * 60000"

definition fetchEmail :: "mail_world \<Rightarrow> string \<Rightarrow> string option" where
  "fetchEmail mw sub = (case mw_lookup mw sub of
     None \<Rightarrow> None | Some v \<Rightarrow> if trim v = [] then None else Some (trim v))"

definition resolveEmail :: "mail_world \<Rightarrow> int \<Rightarrow> string \<Rightarrow> notifications \<Rightarrow> string option \<times> notifications" where
  "resolveEmail mw now sub s =
     (if \<not> resolverEnabled (nf_env s) then (None, s)
      else let fetch = (let email = fetchEmail mw sub
             in (email, s\<lparr>nf_cache := (nf_cache s)(sub \<mapsto>
                  \<lparr> em_email = email, em_expiresAt = now + RESOLVER_TTL_MS \<rparr>)\<rparr>))
        in case nf_cache s sub of
             Some cached \<Rightarrow> if now < em_expiresAt cached then (em_email cached, s) else fetch
           | None \<Rightarrow> fetch)"

definition emailTriggerTypes :: "(string \<rightharpoonup> string) \<Rightarrow> string list" where
  "emailTriggerTypes ev =
     (case trimmed_env ev ''EMAIL_NOTIFY_TYPES'' of
        Some configured \<Rightarrow> filter truthy (map (\<lambda>t. upper (trim t)) (split_on (CHR '','') configured))
      | None \<Rightarrow> [''REJECTED''])"

definition mailFor :: "notify_dto \<Rightarrow> string \<Rightarrow> sent_mail" where
  "mailFor dto addr =
     (let subject_title = coalesce (nd_docTitle dto) (nd_docId dto)
      in \<lparr> ml_to = addr,
           ml_subject = ''[DocVault] '' @ show_notify_type (nd_type dto) @ '': '' @ subject_title,
           ml_text = ''A document notification requires your attention.'' @ [CHR 10, CHR 10]
             @ ''Type: '' @ show_notify_type (nd_type dto) @ [CHR 10]
             @ ''Document: '' @ subject_title @ [CHR 10]
             @ (case nd_reason dto of
                  None \<Rightarrow> [] | Some r \<Rightarrow> if truthy r then ''Reason: '' @ r @ [CHR 10] else [])
             @ [CHR 10] @ ''Open DocVault to view details.'' \<rparr>)"

definition sendEmails :: "mail_world \<Rightarrow> int \<Rightarrow> string list \<Rightarrow> notify_dto \<Rightarrow> notifications \<Rightarrow> notifications" where
  "sendEmails mw now recipientIds dto s =
     (if \<not> emailEnabled (nf_env s) then s
      else fold (\<lambda>sub s.
        case resolveEmail mw now sub s of
          (None, s) \<Rightarrow> s
        | (Some email, s) \<Rightarrow> send_mail mw (mailFor dto email) s) recipientIds s)"

section \<open>Sanitized metadata\<close>

definition NOTIFICATION_SENSITIVE_FIELD_NAMES :: "string list" where
  "NOTIFICATION_SENSITIVE_FIELD_NAMES =
     [''fileContent'', ''objectKey'', ''storagePath'', ''presignedUrl'', ''grantToken'', ''downloadToken'']"

fun sanitizeNotificationValue :: "json \<Rightarrow> json" where
  "sanitizeNotificationValue (JArr js) = JArr (map sanitizeNotificationValue js)"
| "sanitizeNotificationValue (JObj fs) =
     JObj (map (\<lambda>(k, v). (k, sanitizeNotificationValue v))
       (filter (\<lambda>(k, _). k \<notin> set NOTIFICATION_SENSITIVE_FIELD_NAMES) fs))"
| "sanitizeNotificationValue v = v"

definition sanitizeNotificationMetadata :: "fields \<Rightarrow> fields" where
  "sanitizeNotificationMetadata fs =
     (case sanitizeNotificationValue (JObj fs) of JObj gs \<Rightarrow> gs | _ \<Rightarrow> [])"

section \<open>Storing\<close>

definition MAX_PER_RECIPIENT :: nat where
  "MAX_PER_RECIPIENT = 100"

text \<open>\<open>sort({ createdAt: -1, _id: -1 })\<close>: newest first, later inserted first among equals.\<close>

definition newest_first :: "notification list \<Rightarrow> notification list" where
  "newest_first rows = sort_key (\<lambda>n. - nt_createdAt n) (rev rows)"

definition rows_for :: "string \<Rightarrow> notification list \<Rightarrow> notification list" where
  "rows_for recipientId rows = filter (\<lambda>n. nt_recipientId n = recipientId) rows"

definition pruneRecipient :: "string \<Rightarrow> notification list \<Rightarrow> notification list" where
  "pruneRecipient recipientId rows =
     (if length (rows_for recipientId rows) \<le> MAX_PER_RECIPIENT then rows
      else let staleIds = map nt_id (drop MAX_PER_RECIPIENT (newest_first (rows_for recipientId rows)))
        in if staleIds = [] then rows
           else filter (\<lambda>n. \<not> (nt_recipientId n = recipientId \<and> nt_id n \<in> set staleIds)) rows)"

definition notificationFor :: "notify_dto \<Rightarrow> string \<Rightarrow> string \<Rightarrow> int \<Rightarrow> notification" where
  "notificationFor dto uid recipientId now = \<lparr>
     nt_id = uid, nt_type = nd_type dto, nt_docId = nd_docId dto, nt_recipientId = recipientId,
     nt_docTitle = nd_docTitle dto, nt_reason = nd_reason dto, nt_traceId = nd_traceId dto,
     nt_metadata = map_option sanitizeNotificationMetadata (nd_metadata dto),
     nt_createdAt = now, nt_read = False \<rparr>"

text \<open>
  The loop over the recipients. \<open>uid\<close> gives the identifier drawn for a recipient; the
  collection's unique index on it makes \<open>create\<close> fail on one already in use, which
  ends the request with what was stored so far.
\<close>

fun storeFor :: "notify_dto \<Rightarrow> (string \<Rightarrow> string) \<Rightarrow> int \<Rightarrow> string list \<Rightarrow> notification list \<Rightarrow>
  (unit, notification list) outcome" where
  "storeFor dto uid now [] rows = return () rows"
| "storeFor dto uid now (recipientId # rest) rows =
     (if uid recipientId \<in> set (map nt_id rows) then throw (JsError ''E11000 duplicate key error'') rows
      else storeFor dto uid now rest
             (pruneRecipient recipientId (rows @ [notificationFor dto (uid recipientId) recipientId now])))"

definition recipientsOf :: "notify_dto \<Rightarrow> string list" where
  "recipientsOf dto =
     unique (coalesce (nd_recipientIds dto) [] @
       (case nd_recipientId dto of None \<Rightarrow> [] | Some r \<Rightarrow> if truthy r then [r] else []))"

definition notify :: "mail_world \<Rightarrow> (string \<Rightarrow> string) \<Rightarrow> int \<Rightarrow> notify_dto \<Rightarrow> notifications \<Rightarrow>
  (string list, notifications) outcome" where
  "notify mw uid now dto s =
     (let recipients = recipientsOf dto
      in case storeFor dto uid now recipients (nf_rows s) of
           (Inl e, rows) \<Rightarrow> throw e (s\<lparr>nf_rows := rows\<rparr>)
         | (Inr _, rows) \<Rightarrow>
             (let s = s\<lparr>nf_rows := rows\<rparr>
              in return recipients
                   (if upper (show_notify_type (nd_type dto)) \<in> set (emailTriggerTypes (nf_env s))
                    then sendEmails mw now recipients dto s else s)))"

section \<open>Reading\<close>

record notification_page =
  np_records :: "notification list"
  np_total :: nat
  np_page :: int
  np_pages :: int

definition getForUser :: "string \<Rightarrow> int \<Rightarrow> int \<Rightarrow> notifications \<Rightarrow> notification_page" where
  "getForUser userId page limit s =
     (let safeL = min (max 1 limit) 100;
          safeP = max 1 page;
          skip = (safeP - 1) * safeL;
          mine = rows_for userId (nf_rows s)
      in \<lparr> np_records = take (nat safeL) (drop (nat skip) (newest_first mine)),
           np_total = length mine, np_page = safeP,
           np_pages = ceil_div (int (length mine)) safeL \<rparr>)"

definition getUnreadCount :: "string \<Rightarrow> notifications \<Rightarrow> nat" where
  "getUnreadCount userId s =
     length (filter (\<lambda>n. nt_recipientId n = userId \<and> \<not> nt_read n) (nf_rows s))"

definition markAsRead :: "string \<Rightarrow> notifications \<Rightarrow> bool \<times> notifications" where
  "markAsRead i s =
     (case find (\<lambda>n. nt_id n = i) (nf_rows s) of
        None \<Rightarrow> (False, s)
      | Some n \<Rightarrow> (\<not> nt_read n, s\<lparr>nf_rows := update_row nt_id i (\<lambda>n. n\<lparr>nt_read := True\<rparr>) (nf_rows s)\<rparr>))"

definition markAllRead :: "string \<Rightarrow> notifications \<Rightarrow> notifications" where
  "markAllRead userId s =
     s\<lparr>nf_rows := map (\<lambda>n. if nt_recipientId n = userId \<and> \<not> nt_read n then n\<lparr>nt_read := True\<rparr> else n)
       (nf_rows s)\<rparr>"

section \<open>The controller\<close>

text \<open>
  \<open>req.user\<close> is \<open>None\<close> where no guard has run. Every route but the unread count has
  the JWT guard.
\<close>

definition requestUser :: "service_user option \<Rightarrow> string" where
  "requestUser u = (case u of
     None \<Rightarrow> ''anonymous''
   | Some user \<Rightarrow> coalesce (or_else (u_sub user) (u_username user)) ''anonymous'')"

definition jwtGuarded :: "service_user option \<Rightarrow> (service_user \<Rightarrow> 's \<Rightarrow> ('a, 's) outcome) \<Rightarrow> 's \<Rightarrow> ('a, 's) outcome" where
  "jwtGuarded bearer handler s =
     (case bearer of None \<Rightarrow> throw (Unauthorized ''Unauthorized'') s | Some user \<Rightarrow> handler user s)"

definition notifyRoute :: "mail_world \<Rightarrow> (string \<Rightarrow> string) \<Rightarrow> int \<Rightarrow> service_user option \<Rightarrow> notify_dto \<Rightarrow>
  notifications \<Rightarrow> (string list, notifications) outcome" where
  "notifyRoute mw uid now bearer dto s = jwtGuarded bearer (\<lambda>_. notify mw uid now dto) s"

definition listRoute :: "service_user option \<Rightarrow> int option \<Rightarrow> int option \<Rightarrow> notifications \<Rightarrow>
  (notification_page, notifications) outcome" where
  "listRoute bearer page limit s = jwtGuarded bearer (\<lambda>user s.
     return (getForUser (requestUser (Some user)) (coalesce page 1) (coalesce limit 20) s) s) s"

definition unreadCountRoute :: "service_user option \<Rightarrow> notifications \<Rightarrow> (nat, notifications) outcome" where
  "unreadCountRoute bearer s = return (getUnreadCount (requestUser None) s) s"

definition markAsReadRoute :: "service_user option \<Rightarrow> string \<Rightarrow> notifications \<Rightarrow> (bool, notifications) outcome" where
  "markAsReadRoute bearer i s = jwtGuarded bearer (\<lambda>_ s. case markAsRead i s of (ok, s) \<Rightarrow> return ok s) s"

definition markAllReadRoute :: "service_user option \<Rightarrow> notifications \<Rightarrow> (bool, notifications) outcome" where
  "markAllReadRoute bearer s =
     jwtGuarded bearer (\<lambda>user s. return True (markAllRead (requestUser (Some user)) s)) s"

end
