(* ===== verification/Notification_Properties.thy ===== *)
theory Notification_Properties
  imports Notifications Sensitive_Properties
begin

text \<open>
  The notification service: a notification reaches the top of every recipient's
  inbox and of nobody else's, the inbox keeps the newest hundred, the pages cut the
  inbox without loss or repetition, no stored metadata names an excluded field, and
  the unread count answers for a user that does not exist.
\<close>

section \<open>Inboxes\<close>

definition inbox :: "string \<Rightarrow> notification list \<Rightarrow> notification list" where
  "inbox r rows = newest_first (rows_for r rows)"

lemma newest_first_filter: "newest_first (filter P rows) = filter P (newest_first rows)"
  by (simp add: newest_first_def rev_filter filter_sort)

lemma set_newest_first [simp]: "set (newest_first rows) = set rows"
  by (simp add: newest_first_def)

lemma length_newest_first [simp]: "length (newest_first rows) = length rows"
  by (simp add: newest_first_def)

lemma distinct_newest_first: "distinct (map f (newest_first rows)) = distinct (map f rows)"
  unfolding newest_first_def distinct_map
  by (simp add: distinct_sort)

lemma length_inbox: "length (inbox r rows) = length (rows_for r rows)"
  by (simp add: inbox_def)

lemma rows_for_filter: "rows_for r (filter P rows) = filter P (rows_for r rows)"
  by (simp add: rows_for_def conj_commute)

text \<open>A new row no older than the rest comes first.\<close>

lemma inbox_new:
  assumes "list_all (\<lambda>m. nt_createdAt m \<le> nt_createdAt n) rows"
  shows "inbox r (rows @ [n]) = (if nt_recipientId n = r then n # inbox r rows else inbox r rows)"
proof (cases "nt_recipientId n = r")
  case True
  have "\<forall>x \<in> set (rev (rows_for r rows)). - nt_createdAt n \<le> - nt_createdAt x"
    using assms by (auto simp: list_all_iff rows_for_def)
  then have "insort_key (\<lambda>n. - nt_createdAt n) n (sort_key (\<lambda>n. - nt_createdAt n) (rev (rows_for r rows)))
      = n # sort_key (\<lambda>n. - nt_createdAt n) (rev (rows_for r rows))"
    by (intro insort_is_Cons) simp
  then show ?thesis using True by (simp add: inbox_def newest_first_def rows_for_def)
next
  case False
  then show ?thesis by (simp add: inbox_def rows_for_def)
qed

lemma filter_ids_take:
  assumes "distinct (map nt_id xs)"
  shows "filter (\<lambda>n. nt_id n \<notin> nt_id ` set (drop k xs)) xs = take k xs"
proof -
  have "set (map nt_id (take k xs)) \<inter> set (map nt_id (drop k xs)) = {}"
    using assms by (metis append_take_drop_id distinct_append map_append)
  then have "filter (\<lambda>n. nt_id n \<notin> nt_id ` set (drop k xs)) (take k xs) = take k xs"
    by (auto simp: filter_id_conv)
  moreover have "filter (\<lambda>n. nt_id n \<notin> nt_id ` set (drop k xs)) (drop k xs) = []"
    by (simp add: filter_empty_conv)
  ultimately have "filter (\<lambda>n. nt_id n \<notin> nt_id ` set (drop k xs)) (take k xs @ drop k xs) = take k xs"
    by (simp only: filter_append append_Nil2)
  then show ?thesis by simp
qed

lemma prune_other: "r' \<noteq> r \<Longrightarrow> inbox r' (pruneRecipient r rows) = inbox r' rows"
  by (auto simp: inbox_def pruneRecipient_def Let_def rows_for_filter rows_for_def intro!: arg_cong [of _ _ newest_first] filter_cong)

lemma prune_own:
  assumes "distinct (map nt_id rows)"
  shows "inbox r (pruneRecipient r rows) = take MAX_PER_RECIPIENT (inbox r rows)"
proof (cases "length (rows_for r rows) \<le> MAX_PER_RECIPIENT")
  case True
  then show ?thesis by (simp add: pruneRecipient_def inbox_def)
next
  case False
  let ?xs = "inbox r rows" and ?k = MAX_PER_RECIPIENT
  have "drop ?k ?xs \<noteq> []" using False by (simp add: length_inbox)
  then have p: "pruneRecipient r rows
      = filter (\<lambda>n. \<not> (nt_recipientId n = r \<and> nt_id n \<in> set (map nt_id (drop ?k ?xs)))) rows"
    using False by (simp add: pruneRecipient_def Let_def inbox_def)
  have "rows_for r (pruneRecipient r rows) = filter (\<lambda>n. nt_id n \<notin> nt_id ` set (drop ?k ?xs)) (rows_for r rows)"
    unfolding p rows_for_filter by (auto simp: rows_for_def intro!: filter_cong)
  then have "inbox r (pruneRecipient r rows) = filter (\<lambda>n. nt_id n \<notin> nt_id ` set (drop ?k ?xs)) ?xs"
    by (simp add: inbox_def newest_first_filter)
  also have "\<dots> = take ?k ?xs"
    by (rule filter_ids_take) (use assms in \<open>simp add: inbox_def distinct_newest_first rows_for_def distinct_map_filter\<close>)
  finally show ?thesis .
qed

lemma prune_rows: "set (pruneRecipient r rows) \<subseteq> set rows" "distinct (map nt_id rows) \<Longrightarrow> distinct (map nt_id (pruneRecipient r rows))"
  by (auto simp: pruneRecipient_def Let_def distinct_map_filter)

lemma prune_list_all: "list_all P rows \<Longrightarrow> list_all P (pruneRecipient r rows)"
  using prune_rows(1) [of r rows] by (auto simp: list_all_iff)

section \<open>Delivery\<close>

definition rows_ok :: "int \<Rightarrow> notification list \<Rightarrow> bool" where
  "rows_ok now rows = (distinct (map nt_id rows) \<and> list_all (\<lambda>n. nt_createdAt n \<le> now) rows)"

lemma disjoint_insert_sub: "A \<subseteq> insert a B \<Longrightarrow> a \<notin> C \<Longrightarrow> C \<inter> B = {} \<Longrightarrow> C \<inter> A = {}"
  by blast

lemma storeFor_delivers:
  assumes "rows_ok now rows" "distinct rs" "inj_on uid (set rs)" "uid ` set rs \<inter> nt_id ` set rows = {}"
  shows "\<exists>rows'. storeFor dto uid now rs rows = (Inr (), rows') \<and> rows_ok now rows'
    \<and> (\<forall>r. inbox r rows' = (if r \<in> set rs
          then take MAX_PER_RECIPIENT (notificationFor dto (uid r) r now # inbox r rows) else inbox r rows))"
  using assms
proof (induction rs arbitrary: rows)
  case Nil
  then show ?case by (simp add: return_def)
next
  case (Cons r rs)
  let ?n = "notificationFor dto (uid r) r now"
  let ?rows = "pruneRecipient r (rows @ [?n])"
  have fresh: "uid r \<notin> set (map nt_id rows)" using Cons.prems(4) by auto
  have new: "nt_id ?n = uid r" "nt_recipientId ?n = r" "nt_createdAt ?n = now"
    by (simp_all add: notificationFor_def)
  have d: "distinct (map nt_id (rows @ [?n]))" using Cons.prems(1) fresh new by (auto simp: rows_ok_def)
  have ok: "rows_ok now ?rows"
    using Cons.prems(1) prune_rows(2) [OF d] new
    by (auto simp: rows_ok_def intro!: prune_list_all)
  have le: "list_all (\<lambda>m. nt_createdAt m \<le> nt_createdAt ?n) rows" using Cons.prems(1) new by (simp add: rows_ok_def)
  have box: "inbox r' ?rows = (if r' = r then take MAX_PER_RECIPIENT (?n # inbox r rows) else inbox r' rows)" for r'
    using prune_own [OF d, of r] prune_other [of r' r "rows @ [?n]"] inbox_new [OF le] new by auto
  have "set (map nt_id ?rows) \<subseteq> insert (uid r) (set (map nt_id rows))"
    using prune_rows(1) [of r "rows @ [?n]"] new by auto
  then have sub: "nt_id ` set ?rows \<subseteq> insert (uid r) (nt_id ` set rows)" by (simp only: set_map)
  have out: "uid r \<notin> uid ` set rs" using Cons.prems(2,3) by (auto simp: inj_on_def)
  have old: "uid ` set rs \<inter> nt_id ` set rows = {}" using Cons.prems(4) by auto
  have apart: "uid ` set rs \<inter> nt_id ` set ?rows = {}" by (rule disjoint_insert_sub [OF sub out old])
  have rs: "distinct rs" "inj_on uid (set rs)" using Cons.prems(2,3) by simp_all
  from Cons.IH [OF ok rs apart] obtain rows' where r': "storeFor dto uid now rs ?rows = (Inr (), rows')" "rows_ok now rows'"
      "\<forall>r. inbox r rows' = (if r \<in> set rs
          then take MAX_PER_RECIPIENT (notificationFor dto (uid r) r now # inbox r ?rows) else inbox r ?rows)"
    by (elim exE conjE, intro that) assumption+
  have "storeFor dto uid now (r # rs) rows = (Inr (), rows')" using fresh r'(1) by simp
  moreover have "inbox x rows' = (if x \<in> set (r # rs)
          then take MAX_PER_RECIPIENT (notificationFor dto (uid x) x now # inbox x rows) else inbox x rows)" for x
    using r'(3) box [of x] Cons.prems(2) by auto
  ultimately show ?case using r'(2) by blast
qed

lemma sendEmails_rows: "nf_rows (sendEmails mw now rs dto s) = nf_rows s"
proof -
  have step: "nf_rows (case resolveEmail mw now sub s of (None, s) \<Rightarrow> s
      | (Some email, s) \<Rightarrow> send_mail mw (mailFor dto email) s) = nf_rows s" for sub s
    by (auto simp: resolveEmail_def send_mail_def Let_def split: option.splits prod.splits if_splits)
  have "nf_rows (fold (\<lambda>sub s. case resolveEmail mw now sub s of (None, s) \<Rightarrow> s
      | (Some email, s) \<Rightarrow> send_mail mw (mailFor dto email) s) rs s) = nf_rows s"
    by (induction rs arbitrary: s) (simp_all add: step)
  then show ?thesis by (simp add: sendEmails_def)
qed

text \<open>
  C35: with fresh identifiers and a clock that has not gone back, a notification is
  stored for every recipient once, first in the inbox, of which the newest hundred
  stay; no other inbox changes, and no mail problem makes it fail.
\<close>

theorem notify_delivers:
  assumes "rows_ok now (nf_rows s)" "inj_on uid (set (recipientsOf dto))"
    and "uid ` set (recipientsOf dto) \<inter> nt_id ` set (nf_rows s) = {}"
  shows "\<exists>t. notify mw uid now dto s = (Inr (recipientsOf dto), t) \<and> rows_ok now (nf_rows t)
    \<and> (\<forall>r. inbox r (nf_rows t) = (if r \<in> set (recipientsOf dto)
          then take MAX_PER_RECIPIENT (notificationFor dto (uid r) r now # inbox r (nf_rows s))
          else inbox r (nf_rows s)))"
proof -
  obtain rows' where r: "storeFor dto uid now (recipientsOf dto) (nf_rows s) = (Inr (), rows')" "rows_ok now rows'"
    "\<forall>r. inbox r rows' = (if r \<in> set (recipientsOf dto)
          then take MAX_PER_RECIPIENT (notificationFor dto (uid r) r now # inbox r (nf_rows s)) else inbox r (nf_rows s))"
    using storeFor_delivers [OF assms(1) _ assms(2,3)] by (auto simp: recipientsOf_def)
  then show ?thesis by (auto simp: notify_def Let_def return_def sendEmails_rows)
qed

definition sample_notify :: notify_dto where
  "sample_notify = \<lparr> nd_type = N_REJECTED, nd_docId = ''d1'', nd_recipientId = Some ''bob'',
     nd_recipientIds = Some [''bob'', ''carol''], nd_docTitle = None, nd_reason = None, nd_traceId = None,
     nd_metadata = Some [(''version'', JNum 1), (''objectKey'', JStr ''doc/d1/v1/a'')] \<rparr>"

definition empty_notifications :: notifications where
  "empty_notifications = \<lparr> nf_env = Map.empty, nf_rows = [], nf_cache = Map.empty, nf_mails = [] \<rparr>"

definition silent_mail :: mail_world where
  "silent_mail = \<lparr> mw_lookup = (\<lambda>_. None), mw_accepts = (\<lambda>_. False) \<rparr>"

theorem notify_delivers_witness:
  "\<exists>t. notify silent_mail id 1000 sample_notify empty_notifications = (Inr [''bob'', ''carol''], t)
     \<and> map nt_docId (inbox ''carol'' (nf_rows t)) = [''d1''] \<and> inbox ''dave'' (nf_rows t) = []"
proof -
  have r: "recipientsOf sample_notify = [''bob'', ''carol'']" by code_simp
  have "rows_ok 1000 (nf_rows empty_notifications)"
    "id ` set (recipientsOf sample_notify) \<inter> nt_id ` set (nf_rows empty_notifications) = {}"
    by (simp_all add: rows_ok_def empty_notifications_def)
  from notify_delivers [OF this(1) inj_on_id this(2), of silent_mail]
  obtain t where t: "notify silent_mail id 1000 sample_notify empty_notifications = (Inr [''bob'', ''carol''], t)"
    "\<forall>x. inbox x (nf_rows t) = (if x \<in> set [''bob'', ''carol'']
       then take MAX_PER_RECIPIENT (notificationFor sample_notify x x 1000 # inbox x (nf_rows empty_notifications))
       else inbox x (nf_rows empty_notifications))"
    unfolding r by (auto simp: id_def)
  have e: "inbox x (nf_rows empty_notifications) = []" for x
    by (simp add: empty_notifications_def inbox_def rows_for_def newest_first_def)
  have "map nt_docId (take MAX_PER_RECIPIENT [notificationFor sample_notify x x 1000]) = [''d1'']" for x
    by (simp add: MAX_PER_RECIPIENT_def notificationFor_def sample_notify_def)
  then show ?thesis using t e by auto
qed

section \<open>Pages\<close>

lemma concat_slices: "concat (map (\<lambda>k. take n (drop (k * n) xs)) [0..<m]) = take (m * n) xs"
proof (induction m)
  case (Suc m)
  have "take (m * n) xs @ take n (drop (m * n) xs) = take (Suc m * n) xs"
    by (metis take_add add.commute mult_Suc)
  then show ?case using Suc by simp
qed simp

text \<open>
  the pages a user can ask for, put together, are the inbox: nothing is left out
  and nothing comes twice, whatever the page size.
\<close>

theorem pages_cover_inbox:
  "concat (map (\<lambda>k. np_records (getForUser u (int k + 1) limit s))
     [0..<nat (np_pages (getForUser u page limit s))]) = inbox u (nf_rows s)"
proof -
  define l where "l = min (max 1 limit) 100"
  have l: "0 < l" by (simp add: l_def)
  let ?m = "nat (ceil_div (int (length (rows_for u (nf_rows s)))) l)"
  have "np_records (getForUser u (int k + 1) limit s) = take (nat l) (drop (k * nat l) (inbox u (nf_rows s)))" for k
    using l by (simp add: getForUser_def Let_def inbox_def l_def [symmetric] nat_mult_distrib)
  then have "concat (map (\<lambda>k. np_records (getForUser u (int k + 1) limit s)) [0..<?m])
      = take (?m * nat l) (inbox u (nf_rows s))"
    by (simp add: concat_slices)
  moreover have "length (inbox u (nf_rows s)) \<le> ?m * nat l"
  proof -
    have "int (length (rows_for u (nf_rows s))) \<le> ceil_div (int (length (rows_for u (nf_rows s)))) l * l"
      using ceil_div_le_iff [OF l, of "int (length (rows_for u (nf_rows s)))" "ceil_div (int (length (rows_for u (nf_rows s)))) l"]
      by simp
    moreover have "0 \<le> ceil_div (int (length (rows_for u (nf_rows s)))) l"
      using ceil_div_less_iff [OF l, of "int (length (rows_for u (nf_rows s)))" 0] l
      by (smt (verit) of_nat_0_le_iff mult_less_0_iff)
    ultimately have "int (length (rows_for u (nf_rows s))) \<le> int ?m * int (nat l)" using l by simp
    then have "int (length (rows_for u (nf_rows s))) \<le> int (?m * nat l)" by (simp only: of_nat_mult)
    then show ?thesis by (simp only: length_inbox of_nat_le_iff)
  qed
  ultimately show ?thesis by (simp add: getForUser_def Let_def l_def)
qed

section \<open>Excluded fields and the unread count\<close>

lemma sanitize_same: "sanitizeNotificationValue j = sanitizeEvidencePacket j"
proof (induction j rule: sanitizeNotificationValue.induct)
  case (2 fs)
  have "filter (\<lambda>(k, _). k \<notin> set NOTIFICATION_SENSITIVE_FIELD_NAMES) fs
      = filter (\<lambda>(k, _). \<not> isExcludedEvidenceField k) fs"
    by (simp add: isExcludedEvidenceField_def NOTIFICATION_SENSITIVE_FIELD_NAMES_def
        EVIDENCE_PACKET_SENSITIVE_FIELD_NAMES_def)
  then show ?case using 2 by (auto simp: split_beta)
qed simp_all

lemma sanitize_metadata_free: "excluded_free (JObj (sanitizeNotificationMetadata fs))"
proof -
  have "JObj (sanitizeNotificationMetadata fs) = sanitizeEvidencePacket (JObj fs)"
    using sanitize_same [of "JObj fs"] by (simp add: sanitizeNotificationMetadata_def)
  then show ?thesis using sanitize_keys by (auto simp: excluded_free_def)
qed

text \<open>
  the unread count has no guard, so it never learns who asks: whoever asks,
  with whatever is unread, the answer is zero as long as nobody is called anonymous.
\<close>

theorem unread_count_is_blind:
  assumes "list_all (\<lambda>n. nt_recipientId n \<noteq> ''anonymous'') (nf_rows s)"
  shows "unreadCountRoute bearer s = (Inr 0, s)"
  using assms
  by (auto simp: unreadCountRoute_def getUnreadCount_def requestUser_def return_def list_all_iff filter_empty_conv)

theorem unread_count_is_blind_witness:
  "unreadCountRoute (Some \<lparr> u_sub = Some ''bob'', u_username = None, u_roles = None, u_groups = None \<rparr>)
     (empty_notifications\<lparr>nf_rows := [notificationFor sample_notify ''n1'' ''bob'' 1000]\<rparr>)
   = (Inr 0, empty_notifications\<lparr>nf_rows := [notificationFor sample_notify ''n1'' ''bob'' 1000]\<rparr>)"
  by (rule unread_count_is_blind) (simp add: notificationFor_def)

end
