(* ===== verification/Approval_Queue.thy ===== *)
theory Approval_Queue
  imports Workflow_Service
begin

text \<open>
  What the web client makes of pending documents: the service-level clock of the
  approval queue (\<open>apps/web/src/features/approvals/approval-sla.ts\<close>), the view of an
  approval chain (\<open>features/documents/approval-chain.ts\<close>) and the readiness check
  (\<open>features/documents/document-approval-readiness.ts\<close>). They are computed from the
  rows the metadata service sends; dates are milliseconds here, which the client
  parses from and prints to ISO text.
\<close>

section \<open>The service-level clock\<close>

datatype sla_state = On_track | Due_soon | Overdue

datatype assignment = Document_approver | Security_approver | Compliance_review | Records_review

record approval_sla =
  sla_state :: sla_state
  sla_label :: string
  sla_assignment :: assignment
  sla_queuedAt :: int
  sla_dueAt :: int
  sla_hours :: int
  sla_queuedHours :: int
  sla_hoursRemaining :: int

fun CLASSIFICATION_SLA_HOURS :: "classification \<Rightarrow> int" where
  "CLASSIFICATION_SLA_HOURS PUBLIC = 72"
| "CLASSIFICATION_SLA_HOURS INTERNAL = 48"
| "CLASSIFICATION_SLA_HOURS CONFIDENTIAL = 24"
| "CLASSIFICATION_SLA_HOURS SECRET = 8"

definition getSlaHours :: "document \<Rightarrow> int" where
  "getSlaHours d =
     (let base = CLASSIFICATION_SLA_HOURS (d_classification d)
      in if d_dlpStatus d = ''DETECTED'' then min base 12 else base)"

definition buildApprovalAssignment :: "document \<Rightarrow> assignment" where
  "buildApprovalAssignment d =
     (if d_dlpStatus d = ''DETECTED'' then Compliance_review
      else if \<not> truthy_opt (d_retentionClass d) \<or> d_retentionUntil d = None then Records_review
      else if d_classification d = CONFIDENTIAL \<or> d_classification d = SECRET then Security_approver
      else Document_approver)"

definition SLA_HOUR_MS :: int where
  "SLA_HOUR_MS = 3600000"

definition getStateLabel :: "sla_state \<Rightarrow> int \<Rightarrow> string" where
  "getStateLabel state hoursRemaining =
     (if state = Overdue then show_int \<bar>hoursRemaining\<bar> @ ''h overdue''
      else if state = Due_soon then show_int hoursRemaining @ ''h left''
      else ''On time'')"

definition buildApprovalSla :: "int \<Rightarrow> document \<Rightarrow> approval_sla" where
  "buildApprovalSla nowMs d =
     (let queuedMs = d_updatedAt d;
          slaHours = getSlaHours d;
          dueMs = queuedMs + slaHours * 60 * 60 * 1000;
          queuedHours = max 0 ((nowMs - queuedMs) div SLA_HOUR_MS);
          hoursRemaining = ceil_div (dueMs - nowMs) SLA_HOUR_MS;
          dueSoonThreshold = ceil_div slaHours 3;
          state = (if hoursRemaining \<le> 0 then Overdue
                   else if hoursRemaining \<le> dueSoonThreshold then Due_soon else On_track)
      in \<lparr> sla_state = state, sla_label = getStateLabel state hoursRemaining,
           sla_assignment = buildApprovalAssignment d, sla_queuedAt = queuedMs, sla_dueAt = dueMs,
           sla_hours = slaHours, sla_queuedHours = queuedHours, sla_hoursRemaining = hoursRemaining \<rparr>)"

section \<open>The queue\<close>

type_synonym sla_row = "document \<times> approval_sla"

record sla_summary =
  ss_total :: nat
  ss_overdue :: nat
  ss_dueSoon :: nat
  ss_onTrack :: nat
  ss_complianceReview :: nat

datatype sla_sort = By_priority | By_due_date | By_queued_time

fun stateRank :: "sla_state \<Rightarrow> int" where
  "stateRank Overdue = 3"
| "stateRank Due_soon = 2"
| "stateRank On_track = 1"

fun assignmentRank :: "assignment \<Rightarrow> int" where
  "assignmentRank Compliance_review = 4"
| "assignmentRank Security_approver = 3"
| "assignmentRank Records_review = 2"
| "assignmentRank Document_approver = 1"

definition compareRows :: "sla_row \<Rightarrow> sla_row \<Rightarrow> sla_sort \<Rightarrow> int" where
  "compareRows a b sortBy =
     (if sortBy = By_queued_time then sla_queuedAt (snd a) - sla_queuedAt (snd b)
      else if sortBy = By_due_date then sla_dueAt (snd a) - sla_dueAt (snd b)
      else let stateDelta = stateRank (sla_state (snd b)) - stateRank (sla_state (snd a)) in
        if stateDelta \<noteq> 0 then stateDelta
        else let assignmentDelta =
               assignmentRank (sla_assignment (snd b)) - assignmentRank (sla_assignment (snd a)) in
          if assignmentDelta \<noteq> 0 then assignmentDelta
          else sla_dueAt (snd a) - sla_dueAt (snd b))"

text \<open>\<open>xs.sort(cmp)\<close> is stable: an element goes before the first one it is not above.\<close>

fun insert_by :: "('a \<Rightarrow> 'a \<Rightarrow> int) \<Rightarrow> 'a \<Rightarrow> 'a list \<Rightarrow> 'a list" where
  "insert_by cmp x [] = [x]"
| "insert_by cmp x (y # ys) = (if cmp x y \<le> 0 then x # y # ys else y # insert_by cmp x ys)"

definition js_sort :: "('a \<Rightarrow> 'a \<Rightarrow> int) \<Rightarrow> 'a list \<Rightarrow> 'a list" where
  "js_sort cmp xs = foldr (insert_by cmp) xs []"

definition sla_count :: "sla_row \<Rightarrow> sla_summary \<Rightarrow> sla_summary" where
  "sla_count row acc = \<lparr>
     ss_total = ss_total acc + 1,
     ss_overdue = ss_overdue acc + (if sla_state (snd row) = Overdue then 1 else 0),
     ss_dueSoon = ss_dueSoon acc + (if sla_state (snd row) = Due_soon then 1 else 0),
     ss_onTrack = ss_onTrack acc + (if sla_state (snd row) = On_track then 1 else 0),
     ss_complianceReview = ss_complianceReview acc
       + (if sla_assignment (snd row) = Compliance_review then 1 else 0) \<rparr>"

definition buildApprovalQueueSlaModel :: "int \<Rightarrow> sla_state option \<Rightarrow> sla_sort \<Rightarrow> document list \<Rightarrow>
  sla_row list \<times> sla_summary" where
  "buildApprovalQueueSlaModel nowMs filterBy sortBy docs =
     (let allRows = map (\<lambda>d. (d, buildApprovalSla nowMs d)) docs;
          summary = fold sla_count allRows \<lparr> ss_total = 0, ss_overdue = 0, ss_dueSoon = 0, ss_onTrack = 0,
            ss_complianceReview = 0 \<rparr>
      in (js_sort (\<lambda>a b. compareRows a b sortBy)
            (filter (\<lambda>row. filterBy = None \<or> filterBy = Some (sla_state (snd row))) allRows), summary))"

section \<open>The approval chain\<close>

datatype step_state = Approved_step | Current_step | Pending_step

record chain_model =
  cm_configured :: bool
  cm_steps :: "(string \<times> nat \<times> step_state) list"
  cm_currentApproverId :: "string option"
  cm_totalSteps :: nat
  cm_approvedCount :: int

definition buildApprovalChainModel :: "document \<Rightarrow> chain_model" where
  "buildApprovalChainModel d =
     (let chain = d_approvalChain d; step = d_approvalStep d; published = (d_status d = PUBLISHED)
      in \<lparr> cm_configured = (0 < length chain),
           cm_steps = map (\<lambda>(approverId, index).
              (approverId, index + 1,
               if published \<or> int index < step then Approved_step
               else if int index = step then Current_step else Pending_step)) (zip chain [0..<length chain]),
           cm_currentApproverId = (if published then None else js_nth chain step),
           cm_totalSteps = length chain,
           cm_approvedCount = (if published then int (length chain) else min step (int (length chain))) \<rparr>)"

definition canEditApprovalChain :: "document \<Rightarrow> bool \<Rightarrow> bool" where
  "canEditApprovalChain d canManage = (canManage \<and> d_status d = PENDING)"

definition normalizeApprovalChainApprovers :: "string list \<Rightarrow> string list" where
  "normalizeApprovalChainApprovers values = filter truthy (map trim values)"

definition createApprovalChainDraft :: "string list \<Rightarrow> string list" where
  "createApprovalChainDraft approverIds =
     (let normalized = normalizeApprovalChainApprovers approverIds
      in if 0 < length normalized then normalized else [[]])"

definition hasDuplicateApprovalChainApprovers :: "string list \<Rightarrow> bool" where
  "hasDuplicateApprovalChainApprovers values =
     (let normalized = normalizeApprovalChainApprovers values
      in length (unique normalized) \<noteq> length normalized)"

definition updateApprovalChainApprover :: "string list \<Rightarrow> nat \<Rightarrow> string \<Rightarrow> string list" where
  "updateApprovalChainApprover values index approverId =
     map (\<lambda>(v, i). if i = index then approverId else v) (zip values [0..<length values])"

definition removeApprovalChainApprover :: "string list \<Rightarrow> nat \<Rightarrow> string list" where
  "removeApprovalChainApprover values index =
     map fst (filter (\<lambda>(_, i). i \<noteq> index) (zip values [0..<length values]))"

definition moveApprovalChainApprover :: "string list \<Rightarrow> int \<Rightarrow> int \<Rightarrow> string list" where
  "moveApprovalChainApprover values index direction =
     (let targetIndex = index + direction
      in if index < 0 \<or> int (length values) \<le> index \<or> targetIndex < 0 \<or> int (length values) \<le> targetIndex
         then values
         else values[nat index := values ! nat targetIndex, nat targetIndex := values ! nat index])"

section \<open>Readiness\<close>

datatype item_state = Complete | Warning | Blocked

datatype readiness = Ready | Needs_attention | Blocked_readiness

definition buildFileItem :: "document \<Rightarrow> doc_version list \<Rightarrow> item_state" where
  "buildFileItem d versionRows = (if 0 < d_currentVersion d \<or> 0 < length versionRows then Complete else Blocked)"

definition buildMetadataItem :: "document \<Rightarrow> item_state" where
  "buildMetadataItem d =
     (let hasTitle = truthy (trim (d_title d));
          hasDescription = (case d_description d of None \<Rightarrow> False | Some t \<Rightarrow> truthy (trim t))
      in if hasTitle \<and> hasDescription then Complete else if hasTitle then Warning else Blocked)"

definition buildTagsItem :: "document \<Rightarrow> item_state" where
  "buildTagsItem d = (if 0 < length (filter (\<lambda>tag. truthy (trim tag)) (d_tags d)) then Complete else Warning)"

definition buildDlpItem :: "document \<Rightarrow> item_state" where
  "buildDlpItem d =
     (if d_dlpStatus d = ''DETECTED'' then Warning
      else if d_dlpStatus d = ''CLEAR'' then Complete else Warning)"

definition buildRetentionItem :: "document \<Rightarrow> item_state" where
  "buildRetentionItem d =
     (if truthy_opt (d_retentionClass d) \<or> d_retentionUntil d \<noteq> None then Complete else Warning)"

definition buildSubmissionItem :: "document \<Rightarrow> item_state" where
  "buildSubmissionItem d =
     (if d_status d = PENDING then Complete
      else if d_status d = PUBLISHED then Complete
      else if d_status d = DRAFT then Warning else Complete)"

text \<open>Every row of the service has a classification, so that item is complete.\<close>

definition buildDocumentApprovalReadiness :: "document \<Rightarrow> doc_version list \<Rightarrow> readiness" where
  "buildDocumentApprovalReadiness d versionRows =
     (let items = [buildFileItem d versionRows, buildMetadataItem d, Complete, buildTagsItem d,
            buildDlpItem d, buildRetentionItem d, buildSubmissionItem d]
      in if list_ex (\<lambda>i. i = Blocked) items then Blocked_readiness
         else if list_ex (\<lambda>i. i = Warning) items then Needs_attention
         else Ready)"

end
