(* ===== verification/Approval_Queue_Properties.thy ===== *)
theory Approval_Queue_Properties
  imports Approval_Queue Web_Properties "HOL-Library.Multiset"
begin

text \<open>
  The approval queue of the client: the clock's states are exact, the queue is the
  filtered documents in order, and the chain view names the one approver whose
  approval the workflow service lets through.
\<close>

section \<open>Sorting by a comparison\<close>

text \<open>What \<open>Array.prototype.sort\<close> needs of a comparison to sort.\<close>

locale comparison =
  fixes cmp :: "'a \<Rightarrow> 'a \<Rightarrow> int"
  assumes total: "cmp x y \<le> 0 \<or> cmp y x \<le> 0"
    and trans: "cmp x y \<le> 0 \<Longrightarrow> cmp y z \<le> 0 \<Longrightarrow> cmp x z \<le> 0"
begin

lemma insert_set: "set (insert_by cmp x ys) = insert x (set ys)"
  by (induction ys) auto

lemma insert_mset: "mset (insert_by cmp x ys) = add_mset x (mset ys)"
  by (induction ys) auto

lemma insert_sorted:
  "sorted_wrt (\<lambda>a b. cmp a b \<le> 0) ys \<Longrightarrow> sorted_wrt (\<lambda>a b. cmp a b \<le> 0) (insert_by cmp x ys)"
proof (induction ys)
  case (Cons y ys)
  show ?case
  proof (cases "cmp x y \<le> 0")
    case True
    then show ?thesis using Cons.prems trans by auto
  next
    case False
    then have "cmp y x \<le> 0" using total by blast
    then show ?thesis using Cons False by (auto simp: insert_set)
  qed
qed simp

lemma sort_sorted: "sorted_wrt (\<lambda>a b. cmp a b \<le> 0) (js_sort cmp xs)"
  unfolding js_sort_def by (induction xs) (simp_all add: insert_sorted)

lemma sort_mset: "mset (js_sort cmp xs) = mset xs"
  unfolding js_sort_def by (induction xs) (simp_all add: insert_mset)

end

interpretation sla: comparison "\<lambda>a b. compareRows a b sortBy" for sortBy
  by unfold_locales (auto simp: compareRows_def Let_def split: if_splits)

section \<open>The clock\<close>

text \<open>
  a document is overdue exactly from its due time on, and due soon exactly in
  the last third of its hours, rounded up.
\<close>

theorem sla_states_exact:
  "(sla_state (buildApprovalSla now d) = Overdue) = (sla_dueAt (buildApprovalSla now d) \<le> now)
   \<and> (sla_state (buildApprovalSla now d) = Due_soon) =
      (now < sla_dueAt (buildApprovalSla now d)
       \<and> sla_dueAt (buildApprovalSla now d) - now \<le> ceil_div (getSlaHours d) 3 * SLA_HOUR_MS)
   \<and> sla_dueAt (buildApprovalSla now d) = d_updatedAt d + getSlaHours d * SLA_HOUR_MS"
  using ceil_div_le_iff [of SLA_HOUR_MS "d_updatedAt d + 3600000 * getSlaHours d - now" 0]
    ceil_div_le_iff [of SLA_HOUR_MS "d_updatedAt d + 3600000 * getSlaHours d - now" "ceil_div (getSlaHours d) 3"]
  by (simp add: buildApprovalSla_def Let_def SLA_HOUR_MS_def)

section \<open>The queue\<close>

lemma sla_counts:
  "ss_total (fold sla_count rows acc) = ss_total acc + length rows
   \<and> ss_overdue (fold sla_count rows acc) + ss_dueSoon (fold sla_count rows acc) + ss_onTrack (fold sla_count rows acc)
     = ss_overdue acc + ss_dueSoon acc + ss_onTrack acc + length rows"
proof (induction rows arbitrary: acc)
  case (Cons r rows)
  then show ?case by (cases "sla_state (snd r)") (simp_all add: sla_count_def)
qed simp

text \<open>
  the approval queue shows every document that passes the filter once, in the
  order asked for, and its summary counts every document in one of the three states.
\<close>

theorem approval_queue_exact:
  "mset (fst (buildApprovalQueueSlaModel now flt srt docs))
     = mset (filter (\<lambda>row. flt = None \<or> flt = Some (sla_state (snd row))) (map (\<lambda>d. (d, buildApprovalSla now d)) docs))
   \<and> sorted_wrt (\<lambda>a b. compareRows a b srt \<le> 0) (fst (buildApprovalQueueSlaModel now flt srt docs))
   \<and> ss_total (snd (buildApprovalQueueSlaModel now flt srt docs)) = length docs
   \<and> ss_overdue (snd (buildApprovalQueueSlaModel now flt srt docs))
      + ss_dueSoon (snd (buildApprovalQueueSlaModel now flt srt docs))
      + ss_onTrack (snd (buildApprovalQueueSlaModel now flt srt docs)) = length docs"
  using sla_counts [of "map (\<lambda>d. (d, buildApprovalSla now d)) docs"
      "\<lparr> ss_total = 0, ss_overdue = 0, ss_dueSoon = 0, ss_onTrack = 0, ss_complianceReview = 0 \<rparr>"]
  by (simp add: buildApprovalQueueSlaModel_def Let_def sla.sort_mset sla.sort_sorted)

section \<open>The chain view\<close>

lemma approve_outcome:
  fixes api :: "'s metadata_api"
  assumes "session_matches w u c" and "api_getDocument api i c s = (Inr d, t)"
  shows "succeeds (approve api i u c s) = (canApproveDocument (Some w) (context_of d v)
        \<and> approval_goes_through api i c d (hasRole (Some w) ''admin'') t)"
proof -
  have roles: "u_roles u = Some (ws_roles w)" "buildActorId u = ws_sub w"
    using assms(1) by (auto simp: session_matches_def)
  note simps = assms(2) roles Let_def role_simps context_of_def succeeds_andThen_total
  show ?thesis
    by (auto simp: approve_def canApproveDocument_def approval_goes_through_def approvePublish_def simps)
qed

text \<open>
  for a pending document with a chain, the approver the page names as current is
  the only one, administrators aside, whose approval the workflow service accepts,
  and for that one it does what the step asks: publish at the end, else advance.
\<close>

theorem chain_view_names_next_approver:
  fixes api :: "'s metadata_api"
  assumes "session_matches w u c" and "api_getDocument api i c s = (Inr d, t)"
    and "d_status d = PENDING" "d_approvalChain d \<noteq> []"
    and "''approver'' \<in> set (ws_roles w)" "''admin'' \<notin> set (ws_roles w)"
  shows "succeeds (approve api i u c s) =
    (cm_currentApproverId (buildApprovalChainModel d) = Some (c_actorId c)
     \<and> (if cm_approvedCount (buildApprovalChainModel d) < int (cm_totalSteps (buildApprovalChainModel d)) - 1
         then succeeds (api_advanceApprovalStep api i c t)
         else succeeds (api_updateStatus api i PUBLISHED APPROVE c None t)))"
proof -
  let ?m = "buildApprovalChainModel d"
  have can: "canApproveDocument (Some w) (context_of d v)" "\<not> hasRole (Some w) ''admin''" for v
    using assms(3,5,6) by (simp_all add: canApproveDocument_def role_simps context_of_def)
  have m: "cm_currentApproverId ?m = js_nth (d_approvalChain d) (d_approvalStep d)"
    "cm_totalSteps ?m = length (d_approvalChain d)"
    "cm_approvedCount ?m = min (d_approvalStep d) (int (length (d_approvalChain d)))"
    using assms(3) by (simp_all add: buildApprovalChainModel_def Let_def)
  show ?thesis
  proof (cases "js_nth (d_approvalChain d) (d_approvalStep d) = Some (c_actorId c)")
    case True
    then have "d_approvalStep d < int (length (d_approvalChain d))" by (simp add: js_nth_Some)
    then have "min (d_approvalStep d) (int (length (d_approvalChain d))) = d_approvalStep d" by simp
    then show ?thesis
      using True can assms(4) by (simp add: approve_outcome [OF assms(1,2), of sample_vault] approval_goes_through_def m)
  next
    case False
    then show ?thesis
      using can assms(4) by (simp add: approve_outcome [OF assms(1,2), of sample_vault] approval_goes_through_def m)
  qed
qed

theorem chain_view_names_next_approver_witness:
  "cm_currentApproverId (buildApprovalChainModel pending_document) = Some ''carol''
   \<and> succeeds (approve (vaultApi (sample_crypto JNull) 1000 (sample_user ''carol'' [''approver''])) ''d2''
       (sample_user ''carol'' [''approver'']) (sample_context ''carol'' [''approver'']) sample_vault)"
proof -
  let ?u = "sample_user ''carol'' [''approver'']" and ?c = "sample_context ''carol'' [''approver'']"
  let ?api = "vaultApi (sample_crypto JNull) 1000 ?u"
  let ?t = "snd (api_getDocument ?api ''d2'' ?c sample_vault)"
  have "session_matches carol_session ?u ?c" "fst (api_getDocument ?api ''d2'' ?c sample_vault) = Inr pending_document"
    "d_status pending_document = PENDING" "d_approvalChain pending_document \<noteq> []"
    "''approver'' \<in> set (ws_roles carol_session)" "''admin'' \<notin> set (ws_roles carol_session)"
    "cm_currentApproverId (buildApprovalChainModel pending_document) = Some ''carol''" "c_actorId ?c = ''carol''"
    "cm_approvedCount (buildApprovalChainModel pending_document) < int (cm_totalSteps (buildApprovalChainModel pending_document)) - 1"
    "succeeds (api_advanceApprovalStep ?api ''d2'' ?c ?t)"
    by code_simp+
  then show ?thesis
    using chain_view_names_next_approver [of carol_session ?u ?c ?api "''d2''" sample_vault pending_document ?t]
    by (metis prod.collapse)
qed

end
