(* ===== verification/Document_Filters.thy ===== *)
theory Document_Filters
  imports Approval_Queue Text_Scan
begin

text \<open>
  The document list of the web client
  (\<open>apps/web/src/features/documents/document-filter-model.ts\<close>): the query language of
  its search box, quick views, sorting, search suggestions, filter chips, and the
  filters kept in the address bar. \<open>lc\<close> is \<open>localeCompare\<close> at base sensitivity and
  \<open>dt\<close> the reading of a date text by \<open>new Date\<close>, both of the browser's library; the
  dates of the rows are milliseconds.
\<close>

section \<open>Rows and filters\<close>

record list_item =
  di_title :: string
  di_description :: "string option"
  di_status :: doc_status
  di_classification :: classification
  di_dlpStatus :: "string option"
  di_retentionClass :: "string option"
  di_retentionUntil :: "int option"
  di_retentionReason :: "string option"
  di_legalHold :: "bool option"
  di_ownerId :: string
  di_ownerDisplay :: "string option"
  di_currentVersion :: int
  di_filename :: "string option"
  di_mimeType :: "string option"
  di_fileSize :: "int option"
  di_tags :: "string list"
  di_createdAt :: int
  di_updatedAt :: int

datatype sort_field = Sort_updatedAt | Sort_createdAt | Sort_title | Sort_status | Sort_classification | Sort_ownerId

fun show_sort_field :: "sort_field \<Rightarrow> string" where
  "show_sort_field Sort_updatedAt = ''updatedAt''"
| "show_sort_field Sort_createdAt = ''createdAt''"
| "show_sort_field Sort_title = ''title''"
| "show_sort_field Sort_status = ''status''"
| "show_sort_field Sort_classification = ''classification''"
| "show_sort_field Sort_ownerId = ''ownerId''"

datatype sort_direction = Asc | Desc

fun show_direction :: "sort_direction \<Rightarrow> string" where
  "show_direction Asc = ''asc''"
| "show_direction Desc = ''desc''"

datatype quick_view = View_all | View_needs_action | View_drafts | View_pending_review | View_published | View_sensitive

fun show_view :: "quick_view \<Rightarrow> string" where
  "show_view View_all = ''all''"
| "show_view View_needs_action = ''needs-action''"
| "show_view View_drafts = ''drafts''"
| "show_view View_pending_review = ''pending-review''"
| "show_view View_published = ''published''"
| "show_view View_sensitive = ''sensitive''"

record filters_state =
  fs_view :: quick_view
  fs_search :: string
  fs_status :: "doc_status option"
  fs_classification :: "classification option"
  fs_folder :: string
  fs_ownerId :: string
  fs_tag :: string
  fs_sort :: sort_field
  fs_sortDir :: sort_direction

definition DEFAULT_DOCUMENT_FILTERS :: filters_state where
  "DEFAULT_DOCUMENT_FILTERS = \<lparr> fs_view = View_all, fs_search = [], fs_status = None, fs_classification = None,
     fs_folder = [], fs_ownerId = [], fs_tag = [], fs_sort = Sort_updatedAt, fs_sortDir = Desc \<rparr>"

definition DOCUMENT_STATUSES :: "doc_status list" where
  "DOCUMENT_STATUSES = [DRAFT, PENDING, PUBLISHED, ARCHIVED, DELETED]"

definition CLASSIFICATIONS :: "classification list" where
  "CLASSIFICATIONS = [PUBLIC, INTERNAL, CONFIDENTIAL, SECRET]"

definition SORT_FIELDS :: "sort_field list" where
  "SORT_FIELDS = [Sort_updatedAt, Sort_createdAt, Sort_title, Sort_status, Sort_classification, Sort_ownerId]"

text \<open>\<open>QUICK_VIEW_DEFINITIONS\<close>: the views with their labels.\<close>

definition QUICK_VIEW_DEFINITIONS :: "(quick_view \<times> string) list" where
  "QUICK_VIEW_DEFINITIONS = [(View_all, ''All''), (View_needs_action, ''Needs action''), (View_drafts, ''Drafts''),
     (View_pending_review, ''Pending review''), (View_published, ''Published''), (View_sensitive, ''Sensitive'')]"

section \<open>Text helpers\<close>

definition normalizeText :: "string option \<Rightarrow> string" where
  "normalizeText v = lower (trim (coalesce v []))"

definition normalizeEnumText :: "string option \<Rightarrow> string" where
  "normalizeEnumText v = filter (\<lambda>c. \<not> (c = CHR ''_'' \<or> js_space c \<or> c = CHR ''-'')) (normalizeText v)"

definition capitalize :: "string \<Rightarrow> string" where
  "capitalize part = (case part of [] \<Rightarrow> [] | c # cs \<Rightarrow> to_upper c # cs)"

definition formatEnum :: "string \<Rightarrow> string" where
  "formatEnum v = join_with '' '' (map capitalize (filter truthy (split_on (CHR ''_'') (lower v))))"

section \<open>The query language\<close>

text \<open>
  The token expression tries \<open>key:"value"\<close>, \<open>key:value\<close>, \<open>"value"\<close> and a run of
  other characters, in this order. A run of word characters before a colon is the
  longest one, and so is a run of characters that are not blank.
\<close>

definition quoted :: "string \<Rightarrow> (string \<times> string) option" where
  "quoted cs =
     (case cs of
        [] \<Rightarrow> None
      | c # r \<Rightarrow>
          if c = CHR 34 then
            (let v = takeWhile (\<lambda>x. x \<noteq> CHR 34) r; rest = dropWhile (\<lambda>x. x \<noteq> CHR 34) r
             in if v \<noteq> [] \<and> rest \<noteq> [] then Some (v, tl rest) else None)
          else None)"

definition bare :: "string \<Rightarrow> (string \<times> string) option" where
  "bare cs =
     (let v = takeWhile (\<lambda>c. \<not> js_space c) cs
      in if v = [] then None else Some (v, dropWhile (\<lambda>c. \<not> js_space c) cs))"

definition keyed :: "string \<Rightarrow> (string \<times> string) option" where
  "keyed cs =
     (let key = takeWhile word_char cs; rest = dropWhile word_char cs
      in if key \<noteq> [] \<and> rest \<noteq> [] \<and> hd rest = CHR '':'' then Some (key, tl rest) else None)"

definition unkeyed :: "string \<Rightarrow> ((string option \<times> string) \<times> string) option" where
  "unkeyed cs =
     (case quoted cs of
        Some (v, rest) \<Rightarrow> Some ((None, v), rest)
      | None \<Rightarrow> (case bare cs of None \<Rightarrow> None | Some (v, rest) \<Rightarrow> Some ((None, v), rest)))"

definition token_at :: "string \<Rightarrow> ((string option \<times> string) \<times> string) option" where
  "token_at cs =
     (case keyed cs of
        None \<Rightarrow> unkeyed cs
      | Some (key, r) \<Rightarrow>
          (case quoted r of
             Some (v, rest) \<Rightarrow> Some ((Some key, v), rest)
           | None \<Rightarrow>
               (case bare r of
                  Some (v, rest) \<Rightarrow> Some ((Some key, v), rest)
                | None \<Rightarrow> unkeyed cs)))"

lemma quoted_shorter: "quoted cs = Some (v, rest) \<Longrightarrow> length rest < length cs"
proof (cases cs)
  case (Cons c r)
  assume "quoted cs = Some (v, rest)"
  then have "rest = tl (dropWhile (\<lambda>x. x \<noteq> CHR 34) r)"
    using Cons by (simp add: quoted_def Let_def split: if_splits)
  then show ?thesis using Cons length_dropWhile_le [of "\<lambda>x. x \<noteq> CHR 34" r] by simp
qed (simp add: quoted_def)

lemma bare_shorter: "bare cs = Some (v, rest) \<Longrightarrow> length rest < length cs"
proof -
  assume "bare cs = Some (v, rest)"
  then have "takeWhile (\<lambda>c. \<not> js_space c) cs \<noteq> []" and r: "rest = dropWhile (\<lambda>c. \<not> js_space c) cs"
    by (auto simp: bare_def Let_def split: if_splits)
  then have "length (takeWhile (\<lambda>c. \<not> js_space c) cs) > 0" by simp
  moreover have "length (takeWhile (\<lambda>c. \<not> js_space c) cs) + length rest = length cs"
    unfolding r by (metis length_append takeWhile_dropWhile_id)
  ultimately show ?thesis by linarith
qed

lemma keyed_shorter: "keyed cs = Some (k, r) \<Longrightarrow> length r < length cs"
  using length_dropWhile_le [of word_char cs]
  by (cases "dropWhile word_char cs") (auto simp: keyed_def Let_def split: if_splits)

lemma unkeyed_shorter: "unkeyed cs = Some (t, rest) \<Longrightarrow> length rest < length cs"
  by (auto simp: unkeyed_def dest: quoted_shorter bare_shorter split: option.splits)

lemma token_shorter: "token_at cs = Some (t, rest) \<Longrightarrow> length rest < length cs"
proof (cases "keyed cs")
  case None
  assume "token_at cs = Some (t, rest)"
  then show ?thesis using None unkeyed_shorter by (simp add: token_at_def)
next
  case (Some kr)
  obtain k r where kr: "kr = (k, r)" by (cases kr)
  assume "token_at cs = Some (t, rest)"
  then have "length rest < length r \<or> unkeyed cs = Some (t, rest)"
    using Some kr quoted_shorter [of r] bare_shorter [of r] by (auto simp: token_at_def split: option.splits)
  then show ?thesis using keyed_shorter [of cs k r] unkeyed_shorter [of cs t rest] Some kr by auto
qed

text \<open>\<open>search.matchAll(tokenPattern)\<close>.\<close>

function tokens :: "string \<Rightarrow> (string option \<times> string) list" where
  "tokens cs =
     (if cs = [] then []
      else case token_at cs of
        None \<Rightarrow> tokens (tl cs)
      | Some (t, rest) \<Rightarrow> t # tokens rest)"
  by pat_completeness auto
termination tokens
  by (relation "measure length") (auto dest: token_shorter)

declare tokens.simps [simp del]

datatype date_field = Created_at | Updated_at | Retention_until

record date_range =
  dg_field :: date_field
  dg_from :: "int option"
  dg_to :: "int option"

record advanced_query =
  aq_freeText :: "string list"
  aq_status :: "string list"
  aq_classification :: "string list"
  aq_owner :: "string list"
  aq_tag :: "string list"
  aq_folder :: "string list"
  aq_file :: "string list"
  aq_presence :: "string list"
  aq_dlp :: "string list"
  aq_retention :: "string list"
  aq_dateRanges :: "date_range list"

definition empty_query :: advanced_query where
  "empty_query = \<lparr> aq_freeText = [], aq_status = [], aq_classification = [], aq_owner = [], aq_tag = [],
     aq_folder = [], aq_file = [], aq_presence = [], aq_dlp = [], aq_retention = [], aq_dateRanges = [] \<rparr>"

text \<open>\<open>/^\d{4}-\d{2}-\d{2}$/\<close>.\<close>

definition is_day :: "string \<Rightarrow> bool" where
  "is_day cs = (length cs = 10 \<and> list_all digit (take 4 cs) \<and> cs ! 4 = CHR ''-'' \<and> list_all digit (take 2 (drop 5 cs))
     \<and> cs ! 7 = CHR ''-'' \<and> list_all digit (drop 8 cs))"

definition parseDateBound :: "(string \<Rightarrow> int option) \<Rightarrow> string \<Rightarrow> bool \<Rightarrow> int option" where
  "parseDateBound dt v endOfDay =
     (let trimmed = trim v in
      if trimmed = [] then None
      else dt (if is_day trimmed
               then trimmed @ ''T'' @ (if endOfDay then ''23:59:59.999'' else ''00:00:00.000'') @ ''Z''
               else trimmed))"

text \<open>The two pieces of \<open>v.split('..', 2)\<close>.\<close>

fun before_dots :: "string \<Rightarrow> string" where
  "before_dots [] = []"
| "before_dots [c] = [c]"
| "before_dots (c # d # cs) = (if c = CHR ''.'' \<and> d = CHR ''.'' then [] else c # before_dots (d # cs))"

fun after_dots :: "string \<Rightarrow> string option" where
  "after_dots [] = None"
| "after_dots [c] = None"
| "after_dots (c # d # cs) = (if c = CHR ''.'' \<and> d = CHR ''.'' then Some (before_dots cs) else after_dots (d # cs))"

definition parseDateRangeQuery :: "(string \<Rightarrow> int option) \<Rightarrow> string \<Rightarrow> string \<Rightarrow> date_range option" where
  "parseDateRangeQuery dt key v =
     (let field = (if key = ''created'' then Created_at else if key = ''updated'' then Updated_at else Retention_until);
          trimmed = trim v
      in if trimmed = [] then None
         else let rawFrom = (if after_dots trimmed = None then trimmed else before_dots trimmed);
                  rawTo = coalesce (after_dots trimmed) trimmed;
                  from = (if truthy rawFrom then parseDateBound dt rawFrom False else None);
                  upto = (if truthy rawTo then parseDateBound dt rawTo True else None)
              in if from = None \<and> upto = None then None
                 else Some \<lparr> dg_field = field, dg_from = from, dg_to = upto \<rparr>)"

definition addToken :: "(string \<Rightarrow> int option) \<Rightarrow> string option \<times> string \<Rightarrow> advanced_query \<Rightarrow> advanced_query" where
  "addToken dt token q =
     (let rawValue = snd token; v = normalizeText (Some rawValue); key = normalizeText (fst token) in
      if v = [] then q
      else if key = ''status'' then q\<lparr>aq_status := aq_status q @ [v]\<rparr>
      else if key = ''class'' \<or> key = ''classification'' then q\<lparr>aq_classification := aq_classification q @ [v]\<rparr>
      else if key = ''owner'' then q\<lparr>aq_owner := aq_owner q @ [v]\<rparr>
      else if key = ''tag'' then q\<lparr>aq_tag := aq_tag q @ [v]\<rparr>
      else if key = ''folder'' then q\<lparr>aq_folder := aq_folder q @ [v]\<rparr>
      else if key = ''file'' \<or> key = ''filename'' then q\<lparr>aq_file := aq_file q @ [v]\<rparr>
      else if key = ''has'' then q\<lparr>aq_presence := aq_presence q @ [v]\<rparr>
      else if key = ''dlp'' then q\<lparr>aq_dlp := aq_dlp q @ [v]\<rparr>
      else if key = ''retention'' then q\<lparr>aq_retention := aq_retention q @ [v]\<rparr>
      else if key = ''created'' \<or> key = ''updated'' \<or> key = ''retentionuntil'' then
        (case parseDateRangeQuery dt key rawValue of
           None \<Rightarrow> q
         | Some dateRange \<Rightarrow> q\<lparr>aq_dateRanges := aq_dateRanges q @ [dateRange]\<rparr>)
      else q\<lparr>aq_freeText := aq_freeText q @ [v]\<rparr>)"

definition parseAdvancedDocumentQuery :: "(string \<Rightarrow> int option) \<Rightarrow> string \<Rightarrow> advanced_query" where
  "parseAdvancedDocumentQuery dt search = fold (addToken dt) (tokens search) empty_query"

section \<open>Matching\<close>

definition documentMatchesQuickView :: "list_item \<Rightarrow> quick_view \<Rightarrow> bool" where
  "documentMatchesQuickView d view =
     (case view of
        View_all \<Rightarrow> True
      | View_needs_action \<Rightarrow> di_status d = DRAFT \<or> di_status d = PENDING
      | View_drafts \<Rightarrow> di_status d = DRAFT
      | View_pending_review \<Rightarrow> di_status d = PENDING
      | View_published \<Rightarrow> di_status d = PUBLISHED
      | View_sensitive \<Rightarrow> di_classification d = CONFIDENTIAL \<or> di_classification d = SECRET
          \<or> di_dlpStatus d = Some ''DETECTED'')"

definition documentHasFile :: "list_item \<Rightarrow> bool" where
  "documentHasFile d = (truthy_opt (di_filename d) \<or> truthy_opt (di_mimeType d) \<or> di_fileSize d \<noteq> None
     \<or> 0 < di_currentVersion d)"

definition documentMatchesFreeText :: "list_item \<Rightarrow> string \<Rightarrow> bool" where
  "documentMatchesFreeText d query = list_ex (\<lambda>v. js_includes (normalizeText v) query)
     ([Some (di_title d), di_description d, di_filename d, Some (di_ownerId d), di_ownerDisplay d,
       Some (show_status (di_status d)), Some (show_classification (di_classification d))] @ map Some (di_tags d))"

definition matchesPresenceOperator :: "list_item \<Rightarrow> string \<Rightarrow> bool" where
  "matchesPresenceOperator d operator =
     (let normalized = normalizeEnumText (Some operator) in
      if normalized = ''file'' \<or> normalized = ''files'' then documentHasFile d
      else if normalized = ''retention'' then truthy_opt (di_retentionClass d) \<or> di_retentionUntil d \<noteq> None
      else if normalized = ''dlp'' then di_dlpStatus d = Some ''DETECTED''
      else False)"

definition matchesDlpOperator :: "list_item \<Rightarrow> string \<Rightarrow> bool" where
  "matchesDlpOperator d operator =
     (let normalized = normalizeEnumText (Some operator) in
      if normalized = ''detected'' then di_dlpStatus d = Some ''DETECTED''
      else if normalized = ''clear'' then di_dlpStatus d = Some ''CLEAR''
      else if normalized = ''notscanned'' then \<not> truthy_opt (di_dlpStatus d) \<or> di_dlpStatus d = Some ''NOT_SCANNED''
      else js_includes (normalizeEnumText (di_dlpStatus d)) normalized)"

definition matchesRetentionOperator :: "int \<Rightarrow> list_item \<Rightarrow> string \<Rightarrow> bool" where
  "matchesRetentionOperator now d operator =
     (let normalized = normalizeEnumText (Some operator);
          dueSoonLimit = now + 30 * 24 * 60 * 60 * 1000
      in if normalized = ''unset'' then \<not> truthy_opt (di_retentionClass d) \<and> di_retentionUntil d = None
         else if normalized = ''overdue'' then (case di_retentionUntil d of None \<Rightarrow> False | Some t \<Rightarrow> t < now)
         else if normalized = ''duesoon''
         then (case di_retentionUntil d of None \<Rightarrow> False | Some t \<Rightarrow> now \<le> t \<and> t \<le> dueSoonLimit)
         else if normalized = ''active'' then (case di_retentionUntil d of None \<Rightarrow> False | Some t \<Rightarrow> dueSoonLimit < t)
         else if normalized = ''archived'' then di_status d = ARCHIVED
         else list_ex (\<lambda>v. js_includes (normalizeText v) (normalizeText (Some operator)))
                [di_retentionClass d, di_retentionReason d])"

definition date_of_field :: "list_item \<Rightarrow> date_field \<Rightarrow> int option" where
  "date_of_field d field =
     (case field of
        Created_at \<Rightarrow> Some (di_createdAt d)
      | Updated_at \<Rightarrow> Some (di_updatedAt d)
      | Retention_until \<Rightarrow> di_retentionUntil d)"

definition matchesDateRange :: "int option \<Rightarrow> date_range \<Rightarrow> bool" where
  "matchesDateRange v r =
     (case v of
        None \<Rightarrow> False
      | Some time \<Rightarrow>
          (case dg_from r of None \<Rightarrow> True | Some a \<Rightarrow> \<not> time < a)
          \<and> (case dg_to r of None \<Rightarrow> True | Some b \<Rightarrow> \<not> b < time))"

definition documentMatchesAdvancedQuery :: "int \<Rightarrow> list_item \<Rightarrow> advanced_query \<Rightarrow> bool" where
  "documentMatchesAdvancedQuery now d q =
     (list_all (documentMatchesFreeText d) (aq_freeText q)
      \<and> list_all (\<lambda>term. js_includes (normalizeEnumText (Some (show_status (di_status d)))) (normalizeEnumText (Some term)))
          (aq_status q)
      \<and> list_all (\<lambda>term. js_includes (normalizeEnumText (Some (show_classification (di_classification d))))
          (normalizeEnumText (Some term))) (aq_classification q)
      \<and> list_all (\<lambda>term. list_ex (\<lambda>v. js_includes (normalizeText v) term) [Some (di_ownerId d), di_ownerDisplay d])
          (aq_owner q)
      \<and> list_all (\<lambda>term. list_ex (\<lambda>tag. js_includes (normalizeText (Some tag)) term) (di_tags d)) (aq_tag q)
      \<and> list_all (\<lambda>term. list_ex (\<lambda>tag. js_includes (normalizeText (Some tag)) term) (di_tags d)) (aq_folder q)
      \<and> list_all (\<lambda>term. js_includes (normalizeText (di_filename d)) term) (aq_file q)
      \<and> list_all (matchesPresenceOperator d) (aq_presence q)
      \<and> list_all (matchesDlpOperator d) (aq_dlp q)
      \<and> list_all (matchesRetentionOperator now d) (aq_retention q)
      \<and> list_all (\<lambda>range. matchesDateRange (date_of_field d (dg_field range)) range) (aq_dateRanges q))"

text \<open>\<open>documentMatchesFolder\<close> of \<open>folder-tree.ts\<close>.\<close>

definition documentMatchesFolder :: "string list \<Rightarrow> string \<Rightarrow> bool" where
  "documentMatchesFolder tags folder =
     (\<not> truthy folder \<or> list_ex (\<lambda>tag. tag = folder \<or> starts_with tag (folder @ ''/'')) tags)"

section \<open>The list\<close>

definition compareField :: "(string \<Rightarrow> string \<Rightarrow> int) \<Rightarrow> list_item \<Rightarrow> list_item \<Rightarrow> sort_field \<Rightarrow> int" where
  "compareField lc l r field =
     (case field of
        Sort_updatedAt \<Rightarrow> di_updatedAt l - di_updatedAt r
      | Sort_createdAt \<Rightarrow> di_createdAt l - di_createdAt r
      | Sort_ownerId \<Rightarrow> lc (coalesce (di_ownerDisplay l) (di_ownerId l)) (coalesce (di_ownerDisplay r) (di_ownerId r))
      | Sort_title \<Rightarrow> lc (di_title l) (di_title r)
      | Sort_status \<Rightarrow> lc (show_status (di_status l)) (show_status (di_status r))
      | Sort_classification \<Rightarrow>
          lc (show_classification (di_classification l)) (show_classification (di_classification r)))"

definition compareDocuments :: "(string \<Rightarrow> string \<Rightarrow> int) \<Rightarrow> filters_state \<Rightarrow> list_item \<Rightarrow> list_item \<Rightarrow> int" where
  "compareDocuments lc filters l r =
     (let direction = (if fs_sortDir filters = Asc then 1 else -1);
          primary = compareField lc l r (fs_sort filters) * direction
      in if primary \<noteq> 0 then primary else lc (di_title l) (di_title r))"

definition listed :: "(string \<Rightarrow> int option) \<Rightarrow> int \<Rightarrow> filters_state \<Rightarrow> list_item \<Rightarrow> bool" where
  "listed dt now filters d =
     (if \<not> documentMatchesQuickView d (fs_view filters) then False
      else if \<not> documentMatchesAdvancedQuery now d (parseAdvancedDocumentQuery dt (fs_search filters)) then False
      else if fs_status filters \<noteq> None \<and> fs_status filters \<noteq> Some (di_status d) then False
      else if fs_classification filters \<noteq> None \<and> fs_classification filters \<noteq> Some (di_classification d) then False
      else if truthy (fs_folder filters) \<and> \<not> documentMatchesFolder (di_tags d) (fs_folder filters) then False
      else if truthy (fs_ownerId filters) \<and> di_ownerId d \<noteq> fs_ownerId filters then False
      else if truthy (fs_tag filters) \<and> fs_tag filters \<notin> set (di_tags d) then False
      else True)"

definition filterAndSortDocuments :: "(string \<Rightarrow> string \<Rightarrow> int) \<Rightarrow> (string \<Rightarrow> int option) \<Rightarrow> int \<Rightarrow>
  list_item list \<Rightarrow> filters_state \<Rightarrow> list_item list" where
  "filterAndSortDocuments lc dt now docs filters =
     js_sort (compareDocuments lc filters) (filter (listed dt now filters) docs)"

definition buildDocumentQuickViewOptions :: "list_item list \<Rightarrow> (quick_view \<times> string \<times> nat) list" where
  "buildDocumentQuickViewOptions docs = map (\<lambda>(view, label).
     (view, label, length (filter (\<lambda>d. documentMatchesQuickView d view) docs))) QUICK_VIEW_DEFINITIONS"

section \<open>Options\<close>

record filter_options =
  fo_owners :: "(string \<times> string) list"
  fo_tags :: "string list"
  fo_folders :: "(string \<times> string \<times> nat) list"

definition addOwner :: "list_item \<Rightarrow> (string \<times> string) list \<Rightarrow> (string \<times> string) list" where
  "addOwner d owners =
     (if truthy (di_ownerId d) \<and> map_of owners (di_ownerId d) = None
      then owners @ [(di_ownerId d, coalesce (di_ownerDisplay d) (di_ownerId d))] else owners)"

fun count_key :: "string \<Rightarrow> (string \<times> nat) list \<Rightarrow> (string \<times> nat) list" where
  "count_key k [] = [(k, 1)]"
| "count_key k ((k', n) # rest) = (if k' = k then (k', n + 1) # rest else (k', n) # count_key k rest)"

definition buildDocumentFilterOptions :: "(string \<Rightarrow> string \<Rightarrow> int) \<Rightarrow> list_item list \<Rightarrow> filter_options" where
  "buildDocumentFilterOptions lc docs =
     (let normalized = filter truthy (map trim (concat (map di_tags docs)));
          folderCounts = fold count_key normalized []
      in \<lparr> fo_owners = fold addOwner docs [],
           fo_tags = js_sort lc (unique normalized),
           fo_folders = js_sort (\<lambda>l r. lc (fst (snd l)) (fst (snd r)))
             (map (\<lambda>(v, n). (v, formatEnum v, n)) folderCounts) \<rparr>)"

section \<open>Suggestions\<close>

datatype suggestion_kind = By_status | By_classification | By_tag | By_file | By_owner | By_presence | By_dlp | By_retention

record suggestion =
  sg_token :: string
  sg_description :: string
  sg_kind :: suggestion_kind

definition quoteQueryTokenValue :: "string \<Rightarrow> string" where
  "quoteQueryTokenValue v =
     (if list_ex js_space v
      then [CHR 34] @ concat (map (\<lambda>c. if c = CHR 34 then [CHR 92, CHR 34] else [c]) v) @ [CHR 34] else v)"

definition findFirstTag :: "list_item list \<Rightarrow> string option \<Rightarrow> string option" where
  "findFirstTag docs preferred =
     find (\<lambda>t. t \<noteq> [] \<and> (\<not> truthy_opt preferred \<or> Some (lower t) = preferred)) (map trim (concat (map di_tags docs)))"

definition suggest :: "bool \<Rightarrow> string \<Rightarrow> string \<Rightarrow> suggestion_kind \<Rightarrow> suggestion list" where
  "suggest b token description k =
     (if b then [\<lparr> sg_token = token, sg_description = description, sg_kind = k \<rparr>] else [])"

definition uniqueSearchSuggestions :: "suggestion list \<Rightarrow> suggestion list" where
  "uniqueSearchSuggestions xs = fold (\<lambda>s acc.
     if lower (sg_token s) \<in> lower ` sg_token ` set acc then acc else acc @ [s]) xs []"

definition buildDocumentSearchSuggestions :: "int \<Rightarrow> list_item list \<Rightarrow> suggestion list" where
  "buildDocumentSearchSuggestions now docs =
     (let preferredTag = or_else (findFirstTag docs (Some ''security'')) (findFirstTag docs None);
          fileDocument = find (\<lambda>d. truthy_opt (di_filename d)) docs;
          ownerDocument = find (\<lambda>d. truthy_opt (di_ownerDisplay d) \<or> truthy (di_ownerId d)) docs;
          ownerLabel = map_option (\<lambda>d. coalesce (di_ownerDisplay d) (di_ownerId d)) ownerDocument
      in take 8 (uniqueSearchSuggestions (
          suggest (list_ex (\<lambda>d. di_status d = PENDING) docs) ''status:pending'' ''Pending review queue'' By_status
        @ suggest (list_ex (\<lambda>d. di_classification d = CONFIDENTIAL) docs)
            ''class:confidential'' ''Confidential library'' By_classification
        @ (case preferredTag of None \<Rightarrow> [] | Some tag \<Rightarrow>
            suggest (truthy tag) (''tag:'' @ quoteQueryTokenValue tag) (formatEnum tag @ '' folder'') By_tag)
        @ (case fileDocument of None \<Rightarrow> [] | Some d \<Rightarrow>
            suggest (truthy_opt (di_filename d)) (''file:'' @ quoteQueryTokenValue (coalesce (di_filename d) []))
              ''Latest file lookup'' By_file)
        @ suggest (list_ex documentHasFile docs) ''has:file'' ''Documents with uploaded files'' By_presence
        @ suggest (list_ex (\<lambda>d. di_legalHold d = Some True) docs) ''has:legal-hold'' ''Documents under legal hold'' By_presence
        @ suggest (list_ex (\<lambda>d. di_dlpStatus d = Some ''DETECTED'') docs) ''dlp:detected'' ''DLP-detected documents'' By_dlp
        @ suggest (list_ex (\<lambda>d. matchesRetentionOperator now d ''due-soon'') docs)
            ''retention:due-soon'' ''Retention deadlines due soon'' By_retention
        @ (case ownerLabel of None \<Rightarrow> [] | Some label \<Rightarrow>
            suggest (truthy label) (''owner:'' @ quoteQueryTokenValue label) ''Owner handoff'' By_owner))))"

section \<open>The address bar\<close>

text \<open>The query parameters as an association list; \<open>get\<close> reads the first of a name.\<close>

definition serializeDocumentFiltersToSearchParams :: "filters_state \<Rightarrow> (string \<times> string) list" where
  "serializeDocumentFiltersToSearchParams f =
     (let search = trim (fs_search f) in
      (if truthy search then [(''q'', search)] else [])
      @ (if fs_view f \<noteq> fs_view DEFAULT_DOCUMENT_FILTERS then [(''view'', show_view (fs_view f))] else [])
      @ (case fs_status f of None \<Rightarrow> [] | Some st \<Rightarrow> [(''status'', show_status st)])
      @ (case fs_classification f of None \<Rightarrow> [] | Some c \<Rightarrow> [(''classification'', show_classification c)])
      @ (if truthy (fs_folder f) then [(''folder'', fs_folder f)] else [])
      @ (if truthy (fs_ownerId f) then [(''owner'', fs_ownerId f)] else [])
      @ (if truthy (fs_tag f) then [(''tag'', fs_tag f)] else [])
      @ (if fs_sort f \<noteq> fs_sort DEFAULT_DOCUMENT_FILTERS then [(''sort'', show_sort_field (fs_sort f))] else [])
      @ (if fs_sortDir f \<noteq> fs_sortDir DEFAULT_DOCUMENT_FILTERS then [(''dir'', show_direction (fs_sortDir f))] else []))"

definition named :: "('a \<Rightarrow> string) \<Rightarrow> 'a list \<Rightarrow> string option \<Rightarrow> 'a option" where
  "named sh xs v = find (\<lambda>x. Some (sh x) = v) xs"

definition parseDocumentFiltersFromSearchParams :: "(string \<times> string) list \<Rightarrow> filters_state" where
  "parseDocumentFiltersFromSearchParams params = \<lparr>
     fs_view = coalesce (named show_view (map fst QUICK_VIEW_DEFINITIONS) (map_of params ''view''))
       (fs_view DEFAULT_DOCUMENT_FILTERS),
     fs_search = coalesce (map_of params ''q'') [],
     fs_status = named show_status DOCUMENT_STATUSES (map_of params ''status''),
     fs_classification = named show_classification CLASSIFICATIONS (map_of params ''classification''),
     fs_folder = coalesce (map_of params ''folder'') [],
     fs_ownerId = coalesce (map_of params ''owner'') [],
     fs_tag = coalesce (map_of params ''tag'') [],
     fs_sort = coalesce (named show_sort_field SORT_FIELDS (map_of params ''sort'')) (fs_sort DEFAULT_DOCUMENT_FILTERS),
     fs_sortDir = coalesce (named show_direction [Asc, Desc] (map_of params ''dir'')) Desc \<rparr>"

section \<open>Chips\<close>

datatype filter_key = K_view | K_search | K_status | K_classification | K_folder | K_ownerId | K_tag | K_sort | K_sortDir

definition findOwnerLabel :: "string \<Rightarrow> filter_options \<Rightarrow> string" where
  "findOwnerLabel ownerId options = coalesce (map_option snd (find (\<lambda>x. fst x = ownerId) (fo_owners options))) ownerId"

definition findFolderLabel :: "string \<Rightarrow> filter_options \<Rightarrow> string" where
  "findFolderLabel folder options =
     coalesce (map_option (\<lambda>x. fst (snd x)) (find (\<lambda>x. fst x = folder) (fo_folders options))) (formatEnum folder)"

definition findQuickViewLabel :: "quick_view \<Rightarrow> string" where
  "findQuickViewLabel view = coalesce (map_of QUICK_VIEW_DEFINITIONS view) (formatEnum (show_view view))"

definition getActiveDocumentFilterChips :: "filters_state \<Rightarrow> filter_options \<Rightarrow> (filter_key \<times> string) list" where
  "getActiveDocumentFilterChips f options =
     (if fs_view f \<noteq> View_all then [(K_view, ''View: '' @ findQuickViewLabel (fs_view f))] else [])
     @ (if truthy (trim (fs_search f)) then [(K_search, ''Search: '' @ trim (fs_search f))] else [])
     @ (case fs_status f of None \<Rightarrow> [] | Some st \<Rightarrow> [(K_status, ''Status: '' @ formatEnum (show_status st))])
     @ (case fs_classification f of None \<Rightarrow> []
          | Some c \<Rightarrow> [(K_classification, ''Classification: '' @ formatEnum (show_classification c))])
     @ (if truthy (fs_folder f) then [(K_folder, ''Folder: '' @ findFolderLabel (fs_folder f) options)] else [])
     @ (if truthy (fs_ownerId f) then [(K_ownerId, ''Owner: '' @ findOwnerLabel (fs_ownerId f) options)] else [])
     @ (if truthy (fs_tag f) then [(K_tag, ''Tag: '' @ fs_tag f)] else [])"

definition countActiveDocumentFilters :: "filters_state \<Rightarrow> nat" where
  "countActiveDocumentFilters f =
     length (getActiveDocumentFilterChips f \<lparr> fo_owners = [], fo_tags = [], fo_folders = [] \<rparr>)"

definition describeActiveDocumentFilters :: "filters_state \<Rightarrow> filter_options \<Rightarrow> string" where
  "describeActiveDocumentFilters f options =
     (let chips = getActiveDocumentFilterChips f options in
      if length chips = 0 then ''No documents are available yet.''
      else ''No documents match '' @ join_with '', '' (map snd chips) @ ''.'')"

definition clearDocumentFilter :: "filters_state \<Rightarrow> filter_key \<Rightarrow> filters_state" where
  "clearDocumentFilter f key =
     (case key of
        K_sort \<Rightarrow> f\<lparr>fs_sort := fs_sort DEFAULT_DOCUMENT_FILTERS\<rparr>
      | K_sortDir \<Rightarrow> f\<lparr>fs_sortDir := fs_sortDir DEFAULT_DOCUMENT_FILTERS\<rparr>
      | K_view \<Rightarrow> f\<lparr>fs_view := fs_view DEFAULT_DOCUMENT_FILTERS\<rparr>
      | K_search \<Rightarrow> f\<lparr>fs_search := fs_search DEFAULT_DOCUMENT_FILTERS\<rparr>
      | K_status \<Rightarrow> f\<lparr>fs_status := fs_status DEFAULT_DOCUMENT_FILTERS\<rparr>
      | K_classification \<Rightarrow> f\<lparr>fs_classification := fs_classification DEFAULT_DOCUMENT_FILTERS\<rparr>
      | K_folder \<Rightarrow> f\<lparr>fs_folder := fs_folder DEFAULT_DOCUMENT_FILTERS\<rparr>
      | K_ownerId \<Rightarrow> f\<lparr>fs_ownerId := fs_ownerId DEFAULT_DOCUMENT_FILTERS\<rparr>
      | K_tag \<Rightarrow> f\<lparr>fs_tag := fs_tag DEFAULT_DOCUMENT_FILTERS\<rparr>)"

end
