(* ===== verification/Filter_Properties.thy ===== *)
theory Filter_Properties
  imports Document_Filters Approval_Queue_Properties
begin

text \<open>
  The document list of the client: the address bar keeps the filters, the list is
  the matching rows in order, and a search suggestion finds what it promises, the one
  for legal holds excepted.
\<close>

section \<open>The address bar\<close>

lemma named_statuses [simp]: "named show_status DOCUMENT_STATUSES (Some (show_status st)) = Some st"
  by (cases st) (simp_all add: named_def DOCUMENT_STATUSES_def)

lemma named_classifications [simp]:
  "named show_classification CLASSIFICATIONS (Some (show_classification c)) = Some c"
  by (cases c) (simp_all add: named_def CLASSIFICATIONS_def)

lemma named_sort_fields [simp]: "named show_sort_field SORT_FIELDS (Some (show_sort_field x)) = Some x"
  by (cases x) (simp_all add: named_def SORT_FIELDS_def)

lemma named_directions [simp]: "named show_direction [Asc, Desc] (Some (show_direction x)) = Some x"
  by (cases x) (simp_all add: named_def)

lemma named_views [simp]: "named show_view (map fst QUICK_VIEW_DEFINITIONS) (Some (show_view v)) = Some v"
  by (cases v) (simp_all add: named_def QUICK_VIEW_DEFINITIONS_def)

lemma named_None [simp]: "named sh xs None = None"
  by (simp add: named_def find_None_iff)

lemma map_of_if: "map_of (if b then xs else []) k = (if b then map_of xs k else None)"
  by simp

lemma map_of_opt: "map_of (case v of None \<Rightarrow> [] | Some x \<Rightarrow> [(k', h x)]) k = (if k = k' then map_option h v else None)"
  by (cases v) simp_all

lemma map_of_app: "map_of (xs @ ys) k = or_else (map_of xs k) (map_of ys k)"
  by (simp add: map_add_def or_else_def split: option.splits)

lemmas address_simps = map_of_if map_of_opt map_of_app

lemma coalesce_if: "coalesce (if b then Some x else None) y = (if b then x else y)"
  by simp

definition params_of :: "filters_state \<Rightarrow> string \<Rightarrow> string option" where
  "params_of f = map_of (serializeDocumentFiltersToSearchParams f)"

lemma params_of_text:
  "coalesce (params_of f ''q'') [] = trim (fs_search f)" "coalesce (params_of f ''folder'') [] = fs_folder f"
  "coalesce (params_of f ''owner'') [] = fs_ownerId f" "coalesce (params_of f ''tag'') [] = fs_tag f"
  by (simp_all add: params_of_def serializeDocumentFiltersToSearchParams_def Let_def address_simps truthy_def del: map_of_append)

lemma params_of_enums:
  "params_of f ''status'' = map_option show_status (fs_status f)"
  "params_of f ''classification'' = map_option show_classification (fs_classification f)"
  "params_of f ''view'' = (if fs_view f = View_all then None else Some (show_view (fs_view f)))"
  "params_of f ''sort'' = (if fs_sort f = Sort_updatedAt then None else Some (show_sort_field (fs_sort f)))"
  "params_of f ''dir'' = (if fs_sortDir f = Desc then None else Some (show_direction (fs_sortDir f)))"
  by (simp_all add: params_of_def serializeDocumentFiltersToSearchParams_def Let_def address_simps
      DEFAULT_DOCUMENT_FILTERS_def del: map_of_append)

text \<open>
  the filters written to the address bar are the filters read back from it, the
  search text without the blanks around it.
\<close>

theorem filters_survive_the_address_bar:
  "parseDocumentFiltersFromSearchParams (serializeDocumentFiltersToSearchParams f)
     = f\<lparr>fs_search := trim (fs_search f)\<rparr>"
proof -
  have "named show_status DOCUMENT_STATUSES (map_option show_status v) = v" for v by (cases v) simp_all
  moreover have "named show_classification CLASSIFICATIONS (map_option show_classification v) = v" for v
    by (cases v) simp_all
  ultimately show ?thesis
    by (simp add: parseDocumentFiltersFromSearchParams_def params_of_text params_of_enums
        DEFAULT_DOCUMENT_FILTERS_def flip: params_of_def)
qed

section \<open>The list\<close>

text \<open>What is documented of \<open>localeCompare\<close>: it orders texts totally.\<close>

definition collates :: "(string \<Rightarrow> string \<Rightarrow> int) \<Rightarrow> bool" where
  "collates lc = ((\<forall>x y. lc x y \<le> 0 \<or> lc y x \<le> 0) \<and> (\<forall>x y. sgn (lc y x) = - sgn (lc x y))
     \<and> (\<forall>x y z. lc x y \<le> 0 \<longrightarrow> lc y z \<le> 0 \<longrightarrow> lc x z \<le> 0))"

lemma collates_field:
  assumes "collates lc"
  shows "sgn (compareField lc y x fld) = - sgn (compareField lc x y fld)"
    and "compareField lc x y fld \<le> 0 \<Longrightarrow> compareField lc y z fld \<le> 0 \<Longrightarrow> compareField lc x z fld \<le> 0"
proof -
  have num: "sgn (b - a) = - sgn (a - b)" for a b :: int by (simp add: sgn_if)
  have anti: "sgn (lc b a) = - sgn (lc a b)" and trn: "lc a b \<le> 0 \<Longrightarrow> lc b c \<le> 0 \<Longrightarrow> lc a c \<le> 0" for a b c
    using assms unfolding collates_def by blast+
  show "sgn (compareField lc y x fld) = - sgn (compareField lc x y fld)"
    by (cases fld; simp only: compareField_def sort_field.case; rule num anti)
  show "compareField lc x y fld \<le> 0 \<Longrightarrow> compareField lc y z fld \<le> 0 \<Longrightarrow> compareField lc x z fld \<le> 0"
    by (cases fld; simp only: compareField_def sort_field.case; (rule trn; assumption) | linarith)
qed

lemma collates_comparison:
  assumes "collates lc"
  shows "comparison (compareDocuments lc f)"
proof
  let ?d = "if fs_sortDir f = Asc then 1 else - 1 :: int"
  let ?p = "\<lambda>x y. compareField lc x y (fs_sort f) * ?d" and ?t = "\<lambda>x y. lc (di_title x) (di_title y)"
  have p: "sgn (?p y x) = - sgn (?p x y)" for x y
    using collates_field(1) [OF assms, of y x "fs_sort f"] by (simp add: sgn_mult)
  have anti: "?p y x \<le> 0 \<longleftrightarrow> 0 \<le> ?p x y" "?p y x = 0 \<longleftrightarrow> ?p x y = 0" for x y
    using p [of y x] by (auto simp: sgn_if split: if_splits)
  have ptrans: "?p x y \<le> 0 \<Longrightarrow> ?p y z \<le> 0 \<Longrightarrow> ?p x z \<le> 0" for x y z
  proof (cases "fs_sortDir f = Asc")
    case True
    then show "?p x y \<le> 0 \<Longrightarrow> ?p y z \<le> 0 \<Longrightarrow> ?p x z \<le> 0"
      using collates_field(2) [OF assms, of x y "fs_sort f" z] by simp
  next
    case False
    then show "?p x y \<le> 0 \<Longrightarrow> ?p y z \<le> 0 \<Longrightarrow> ?p x z \<le> 0"
      using collates_field(2) [OF assms, of z y "fs_sort f" x] anti [of x y] anti [of y z] anti [of x z] by simp
  qed
  have t: "?t x y \<le> 0 \<or> ?t y x \<le> 0" "?t x y \<le> 0 \<Longrightarrow> ?t y z \<le> 0 \<Longrightarrow> ?t x z \<le> 0" for x y z
    using assms by (auto simp: collates_def)
  have c: "compareDocuments lc f x y = (if ?p x y \<noteq> 0 then ?p x y else ?t x y)" for x y
    by (simp add: compareDocuments_def Let_def)
  show "compareDocuments lc f x y \<le> 0 \<or> compareDocuments lc f y x \<le> 0" for x y
    using t(1) [of x y] anti [of x y] unfolding c by (cases "?p x y = 0") auto
  show "compareDocuments lc f x z \<le> 0" if "compareDocuments lc f x y \<le> 0" "compareDocuments lc f y z \<le> 0" for x y z
  proof -
    have "?p x y \<le> 0" "?p y z \<le> 0" using that unfolding c by (auto split: if_splits)
    then have "?p x z \<le> 0" "?p x z = 0 \<Longrightarrow> ?p x y = 0 \<and> ?p y z = 0"
      using ptrans [of x y z] ptrans [of z x y] ptrans [of y z x] anti [of x y] anti [of y z] anti [of x z] by auto
    then show ?thesis using that t(2) [of x y z] unfolding c by (auto split: if_splits)
  qed
qed

text \<open>
  the list shows exactly the rows that pass every filter, each as often as it is
  there, in the order chosen.
\<close>

theorem list_is_filtered_and_sorted:
  assumes "collates lc"
  shows "mset (filterAndSortDocuments lc dt now docs f) = mset (filter (listed dt now f) docs)
    \<and> sorted_wrt (\<lambda>a b. compareDocuments lc f a b \<le> 0) (filterAndSortDocuments lc dt now docs f)"
  unfolding filterAndSortDocuments_def
  using comparison.sort_mset [OF collates_comparison [OF assms]]
    comparison.sort_sorted [OF collates_comparison [OF assms]] by blast


text \<open>\<open>localeCompare\<close> of texts without accents at base sensitivity: letters whatever their case.\<close>

definition lower_code :: "char \<Rightarrow> int" where
  "lower_code c = of_char (to_lower c)"

fun plain_compare :: "string \<Rightarrow> string \<Rightarrow> int" where
  "plain_compare [] [] = 0"
| "plain_compare [] (_ # _) = - 1"
| "plain_compare (_ # _) [] = 1"
| "plain_compare (c # cs) (d # ds) =
     (if lower_code c < lower_code d then - 1 else if lower_code d < lower_code c then 1 else plain_compare cs ds)"

lemma plain_step:
  "plain_compare (c # cs) (d # ds) \<le> 0 \<longleftrightarrow> lower_code c < lower_code d
     \<or> lower_code c = lower_code d \<and> plain_compare cs ds \<le> 0"
  by simp

lemma plain_antisym: "sgn (plain_compare y x) = - sgn (plain_compare x y)"
  by (induction x y rule: plain_compare.induct) simp_all

lemma plain_trans: "plain_compare x y \<le> 0 \<Longrightarrow> plain_compare y z \<le> 0 \<Longrightarrow> plain_compare x z \<le> 0"
proof (induction x y arbitrary: z rule: plain_compare.induct)
  case (2 d ds)
  then show ?case by (cases z) simp_all
next
  case (4 c cs d ds)
  then show ?case by (cases z) (auto simp: plain_step simp del: plain_compare.simps(4))
qed simp_all

lemma plain_collates: "collates plain_compare"
proof -
  have "plain_compare x y \<le> 0 \<or> plain_compare y x \<le> 0" for x y
    using plain_antisym [of x y] by (simp add: sgn_if split: if_splits)
  then show ?thesis using plain_antisym plain_trans unfolding collates_def by blast
qed

definition sample_item :: "string \<Rightarrow> string list \<Rightarrow> doc_status \<Rightarrow> list_item" where
  "sample_item title tags st = \<lparr> di_title = title, di_description = None, di_status = st, di_classification = INTERNAL,
     di_dlpStatus = Some ''CLEAR'', di_retentionClass = None, di_retentionUntil = None, di_retentionReason = None,
     di_legalHold = Some True, di_ownerId = ''alice'', di_ownerDisplay = None, di_currentVersion = 1,
     di_filename = Some ''annual report.pdf'', di_mimeType = None, di_fileSize = None, di_tags = tags,
     di_createdAt = 0, di_updatedAt = 0 \<rparr>"

definition sample_items :: "list_item list" where
  "sample_items = [sample_item ''Plan'' [''Security team''] PENDING, sample_item ''budget'' [''finance/q1''] DRAFT,
     sample_item ''Archive'' [] PENDING]"

theorem list_is_filtered_and_sorted_witness:
  "map di_title (filterAndSortDocuments plain_compare (\<lambda>_. None) 0 sample_items
      (DEFAULT_DOCUMENT_FILTERS\<lparr>fs_search := ''status:pending'', fs_sort := Sort_title, fs_sortDir := Asc\<rparr>))
     = [''Archive'', ''Plan'']
   \<and> mset (filterAndSortDocuments plain_compare (\<lambda>_. None) 0 sample_items DEFAULT_DOCUMENT_FILTERS) = mset sample_items"
proof
  show "map di_title (filterAndSortDocuments plain_compare (\<lambda>_. None) 0 sample_items
      (DEFAULT_DOCUMENT_FILTERS\<lparr>fs_search := ''status:pending'', fs_sort := Sort_title, fs_sortDir := Asc\<rparr>))
     = [''Archive'', ''Plan'']" by code_simp
  have "filter (listed (\<lambda>_. None) 0 DEFAULT_DOCUMENT_FILTERS) sample_items = sample_items" by code_simp
  then show "mset (filterAndSortDocuments plain_compare (\<lambda>_. None) 0 sample_items DEFAULT_DOCUMENT_FILTERS) = mset sample_items"
    using list_is_filtered_and_sorted [OF plain_collates, of "\<lambda>_. None" 0 sample_items DEFAULT_DOCUMENT_FILTERS] by simp
qed

section \<open>Tokens\<close>

lemma dropWhile_stays: "dropWhile p (rev (dropWhile p (rev (dropWhile p xs)))) = rev (dropWhile p (rev (dropWhile p xs)))"
proof (cases "dropWhile p (rev (dropWhile p xs))")
  case (Cons z zs)
  obtain ys where ys: "rev (dropWhile p xs) = ys @ z # zs"
    using Cons by (metis takeWhile_dropWhile_id)
  then have "dropWhile p xs = rev (z # zs) @ rev ys" by (metis rev_append rev_rev_ident)
  moreover have "rev (z # zs) \<noteq> []" by simp
  ultimately have "hd (rev (z # zs)) = hd (dropWhile p xs)" "dropWhile p xs \<noteq> []" by (metis hd_append2, simp)
  then have "\<not> p (hd (rev (z # zs)))" by (metis hd_dropWhile)
  then have "dropWhile p (rev (z # zs)) = rev (z # zs)"
    by (cases "rev (z # zs)") simp_all
  then show ?thesis using Cons by simp
next
  case Nil
  then show ?thesis by (simp only: rev.simps dropWhile.simps)
qed

lemma trim_trim [simp]: "trim (trim cs) = trim cs"
  by (simp add: trim_def dropWhile_stays)

lemma set_trim: "set (trim cs) \<subseteq> set cs"
  by (auto simp: trim_def dest!: set_dropWhileD)

lemma keyed_colon: "k \<noteq> [] \<Longrightarrow> list_all word_char k \<Longrightarrow> keyed (k @ CHR '':'' # r) = Some (k, r)"
  by (simp add: keyed_def Let_def list_all_iff word_char_def digit_def letter_def)

lemma quoted_quotes: "v \<noteq> [] \<Longrightarrow> CHR 34 \<notin> set v \<Longrightarrow> quoted (CHR 34 # v @ [CHR 34]) = Some (v, [])"
proof -
  assume v: "v \<noteq> []" "CHR 34 \<notin> set v"
  have "takeWhile (\<lambda>x. x \<noteq> CHR 34) (v @ [CHR 34]) = v"
    using v by (subst takeWhile_append2) auto
  moreover have "dropWhile (\<lambda>x. x \<noteq> CHR 34) (v @ [CHR 34]) = [CHR 34]"
    using v by (subst dropWhile_append2) auto
  ultimately show ?thesis using v by (simp add: quoted_def)
qed

lemma quoted_plain: "CHR 34 \<notin> set v \<Longrightarrow> quoted v = None"
  by (cases v) (auto simp: quoted_def)

lemma bare_word: "v \<noteq> [] \<Longrightarrow> \<not> list_ex js_space v \<Longrightarrow> bare v = Some (v, [])"
proof -
  assume v: "v \<noteq> []" "\<not> list_ex js_space v"
  then have "takeWhile (\<lambda>c. \<not> js_space c) v = v" "dropWhile (\<lambda>c. \<not> js_space c) v = []"
    by (simp_all add: takeWhile_eq_all_conv list_ex_iff)
  then show ?thesis using v(1) by (simp only: bare_def Let_def if_False)
qed

lemma no_escapes: "CHR 34 \<notin> set v \<Longrightarrow> concat (map (\<lambda>c. if c = CHR 34 then [CHR 92, CHR 34] else [c]) v) = v"
  by (induction v) auto

lemma tokens_one:
  assumes "k \<noteq> []" "list_all word_char k" "v \<noteq> []" "CHR 34 \<notin> set v"
  shows "tokens (k @ CHR '':'' # quoteQueryTokenValue v) = [(Some k, v)]"
proof -
  have "token_at (k @ CHR '':'' # quoteQueryTokenValue v) = Some ((Some k, v), [])"
    using assms by (simp add: token_at_def keyed_colon quoteQueryTokenValue_def quoted_quotes quoted_plain bare_word no_escapes)
  then show ?thesis by (subst tokens.simps) (simp add: tokens.simps [of "[]"])
qed

section \<open>Suggestions\<close>

lemma set_fold_adding:
  assumes "\<And>s acc. set (f s acc) \<subseteq> insert s (set acc)"
  shows "set (fold f xs ys) \<subseteq> set ys \<union> set xs"
proof (induction xs arbitrary: ys)
  case (Cons s xs)
  show ?case using Cons [of "f s ys"] assms [of s ys] by auto
qed simp

lemma set_uniqueSearchSuggestions: "set (uniqueSearchSuggestions xs) \<subseteq> set xs"
  unfolding uniqueSearchSuggestions_def by (rule subset_trans [OF set_fold_adding]) auto

lemma suggest_iff [simp]: "s \<in> set (suggest b t d k) \<longleftrightarrow> b \<and> s = \<lparr> sg_token = t, sg_description = d, sg_kind = k \<rparr>"
  by (auto simp: suggest_def)

lemma js_includes_refl [simp]: "js_includes cs cs"
  unfolding js_includes_iff by (metis append_Nil append_Nil2)

lemma parse_one:
  assumes "k \<noteq> []" "list_all word_char k" "v \<noteq> []" "CHR 34 \<notin> set v"
  shows "parseAdvancedDocumentQuery dt (k @ CHR '':'' # quoteQueryTokenValue v) = addToken dt (Some k, v) empty_query"
  by (simp add: parseAdvancedDocumentQuery_def tokens_one [OF assms])

lemma fixed_queries:
  "parseAdvancedDocumentQuery dt ''status:pending'' = empty_query\<lparr>aq_status := [''pending'']\<rparr>"
  "parseAdvancedDocumentQuery dt ''class:confidential'' = empty_query\<lparr>aq_classification := [''confidential'']\<rparr>"
  "parseAdvancedDocumentQuery dt ''has:file'' = empty_query\<lparr>aq_presence := [''file'']\<rparr>"
  "parseAdvancedDocumentQuery dt ''has:legal-hold'' = empty_query\<lparr>aq_presence := [''legal-hold'']\<rparr>"
  "parseAdvancedDocumentQuery dt ''dlp:detected'' = empty_query\<lparr>aq_dlp := [''detected'']\<rparr>"
  "parseAdvancedDocumentQuery dt ''retention:due-soon'' = empty_query\<lparr>aq_retention := [''due-soon'']\<rparr>"
  by code_simp+

lemma fixed_texts:
  "js_includes (normalizeEnumText (Some (show_status PENDING))) (normalizeEnumText (Some ''pending''))"
  "js_includes (normalizeEnumText (Some (show_classification CONFIDENTIAL))) (normalizeEnumText (Some ''confidential''))"
  "normalizeEnumText (Some ''file'') = ''file''" "normalizeEnumText (Some ''detected'') = ''detected''"
  "normalizeEnumText (Some ''legal-hold'') = ''legalhold''"
  by code_simp+

lemma query_simps [simp]:
  "documentMatchesAdvancedQuery now d empty_query"
  "documentMatchesAdvancedQuery now d (empty_query\<lparr>aq_status := [t]\<rparr>)
     = js_includes (normalizeEnumText (Some (show_status (di_status d)))) (normalizeEnumText (Some t))"
  "documentMatchesAdvancedQuery now d (empty_query\<lparr>aq_classification := [t]\<rparr>)
     = js_includes (normalizeEnumText (Some (show_classification (di_classification d)))) (normalizeEnumText (Some t))"
  "documentMatchesAdvancedQuery now d (empty_query\<lparr>aq_owner := [t]\<rparr>)
     = (js_includes (normalizeText (Some (di_ownerId d))) t \<or> js_includes (normalizeText (di_ownerDisplay d)) t)"
  "documentMatchesAdvancedQuery now d (empty_query\<lparr>aq_tag := [t]\<rparr>)
     = list_ex (\<lambda>tag. js_includes (normalizeText (Some tag)) t) (di_tags d)"
  "documentMatchesAdvancedQuery now d (empty_query\<lparr>aq_file := [t]\<rparr>) = js_includes (normalizeText (di_filename d)) t"
  "documentMatchesAdvancedQuery now d (empty_query\<lparr>aq_presence := [t]\<rparr>) = matchesPresenceOperator d t"
  "documentMatchesAdvancedQuery now d (empty_query\<lparr>aq_dlp := [t]\<rparr>) = matchesDlpOperator d t"
  "documentMatchesAdvancedQuery now d (empty_query\<lparr>aq_retention := [t]\<rparr>) = matchesRetentionOperator now d t"
  by (simp_all add: documentMatchesAdvancedQuery_def empty_query_def)

lemma empty_fields [simp]: "aq_tag empty_query = []" "aq_file empty_query = []" "aq_owner empty_query = []"
  by (simp_all add: empty_query_def)

lemma fixed_matches:
  "di_status d = PENDING \<Longrightarrow> documentMatchesAdvancedQuery now d (parseAdvancedDocumentQuery dt ''status:pending'')"
  "di_classification d = CONFIDENTIAL
     \<Longrightarrow> documentMatchesAdvancedQuery now d (parseAdvancedDocumentQuery dt ''class:confidential'')"
  by (simp_all only: fixed_queries query_simps fixed_texts)

text \<open>A value searched for under its key.\<close>

lemma key_texts: "normalizeText (Some ''tag'') = ''tag''" "normalizeText (Some ''file'') = ''file''"
  "normalizeText (Some ''owner'') = ''owner''" "list_all word_char ''tag''" "list_all word_char ''file''"
  "list_all word_char ''owner''"
  by code_simp+

lemma searched:
  assumes "v \<noteq> []" "CHR 34 \<notin> set v"
  shows "tag \<in> set (di_tags d) \<Longrightarrow> trim tag = v
      \<Longrightarrow> documentMatchesAdvancedQuery now d (parseAdvancedDocumentQuery dt (''tag:'' @ quoteQueryTokenValue v))"
    and "di_filename d = Some v
      \<Longrightarrow> documentMatchesAdvancedQuery now d (parseAdvancedDocumentQuery dt (''file:'' @ quoteQueryTokenValue v))"
    and "coalesce (di_ownerDisplay d) (di_ownerId d) = v
      \<Longrightarrow> documentMatchesAdvancedQuery now d (parseAdvancedDocumentQuery dt (''owner:'' @ quoteQueryTokenValue v))"
proof -
  note p = parse_one [OF _ _ assms, of "''tag''"] parse_one [OF _ _ assms, of "''file''"] parse_one [OF _ _ assms, of "''owner''"]
  show "tag \<in> set (di_tags d) \<Longrightarrow> trim tag = v
      \<Longrightarrow> documentMatchesAdvancedQuery now d (parseAdvancedDocumentQuery dt (''tag:'' @ quoteQueryTokenValue v))"
    using p(1) [of dt] key_texts by (auto simp: addToken_def Let_def list_ex_iff normalizeText_def intro!: bexI [of _ tag])
  show "di_filename d = Some v
      \<Longrightarrow> documentMatchesAdvancedQuery now d (parseAdvancedDocumentQuery dt (''file:'' @ quoteQueryTokenValue v))"
    using p(2) [of dt] key_texts by (simp add: addToken_def Let_def)
  show "coalesce (di_ownerDisplay d) (di_ownerId d) = v
      \<Longrightarrow> documentMatchesAdvancedQuery now d (parseAdvancedDocumentQuery dt (''owner:'' @ quoteQueryTokenValue v))"
    using p(3) [of dt] key_texts by (cases "di_ownerDisplay d") (simp_all add: addToken_def Let_def)
qed

lemma find_member: "find P xs = Some x \<Longrightarrow> x \<in> set xs \<and> P x"
  by (auto simp: find_Some_iff)

lemma first_tag:
  assumes "findFirstTag docs pref = Some v"
  shows "v \<noteq> [] \<and> (\<exists>d \<in> set docs. \<exists>tag \<in> set (di_tags d). trim tag = v)"
  using find_member [OF assms [unfolded findFirstTag_def]] by auto

lemma preferred_tag:
  "or_else (findFirstTag docs a) (findFirstTag docs b) = Some v \<Longrightarrow>
    v \<noteq> [] \<and> (\<exists>d \<in> set docs. \<exists>tag \<in> set (di_tags d). trim tag = v)"
  using first_tag [of docs a v] first_tag [of docs b v] by (auto simp: or_else_def split: option.splits)

lemma suggestion_cases:
  assumes "s \<in> set (buildDocumentSearchSuggestions now docs)"
  obtains (pending) "sg_token s = ''status:pending''" "list_ex (\<lambda>d. di_status d = PENDING) docs"
  | (confidential) "sg_token s = ''class:confidential''" "list_ex (\<lambda>d. di_classification d = CONFIDENTIAL) docs"
  | (tag) v d tag where "sg_token s = ''tag:'' @ quoteQueryTokenValue v" "v \<noteq> []" "d \<in> set docs" "tag \<in> set (di_tags d)" "trim tag = v"
  | (filename) v d where "sg_token s = ''file:'' @ quoteQueryTokenValue v" "v \<noteq> []" "d \<in> set docs" "di_filename d = Some v"
  | (has_file) "sg_token s = ''has:file''" "list_ex documentHasFile docs"
  | (hold) "sg_token s = ''has:legal-hold''"
  | (dlp) "sg_token s = ''dlp:detected''" "list_ex (\<lambda>d. di_dlpStatus d = Some ''DETECTED'') docs"
  | (retention) "sg_token s = ''retention:due-soon''" "list_ex (\<lambda>d. matchesRetentionOperator now d ''due-soon'') docs"
  | (owner) v d where "sg_token s = ''owner:'' @ quoteQueryTokenValue v" "v \<noteq> []" "d \<in> set docs"
      "coalesce (di_ownerDisplay d) (di_ownerId d) = v"
proof -
  note member = subsetD [OF set_uniqueSearchSuggestions, OF subsetD [OF set_take_subset]]
  note s = member [OF assms [unfolded buildDocumentSearchSuggestions_def Let_def], unfolded set_append Un_iff suggest_iff]
  from s show thesis
  proof (elim disjE, goal_cases)
    case 1
    then show ?thesis using pending by simp
  next
    case 2
    then show ?thesis using confidential by simp
  next
    case 3
    then show ?thesis
    proof (cases "or_else (findFirstTag docs (Some ''security'')) (findFirstTag docs None)")
      case (Some v)
      have "sg_token s = ''tag:'' @ quoteQueryTokenValue v" using 3 Some by simp
      then show ?thesis using preferred_tag [OF Some] tag by blast
    qed simp
  next
    case 4
    then show ?thesis
    proof (cases "find (\<lambda>d. truthy_opt (di_filename d)) docs")
      case (Some d)
      then have "sg_token s = ''file:'' @ quoteQueryTokenValue (coalesce (di_filename d) [])" using 4 by simp
      moreover obtain v where "d \<in> set docs" "di_filename d = Some v" "v \<noteq> []"
        using find_member [OF Some] by (auto simp: truthy_opt_def truthy_def split: option.splits)
      ultimately show ?thesis using filename [of v d] by simp
    qed simp
  next
    case 5
    then show ?thesis using has_file by simp
  next
    case 6
    then show ?thesis using hold by simp
  next
    case 7
    then show ?thesis using dlp by simp
  next
    case 8
    then show ?thesis using retention by simp
  next
    case 9
    then show ?thesis
    proof (cases "find (\<lambda>d. truthy_opt (di_ownerDisplay d) \<or> truthy (di_ownerId d)) docs")
      case (Some d)
      then have "truthy (coalesce (di_ownerDisplay d) (di_ownerId d))"
        "sg_token s = ''owner:'' @ quoteQueryTokenValue (coalesce (di_ownerDisplay d) (di_ownerId d))"
        using 9 by simp_all
      then show ?thesis using owner [of "coalesce (di_ownerDisplay d) (di_ownerId d)" d] find_member [OF Some]
        by (simp add: truthy_def)
    qed simp
  qed
qed

definition plain_item :: "list_item \<Rightarrow> bool" where
  "plain_item d = (CHR 34 \<notin> set (concat (di_tags d) @ coalesce (di_filename d) [] @ coalesce (di_ownerDisplay d) [] @ di_ownerId d))"

text \<open>
  C34: each search suggestion, the one for legal holds excepted, finds a document of
  the list it was made from, as long as no tag, file or owner has a double quote.
\<close>

theorem suggestions_find_documents:
  assumes "list_all plain_item docs" "s \<in> set (buildDocumentSearchSuggestions now docs)" "sg_token s \<noteq> ''has:legal-hold''"
  shows "list_ex (\<lambda>d. documentMatchesAdvancedQuery now d (parseAdvancedDocumentQuery dt (sg_token s))) docs"
proof -
  have plain: "plain_item d" if "d \<in> set docs" for d using assms(1) that by (simp add: list_all_iff)
  from assms(2) show ?thesis
  proof (cases rule: suggestion_cases)
    case (tag v d t)
    have "CHR 34 \<notin> set t" using plain [OF tag(3)] tag(4) by (auto simp: plain_item_def)
    then have "CHR 34 \<notin> set v" using tag(5) set_trim [of t] by blast
    then show ?thesis using searched(1) [of v t d] tag by (auto simp: list_ex_iff)
  next
    case (filename v d)
    then have "CHR 34 \<notin> set v" using plain [of d] by (simp add: plain_item_def)
    then show ?thesis using searched(2) [of v d] filename by (auto simp: list_ex_iff)
  next
    case (owner v d)
    then have "CHR 34 \<notin> set v" using plain [of d] by (auto simp: plain_item_def coalesce_def split: option.splits)
    then show ?thesis using searched(3) [of v d] owner by (auto simp: list_ex_iff)
  next
    case hold
    then show ?thesis using assms(3) by simp
  next
    case pending
    then show ?thesis by (auto simp: list_ex_iff intro: fixed_matches)
  next
    case confidential
    then show ?thesis by (auto simp: list_ex_iff intro: fixed_matches)
  qed (auto simp: list_ex_iff fixed_queries fixed_texts matchesPresenceOperator_def matchesDlpOperator_def)
qed

definition plain_items :: "list_item list" where
  "plain_items = [sample_item ''Plan'' [''Security team''] PENDING]"

theorem suggestions_find_documents_witness:
  "map sg_token (buildDocumentSearchSuggestions 0 plain_items)
     = [''status:pending'', ''tag:'' @ [CHR 34] @ ''Security team'' @ [CHR 34],
        ''file:'' @ [CHR 34] @ ''annual report.pdf'' @ [CHR 34], ''has:file'', ''has:legal-hold'', ''owner:alice'']
   \<and> list_ex (\<lambda>d. documentMatchesAdvancedQuery 0 d (parseAdvancedDocumentQuery (\<lambda>_. None)
        (''tag:'' @ [CHR 34] @ ''Security team'' @ [CHR 34]))) plain_items"
proof -
  have ts: "map sg_token (buildDocumentSearchSuggestions 0 plain_items)
     = [''status:pending'', ''tag:'' @ [CHR 34] @ ''Security team'' @ [CHR 34],
        ''file:'' @ [CHR 34] @ ''annual report.pdf'' @ [CHR 34], ''has:file'', ''has:legal-hold'', ''owner:alice'']"
    and p: "list_all plain_item plain_items" and ne: "''tag:'' @ [CHR 34] @ ''Security team'' @ [CHR 34] \<noteq> ''has:legal-hold''"
    by code_simp+
  then have "''tag:'' @ [CHR 34] @ ''Security team'' @ [CHR 34] \<in> set (map sg_token (buildDocumentSearchSuggestions 0 plain_items))"
    by simp
  then obtain s where "s \<in> set (buildDocumentSearchSuggestions 0 plain_items)"
    "sg_token s = ''tag:'' @ [CHR 34] @ ''Security team'' @ [CHR 34]" by auto
  then show ?thesis using suggestions_find_documents [OF p, of s 0 "\<lambda>_. None"] ts ne by auto
qed

text \<open>
  the suggestion for legal holds finds nothing, whatever documents there are.
\<close>

theorem legal_hold_suggestion_finds_nothing:
  "filterAndSortDocuments lc dt now docs (DEFAULT_DOCUMENT_FILTERS\<lparr>fs_search := ''has:legal-hold''\<rparr>) = []"
proof -
  have "\<not> matchesPresenceOperator d ''legal-hold''" for d
    by (simp add: matchesPresenceOperator_def fixed_texts)
  then have "\<not> listed dt now (DEFAULT_DOCUMENT_FILTERS\<lparr>fs_search := ''has:legal-hold''\<rparr>) d" for d
    by (simp add: listed_def fixed_queries)
  then show ?thesis by (simp add: filterAndSortDocuments_def js_sort_def)
qed

end
