(* ===== verification/Authentication.thy ===== *)
theory Authentication
  imports Sensitive_Actions
begin

text \<open>
  Who a request comes from: the token checks of the gateway
  (\<open>gateway/src/auth/jwt.strategy.ts\<close>) and of the services behind it
  (\<open>metadata-service/src/auth/jwt.strategy.ts\<close>, and \<open>workflow-service\<close>'s, which the
  document, audit and notification services share but for its groups), the headers
  the gateway forwards (\<open>gateway/src/proxy/proxy.service.ts\<close>), the service token of
  the audit ingest (\<open>audit-service/src/auth/service-token.guard.ts\<close>) and the exemption
  of internal calls from the rate limit (\<open>libs/throttler\<close>). The signature of a token is
  checked by the passport library before \<open>validate\<close> runs.

  Parameters: \<open>num\<close> is \<open>Number(text)\<close>, \<open>None\<close> for \<open>NaN\<close>; \<open>decode\<close> is
  \<open>decodeURIComponent\<close>, \<open>None\<close> where it throws; \<open>bearer\<close> is the header reader of
  passport-jwt; \<open>digest\<close> is SHA-256.
\<close>

section \<open>Tokens\<close>

record token_payload =
  tk_exp :: "json option"
  tk_sub :: "string option"
  tk_preferred_username :: "string option"
  tk_username :: "string option"
  tk_realmRoles :: "string list option"
  tk_groups :: "string list option"
  tk_aud :: "json option"
  tk_azp :: "string option"

definition toleranceSeconds :: "(string \<Rightarrow> int option) \<Rightarrow> (string \<rightharpoonup> string) \<Rightarrow> int option" where
  "toleranceSeconds num ev = (case ev ''JWT_CLOCK_TOLERANCE_SECONDS'' of None \<Rightarrow> Some 300 | Some v \<Rightarrow> num v)"

text \<open>A comparison with \<open>NaN\<close> is false.\<close>

definition checkExpiry :: "(string \<Rightarrow> int option) \<Rightarrow> (string \<rightharpoonup> string) \<Rightarrow> int \<Rightarrow> token_payload \<Rightarrow> error + unit" where
  "checkExpiry num ev now payload =
     (case tk_exp payload of
        Some (JNum e) \<Rightarrow>
          (case toleranceSeconds num ev of
             None \<Rightarrow> Inr ()
           | Some tolerance \<Rightarrow>
               if e + tolerance < now div 1000 then Inl (Unauthorized ''Token expired'') else Inr ())
      | _ \<Rightarrow> Inl (Unauthorized ''Token missing expiry''))"

definition audiences :: "token_payload \<Rightarrow> json list" where
  "audiences payload =
     (case tk_aud payload of
        Some (JArr xs) \<Rightarrow> xs
      | Some v \<Rightarrow> if j_truthy v then [v] else []
      | None \<Rightarrow> [])"

definition checkAudience :: "(string \<rightharpoonup> string) \<Rightarrow> token_payload \<Rightarrow> error + unit" where
  "checkAudience ev payload =
     (case ev ''KEYCLOAK_AUDIENCE'' of
        None \<Rightarrow> Inr ()
      | Some audience \<Rightarrow>
          if truthy audience \<and> JStr audience \<notin> set (audiences payload) \<and> tk_azp payload \<noteq> Some audience
          then Inl (Unauthorized ''Invalid token audience'') else Inr ())"

text \<open>\<open>new Set(roles)\<close> with the shorthand \<open>co\<close> spelled out.\<close>

definition tokenRoles :: "token_payload \<Rightarrow> string list" where
  "tokenRoles payload =
     (let roles = unique (coalesce (tk_realmRoles payload) []) in
      if ''co'' \<in> set roles \<and> ''compliance_officer'' \<notin> set roles then roles @ [''compliance_officer''] else roles)"

definition normalizePayload :: "(string \<rightharpoonup> string) \<Rightarrow> token_payload \<Rightarrow> error + service_user" where
  "normalizePayload ev payload =
     (case checkAudience ev payload of
        Inl e \<Rightarrow> Inl e
      | Inr _ \<Rightarrow> Inr \<lparr> u_sub = tk_sub payload,
          u_username = or_else (tk_preferred_username payload) (tk_username payload),
          u_roles = Some (tokenRoles payload), u_groups = Some (normalizeGroups (tk_groups payload)) \<rparr>)"

definition validate_gateway ::
  "(string \<Rightarrow> int option) \<Rightarrow> (string \<rightharpoonup> string) \<Rightarrow> int \<Rightarrow> token_payload \<Rightarrow> error + service_user" where
  "validate_gateway num ev now payload =
     (case checkExpiry num ev now payload of Inl e \<Rightarrow> Inl e | Inr _ \<Rightarrow> normalizePayload ev payload)"

definition validate_metadata ::
  "(string \<Rightarrow> int option) \<Rightarrow> (string \<rightharpoonup> string) \<Rightarrow> int \<Rightarrow> token_payload \<Rightarrow> error + service_user" where
  "validate_metadata num ev now payload =
     (case checkExpiry num ev now payload of
        Inl e \<Rightarrow> Inl e
      | Inr _ \<Rightarrow>
          (case checkAudience ev payload of
             Inl e \<Rightarrow> Inl e
           | Inr _ \<Rightarrow> Inr \<lparr> u_sub = tk_sub payload, u_username = tk_preferred_username payload,
               u_roles = Some (tokenRoles payload), u_groups = Some (normalizeGroups (tk_groups payload)) \<rparr>))"

definition validate_workflow ::
  "(string \<Rightarrow> int option) \<Rightarrow> (string \<rightharpoonup> string) \<Rightarrow> int \<Rightarrow> token_payload \<Rightarrow> error + service_user" where
  "validate_workflow num ev now payload =
     (case checkExpiry num ev now payload of
        Inl e \<Rightarrow> Inl e
      | Inr _ \<Rightarrow>
          (case checkAudience ev payload of
             Inl e \<Rightarrow> Inl e
           | Inr _ \<Rightarrow> Inr \<lparr> u_sub = tk_sub payload, u_username = tk_preferred_username payload,
               u_roles = Some (tokenRoles payload), u_groups = None \<rparr>))"

section \<open>Cookies and forwarded headers\<close>

text \<open>\<open>Object.fromEntries\<close>: the last of two cookies of a name counts.\<close>

definition cookie :: "(string \<Rightarrow> string option) \<Rightarrow> string \<Rightarrow> (string \<times> string) option" where
  "cookie decode c =
     (case split_on (CHR ''='') c of
        [] \<Rightarrow> None
      | k # v \<Rightarrow> map_option (\<lambda>d. (k, d)) (decode (join_with ''='' v)))"

definition cookie_map :: "(string \<Rightarrow> string option) \<Rightarrow> string list \<Rightarrow> (string \<rightharpoonup> string) option" where
  "cookie_map decode cs =
     (let entries = map (cookie decode) cs in
      if list_all (\<lambda>e. e \<noteq> None) entries then Some (map_of (rev (map the entries))) else None)"

definition parseCookies :: "(string \<Rightarrow> string option) \<Rightarrow> string \<Rightarrow> (string \<rightharpoonup> string) option" where
  "parseCookies decode raw = cookie_map decode (map trim (split_on (CHR '';'') raw))"

text \<open>The proxy's reader drops empty parts first.\<close>

definition parseCookies_proxy :: "(string \<Rightarrow> string option) \<Rightarrow> string \<Rightarrow> (string \<rightharpoonup> string) option" where
  "parseCookies_proxy decode raw = cookie_map decode (filter truthy (map trim (split_on (CHR '';'') raw)))"

record inbound =
  in_authorization :: "string option"
  in_cookie :: "string option"
  in_traceId :: "string option"
  in_requestId :: "string option"
  in_user :: "service_user option"

text \<open>The token of a request at the gateway; the outer \<open>None\<close> is an exception.\<close>

definition extractToken :: "(string \<Rightarrow> string option) \<Rightarrow> (string option \<Rightarrow> string option) \<Rightarrow> inbound \<Rightarrow>
  string option option" where
  "extractToken decode bearer req =
     (case bearer (in_authorization req) of
        Some t \<Rightarrow> if truthy t then Some (Some t)
                  else map_option (\<lambda>cs. cs ''dv_access_token'') (parseCookies decode (coalesce (in_cookie req) []))
      | None \<Rightarrow> map_option (\<lambda>cs. cs ''dv_access_token'') (parseCookies decode (coalesce (in_cookie req) [])))"

definition buildAuthorizationHeader :: "(string \<Rightarrow> string option) \<Rightarrow> inbound \<Rightarrow> string option option" where
  "buildAuthorizationHeader decode req =
     (if truthy_opt (in_authorization req) then Some (in_authorization req)
      else map_option (\<lambda>cs. if truthy_opt (cs ''dv_access_token'')
             then Some (''Bearer '' @ the (cs ''dv_access_token'')) else None)
           (parseCookies_proxy decode (coalesce (in_cookie req) [])))"

record forwarded_headers =
  fw_authorization :: "string option"
  fw_requestId :: "string option"
  fw_userId :: string
  fw_roles :: string
  fw_groups :: string

text \<open>The headers of \<open>ProxyService.forward\<close>; a malformed cookie makes it throw.\<close>

definition forwardHeaders :: "(string \<Rightarrow> string option) \<Rightarrow> inbound \<Rightarrow> error + forwarded_headers" where
  "forwardHeaders decode req =
     (case buildAuthorizationHeader decode req of
        None \<Rightarrow> Inl (InternalError ''Gateway proxy error'')
      | Some authorization \<Rightarrow>
          Inr \<lparr> fw_authorization = authorization,
            fw_requestId = or_else (in_traceId req) (in_requestId req),
            fw_userId = coalesce (or_else (Option.bind (in_user req) u_sub) (Option.bind (in_user req) u_username)) [],
            fw_roles = join_with '','' (coalesce (Option.bind (in_user req) u_roles) []),
            fw_groups = join_with '','' (coalesce (Option.bind (in_user req) u_groups) []) \<rparr>)"

text \<open>The request a service behind the gateway gets, once it has validated the token.\<close>

definition proxied :: "forwarded_headers \<Rightarrow> service_user \<Rightarrow> string option \<Rightarrow> http_request" where
  "proxied fw user ip = \<lparr> r_traceId = None, r_user = user, r_requestIdHeader = fw_requestId fw,
     r_authorization = fw_authorization fw, r_xRoles = Some (fw_roles fw), r_xGroups = Some (fw_groups fw), r_ip = ip \<rparr>"

section \<open>Service token\<close>

definition acceptedTokens :: "(string \<rightharpoonup> string) \<Rightarrow> string list" where
  "acceptedTokens ev = filter (\<lambda>v. truthy v \<and> 0 < length (trim v))
     (List.map_filter ev [''AUDIT_INGEST_TOKEN'', ''AUDIT_INGEST_TOKEN_PREVIOUS''])"

definition serviceTokenGuard :: "(string \<Rightarrow> string) \<Rightarrow> (string \<rightharpoonup> string) \<Rightarrow> json option \<Rightarrow> error + unit" where
  "serviceTokenGuard digest ev header =
     (if acceptedTokens ev = [] then Inl (Forbidden ''Audit ingest token is not configured'')
      else case header of
        Some (JStr provided) \<Rightarrow>
          if list_ex (\<lambda>expected. digest provided = digest expected) (acceptedTokens ev) then Inr ()
          else Inl (Forbidden ''Invalid audit service token'')
      | _ \<Rightarrow> Inl (Forbidden ''Invalid audit service token''))"

section \<open>Rate limit\<close>

definition isInternalServiceCall :: "(string \<Rightarrow> string) \<Rightarrow> (string \<rightharpoonup> string) \<Rightarrow> json option \<Rightarrow> bool" where
  "isInternalServiceCall digest ev header =
     (case ev ''INTERNAL_CALL_SECRET'' of
        None \<Rightarrow> False
      | Some secret \<Rightarrow>
          if \<not> truthy secret \<or> length (trim secret) = 0 then False
          else (case header of
             Some (JStr h) \<Rightarrow> h \<noteq> [] \<and> digest h = digest secret
           | _ \<Rightarrow> False))"

definition getTracker :: "service_user option \<Rightarrow> string option \<Rightarrow> string option \<Rightarrow> string" where
  "getTracker user ip remoteAddress =
     (let userId = Option.bind user (\<lambda>u. or_else (u_sub u) (u_username u)) in
      if truthy_opt userId then ''user:'' @ the userId else coalesce (or_else ip remoteAddress) ''unknown'')"

end
