(* ===== verification/Authentication_Properties.thy ===== *)
theory Authentication_Properties
  imports Authentication Sensitive_Properties
begin

text \<open>
  The identity of a request: the gateway and the services behind it accept the same
  tokens and see the same user, an accepted token is current, and only holders of
  the secrets pass as services.
\<close>

section \<open>Expiry\<close>

lemma checkExpiry_Inr:
  "checkExpiry num ev now p = Inr x \<longleftrightarrow> (\<exists>e. tk_exp p = Some (JNum e)
     \<and> (case toleranceSeconds num ev of None \<Rightarrow> True | Some tol \<Rightarrow> now div 1000 \<le> e + tol))"
  by (auto simp: checkExpiry_def not_less split: option.splits json.splits)

lemma checkAudience_Inr:
  "checkAudience ev p = Inr x \<longleftrightarrow> (case ev ''KEYCLOAK_AUDIENCE'' of None \<Rightarrow> True
     | Some a \<Rightarrow> \<not> truthy a \<or> JStr a \<in> set (audiences p) \<or> tk_azp p = Some a)"
  by (auto simp: checkAudience_def split: option.splits)

lemma sum_unit: "(r :: error + unit) = Inr x \<Longrightarrow> r = Inr ()"
  by simp

lemma validate_gateway_Inr:
  "validate_gateway num ev now p = Inr u \<longleftrightarrow> checkExpiry num ev now p = Inr () \<and> checkAudience ev p = Inr ()
     \<and> u = \<lparr> u_sub = tk_sub p, u_username = or_else (tk_preferred_username p) (tk_username p),
          u_roles = Some (tokenRoles p), u_groups = Some (normalizeGroups (tk_groups p)) \<rparr>"
  by (auto simp: validate_gateway_def normalizePayload_def split: sum.splits)

text \<open>
  a token the gateway accepts has a numeric expiry that is past by at most the
  tolerance, when the tolerance can be read, and names the audience configured; a
  user that has the role co is a compliance officer.
\<close>

theorem accepted_tokens_are_current:
  assumes "validate_gateway num ev now p = Inr u" and "toleranceSeconds num ev = Some tol"
  shows "\<exists>e. tk_exp p = Some (JNum e) \<and> now div 1000 \<le> e + tol \<and> u_sub u = tk_sub p
    \<and> (case ev ''KEYCLOAK_AUDIENCE'' of None \<Rightarrow> True
       | Some a \<Rightarrow> a = [] \<or> JStr a \<in> set (audiences p) \<or> tk_azp p = Some a)
    \<and> (''compliance_officer'' \<in> set (coalesce (u_roles u) [])) =
        (''co'' \<in> set (coalesce (tk_realmRoles p) []) \<or> ''compliance_officer'' \<in> set (coalesce (tk_realmRoles p) []))"
  using assms unfolding validate_gateway_Inr checkExpiry_Inr checkAudience_Inr
  by (auto simp: tokenRoles_def Let_def truthy_def split: option.splits)

definition sample_payload :: token_payload where
  "sample_payload = \<lparr> tk_exp = Some (JNum 1000), tk_sub = Some ''u-1'', tk_preferred_username = Some ''olga'',
     tk_username = None, tk_realmRoles = Some [''co'', ''viewer''], tk_groups = Some [''/finance/q1'', '' hr ''],
     tk_aud = Some (JArr [JStr ''docvault'']), tk_azp = None \<rparr>"

definition gateway_env :: "string \<rightharpoonup> string" where
  "gateway_env = [''KEYCLOAK_AUDIENCE'' \<mapsto> ''docvault'']"

theorem accepted_tokens_are_current_witness:
  "(case validate_gateway (\<lambda>_. None) gateway_env 1300000 sample_payload of
      Inl _ \<Rightarrow> False | Inr u \<Rightarrow> u_roles u = Some [''co'', ''viewer'', ''compliance_officer''])
   \<and> (\<exists>e. tk_exp sample_payload = Some (JNum e) \<and> 1300000 div 1000 \<le> e + 300)"
proof (cases "validate_gateway (\<lambda>_. None) gateway_env 1300000 sample_payload")
  case (Inl e)
  have "\<not> isl (validate_gateway (\<lambda>_. None) gateway_env 1300000 sample_payload)" by code_simp
  then show ?thesis using Inl by simp
next
  case (Inr u)
  have "toleranceSeconds (\<lambda>_. None) gateway_env = Some 300" by (simp add: toleranceSeconds_def gateway_env_def)
  from accepted_tokens_are_current [OF Inr this]
  have "\<exists>e. tk_exp sample_payload = Some (JNum e) \<and> 1300000 div 1000 \<le> e + 300" by blast
  moreover have "case validate_gateway (\<lambda>_. None) gateway_env 1300000 sample_payload of
      Inl _ \<Rightarrow> False | Inr u \<Rightarrow> u_roles u = Some [''co'', ''viewer'', ''compliance_officer'']" by code_simp
  ultimately show ?thesis by blast
qed

text \<open>
  a tolerance that is not a number switches the expiry off: the token is accepted
  at any time.
\<close>

theorem unreadable_tolerance_ignores_expiry:
  assumes "ev ''JWT_CLOCK_TOLERANCE_SECONDS'' = Some v" "num v = None" "tk_exp p = Some (JNum e)" "checkAudience ev p = Inr ()"
  shows "validate_gateway num ev now p \<noteq> Inl err \<and> validate_metadata num ev now p \<noteq> Inl err"
  using assms by (simp add: validate_gateway_def validate_metadata_def normalizePayload_def checkExpiry_def toleranceSeconds_def)

theorem unreadable_tolerance_ignores_expiry_witness:
  "validate_gateway (\<lambda>_. None) [''JWT_CLOCK_TOLERANCE_SECONDS'' \<mapsto> ''5m''] 99999999999999 sample_payload
     \<noteq> Inl (Unauthorized ''Token expired'')"
proof -
  have "checkAudience [''JWT_CLOCK_TOLERANCE_SECONDS'' \<mapsto> ''5m''] sample_payload = Inr ()"
    by (simp add: checkAudience_def)
  then show ?thesis
    using unreadable_tolerance_ignores_expiry [of "[''JWT_CLOCK_TOLERANCE_SECONDS'' \<mapsto> ''5m'']" "''5m''" "\<lambda>_. None" sample_payload 1000]
    by (simp add: sample_payload_def)
qed

section \<open>One identity behind the gateway\<close>

lemma split_on_join:
  assumes "gs \<noteq> []" "list_all (\<lambda>g. sep \<notin> set g) gs"
  shows "split_on sep (join_with [sep] gs) = gs"
  using assms
proof (induction gs rule: induct_list012)
  case (2 g)
  then show ?case by (simp add: split_on_no_sep)
next
  case (3 g h gs)
  then show ?case by (simp add: split_on_append)
qed simp

text \<open>A group name that survives a comma-separated header.\<close>

definition header_safe :: "string \<Rightarrow> bool" where
  "header_safe g = (g \<noteq> [] \<and> CHR '','' \<notin> set g \<and> trim g = g)"

lemma header_round_trip:
  assumes "list_all header_safe gs"
  shows "header_list (Some (join_with '','' gs)) = gs"
proof (cases "gs = []")
  case True
  then show ?thesis by (simp add: header_list_def trim_def truthy_def)
next
  case False
  have "split_on (CHR '','') (join_with '','' gs) = gs"
    using assms by (intro split_on_join [OF False]) (auto simp: list_all_iff header_safe_def)
  moreover have "map trim gs = gs" "filter truthy gs = gs"
    using assms by (auto simp: list_all_iff header_safe_def truthy_def map_idI filter_id_conv)
  ultimately show ?thesis by (simp add: header_list_def)
qed

lemma strip_slashes_twice: "strip_slashes (strip_slashes g) = strip_slashes g"
  by (simp add: strip_slashes_def)

lemma unique_map_id: "list_all (\<lambda>g. f g = g) gs \<Longrightarrow> map f gs = gs"
  by (auto simp: list_all_iff map_idI)

lemma normalize_again:
  assumes "list_all header_safe (normalizeGroups v)"
  shows "normalizeGroups (Some (normalizeGroups v)) = normalizeGroups v"
proof -
  let ?gs = "normalizeGroups v"
  have "list_all (\<lambda>g. strip_slashes g = g) ?gs"
    by (auto simp: list_all_iff normalizeGroups_def strip_slashes_twice)
  moreover have "map trim ?gs = ?gs" "filter truthy ?gs = ?gs"
    using assms by (auto simp: list_all_iff header_safe_def truthy_def map_idI filter_id_conv)
  moreover have "distinct ?gs" by (simp add: normalizeGroups_def)
  ultimately show ?thesis
    by (simp add: normalizeGroups_def [of "Some ?gs"] unique_map_id unique_distinct)
qed

text \<open>
  C27: a token with a subject is accepted by the gateway exactly when the services
  behind it accept it, and then all of them act for the same user with the same roles
  and, as long as its group names survive a comma-separated header, the same groups,
  also the services that do not read groups from the token.
\<close>

theorem services_see_the_gateway_user:
  assumes "tk_sub p = Some i" "list_all header_safe (normalizeGroups (tk_groups p))"
  shows "case validate_gateway num ev now p of
      Inl e \<Rightarrow> validate_metadata num ev now p = Inl e \<and> validate_workflow num ev now p = Inl e
    | Inr gu \<Rightarrow>
        (case (validate_metadata num ev now p, validate_workflow num ev now p) of
           (Inr mu, Inr wu) \<Rightarrow>
            (case forwardHeaders decode (req\<lparr>in_user := Some gu\<rparr>) of
              Inl _ \<Rightarrow> buildAuthorizationHeader decode req = None
            | Inr fw \<Rightarrow>
             c_actorId (buildRequestContext (proxied fw mu ip)) = i \<and> c_actorId (buildRequestContext (proxied fw wu ip)) = i
             \<and> fw_userId fw = i
             \<and> c_roles (buildRequestContext (proxied fw mu ip)) = tokenRoles p
             \<and> c_roles (buildRequestContext (proxied fw wu ip)) = tokenRoles p
             \<and> c_groups (buildRequestContext (proxied fw mu ip)) = u_groups gu
             \<and> c_groups (buildRequestContext (proxied fw wu ip)) = u_groups gu)
         | _ \<Rightarrow> False)"
proof -
  have g: "normalizeGroups (Some (header_list (Some (join_with '','' (normalizeGroups (tk_groups p))))))
      = normalizeGroups (tk_groups p)"
    by (simp add: header_round_trip [OF assms(2)] normalize_again [OF assms(2)])
  have b: "buildAuthorizationHeader decode (req\<lparr>in_user := v\<rparr>) = buildAuthorizationHeader decode req" for v
    by (simp add: buildAuthorizationHeader_def)
  show ?thesis
    by (simp add: validate_gateway_def normalizePayload_def validate_metadata_def validate_workflow_def forwardHeaders_def b
        proxied_def buildRequestContext_def buildActorId_def assms(1) g normalize_again [OF assms(2)] Let_def
        split: sum.split option.split)
qed

definition sample_inbound :: inbound where
  "sample_inbound = \<lparr> in_authorization = None, in_cookie = Some ''theme=dark; dv_access_token=abc'',
     in_traceId = None, in_requestId = Some ''r-1'', in_user = None \<rparr>"

theorem services_see_the_gateway_user_witness:
  "case validate_gateway (\<lambda>_. None) gateway_env 1300000 sample_payload of
     Inl _ \<Rightarrow> False
   | Inr gu \<Rightarrow>
     (case (validate_workflow (\<lambda>_. None) gateway_env 1300000 sample_payload,
            forwardHeaders Some (sample_inbound\<lparr>in_user := Some gu\<rparr>)) of
        (Inr wu, Inr fw) \<Rightarrow> c_groups (buildRequestContext (proxied fw wu None)) = Some [''finance/q1'', ''hr'']
      | _ \<Rightarrow> False)"
proof -
  have "tk_sub sample_payload = Some ''u-1''" "list_all header_safe (normalizeGroups (tk_groups sample_payload))"
    by code_simp+
  from services_see_the_gateway_user [OF this, of "\<lambda>_. None" gateway_env 1300000 Some sample_inbound None]
  have "case validate_gateway (\<lambda>_. None) gateway_env 1300000 sample_payload of
      Inl e \<Rightarrow> True
    | Inr gu \<Rightarrow>
       (case validate_workflow (\<lambda>_. None) gateway_env 1300000 sample_payload of
          Inr wu \<Rightarrow>
            (case forwardHeaders Some (sample_inbound\<lparr>in_user := Some gu\<rparr>) of
               Inr fw \<Rightarrow> c_groups (buildRequestContext (proxied fw wu None)) = u_groups gu
             | Inl _ \<Rightarrow> buildAuthorizationHeader Some sample_inbound = None)
        | _ \<Rightarrow> False)"
    by (auto split: sum.splits)
  moreover have "buildAuthorizationHeader Some sample_inbound \<noteq> None" by code_simp
  moreover have "case validate_gateway (\<lambda>_. None) gateway_env 1300000 sample_payload of
      Inl _ \<Rightarrow> False | Inr gu \<Rightarrow> u_groups gu = Some [''finance/q1'', ''hr'']" by code_simp
  ultimately show ?thesis by (auto split: sum.splits)
qed

section \<open>Services among themselves\<close>

lemma acceptedTokens_iff:
  "t \<in> set (acceptedTokens ev) \<longleftrightarrow> trim t \<noteq> []
     \<and> (ev ''AUDIT_INGEST_TOKEN'' = Some t \<or> ev ''AUDIT_INGEST_TOKEN_PREVIOUS'' = Some t)"
proof -
  have "trim t \<noteq> [] \<Longrightarrow> t \<noteq> []" by (auto simp: trim_def)
  then show ?thesis
    by (auto simp: acceptedTokens_def truthy_def List.map_filter_def split: option.splits)
qed

text \<open>
  with a digest that keeps different secrets apart, the audit ingest takes exactly
  the configured tokens, current and previous, and a call escapes the rate limit
  exactly with the configured secret; where none is configured, nothing passes.
\<close>

theorem service_secrets_needed:
  assumes "inj digest"
  shows "(serviceTokenGuard digest ev h = Inr () \<longleftrightarrow>
      (\<exists>t. h = Some (JStr t) \<and> trim t \<noteq> []
        \<and> (ev ''AUDIT_INGEST_TOKEN'' = Some t \<or> ev ''AUDIT_INGEST_TOKEN_PREVIOUS'' = Some t)))
    \<and> (isInternalServiceCall digest ev h \<longleftrightarrow>
      (\<exists>t. h = Some (JStr t) \<and> trim t \<noteq> [] \<and> ev ''INTERNAL_CALL_SECRET'' = Some t))"
proof
  have d: "digest x = digest y \<longleftrightarrow> x = y" for x y using assms by (simp add: inj_eq)
  have "serviceTokenGuard digest ev h = Inr () \<longleftrightarrow> (\<exists>t. h = Some (JStr t) \<and> t \<in> set (acceptedTokens ev))"
    by (auto simp: serviceTokenGuard_def d list_ex_iff split: option.splits json.splits)
  then show "serviceTokenGuard digest ev h = Inr () \<longleftrightarrow>
      (\<exists>t. h = Some (JStr t) \<and> trim t \<noteq> []
        \<and> (ev ''AUDIT_INGEST_TOKEN'' = Some t \<or> ev ''AUDIT_INGEST_TOKEN_PREVIOUS'' = Some t))"
    by (simp only: acceptedTokens_iff)
  have "trim t \<noteq> [] \<Longrightarrow> t \<noteq> []" for t by (auto simp: trim_def)
  then show "isInternalServiceCall digest ev h \<longleftrightarrow>
      (\<exists>t. h = Some (JStr t) \<and> trim t \<noteq> [] \<and> ev ''INTERNAL_CALL_SECRET'' = Some t)"
    by (auto simp: isInternalServiceCall_def d truthy_def split: option.splits json.splits)
qed

theorem service_secrets_needed_witness:
  "serviceTokenGuard id [''AUDIT_INGEST_TOKEN'' \<mapsto> ''new'', ''AUDIT_INGEST_TOKEN_PREVIOUS'' \<mapsto> ''old'']
     (Some (JStr ''old'')) = Inr ()
   \<and> \<not> isInternalServiceCall id Map.empty (Some (JStr ''true''))"
  using service_secrets_needed [OF inj_on_id, of "[''AUDIT_INGEST_TOKEN'' \<mapsto> ''new'', ''AUDIT_INGEST_TOKEN_PREVIOUS'' \<mapsto> ''old'']"
      "Some (JStr ''old'')"]
    service_secrets_needed [OF inj_on_id, of Map.empty "Some (JStr ''true'')"]
  by (simp add: trim_def js_space_def)

end
