(* ===== verification/Routes.thy ===== *)
theory Routes
  imports Authentication
begin

text \<open>
  Routing: the paths and roles declared by the decorators of a controller, the
  dispatch of a request to the first route that matches, as the web framework
  documents it (literal segments in any case, parameters are non-empty segments), and
  \<open>RolesGuard\<close> (\<open>libs/auth/src/roles.guard.ts\<close>, the gateway's copy agrees with it).
  A path is written as in the source, a parameter with a colon.
\<close>

datatype http_method = Http_get | Http_post | Http_put | Http_patch | Http_delete

datatype path_part = Fixed string | Param string

fun path_part_of :: "string \<Rightarrow> path_part" where
  "path_part_of [] = Fixed []"
| "path_part_of (c # cs) = (if c = CHR '':'' then Param cs else Fixed (c # cs))"

definition path_parts :: "string \<Rightarrow> path_part list" where
  "path_parts path = map path_part_of (filter truthy (split_on (CHR ''/'') path))"

text \<open>
  A route with its guards: \<open>rt_jwt\<close> is \<open>AuthGuard('jwt')\<close>, \<open>rt_roles\<close> the argument of
  \<open>@Roles\<close>, empty where there is none, and \<open>rt_handler\<close> the method decorated.
\<close>

record route =
  rt_method :: http_method
  rt_path :: string
  rt_jwt :: bool
  rt_roles :: "string list"
  rt_handler :: string

definition secured :: "http_method \<Rightarrow> string \<Rightarrow> string list \<Rightarrow> string \<Rightarrow> route" where
  "secured m path roles handler = \<lparr> rt_method = m, rt_path = path, rt_jwt = True, rt_roles = roles, rt_handler = handler \<rparr>"

definition open_route :: "http_method \<Rightarrow> string \<Rightarrow> string \<Rightarrow> route" where
  "open_route m path handler = \<lparr> rt_method = m, rt_path = path, rt_jwt = False, rt_roles = [], rt_handler = handler \<rparr>"

definition ALL_ROLES :: "string list" where
  "ALL_ROLES = [''viewer'', ''editor'', ''approver'', ''compliance_officer'', ''admin'']"

definition CONTENT_ROLES :: "string list" where
  "CONTENT_ROLES = [''viewer'', ''editor'', ''approver'', ''admin'']"

definition AUDIT_ROLES :: "string list" where
  "AUDIT_ROLES = [''compliance_officer'', ''admin'']"

definition EDIT_ROLES :: "string list" where
  "EDIT_ROLES = [''editor'', ''admin'']"

definition APPROVE_ROLES :: "string list" where
  "APPROVE_ROLES = [''approver'', ''admin'']"

definition ACL_ROLES :: "string list" where
  "ACL_ROLES = [''editor'', ''approver'', ''compliance_officer'', ''admin'']"

section \<open>Guards\<close>

definition rolesAllow :: "string list \<Rightarrow> service_user option \<Rightarrow> bool" where
  "rolesAllow required user =
     (required = [] \<or> list_ex (\<lambda>role. role \<in> set (coalesce (Option.bind user u_roles) [])) required)"

definition guardRoute :: "route \<Rightarrow> service_user option \<Rightarrow> error + unit" where
  "guardRoute r user =
     (if rt_jwt r \<and> user = None then Inl (Unauthorized ''Unauthorized'')
      else if \<not> rolesAllow (rt_roles r) user then Inl (Forbidden ''Forbidden resource'')
      else Inr ())"

section \<open>Dispatch\<close>

fun match_parts :: "path_part list \<Rightarrow> string list \<Rightarrow> (string \<times> string) list option" where
  "match_parts [] [] = Some []"
| "match_parts (Fixed w # ps) (s # ss) = (if lower s = w then match_parts ps ss else None)"
| "match_parts (Param x # ps) (s # ss) = (if s = [] then None else map_option (Cons (x, s)) (match_parts ps ss))"
| "match_parts [] (_ # _) = None"
| "match_parts (_ # _) [] = None"

definition matches_route :: "http_method \<Rightarrow> string list \<Rightarrow> route \<Rightarrow> bool" where
  "matches_route m segments r = (rt_method r = m \<and> match_parts (path_parts (rt_path r)) segments \<noteq> None)"

text \<open>A service reads the path up to the query, with one slash in front.\<close>

definition url_segments :: "string \<Rightarrow> string list" where
  "url_segments url = split_on (CHR ''/'') (tl (takeWhile (\<lambda>c. c \<noteq> CHR ''?'') url))"

definition serviceDispatch :: "route list \<Rightarrow> http_method \<Rightarrow> string \<Rightarrow> route option" where
  "serviceDispatch routes m url = find (matches_route m (url_segments url)) routes"

section \<open>The services\<close>

text \<open>\<open>metadata-service/src/documents/documents.controller.ts\<close>.\<close>

definition documents_controller :: "route list" where
  "documents_controller = [
     secured Http_get ''documents'' ALL_ROLES ''findAll'',
     secured Http_get ''documents/trash'' EDIT_ROLES ''listTrash'',
     secured Http_post ''documents/:docId/restore'' EDIT_ROLES ''restoreFromTrash'',
     secured Http_get ''documents/:docId'' ALL_ROLES ''findOne'',
     secured Http_get ''documents/:docId/ai-guardrails'' ALL_ROLES ''getAiGuardrails'',
     secured Http_post ''documents/:docId/access-impact'' EDIT_ROLES ''getAccessImpactPreview'',
     secured Http_post ''documents'' EDIT_ROLES ''create'',
     secured Http_patch ''documents/:docId'' EDIT_ROLES ''update'',
     secured Http_post ''documents/:docId/approval-chain'' EDIT_ROLES ''setApprovalChain'',
     secured Http_post ''documents/:docId/approval-step/advance'' APPROVE_ROLES ''advanceApprovalStep'']"

definition documents_controller_access :: "route list" where
  "documents_controller_access = [
     secured Http_post ''documents/:docId/legal-hold'' [''admin''] ''setLegalHold'',
     secured Http_post ''documents/:docId/acl'' EDIT_ROLES ''upsertAcl'',
     secured Http_get ''documents/:docId/acl'' ACL_ROLES ''listAcl'',
     secured Http_delete ''documents/:docId/acl/:aclId'' EDIT_ROLES ''deleteAcl'',
     secured Http_post ''documents/:docId/versions'' EDIT_ROLES ''createVersion'',
     secured Http_post ''documents/:docId/versions/:version/restore'' EDIT_ROLES ''restoreVersion'',
     secured Http_post ''documents/:docId/status'' [''editor'', ''approver'', ''admin''] ''updateStatus'',
     secured Http_get ''documents/:docId/workflow-history'' ALL_ROLES ''getWorkflowHistory'']"

definition documents_controller_grants :: "route list" where
  "documents_controller_grants = [
     open_route Http_get ''documents/:docId/approvers'' ''getApprovers'',
     secured Http_post ''documents/:docId/download-authorize'' CONTENT_ROLES ''authorizeDownload'',
     secured Http_post ''documents/:docId/preview-authorize'' CONTENT_ROLES ''authorizePreview'',
     secured Http_get ''documents/:docId/comments'' ALL_ROLES ''listComments'',
     secured Http_post ''documents/:docId/comments'' ALL_ROLES ''addComment'',
     secured Http_put ''documents/:docId/comments/:commentId'' ALL_ROLES ''updateComment'',
     secured Http_delete ''documents/:docId/comments/:commentId'' ALL_ROLES ''deleteComment'']"

definition share_links_controller :: "route list" where
  "share_links_controller = [
     secured Http_post ''documents/:docId/share-links'' EDIT_ROLES ''create'',
     secured Http_get ''documents/:docId/share-links'' EDIT_ROLES ''list'',
     secured Http_delete ''documents/:docId/share-links/:linkId'' EDIT_ROLES ''revoke'',
     secured Http_post ''share-links/redeem'' CONTENT_ROLES ''redeem'']"

definition saved_views_controller :: "route list" where
  "saved_views_controller = [
     secured Http_get ''document-saved-views'' ALL_ROLES ''findAll'',
     secured Http_post ''document-saved-views'' ALL_ROLES ''create'',
     secured Http_delete ''document-saved-views/:id'' ALL_ROLES ''delete'']"

definition retention_controller :: "route list" where
  "retention_controller = [
     secured Http_get ''retention/documents'' AUDIT_ROLES ''list'',
     secured Http_post ''retention/run'' [''admin''] ''run'']"

definition org_controller :: "route list" where
  "org_controller = [
     secured Http_get ''orgs/me'' [] ''getMyOrg'',
     secured Http_get ''orgs/members'' ACL_ROLES ''listMembers'',
     secured Http_post ''orgs/members'' [''admin''] ''addMember'',
     secured Http_patch ''orgs/members/:userId'' [''admin''] ''updateMemberRole'',
     secured Http_delete ''orgs/members/:userId'' [''admin''] ''removeMember'']"

definition metadata_service_routes :: "route list" where
  "metadata_service_routes = documents_controller @ documents_controller_access @ documents_controller_grants
     @ share_links_controller @ saved_views_controller @ retention_controller @ org_controller"

definition workflow_service_routes :: "route list" where
  "workflow_service_routes = [
     secured Http_post ''workflow/:docId/submit'' EDIT_ROLES ''submit'',
     secured Http_post ''workflow/:docId/approve'' APPROVE_ROLES ''approve'',
     secured Http_post ''workflow/:docId/reject'' APPROVE_ROLES ''reject'',
     secured Http_post ''workflow/:docId/archive'' EDIT_ROLES ''archive'',
     secured Http_delete ''workflow/:docId'' EDIT_ROLES ''delete'']"

definition document_service_routes :: "route list" where
  "document_service_routes = [
     secured Http_post ''documents/:docId/upload'' EDIT_ROLES ''upload'',
     secured Http_post ''documents/:docId/presign-download'' CONTENT_ROLES ''presignDownload'',
     secured Http_get ''documents/:docId/versions/:version/stream'' CONTENT_ROLES ''streamVersion'',
     secured Http_get ''documents/:docId/preview'' CONTENT_ROLES ''preview'']"

text \<open>The ingest route is guarded by the service token, not by a user.\<close>

definition audit_service_routes :: "route list" where
  "audit_service_routes = [
     open_route Http_post ''audit/events'' ''create'',
     secured Http_get ''audit/query'' AUDIT_ROLES ''query'',
     secured Http_get ''audit/verify-chain'' AUDIT_ROLES ''verifyChain'',
     secured Http_post ''audit/chain/seal-and-start-epoch'' AUDIT_ROLES ''sealCompromisedChainAndStartEpoch'',
     secured Http_get ''audit/security-summary'' AUDIT_ROLES ''securitySummary'',
     secured Http_patch ''audit/security-recommendations/:id/workflow'' AUDIT_ROLES ''updateSecurityRecommendationWorkflow'',
     secured Http_get ''audit/security-recommendations/:id/workflow-history'' AUDIT_ROLES
       ''getSecurityRecommendationWorkflowHistory'']"

definition notification_service_routes :: "route list" where
  "notification_service_routes = [
     secured Http_post ''notify'' [] ''notify'',
     secured Http_get ''notify'' [] ''list'',
     open_route Http_get ''notify/unread-count'' ''unreadCount'',
     secured Http_post ''notify/:id/read'' [] ''markAsRead'',
     secured Http_post ''notify/mark-read'' [] ''markAllRead'']"

datatype service = To_metadata | To_documents | To_workflow | To_audit | To_notifications

fun serviceRoutes :: "service \<Rightarrow> route list" where
  "serviceRoutes To_metadata = metadata_service_routes"
| "serviceRoutes To_documents = document_service_routes"
| "serviceRoutes To_workflow = workflow_service_routes"
| "serviceRoutes To_audit = audit_service_routes"
| "serviceRoutes To_notifications = notification_service_routes"

end
