(* ===== verification/Gateway_Routes.thy ===== *)
theory Gateway_Routes
  imports Routes
begin

text \<open>
  The proxy controllers of the gateway (\<open>gateway/src/proxy/*.proxy.controller.ts\<close>): which
  route needs which roles, where it forwards to, what of the query and body goes
  along, and which routes need a step-up proof first. A target is written like a path,
  with the parameters of the route.
\<close>

datatype query_rule = No_query | Whole_query | Only_version

record proxy_route =
  px_route :: route
  px_forwards :: "(service \<times> http_method \<times> string) list"
  px_query :: query_rule
  px_body :: bool
  px_proof :: "sensitive_action option"

text \<open>A route that forwards as it is.\<close>

definition forwards :: "route \<Rightarrow> service \<Rightarrow> string \<Rightarrow> query_rule \<Rightarrow> bool \<Rightarrow> proxy_route" where
  "forwards r svc target query body = \<lparr> px_route = r, px_forwards = [(svc, rt_method r, target)], px_query = query,
     px_body = body, px_proof = None \<rparr>"

section \<open>metadata.proxy.controller.ts\<close>

definition metadata_list_routes :: "proxy_route list" where
  "metadata_list_routes = [
     forwards (secured Http_get ''metadata/documents'' ALL_ROLES ''list'') To_metadata ''documents'' Whole_query False,
     forwards (secured Http_get ''metadata/documents/trash'' EDIT_ROLES ''listTrash'') To_metadata ''documents/trash'' No_query False,
     forwards (secured Http_post ''metadata/documents/:docId/restore'' EDIT_ROLES ''restoreFromTrash'')
       To_metadata ''documents/:docId/restore'' No_query False,
     forwards (secured Http_get ''metadata/retention/documents'' AUDIT_ROLES ''listRetention'')
       To_metadata ''retention/documents'' Whole_query False]"

text \<open>
  The access review reads the list; the details of its sensitive rows follow in
  \<open>listAccessReviewDocuments\<close> below.
\<close>

definition access_review_route :: proxy_route where
  "access_review_route = forwards (secured Http_get ''metadata/access-review/documents'' AUDIT_ROLES ''listAccessReviewDocuments'')
     To_metadata ''documents'' Whole_query False"

definition retention_run_route :: proxy_route where
  "retention_run_route = \<lparr> px_route = secured Http_post ''metadata/retention/run'' [''admin''] ''runRetention'',
     px_forwards = [(To_metadata, Http_post, ''retention/run'')], px_query = Whole_query, px_body = False,
     px_proof = Some Run_retention \<rparr>"

text \<open>The proof itself is issued by the gateway.\<close>

definition proof_route :: proxy_route where
  "proof_route = \<lparr> px_route = secured Http_post ''metadata/sensitive-actions/proof'' AUDIT_ROLES ''issueSensitiveActionProof'',
     px_forwards = [], px_query = No_query, px_body = True, px_proof = None \<rparr>"

definition metadata_find_route :: proxy_route where
  "metadata_find_route = forwards (secured Http_get ''metadata/documents/:docId'' ALL_ROLES ''findOne'')
     To_metadata ''documents/:docId'' Whole_query False"

definition evidence_packet_route :: proxy_route where
  "evidence_packet_route = \<lparr> px_route = secured Http_get ''metadata/documents/:docId/evidence-packet'' AUDIT_ROLES ''getEvidencePacket'',
     px_forwards = [(To_metadata, Http_get, ''documents/:docId''), (To_metadata, Http_get, ''documents/:docId/workflow-history''),
       (To_metadata, Http_get, ''retention/documents''), (To_audit, Http_get, ''audit/verify-chain''),
       (To_audit, Http_get, ''audit/query'')],
     px_query = No_query, px_body = False, px_proof = Some Export_evidence_packet \<rparr>"

definition metadata_edit_routes :: "proxy_route list" where
  "metadata_edit_routes = [
     forwards (secured Http_get ''metadata/documents/:docId/ai-guardrails'' ALL_ROLES ''getAiGuardrails'')
       To_metadata ''documents/:docId/ai-guardrails'' No_query False,
     forwards (secured Http_post ''metadata/documents/:docId/access-impact'' EDIT_ROLES ''getAccessImpactPreview'')
       To_metadata ''documents/:docId/access-impact'' No_query True,
     forwards (secured Http_post ''metadata/documents'' EDIT_ROLES ''create'') To_metadata ''documents'' No_query True,
     forwards (secured Http_get ''metadata/document-saved-views'' ALL_ROLES ''listDocumentSavedViews'')
       To_metadata ''document-saved-views'' No_query False,
     forwards (secured Http_post ''metadata/document-saved-views'' ALL_ROLES ''createDocumentSavedView'')
       To_metadata ''document-saved-views'' No_query True,
     forwards (secured Http_delete ''metadata/document-saved-views/:id'' ALL_ROLES ''deleteDocumentSavedView'')
       To_metadata ''document-saved-views/:id'' No_query False,
     forwards (secured Http_patch ''metadata/documents/:docId'' EDIT_ROLES ''update'') To_metadata ''documents/:docId'' No_query True]"

definition metadata_access_routes :: "proxy_route list" where
  "metadata_access_routes = [
     forwards (secured Http_post ''metadata/documents/:docId/acl'' EDIT_ROLES ''upsertAcl'')
       To_metadata ''documents/:docId/acl'' No_query True,
     forwards (secured Http_get ''metadata/documents/:docId/acl'' ACL_ROLES ''listAcl'')
       To_metadata ''documents/:docId/acl'' No_query False,
     forwards (secured Http_post ''metadata/documents/:docId/share-links'' EDIT_ROLES ''createShareLink'')
       To_metadata ''documents/:docId/share-links'' No_query True,
     forwards (secured Http_get ''metadata/documents/:docId/share-links'' EDIT_ROLES ''listShareLinks'')
       To_metadata ''documents/:docId/share-links'' No_query False,
     forwards (secured Http_delete ''metadata/documents/:docId/share-links/:linkId'' EDIT_ROLES ''revokeShareLink'')
       To_metadata ''documents/:docId/share-links/:linkId'' No_query False,
     forwards (secured Http_post ''metadata/share-links/redeem'' CONTENT_ROLES ''redeemShareLink'')
       To_metadata ''share-links/redeem'' No_query True,
     forwards (secured Http_post ''metadata/documents/:docId/approval-chain'' EDIT_ROLES ''setApprovalChain'')
       To_metadata ''documents/:docId/approval-chain'' No_query True,
     forwards (secured Http_get ''metadata/documents/:docId/approvers'' EDIT_ROLES ''getDocumentApprovers'')
       To_metadata ''documents/:docId/approvers'' No_query False]"

definition metadata_state_routes :: "proxy_route list" where
  "metadata_state_routes = [
     forwards (secured Http_post ''metadata/documents/:docId/legal-hold'' [''admin''] ''setLegalHold'')
       To_metadata ''documents/:docId/legal-hold'' No_query True,
     forwards (secured Http_post ''metadata/documents/:docId/versions'' EDIT_ROLES ''createVersion'')
       To_metadata ''documents/:docId/versions'' No_query True,
     forwards (secured Http_post ''metadata/documents/:docId/versions/:version/restore'' EDIT_ROLES ''restoreVersion'')
       To_metadata ''documents/:docId/versions/:version/restore'' No_query False,
     forwards (secured Http_post ''metadata/documents/:docId/status'' [''editor'', ''approver'', ''admin''] ''updateStatus'')
       To_metadata ''documents/:docId/status'' No_query True,
     forwards (secured Http_post ''metadata/documents/:docId/download-authorize'' CONTENT_ROLES ''authorizeDownload'')
       To_metadata ''documents/:docId/download-authorize'' No_query True]"

definition metadata_view_routes :: "proxy_route list" where
  "metadata_view_routes = [
     forwards (secured Http_post ''metadata/documents/:docId/preview-authorize'' CONTENT_ROLES ''authorizePreview'')
       To_metadata ''documents/:docId/preview-authorize'' No_query True,
     forwards (secured Http_get ''metadata/documents/:docId/workflow-history'' ALL_ROLES ''getWorkflowHistory'')
       To_metadata ''documents/:docId/workflow-history'' No_query False,
     forwards (secured Http_get ''metadata/documents/:docId/comments'' ALL_ROLES ''listComments'')
       To_metadata ''documents/:docId/comments'' No_query False,
     forwards (secured Http_post ''metadata/documents/:docId/comments'' ALL_ROLES ''addComment'')
       To_metadata ''documents/:docId/comments'' No_query True]"

definition metadata_proxy_routes :: "proxy_route list" where
  "metadata_proxy_routes = metadata_list_routes @ [access_review_route, retention_run_route, proof_route, metadata_find_route,
     evidence_packet_route] @ metadata_edit_routes @ metadata_access_routes @ metadata_state_routes @ metadata_view_routes"

section \<open>The other controllers\<close>

definition documents_proxy_routes :: "proxy_route list" where
  "documents_proxy_routes = [
     forwards (secured Http_post ''documents/:docId/upload'' EDIT_ROLES ''upload'')
       To_documents ''documents/:docId/upload'' No_query True,
     forwards (secured Http_post ''documents/:docId/presign-download'' CONTENT_ROLES ''presignDownload'')
       To_documents ''documents/:docId/presign-download'' No_query True,
     forwards (secured Http_get ''documents/:docId/versions/:version/stream'' CONTENT_ROLES ''streamVersion'')
       To_documents ''documents/:docId/versions/:version/stream'' Whole_query False,
     forwards (secured Http_get ''documents/:docId/preview'' CONTENT_ROLES ''preview'')
       To_documents ''documents/:docId/preview'' Only_version False]"

definition workflow_proxy_routes :: "proxy_route list" where
  "workflow_proxy_routes = [
     forwards (secured Http_post ''workflow/:docId/submit'' EDIT_ROLES ''submit'') To_workflow ''workflow/:docId/submit'' No_query False,
     forwards (secured Http_post ''workflow/:docId/approve'' APPROVE_ROLES ''approve'')
       To_workflow ''workflow/:docId/approve'' No_query False,
     forwards (secured Http_post ''workflow/:docId/reject'' APPROVE_ROLES ''reject'')
       To_workflow ''workflow/:docId/reject'' No_query True,
     forwards (secured Http_post ''workflow/:docId/archive'' EDIT_ROLES ''archive'')
       To_workflow ''workflow/:docId/archive'' No_query False,
     forwards (secured Http_delete ''workflow/:docId'' EDIT_ROLES ''deleteDocument'') To_workflow ''workflow/:docId'' No_query False]"

text \<open>
  The ingest route checks the service token in its handler, before it forwards; the
  parameters of the recommendation routes are encoded again, so they stay one segment.
\<close>

definition audit_proxy_routes :: "proxy_route list" where
  "audit_proxy_routes = [
     forwards (secured Http_post ''audit/events'' [] ''create'') To_audit ''audit/events'' No_query True,
     forwards (secured Http_get ''audit/query'' AUDIT_ROLES ''query'') To_audit ''audit/query'' Whole_query False,
     forwards (secured Http_get ''audit/verify-chain'' AUDIT_ROLES ''verifyChain'') To_audit ''audit/verify-chain'' Whole_query False,
     forwards (secured Http_post ''audit/chain/seal-and-start-epoch'' AUDIT_ROLES ''sealCompromisedChainAndStartEpoch'')
       To_audit ''audit/chain/seal-and-start-epoch'' No_query True,
     forwards (secured Http_get ''audit/security-summary'' AUDIT_ROLES ''securitySummary'')
       To_audit ''audit/security-summary'' No_query False,
     forwards (secured Http_patch ''audit/security-recommendations/:id/workflow'' AUDIT_ROLES ''updateSecurityRecommendationWorkflow'')
       To_audit ''audit/security-recommendations/:id/workflow'' No_query True,
     forwards (secured Http_get ''audit/security-recommendations/:id/workflow-history'' AUDIT_ROLES
         ''getSecurityRecommendationWorkflowHistory'')
       To_audit ''audit/security-recommendations/:id/workflow-history'' No_query False]"

definition notify_proxy_routes :: "proxy_route list" where
  "notify_proxy_routes = [
     forwards (secured Http_post ''notify'' [] ''notify'') To_notifications ''notify'' No_query True,
     forwards (secured Http_get ''notify'' [] ''list'') To_notifications ''notify'' No_query False,
     forwards (secured Http_post ''notify/mark-read'' [] ''markAllRead'') To_notifications ''notify/mark-read'' No_query False,
     forwards (secured Http_get ''notify/unread-count'' [] ''unreadCount'') To_notifications ''notify/unread-count'' No_query False,
     forwards (secured Http_post ''notify/:id/read'' [] ''markAsRead'') To_notifications ''notify/:id/read'' No_query False]"

text \<open>The groups are read from Keycloak, so this route forwards nothing.\<close>

definition org_proxy_routes :: "proxy_route list" where
  "org_proxy_routes = [
     forwards (secured Http_get ''orgs/me'' [] ''getMyOrg'') To_metadata ''orgs/me'' No_query False,
     forwards (secured Http_post ''orgs/members'' [''admin''] ''addMember'') To_metadata ''orgs/members'' No_query True,
     forwards (secured Http_get ''orgs/members'' ACL_ROLES ''listMembers'') To_metadata ''orgs/members'' No_query False,
     \<lparr> px_route = secured Http_get ''orgs/groups'' ACL_ROLES ''listGroups'', px_forwards = [], px_query = No_query,
       px_body = False, px_proof = None \<rparr>,
     forwards (secured Http_patch ''orgs/members/:userId'' [''admin''] ''updateMemberRole'')
       To_metadata ''orgs/members/:userId'' No_query True,
     forwards (secured Http_delete ''orgs/members/:userId'' [''admin''] ''removeMember'')
       To_metadata ''orgs/members/:userId'' No_query False]"

definition gateway_routes :: "proxy_route list" where
  "gateway_routes = metadata_proxy_routes @ documents_proxy_routes @ workflow_proxy_routes @ audit_proxy_routes
     @ notify_proxy_routes @ org_proxy_routes"

section \<open>Forwarding\<close>

text \<open>A template literal with the parameters of the request.\<close>

definition part_text :: "(string \<Rightarrow> string) \<Rightarrow> path_part \<Rightarrow> string" where
  "part_text vals p = (case p of Fixed w \<Rightarrow> w | Param x \<Rightarrow> vals x)"

definition fill :: "(string \<Rightarrow> string) \<Rightarrow> string \<Rightarrow> string" where
  "fill vals target = CHR ''/'' # join_with ''/'' (map (part_text vals) (path_parts target))"

definition gatewayDispatch :: "http_method \<Rightarrow> string list \<Rightarrow> proxy_route option" where
  "gatewayDispatch m segments = find (\<lambda>p. matches_route m segments (px_route p)) gateway_routes"

definition parameters :: "(string \<Rightarrow> string) \<Rightarrow> route \<Rightarrow> string list \<Rightarrow> string \<Rightarrow> string" where
  "parameters decode r segments x =
     decode (coalesce (map_of (coalesce (match_parts (path_parts (rt_path r)) segments) []) x) [])"

text \<open>
  A request at the gateway: its route, the guards, the proof where one is needed, then
  the targets it is forwarded to. \<open>decode\<close> is the decoding of a parameter by the
  framework, \<open>check\<close> the proof check of the request.
\<close>

definition gatewayHandle :: "(string \<Rightarrow> string) \<Rightarrow> (sensitive_action \<Rightarrow> error + unit) \<Rightarrow> http_method \<Rightarrow> string list \<Rightarrow>
  service_user option \<Rightarrow> error + (service \<times> http_method \<times> string) list" where
  "gatewayHandle decode check m segments user =
     (case gatewayDispatch m segments of
        None \<Rightarrow> Inl (NotFound ''Cannot find the route'')
      | Some p \<Rightarrow>
          (case guardRoute (px_route p) user of
             Inl e \<Rightarrow> Inl e
           | Inr _ \<Rightarrow>
               (case (case px_proof p of None \<Rightarrow> Inr () | Some action \<Rightarrow> check action) of
                  Inl e \<Rightarrow> Inl e
                | Inr _ \<Rightarrow> Inr (map (\<lambda>(svc, m, target). (svc, m, fill (parameters decode (px_route p) segments) target))
                    (px_forwards p)))))"

text \<open>A forwarded request at its service: the handler that gets it.\<close>

definition serviceHandle :: "service \<times> http_method \<times> string \<Rightarrow> service_user option \<Rightarrow> error + string" where
  "serviceHandle f user =
     (case f of (svc, m, url) \<Rightarrow>
        case serviceDispatch (serviceRoutes svc) m url of
          None \<Rightarrow> Inl (NotFound ''Cannot find the route'')
        | Some r \<Rightarrow> (case guardRoute r user of Inl e \<Rightarrow> Inl e | Inr _ \<Rightarrow> Inr (rt_handler r)))"

end
