(* ===== verification/Gateway_Properties.thy ===== *)
theory Gateway_Properties
  imports Gateway_Routes Authentication_Properties Text_Scan
begin

text \<open>
  The gateway and the services behind it: whoever passes the gateway passes the
  service its request is forwarded to, and the services repeat the roles of the
  gateway, the approver directory, the unread count, the audit ingest and the list an
  access review starts from excepted. The
  argument compares the two route tables by their patterns.
\<close>

section \<open>Paths\<close>

definition plain_id :: "string \<Rightarrow> bool" where
  "plain_id v = (v \<noteq> [] \<and> list_all (\<lambda>c. word_char c \<or> c = CHR ''-'') v \<and> lower v \<noteq> ''trash'')"

fun param_names :: "path_part list \<Rightarrow> string list" where
  "param_names [] = []"
| "param_names (Fixed w # ps) = param_names ps"
| "param_names (Param x # ps) = x # param_names ps"

text \<open>Whether a pattern could match a target filled with identifiers, and whether it does.\<close>

fun clash :: "path_part list \<Rightarrow> path_part list \<Rightarrow> bool" where
  "clash [] [] = True"
| "clash (Fixed w # ps) (Fixed v # ts) = (lower v = w \<and> clash ps ts)"
| "clash (Fixed w # ps) (Param x # ts) = (w \<noteq> ''trash'' \<and> clash ps ts)"
| "clash (Param y # ps) (t # ts) = clash ps ts"
| "clash [] (_ # _) = False"
| "clash (_ # _) [] = False"

fun covers :: "path_part list \<Rightarrow> path_part list \<Rightarrow> bool" where
  "covers [] [] = True"
| "covers (Fixed w # ps) (Fixed v # ts) = (lower v = w \<and> covers ps ts)"
| "covers (Param y # ps) (Param x # ts) = covers ps ts"
| "covers _ _ = False"

lemma match_parts_names: "match_parts ps ss = Some vals \<Longrightarrow> map fst vals = param_names ps"
  by (induction ps ss arbitrary: vals rule: match_parts.induct) (auto split: if_splits)

lemma clash_sound:
  assumes "match_parts ps (map (part_text vals) ts) \<noteq> None" "list_all (\<lambda>x. plain_id (vals x)) (param_names ts)"
  shows "clash ps ts"
  using assms
proof (induction ps ts rule: clash.induct)
  case (4 y ps t ts)
  then show ?case by (cases t) (auto simp: part_text_def split: if_splits)
qed (auto simp: part_text_def plain_id_def split: if_splits)

lemma covers_sound:
  assumes "covers ps ts" "list_all (\<lambda>x. plain_id (vals x)) (param_names ts)"
  shows "match_parts ps (map (part_text vals) ts) \<noteq> None"
  using assms by (induction ps ts rule: covers.induct) (auto simp: part_text_def plain_id_def)

lemma find_narrow:
  assumes "find Q xs = Some r" "P r" "\<And>x. P x \<Longrightarrow> Q x"
  shows "find P xs = Some r"
  using assms(1) by (induction xs) (auto simp: assms(2) dest: assms(3) split: if_splits)

definition clean_text :: "string \<Rightarrow> bool" where
  "clean_text s = (CHR ''/'' \<notin> set s \<and> CHR ''?'' \<notin> set s)"

lemma identifier_clean: "plain_id v \<Longrightarrow> clean_text v"
proof -
  have "\<not> word_char CHR ''/''" "\<not> word_char CHR ''?''" by code_simp+
  then show "plain_id v \<Longrightarrow> clean_text v" by (auto simp: plain_id_def clean_text_def list_all_iff)
qed

lemma query_free_join: "list_all clean_text ss \<Longrightarrow> CHR ''?'' \<notin> set (join_with ''/'' ss)"
  by (induction ss rule: induct_list012) (auto simp: clean_text_def)

lemma url_segments_fill:
  assumes "ss \<noteq> []" "list_all clean_text ss"
  shows "url_segments (CHR ''/'' # join_with ''/'' ss) = ss"
proof -
  have "takeWhile (\<lambda>c. c \<noteq> CHR ''?'') (join_with ''/'' ss) = join_with ''/'' ss"
    using query_free_join [OF assms(2)] by (auto simp: takeWhile_eq_all_conv)
  then have "url_segments (CHR ''/'' # join_with ''/'' ss) = split_on (CHR ''/'') (join_with ''/'' ss)"
    by (simp only: url_segments_def list.sel takeWhile.simps) simp
  moreover have "split_on (CHR ''/'') (join_with ''/'' ss) = ss"
    using assms by (intro split_on_join) (auto simp: clean_text_def list_all_iff)
  ultimately show ?thesis by simp
qed

fun clean_part :: "path_part \<Rightarrow> bool" where
  "clean_part (Fixed w) = clean_text w"
| "clean_part (Param x) = True"

lemma parts_clean:
  "list_all clean_part ts \<Longrightarrow> list_all (\<lambda>x. plain_id (vals x)) (param_names ts)
    \<Longrightarrow> list_all clean_text (map (part_text vals) ts)"
  by (induction ts rule: param_names.induct) (auto simp: part_text_def identifier_clean)

section \<open>The two route tables\<close>

definition resolve :: "service \<Rightarrow> http_method \<Rightarrow> string \<Rightarrow> route option" where
  "resolve svc m target =
     find (\<lambda>r. rt_method r = m \<and> clash (path_parts (rt_path r)) (path_parts target)) (serviceRoutes svc)"

lemma resolve_dispatch:
  assumes "resolve svc m target = Some r" "covers (path_parts (rt_path r)) (path_parts target)"
    and "path_parts target \<noteq> []" "list_all clean_part (path_parts target)"
    and "list_all (\<lambda>x. plain_id (vals x)) (param_names (path_parts target))"
  shows "serviceDispatch (serviceRoutes svc) m (fill vals target) = Some r"
proof -
  have s: "url_segments (fill vals target) = map (part_text vals) (path_parts target)"
    unfolding fill_def using assms(3) parts_clean [OF assms(4,5)] by (intro url_segments_fill) simp_all
  have "rt_method r = m" using assms(1) by (auto simp: resolve_def find_Some_iff)
  then show ?thesis
    using assms(1) covers_sound [OF assms(2,5)] clash_sound [OF _ assms(5)]
    unfolding serviceDispatch_def resolve_def s by (elim find_narrow) (auto simp: matches_route_def)
qed

text \<open>
  The requests, by the gateway's route and the target they are forwarded to, for which
  the service asks for less than the gateway: five routes of the gateway, of which the
  one of the evidence packet forwards two such requests.
\<close>

definition laxer :: "(string \<times> string) list" where
  "laxer = [(''metadata/access-review/documents'', ''documents''),
     (''metadata/documents/:docId/evidence-packet'', ''documents/:docId''),
     (''metadata/documents/:docId/evidence-packet'', ''documents/:docId/workflow-history''),
     (''metadata/documents/:docId/approvers'', ''documents/:docId/approvers''),
     (''audit/events'', ''audit/events''), (''notify/unread-count'', ''notify/unread-count'')]"

definition viewer :: service_user where
  "viewer = \<lparr> u_sub = Some ''v-1'', u_username = None, u_roles = Some [''viewer''], u_groups = None \<rparr>"

definition role_sets_agree :: "string list \<Rightarrow> string list \<Rightarrow> bool" where
  "role_sets_agree xs ys = (list_all (\<lambda>x. x \<in> set ys) xs \<and> list_all (\<lambda>y. y \<in> set xs) ys)"

definition forward_ok :: "proxy_route \<Rightarrow> service \<times> http_method \<times> string \<Rightarrow> bool" where
  "forward_ok p f =
     (case f of (svc, m, target) \<Rightarrow>
        case resolve svc m target of
          None \<Rightarrow> False
        | Some r \<Rightarrow> covers (path_parts (rt_path r)) (path_parts target) \<and> path_parts target \<noteq> []
            \<and> list_all clean_part (path_parts target)
            \<and> list_all (\<lambda>x. x \<in> set (param_names (path_parts (rt_path (px_route p))))) (param_names (path_parts target))
            \<and> rt_jwt (px_route p)
            \<and> (rt_roles r = [] \<or> rt_roles (px_route p) \<noteq> [] \<and> list_all (\<lambda>x. x \<in> set (rt_roles r)) (rt_roles (px_route p)))
            \<and> (if (rt_path (px_route p), target) \<in> set laxer
               then list_ex (\<lambda>user. isl (guardRoute (px_route p) user) \<and> \<not> isl (guardRoute r user)) [None, Some viewer]
               else rt_jwt r \<and> role_sets_agree (rt_roles r) (rt_roles (px_route p))))"

definition table_ok :: "proxy_route list \<Rightarrow> bool" where
  "table_ok ps = list_all (\<lambda>p. list_all (forward_ok p) (px_forwards p)) ps"

lemma table_ok_append: "table_ok (ps @ qs) = (table_ok ps \<and> table_ok qs)"
  by (simp add: table_ok_def)

lemma list_table_ok: "table_ok metadata_list_routes"
  by code_simp

lemma composed_table_ok:
  "table_ok [access_review_route, retention_run_route, proof_route, metadata_find_route, evidence_packet_route]"
  by code_simp

lemma edit_table_ok: "table_ok metadata_edit_routes"
  by code_simp

lemma access_table_ok: "table_ok metadata_access_routes"
  by code_simp

lemma state_table_ok: "table_ok metadata_state_routes"
  by code_simp

lemma view_table_ok: "table_ok metadata_view_routes"
  by code_simp

lemma other_tables_ok: "table_ok (documents_proxy_routes @ workflow_proxy_routes @ audit_proxy_routes @ notify_proxy_routes)"
  by code_simp

lemma org_table_ok: "table_ok org_proxy_routes"
  by code_simp

lemma gateway_table_ok: "table_ok gateway_routes"
  using list_table_ok composed_table_ok edit_table_ok access_table_ok state_table_ok view_table_ok other_tables_ok org_table_ok
  by (simp only: gateway_routes_def metadata_proxy_routes_def table_ok_append simp_thms)

lemma forwards_ok:
  assumes "gatewayDispatch m segments = Some p" "f \<in> set (px_forwards p)"
  shows "forward_ok p f"
proof -
  have "p \<in> set gateway_routes" using assms(1) by (auto simp: gatewayDispatch_def find_Some_iff)
  then show ?thesis
    using gateway_table_ok assms(2) by (auto simp: table_ok_def list_all_iff)
qed

text \<open>The parameters of a dispatched request.\<close>

lemma dispatched_match:
  assumes "gatewayDispatch m segments = Some p"
  obtains ps where "match_parts (path_parts (rt_path (px_route p))) segments = Some ps"
  using assms by (auto simp: gatewayDispatch_def find_Some_iff matches_route_def)

definition request_ids :: "(string \<Rightarrow> string) \<Rightarrow> proxy_route \<Rightarrow> string list \<Rightarrow> bool" where
  "request_ids decode p segments = list_all (\<lambda>(x, v). plain_id (decode v))
     (coalesce (match_parts (path_parts (rt_path (px_route p))) segments) [])"

lemma parameters_plain:
  assumes "request_ids decode p segments" "gatewayDispatch m segments = Some p"
    and "x \<in> set (param_names (path_parts (rt_path (px_route p))))"
  shows "plain_id (parameters decode (px_route p) segments x)"
proof -
  obtain ps where ps: "match_parts (path_parts (rt_path (px_route p))) segments = Some ps"
    using dispatched_match [OF assms(2)] .
  then have "x \<in> fst ` set ps" using assms(3) match_parts_names [OF ps] by (metis list.set_map)
  then obtain v where "map_of ps x = Some v" by (meson map_of_eq_None_iff not_None_eq)
  then show ?thesis
    using assms(1) map_of_SomeD by (fastforce simp: request_ids_def parameters_def ps list_all_iff)
qed

lemma forward_lands:
  assumes "gatewayDispatch m segments = Some p" "request_ids decode p segments" "(svc, m', target) \<in> set (px_forwards p)"
  obtains r where "serviceDispatch (serviceRoutes svc) m' (fill (parameters decode (px_route p) segments) target) = Some r"
    "rt_jwt (px_route p)"
    "rt_roles r = [] \<or> rt_roles (px_route p) \<noteq> [] \<and> list_all (\<lambda>x. x \<in> set (rt_roles r)) (rt_roles (px_route p))"
    "if (rt_path (px_route p), target) \<in> set laxer
      then \<exists>user. isl (guardRoute (px_route p) user) \<and> \<not> isl (guardRoute r user)
      else rt_jwt r \<and> role_sets_agree (rt_roles r) (rt_roles (px_route p))"
proof -
  from forwards_ok [OF assms(1,3)] obtain r where r: "resolve svc m' target = Some r"
    and ok: "covers (path_parts (rt_path r)) (path_parts target)" "path_parts target \<noteq> []"
      "list_all clean_part (path_parts target)"
      "list_all (\<lambda>x. x \<in> set (param_names (path_parts (rt_path (px_route p))))) (param_names (path_parts target))"
    and g: "rt_jwt (px_route p)"
      "rt_roles r = [] \<or> rt_roles (px_route p) \<noteq> [] \<and> list_all (\<lambda>x. x \<in> set (rt_roles r)) (rt_roles (px_route p))"
    "if (rt_path (px_route p), target) \<in> set laxer
      then \<exists>user. isl (guardRoute (px_route p) user) \<and> \<not> isl (guardRoute r user)
      else rt_jwt r \<and> role_sets_agree (rt_roles r) (rt_roles (px_route p))"
    by (auto simp: forward_ok_def split: option.splits if_splits)
  have "list_all (\<lambda>x. plain_id (parameters decode (px_route p) segments x)) (param_names (path_parts target))"
    using ok(4) parameters_plain [OF assms(2,1)] by (auto simp: list_all_iff)
  from that [OF resolve_dispatch [OF r ok(1-3) this] g] show thesis .
qed

lemma rolesAllow_subset:
  "rs = [] \<or> ps \<noteq> [] \<and> list_all (\<lambda>x. x \<in> set rs) ps \<Longrightarrow> rolesAllow ps u \<Longrightarrow> rolesAllow rs u"
  by (auto simp: rolesAllow_def list_ex_iff list_all_iff)

lemma rolesAllow_agree: "role_sets_agree xs ys \<Longrightarrow> rolesAllow xs u = rolesAllow ys u"
proof -
  assume "role_sets_agree xs ys"
  then have "set xs = set ys" by (auto simp: role_sets_agree_def list_all_iff)
  then have "(xs = []) = (ys = [])" "list_ex P xs = list_ex P ys" for P by (auto simp: list_ex_iff)
  then show ?thesis by (simp add: rolesAllow_def)
qed

lemma gateway_and_services:
  assumes "gatewayDispatch m segments = Some p" "request_ids decode p segments" "(svc, m', target) \<in> set (px_forwards p)"
    and f: "f = (svc, m', fill (parameters decode (px_route p) segments) target)"
  shows "\<not> isl (guardRoute (px_route p) user) \<Longrightarrow> \<not> isl (serviceHandle f user)"
    and "(rt_path (px_route p), target) \<notin> set laxer \<Longrightarrow> isl (serviceHandle f user) = isl (guardRoute (px_route p) user)"
    and "(rt_path (px_route p), target) \<in> set laxer
      \<Longrightarrow> \<exists>other. isl (guardRoute (px_route p) other) \<and> \<not> isl (serviceHandle f other)"
proof -
  obtain r where r: "serviceDispatch (serviceRoutes svc) m' (fill (parameters decode (px_route p) segments) target) = Some r"
    "rt_jwt (px_route p)"
    "rt_roles r = [] \<or> rt_roles (px_route p) \<noteq> [] \<and> list_all (\<lambda>x. x \<in> set (rt_roles r)) (rt_roles (px_route p))"
    "if (rt_path (px_route p), target) \<in> set laxer
      then \<exists>user. isl (guardRoute (px_route p) user) \<and> \<not> isl (guardRoute r user)
      else rt_jwt r \<and> role_sets_agree (rt_roles r) (rt_roles (px_route p))"
    using forward_lands [OF assms(1-3)] .
  have s: "isl (serviceHandle f u) = isl (guardRoute r u)" for u
    by (simp add: f serviceHandle_def r(1) split: sum.split)
  show "\<not> isl (guardRoute (px_route p) user) \<Longrightarrow> \<not> isl (serviceHandle f user)"
    using r(2) rolesAllow_subset [OF r(3), of user] unfolding s by (auto simp: guardRoute_def split: if_splits)
  show "(rt_path (px_route p), target) \<notin> set laxer \<Longrightarrow> isl (serviceHandle f user) = isl (guardRoute (px_route p) user)"
    using r(2,4) rolesAllow_agree [of "rt_roles r" "rt_roles (px_route p)" user] unfolding s by (auto simp: guardRoute_def)
  show "(rt_path (px_route p), target) \<in> set laxer
      \<Longrightarrow> \<exists>other. isl (guardRoute (px_route p) other) \<and> \<not> isl (serviceHandle f other)"
    using r(4) unfolding s by simp
qed



definition decode_slash :: "string \<Rightarrow> string" where
  "decode_slash v = (if v = ''d-1%2Fapprovers'' then ''d-1/approvers'' else v)"

text \<open>
  the decoding of parameters lets a slash through: a viewer, whom the gateway refuses
  the approvers of a document, gets them by asking for the document \<open>d-1%2Fapprovers\<close>.
\<close>

theorem encoded_slash_reaches_approvers:
  "isl (gatewayHandle decode_slash check Http_get [''metadata'', ''documents'', ''d-1'', ''approvers''] (Some viewer))
   \<and> gatewayHandle decode_slash check Http_get [''metadata'', ''documents'', ''d-1%2Fapprovers''] (Some viewer)
       = Inr [(To_metadata, Http_get, ''/documents/d-1/approvers'')]
   \<and> serviceHandle (To_metadata, Http_get, ''/documents/d-1/approvers'') (Some viewer) = Inr ''getApprovers''"
  by code_simp

end
