(* ===== verification/Gateway_Packets.thy ===== *)
theory Gateway_Packets
  imports Gateway_Routes
begin

text \<open>
  What the gateway itself puts together (\<open>metadata.proxy.controller.ts\<close>): the evidence
  packet of a document and the access review. \<open>forward\<close> is a request to a service with
  its path and query parameters, on the state of the services; the requests of a
  \<open>Promise.all\<close> are made in the order of the source.
\<close>

type_synonym 's forwarder = "service \<Rightarrow> string \<Rightarrow> fields \<Rightarrow> 's \<Rightarrow> (json, 's) outcome"

text \<open>Nullish values, and arrays where they are arrays.\<close>

definition or_given :: "json option \<Rightarrow> json \<Rightarrow> json" where
  "or_given v d = (case v of None \<Rightarrow> d | Some JNull \<Rightarrow> d | Some j \<Rightarrow> j)"

definition array_or_empty :: "json option \<Rightarrow> json list" where
  "array_or_empty v = (case v of Some (JArr xs) \<Rightarrow> xs | _ \<Rightarrow> [])"

definition object_fields :: "json \<Rightarrow> fields" where
  "object_fields j = (case j of JObj fs \<Rightarrow> fs | _ \<Rightarrow> [])"

definition optional_text :: "string option \<Rightarrow> json" where
  "optional_text v = (case v of None \<Rightarrow> JNull | Some s \<Rightarrow> JStr s)"

section \<open>The evidence packet\<close>

definition EVIDENCE_PACKET_EXCLUDED_SENSITIVE_FIELDS :: "string list" where
  "EVIDENCE_PACKET_EXCLUDED_SENSITIVE_FIELDS =
     [''file-payload'', ''storage-reference'', ''direct-download-link'', ''temporary-access-grant'']"

definition documentMetadata :: "json \<Rightarrow> fields" where
  "documentMetadata document =
     filter (\<lambda>(k, _). k \<notin> set [''versions'', ''aclEntries'', ''acl'', ''workflowHistory'']) (object_fields document)"

definition retentionPart :: "string \<Rightarrow> json \<Rightarrow> json \<Rightarrow> json" where
  "retentionPart docId document retention =
     (let retentionRecords = array_or_empty (j_field ''records'' retention) in
      JObj [(''checkedAt'', or_given (j_field ''checkedAt'' retention) JNull),
        (''summary'', or_given (j_field ''summary'' retention) JNull),
        (''record'', or_given (find (\<lambda>r. j_field ''docId'' r = Some (JStr docId)) retentionRecords) JNull),
        (''fields'', JObj [(''retentionClass'', or_given (j_field ''retentionClass'' document) JNull),
          (''retentionUntil'', or_given (j_field ''retentionUntil'' document) JNull),
          (''retentionReason'', or_given (j_field ''retentionReason'' document) JNull)])])"

definition auditPart :: "json \<Rightarrow> json \<Rightarrow> json" where
  "auditPart chain audit =
     (let auditEvents = array_or_empty (j_field ''data'' audit); n = JNum (int (length auditEvents)) in
      JObj [(''chain'', chain), (''events'', JArr auditEvents), (''total'', or_given (j_field ''total'' audit) n),
        (''page'', or_given (j_field ''page'' audit) (JNum 1)), (''pageSize'', or_given (j_field ''pageSize'' audit) n)])"

definition evidencePacket :: "string \<Rightarrow> service_user \<Rightarrow> string \<Rightarrow> string option \<Rightarrow> json \<Rightarrow> json \<Rightarrow> json \<Rightarrow> json \<Rightarrow> json \<Rightarrow>
  json" where
  "evidencePacket generatedAt user docId asOf document workflow retention chain audit =
     JObj [(''generatedAt'', JStr generatedAt), (''metadataOnly'', JBool True),
       (''excludedSensitiveFields'', JArr (map JStr EVIDENCE_PACKET_EXCLUDED_SENSITIVE_FIELDS)),
       (''generatedBy'', JObj [(''id'', optional_text (or_else (u_sub user) (u_username user))),
          (''username'', optional_text (u_username user)),
          (''roles'', JArr (map JStr (coalesce (u_roles user) [])))]),
       (''scope'', JObj [(''type'', JStr ''DOCUMENT''), (''documentId'', JStr docId), (''asOf'', optional_text asOf)]),
       (''document'', JObj (documentMetadata document)),
       (''versions'', coalesce (j_field ''versions'' document) (JArr [])),
       (''aclEntries'', or_given (j_field ''aclEntries'' document) (or_given (j_field ''acl'' document) (JArr []))),
       (''workflowHistory'', JArr (array_or_empty (Some workflow))),
       (''retention'', retentionPart docId document retention),
       (''audit'', auditPart chain audit)]"

definition packetRequests :: "'s forwarder \<Rightarrow> string \<Rightarrow> service_user \<Rightarrow> string \<Rightarrow> string option \<Rightarrow> 's \<Rightarrow> (json, 's) outcome" where
  "packetRequests forward generatedAt user docId asOf s =
     andThen (forward To_metadata (''/documents/'' @ docId) [] s) (\<lambda>data s.
     let document = or_given (Some data) (JObj []) in
     andThen (forward To_metadata (''/documents/'' @ docId @ ''/workflow-history'') [] s) (\<lambda>workflow s.
     andThen (forward To_metadata ''/retention/documents''
         (if truthy_opt asOf then [(''asOf'', optional_text asOf)] else []) s) (\<lambda>retention s.
     andThen (forward To_audit ''/audit/verify-chain'' [(''limit'', JNum 5000)] s) (\<lambda>chain s.
     andThen (forward To_audit ''/audit/query'' [(''documentId'', JStr docId), (''pageSize'', JNum 200)] s) (\<lambda>audit s.
       return (sanitizeEvidencePacket
         (evidencePacket generatedAt user docId asOf document workflow retention chain audit)) s)))))"

text \<open>\<open>GET metadata/documents/:docId/evidence-packet\<close> with its guards.\<close>

definition getEvidencePacket :: "proof_crypto \<Rightarrow> int \<Rightarrow> gateway_request \<Rightarrow> 's forwarder \<Rightarrow> string \<Rightarrow> string \<Rightarrow> string option \<Rightarrow>
  's gateway \<Rightarrow> (json, 's gateway) outcome" where
  "getEvidencePacket cr now req forward generatedAt docId asOf g =
     (if \<not> gatewayRoles AUDIT_ROLES req then throw (Forbidden ''Forbidden resource'') g
      else andThen (assertSensitiveActionUse cr now req Export_evidence_packet g)
        (\<lambda>_ g. forwarded (packetRequests forward generatedAt (gr_user req) docId asOf) g))"

section \<open>The access review\<close>

definition normalizeDocumentArray :: "json \<Rightarrow> json list" where
  "normalizeDocumentArray v =
     (case v of JArr xs \<Rightarrow> xs | _ \<Rightarrow> array_or_empty (j_field ''data'' v))"

definition isAccessReviewSensitiveClassification :: "json option \<Rightarrow> bool" where
  "isAccessReviewSensitiveClassification c = (c = Some (JStr ''CONFIDENTIAL'') \<or> c = Some (JStr ''SECRET''))"

definition set_field :: "string \<Rightarrow> json \<Rightarrow> fields \<Rightarrow> fields" where
  "set_field k v fs =
     (if map_of fs k = None then fs @ [(k, v)] else map (\<lambda>(k', v'). (k', if k' = k then v else v')) fs)"

definition normalizeAccessReviewDocument :: "json \<Rightarrow> json" where
  "normalizeAccessReviewDocument document =
     JObj (set_field ''aclEntries''
       (case j_field ''aclEntries'' document of
          Some (JArr xs) \<Rightarrow> JArr xs
        | _ \<Rightarrow> JArr (array_or_empty (j_field ''acl'' document)))
       (set_field ''versions'' (JArr (array_or_empty (j_field ''versions'' document))) (object_fields document)))"

definition json_text :: "json option \<Rightarrow> string" where
  "json_text v = (case v of Some (JStr s) \<Rightarrow> s | Some (JNum n) \<Rightarrow> show_int n | Some JNull \<Rightarrow> ''null'' | _ \<Rightarrow> ''undefined'')"

fun fetchDetails :: "'s forwarder \<Rightarrow> json list \<Rightarrow> 's \<Rightarrow> ((json option \<times> json) list, 's) outcome" where
  "fetchDetails forward [] s = return [] s"
| "fetchDetails forward (d # ds) s =
     andThen (forward To_metadata (''/documents/'' @ json_text (j_field ''id'' d)) [] s) (\<lambda>data s.
     andThen (fetchDetails forward ds s) (\<lambda>rest s. return ((j_field ''id'' d, data) # rest) s))"

text \<open>The map of details keeps the last entry of an identifier; a nullish detail leaves the row.\<close>

definition reviewRow :: "(json option \<times> json) list \<Rightarrow> json \<Rightarrow> json" where
  "reviewRow details d = normalizeAccessReviewDocument (or_given (map_of (rev details) (j_field ''id'' d)) d)"

definition listAccessReviewDocuments :: "'s forwarder \<Rightarrow> fields \<Rightarrow> 's \<Rightarrow> (json list, 's) outcome" where
  "listAccessReviewDocuments forward query s =
     andThen (forward To_metadata ''/documents'' query s) (\<lambda>data s.
       let documents = normalizeDocumentArray data;
           sensitiveDocuments = filter (\<lambda>d. isAccessReviewSensitiveClassification (j_field ''classification'' d)) documents
       in andThen (fetchDetails forward sensitiveDocuments s) (\<lambda>details s.
            return (map (reviewRow details) documents) s))"

end
