(* ===== verification/Packet_Properties.thy ===== *)
theory Packet_Properties
  imports Gateway_Packets Sensitive_Properties
begin

text \<open>
  Evidence packets leave the gateway only for auditors with a proof for that action,
  and without a field that points at file content; the access review shows the listed
  documents, the sensitive ones in full.
\<close>

section \<open>Evidence packets\<close>

lemma packet_sanitized:
  "fst (packetRequests forward generatedAt user docId asOf s) = Inr packet \<Longrightarrow> excluded_free packet"
proof -
  assume "fst (packetRequests forward generatedAt user docId asOf s) = Inr packet"
  then obtain j where "packet = sanitizeEvidencePacket j"
    by (auto simp: packetRequests_def Let_def andThen_def return_def split: prod.splits sum.splits)
  then show "excluded_free packet" using sanitize_keys by (auto simp: excluded_free_def)
qed

text \<open>
  an evidence packet is put together only for an auditor or administrator with a
  valid proof for that action; without one no service is asked, every attempt leaves
  exactly one audit event, and a packet that is handed out names no excluded field at
  any depth.
\<close>

theorem evidence_packet_needs_proof:
  assumes "audits_on (gs_env g)" "gatewayRoles AUDIT_ROLES req"
  shows "\<exists>p. gs_audits (snd (getEvidencePacket cr now req forward generatedAt docId asOf g)) = gs_audits g @ [p]
    \<and> po_actorId p = buildActorId (gr_user req)
    \<and> (case assertProof cr (gs_env g) now req Export_evidence_packet of
         Inl e \<Rightarrow> ap_result (po_event p) = ''DENY''
           \<and> gs_rest (snd (getEvidencePacket cr now req forward generatedAt docId asOf g)) = gs_rest g
           \<and> fst (getEvidencePacket cr now req forward generatedAt docId asOf g) = Inl e
       | Inr _ \<Rightarrow> ap_action (po_event p) = ''SENSITIVE_ACTION_PROOF_USED''
           \<and> (case fst (getEvidencePacket cr now req forward generatedAt docId asOf g) of
                Inl e \<Rightarrow> fst (packetRequests forward generatedAt (gr_user req) docId asOf (gs_rest g)) = Inl e
              | Inr packet \<Rightarrow> excluded_free packet))"
proof (cases "assertProof cr (gs_env g) now req Export_evidence_packet")
  case (Inl e)
  then show ?thesis
    using assms gatewayEmit_on [OF assms(1), of now req]
    by (auto simp: getEvidencePacket_def assertSensitiveActionUse_cases sensitiveEvent_def gatewayEmit_def audits_on_def)
next
  case (Inr u)
  then show ?thesis
    using assms packet_sanitized [of forward generatedAt "gr_user req" docId asOf "gs_rest g"]
    by (auto simp: getEvidencePacket_def assertSensitiveActionUse_cases sensitiveEvent_def
        gatewayEmit_def audits_on_def forwarded_def split: prod.split sum.split)
qed

definition export_proof :: string where
  "export_proof = encode_json counting_proof_crypto (proofPayload ''root'' Export_evidence_packet 301000 ''n'') @ ''.''
     @ hmac_b64 counting_proof_crypto ''psst''
         (encode_json counting_proof_crypto (proofPayload ''root'' Export_evidence_packet 301000 ''n''))"

lemma export_proof_accepted:
  "assertProof counting_proof_crypto step_env 2000
     (admin_request [(STEP_UP_PROOF_HEADER, JStr export_proof)]) Export_evidence_packet = Inr ()"
proof -
  have "CHR ''.'' \<notin> set (encode_json counting_proof_crypto j)" "encode_json counting_proof_crypto j \<noteq> []"
    "decode_json counting_proof_crypto (encode_json counting_proof_crypto j) = Some j"
    "CHR ''.'' \<notin> set (hmac_b64 counting_proof_crypto k m)" "hmac_b64 counting_proof_crypto k m \<noteq> []" for j k m
    using counting_proof_codec by (auto simp: codec_ok_def crypto.truncate_def)
  moreover have "getSecret step_env = Inr ''psst''" by code_simp
  ultimately have "verifyProof counting_proof_crypto step_env export_proof
      = Inr (proofPayload ''root'' Export_evidence_packet 301000 ''n'')"
    unfolding export_proof_def
    by (simp add: verifyProof_def split_token Let_def isExpectedSignature_def signature_of_def truthy_def)
  moreover have "export_proof \<noteq> []" by (simp add: export_proof_def)
  ultimately show ?thesis
    by (simp add: assertProof_def truthy_def)
qed

text \<open>Services that know one document, with a storage key in its newest version.\<close>

definition one_document :: "nat forwarder" where
  "one_document svc path query n =
     return (if path = ''/documents/d-1''
       then JObj [(''id'', JStr ''d-1''), (''versions'', JArr [JObj [(''version'', JNum 1), (''objectKey'', JStr ''k'')]])]
       else JObj []) (Suc n)"

theorem evidence_packet_needs_proof_witness:
  "gs_rest (snd (getEvidencePacket counting_proof_crypto 2000 (admin_request []) one_document ''now'' ''d-1'' None counting_gateway)) = 0
   \<and> (case fst (getEvidencePacket counting_proof_crypto 2000 (admin_request [(STEP_UP_PROOF_HEADER, JStr export_proof)])
          one_document ''now'' ''d-1'' None counting_gateway) of
        Inl _ \<Rightarrow> False
      | Inr packet \<Rightarrow> excluded_free packet \<and> j_field ''versions'' packet = Some (JArr [JObj [(''version'', JNum 1)]]))"
proof -
  let ?with = "admin_request [(STEP_UP_PROOF_HEADER, JStr export_proof)]"
  have on: "audits_on (gs_env counting_gateway)" by code_simp
  have roles: "gatewayRoles AUDIT_ROLES (admin_request hs)" for hs
    by (simp add: gatewayRoles_def admin_request_def AUDIT_ROLES_def)
  have no: "assertProof counting_proof_crypto (gs_env counting_gateway) 2000 (admin_request []) Export_evidence_packet = Inl invalidProof"
    by (simp add: assertProof_def getProofHeader_def admin_request_def firstHeaderValue_def)
  have yes: "assertProof counting_proof_crypto (gs_env counting_gateway) 2000 ?with Export_evidence_packet = Inr ()"
    using export_proof_accepted by (simp add: counting_gateway_def)
  have packet: "case fst (packetRequests one_document ''now'' (gr_user (admin_request [])) ''d-1'' None 0) of
      Inl _ \<Rightarrow> False | Inr packet \<Rightarrow> j_field ''versions'' packet = Some (JArr [JObj [(''version'', JNum 1)]])"
    by code_simp
  have user: "gr_user ?with = gr_user (admin_request [])" by (simp add: admin_request_def)
  have run: "fst (getEvidencePacket counting_proof_crypto 2000 ?with one_document ''now'' ''d-1'' None counting_gateway)
      = fst (packetRequests one_document ''now'' (gr_user (admin_request [])) ''d-1'' None 0)"
    by (simp add: getEvidencePacket_def roles assertSensitiveActionUse_cases yes forwarded_def user split: prod.split)
      (auto simp: counting_gateway_def)
  show ?thesis
    using evidence_packet_needs_proof [OF on roles [of "[]"], of counting_proof_crypto 2000 one_document "''now''" "''d-1''" None]
      evidence_packet_needs_proof [OF on roles [of "[(STEP_UP_PROOF_HEADER, JStr export_proof)]"], of counting_proof_crypto 2000
        one_document "''now''" "''d-1''" None] packet
    unfolding no yes run by (auto simp: counting_gateway_def split: sum.splits)
qed

section \<open>The access review\<close>

lemma map_of_set_field: "map_of (set_field k v fs) k' = (if k' = k then Some v else map_of fs k')"
proof (cases "map_of fs k")
  case None
  then show ?thesis by (simp add: set_field_def map_of_append map_add_def split: option.split)
next
  case (Some w)
  have "map_of (map (\<lambda>(a, b). (a, if a = k then v else b)) fs) k' =
      (if k' = k then map_option (\<lambda>_. v) (map_of fs k) else map_of fs k')"
    by (induction fs) auto
  then show ?thesis using Some by (simp add: set_field_def)
qed

lemma review_fields:
  "j_field k (normalizeAccessReviewDocument d) =
     (if k = ''aclEntries'' then Some (JArr (case j_field ''aclEntries'' d of Some (JArr xs) \<Rightarrow> xs
        | _ \<Rightarrow> array_or_empty (j_field ''acl'' d)))
      else if k = ''versions'' then Some (JArr (array_or_empty (j_field ''versions'' d)))
      else j_field k d)"
  by (simp add: normalizeAccessReviewDocument_def j_field_def [of _ "JObj _"] map_of_set_field)
    (auto simp: j_field_def object_fields_def array_or_empty_def split: json.splits option.splits)

lemma fetched_ids:
  "fst (fetchDetails forward ds s) = Inr details \<Longrightarrow> map fst details = map (j_field ''id'') ds"
proof (induction ds arbitrary: s details)
  case (Cons d ds)
  then obtain s' rest where "fst (fetchDetails forward ds s') = Inr rest" "map fst details = j_field ''id'' d # map fst rest"
    by (auto simp: andThen_def return_def split: prod.splits sum.splits) (metis fst_conv)+
  then show ?case using Cons.IH by simp
qed (simp add: return_def)

text \<open>
  an access review shows the rows of the list, in its order, each with the fields of
  its detail where its identifier is that of a sensitive row and with its own
  otherwise, always with its versions and access entries as arrays.
\<close>

theorem access_review_rows:
  assumes "fst (listAccessReviewDocuments forward query s) = Inr rows"
  shows "\<exists>data details. fst (forward To_metadata ''/documents'' query s) = Inr data
    \<and> map fst details = map (j_field ''id'') (filter (\<lambda>d. isAccessReviewSensitiveClassification (j_field ''classification'' d))
        (normalizeDocumentArray data))
    \<and> list_all2 (\<lambda>d row. (\<forall>k. k = ''versions'' \<or> k = ''aclEntries''
          \<or> j_field k row = j_field k (or_given (map_of (rev details) (j_field ''id'' d)) d))
        \<and> (\<exists>vs es. j_field ''versions'' row = Some (JArr vs) \<and> j_field ''aclEntries'' row = Some (JArr es)))
      (normalizeDocumentArray data) rows"
proof -
  obtain data s' details where f: "forward To_metadata ''/documents'' query s = (Inr data, s')"
    and d: "fst (fetchDetails forward (filter (\<lambda>d. isAccessReviewSensitiveClassification (j_field ''classification'' d))
        (normalizeDocumentArray data)) s') = Inr details"
    and r: "rows = map (reviewRow details) (normalizeDocumentArray data)"
    using assms by (auto simp: listAccessReviewDocuments_def Let_def andThen_def return_def split: prod.splits sum.splits)
  have "list_all2 (\<lambda>d row. (\<forall>k. k = ''versions'' \<or> k = ''aclEntries''
          \<or> j_field k row = j_field k (or_given (map_of (rev details) (j_field ''id'' d)) d))
        \<and> (\<exists>vs es. j_field ''versions'' row = Some (JArr vs) \<and> j_field ''aclEntries'' row = Some (JArr es)))
      (normalizeDocumentArray data) rows"
    unfolding r reviewRow_def by (simp add: list_all2_conv_all_nth review_fields)
  then show ?thesis using f fetched_ids [OF d] by auto
qed

end
