(* ===== verification/Gateway_Session.thy ===== *)
theory Gateway_Session
  imports Authentication Gateway_Packets
begin

text \<open>
  The cookie session of the gateway (\<open>gateway/src/auth/auth.controller.ts\<close>): the login
  redirect, the callback of the identity provider and the logout, as the cookies they
  set and the address they redirect to.

  Parameters: \<open>enc\<close> is \<open>encodeURIComponent\<close> and \<open>decode\<close> its inverse; \<open>exchange\<close> is the
  token request with the code, \<open>jwt\<close> the reader of a token's payload, \<open>base64_json\<close> the
  text of the user cookie; \<open>query\<close> the printing of query parameters.
\<close>

datatype cookie_write = Set_cookie string string int bool | Clear_cookie string

record cookie_response =
  cr_cookies :: "cookie_write list"
  cr_redirect :: string

record session_config =
  sc_keycloakBaseUrl :: string
  sc_realm :: string
  sc_clientId :: string
  sc_frontendUrl :: string
  sc_gatewayUrl :: string

definition session_config_of :: "(string \<rightharpoonup> string) \<Rightarrow> session_config" where
  "session_config_of ev = \<lparr> sc_keycloakBaseUrl = coalesce (ev ''KEYCLOAK_BASE_URL'') ''undefined'',
     sc_realm = coalesce (ev ''KEYCLOAK_REALM'') ''undefined'',
     sc_clientId = coalesce (ev ''KEYCLOAK_CLIENT_ID'') ''docvault-gateway'',
     sc_frontendUrl = coalesce (ev ''FRONTEND_URL'') ''http://localhost:3006'',
     sc_gatewayUrl = coalesce (ev ''GATEWAY_URL'') ''http://localhost:3000'' \<rparr>"

definition issuer :: "session_config \<Rightarrow> string" where
  "issuer c = sc_keycloakBaseUrl c @ ''/realms/'' @ sc_realm c"

definition redirectUri :: "session_config \<Rightarrow> string" where
  "redirectUri c = sc_gatewayUrl c @ ''/api/auth/callback''"

definition login_redirect :: "((string \<times> string) list \<Rightarrow> string) \<Rightarrow> session_config \<Rightarrow> string \<Rightarrow> cookie_response" where
  "login_redirect query c state = \<lparr>
     cr_cookies = [Set_cookie ''kc_state'' state (5 * 60 * 1000) True],
     cr_redirect = issuer c @ ''/protocol/openid-connect/auth?'' @ query [(''client_id'', sc_clientId c),
       (''redirect_uri'', redirectUri c), (''response_type'', ''code''), (''scope'', ''openid profile email''),
       (''state'', state)] \<rparr>"

record token_response =
  tr_access_token :: string
  tr_refresh_token :: "string option"

text \<open>The first of two values that is not nullish.\<close>

definition first_given :: "json option \<Rightarrow> json option \<Rightarrow> json option" where
  "first_given v w = (case v of None \<Rightarrow> w | Some JNull \<Rightarrow> w | Some j \<Rightarrow> Some j)"

definition full_name :: "json option \<Rightarrow> json option \<Rightarrow> string" where
  "full_name given family =
     join_with '' '' (map (\<lambda>v. json_text (Some v)) (filter j_truthy (List.map_filter id [given, family])))"

definition displayNameOf :: "json \<Rightarrow> json option" where
  "displayNameOf payload =
     first_given (j_field ''name'' payload)
       (let n = full_name (j_field ''given_name'' payload) (j_field ''family_name'' payload)
        in if truthy n then Some (JStr n) else None)"

definition json_strings :: "json option \<Rightarrow> string list option" where
  "json_strings v = (case v of Some (JArr xs) \<Rightarrow> Some (map (\<lambda>x. json_text (Some x)) xs) | _ \<Rightarrow> None)"

definition kept_field :: "string \<Rightarrow> json option \<Rightarrow> fields" where
  "kept_field k v = (case v of None \<Rightarrow> [] | Some j \<Rightarrow> [(k, j)])"

definition sessionUser :: "json \<Rightarrow> json" where
  "sessionUser payload = JObj (
     kept_field ''sub'' (j_field ''sub'' payload)
     @ kept_field ''username'' (first_given (j_field ''preferred_username'' payload) (j_field ''username'' payload))
     @ kept_field ''email'' (j_field ''email'' payload)
     @ kept_field ''firstName'' (j_field ''given_name'' payload)
     @ kept_field ''lastName'' (j_field ''family_name'' payload)
     @ kept_field ''displayName'' (displayNameOf payload)
     @ [(''roles'', or_given (Option.bind (j_field ''realm_access'' payload) (j_field ''roles'')) (JArr [])),
        (''groups'', JArr (map JStr (normalizeGroups (json_strings (j_field ''groups'' payload)))))])"

definition sessionCookies :: "(json \<Rightarrow> string) \<Rightarrow> json \<Rightarrow> token_response \<Rightarrow> cookie_write list" where
  "sessionCookies base64_json payload t =
     [Set_cookie ''dv_access_token'' (tr_access_token t) (60 * 60 * 1000) True]
     @ (case tr_refresh_token t of
          Some r \<Rightarrow> if truthy r then [Set_cookie ''dv_refresh_token'' r (7 * 24 * 60 * 60 * 1000) True] else []
        | None \<Rightarrow> [])
     @ [Set_cookie ''dv_user'' (base64_json (sessionUser payload)) 10000 False]"

definition login_error :: "session_config \<Rightarrow> string \<Rightarrow> cookie_write list \<Rightarrow> cookie_response" where
  "login_error c reason cookies = \<lparr> cr_cookies = cookies, cr_redirect = sc_frontendUrl c @ ''/login?error='' @ reason \<rparr>"

text \<open>A cookie header that cannot be decoded makes the handler throw.\<close>

definition callback :: "(string \<Rightarrow> string) \<Rightarrow> (string \<Rightarrow> string option) \<Rightarrow> (string \<Rightarrow> token_response option) \<Rightarrow>
  (string \<Rightarrow> json option) \<Rightarrow> (json \<Rightarrow> string) \<Rightarrow> session_config \<Rightarrow> string option \<Rightarrow> string option \<Rightarrow> string option \<Rightarrow>
  string option \<Rightarrow> error + cookie_response" where
  "callback enc decode exchange jwt base64_json c code state err cookieHeader =
     (if truthy_opt err then Inr (login_error c (enc (the err)) [])
      else case parseCookies decode (coalesce cookieHeader []) of
        None \<Rightarrow> Inl (JsError ''URI malformed'')
      | Some cookies \<Rightarrow>
          if \<not> truthy_opt (cookies ''kc_state'') \<or> cookies ''kc_state'' \<noteq> state
          then Inr (login_error c ''invalid_state'' [])
          else if \<not> truthy_opt code then Inr (login_error c ''no_code'' [Clear_cookie ''kc_state''])
          else (case exchange (the code) of
             None \<Rightarrow> Inr (login_error c ''token_exchange_failed'' [Clear_cookie ''kc_state''])
           | Some t \<Rightarrow>
               (case jwt (tr_access_token t) of
                  None \<Rightarrow> Inr (login_error c ''token_exchange_failed'' [Clear_cookie ''kc_state''])
                | Some payload \<Rightarrow> Inr \<lparr> cr_cookies = Clear_cookie ''kc_state'' # sessionCookies base64_json payload t,
                    cr_redirect = sc_frontendUrl c @ ''/login?auth=ok'' \<rparr>)))"

definition logout_redirect :: "(string \<Rightarrow> string) \<Rightarrow> session_config \<Rightarrow> cookie_response" where
  "logout_redirect enc c = \<lparr>
     cr_cookies = [Clear_cookie ''dv_access_token'', Clear_cookie ''dv_refresh_token'', Clear_cookie ''dv_user''],
     cr_redirect = issuer c @ ''/protocol/openid-connect/logouts'' @ ''?client_id='' @ sc_clientId c @ ''&redirect_uri=''
       @ enc (sc_frontendUrl c @ ''/login'') \<rparr>"

section \<open>The browser\<close>

text \<open>
  A cookie jar in the order the cookies were set, and the header made from it; a value is
  written with \<open>encodeURIComponent\<close>, as the framework writes it.
\<close>

fun write_cookie :: "(string \<Rightarrow> string) \<Rightarrow> cookie_write \<Rightarrow> (string \<times> string) list \<Rightarrow> (string \<times> string) list" where
  "write_cookie enc (Set_cookie k v _ _) jar = filter (\<lambda>c. fst c \<noteq> k) jar @ [(k, enc v)]"
| "write_cookie enc (Clear_cookie k) jar = filter (\<lambda>c. fst c \<noteq> k) jar"

definition store_cookies :: "(string \<Rightarrow> string) \<Rightarrow> cookie_response \<Rightarrow> (string \<times> string) list \<Rightarrow> (string \<times> string) list" where
  "store_cookies enc r jar = fold (write_cookie enc) (cr_cookies r) jar"

definition cookie_header :: "(string \<times> string) list \<Rightarrow> string" where
  "cookie_header jar = join_with ''; '' (map (\<lambda>(k, v). k @ ''='' @ v) jar)"

end
