(* ===== verification/User_Directory.thy ===== *)
theory User_Directory
  imports Gateway_Session Text_Scan
begin

text \<open>
  Names of users (\<open>gateway/src/users/users.controller.ts\<close>) and the lookup of a new
  member (\<open>gateway/src/proxy/org.proxy.controller.ts\<close>), with the identity provider as a
  parameter: every request of it may fail.
\<close>

record keycloak_user =
  ku_id :: string
  ku_username :: "string option"
  ku_email :: "string option"
  ku_firstName :: "json option"
  ku_lastName :: "json option"
  ku_displayName :: "string option"
  ku_attribute :: "string option"

record keycloak =
  kc_adminToken :: "string option"
  kc_userById :: "string \<Rightarrow> keycloak_user option"
  kc_byUsername :: "string \<Rightarrow> keycloak_user list option"
  kc_byEmail :: "string \<Rightarrow> keycloak_user list option"
  kc_userinfo :: "string option \<Rightarrow> json option"

section \<open>Names\<close>

text \<open>The digits at the end set off by a blank, the lower-case start capitalised.\<close>

definition set_off_digits :: "string \<Rightarrow> string" where
  "set_off_digits cs =
     (let ds = rev (takeWhile digit (rev cs))
      in if ds = [] then cs else rev (dropWhile digit (rev cs)) @ '' '' @ ds)"

definition lower_letter :: "char \<Rightarrow> bool" where
  "lower_letter c = (let n = of_char c :: nat in 97 \<le> n \<and> n \<le> 122)"

definition formatUsername :: "string \<Rightarrow> string" where
  "formatUsername username =
     (case set_off_digits username of
        [] \<Rightarrow> []
      | c # cs \<Rightarrow> if lower_letter c then to_upper c # cs else c # cs)"

record user_name =
  un_displayName :: json
  un_username :: json

definition fallback_name :: "string \<Rightarrow> user_name" where
  "fallback_name userId = \<lparr> un_displayName = JStr (formatUsername userId), un_username = JStr userId \<rparr>"

definition text_or_undefined :: "string option \<Rightarrow> json" where
  "text_or_undefined v = (case v of None \<Rightarrow> JNull | Some s \<Rightarrow> JStr s)"

definition admin_name :: "keycloak_user \<Rightarrow> user_name" where
  "admin_name u = \<lparr> un_displayName =
       (case or_else (ku_attribute u) (ku_displayName u) of
          Some n \<Rightarrow> JStr n
        | None \<Rightarrow> (let n = full_name (ku_firstName u) (ku_lastName u)
            in if truthy n then JStr n else text_or_undefined (ku_username u))),
     un_username = text_or_undefined (ku_username u) \<rparr>"

definition lookup_name :: "keycloak \<Rightarrow> string \<Rightarrow> user_name" where
  "lookup_name kc userId =
     (if CHR ''-'' \<in> set userId
      then (case kc_userById kc userId of None \<Rightarrow> fallback_name userId | Some u \<Rightarrow> admin_name u)
      else (case kc_byUsername kc userId of
              None \<Rightarrow> fallback_name userId
            | Some us \<Rightarrow> (case find (\<lambda>u. ku_username u = Some userId) us of
                None \<Rightarrow> fallback_name userId
              | Some u \<Rightarrow> admin_name u)))"

text \<open>The second strategy: a user info request for each identifier, with the token of the caller.\<close>

definition userinfo_name :: "keycloak \<Rightarrow> string option \<Rightarrow> string \<Rightarrow> user_name" where
  "userinfo_name kc accessToken userId =
     (case kc_userinfo kc accessToken of
        None \<Rightarrow> fallback_name userId
      | Some u \<Rightarrow> \<lparr> un_displayName = or_given (j_field ''name'' u)
            (JStr (full_name (j_field ''given_name'' u) (j_field ''family_name'' u))),
          un_username = or_given (j_field ''preferred_username'' u) (JStr userId) \<rparr>)"

definition getBatch :: "(string \<rightharpoonup> string) \<Rightarrow> keycloak \<Rightarrow> string option \<Rightarrow> string list option \<Rightarrow> (string \<times> user_name) list" where
  "getBatch ev kc accessToken ids =
     (case ids of
        None \<Rightarrow> []
      | Some ids \<Rightarrow>
          if ids = [] then []
          else if truthy_opt (ev ''KEYCLOAK_CLIENT_SECRET'') \<and> kc_adminToken kc \<noteq> None
          then map (\<lambda>userId. (userId, lookup_name kc userId)) ids
          else map (\<lambda>userId. (userId, userinfo_name kc accessToken userId)) ids)"

section \<open>The own profile\<close>

text \<open>
  \<open>accessToken\<close> is the authorization header without \<open>Bearer\<close>; \<open>user\<close> are the claims the
  token strategy left on the request.
\<close>

definition claimsProfile :: "json \<Rightarrow> json" where
  "claimsProfile user = JObj (
     kept_field ''sub'' (j_field ''sub'' user) @ kept_field ''username'' (j_field ''username'' user)
     @ kept_field ''displayName'' (first_given (j_field ''displayName'' user)
         (let n = full_name (j_field ''firstName'' user) (j_field ''lastName'' user)
          in if truthy n then Some (JStr n) else None))
     @ kept_field ''firstName'' (j_field ''firstName'' user) @ kept_field ''lastName'' (j_field ''lastName'' user)
     @ kept_field ''email'' (j_field ''email'' user) @ kept_field ''roles'' (j_field ''roles'' user))"

definition userinfoProfile :: "json \<Rightarrow> json option \<Rightarrow> json" where
  "userinfoProfile u roles = JObj (
     kept_field ''sub'' (j_field ''sub'' u)
     @ kept_field ''username'' (first_given (j_field ''preferred_username'' u) (j_field ''username'' u))
     @ kept_field ''displayName'' (displayNameOf u)
     @ kept_field ''firstName'' (j_field ''given_name'' u) @ kept_field ''lastName'' (j_field ''family_name'' u)
     @ kept_field ''email'' (j_field ''email'' u) @ kept_field ''roles'' roles)"

definition getProfile :: "keycloak \<Rightarrow> string option \<Rightarrow> json option \<Rightarrow> error + json" where
  "getProfile kc accessToken user =
     (case (if truthy_opt accessToken then kc_userinfo kc accessToken else None) of
        Some u \<Rightarrow> Inr (userinfoProfile u (Option.bind user (j_field ''roles'')))
      | None \<Rightarrow> (case user of
          None \<Rightarrow> Inl (JsError ''No user info available'')
        | Some claims \<Rightarrow> Inr (claimsProfile claims)))"

section \<open>New members\<close>

definition hex_char :: "char \<Rightarrow> bool" where
  "hex_char c = (digit c \<or> to_lower c \<in> set ''abcdef'')"

definition looksLikeUuid :: "string \<Rightarrow> bool" where
  "looksLikeUuid ident =
     (map length (split_on (CHR ''-'') ident) = [8, 4, 4, 4, 12]
      \<and> list_all (list_all hex_char) (split_on (CHR ''-'') ident))"

definition keycloakConfigured :: "(string \<rightharpoonup> string) \<Rightarrow> bool" where
  "keycloakConfigured ev = (truthy_opt (ev ''KEYCLOAK_BASE_URL'') \<and> truthy_opt (ev ''KEYCLOAK_REALM'')
     \<and> truthy_opt (ev ''KEYCLOAK_CLIENT_SECRET''))"

definition find_member_user :: "string \<Rightarrow> bool \<Rightarrow> keycloak_user list \<Rightarrow> keycloak_user option" where
  "find_member_user ident isEmail users =
     find (\<lambda>u. if isEmail then map_option lower (ku_email u) = Some (lower ident) else ku_username u = Some ident) users"

definition resolveKeycloakSub :: "(string \<rightharpoonup> string) \<Rightarrow> keycloak \<Rightarrow> string \<Rightarrow> error + string" where
  "resolveKeycloakSub ev kc ident =
     (if \<not> keycloakConfigured ev then
        (if looksLikeUuid ident then Inr ident
         else Inl (BadRequest ''Cannot resolve user - Keycloak admin credentials are not configured. Provide the user id (sub).''))
      else case kc_adminToken kc of
        None \<Rightarrow> Inl (InternalError ''Internal server error'')
      | Some _ \<Rightarrow>
          if looksLikeUuid ident then
            (case kc_userById kc ident of
               None \<Rightarrow> Inl (BadRequest ''No Keycloak user found for that id'')
             | Some u \<Rightarrow> Inr (ku_id u))
          else let isEmail = (CHR ''@'' \<in> set ident) in
            (case (if isEmail then kc_byEmail kc ident else kc_byUsername kc ident) of
               None \<Rightarrow> Inl (BadRequest ''Failed to look up user in Keycloak'')
             | Some users \<Rightarrow>
                 (case find_member_user ident isEmail users of
                    None \<Rightarrow> Inl (BadRequest (''No Keycloak user found for '' @ [CHR 34] @ ident @ [CHR 34]))
                  | Some u \<Rightarrow> Inr (ku_id u))))"

text \<open>
  The body forwarded to the metadata service: the user and the role. The dash of the
  first message of the lookup is a long one in the source.
\<close>

definition addMemberBody :: "(string \<rightharpoonup> string) \<Rightarrow> keycloak \<Rightarrow> json \<Rightarrow> error + (string \<times> string)" where
  "addMemberBody ev kc body =
     (let ident = trim (json_text (Some (or_given (j_field ''userId'' body)
            (or_given (j_field ''username'' body) (or_given (j_field ''email'' body) (JStr [])))))) in
      if ident = [] then Inl (BadRequest ''Provide a username, email, or user id to add a member'')
      else let role = (if j_field ''role'' body = Some (JStr ''ADMIN'') then ''ADMIN'' else ''MEMBER'') in
        (case resolveKeycloakSub ev kc ident of Inl e \<Rightarrow> Inl e | Inr u \<Rightarrow> Inr (u, role)))"

text \<open>What \<open>metadata-service/src/org/org.controller.ts\<close> accepts of it.\<close>

definition acceptMember :: "string \<times> string \<Rightarrow> error + (string \<times> string)" where
  "acceptMember body =
     (let userId = trim (fst body) in
      if userId = [] then Inl (BadRequest ''userId is required'')
      else if snd body \<noteq> ''MEMBER'' \<and> snd body \<noteq> ''ADMIN'' then Inl (BadRequest ''role must be either MEMBER or ADMIN'')
      else Inr (userId, snd body))"

end
