(* ===== verification/Session_Properties.thy ===== *)
theory Session_Properties
  imports User_Directory
begin

text \<open>
  The cookie session: it starts only for a login this browser began, and from then on
  the gateway and the services behind it see the token it was started with. The user
  directory: without the administrator's access everybody gets the caller's name.
\<close>

section \<open>Starting a session\<close>

lemma session_cookies_token:
  "Set_cookie ''dv_access_token'' v a h \<in> set (sessionCookies base64_json payload t) \<longleftrightarrow>
     v = tr_access_token t \<and> a = 60 * 60 * 1000 \<and> h"
  by (auto simp: sessionCookies_def split: option.splits if_splits)

text \<open>
  C31: the callback sets an access token only when no error is reported, the state of the
  request is the one in the cookie of the browser that began the login, and the token
  is what the identity provider gave for the code of the request.
\<close>

theorem session_needs_own_login:
  assumes "callback enc decode exchange jwt base64_json c code state err cookieHeader = Inr r"
    and "Set_cookie ''dv_access_token'' v a h \<in> set (cr_cookies r)"
  shows "\<not> truthy_opt err \<and> h \<and> Clear_cookie ''kc_state'' \<in> set (cr_cookies r)
    \<and> (\<exists>cookies st cd t. parseCookies decode (coalesce cookieHeader []) = Some cookies
        \<and> cookies ''kc_state'' = Some st \<and> state = Some st \<and> st \<noteq> []
        \<and> code = Some cd \<and> exchange cd = Some t \<and> v = tr_access_token t)"
proof -
  have "\<not> truthy_opt err" using assms by (auto simp: callback_def login_error_def)
  moreover from this obtain cookies where p: "parseCookies decode (coalesce cookieHeader []) = Some cookies"
    using assms(1) by (auto simp: callback_def split: option.splits)
  moreover from calculation obtain st where "cookies ''kc_state'' = Some st" "state = Some st" "st \<noteq> []"
    using assms by (auto simp: callback_def login_error_def truthy_opt_def truthy_def split: option.splits if_splits)
  moreover from calculation obtain cd where "code = Some cd" "truthy_opt code"
    using assms by (auto simp: callback_def login_error_def truthy_opt_def split: option.splits if_splits)
  moreover from calculation obtain t payload where "exchange cd = Some t"
    "r = \<lparr> cr_cookies = Clear_cookie ''kc_state'' # sessionCookies base64_json payload t,
       cr_redirect = sc_frontendUrl c @ ''/login?auth=ok'' \<rparr>"
    using assms by (auto simp: callback_def login_error_def truthy_opt_def truthy_def split: option.splits if_splits)
  ultimately show ?thesis using assms(2) by (auto simp: session_cookies_token)
qed

section \<open>Cookies there and back\<close>

text \<open>What is documented of \<open>encodeURIComponent\<close>: reserved characters and blanks are escaped, decoding undoes it.\<close>

definition uri_codec :: "(string \<Rightarrow> string) \<Rightarrow> (string \<Rightarrow> string option) \<Rightarrow> bool" where
  "uri_codec enc decode = (\<forall>s. decode (enc s) = Some s \<and> list_all (\<lambda>c. c \<noteq> CHR '';'' \<and> c \<noteq> CHR ''='' \<and> \<not> js_space c) (enc s))"

definition cookie_text :: "string \<Rightarrow> bool" where
  "cookie_text s = list_all (\<lambda>c. c \<noteq> CHR '';'' \<and> \<not> js_space c) s"

lemma trim_no_space: "list_all (\<lambda>c. \<not> js_space c) s \<Longrightarrow> trim s = s"
proof -
  assume s: "list_all (\<lambda>c. \<not> js_space c) s"
  have "dropWhile js_space xs = xs" if "list_all (\<lambda>c. \<not> js_space c) xs" for xs
    using that by (cases xs) simp_all
  from this [OF s] this [of "rev s"] s show ?thesis by (simp add: trim_def list_all_iff)
qed

lemma space_is_space: "js_space CHR '' ''"
  by code_simp

lemma trim_space: "trim (CHR '' '' # s) = trim s"
  unfolding trim_def dropWhile.simps(2) if_P [OF space_is_space] by (rule refl)

lemma trim_cookie: "cookie_text s \<Longrightarrow> trim s = s" "cookie_text s \<Longrightarrow> trim (CHR '' '' # s) = s"
proof -
  assume "cookie_text s"
  then show "trim s = s" by (intro trim_no_space) (auto simp: cookie_text_def list_all_iff)
  then show "trim (CHR '' '' # s) = s" unfolding trim_space .
qed

definition map_head :: "('a \<Rightarrow> 'a) \<Rightarrow> 'a list \<Rightarrow> 'a list" where
  "map_head f xs = (case xs of [] \<Rightarrow> [] | y # ys \<Rightarrow> f y # ys)"

lemma cookie_text_semicolon: "cookie_text x \<Longrightarrow> CHR '';'' \<notin> set x"
  unfolding cookie_text_def list_all_iff by blast

lemma split_header:
  "list_all cookie_text (x # xs) \<Longrightarrow> split_on (CHR '';'') (join_with ''; '' (x # xs)) = x # map (Cons (CHR '' '')) xs"
proof (induction xs arbitrary: x)
  case Nil
  then have "CHR '';'' \<notin> set x" by (simp add: cookie_text_semicolon)
  then show ?case by (simp add: split_on_no_sep)
next
  case (Cons y ys)
  then have x: "CHR '';'' \<notin> set x" by (simp add: cookie_text_semicolon)
  have "split_on (CHR '';'') (x @ CHR '';'' # CHR '' '' # join_with ''; '' (y # ys))
      = x # split_on (CHR '';'') (CHR '' '' # join_with ''; '' (y # ys))"
    by (rule split_on_append [OF x])
  moreover have "split_on (CHR '';'') (CHR '' '' # s) = map_head (Cons (CHR '' '')) (split_on (CHR '';'') s)" for s
    by (cases "split_on (CHR '';'') s") (simp_all add: map_head_def)
  ultimately show ?case using Cons by (simp add: map_head_def)
qed

lemma parse_header:
  assumes "jar \<noteq> []" "list_all (\<lambda>(k, v). cookie_text (k @ ''='' @ v)) jar"
  shows "parseCookies decode (cookie_header jar) = cookie_map decode (map (\<lambda>(k, v). k @ ''='' @ v) jar)"
    and "parseCookies_proxy decode (cookie_header jar) = cookie_map decode (map (\<lambda>(k, v). k @ ''='' @ v) jar)"
proof -
  let ?cs = "map (\<lambda>(k, v). k @ ''='' @ v) jar"
  have cs: "list_all cookie_text ?cs" using assms(2) by (auto simp: list_all_iff)
  have t: "map trim (split_on (CHR '';'') (cookie_header jar)) = ?cs"
  proof (cases ?cs)
    case (Cons x xs)
    then show ?thesis using cs split_header [of x xs] unfolding cookie_header_def
      by (auto simp: list_all_iff trim_cookie intro!: map_idI)
  qed (use assms(1) in simp)
  moreover have "filter truthy ?cs = ?cs" by (auto simp: filter_id_conv truthy_def)
  ultimately show "parseCookies decode (cookie_header jar) = cookie_map decode ?cs"
    and "parseCookies_proxy decode (cookie_header jar) = cookie_map decode ?cs"
    by (simp_all add: parseCookies_def parseCookies_proxy_def)
qed

lemma cookie_value:
  assumes "uri_codec enc decode" "CHR ''='' \<notin> set k"
  shows "cookie decode (k @ ''='' @ enc v) = Some (k, v)"
proof -
  have "CHR ''='' \<notin> set (enc v)" using assms(1) by (auto simp: uri_codec_def list_all_iff)
  then have "split_on (CHR ''='') (k @ ''='' @ enc v) = [k, enc v]"
    using split_on_append [OF assms(2), of "enc v"] by (simp add: split_on_no_sep)
  then show ?thesis using assms(1) by (simp add: cookie_def uri_codec_def)
qed

definition session_names :: "string list" where
  "session_names = [''kc_state'', ''dv_access_token'', ''dv_refresh_token'', ''dv_user'']"

lemma session_name_texts: "k \<in> set session_names \<Longrightarrow> cookie_text k \<and> CHR ''='' \<notin> set k"
proof -
  have "list_all (\<lambda>k. cookie_text k \<and> CHR ''='' \<notin> set k) session_names" by code_simp
  then show "k \<in> set session_names \<Longrightarrow> cookie_text k \<and> CHR ''='' \<notin> set k" by (auto simp: list_all_iff)
qed

lemma parse_session:
  assumes "uri_codec enc decode" "vs \<noteq> []" "list_all (\<lambda>(k, v). k \<in> set session_names) vs"
  shows "parseCookies decode (cookie_header (map (\<lambda>(k, v). (k, enc v)) vs)) = Some (map_of (rev vs))"
    and "parseCookies_proxy decode (cookie_header (map (\<lambda>(k, v). (k, enc v)) vs)) = Some (map_of (rev vs))"
proof -
  let ?jar = "map (\<lambda>(k, v). (k, enc v)) vs"
  have e: "\<not> js_space CHR ''=''" by code_simp
  have "list_all (\<lambda>(k, v). cookie_text (k @ ''='' @ v)) ?jar"
    using assms(1,3) session_name_texts e
    by (fastforce simp: list_all_iff uri_codec_def cookie_text_def)
  note p = parse_header [OF _ this, of decode]
  have "map (cookie decode) (map (\<lambda>(k, v). k @ ''='' @ v) ?jar) = map Some vs"
    using assms(3) session_name_texts cookie_value [OF assms(1)] by (auto simp: list_all_iff)
  then have "cookie_map decode (map (\<lambda>(k, v). k @ ''='' @ v) ?jar) = Some (map_of (rev vs))"
    unfolding cookie_map_def Let_def by (simp only:) (simp add: list_all_iff comp_def)
  then show "parseCookies decode (cookie_header ?jar) = Some (map_of (rev vs))"
    and "parseCookies_proxy decode (cookie_header ?jar) = Some (map_of (rev vs))"
    using p assms(2) by simp_all
qed

section \<open>The token of a session\<close>

lemma login_jar: "store_cookies enc (login_redirect query c state) [] = [(''kc_state'', enc state)]"
  by (simp add: store_cookies_def login_redirect_def)

definition session_values :: "(json \<Rightarrow> string) \<Rightarrow> json \<Rightarrow> token_response \<Rightarrow> (string \<times> string) list" where
  "session_values base64_json payload t =
     [(''dv_access_token'', tr_access_token t)]
     @ (case tr_refresh_token t of
          Some r \<Rightarrow> if truthy r then [(''dv_refresh_token'', r)] else []
        | None \<Rightarrow> [])
     @ [(''dv_user'', base64_json (sessionUser payload))]"

lemma session_jar:
  "fold (write_cookie enc) (sessionCookies base64_json payload t) []
     = map (\<lambda>(k, v). (k, enc v)) (session_values base64_json payload t)"
  by (simp add: sessionCookies_def session_values_def split: option.split)

definition cookie_request :: "(string \<times> string) list \<Rightarrow> inbound" where
  "cookie_request jar = \<lparr> in_authorization = None, in_cookie = Some (cookie_header jar), in_traceId = None,
     in_requestId = None, in_user = None \<rparr>"

text \<open>
  C25: a login that the browser began with one state and that the identity provider
  answers with that state and a code it can exchange ends in a session: the next
  request of this browser, which carries cookies only, has the token of the exchange at
  the gateway and, as a bearer header, at the services behind it.
\<close>

theorem login_round_trip:
  assumes "uri_codec enc decode" "state \<noteq> []" "cd \<noteq> []" "exchange cd = Some t" "jwt (tr_access_token t) = Some payload"
    "tr_access_token t \<noteq> []" "bearer None = None"
  shows "\<exists>r. callback enc decode exchange jwt base64_json c (Some cd) (Some state) None
        (Some (cookie_header (store_cookies enc (login_redirect query c state) []))) = Inr r
    \<and> cr_redirect r = sc_frontendUrl c @ ''/login?auth=ok''
    \<and> (let req = cookie_request (store_cookies enc r (store_cookies enc (login_redirect query c state) [])) in
        extractToken decode bearer req = Some (Some (tr_access_token t))
        \<and> buildAuthorizationHeader decode req = Some (Some (''Bearer '' @ tr_access_token t)))"
proof -
  let ?r = "\<lparr> cr_cookies = Clear_cookie ''kc_state'' # sessionCookies base64_json payload t,
     cr_redirect = sc_frontendUrl c @ ''/login?auth=ok'' \<rparr>"
  have "parseCookies decode (cookie_header [(''kc_state'', enc state)]) = Some [''kc_state'' \<mapsto> state]"
    using parse_session(1) [OF assms(1), of "[(''kc_state'', state)]"] by (simp add: session_names_def)
  then have r: "callback enc decode exchange jwt base64_json c (Some cd) (Some state) None
        (Some (cookie_header (store_cookies enc (login_redirect query c state) []))) = Inr ?r"
    using assms(2-5) by (simp add: callback_def login_jar truthy_opt_def truthy_def)
  let ?vs = "session_values base64_json payload t"
  have jar: "store_cookies enc ?r (store_cookies enc (login_redirect query c state) []) = map (\<lambda>(k, v). (k, enc v)) ?vs"
    unfolding login_jar by (simp add: store_cookies_def flip: session_jar)
  have vs: "?vs \<noteq> []" "list_all (\<lambda>(k, v). k \<in> set session_names) ?vs"
    "map_of (rev ?vs) ''dv_access_token'' = Some (tr_access_token t)"
    by (simp_all add: session_values_def session_names_def split: option.split)
  show ?thesis
    using r parse_session [OF assms(1) vs(1,2)] vs(3) assms(6,7)
    by (intro exI [of _ ?r]) (simp add: jar cookie_request_def extractToken_def buildAuthorizationHeader_def truthy_opt_def truthy_def)
qed

definition nibble :: "nat \<Rightarrow> char" where
  "nibble n = char_of (97 + n)"

text \<open>A codec with the documented laws: every byte as two letters.\<close>

definition letters_of :: "string \<Rightarrow> string" where
  "letters_of s = concat (map (\<lambda>c. [nibble (of_char c div 16), nibble (of_char c mod 16)]) s)"

fun of_letters :: "string \<Rightarrow> string option" where
  "of_letters [] = Some []"
| "of_letters [c] = None"
| "of_letters (a # b # cs) = map_option (Cons (char_of ((of_char a - 97) * 16 + (of_char b - 97) :: nat))) (of_letters cs)"

lemma of_char_nibble: "n < 16 \<Longrightarrow> of_char (nibble n) = 97 + n"
  by (simp add: nibble_def)

lemma byte_nibbles: "of_char (c :: char) div 16 < (16 :: nat)" "of_char (c :: char) mod 16 < (16 :: nat)"
  using nat_of_char_less_256 [of c] by linarith+

lemma nibble_plain: "n < 16 \<Longrightarrow> nibble n \<noteq> CHR '';'' \<and> nibble n \<noteq> CHR ''='' \<and> \<not> js_space (nibble n)"
proof -
  assume n: "n < 16"
  have "of_char (nibble n) \<noteq> (of_char CHR '';'' :: nat)" "of_char (nibble n) \<noteq> (of_char CHR ''='' :: nat)"
    using of_char_nibble [OF n] n by simp_all
  then show ?thesis using of_char_nibble [OF n] n by (auto simp: js_space_def)
qed

lemma letters_codec: "uri_codec letters_of of_letters"
proof -
  have "of_letters (letters_of s) = Some s" for s
    by (induction s) (simp_all add: letters_of_def of_char_nibble byte_nibbles)
  moreover have "list_all (\<lambda>c. c \<noteq> CHR '';'' \<and> c \<noteq> CHR ''='' \<and> \<not> js_space c) (letters_of s)" for s
    by (induction s) (simp_all add: letters_of_def nibble_plain byte_nibbles)
  ultimately show ?thesis by (simp add: uri_codec_def)
qed

definition sample_config :: session_config where
  "sample_config = session_config_of [''KEYCLOAK_BASE_URL'' \<mapsto> ''http://kc'', ''KEYCLOAK_REALM'' \<mapsto> ''docvault'']"

definition sample_exchange :: "string \<Rightarrow> token_response option" where
  "sample_exchange cd = (if cd = ''c-1'' then Some \<lparr> tr_access_token = ''tok'', tr_refresh_token = None \<rparr> else None)"

theorem login_round_trip_witness:
  "\<exists>r. callback letters_of of_letters sample_exchange (\<lambda>_. Some (JObj [])) (\<lambda>_. ''{}'') sample_config (Some ''c-1'') (Some ''x7'') None
      (Some (cookie_header [(''kc_state'', letters_of ''x7'')])) = Inr r
    \<and> cr_redirect r = ''http://localhost:3006/login?auth=ok''"
proof -
  have "sample_exchange ''c-1'' = Some \<lparr> tr_access_token = ''tok'', tr_refresh_token = None \<rparr>" by (simp add: sample_exchange_def)
  then show ?thesis
    using login_round_trip [where enc = letters_of and decode = of_letters and exchange = sample_exchange and cd = "''c-1''"
        and state = "''x7''" and t = "\<lparr> tr_access_token = ''tok'', tr_refresh_token = None \<rparr>" and jwt = "\<lambda>_. Some (JObj [])"
        and payload = "JObj []" and bearer = "\<lambda>v. v" and base64_json = "\<lambda>_. ''{}''" and c = sample_config and query = "\<lambda>_. []"]
      letters_codec
    by (auto simp: login_jar sample_config_def session_config_of_def)
qed

theorem session_needs_own_login_witness:
  "case callback letters_of of_letters sample_exchange (\<lambda>_. Some (JObj [])) (\<lambda>_. ''{}'') sample_config (Some ''c-1'') (Some ''x7'') None
      (Some (''kc_state='' @ letters_of ''x7'')) of
     Inl _ \<Rightarrow> False
   | Inr r \<Rightarrow> Set_cookie ''dv_access_token'' ''tok'' 3600000 True \<in> set (cr_cookies r) \<and> Clear_cookie ''kc_state'' \<in> set (cr_cookies r)"
proof -
  let ?run = "callback letters_of of_letters sample_exchange (\<lambda>_. Some (JObj [])) (\<lambda>_. ''{}'') sample_config (Some ''c-1'') (Some ''x7'') None
      (Some (''kc_state='' @ letters_of ''x7''))"
  have "case ?run of Inl _ \<Rightarrow> False | Inr r \<Rightarrow> list_ex (\<lambda>w. w = Set_cookie ''dv_access_token'' ''tok'' 3600000 True) (cr_cookies r)"
    by code_simp
  then obtain r where r: "?run = Inr r" "Set_cookie ''dv_access_token'' ''tok'' 3600000 True \<in> set (cr_cookies r)"
    by (auto simp: list_ex_iff split: sum.splits)
  then show ?thesis using session_needs_own_login [OF r] by simp
qed

section \<open>Names\<close>

text \<open>
  without the secret of the administrator every identifier asked for gets the name
  and the user name of the caller.
\<close>

theorem batch_names_the_caller:
  assumes "\<not> truthy_opt (ev ''KEYCLOAK_CLIENT_SECRET'') \<or> kc_adminToken kc = None"
    and "kc_userinfo kc tok = Some u" "j_field ''name'' u = Some (JStr n)" "j_field ''preferred_username'' u = Some (JStr m)"
  shows "getBatch ev kc tok (Some ids) = map (\<lambda>i. (i, \<lparr> un_displayName = JStr n, un_username = JStr m \<rparr>)) ids"
  using assms by (auto simp: getBatch_def userinfo_name_def or_given_def)

definition olga_only :: keycloak where
  "olga_only = \<lparr> kc_adminToken = None, kc_userById = (\<lambda>_. None), kc_byUsername = (\<lambda>_. None), kc_byEmail = (\<lambda>_. None),
     kc_userinfo = (\<lambda>_. Some (JObj [(''name'', JStr ''Olga''), (''preferred_username'', JStr ''olga'')])) \<rparr>"

theorem batch_names_the_caller_witness:
  "map (un_displayName \<circ> snd) (getBatch Map.empty olga_only (Some ''t'') (Some [''editor1'', ''co1''])) = [JStr ''Olga'', JStr ''Olga'']
   \<and> formatUsername ''editor1'' = ''Editor 1''"
proof
  show "map (un_displayName \<circ> snd) (getBatch Map.empty olga_only (Some ''t'') (Some [''editor1'', ''co1''])) = [JStr ''Olga'', JStr ''Olga'']"
    using batch_names_the_caller [of Map.empty olga_only "Some ''t''" _ "''Olga''" "''olga''" "[''editor1'', ''co1'']"]
    by (simp add: olga_only_def j_field_def truthy_opt_def)
  show "formatUsername ''editor1'' = ''Editor 1''" by code_simp
qed

end
