(* ===== verification/Audit_Client.thy ===== *)
theory Audit_Client
  imports Audit_Query
begin

text \<open>
  How the web client asks for the audit log (\<open>features/audit\<close>): the filters as a link
  to the audit page, the page that reads them back, the request parameters, the
  service's check of those parameters (\<open>QueryAuditDto\<close> under the
  \<open>ValidationPipe\<close>), and the loop that fetches a whole window page by page.
  A \<open>string\<close> is the sequence of the UTF-8 bytes of its text.
\<close>

section \<open>Filters\<close>

text \<open>
  \<open>AuditQueryFilters\<close>. Its \<open>page\<close>, \<open>pageSize\<close>, \<open>limit\<close> and sort fields are read by none of
  the functions below.
\<close>

record audit_filters =
  af_actorId :: "string option"
  af_actorIds :: "string list option"
  af_action :: "string option"
  af_actions :: "string list option"
  af_actionGroup :: "string option"
  af_result :: "string option"
  af_resourceId :: "string option"
  af_resourceType :: "string option"
  af_documentId :: "string option"
  af_documentIds :: "string list option"
  af_aclId :: "string option"
  af_recommendationId :: "string option"
  af_recommendationIds :: "string list option"
  af_classifications :: "string list option"
  af_from :: "string option"
  af_to :: "string option"
  af_targetId :: "string option"
  af_targetType :: "string option"
  af_excludeActions :: "string list option"

definition noFilters :: audit_filters where
  "noFilters = \<lparr>
     af_actorId = None, af_actorIds = None, af_action = None, af_actions = None, af_actionGroup = None,
     af_result = None, af_resourceId = None, af_resourceType = None, af_documentId = None,
     af_documentIds = None, af_aclId = None, af_recommendationId = None, af_recommendationIds = None,
     af_classifications = None, af_from = None, af_to = None, af_targetId = None, af_targetType = None,
     af_excludeActions = None \<rparr>"

section \<open>URLSearchParams\<close>

text \<open>The \<open>application/x-www-form-urlencoded\<close> serialisation and its parser.\<close>

definition form_safe :: "char \<Rightarrow> bool" where
  "form_safe c = (let n = of_char c :: nat in
     48 \<le> n \<and> n \<le> 57 \<or> 65 \<le> n \<and> n \<le> 90 \<or> 97 \<le> n \<and> n \<le> 122 \<or> c \<in> set ''*-._'')"

definition hex_of :: "nat \<Rightarrow> char" where
  "hex_of d = (if d < 10 then char_of (48 + d) else char_of (55 + d))"

definition of_hex :: "char \<Rightarrow> nat option" where
  "of_hex c = (let n = of_char c in
     if 48 \<le> n \<and> n \<le> 57 then Some (n - 48)
     else if 65 \<le> n \<and> n \<le> 70 then Some (n - 55)
     else if 97 \<le> n \<and> n \<le> 102 then Some (n - 87)
     else None)"

definition form_char :: "char \<Rightarrow> string" where
  "form_char c =
     (if c = CHR '' '' then ''+''
      else if form_safe c then [c]
      else [CHR ''%'', hex_of (of_char c div 16), hex_of (of_char c mod 16)])"

definition form_encode :: "string \<Rightarrow> string" where
  "form_encode cs = concat (map form_char cs)"

fun form_decode :: "string \<Rightarrow> string" where
  "form_decode [] = []"
| "form_decode (c # cs) =
     (if c = CHR ''+'' then CHR '' '' # form_decode cs
      else if c = CHR ''%'' then
        (case cs of
           h # l # rest \<Rightarrow>
             (case (of_hex h, of_hex l) of
                (Some a, Some b) \<Rightarrow> char_of (a * 16 + b) # form_decode rest
              | _ \<Rightarrow> c # form_decode cs)
         | _ \<Rightarrow> c # form_decode cs)
      else c # form_decode cs)"

type_synonym url_params = "(string \<times> string) list"

text \<open>\<open>params.set(key, value)\<close>.\<close>

fun params_set :: "string \<Rightarrow> string \<Rightarrow> url_params \<Rightarrow> url_params" where
  "params_set k v [] = [(k, v)]"
| "params_set k v (p # ps) =
     (if fst p = k then (k, v) # filter (\<lambda>q. fst q \<noteq> k) ps else p # params_set k v ps)"

definition params_string :: "url_params \<Rightarrow> string" where
  "params_string ps = join_with ''&'' (map (\<lambda>(k, v). form_encode k @ ''='' @ form_encode v) ps)"

definition parse_param :: "string \<Rightarrow> string \<times> string" where
  "parse_param cs =
     (let name = takeWhile (\<lambda>c. c \<noteq> CHR ''='') cs
      in (form_decode name, form_decode (drop (length name + 1) cs)))"

definition parse_params :: "string \<Rightarrow> url_params" where
  "parse_params search =
     (let query = (if take 1 search = ''?'' then drop 1 search else search)
      in map parse_param (filter truthy (split_on (CHR ''&'') query)))"

section \<open>Filters as a link\<close>

definition setParam :: "string \<Rightarrow> string option \<Rightarrow> url_params \<Rightarrow> url_params" where
  "setParam k v ps = (if truthy_opt v then params_set k (the v) ps else ps)"

definition setArrayQueryParam :: "string \<Rightarrow> string list option \<Rightarrow> url_params \<Rightarrow> url_params" where
  "setArrayQueryParam k vs ps =
     (case vs of None \<Rightarrow> ps | Some xs \<Rightarrow> if xs = [] then ps else params_set k (join_with '','' xs) ps)"

definition filterParams :: "audit_filters \<Rightarrow> url_params" where
  "filterParams f =
     (let ps = setParam ''result'' (af_result f) [];
          ps = setParam ''action'' (af_action f) ps;
          ps = setArrayQueryParam ''actions'' (af_actions f) ps;
          ps = setParam ''actionGroup'' (af_actionGroup f) ps;
          ps = setParam ''actorId'' (af_actorId f) ps;
          ps = setArrayQueryParam ''actorIds'' (af_actorIds f) ps;
          ps = setParam ''resourceType'' (af_resourceType f) ps;
          ps = setParam ''resourceId'' (af_resourceId f) ps;
          ps = setParam ''documentId'' (af_documentId f) ps;
          ps = setArrayQueryParam ''documentIds'' (af_documentIds f) ps;
          ps = setParam ''aclId'' (af_aclId f) ps;
          ps = setParam ''recommendationId'' (af_recommendationId f) ps;
          ps = setArrayQueryParam ''recommendationIds'' (af_recommendationIds f) ps;
          ps = setArrayQueryParam ''classifications'' (af_classifications f) ps;
          ps = setParam ''from'' (af_from f) ps
      in setParam ''to'' (af_to f) ps)"

definition buildAuditFilterQuery :: "audit_filters \<Rightarrow> string" where
  "buildAuditFilterQuery f = params_string (filterParams f)"

definition ROUTES_AUDIT :: string where "ROUTES_AUDIT = ''/audit''"

definition buildAuditHref :: "audit_filters \<Rightarrow> string" where
  "buildAuditHref f =
     (let query = buildAuditFilterQuery f in if truthy query then ROUTES_AUDIT @ ''?'' @ query else ROUTES_AUDIT)"

section \<open>Reading the link back\<close>

definition AUDIT_RESULTS :: "string list" where
  "AUDIT_RESULTS = [''SUCCESS'', ''DENY'', ''ERROR'', ''CONFLICT'']"

definition AUDIT_ACTION_GROUPS :: "string list" where
  "AUDIT_ACTION_GROUPS = [''AUTHORIZED_CONTENT_ACCESS'', ''DESTRUCTIVE_ACTIVITY'']"

definition one_of :: "string list \<Rightarrow> string option \<Rightarrow> string option" where
  "one_of allowed v = (case v of None \<Rightarrow> None | Some x \<Rightarrow> if x \<in> set allowed then Some x else None)"

definition stringFilter :: "string option \<Rightarrow> string option" where
  "stringFilter v = (if truthy_opt v then v else None)"

definition stringArrayFilter :: "string option \<Rightarrow> string list option" where
  "stringArrayFilter v =
     (if \<not> truthy_opt v then None
      else let items = filter truthy (map trim (split_on (CHR '','') (the v)))
           in if items = [] then None else Some items)"

definition paramFilters :: "url_params \<Rightarrow> audit_filters" where
  "paramFilters ps = (let get = map_of ps in \<lparr>
     af_actorId = stringFilter (get ''actorId''),
     af_actorIds = stringArrayFilter (get ''actorIds''),
     af_action = stringFilter (get ''action''),
     af_actions = stringArrayFilter (get ''actions''),
     af_actionGroup = one_of AUDIT_ACTION_GROUPS (get ''actionGroup''),
     af_result = one_of AUDIT_RESULTS (get ''result''),
     af_resourceId = stringFilter (get ''resourceId''),
     af_resourceType = stringFilter (get ''resourceType''),
     af_documentId = stringFilter (get ''documentId''),
     af_documentIds = stringArrayFilter (get ''documentIds''),
     af_aclId = stringFilter (get ''aclId''),
     af_recommendationId = stringFilter (get ''recommendationId''),
     af_recommendationIds = stringArrayFilter (get ''recommendationIds''),
     af_classifications = stringArrayFilter (get ''classifications''),
     af_from = stringFilter (get ''from''),
     af_to = stringFilter (get ''to''),
     af_targetId = None, af_targetType = None, af_excludeActions = None \<rparr>)"

definition parseAuditFilterQuery :: "string \<Rightarrow> audit_filters" where
  "parseAuditFilterQuery search = paramFilters (parse_params search)"

text \<open>The filters the audit page starts with, from the query part of its address.\<close>

definition auditPageFilters :: "string \<Rightarrow> audit_filters" where
  "auditPageFilters search =
     (parseAuditFilterQuery search)\<lparr>af_excludeActions := Some [''SECURITY_RECOMMENDATIONS_VIEWED'']\<rparr>"

section \<open>The request\<close>

datatype audit_param = PText string | PNumber nat | PTexts "string list"

definition toCommaList :: "string list option \<Rightarrow> string option" where
  "toCommaList vs = (case vs of None \<Rightarrow> None | Some xs \<Rightarrow> if xs = [] then None else Some (join_with '','' xs))"

text \<open>
  \<open>dt\<close> is \<open>new Date(s).getTime()\<close>, none for \<open>NaN\<close>, where \<open>toISOString\<close> throws. A
  parameter that is \<open>undefined\<close> is left out of the request.
\<close>

definition isoParam :: "(string \<Rightarrow> int option) \<Rightarrow> string option \<Rightarrow> error + string option" where
  "isoParam dt v =
     (if \<not> truthy_opt v then Inr None
      else case dt (the v) of None \<Rightarrow> Inl (JsError ''Invalid time value'') | Some t \<Rightarrow> Inr (Some (toISOString t)))"

definition param :: "string \<Rightarrow> ('a \<Rightarrow> audit_param) \<Rightarrow> 'a option \<Rightarrow> (string \<times> audit_param) list" where
  "param k f v = (case v of None \<Rightarrow> [] | Some x \<Rightarrow> [(k, f x)])"

definition requestParams ::
  "audit_filters \<Rightarrow> string option \<Rightarrow> string option \<Rightarrow> nat option \<Rightarrow> nat option \<Rightarrow> (string \<times> audit_param) list" where
  "requestParams f from till page pageSize =
     param ''actorId'' PText (af_actorId f)
     @ param ''actorIds'' PText (toCommaList (af_actorIds f))
     @ param ''action'' PText (af_action f)
     @ param ''actions'' PText (toCommaList (af_actions f))
     @ param ''actionGroup'' PText (af_actionGroup f)
     @ param ''resourceType'' PText (or_else (af_resourceType f) (af_targetType f))
     @ param ''resourceId'' PText (or_else (af_resourceId f) (af_targetId f))
     @ param ''documentId'' PText (af_documentId f)
     @ param ''documentIds'' PText (toCommaList (af_documentIds f))
     @ param ''aclId'' PText (af_aclId f)
     @ param ''recommendationId'' PText (af_recommendationId f)
     @ param ''recommendationIds'' PText (toCommaList (af_recommendationIds f))
     @ param ''classifications'' PText (toCommaList (af_classifications f))
     @ param ''result'' PText (af_result f)
     @ param ''from'' PText from
     @ param ''to'' PText till
     @ param ''excludeActions'' PTexts (af_excludeActions f)
     @ param ''page'' PNumber page
     @ param ''pageSize'' PNumber pageSize"

definition toAuditQueryParams ::
  "(string \<Rightarrow> int option) \<Rightarrow> audit_filters option \<Rightarrow> nat option \<Rightarrow> nat option
   \<Rightarrow> error + (string \<times> audit_param) list" where
  "toAuditQueryParams dt filters page pageSize =
     (case filters of
        None \<Rightarrow> Inr []
      | Some f \<Rightarrow>
          (case isoParam dt (af_from f) of
             Inl e \<Rightarrow> Inl e
           | Inr from \<Rightarrow>
               (case isoParam dt (af_to f) of
                  Inl e \<Rightarrow> Inl e
                | Inr till \<Rightarrow> Inr (requestParams f from till page pageSize))))"

section \<open>The service's check of the parameters\<close>

definition QUERY_AUDIT_PROPERTIES :: "string list" where
  "QUERY_AUDIT_PROPERTIES =
     [''actorId'', ''action'', ''actionGroup'', ''resourceType'', ''resourceId'', ''documentId'', ''aclId'',
      ''recommendationId'', ''result'', ''from'', ''to'', ''page'', ''pageSize'', ''limit'', ''excludeActions'']"

definition text_of :: "audit_param option \<Rightarrow> string option" where
  "text_of v = (case v of Some (PText cs) \<Rightarrow> Some cs | _ \<Rightarrow> None)"

definition number_of :: "audit_param option \<Rightarrow> nat option" where
  "number_of v = (case v of Some (PNumber n) \<Rightarrow> Some n | _ \<Rightarrow> None)"

definition texts_of :: "audit_param option \<Rightarrow> string list option" where
  "texts_of v = (case v of Some (PTexts xs) \<Rightarrow> Some xs | Some (PText cs) \<Rightarrow> Some [cs] | _ \<Rightarrow> None)"

definition action_group_of :: "string option \<Rightarrow> action_group option" where
  "action_group_of v =
     (case v of None \<Rightarrow> None
      | Some g \<Rightarrow>
          if g = ''AUTHORIZED_CONTENT_ACCESS'' then Some AUTHORIZED_CONTENT_ACCESS
          else if g = ''DESTRUCTIVE_ACTIVITY'' then Some DESTRUCTIVE_ACTIVITY else None)"

text \<open>The messages: a property that is not declared (\<open>forbidNonWhitelisted\<close>), then the decorators.\<close>

definition unknown_properties :: "(string \<times> audit_param) list \<Rightarrow> string list" where
  "unknown_properties ps =
     map (\<lambda>p. ''property '' @ fst p @ '' should not exist'')
       (filter (\<lambda>p. fst p \<notin> set QUERY_AUDIT_PROPERTIES) ps)"

definition date_message :: "(string \<Rightarrow> int option) \<Rightarrow> string \<Rightarrow> string option \<Rightarrow> string list" where
  "date_message dt k v =
     (case v of None \<Rightarrow> []
      | Some cs \<Rightarrow> if dt cs = None then [k @ '' must be a valid ISO 8601 date string''] else [])"

definition size_message :: "string \<Rightarrow> nat option \<Rightarrow> nat option \<Rightarrow> string list" where
  "size_message k biggest v =
     (case v of None \<Rightarrow> []
      | Some n \<Rightarrow>
          (if n < 1 then [k @ '' must not be less than 1''] else [])
          @ (case biggest of None \<Rightarrow> []
             | Some b \<Rightarrow> if b < n then [k @ '' must not be greater than '' @ show_nat b] else []))"

definition queryAuditMessages :: "(string \<Rightarrow> int option) \<Rightarrow> (string \<times> audit_param) list \<Rightarrow> string list" where
  "queryAuditMessages dt ps = (let get = map_of ps in
     unknown_properties ps
     @ (case text_of (get ''actionGroup'') of None \<Rightarrow> []
        | Some g \<Rightarrow> if action_group_of (Some g) = None
            then [''actionGroup must be one of the following values: '' @ join_with '', '' AUDIT_ACTION_GROUPS] else [])
     @ date_message dt ''from'' (text_of (get ''from''))
     @ date_message dt ''to'' (text_of (get ''to''))
     @ size_message ''page'' None (number_of (get ''page''))
     @ size_message ''pageSize'' (Some 200) (number_of (get ''pageSize''))
     @ size_message ''limit'' (Some 200) (number_of (get ''limit'')))"

definition queryAuditDto :: "(string \<Rightarrow> int option) \<Rightarrow> (string \<times> audit_param) list \<Rightarrow> query_audit_dto" where
  "queryAuditDto dt ps = (let get = map_of ps in \<lparr>
     qa_actorId = text_of (get ''actorId''),
     qa_action = text_of (get ''action''),
     qa_actionGroup = action_group_of (text_of (get ''actionGroup'')),
     qa_resourceType = text_of (get ''resourceType''),
     qa_resourceId = text_of (get ''resourceId''),
     qa_documentId = text_of (get ''documentId''),
     qa_aclId = text_of (get ''aclId''),
     qa_recommendationId = text_of (get ''recommendationId''),
     qa_result = text_of (get ''result''),
     qa_from = Option.bind (text_of (get ''from'')) dt,
     qa_to = Option.bind (text_of (get ''to'')) dt,
     qa_page = number_of (get ''page''),
     qa_pageSize = number_of (get ''pageSize''),
     qa_limit = number_of (get ''limit''),
     qa_excludeActions = texts_of (get ''excludeActions'') \<rparr>)"

text \<open>\<open>GET /audit/query\<close> as the service answers it.\<close>

definition auditQueryRoute ::
  "(string \<Rightarrow> int option) \<Rightarrow> (audit_event \<Rightarrow> nat) \<Rightarrow> audit_store \<Rightarrow> (string \<times> audit_param) list
   \<Rightarrow> error + query_result" where
  "auditQueryRoute dt rank s ps =
     (let messages = queryAuditMessages dt ps in
      if messages \<noteq> [] then Inl (BadRequest (join_with '', '' messages))
      else Inr (auditQuery rank (queryAuditDto dt ps) s))"

section \<open>The answer\<close>

record 'a paginated =
  pr_data :: "'a list"
  pr_total :: nat
  pr_page :: nat
  pr_pageSize :: nat
  pr_totalPages :: nat

record 'a list_envelope =
  le_data :: "'a list option"
  le_items :: "'a list option"
  le_total :: "nat option"
  le_page :: "nat option"
  le_pageSize :: "nat option"
  le_totalPages :: "nat option"
  le_metaTotal :: "nat option"
  le_metaPage :: "nat option"
  le_metaPageSize :: "nat option"
  le_metaTotalPages :: "nat option"

datatype 'a list_payload = Bare "'a list" | Envelope "'a list_envelope"

definition normalizeListResponse :: "'a list_payload \<Rightarrow> 'a list" where
  "normalizeListResponse payload =
     (case payload of Bare xs \<Rightarrow> xs | Envelope l \<Rightarrow> coalesce (or_else (le_data l) (le_items l)) [])"

definition normalizePaginatedResponse :: "'a list_payload \<Rightarrow> 'a paginated" where
  "normalizePaginatedResponse payload =
     (let xs = normalizeListResponse payload in
      case payload of
        Bare _ \<Rightarrow> \<lparr> pr_data = xs, pr_total = length xs, pr_page = 1, pr_pageSize = length xs,
                   pr_totalPages = (if 0 < length xs then 1 else 0) \<rparr>
      | Envelope l \<Rightarrow>
          let total = coalesce (or_else (le_total l) (le_metaTotal l)) (length xs);
              pageSize = coalesce (or_else (le_pageSize l) (le_metaPageSize l)) (length xs)
          in \<lparr> pr_data = xs, pr_total = total,
               pr_page = coalesce (or_else (le_page l) (le_metaPage l)) 1,
               pr_pageSize = pageSize,
               pr_totalPages = coalesce (or_else (le_totalPages l) (le_metaTotalPages l))
                 (if 0 < pageSize then (total + pageSize - 1) div pageSize else 0) \<rparr>)"

definition queryEnvelope :: "query_result \<Rightarrow> audit_event list_payload" where
  "queryEnvelope r = Envelope \<lparr>
     le_data = Some (qr_data r), le_items = None, le_total = Some (qr_total r), le_page = Some (qr_page r),
     le_pageSize = Some (qr_pageSize r), le_totalPages = None, le_metaTotal = None, le_metaPage = None,
     le_metaPageSize = None, le_metaTotalPages = None \<rparr>"

text \<open>The aliases \<open>id\<close>, \<open>targetType\<close> and \<open>targetId\<close> that \<open>queryAuditLog\<close> adds to an entry are left out.\<close>

definition queryAuditLog ::
  "(string \<Rightarrow> int option) \<Rightarrow> (audit_event \<Rightarrow> nat) \<Rightarrow> audit_store \<Rightarrow> audit_filters option \<Rightarrow> nat option \<Rightarrow> nat option
   \<Rightarrow> error + audit_event paginated" where
  "queryAuditLog dt rank s filters page pageSize =
     (case toAuditQueryParams dt filters page pageSize of
        Inl e \<Rightarrow> Inl e
      | Inr ps \<Rightarrow>
          (case auditQueryRoute dt rank s ps of
             Inl e \<Rightarrow> Inl e
           | Inr r \<Rightarrow> Inr (normalizePaginatedResponse (queryEnvelope r))))"

section \<open>A window of the log\<close>

function window_loop ::
  "(nat \<Rightarrow> error + 'a paginated) \<Rightarrow> nat \<Rightarrow> nat \<Rightarrow> nat \<Rightarrow> nat \<Rightarrow> 'a list \<Rightarrow> error + 'a list \<times> nat \<times> nat" where
  "window_loop fetch maxPages page totalPages count xs =
     (if totalPages < page then Inr (xs, count, totalPages)
      else if maxPages < page then Inl (JsError (''Audit window exceeds '' @ show_nat maxPages @ '' pages''))
      else case fetch page of
             Inl e \<Rightarrow> Inl e
           | Inr batch \<Rightarrow>
               window_loop fetch maxPages (page + 1) (pr_totalPages batch) (pr_total batch) (xs @ pr_data batch))"
  by pat_completeness auto
termination by (relation "measure (\<lambda>(fetch, maxPages, page, rest). Suc maxPages - page)") auto

declare window_loop.simps [simp del]

definition queryAuditLogWindow ::
  "(nat \<Rightarrow> nat \<Rightarrow> error + 'a paginated) \<Rightarrow> nat option \<Rightarrow> nat option \<Rightarrow> error + 'a paginated" where
  "queryAuditLogWindow fetchPage pageSizeOpt maxPagesOpt =
     (let pageSize = coalesce pageSizeOpt 100; maxPages = coalesce maxPagesOpt 100 in
      case window_loop (\<lambda>page. fetchPage page pageSize) maxPages 1 1 0 [] of
        Inl e \<Rightarrow> Inl e
      | Inr (xs, count, totalPages) \<Rightarrow> Inr \<lparr>
          pr_data = xs, pr_total = count, pr_page = 1, pr_pageSize = pageSize, pr_totalPages = totalPages \<rparr>)"

text \<open>
  The default \<open>fetchPage\<close>. Every page is a request of its own: \<open>seen\<close> gives, for each
  page, the order of events of the same time and the collection that its request finds.
\<close>

type_synonym seen_log = "nat \<Rightarrow> (audit_event \<Rightarrow> nat) \<times> audit_store"

definition auditWindow ::
  "(string \<Rightarrow> int option) \<Rightarrow> seen_log \<Rightarrow> audit_filters option \<Rightarrow> nat option \<Rightarrow> nat option
   \<Rightarrow> error + audit_event paginated" where
  "auditWindow dt seen filters = queryAuditLogWindow (\<lambda>page pageSize.
     queryAuditLog dt (fst (seen page)) (snd (seen page)) filters (Some page) (Some pageSize))"

text \<open>
  Following a link to the audit page: the first page of its table, with the default
  page size.
\<close>

definition link_query :: "string \<Rightarrow> string" where
  "link_query href = drop (length ROUTES_AUDIT + 1) href"

definition openAuditLink ::
  "(string \<Rightarrow> int option) \<Rightarrow> (audit_event \<Rightarrow> nat) \<Rightarrow> audit_store \<Rightarrow> string \<Rightarrow> error + audit_event paginated" where
  "openAuditLink dt rank s href = queryAuditLog dt rank s (Some (auditPageFilters (link_query href))) (Some 1) (Some 20)"

end
