(* ===== verification/Security_Dashboard.thy ===== *)
theory Security_Dashboard
  imports Security_Summary Audit_Client Approval_Queue
begin

text \<open>
  The security dashboard of the web client (\<open>features/audit/security-dashboard.ts\<close>):
  the rows, alerts, routes, service levels and chart segments it derives from the
  security summary and the recent access events. Times are the instants their ISO
  texts stand for; \<open>now\<close> is the clock.
\<close>

section \<open>Routes\<close>

datatype alert_route = SIGNAL | REVIEW | CASE

record routing_score =
  rs_impact :: nat
  rs_confidence :: nat
  rs_actionability :: nat
  rs_exposure :: nat
  rs_evidenceValue :: nat
  rs_total :: nat

record alert_routing =
  ro_route :: alert_route
  ro_routeLabel :: string
  ro_routeDescription :: string
  ro_rationale :: string
  ro_score :: routing_score

definition inferSecurityAlertRoute :: "routing_score \<Rightarrow> alert_route" where
  "inferSecurityAlertRoute x =
     (if 3 \<le> rs_impact x \<and> 2 \<le> rs_confidence x \<and> 2 \<le> rs_actionability x \<and> 2 \<le> rs_exposure x
         \<and> 3 \<le> rs_evidenceValue x then CASE
      else if 8 \<le> rs_total x \<or> 2 \<le> rs_impact x \<or> 2 \<le> rs_actionability x then REVIEW
      else SIGNAL)"

definition getRouteRank :: "alert_route \<Rightarrow> int" where
  "getRouteRank r = (if r = CASE then 3 else if r = REVIEW then 2 else 1)"

definition getSecurityAlertRouteLabel :: "alert_route \<Rightarrow> string" where
  "getSecurityAlertRouteLabel r =
     (if r = CASE then ''Case workflow required'' else if r = REVIEW then ''Lightweight review'' else ''Monitor signal'')"

definition getSecurityAlertRouteDescription :: "alert_route \<Rightarrow> string" where
  "getSecurityAlertRouteDescription r =
     (if r = CASE then
        ''Needs owner, SLA, investigation, remediation or accepted risk, verification, and evidence.''
      else if r = REVIEW then ''Needs human review, but full case workflow would be too heavy.''
      else ''Track as a trend or monitoring signal without workflow overhead.'')"

text \<open>The score is given as impact, confidence, actionability, exposure and evidence value.\<close>

definition buildSecurityAlertRouting :: "nat \<times> nat \<times> nat \<times> nat \<times> nat \<Rightarrow> string \<Rightarrow> alert_routing" where
  "buildSecurityAlertRouting input rationale =
     (case input of (impact, confidence, actionability, exposure, evidenceValue) \<Rightarrow>
        let score = \<lparr> rs_impact = impact, rs_confidence = confidence, rs_actionability = actionability,
              rs_exposure = exposure, rs_evidenceValue = evidenceValue,
              rs_total = impact + confidence + actionability + exposure + evidenceValue \<rparr>;
            route = inferSecurityAlertRoute score
        in \<lparr> ro_route = route, ro_routeLabel = getSecurityAlertRouteLabel route,
             ro_routeDescription = getSecurityAlertRouteDescription route, ro_rationale = rationale,
             ro_score = score \<rparr>)"

definition buildRecommendationRouting :: "recommendation \<Rightarrow> alert_routing" where
  "buildRecommendationRouting r =
     (let critical = rc_severity r = CRITICAL;
          docs = rc_affectedDocumentIds r \<noteq> []; actors = rc_affectedActorIds r \<noteq> [] in
      case rc_type r of
        AUDIT_CHAIN_REVIEW \<Rightarrow> buildSecurityAlertRouting (3, 3, 3, 3, 3)
          ''Audit-chain integrity affects whether exported evidence can be trusted.''
      | DOCUMENT_ACCESS_REVIEW \<Rightarrow> buildSecurityAlertRouting
          (if critical then 3 else 2, 3, 3, if docs then 3 else 2, if critical then 3 else 2)
          (if critical then ''Critical sensitive-document exposure has concrete ACL remediation paths.''
           else ''Sensitive-document exposure needs owner review before heavier workflow.'')
      | ACTOR_ACCESS_REVIEW \<Rightarrow> buildSecurityAlertRouting
          (if critical then 3 else 2, 2, if actors then 2 else 1, if actors then 3 else 1, if critical then 3 else 2)
          (if critical then ''Critical actor behavior has a concrete actor scope and needs case ownership.''
           else ''Actor behavior needs review before escalating to a full case.'')
      | DLP_CLASSIFICATION_REVIEW \<Rightarrow> buildSecurityAlertRouting (2, 2, 2, if docs then 2 else 1, 2)
          ''DLP findings need classification review, but aggregate detections should not force a full case.''
      | MALWARE_UPLOAD_REVIEW \<Rightarrow> buildSecurityAlertRouting (2, 3, 2, if actors \<or> docs then 2 else 1, 2)
          ''Blocked malware uploads need review of source context before case escalation.'')"

datatype dashboard_alert_kind =
    AUDIT_CHAIN_INVALID
  | HISTORICAL_AUDIT_EPOCH_COMPROMISED
  | MALWARE_BLOCKED
  | DLP_DETECTED
  | REPEATED_DENY
  | HIGH_DOWNLOAD_VOLUME
  | SENSITIVE_ACCESS
  | HIGH_RISK_DOCUMENT_ACTIVITY
  | CRITICAL_BEHAVIOR_ANOMALY
  | BEHAVIOR_ANOMALY

definition buildDashboardAlertRouting :: "dashboard_alert_kind \<Rightarrow> alert_routing" where
  "buildDashboardAlertRouting kind =
     (case kind of
        AUDIT_CHAIN_INVALID \<Rightarrow> buildSecurityAlertRouting (3, 3, 3, 3, 3)
          ''Current audit-chain integrity failure blocks trustworthy evidence export.''
      | HISTORICAL_AUDIT_EPOCH_COMPROMISED \<Rightarrow> buildSecurityAlertRouting (2, 3, 2, 2, 3)
          ''Historical evidence needs review, but the active chain remains valid.''
      | MALWARE_BLOCKED \<Rightarrow> buildSecurityAlertRouting (2, 3, 2, 1, 2)
          ''Blocked upload counters need review before a concrete actor or object case exists.''
      | DLP_DETECTED \<Rightarrow> buildSecurityAlertRouting (2, 2, 2, 1, 2)
          ''Aggregate DLP detections need classification review without full case overhead.''
      | REPEATED_DENY \<Rightarrow> buildSecurityAlertRouting (2, 2, 2, 2, 2)
          ''Repeated denies identify actors to review before granting or changing access.''
      | HIGH_DOWNLOAD_VOLUME \<Rightarrow> buildSecurityAlertRouting (1, 2, 1, 1, 1)
          ''Aggregate download volume is a trend signal until tied to a concrete risky subject.''
      | SENSITIVE_ACCESS \<Rightarrow> buildSecurityAlertRouting (2, 2, 2, 2, 2)
          ''Sensitive access events need review against actor role and classification.''
      | HIGH_RISK_DOCUMENT_ACTIVITY \<Rightarrow> buildSecurityAlertRouting (2, 2, 2, 2, 2)
          ''High-risk document activity needs review before deciding whether a case is required.''
      | CRITICAL_BEHAVIOR_ANOMALY \<Rightarrow> buildSecurityAlertRouting (3, 2, 2, 3, 3)
          ''Critical actor behavior has enough scope and evidence value for case ownership.''
      | BEHAVIOR_ANOMALY \<Rightarrow> buildSecurityAlertRouting (2, 2, 2, 2, 2)
          ''Behavior anomalies need review before escalating to a case.'')"

section \<open>Service levels\<close>

datatype rec_sla_state = Sla_not_started | Sla_on_track | Sla_due_soon | Sla_overdue | Sla_closed

record playbook_step =
  ps_id :: string
  ps_label :: string
  ps_evidenceHint :: string
  ps_isComplete :: bool

record recommendation_playbook =
  pb_ownerLabel :: string
  pb_slaHours :: int
  pb_dueAt :: "int option"
  pb_slaState :: rec_sla_state
  pb_steps :: "playbook_step list"

definition getRecommendationSlaHours :: "recommendation_severity \<Rightarrow> int" where
  "getRecommendationSlaHours sev = (if sev = CRITICAL then 24 else if sev = WARNING then 72 else 168)"

definition addHours :: "int \<Rightarrow> int \<Rightarrow> int" where
  "addHours timestamp hours = timestamp + hours * 60 * 60 * 1000"

definition getRecommendationOwnerLabel :: "recommendation_type \<Rightarrow> string" where
  "getRecommendationOwnerLabel type =
     (case type of
        AUDIT_CHAIN_REVIEW \<Rightarrow> ''Compliance officer''
      | DLP_CLASSIFICATION_REVIEW \<Rightarrow> ''DLP reviewer''
      | MALWARE_UPLOAD_REVIEW \<Rightarrow> ''Security reviewer''
      | DOCUMENT_ACCESS_REVIEW \<Rightarrow> ''Document owner''
      | ACTOR_ACCESS_REVIEW \<Rightarrow> ''IAM reviewer'')"

definition getRecommendationSlaState :: "workflow_status \<Rightarrow> int option \<Rightarrow> int \<Rightarrow> rec_sla_state" where
  "getRecommendationSlaState status dueAt now =
     (if status = RESOLVED then Sla_closed
      else case dueAt of
        None \<Rightarrow> Sla_not_started
      | Some due \<Rightarrow>
          if due \<le> now then Sla_overdue
          else if due - now \<le> 24 * 60 * 60 * 1000 then Sla_due_soon
          else Sla_on_track)"

definition buildRecommendationPlaybookSteps :: "workflow_status \<Rightarrow> playbook_step list" where
  "buildRecommendationPlaybookSteps status =
     (let hasStarted = status \<noteq> OPEN;
          hasReviewed = status = REVIEWED \<or> status = RESOLVED;
          hasResolved = status = RESOLVED in
      [\<lparr> ps_id = ''triage'', ps_label = ''Acknowledge and scope recommendation'',
         ps_evidenceHint = ''Capture the recommendation id, affected scope, and audit filters.'',
         ps_isComplete = hasStarted \<rparr>,
       \<lparr> ps_id = ''investigate'', ps_label = ''Review supporting audit metadata'',
         ps_evidenceHint = ''Open the scoped audit deep link and verify metadata-only evidence.'',
         ps_isComplete = hasStarted \<rparr>,
       \<lparr> ps_id = ''review'', ps_label = ''Record review decision'',
         ps_evidenceHint = ''Move workflow to REVIEWED with a short investigation note.'',
         ps_isComplete = hasReviewed \<rparr>,
       \<lparr> ps_id = ''resolve'', ps_label = ''Close and export evidence packet'',
         ps_evidenceHint = ''Move workflow to RESOLVED and download the recommendation packet.'',
         ps_isComplete = hasResolved \<rparr>])"

definition buildRecommendationPlaybook :: "recommendation \<Rightarrow> recommendation_workflow \<Rightarrow> int \<Rightarrow> recommendation_playbook" where
  "buildRecommendationPlaybook r workflow now =
     (let slaHours = getRecommendationSlaHours (rc_severity r);
          dueAt = map_option (\<lambda>t. addHours t slaHours) (rw_updatedAt workflow) in \<lparr>
        pb_ownerLabel = getRecommendationOwnerLabel (rc_type r),
        pb_slaHours = slaHours,
        pb_dueAt = dueAt,
        pb_slaState = getRecommendationSlaState (rw_status workflow) dueAt now,
        pb_steps = buildRecommendationPlaybookSteps (rw_status workflow) \<rparr>)"

section \<open>Recommendation rows\<close>

datatype finding_category =
    ACCESS_EXPOSURE | SENSITIVE_DATA_CONTROL | SUSPICIOUS_BEHAVIOR | MALWARE_OBJECT_SAFETY | AUDIT_INTEGRITY | GOVERNANCE_SLA

record finding_profile =
  fp_category :: finding_category
  fp_categoryLabel :: string
  fp_summary :: string
  fp_evidenceQuestion :: string
  fp_nextStepLabel :: string

record recommendation_finding = finding_profile +
  fi_affectedScopeLabel :: string
  fi_routing :: alert_routing

record document_target =
  dt_documentId :: string
  dt_href :: string

record recommendation_row =
  rr_recommendation :: recommendation
  rr_severityLabel :: string
  rr_typeLabel :: string
  rr_finding :: recommendation_finding
  rr_playbook :: recommendation_playbook
  rr_affectedDocuments :: "document_target list"

definition DOCUMENT_DETAIL :: "string \<Rightarrow> string" where
  "DOCUMENT_DETAIL i = ''/documents/'' @ i"

definition document_targets :: "string list \<Rightarrow> document_target list" where
  "document_targets = map (\<lambda>i. \<lparr> dt_documentId = i, dt_href = DOCUMENT_DETAIL i \<rparr>)"

definition getRecommendationFindingProfile :: "recommendation_type \<Rightarrow> finding_profile" where
  "getRecommendationFindingProfile type =
     (case type of
        AUDIT_CHAIN_REVIEW \<Rightarrow> \<lparr> fp_category = AUDIT_INTEGRITY, fp_categoryLabel = ''Audit Integrity'',
          fp_summary = ''Audit evidence integrity needs review before export.'',
          fp_evidenceQuestion = ''Why was this raised?'', fp_nextStepLabel = ''Verify audit chain integrity'' \<rparr>
      | DLP_CLASSIFICATION_REVIEW \<Rightarrow> \<lparr> fp_category = SENSITIVE_DATA_CONTROL, fp_categoryLabel = ''Sensitive Data Control'',
          fp_summary = ''Sensitive data controls need classification review.'',
          fp_evidenceQuestion = ''Why was this raised?'', fp_nextStepLabel = ''Review classification controls'' \<rparr>
      | MALWARE_UPLOAD_REVIEW \<Rightarrow> \<lparr> fp_category = MALWARE_OBJECT_SAFETY, fp_categoryLabel = ''Malware/Object Safety'',
          fp_summary = ''Blocked upload needs source and object safety review.'',
          fp_evidenceQuestion = ''Why was this raised?'', fp_nextStepLabel = ''Review blocked upload context'' \<rparr>
      | DOCUMENT_ACCESS_REVIEW \<Rightarrow> \<lparr> fp_category = ACCESS_EXPOSURE, fp_categoryLabel = ''Access Exposure'',
          fp_summary = ''Sensitive document access needs review before evidence export.'',
          fp_evidenceQuestion = ''Why was this raised?'',
          fp_nextStepLabel = ''Review ACL and confirm business need'' \<rparr>
      | ACTOR_ACCESS_REVIEW \<Rightarrow> \<lparr> fp_category = SUSPICIOUS_BEHAVIOR, fp_categoryLabel = ''Suspicious Behavior'',
          fp_summary = ''Actor behavior needs investigation against audit evidence.'',
          fp_evidenceQuestion = ''Why was this raised?'',
          fp_nextStepLabel = ''Review actor activity and access path'' \<rparr>)"

text \<open>The separator is a middle dot between blanks.\<close>

definition buildAffectedScopeLabel :: "recommendation \<Rightarrow> string" where
  "buildAffectedScopeLabel r =
     (let documentCount = length (rc_affectedDocumentIds r); actorCount = length (rc_affectedActorIds r);
          parts = (if 0 < documentCount then [show_nat documentCount @ '' '' @ plural documentCount ''document''] else [])
            @ (if 0 < actorCount then [show_nat actorCount @ '' '' @ plural actorCount ''actor''] else [])
      in if parts \<noteq> [] then join_with ('' '' @ [CHR 0xC2, CHR 0xB7] @ '' '') parts
         else if list_ex (\<lambda>kv. 0 < length (snd kv)) (rc_auditFilters r) then ''Audit-filtered scope''
         else ''System-wide audit scope'')"

definition buildRecommendationFinding :: "recommendation \<Rightarrow> recommendation_finding" where
  "buildRecommendationFinding r =
     finding_profile.extend (getRecommendationFindingProfile (rc_type r))
       (recommendation_finding.fields (buildAffectedScopeLabel r) (buildRecommendationRouting r))"

definition getSeverityRank :: "recommendation_severity \<Rightarrow> int" where
  "getSeverityRank sev = (if sev = CRITICAL then 3 else if sev = WARNING then 2 else 1)"

definition getRecommendationSeverityLabel :: "recommendation_severity \<Rightarrow> string" where
  "getRecommendationSeverityLabel sev =
     (if sev = CRITICAL then ''Critical'' else if sev = WARNING then ''Warning'' else ''Info'')"

definition getRecommendationTypeLabel :: "recommendation_type \<Rightarrow> string" where
  "getRecommendationTypeLabel type =
     (case type of
        AUDIT_CHAIN_REVIEW \<Rightarrow> ''Audit integrity''
      | DLP_CLASSIFICATION_REVIEW \<Rightarrow> ''DLP classification''
      | MALWARE_UPLOAD_REVIEW \<Rightarrow> ''Malware review''
      | DOCUMENT_ACCESS_REVIEW \<Rightarrow> ''Document access''
      | ACTOR_ACCESS_REVIEW \<Rightarrow> ''Actor activity'')"

definition row_route :: "recommendation_row \<Rightarrow> alert_route" where
  "row_route row = ro_route (fi_routing (rr_finding row))"

definition row_severity :: "recommendation_row \<Rightarrow> recommendation_severity" where
  "row_severity row = rc_severity (rr_recommendation row)"

definition row_status :: "recommendation_row \<Rightarrow> workflow_status" where
  "row_status row = rw_status (rc_workflow (rr_recommendation row))"

text \<open>\<open>a - b || c - d\<close>: the second difference where the first is zero.\<close>

definition compareRecommendationRows :: "recommendation_row \<Rightarrow> recommendation_row \<Rightarrow> int" where
  "compareRecommendationRows a b =
     (let routeDelta = getRouteRank (row_route b) - getRouteRank (row_route a) in
      if routeDelta \<noteq> 0 then routeDelta
      else getSeverityRank (row_severity b) - getSeverityRank (row_severity a))"

definition recommendationRow :: "int \<Rightarrow> recommendation \<Rightarrow> recommendation_row" where
  "recommendationRow now r = \<lparr>
     rr_recommendation = r,
     rr_severityLabel = getRecommendationSeverityLabel (rc_severity r),
     rr_typeLabel = getRecommendationTypeLabel (rc_type r),
     rr_finding = buildRecommendationFinding r,
     rr_playbook = buildRecommendationPlaybook r (rc_workflow r) now,
     rr_affectedDocuments = document_targets (rc_affectedDocumentIds r) \<rparr>"

definition buildRecommendationRows :: "recommendation list \<Rightarrow> int \<Rightarrow> recommendation_row list" where
  "buildRecommendationRows rs now = js_sort compareRecommendationRows (map (recommendationRow now) rs)"

datatype queue_view = Active_view | Resolved_view | All_view

definition filterSecurityRecommendationRows :: "recommendation_row list \<Rightarrow> queue_view \<Rightarrow> recommendation_row list" where
  "filterSecurityRecommendationRows items view =
     (if view = All_view then items
      else if view = Resolved_view then filter (\<lambda>item. row_status item = RESOLVED) items
      else filter (\<lambda>item. row_status item \<noteq> RESOLVED) items)"

record queue_counts =
  qc_active :: nat
  qc_resolved :: nat
  qc_all :: nat

definition getSecurityRecommendationQueueCounts :: "recommendation_row list \<Rightarrow> queue_counts" where
  "getSecurityRecommendationQueueCounts items =
     (let resolved = length (filter (\<lambda>item. row_status item = RESOLVED) items) in
      \<lparr> qc_active = length items - resolved, qc_resolved = resolved, qc_all = length items \<rparr>)"

section \<open>Closing a case\<close>

datatype resolution_kind = REMEDIATED | ACCEPTED_RISK

record case_draft =
  cd_investigationNote :: string
  cd_resolutionKind :: "resolution_kind option"
  cd_resolutionNote :: string
  cd_verificationConfirmed :: bool

record case_validation =
  cv_canResolve :: bool
  cv_missingRequirements :: "string list"

definition validateSecurityCaseWorkflowDraft :: "case_draft \<Rightarrow> case_validation" where
  "validateSecurityCaseWorkflowDraft draft =
     (let missing =
        (if \<not> truthy (trim (cd_investigationNote draft)) then [''Investigation note''] else [])
        @ (if cd_resolutionKind draft = None then [''Remediation or accepted-risk decision''] else [])
        @ (if \<not> truthy (trim (cd_resolutionNote draft)) then [''Remediation or accepted-risk evidence''] else [])
        @ (if \<not> cd_verificationConfirmed draft then [''Verification confirmation''] else [])
      in \<lparr> cv_canResolve = (length missing = 0), cv_missingRequirements = missing \<rparr>)"

definition or_pending :: "string \<Rightarrow> string" where
  "or_pending note = (if truthy (trim note) then trim note else ''Pending'')"

definition buildSecurityCaseWorkflowNote :: "case_draft \<Rightarrow> string" where
  "buildSecurityCaseWorkflowNote draft =
     (let decision = (if cd_resolutionKind draft = Some REMEDIATED then ''Remediated''
            else if cd_resolutionKind draft = Some ACCEPTED_RISK then ''Accepted risk'' else ''Pending'')
      in join_with [CHR 0x0A]
        [''Case workflow'',
         ''Investigation: '' @ or_pending (cd_investigationNote draft),
         ''Decision: '' @ decision,
         ''Resolution evidence: '' @ or_pending (cd_resolutionNote draft),
         ''Verification: '' @ (if cd_verificationConfirmed draft then ''Confirmed'' else ''Pending'')])"

end
