(* ===== verification/Security_Console.thy ===== *)
theory Security_Console
  imports Security_Dashboard
begin

text \<open>
  The rest of the security dashboard: risk bands, the rows of documents and behaviour
  signals, the alerts and the posture they add up to, the chart segments with their
  links into the audit log, and the model as a whole.
\<close>

section \<open>Access events\<close>

definition isSensitiveAccessEvent :: "audit_event \<Rightarrow> bool" where
  "isSensitiveAccessEvent e =
     (if e_action e \<noteq> ''DOCUMENT_DOWNLOAD_AUTHORIZED'' \<and> e_action e \<noteq> ''DOCUMENT_PREVIEW_AUTHORIZED'' then False
      else let classification = upper (case metadataValue ''classification'' e of
              None \<Rightarrow> [] | Some JNull \<Rightarrow> [] | Some v \<Rightarrow> js_string v)
           in classification = ''CONFIDENTIAL'' \<or> classification = ''SECRET'')"

text \<open>\<open>event.metadata?.docId ?? event.metadata?.documentId\<close>.\<close>

definition present :: "json option \<Rightarrow> json option" where
  "present v = (if v = Some JNull then None else v)"

definition getAuditEventDocumentId :: "audit_event \<Rightarrow> string option" where
  "getAuditEventDocumentId e =
     (case or_else (present (metadataValue ''docId'' e)) (metadataValue ''documentId'' e) of
        Some (JStr i) \<Rightarrow> Some i
      | _ \<Rightarrow> if e_resourceType e = ''DOCUMENT'' \<and> truthy_opt (e_resourceId e) then e_resourceId e else None)"

definition getAuditEventDocumentHref :: "audit_event \<Rightarrow> string option" where
  "getAuditEventDocumentHref e =
     (let documentId = getAuditEventDocumentId e in
      if truthy_opt documentId then Some (DOCUMENT_DETAIL (the documentId)) else None)"

definition getDocumentTargetsFromEvents :: "audit_event list \<Rightarrow> document_target list" where
  "getDocumentTargetsFromEvents es =
     document_targets (unique (filter truthy (List.map_filter getAuditEventDocumentId es)))"

section \<open>Risk bands\<close>

type_synonym risk_band = signal_severity

definition getRiskBand :: "nat \<Rightarrow> risk_band" where
  "getRiskBand riskScore = (if 80 \<le> riskScore then signal_severity.Critical else if 50 \<le> riskScore then signal_severity.Warning else Watch)"

definition getRiskLabel :: "risk_band \<Rightarrow> string" where
  "getRiskLabel b = (if b = signal_severity.Critical then ''Critical risk'' else if b = signal_severity.Warning then ''Elevated risk'' else ''Watch'')"

record risk_row =
  kr_document :: risky_document
  kr_riskBand :: risk_band
  kr_riskLabel :: string
  kr_auditFilters :: audit_filters
  kr_documentHref :: string

definition buildRiskScoringRows :: "risky_document list \<Rightarrow> risk_row list" where
  "buildRiskScoringRows = map (\<lambda>d. let riskBand = getRiskBand (rd_riskScore d) in \<lparr>
     kr_document = d, kr_riskBand = riskBand, kr_riskLabel = getRiskLabel riskBand,
     kr_auditFilters = noFilters\<lparr>af_documentId := Some (rd_documentId d)\<rparr>,
     kr_documentHref = DOCUMENT_DETAIL (rd_documentId d) \<rparr>)"

definition getBehaviorSignalLabel :: "signal_type \<Rightarrow> string" where
  "getBehaviorSignalLabel type =
     (case type of
        MASS_CONTENT_ACCESS \<Rightarrow> ''Mass content access''
      | DENY_BURST \<Rightarrow> ''Denied access burst''
      | DESTRUCTIVE_BEHAVIOR \<Rightarrow> ''Destructive activity'')"

definition getBehaviorSignalFilters :: "behavior_signal \<Rightarrow> audit_filters" where
  "getBehaviorSignalFilters x =
     (let windowFilters = noFilters\<lparr>af_actorId := Some (bs_actorId x),
            af_from := Some (toISOString (bs_windowStartedAt x)), af_to := Some (toISOString (bs_windowEndedAt x))\<rparr> in
      if bs_type x = MASS_CONTENT_ACCESS then windowFilters\<lparr>af_actionGroup := Some ''AUTHORIZED_CONTENT_ACCESS''\<rparr>
      else if bs_type x = DESTRUCTIVE_BEHAVIOR then windowFilters\<lparr>af_actionGroup := Some ''DESTRUCTIVE_ACTIVITY''\<rparr>
      else windowFilters\<lparr>af_result := Some ''DENY''\<rparr>)"

record signal_row =
  sg_signal :: behavior_signal
  sg_typeLabel :: string
  sg_riskBand :: risk_band
  sg_riskLabel :: string
  sg_auditFilters :: audit_filters

definition buildBehaviorSignalRows :: "behavior_signal list \<Rightarrow> signal_row list" where
  "buildBehaviorSignalRows = map (\<lambda>x. let riskBand = getRiskBand (bs_riskScore x) in \<lparr>
     sg_signal = x, sg_typeLabel = getBehaviorSignalLabel (bs_type x), sg_riskBand = riskBand,
     sg_riskLabel = getRiskLabel riskBand, sg_auditFilters = getBehaviorSignalFilters x \<rparr>)"

section \<open>Alerts\<close>

type_synonym alert_severity = recommendation_severity

record evidence_target =
  et_href :: string
  et_label :: string

record dashboard_alert =
  al_severity :: alert_severity
  al_title :: string
  al_description :: string
  al_action :: string
  al_routing :: alert_routing
  al_evidenceTarget :: evidence_target
  al_documentTargets :: "document_target list option"

definition plural_s :: "nat \<Rightarrow> string" where
  "plural_s n = (if n = 1 then '''' else ''s'')"

definition alert_when :: "bool \<Rightarrow> dashboard_alert \<Rightarrow> dashboard_alert list" where
  "alert_when c a = (if c then [a] else [])"

definition evidence :: "string \<Rightarrow> string \<Rightarrow> evidence_target" where
  "evidence href label = \<lparr> et_href = href, et_label = label \<rparr>"

definition chainBroken :: "security_summary option \<Rightarrow> bool" where
  "chainBroken summary = (case summary of None \<Rightarrow> False | Some s \<Rightarrow> \<not> v_valid (ss_chain s))"

definition compromisedEpochCount :: "security_summary option \<Rightarrow> nat" where
  "compromisedEpochCount summary =
     (case summary of None \<Rightarrow> 0
      | Some s \<Rightarrow> coalesce (or_else (v_historicalCompromisedCount (ss_chain s))
          (map_option length (v_compromisedEpochs (ss_chain s)))) 0)"

definition chainAlerts :: "security_summary option \<Rightarrow> dashboard_alert list" where
  "chainAlerts summary =
     alert_when (chainBroken summary) \<lparr>
        al_severity = CRITICAL, al_title = ''Audit chain invalid'',
        al_description = coalesce (Option.bind summary (\<lambda>s. v_message (ss_chain s)))
          ''Hash-chain verification reported a broken audit chain.'',
        al_action = ''Verify tamper evidence before trusting audit exports.'',
        al_routing = buildDashboardAlertRouting AUDIT_CHAIN_INVALID,
        al_evidenceTarget = evidence ''#security-posture'' ''View posture evidence'', al_documentTargets = None \<rparr>
     @ (let n = compromisedEpochCount summary in
        alert_when (\<not> chainBroken summary \<and> 0 < n) \<lparr>
          al_severity = WARNING, al_title = ''Historical audit epoch compromised'',
          al_description = show_nat n @ '' previous audit epoch'' @ (if n = 1 then '' is'' else ''s are'')
            @ '' marked compromised.'',
          al_action = ''Review the incident-linked audit epoch before exporting historical evidence.'',
          al_routing = buildDashboardAlertRouting HISTORICAL_AUDIT_EPOCH_COMPROMISED,
          al_evidenceTarget = evidence ''#security-posture'' ''View posture evidence'', al_documentTargets = None \<rparr>)"

definition counterAlerts :: "summary_totals \<Rightarrow> nat \<Rightarrow> document_target list \<Rightarrow> dashboard_alert list" where
  "counterAlerts totals denyActors dlpTargets =
     alert_when (0 < st_malwareBlocked totals) \<lparr>
        al_severity = WARNING, al_title = ''Malware upload blocked'',
        al_description = show_nat (st_malwareBlocked totals) @ '' upload attempt'' @ plural_s (st_malwareBlocked totals)
          @ '' were blocked before storage.'',
        al_action = ''Review the upload actor, checksum, and source document.'',
        al_routing = buildDashboardAlertRouting MALWARE_BLOCKED,
        al_evidenceTarget = evidence ''#security-recent-events'' ''View related events'', al_documentTargets = None \<rparr>
     @ alert_when (0 < st_dlpDetections totals) \<lparr>
        al_severity = WARNING, al_title = ''DLP detections recorded'',
        al_description = show_nat (st_dlpDetections totals) @ '' DLP detection'' @ plural_s (st_dlpDetections totals)
          @ '' require classification review.'',
        al_action = ''Confirm classification escalation and prevent unsafe downgrades.'',
        al_routing = buildDashboardAlertRouting DLP_DETECTED,
        al_evidenceTarget = evidence ''#security-recent-events'' ''View related events'',
        al_documentTargets = Some dlpTargets \<rparr>
     @ alert_when (0 < denyActors) \<lparr>
        al_severity = WARNING, al_title = ''Repeated denied access'',
        al_description = show_nat denyActors @ '' actor'' @ plural_s denyActors @ '' crossed the deny threshold.'',
        al_action = ''Review account activity'',
        al_routing = buildDashboardAlertRouting REPEATED_DENY,
        al_evidenceTarget = evidence ''#security-repeated-deny-actors'' ''View related actors'',
        al_documentTargets = None \<rparr>"

definition accessAlerts :: "nat \<Rightarrow> nat \<Rightarrow> document_target list \<Rightarrow> dashboard_alert list" where
  "accessAlerts downloads sensitiveAccesses sensitiveTargets =
     alert_when (10 \<le> downloads) \<lparr>
        al_severity = WARNING, al_title = ''High download volume'',
        al_description = show_nat downloads @ '' successful download authorization'' @ plural_s downloads
          @ '' are present in the audit window.'',
        al_action = ''Review high-volume document access before evidence export.'',
        al_routing = buildDashboardAlertRouting HIGH_DOWNLOAD_VOLUME,
        al_evidenceTarget = evidence ''#security-access-activity'' ''View access activity'',
        al_documentTargets = Some sensitiveTargets \<rparr>
     @ alert_when (0 < sensitiveAccesses) \<lparr>
        al_severity = WARNING, al_title = ''Sensitive document access'',
        al_description = show_nat sensitiveAccesses @ '' recent CONFIDENTIAL/SECRET preview or download event''
          @ plural_s sensitiveAccesses @ '' need review.'',
        al_action = ''Confirm access intent, actor role, and document classification.'',
        al_routing = buildDashboardAlertRouting SENSITIVE_ACCESS,
        al_evidenceTarget = evidence ''#security-access-activity'' ''View access activity'',
        al_documentTargets = Some sensitiveTargets \<rparr>"

definition riskAlerts :: "risk_row list \<Rightarrow> dashboard_alert list" where
  "riskAlerts rows =
     alert_when (list_ex (\<lambda>r. kr_riskBand r = signal_severity.Critical) rows) \<lparr>
        al_severity = WARNING, al_title = ''High-risk document activity'',
        al_description = ''One or more sensitive documents have elevated access frequency or actor spread.'',
        al_action = ''Review the risk scoring panel and open document-scoped audit evidence.'',
        al_routing = buildDashboardAlertRouting HIGH_RISK_DOCUMENT_ACTIVITY,
        al_evidenceTarget = evidence ''#security-risk-scoring'' ''View document evidence'',
        al_documentTargets = Some (map (\<lambda>r. \<lparr> dt_documentId = rd_documentId (kr_document r),
          dt_href = kr_documentHref r \<rparr>) rows) \<rparr>"

definition behaviorAlerts :: "signal_row list \<Rightarrow> dashboard_alert list" where
  "behaviorAlerts rows =
     (let criticalSignals = length (filter (\<lambda>r. sg_riskBand r = signal_severity.Critical) rows) in
      alert_when (rows \<noteq> []) \<lparr>
        al_severity = (if 0 < criticalSignals then CRITICAL else WARNING), al_title = ''Behavior anomaly detected'',
        al_description = show_nat (length rows) @ '' actor behavior signal'' @ plural_s (length rows)
          @ '' matched ransomware-oriented audit patterns.'',
        al_action = ''Review behavior anomalies and actor-scoped audit evidence.'',
        al_routing = buildDashboardAlertRouting
          (if 0 < criticalSignals then CRITICAL_BEHAVIOR_ANOMALY else BEHAVIOR_ANOMALY),
        al_evidenceTarget = evidence ''#security-behavior-anomalies'' ''View behavior evidence'',
        al_documentTargets = None \<rparr>)"

section \<open>Posture\<close>

datatype posture_level = Healthy_posture | Warning_posture | Critical_posture

record posture =
  po_level :: posture_level
  po_label :: string
  po_description :: string

definition buildPosture :: "security_summary option \<Rightarrow> dashboard_alert list \<Rightarrow> posture" where
  "buildPosture summary alerts =
     (if list_ex (\<lambda>a. al_severity a = CRITICAL) alerts then \<lparr>
        po_level = Critical_posture, po_label = ''Immediate review required'',
        po_description = coalesce (Option.bind summary (\<lambda>s. v_message (ss_chain s)))
          ''A critical audit or security signal requires review.'' \<rparr>
      else if 0 < length alerts then \<lparr>
        po_level = Warning_posture, po_label = ''Security review needed'',
        po_description = ''One or more security counters require compliance review.'' \<rparr>
      else \<lparr>
        po_level = Healthy_posture, po_label = ''Security posture healthy'',
        po_description = ''No elevated security counters in the current audit summary.'' \<rparr>)"

definition severityAlerts :: "alert_severity \<Rightarrow> dashboard_alert list \<Rightarrow> nat" where
  "severityAlerts sev alerts = length (filter (\<lambda>a. al_severity a = sev) alerts)"

definition getPostureScore :: "posture_level \<Rightarrow> dashboard_alert list \<Rightarrow> int" where
  "getPostureScore level alerts =
     (let rawScore = 100 - int (severityAlerts CRITICAL alerts) * 25 - int (severityAlerts WARNING alerts) * 8
            - int (severityAlerts INFO alerts) * 3 in
      if level = Critical_posture then max 0 (min 65 rawScore)
      else if level = Warning_posture then max 0 (min 84 rawScore)
      else max 0 (min 100 rawScore))"

datatype tone = Info_tone | Success_tone | Warning_tone | Critical_tone

definition getPostureTone :: "posture_level \<Rightarrow> tone" where
  "getPostureTone level =
     (if level = Critical_posture then Critical_tone
      else if level = Warning_posture then Warning_tone else Success_tone)"

section \<open>Chart segments\<close>

text \<open>
  \<open>Math.round((value / total) * 100)\<close> on doubles: the quotient and the product are each
  rounded to 53 significant bits, ties to even.
\<close>

fun bit_size :: "nat \<Rightarrow> nat" where
  "bit_size n = (if n = 0 then 0 else Suc (bit_size (n div 2)))"

declare bit_size.simps [simp del]

definition round_even :: "nat \<Rightarrow> nat \<Rightarrow> nat" where
  "round_even n d =
     (let q = n div d; r = n mod d in
      if 2 * r < d then q else if d < 2 * r then q + 1 else if even q then q else q + 1)"

text \<open>The double nearest to \<open>n / d\<close>, as a significand and the power of two that divides it.\<close>

definition double_div :: "nat \<Rightarrow> nat \<Rightarrow> nat \<times> nat" where
  "double_div n d =
     (let k0 = 52 + bit_size d - bit_size n;
          k = (if n * 2 ^ k0 < 2 ^ 52 * d then k0 + 1 else k0)
      in (round_even (n * 2 ^ k) d, k))"

definition percent_of :: "nat \<Rightarrow> nat \<Rightarrow> nat" where
  "percent_of n d =
     (case double_div n d of (m, k) \<Rightarrow>
        let j = bit_size (m * 100) - 53;
            product = round_even (m * 100) (2 ^ j) * 2 ^ j
        in (2 * product + 2 ^ k) div (2 * 2 ^ k))"

definition toPercentage :: "nat \<Rightarrow> nat \<Rightarrow> nat" where
  "toPercentage v t = (if t \<le> 0 then 0 else if v = 0 then 0 else percent_of v t)"

record segment =
  sm_key :: string
  sm_label :: string
  sm_value :: nat
  sm_percentage :: nat
  sm_tone :: tone
  sm_href :: string

definition segment_of :: "string \<Rightarrow> string \<Rightarrow> nat \<Rightarrow> nat \<Rightarrow> tone \<Rightarrow> string \<Rightarrow> segment" where
  "segment_of key label v t tn href =
     \<lparr> sm_key = key, sm_label = label, sm_value = v, sm_percentage = toPercentage v t, sm_tone = tn, sm_href = href \<rparr>"

definition auditLink :: "audit_filters \<Rightarrow> string" where
  "auditLink f = ROUTES_AUDIT @ ''?'' @ buildAuditFilterQuery f"

definition buildEventTypeSegments :: "summary_totals \<Rightarrow> segment list" where
  "buildEventTypeSegments totals =
     (let t = st_deniedEvents totals + st_downloadDenied totals + st_malwareBlocked totals + st_dlpDetections totals in
      [segment_of ''denied-events'' ''Denied events'' (st_deniedEvents totals) t
         (if 0 < st_deniedEvents totals then Warning_tone else Success_tone)
         (auditLink (noFilters\<lparr>af_result := Some ''DENY''\<rparr>)),
       segment_of ''download-denied'' ''Download denied'' (st_downloadDenied totals) t
         (if 0 < st_downloadDenied totals then Warning_tone else Success_tone)
         (auditLink (noFilters\<lparr>af_action := Some ''DOCUMENT_DOWNLOAD_DENIED''\<rparr>)),
       segment_of ''malware-blocked'' ''Malware blocked'' (st_malwareBlocked totals) t
         (if 0 < st_malwareBlocked totals then Critical_tone else Success_tone)
         (auditLink (noFilters\<lparr>af_action := Some ''MALWARE_UPLOAD_BLOCKED''\<rparr>)),
       segment_of ''dlp-detections'' ''DLP hits'' (st_dlpDetections totals) t
         (if 0 < st_dlpDetections totals then Warning_tone else Success_tone)
         (auditLink (noFilters\<lparr>af_action := Some ''DLP_PATTERN_DETECTED''\<rparr>))])"

definition buildAlertSegments :: "dashboard_alert list \<Rightarrow> segment list" where
  "buildAlertSegments alerts =
     (let t = length alerts in
      [segment_of ''critical'' ''Critical'' (severityAlerts CRITICAL alerts) t Critical_tone ROUTES_AUDIT,
       segment_of ''warning'' ''Warning'' (severityAlerts WARNING alerts) t Warning_tone ROUTES_AUDIT,
       segment_of ''info'' ''Info'' (severityAlerts INFO alerts) t Info_tone ROUTES_AUDIT])"

text \<open>The three segments of a list of rows with a band, each with the link to its rows.\<close>

definition bandSegments :: "('a \<Rightarrow> risk_band) \<Rightarrow> ('a list \<Rightarrow> risk_band \<Rightarrow> audit_filters) \<Rightarrow> 'a list \<Rightarrow> segment list" where
  "bandSegments band filters rows =
     (let t = length rows; n = (\<lambda>b. length (filter (\<lambda>r. band r = b) rows)) in
      [segment_of ''critical'' ''Critical'' (n signal_severity.Critical) t Critical_tone
         (buildAuditHref (filters rows signal_severity.Critical)),
       segment_of ''warning'' ''Elevated'' (n signal_severity.Warning) t Warning_tone
         (buildAuditHref (filters rows signal_severity.Warning)),
       segment_of ''watch'' ''Watch'' (n Watch) t Info_tone (buildAuditHref (filters rows Watch))])"

definition getDocumentIdsForRiskBand :: "risk_row list \<Rightarrow> risk_band \<Rightarrow> string list" where
  "getDocumentIdsForRiskBand rows b =
     map (\<lambda>r. rd_documentId (kr_document r)) (filter (\<lambda>r. kr_riskBand r = b) rows)"

definition riskBandFilters :: "risk_row list \<Rightarrow> risk_band \<Rightarrow> audit_filters" where
  "riskBandFilters rows b = noFilters\<lparr>af_documentIds := Some (getDocumentIdsForRiskBand rows b)\<rparr>"

definition buildRiskBandSegments :: "risk_row list \<Rightarrow> segment list" where
  "buildRiskBandSegments = bandSegments kr_riskBand riskBandFilters"

definition buildBehaviorSignalBandFilters :: "signal_row list \<Rightarrow> risk_band \<Rightarrow> audit_filters" where
  "buildBehaviorSignalBandFilters rows b =
     (let bandRows = filter (\<lambda>r. sg_riskBand r = b) rows;
          actorIds = unique (map (\<lambda>r. bs_actorId (sg_signal r)) bandRows);
          groups = unique (filter truthy (List.map_filter (\<lambda>r. af_actionGroup (sg_auditFilters r)) bandRows));
          results = unique (filter truthy (List.map_filter (\<lambda>r. af_result (sg_auditFilters r)) bandRows));
          starts = sort (filter truthy (List.map_filter (\<lambda>r. af_from (sg_auditFilters r)) bandRows));
          ends = sort (filter truthy (List.map_filter (\<lambda>r. af_to (sg_auditFilters r)) bandRows))
      in noFilters\<lparr>
        af_result := (if length results = 1 then Some (hd results) else None),
        af_actionGroup := (if length groups = 1 then Some (hd groups) else None),
        af_actorIds := Some actorIds,
        af_from := (if 0 < length starts then Some (hd starts) else None),
        af_to := (if 0 < length ends then Some (last ends) else None)\<rparr>)"

definition buildAnomalyBandSegments :: "signal_row list \<Rightarrow> segment list" where
  "buildAnomalyBandSegments = bandSegments sg_riskBand buildBehaviorSignalBandFilters"

definition getRecommendationIdsForSlaState :: "recommendation_row list \<Rightarrow> rec_sla_state \<Rightarrow> string list" where
  "getRecommendationIdsForSlaState rows st =
     map (\<lambda>r. rc_id (rr_recommendation r)) (filter (\<lambda>r. pb_slaState (rr_playbook r) = st) rows)"

definition slaFilters :: "recommendation_row list \<Rightarrow> rec_sla_state \<Rightarrow> audit_filters" where
  "slaFilters rows st = noFilters\<lparr>af_recommendationIds := Some (getRecommendationIdsForSlaState rows st)\<rparr>"

definition slaSegment :: "recommendation_row list \<Rightarrow> string \<Rightarrow> string \<Rightarrow> rec_sla_state \<Rightarrow> tone \<Rightarrow> segment" where
  "slaSegment rows key label st tn =
     segment_of key label (length (filter (\<lambda>r. pb_slaState (rr_playbook r) = st) rows)) (length rows) tn
       (buildAuditHref (slaFilters rows st))"

definition buildRecommendationSlaSegments :: "recommendation_row list \<Rightarrow> segment list" where
  "buildRecommendationSlaSegments rows =
     [slaSegment rows ''overdue'' ''Overdue'' Sla_overdue Critical_tone,
      slaSegment rows ''due-soon'' ''Due soon'' Sla_due_soon Warning_tone,
      slaSegment rows ''on-track'' ''On track'' Sla_on_track Info_tone,
      slaSegment rows ''not-started'' ''Not started'' Sla_not_started Warning_tone,
      slaSegment rows ''closed'' ''Closed'' Sla_closed Success_tone]"

definition sensitiveAccessFilters :: audit_filters where
  "sensitiveAccessFilters = noFilters\<lparr>af_actionGroup := Some ''AUTHORIZED_CONTENT_ACCESS'',
     af_classifications := Some [''SECRET'', ''CONFIDENTIAL'']\<rparr>"

definition buildAccessSegments :: "nat \<Rightarrow> nat \<Rightarrow> segment list" where
  "buildAccessSegments downloads sensitiveAccesses =
     (let baseline = max downloads sensitiveAccesses in
      [segment_of ''download-authorized'' ''Download grants'' downloads baseline
         (if 10 \<le> downloads then Warning_tone else Info_tone)
         (buildAuditHref (noFilters\<lparr>af_action := Some ''DOCUMENT_DOWNLOAD_AUTHORIZED''\<rparr>)),
       segment_of ''sensitive-access'' ''Sensitive grants'' sensitiveAccesses baseline
         (if 0 < sensitiveAccesses then Warning_tone else Success_tone)
         (buildAuditHref sensitiveAccessFilters)])"

section \<open>The command center\<close>

record posture_gauge =
  pg_label :: string
  pg_value :: int
  pg_tone :: tone
  pg_description :: string
  pg_href :: string

record command_center =
  cc_postureGauge :: posture_gauge
  cc_alertSegments :: "segment list"
  cc_eventTypeSegments :: "segment list"
  cc_riskBandSegments :: "segment list"
  cc_anomalyBandSegments :: "segment list"
  cc_recommendationSlaSegments :: "segment list"
  cc_accessSegments :: "segment list"

definition buildPostureGauge :: "posture \<Rightarrow> dashboard_alert list \<Rightarrow> verification option \<Rightarrow> posture_gauge" where
  "buildPostureGauge p alerts chain =
     (let checked = map_option v_checked chain in \<lparr>
        pg_label = ''Security posture'',
        pg_value = getPostureScore (po_level p) alerts,
        pg_tone = getPostureTone (po_level p),
        pg_description = po_description p @ '' Audit chain checked '' @ show_nat (coalesce checked 0) @ '' event''
          @ (if checked = Some 1 then '''' else ''s'') @ ''.'',
        pg_href = ROUTES_AUDIT \<rparr>)"

section \<open>The model\<close>

record dashboard_activity =
  ac_downloadAuthorizedTotal :: "nat option"
  ac_sensitiveAccessEvents :: "audit_event list option"
  ac_recentEvents :: "audit_event list option"

record dashboard_metric =
  me_key :: string
  me_label :: string
  me_value :: nat
  me_description :: string

record activity_panel =
  ap_downloadAuthorizedTotal :: nat
  ap_sensitiveAccessCount :: nat
  ap_sensitiveAccessEvents :: "audit_event list"

record security_dashboard =
  sd_posture :: posture
  sd_commandCenter :: command_center
  sd_metrics :: "dashboard_metric list"
  sd_alerts :: "dashboard_alert list"
  sd_repeatedDenyActors :: "(deny_actor \<times> string) list"
  sd_activity :: activity_panel
  sd_riskyDocuments :: "risk_row list"
  sd_behaviorSignals :: "signal_row list"
  sd_recommendations :: "recommendation_row list"
  sd_quickFilters :: "(string \<times> string \<times> audit_filters) list"

definition dashboardMetrics :: "summary_totals \<Rightarrow> dashboard_metric list" where
  "dashboardMetrics totals =
     [\<lparr> me_key = ''deniedEvents'', me_label = ''Denied events'', me_value = st_deniedEvents totals,
        me_description = ''Policy-denied requests across protected resources.'' \<rparr>,
      \<lparr> me_key = ''downloadDenied'', me_label = ''Download denied'', me_value = st_downloadDenied totals,
        me_description = ''File-content download attempts blocked by policy.'' \<rparr>,
      \<lparr> me_key = ''malwareBlocked'', me_label = ''Malware blocked'', me_value = st_malwareBlocked totals,
        me_description = ''Uploads blocked before object storage.'' \<rparr>,
      \<lparr> me_key = ''dlpDetections'', me_label = ''DLP hits'', me_value = st_dlpDetections totals,
        me_description = ''Sensitive-content detections that affect classification.'' \<rparr>]"

definition quickFilters :: "(string \<times> string \<times> audit_filters) list" where
  "quickFilters =
     [(''DENY'', ''Policy-denied activity'', noFilters\<lparr>af_result := Some ''DENY''\<rparr>),
      (''ERROR'', ''Failed security operations'', noFilters\<lparr>af_result := Some ''ERROR''\<rparr>),
      (''DOWNLOAD DENIED'', ''Blocked file-content access'', noFilters\<lparr>af_action := Some ''DOCUMENT_DOWNLOAD_DENIED''\<rparr>),
      (''DLP DETECTED'', ''Sensitive-content findings'', noFilters\<lparr>af_action := Some ''DLP_PATTERN_DETECTED''\<rparr>),
      (''DOWNLOAD AUTHORIZED'', ''Successful file-content grants'',
        noFilters\<lparr>af_action := Some ''DOCUMENT_DOWNLOAD_AUTHORIZED''\<rparr>),
      (''PREVIEW AUTHORIZED'', ''Successful content preview grants'',
        noFilters\<lparr>af_action := Some ''DOCUMENT_PREVIEW_AUTHORIZED''\<rparr>)]"

definition noTotals :: summary_totals where
  "noTotals = \<lparr> st_deniedEvents = 0, st_malwareBlocked = 0, st_dlpDetections = 0, st_downloadDenied = 0 \<rparr>"

definition list_of :: "('a \<Rightarrow> 'b list) \<Rightarrow> 'a option \<Rightarrow> 'b list" where
  "list_of f v = (case v of None \<Rightarrow> [] | Some x \<Rightarrow> f x)"

definition dashboardAlerts :: "security_summary option \<Rightarrow> nat \<Rightarrow> audit_event list \<Rightarrow> audit_event list \<Rightarrow> dashboard_alert list" where
  "dashboardAlerts summary downloads sensitiveEvents recentEvents =
     (let totals = coalesce (map_option ss_totals summary) noTotals;
          dlpTargets = getDocumentTargetsFromEvents (filter (\<lambda>e. e_action e = ''DLP_PATTERN_DETECTED'') recentEvents);
          sensitiveTargets = getDocumentTargetsFromEvents sensitiveEvents
      in chainAlerts summary
         @ counterAlerts totals (length (list_of ss_repeatedDenyActors summary)) dlpTargets
         @ accessAlerts downloads (length sensitiveEvents) sensitiveTargets
         @ riskAlerts (buildRiskScoringRows (list_of ss_riskyDocuments summary))
         @ behaviorAlerts (buildBehaviorSignalRows (list_of ss_behaviorSignals summary)))"

definition buildCommandCenter ::
  "posture \<Rightarrow> dashboard_alert list \<Rightarrow> risk_row list \<Rightarrow> signal_row list \<Rightarrow> recommendation_row list
   \<Rightarrow> verification option \<Rightarrow> summary_totals \<Rightarrow> nat \<Rightarrow> nat \<Rightarrow> command_center" where
  "buildCommandCenter p alerts riskRows signalRows rows chain totals downloads sensitiveCount = \<lparr>
     cc_postureGauge = buildPostureGauge p alerts chain,
     cc_alertSegments = buildAlertSegments alerts,
     cc_eventTypeSegments = buildEventTypeSegments totals,
     cc_riskBandSegments = buildRiskBandSegments riskRows,
     cc_anomalyBandSegments = buildAnomalyBandSegments signalRows,
     cc_recommendationSlaSegments = buildRecommendationSlaSegments rows,
     cc_accessSegments = buildAccessSegments downloads sensitiveCount \<rparr>"

definition buildSecurityDashboardModel ::
  "security_summary option \<Rightarrow> dashboard_activity option \<Rightarrow> int \<Rightarrow> security_dashboard" where
  "buildSecurityDashboardModel summary activity now =
     (let totals = coalesce (map_option ss_totals summary) noTotals;
          sensitiveEvents = filter isSensitiveAccessEvent
            (coalesce (Option.bind activity ac_sensitiveAccessEvents) []);
          recentEvents = coalesce (Option.bind activity ac_recentEvents) [];
          downloads = coalesce (Option.bind activity ac_downloadAuthorizedTotal) 0;
          riskyDocuments = buildRiskScoringRows (list_of ss_riskyDocuments summary);
          behaviorSignals = buildBehaviorSignalRows (list_of ss_behaviorSignals summary);
          recommendations = buildRecommendationRows (list_of ss_recommendations summary) now;
          alerts = dashboardAlerts summary downloads sensitiveEvents recentEvents;
          p = buildPosture summary alerts
      in \<lparr> sd_posture = p,
           sd_commandCenter = buildCommandCenter p alerts riskyDocuments behaviorSignals recommendations
             (map_option ss_chain summary) totals downloads (length sensitiveEvents),
           sd_metrics = dashboardMetrics totals,
           sd_alerts = alerts,
           sd_repeatedDenyActors =
             map (\<lambda>a. (a, ''Review account activity'')) (list_of ss_repeatedDenyActors summary),
           sd_activity = \<lparr> ap_downloadAuthorizedTotal = downloads,
             ap_sensitiveAccessCount = length sensitiveEvents, ap_sensitiveAccessEvents = sensitiveEvents \<rparr>,
           sd_riskyDocuments = riskyDocuments,
           sd_behaviorSignals = behaviorSignals,
           sd_recommendations = recommendations,
           sd_quickFilters = quickFilters \<rparr>)"

definition getSecurityRouteCounts :: "dashboard_alert list \<Rightarrow> recommendation_row list \<Rightarrow> alert_route \<Rightarrow> nat" where
  "getSecurityRouteCounts alerts rows route =
     length (filter (\<lambda>r. r = route) (map (\<lambda>a. ro_route (al_routing a)) alerts @ map row_route rows))"

record recommendation_packet =
  ep_generatedAt :: string
  ep_metadataOnly :: bool
  ep_excludedSensitiveFields :: "string list"
  ep_auditChain :: verification
  ep_recommendation :: recommendation_row
  ep_playbook :: recommendation_playbook
  ep_workflowHistory :: "workflow_history_entry list"

definition buildRecommendationEvidencePacket ::
  "recommendation_row \<Rightarrow> verification \<Rightarrow> workflow_history_entry list \<Rightarrow> string \<Rightarrow> recommendation_packet" where
  "buildRecommendationEvidencePacket row chain entries generatedAt = \<lparr>
     ep_generatedAt = generatedAt, ep_metadataOnly = True,
     ep_excludedSensitiveFields = [''fileContent'', ''objectKey'', ''presignedUrl'', ''grantToken''],
     ep_auditChain = chain, ep_recommendation = row, ep_playbook = rr_playbook row,
     ep_workflowHistory = entries \<rparr>"

end
