(* ===== verification/Audit_Client_Properties.thy ===== *)
theory Audit_Client_Properties
  imports Audit_Client Authentication_Properties "HOL-Library.Multiset"
begin

text \<open>
  A link to the audit page carries its filters, the window loop brings every matching
  event, and the service refuses the filters that hold lists of identifiers.
\<close>

section \<open>Form encoding\<close>

lemma hex_round_trip: "d < 16 \<Longrightarrow> of_hex (hex_of d) = Some d"
  by (simp add: of_hex_def hex_of_def Let_def of_char_of)

lemma hex_of_safe: "d < 16 \<Longrightarrow> form_safe (hex_of d)"
  by (auto simp: form_safe_def hex_of_def Let_def of_char_of)

lemma char_halves: "(char_of ((of_char c div 16) * 16 + of_char c mod 16 :: nat) :: char) = c"
  by (simp only: div_mult_mod_eq char_of_char)

lemma char_high: "(of_char (c :: char) :: nat) div 16 < 16"
  using nat_of_char_less_256 [of c] by (simp add: less_mult_imp_div_less)

lemma reserved_unsafe:
  "\<not> form_safe (CHR ''+'')" "\<not> form_safe (CHR ''%'')" "\<not> form_safe (CHR ''&'')"
  "\<not> form_safe (CHR ''='')" "\<not> form_safe (CHR ''?'')"
  by code_simp+

lemma form_decode_char: "form_decode (form_char c @ rest) = c # form_decode rest"
  using reserved_unsafe
  by (auto simp: form_char_def hex_round_trip char_high char_halves)

lemma form_round_trip: "form_decode (form_encode cs) = cs"
  by (induction cs) (simp_all add: form_encode_def form_decode_char)

lemma form_chars: "x \<in> set (form_encode cs) \<Longrightarrow> form_safe x \<or> x \<in> {CHR ''+'', CHR ''%''}"
  by (auto simp: form_encode_def form_char_def hex_of_safe char_high split: if_splits)

lemma form_clean:
  "CHR ''&'' \<notin> set (form_encode cs)" "CHR ''='' \<notin> set (form_encode cs)" "CHR ''?'' \<notin> set (form_encode cs)"
  using form_chars [of _ cs] reserved_unsafe by fastforce+

lemma parse_param_pair: "parse_param (form_encode k @ CHR ''='' # form_encode v) = (k, v)"
proof -
  have "takeWhile (\<lambda>c. c \<noteq> CHR ''='') (form_encode k @ CHR ''='' # form_encode v) = form_encode k"
    using form_clean(2) [of k] by (subst takeWhile_append2) auto
  then show ?thesis by (simp add: parse_param_def form_round_trip)
qed

lemma parse_params_string: "parse_params (params_string ps) = ps"
proof (cases "ps = []")
  case True
  then show ?thesis by (simp add: params_string_def parse_params_def truthy_def)
next
  case False
  let ?pieces = "map (\<lambda>(k, v). form_encode k @ ''='' @ form_encode v) ps"
  have split: "split_on (CHR ''&'') (params_string ps) = ?pieces"
    unfolding params_string_def using False form_clean(1)
    by (intro split_on_join) (auto simp: list_all_iff)
  have "list_all (\<lambda>x. CHR ''?'' \<notin> set x) xs \<Longrightarrow> CHR ''?'' \<notin> set (join_with ''&'' xs)" for xs
    by (induction xs rule: induct_list012) auto
  then have "CHR ''?'' \<notin> set (params_string ps)"
    unfolding params_string_def using form_clean(3) by (auto simp: list_all_iff)
  then have "take 1 (params_string ps) \<noteq> ''?''" by (cases "params_string ps") auto
  moreover have "filter truthy ?pieces = ?pieces" by (auto simp: filter_id_conv truthy_def)
  moreover have "map parse_param ?pieces = ps" by (induction ps) (auto simp: parse_param_pair)
  ultimately show ?thesis by (simp only: parse_params_def Let_def split if_False)
qed

section \<open>Links\<close>

lemma map_of_params_set: "map_of (params_set k v ps) k' = (if k' = k then Some v else map_of ps k')"
proof (induction ps)
  case (Cons p ps)
  have "map_of (filter (\<lambda>q. fst q \<noteq> k) ps) k' = map_of ps k'" if "k' \<noteq> k"
    using that by (induction ps) auto
  then show ?case using Cons by (cases p) auto
qed simp

lemma map_of_setParam:
  "map_of (setParam k v ps) k' = (if k' = k \<and> truthy_opt v then v else map_of ps k')"
  by (cases v) (auto simp: setParam_def map_of_params_set truthy_opt_def)

lemma map_of_setArray:
  "map_of (setArrayQueryParam k vs ps) k' = (if k' = k \<and> toCommaList vs \<noteq> None then toCommaList vs else map_of ps k')"
  by (auto simp: setArrayQueryParam_def toCommaList_def map_of_params_set split: option.splits)

definition if_truthy :: "string option \<Rightarrow> string option" where
  "if_truthy v = (if truthy_opt v then v else None)"

lemma filterParams_lookup:
  "map_of (filterParams f) ''result'' = if_truthy (af_result f)"
  "map_of (filterParams f) ''action'' = if_truthy (af_action f)"
  "map_of (filterParams f) ''actions'' = toCommaList (af_actions f)"
  "map_of (filterParams f) ''actionGroup'' = if_truthy (af_actionGroup f)"
  "map_of (filterParams f) ''actorId'' = if_truthy (af_actorId f)"
  "map_of (filterParams f) ''actorIds'' = toCommaList (af_actorIds f)"
  "map_of (filterParams f) ''resourceType'' = if_truthy (af_resourceType f)"
  "map_of (filterParams f) ''resourceId'' = if_truthy (af_resourceId f)"
  "map_of (filterParams f) ''documentId'' = if_truthy (af_documentId f)"
  "map_of (filterParams f) ''documentIds'' = toCommaList (af_documentIds f)"
  "map_of (filterParams f) ''aclId'' = if_truthy (af_aclId f)"
  "map_of (filterParams f) ''recommendationId'' = if_truthy (af_recommendationId f)"
  "map_of (filterParams f) ''recommendationIds'' = toCommaList (af_recommendationIds f)"
  "map_of (filterParams f) ''classifications'' = toCommaList (af_classifications f)"
  "map_of (filterParams f) ''from'' = if_truthy (af_from f)"
  "map_of (filterParams f) ''to'' = if_truthy (af_to f)"
  by (simp_all add: filterParams_def Let_def map_of_setParam map_of_setArray if_truthy_def)

text \<open>Filters that a link can carry: texts that are not empty, and identifiers without commas or outer blanks.\<close>

definition link_list :: "string list option \<Rightarrow> bool" where
  "link_list vs = (case vs of None \<Rightarrow> True | Some xs \<Rightarrow> xs \<noteq> [] \<and> list_all header_safe xs)"

definition link_filters :: "audit_filters \<Rightarrow> bool" where
  "link_filters f =
     (list_all (\<lambda>v. v \<noteq> Some []) [af_actorId f, af_action f, af_resourceId f, af_resourceType f, af_documentId f,
        af_aclId f, af_recommendationId f, af_from f, af_to f]
      \<and> list_all link_list [af_actorIds f, af_actions f, af_documentIds f, af_recommendationIds f, af_classifications f]
      \<and> one_of AUDIT_RESULTS (af_result f) = af_result f
      \<and> one_of AUDIT_ACTION_GROUPS (af_actionGroup f) = af_actionGroup f
      \<and> af_targetId f = None \<and> af_targetType f = None \<and> af_excludeActions f = None)"

lemma stringFilter_back: "v \<noteq> Some [] \<Longrightarrow> stringFilter (if_truthy v) = v"
  by (cases v) (auto simp: stringFilter_def if_truthy_def truthy_opt_def truthy_def)

lemma stringArrayFilter_back:
  assumes "link_list vs"
  shows "stringArrayFilter (toCommaList vs) = vs"
proof (cases vs)
  case None
  then show ?thesis by (simp add: toCommaList_def stringArrayFilter_def truthy_opt_def)
next
  case (Some xs)
  then have xs: "xs \<noteq> []" "list_all header_safe xs" using assms by (simp_all add: link_list_def)
  have "filter truthy (map trim (split_on (CHR '','') (join_with '','' xs))) = xs"
    using header_round_trip [OF xs(2)] by (simp add: header_list_def)
  moreover have "truthy (join_with '','' xs)"
    using xs by (cases xs; cases "tl xs") (auto simp: truthy_def header_safe_def)
  ultimately show ?thesis using Some xs(1) by (simp add: toCommaList_def stringArrayFilter_def truthy_opt_def)
qed

lemma one_of_back:
  assumes "one_of vs v = v" "[] \<notin> set vs"
  shows "one_of vs (if_truthy v) = v"
  using assms by (auto simp: one_of_def if_truthy_def truthy_opt_def truthy_def split: option.splits if_splits)

lemma no_empty_choice: "[] \<notin> set AUDIT_RESULTS" "[] \<notin> set AUDIT_ACTION_GROUPS"
  by (simp_all add: AUDIT_RESULTS_def AUDIT_ACTION_GROUPS_def)

lemma paramFilters_back:
  assumes "link_filters f"
  shows "paramFilters (filterParams f) = f"
  using assms
  by (simp add: paramFilters_def Let_def filterParams_lookup link_filters_def stringFilter_back
      stringArrayFilter_back one_of_back no_empty_choice)

lemma link_query_href: "link_query (buildAuditHref f) = buildAuditFilterQuery f"
  by (auto simp: link_query_def buildAuditHref_def ROUTES_AUDIT_def truthy_def Let_def)

text \<open>
  C40: whatever filters a page puts into a link to the audit log, the audit page reads
  back from its address: texts with any characters, and lists of identifiers.
\<close>

theorem audit_link_round_trip:
  assumes "link_filters f"
  shows "parseAuditFilterQuery (link_query (buildAuditHref f)) = f"
  using assms by (simp add: parseAuditFilterQuery_def link_query_href buildAuditFilterQuery_def parse_params_string
      paramFilters_back)

theorem audit_link_round_trip_witness:
  "(let f = noFilters\<lparr>af_result := Some ''DENY'', af_actorId := Some ''a&b=c +%41'', af_documentIds := Some [''d1'', ''d 2'']\<rparr>
    in parseAuditFilterQuery (link_query (buildAuditHref f)) = f)"
proof -
  have "header_safe ''d1''" "header_safe ''d 2''" by (simp_all add: header_safe_def trim_def js_space_def)
  then have "link_filters (noFilters\<lparr>af_result := Some ''DENY'', af_actorId := Some ''a&b=c +%41'',
      af_documentIds := Some [''d1'', ''d 2'']\<rparr>)"
    by (simp add: link_filters_def link_list_def one_of_def AUDIT_RESULTS_def noFilters_def)
  from audit_link_round_trip [OF this] show ?thesis by (simp only: Let_def)
qed

section \<open>Requests with a page\<close>

lemma requestParams_page:
  "requestParams f from till (Some p) (Some k)
     = requestParams f from till None None @ [(''page'', PNumber p), (''pageSize'', PNumber k)]"
  by (simp add: requestParams_def param_def)

lemma map_of_append_option: "map_of (xs @ ys) k = or_else (map_of xs k) (map_of ys k)"
  by (simp add: map_add_def or_else_def split: option.splits)

lemma map_of_param: "map_of (param k f v) k' = (if k' = k then map_option f v else None)"
  by (simp add: param_def split: option.splits)

lemma no_page_yet:
  "map_of (requestParams f from till None None) ''page'' = None"
  "map_of (requestParams f from till None None) ''pageSize'' = None"
  "map_of (requestParams f from till None None) ''limit'' = None"
  by (simp_all add: requestParams_def map_of_append_option map_of_param)

definition with_page :: "nat \<Rightarrow> nat \<Rightarrow> (string \<times> audit_param) list \<Rightarrow> (string \<times> audit_param) list" where
  "with_page p k ps = ps @ [(''page'', PNumber p), (''pageSize'', PNumber k)]"

lemma lookup_with_page:
  assumes "map_of ps ''page'' = None" "map_of ps ''pageSize'' = None"
  shows "map_of (with_page p k ps) k' =
     (if k' = ''page'' then Some (PNumber p) else if k' = ''pageSize'' then Some (PNumber k) else map_of ps k')"
  using assms by (simp add: with_page_def map_of_append_option del: map_of_append)

lemma dto_with_page:
  assumes "map_of ps ''page'' = None" "map_of ps ''pageSize'' = None"
  shows "queryAuditDto dt (with_page p k ps) = (queryAuditDto dt ps)\<lparr>qa_page := Some p, qa_pageSize := Some k\<rparr>"
  by (simp add: queryAuditDto_def Let_def lookup_with_page [OF assms] number_of_def)

lemma unknown_with_page: "unknown_properties (with_page p k ps) = unknown_properties ps"
  by (simp add: unknown_properties_def with_page_def QUERY_AUDIT_PROPERTIES_def)

lemma messages_with_page:
  assumes "map_of ps ''page'' = None" "map_of ps ''pageSize'' = None" "1 \<le> p" "1 \<le> k" "k \<le> 200"
  shows "queryAuditMessages dt (with_page p k ps) = queryAuditMessages dt ps"
  using assms(3-)
  by (simp add: queryAuditMessages_def Let_def lookup_with_page [OF assms(1,2)] unknown_with_page number_of_def
      size_message_def assms(1,2))

lemma toAuditQueryParams_page:
  assumes "toAuditQueryParams dt (Some f) None None = Inr ps"
  shows "toAuditQueryParams dt (Some f) (Some p) (Some k) = Inr (with_page p k ps)"
    and "map_of ps ''page'' = None" "map_of ps ''pageSize'' = None" "map_of ps ''limit'' = None"
  using assms
  by (auto simp: toAuditQueryParams_def requestParams_page with_page_def no_page_yet split: sum.splits)

text \<open>What the log holds for a request, newest first.\<close>

definition askedRows :: "(string \<Rightarrow> int option) \<Rightarrow> (string \<times> audit_param) list \<Rightarrow> audit_store \<Rightarrow> audit_event list" where
  "askedRows dt ps s = filter (selected (queryAuditDto dt ps)) (a_events s)"

definition askedEvents ::
  "(string \<Rightarrow> int option) \<Rightarrow> (string \<times> audit_param) list \<Rightarrow> (audit_event \<Rightarrow> nat) \<times> audit_store \<Rightarrow> audit_event list" where
  "askedEvents dt ps view = sort_key (\<lambda>e. - e_timestamp e) (sort_key (fst view) (askedRows dt ps (snd view)))"

lemma query_page:
  assumes "toAuditQueryParams dt (Some f) None None = Inr ps" "queryAuditMessages dt ps = []"
    and "1 \<le> p" "1 \<le> k" "k \<le> 200"
  shows "queryAuditLog dt (fst view) (snd view) (Some f) (Some p) (Some k) = Inr \<lparr>
     pr_data = take k (drop ((p - 1) * k) (askedEvents dt ps view)), pr_total = length (askedEvents dt ps view),
     pr_page = p, pr_pageSize = k, pr_totalPages = (length (askedEvents dt ps view) + k - 1) div k \<rparr>"
proof -
  note page = toAuditQueryParams_page [OF assms(1)]
  have sel: "selected (d\<lparr>qa_page := a, qa_pageSize := b\<rparr>) = selected d" for d a b
    by (rule ext) (simp add: selected_def)
  have f: "matchesFilter (auditFilter d) = selected d" for d by (rule ext) (rule auditFilter_selected)
  show ?thesis using assms(2-)
    by (simp add: queryAuditLog_def page(1) auditQueryRoute_def messages_with_page [OF page(2,3)]
        dto_with_page [OF page(2,3)] auditQuery_def matchingEvents_def f sel askedEvents_def askedRows_def Let_def
        normalizePaginatedResponse_def normalizeListResponse_def queryEnvelope_def)
qed

section \<open>The window\<close>

lemma window_runs:
  assumes "\<And>p. 1 \<le> p \<Longrightarrow> fetch p = Inr (b p)" "1 \<le> page" "page \<le> tp"
  shows "(\<exists>L. page \<le> L \<and> L \<le> maxPages \<and> pr_totalPages (b L) \<le> L
      \<and> window_loop fetch maxPages page tp c xs
        = Inr (xs @ concat (map (\<lambda>p. pr_data (b p)) [page..<Suc L]), pr_total (b L), pr_totalPages (b L)))
    \<or> window_loop fetch maxPages page tp c xs
        = Inl (JsError (''Audit window exceeds '' @ show_nat maxPages @ '' pages''))
      \<and> (maxPages < page \<or> maxPages < pr_totalPages (b maxPages))"
  using assms(2,3)
proof (induction "Suc maxPages - page" arbitrary: page tp c xs)
  case 0
  then show ?case by (intro disjI2) (subst window_loop.simps, simp)
next
  case (Suc m)
  then have le: "page \<le> maxPages" by simp
  let ?rest = "\<lambda>page tp c xs. window_loop fetch maxPages page tp c xs"
  have now: "?rest page tp c xs = ?rest (page + 1) (pr_totalPages (b page)) (pr_total (b page)) (xs @ pr_data (b page))"
    using Suc.prems le assms(1) [of page] by (subst window_loop.simps) simp
  show ?case
  proof (cases "pr_totalPages (b page) \<le> page")
    case True
    then have "?rest page tp c xs = Inr (xs @ pr_data (b page), pr_total (b page), pr_totalPages (b page))"
      unfolding now by (subst window_loop.simps) simp
    then show ?thesis using True le by (intro disjI1 exI [of _ page]) simp
  next
    case False
    have up: "[page..<Suc L] = page # [page + 1..<Suc L]" if "page + 1 \<le> L" for L
      using that by (simp add: upt_conv_Cons del: upt_Suc)
    from Suc.hyps(1) [of "page + 1" "pr_totalPages (b page)" "pr_total (b page)" "xs @ pr_data (b page)"] False Suc.hyps(2)
    consider L where "page + 1 \<le> L" "L \<le> maxPages" "pr_totalPages (b L) \<le> L"
        "?rest page tp c xs = Inr ((xs @ pr_data (b page)) @ concat (map (\<lambda>p. pr_data (b p)) [page + 1..<Suc L]),
           pr_total (b L), pr_totalPages (b L))"
      | "?rest page tp c xs = Inl (JsError (''Audit window exceeds '' @ show_nat maxPages @ '' pages''))"
        "maxPages < page + 1 \<or> maxPages < pr_totalPages (b maxPages)"
      unfolding now by fastforce
    then show ?thesis
    proof cases
      case (1 L)
      then show ?thesis by (intro disjI1 exI [of _ L]) (simp add: up [OF 1(1)] del: upt_Suc)
    next
      case 2
      then show ?thesis using le False by (cases "page = maxPages") auto
    qed
  qed
qed

lemma pages_from_one:
  "length xs \<le> m * k \<Longrightarrow> concat (map (\<lambda>p. take k (drop ((p - 1) * k) xs)) [1..<Suc m]) = xs"
proof -
  assume m: "length xs \<le> m * k"
  have "[1..<Suc m] = map Suc [0..<m]" by (simp add: map_Suc_upt del: upt_Suc)
  then have "concat (map (\<lambda>p. take k (drop ((p - 1) * k) xs)) [1..<Suc m])
      = concat (map (\<lambda>p. take k (drop (p * k) xs)) [0..<m])"
    by (simp add: comp_def del: upt_Suc)
  then show ?thesis using m by (simp only: pages_concat) simp
qed

lemma in_page: "i < length xs \<Longrightarrow> m \<le> i \<Longrightarrow> i < m + k \<Longrightarrow> xs ! i \<in> set (take k (drop m xs))"
  by (auto simp: in_set_conv_nth intro!: exI [of _ "i - m"])

text \<open>
  Pages of a list that grows at its front while it is read: an entry only moves to
  later pages, so the reader meets every entry of the list he started with.
\<close>

lemma front_growth:
  assumes "\<And>p. 1 \<le> p \<Longrightarrow> \<exists>new. as (Suc p) = new @ as p" "1 \<le> p" "p \<le> q"
  shows "\<exists>new. as q = new @ as p"
  using assms(3)
proof (induction rule: dec_induct)
  case base
  then show ?case by simp
next
  case (step n)
  then obtain x y where "as n = x @ as p" "as (Suc n) = y @ as n" using assms(1) [of n] assms(2) by auto
  then show ?case by (intro exI [of _ "y @ x"]) simp
qed

lemma growing_pages:
  assumes grow: "\<And>p. 1 \<le> p \<Longrightarrow> \<exists>new. as (Suc p) = new @ as p"
    and L: "1 \<le> L" "length (as L) \<le> L * k"
    and data: "data = concat (map (\<lambda>p. take k (drop ((p - 1) * k) (as p))) [1..<Suc L])"
  shows "set (as 1) \<subseteq> set data" "set data \<subseteq> set (as L)" "length (as L) = length (as 1) \<Longrightarrow> data = as 1"
proof -
  note pre = front_growth [of as, OF grow]
  have pages: "set data = (\<Union>p \<in> {1..L}. set (take k (drop ((p - 1) * k) (as p))))"
    unfolding data by (auto simp: atLeastLessThanSuc_atLeastAtMost simp del: upt_Suc)
  show "set (as 1) \<subseteq> set data"
  proof
    fix x assume "x \<in> set (as 1)"
    then obtain j where j: "j < length (as 1)" "as 1 ! j = x" by (auto simp: in_set_conv_nth)
    define pos where "pos p = length (as p) - length (as 1) + j" for p
    have at: "pos p < length (as p) \<and> as p ! pos p = x" if "1 \<le> p" for p
      using pre [of 1 p] that j by (auto simp: pos_def nth_append)
    define q where "q = (LEAST p. pos p < p * k)"
    have "pos L < L * k" using at [OF L(1)] L(2) by simp
    then have q: "pos q < q * k" "q \<le> L" unfolding q_def by (auto intro: LeastI Least_le)
    then have one: "1 \<le> q" by (cases q) auto
    have "(q - 1) * k \<le> pos q"
    proof (cases "q = 1")
      case False
      then have "1 \<le> q - 1" using one by simp
      moreover have "\<not> pos (q - 1) < (q - 1) * k" using one not_less_Least [of "q - 1" "\<lambda>p. pos p < p * k"] by (simp add: q_def)
      moreover have "pos (q - 1) \<le> pos q" using pre [of "q - 1" q] \<open>1 \<le> q - 1\<close> by (auto simp: pos_def)
      ultimately show ?thesis by simp
    qed simp
    moreover have "q * k = (q - 1) * k + k" using one by (cases q) auto
    ultimately have "x \<in> set (take k (drop ((q - 1) * k) (as q)))"
      using in_page [of "pos q" "as q" "(q - 1) * k" k] at [OF one] q(1) by simp
    then show "x \<in> set data" using pages one q(2) by auto
  qed
  show "set data \<subseteq> set (as L)"
    unfolding pages using pre [of _ L] by (fastforce dest: in_set_takeD in_set_dropD)
  show "data = as 1" if "length (as L) = length (as 1)"
  proof -
    have "as p = as 1" if "p \<in> set [1..<Suc L]" for p
    proof -
      have p: "1 \<le> p" "p \<le> L" using that by auto
      obtain x y where "as p = x @ as 1" "as L = y @ as p" using pre [of 1 p] pre [of p L] p by auto
      then show ?thesis using \<open>length (as L) = length (as 1)\<close> by simp
    qed
    then have "data = concat (map (\<lambda>p. take k (drop ((p - 1) * k) (as 1))) [1..<Suc L])"
      unfolding data by (intro arg_cong [of _ _ concat] map_cong refl) metis
    then show ?thesis using pages_from_one [of "as 1" L k] L(2) that by simp
  qed
qed

text \<open>
  What may happen to the events asked for while the pages are read: events are added
  that are newer than all of them, and no two of them have the same time.
\<close>

definition newer_added :: "(string \<Rightarrow> int option) \<Rightarrow> (string \<times> audit_param) list \<Rightarrow> seen_log \<Rightarrow> bool" where
  "newer_added dt ps seen =
     (\<forall>p. distinct (map e_timestamp (askedRows dt ps (snd (seen p))))
        \<and> (\<exists>new. askedRows dt ps (snd (seen (Suc p))) = askedRows dt ps (snd (seen p)) @ new
             \<and> (\<forall>n \<in> set new. \<forall>e \<in> set (askedRows dt ps (snd (seen p))). e_timestamp e < e_timestamp n)))"

lemma asked_grow:
  assumes "newer_added dt ps seen"
  shows "\<exists>new. askedEvents dt ps (seen (Suc p)) = new @ askedEvents dt ps (seen p)"
proof -
  let ?rows = "\<lambda>p. askedRows dt ps (snd (seen p))" and ?key = "\<lambda>e. - e_timestamp e"
  obtain new where new: "?rows (Suc p) = ?rows p @ new"
    "\<forall>n \<in> set new. \<forall>e \<in> set (?rows p). e_timestamp e < e_timestamp n" "distinct (map e_timestamp (?rows (Suc p)))"
    using assms unfolding newer_added_def by blast
  have "sort_key ?key (sort_key (fst (seen (Suc p))) (?rows (Suc p))) = sort_key ?key new @ askedEvents dt ps (seen p)"
  proof (rule sort_key_inj_key_eq)
    show "mset (sort_key (fst (seen (Suc p))) (?rows (Suc p))) = mset (sort_key ?key new @ askedEvents dt ps (seen p))"
      using new(1) by (simp add: askedEvents_def)
    show "inj_on ?key (set (sort_key (fst (seen (Suc p))) (?rows (Suc p))))"
      using new(3) by (simp add: distinct_map inj_on_def)
    have "sorted (map ?key (sort_key ?key new))" "sorted (map ?key (askedEvents dt ps (seen p)))"
      by (simp_all add: askedEvents_def)
    then show "sorted (map ?key (sort_key ?key new @ askedEvents dt ps (seen p)))"
      using new(2) by (auto simp: sorted_append askedEvents_def intro!: less_imp_le)
  qed
  then show ?thesis by (auto simp: askedEvents_def)
qed

text \<open>
  C39: a window of the audit log is fetched page by page, each page by a request of
  its own. If the events asked for have different times and what is added meanwhile
  is newer, then the window holds every event there was at the first request, and only
  events there are at the last; when none was added it holds each of them once, newest
  first. It fails only if at the hundredth page more than ten thousand events match,
  and never returns a part of the answer.
\<close>

theorem audit_window_complete:
  assumes "toAuditQueryParams dt (Some f) None None = Inr ps" "queryAuditMessages dt ps = []" "newer_added dt ps seen"
  shows "case auditWindow dt seen (Some f) None None of
      Inl e \<Rightarrow> e = JsError ''Audit window exceeds 100 pages'' \<and> 10000 < length (askedEvents dt ps (seen 100))
    | Inr w \<Rightarrow> set (askedEvents dt ps (seen 1)) \<subseteq> set (pr_data w)
        \<and> (\<exists>final \<in> {1..100}. set (pr_data w) \<subseteq> set (askedEvents dt ps (seen final))
             \<and> pr_total w = length (askedEvents dt ps (seen final))
             \<and> (askedRows dt ps (snd (seen final)) = askedRows dt ps (snd (seen 1))
                  \<longrightarrow> pr_data w = askedEvents dt ps (seen 1)))"
proof -
  let ?as = "\<lambda>p. askedEvents dt ps (seen p)"
  let ?fetch = "\<lambda>page. queryAuditLog dt (fst (seen page)) (snd (seen page)) (Some f) (Some page) (Some 100)"
  define b where "b p = \<lparr> pr_data = take 100 (drop ((p - 1) * 100) (?as p)), pr_total = length (?as p),
    pr_page = p, pr_pageSize = 100, pr_totalPages = (length (?as p) + 100 - 1) div 100 \<rparr>" for p
  have fetch: "1 \<le> p \<Longrightarrow> ?fetch p = Inr (b p)" for p
    using query_page [OF assms(1,2), of p 100 "seen p"] by (simp add: b_def)
  have hundred: "show_nat 100 = ''100''" by code_simp
  have window: "auditWindow dt seen (Some f) None None = (case window_loop ?fetch 100 1 1 0 [] of
      Inl e \<Rightarrow> Inl e
    | Inr (xs, n, pages) \<Rightarrow>
        Inr \<lparr> pr_data = xs, pr_total = n, pr_page = 1, pr_pageSize = 100, pr_totalPages = pages \<rparr>)"
    by (simp add: auditWindow_def queryAuditLogWindow_def Let_def)
  from window_runs [of ?fetch b 1 1 100 0 "[]", OF fetch]
  consider L where "1 \<le> L" "L \<le> 100" "pr_totalPages (b L) \<le> L"
      "window_loop ?fetch 100 1 1 0 [] = Inr (concat (map (\<lambda>p. pr_data (b p)) [1..<Suc L]), pr_total (b L), pr_totalPages (b L))"
    | "window_loop ?fetch 100 1 1 0 [] = Inl (JsError ''Audit window exceeds 100 pages'')" "100 < pr_totalPages (b 100)"
    by (auto simp: hundred)
  then show ?thesis
  proof cases
    case (1 L)
    have "length (?as L) \<le> L * 100" using 1(3) by (simp add: b_def)
    from growing_pages [of ?as L 100, OF asked_grow [OF assms(3)] 1(1) this refl]
    have data: "set (?as 1) \<subseteq> set (concat (map (\<lambda>p. pr_data (b p)) [1..<Suc L]))"
      "set (concat (map (\<lambda>p. pr_data (b p)) [1..<Suc L])) \<subseteq> set (?as L)"
      "length (?as L) = length (?as 1) \<Longrightarrow> concat (map (\<lambda>p. pr_data (b p)) [1..<Suc L]) = ?as 1"
      by (simp_all add: b_def del: upt_Suc)
    have "length (?as L) = length (?as 1)" if "askedRows dt ps (snd (seen L)) = askedRows dt ps (snd (seen 1))"
      using that by (simp add: askedEvents_def)
    moreover have "pr_total (b L) = length (?as L)" by (simp add: b_def)
    moreover have "auditWindow dt seen (Some f) None None = Inr \<lparr> pr_data = concat (map (\<lambda>p. pr_data (b p)) [1..<Suc L]),
        pr_total = pr_total (b L), pr_page = 1, pr_pageSize = 100, pr_totalPages = pr_totalPages (b L) \<rparr>"
      unfolding window 1(4) by simp
    ultimately show ?thesis using data 1(1,2)
      by (simp only: sum.case paginated.select_convs) (intro conjI bexI [of _ L]; simp del: upt_Suc)
  next
    case 2
    have "auditWindow dt seen (Some f) None None = Inl (JsError ''Audit window exceeds 100 pages'')"
      unfolding window 2(1) by simp
    then show ?thesis using 2(2) by (simp add: b_def)
  qed
qed

theorem audit_window_complete_witness:
  "map_sum id (\<lambda>p. map e_eventId (pr_data p))
     (auditWindow (\<lambda>_. None) (\<lambda>p. (\<lambda>e. p * e_oid e, query_store)) (Some (noFilters\<lparr>af_action := Some ''DOCUMENT_ARCHIVE''\<rparr>)) None None)
   = Inr [''e4'', ''e3'', ''e1'']"
proof -
  let ?f = "noFilters\<lparr>af_action := Some ''DOCUMENT_ARCHIVE''\<rparr>" and ?ps = "[(''action'', PText ''DOCUMENT_ARCHIVE'')]"
  let ?seen = "\<lambda>p :: nat. (\<lambda>e. p * e_oid e, query_store)"
  have ps: "toAuditQueryParams (\<lambda>_. None) (Some ?f) None None = Inr ?ps"
    by (simp add: toAuditQueryParams_def isoParam_def truthy_opt_def requestParams_def param_def noFilters_def toCommaList_def)
  have ok: "queryAuditMessages (\<lambda>_. None) ?ps = []"
    by (simp add: queryAuditMessages_def Let_def unknown_properties_def QUERY_AUDIT_PROPERTIES_def text_of_def number_of_def
        date_message_def size_message_def)
  have times: "distinct (map e_timestamp (askedRows (\<lambda>_. None) ?ps query_store))" by code_simp
  then have new: "newer_added (\<lambda>_. None) ?ps ?seen" by (auto simp: newer_added_def)
  have events: "map e_eventId (askedEvents (\<lambda>_. None) ?ps (?seen 1)) = [''e4'', ''e3'', ''e1'']" by code_simp
  have three: "length (askedEvents (\<lambda>_. None) ?ps (?seen n)) = 3" for n
    using arg_cong [OF events, of length] by (simp add: askedEvents_def)
  obtain w where w: "auditWindow (\<lambda>_. None) ?seen (Some ?f) None None = Inr w" "pr_data w = askedEvents (\<lambda>_. None) ?ps (?seen 1)"
    using audit_window_complete [OF ps ok new] three [of 100] by (auto split: sum.splits)
  show ?thesis unfolding w(1) using w(2) events by simp
qed

section \<open>Links the service answers, and links it refuses\<close>

definition one_valued :: "audit_filters \<Rightarrow> bool" where
  "one_valued f =
     list_all (\<lambda>v. v = None) [af_actorIds f, af_actions f, af_documentIds f, af_recommendationIds f, af_classifications f]"

lemma linked_filters:
  "link_filters f \<Longrightarrow> auditPageFilters (link_query (buildAuditHref f))
     = f\<lparr>af_excludeActions := Some [''SECURITY_RECOMMENDATIONS_VIEWED'']\<rparr>"
  by (simp add: auditPageFilters_def parseAuditFilterQuery_def link_query_href buildAuditFilterQuery_def
      parse_params_string paramFilters_back)

lemma unknown_key:
  "map_of ps k \<noteq> None \<Longrightarrow> k \<notin> set QUERY_AUDIT_PROPERTIES \<Longrightarrow> unknown_properties ps \<noteq> []"
  by (force simp: unknown_properties_def filter_empty_conv dest!: map_of_SomeD)

lemma list_keys:
  "map_of (requestParams f from till p k) ''actorIds'' = map_option PText (toCommaList (af_actorIds f))"
  "map_of (requestParams f from till p k) ''actions'' = map_option PText (toCommaList (af_actions f))"
  "map_of (requestParams f from till p k) ''documentIds'' = map_option PText (toCommaList (af_documentIds f))"
  "map_of (requestParams f from till p k) ''recommendationIds'' = map_option PText (toCommaList (af_recommendationIds f))"
  "map_of (requestParams f from till p k) ''classifications'' = map_option PText (toCommaList (af_classifications f))"
  by (simp_all add: requestParams_def map_of_append_option map_of_param del: map_of_append)

lemma unknown_lists:
  assumes "link_filters f" "\<not> one_valued f"
  shows "unknown_properties (requestParams (f\<lparr>af_excludeActions := x\<rparr>) from till p k) \<noteq> []"
proof -
  let ?f = "f\<lparr>af_excludeActions := x\<rparr>" and ?ps = "requestParams (f\<lparr>af_excludeActions := x\<rparr>) from till p k"
  have u: "unknown_properties ?ps \<noteq> []"
    if "v \<noteq> None" "link_list v" "map_of ?ps key = map_option PText (toCommaList v)" "key \<notin> set QUERY_AUDIT_PROPERTIES"
    for v key
    using that by (intro unknown_key) (auto simp: link_list_def toCommaList_def)
  have l: "link_list (af_actorIds ?f)" "link_list (af_actions ?f)" "link_list (af_documentIds ?f)"
    "link_list (af_recommendationIds ?f)" "link_list (af_classifications ?f)"
    using assms(1) by (simp_all add: link_filters_def)
  consider "af_actorIds ?f \<noteq> None" | "af_actions ?f \<noteq> None" | "af_documentIds ?f \<noteq> None"
    | "af_recommendationIds ?f \<noteq> None" | "af_classifications ?f \<noteq> None"
    using assms(2) by (auto simp: one_valued_def)
  then show ?thesis
    by cases (erule u [OF _ l(1) list_keys(1)] u [OF _ l(2) list_keys(2)] u [OF _ l(3) list_keys(3)]
        u [OF _ l(4) list_keys(4)] u [OF _ l(5) list_keys(5)], simp add: QUERY_AUDIT_PROPERTIES_def)+
qed

lemma list_links_refused:
  assumes "link_filters f" "\<not> one_valued f" "af_from f = None" "af_to f = None"
  shows "\<exists>m. openAuditLink dt rank s (buildAuditHref f) = Inl (BadRequest m)"
  using unknown_lists [OF assms(1,2)] assms(3,4)
  by (simp add: openAuditLink_def linked_filters [OF assms(1)] queryAuditLog_def toAuditQueryParams_def isoParam_def
      truthy_opt_def auditQueryRoute_def queryAuditMessages_def Let_def)

end
