(* ===== verification/Console_Properties.thy ===== *)
theory Console_Properties
  imports Security_Console Audit_Client_Properties Approval_Queue_Properties Security_Properties
begin

text \<open>
  What the security dashboard makes of the security summary: which recommendations
  become cases, what the posture says, how the service levels run, and where the chart
  segments lead.
\<close>

section \<open>Cases\<close>

lemma routing_simps [simp]:
  "ro_route (buildSecurityAlertRouting (a, b, c, d, e) t) =
     (if 3 \<le> a \<and> 2 \<le> b \<and> 2 \<le> c \<and> 2 \<le> d \<and> 3 \<le> e then CASE
      else if 8 \<le> a + b + c + d + e \<or> 2 \<le> a \<or> 2 \<le> c then REVIEW else SIGNAL)"
  by (simp add: buildSecurityAlertRouting_def inferSecurityAlertRoute_def Let_def)

lemma recommendation_route:
  "ro_route (buildRecommendationRouting r) =
     (if rc_type r = AUDIT_CHAIN_REVIEW
         \<or> rc_severity r = CRITICAL \<and> (rc_type r = DOCUMENT_ACCESS_REVIEW
             \<or> rc_type r = ACTOR_ACCESS_REVIEW \<and> rc_affectedActorIds r \<noteq> [])
      then CASE else REVIEW)"
  by (cases "rc_type r") (simp_all add: buildRecommendationRouting_def Let_def)

definition case_iff_critical :: "recommendation \<Rightarrow> bool" where
  "case_iff_critical r =
     (ro_route (buildRecommendationRouting r) = (if rc_severity r = CRITICAL then CASE else REVIEW))"

lemma built_cases:
  "list_all case_iff_critical (chainRecommendation chain)"
  "list_all case_iff_critical (documentRecommendation d)"
  "list_all case_iff_critical (actorRecommendation x)"
  "list_all case_iff_critical (denyRecommendation xs a)"
  "list_all case_iff_critical (dlpRecommendation n)"
  "list_all case_iff_critical (malwareRecommendation n)"
  by (simp_all add: case_iff_critical_def recommendation_route chainRecommendation_def documentRecommendation_def
      actorRecommendation_def denyRecommendation_def dlpRecommendation_def malwareRecommendation_def Let_def)

lemma take_list_all: "list_all P xs \<Longrightarrow> list_all P (take n xs)"
  by (auto simp: list_all_iff dest: in_set_takeD)

lemma built_recommendations_cases:
  "list_all case_iff_critical (buildSecurityRecommendations chain totals ds rs xs)"
  unfolding buildSecurityRecommendations_def
  by (rule take_list_all) (use built_cases in \<open>auto simp: list_all_iff\<close>)

interpretation rows: comparison compareRecommendationRows
  by unfold_locales (auto simp: compareRecommendationRows_def Let_def split: if_splits)

lemma row_of [simp]:
  "rr_recommendation (recommendationRow now r) = r"
  "row_route (recommendationRow now r) = ro_route (buildRecommendationRouting r)"
  "row_severity (recommendationRow now r) = rc_severity r"
  by (simp_all add: recommendationRow_def row_route_def row_severity_def buildRecommendationFinding_def
      finding_profile.defs recommendation_finding.defs)

lemma rows_from: "row \<in> set (buildRecommendationRows rs now) \<Longrightarrow> \<exists>r\<in>set rs. row = recommendationRow now r"
  using mset_eq_setD [OF rows.sort_mset [of "map (recommendationRow now) rs"]]
  by (auto simp: buildRecommendationRows_def)

text \<open>
  of what the audit service recommends, exactly the critical recommendations need a
  case on the dashboard and every other one a review; the rows are those of the
  service, the cases before all reviews.
\<close>

theorem critical_recommendations_are_cases:
  "(let rows = buildRecommendationRows (map (withWorkflow s) (buildSecurityRecommendations chain totals ds rs xs)) now in
     mset (map rr_recommendation rows) = mset (map (withWorkflow s) (buildSecurityRecommendations chain totals ds rs xs))
     \<and> list_all (\<lambda>row. row_route row = (if row_severity row = CRITICAL then CASE else REVIEW)) rows
     \<and> sorted_wrt (\<lambda>a b. getRouteRank (row_route b) \<le> getRouteRank (row_route a)) rows)"
proof -
  let ?recs = "map (withWorkflow s) (buildSecurityRecommendations chain totals ds rs xs)"
  let ?rows = "buildRecommendationRows ?recs now"
  have m: "mset ?rows = mset (map (recommendationRow now) ?recs)"
    by (simp only: buildRecommendationRows_def rows.sort_mset)
  have same: "case_iff_critical (withWorkflow s r) = case_iff_critical r" for r
    by (simp add: case_iff_critical_def recommendation_route withWorkflow_def)
  have route: "row_route row = (if row_severity row = CRITICAL then CASE else REVIEW)" if mem: "row \<in> set ?rows" for row
  proof -
    obtain r where r: "r \<in> set (buildSecurityRecommendations chain totals ds rs xs)"
      "row = recommendationRow now (withWorkflow s r)"
      using rows_from [OF mem] by auto
    then have "case_iff_critical (withWorkflow s r)"
      using built_recommendations_cases [of chain totals ds rs xs] by (simp only: same list_all_iff)
    then show ?thesis by (simp only: r(2) row_of case_iff_critical_def)
  qed
  have "sorted_wrt (\<lambda>a b. compareRecommendationRows a b \<le> 0) ?rows"
    by (simp only: buildRecommendationRows_def rows.sort_sorted)
  then have "sorted_wrt (\<lambda>a b. getRouteRank (row_route b) \<le> getRouteRank (row_route a)) ?rows"
    by (rule sorted_wrt_mono_rel [rotated]) (auto simp: compareRecommendationRows_def Let_def split: if_splits)
  moreover have "mset (map rr_recommendation ?rows) = mset ?recs"
    using m by (simp only: mset_map image_mset.compositionality comp_def row_of(1))
  ultimately show ?thesis using route by (simp add: Let_def list_all_iff)
qed

section \<open>Service levels\<close>

lemma sla_overdue_iff:
  "getRecommendationSlaState status due now = Sla_overdue \<longleftrightarrow>
     status \<noteq> RESOLVED \<and> (\<exists>t. due = Some t \<and> t \<le> now)"
  by (simp add: getRecommendationSlaState_def split: option.splits)

text \<open>
  the hours of a recommendation run from the last change of its workflow: one that
  nobody has touched is never due, however old; one that is critical is due soon as
  soon as it is touched, and never on track.
\<close>

theorem service_level_needs_a_touch:
  assumes "recommendationWorkflow (rc_id r) s = None"
  shows "pb_slaState (buildRecommendationPlaybook r (rc_workflow (withWorkflow s r)) now) = Sla_not_started"
  using assms by (simp add: buildRecommendationPlaybook_def withWorkflow_def openWorkflow_def
      getRecommendationSlaState_def Let_def)

theorem critical_never_on_track:
  assumes "rc_severity r = CRITICAL" "rw_updatedAt w = Some t" "t \<le> now"
  shows "pb_slaState (buildRecommendationPlaybook r w now) \<in> {Sla_closed, Sla_due_soon, Sla_overdue}"
  using assms by (simp add: buildRecommendationPlaybook_def getRecommendationSlaState_def addHours_def
      getRecommendationSlaHours_def Let_def)

section \<open>Posture\<close>

lemma severity_append [simp]:
  "severityAlerts sev (xs @ ys) = severityAlerts sev xs + severityAlerts sev ys"
  by (simp add: severityAlerts_def)

lemma severity_when [simp]:
  "severityAlerts sev (alert_when c a) = (if c \<and> al_severity a = sev then 1 else 0)"
  by (simp add: severityAlerts_def alert_when_def)

lemma length_severities:
  "length alerts = severityAlerts CRITICAL alerts + severityAlerts WARNING alerts + severityAlerts INFO alerts"
proof (induction alerts)
  case (Cons a alerts)
  then show ?case by (cases "al_severity a") (simp_all add: severityAlerts_def)
qed (simp add: severityAlerts_def)

lemma some_critical: "list_ex (\<lambda>a. al_severity a = CRITICAL) alerts \<longleftrightarrow> 0 < severityAlerts CRITICAL alerts"
  by (simp add: severityAlerts_def list_ex_iff filter_empty_conv)

definition criticalSignal :: "security_summary option \<Rightarrow> bool" where
  "criticalSignal summary = list_ex (\<lambda>x. 80 \<le> bs_riskScore x) (list_of ss_behaviorSignals summary)"

lemma critical_rows:
  "0 < length (filter (\<lambda>r. sg_riskBand r = signal_severity.Critical) (buildBehaviorSignalRows xs))
     \<longleftrightarrow> list_ex (\<lambda>x. 80 \<le> bs_riskScore x) xs"
  by (auto simp: buildBehaviorSignalRows_def getRiskBand_def Let_def list_ex_iff filter_empty_conv split: if_splits)

lemma behavior_counts:
  "severityAlerts CRITICAL (behaviorAlerts (buildBehaviorSignalRows xs)) = (if list_ex (\<lambda>x. 80 \<le> bs_riskScore x) xs then 1 else 0)"
  "severityAlerts WARNING (behaviorAlerts (buildBehaviorSignalRows xs)) =
     (if xs \<noteq> [] \<and> \<not> list_ex (\<lambda>x. 80 \<le> bs_riskScore x) xs then 1 else 0)"
  "severityAlerts INFO (behaviorAlerts (buildBehaviorSignalRows xs)) = 0"
  using critical_rows [of xs]
  by (auto simp: behaviorAlerts_def Let_def) (auto simp: buildBehaviorSignalRows_def)

text \<open>What keeps the posture from being healthy, one condition for every warning.\<close>

definition warnings :: "security_summary option \<Rightarrow> nat \<Rightarrow> audit_event list \<Rightarrow> bool list" where
  "warnings summary downloads sensitiveEvents =
     (let totals = coalesce (map_option ss_totals summary) noTotals in
      [\<not> chainBroken summary \<and> 0 < compromisedEpochCount summary,
       0 < st_malwareBlocked totals, 0 < st_dlpDetections totals,
       0 < length (list_of ss_repeatedDenyActors summary), 10 \<le> downloads, 0 < length sensitiveEvents,
       list_ex (\<lambda>d. 80 \<le> rd_riskScore d) (list_of ss_riskyDocuments summary),
       list_of ss_behaviorSignals summary \<noteq> [] \<and> \<not> criticalSignal summary])"

lemma risk_count:
  "list_ex (\<lambda>r. kr_riskBand r = signal_severity.Critical) (buildRiskScoringRows ds) = list_ex (\<lambda>d. 80 \<le> rd_riskScore d) ds"
  by (auto simp: buildRiskScoringRows_def getRiskBand_def Let_def list_ex_iff split: if_splits)

lemma alert_counts:
  "severityAlerts CRITICAL (dashboardAlerts summary n es rs) =
     (if chainBroken summary then 1 else 0) + (if criticalSignal summary then 1 else 0)"
  "severityAlerts WARNING (dashboardAlerts summary n es rs) = length (filter id (warnings summary n es))"
  "severityAlerts INFO (dashboardAlerts summary n es rs) = 0"
  by (simp_all add: dashboardAlerts_def chainAlerts_def counterAlerts_def accessAlerts_def riskAlerts_def
      behavior_counts risk_count warnings_def criticalSignal_def Let_def)

lemma filter_id_le: "length (filter id (a # bs @ [z])) \<le> (if a then 1 else 0) + length bs + (if z then 1 else 0)"
  using length_filter_le [of id bs] by auto

lemma warning_bound:
  "length (filter id (warnings summary n es)) \<le>
     (if chainBroken summary then 0 else 1) + 6 + (if criticalSignal summary then 0 else 1)"
proof -
  let ?t = "coalesce (map_option ss_totals summary) noTotals"
  let ?bs = "[0 < st_malwareBlocked ?t, 0 < st_dlpDetections ?t, 0 < length (list_of ss_repeatedDenyActors summary),
    10 \<le> n, 0 < length es, list_ex (\<lambda>d. 80 \<le> rd_riskScore d) (list_of ss_riskyDocuments summary)]"
  have "warnings summary n es = (\<not> chainBroken summary \<and> 0 < compromisedEpochCount summary) # ?bs
      @ [list_of ss_behaviorSignals summary \<noteq> [] \<and> \<not> criticalSignal summary]"
    by (simp add: warnings_def Let_def)
  then have "length (filter id (warnings summary n es)) \<le>
      (if \<not> chainBroken summary \<and> 0 < compromisedEpochCount summary then 1 else 0) + length ?bs
      + (if list_of ss_behaviorSignals summary \<noteq> [] \<and> \<not> criticalSignal summary then 1 else 0)"
    by (simp only: filter_id_le)
  then show ?thesis by (rule order_trans) auto
qed

text \<open>
  C38: the posture is critical exactly with a broken chain or a behaviour signal of at
  least eighty, healthy exactly when no counter asks for a review, and the gauge
  agrees: a hundred only when healthy, at most 84 with a warning and 65 when
  critical, never below two.
\<close>

theorem posture_exact:
  "(let m = buildSecurityDashboardModel summary activity now;
        level = po_level (sd_posture m); v = pg_value (cc_postureGauge (sd_commandCenter m)) in
     (level = Critical_posture) = (chainBroken summary \<or> criticalSignal summary)
     \<and> (level = Healthy_posture) = (\<not> chainBroken summary \<and> \<not> criticalSignal summary
          \<and> True \<notin> set (warnings summary (ap_downloadAuthorizedTotal (sd_activity m))
              (ap_sensitiveAccessEvents (sd_activity m))))
     \<and> (case level of Healthy_posture \<Rightarrow> v = 100 | Warning_posture \<Rightarrow> 36 \<le> v \<and> v \<le> 84
          | Critical_posture \<Rightarrow> 2 \<le> v \<and> v \<le> 65))"
proof -
  define es where "es = filter isSensitiveAccessEvent (coalesce (Option.bind activity ac_sensitiveAccessEvents) [])"
  define rs where "rs = coalesce (Option.bind activity ac_recentEvents) []"
  define n where "n = coalesce (Option.bind activity ac_downloadAuthorizedTotal) 0"
  let ?alerts = "dashboardAlerts summary n es rs"
  let ?m = "buildSecurityDashboardModel summary activity now"
  let ?ws = "warnings summary n es"
  have m: "sd_posture ?m = buildPosture summary ?alerts"
    "pg_value (cc_postureGauge (sd_commandCenter ?m)) = getPostureScore (po_level (buildPosture summary ?alerts)) ?alerts"
    "ap_downloadAuthorizedTotal (sd_activity ?m) = n" "ap_sensitiveAccessEvents (sd_activity ?m) = es"
    by (simp_all add: buildSecurityDashboardModel_def Let_def es_def rs_def n_def buildCommandCenter_def buildPostureGauge_def)
  define c where "c = severityAlerts CRITICAL ?alerts"
  define w where "w = severityAlerts WARNING ?alerts"
  have info: "severityAlerts INFO ?alerts = 0" by (rule alert_counts)
  have c: "c = (if chainBroken summary then 1 else 0) + (if criticalSignal summary then 1 else 0)"
    unfolding c_def by (rule alert_counts)
  have w: "w = length (filter id ?ws)" unfolding w_def by (rule alert_counts)
  have bound: "w \<le> (if chainBroken summary then 0 else 1) + 6 + (if criticalSignal summary then 0 else 1)"
    unfolding w by (rule warning_bound)
  have none: "w = 0 \<longleftrightarrow> True \<notin> set ?ws" unfolding w by (auto simp: filter_empty_conv)
  have level: "po_level (buildPosture summary ?alerts) =
      (if 0 < c then Critical_posture else if 0 < w then Warning_posture else Healthy_posture)"
    using length_severities [of ?alerts]
    by (simp add: buildPosture_def some_critical c_def [symmetric] w_def [symmetric] info)
  have score: "getPostureScore l ?alerts =
      (let raw = 100 - int c * 25 - int w * 8 in
       if l = Critical_posture then max 0 (min 65 raw) else if l = Warning_posture then max 0 (min 84 raw)
       else max 0 (min 100 raw))" for l
    by (simp add: getPostureScore_def info c_def w_def)
  show ?thesis
    unfolding Let_def m level score
    using c bound none by (auto split: if_splits)
qed

section \<open>The counters and their links\<close>

lemma request_lookup:
  "map_of (requestParams f from till None None) ''actorId'' = map_option PText (af_actorId f)"
  "map_of (requestParams f from till None None) ''action'' = map_option PText (af_action f)"
  "map_of (requestParams f from till None None) ''actionGroup'' = map_option PText (af_actionGroup f)"
  "map_of (requestParams f from till None None) ''resourceType'' = map_option PText (or_else (af_resourceType f) (af_targetType f))"
  "map_of (requestParams f from till None None) ''resourceId'' = map_option PText (or_else (af_resourceId f) (af_targetId f))"
  "map_of (requestParams f from till None None) ''documentId'' = map_option PText (af_documentId f)"
  "map_of (requestParams f from till None None) ''aclId'' = map_option PText (af_aclId f)"
  "map_of (requestParams f from till None None) ''recommendationId'' = map_option PText (af_recommendationId f)"
  "map_of (requestParams f from till None None) ''result'' = map_option PText (af_result f)"
  "map_of (requestParams f from till None None) ''from'' = map_option PText from"
  "map_of (requestParams f from till None None) ''to'' = map_option PText till"
  "map_of (requestParams f from till None None) ''excludeActions'' = map_option PTexts (af_excludeActions f)"
  by (simp_all add: requestParams_def map_of_append_option map_of_param del: map_of_append)

lemma text_of_PText: "text_of (map_option PText v) = v" "text_of None = None"
  by (simp_all add: text_of_def split: option.splits)

lemma unknown_append: "unknown_properties (xs @ ys) = unknown_properties xs @ unknown_properties ys"
  by (simp add: unknown_properties_def)

lemma unknown_param: "k \<in> set QUERY_AUDIT_PROPERTIES \<or> v = None \<Longrightarrow> unknown_properties (param k f v) = []"
  by (auto simp: unknown_properties_def param_def split: option.splits)

lemma known_parameters:
  assumes "one_valued f"
  shows "unknown_properties (requestParams f from till None None) = []"
proof -
  have "toCommaList None = None" by (simp add: toCommaList_def)
  then show ?thesis using assms
    by (simp add: requestParams_def unknown_append unknown_param one_valued_def QUERY_AUDIT_PROPERTIES_def)
qed

lemma group_known: "one_of AUDIT_ACTION_GROUPS (Some g) = Some g \<Longrightarrow> action_group_of (Some g) \<noteq> None"
  by (auto simp: one_of_def AUDIT_ACTION_GROUPS_def action_group_of_def split: if_splits)

definition linkedRequest :: "audit_filters \<Rightarrow> (string \<times> audit_param) list" where
  "linkedRequest f =
     requestParams (f\<lparr>af_excludeActions := Some [''SECURITY_RECOMMENDATIONS_VIEWED'']\<rparr>) None None None None"

lemma open_link:
  assumes "link_filters f" "one_valued f" "af_from f = None" "af_to f = None"
  shows "map_sum id pr_total (openAuditLink dt rank s (buildAuditHref f)) =
    Inr (length (filter (selected (queryAuditDto dt (linkedRequest f))) (a_events s)))"
proof -
  let ?f = "f\<lparr>af_excludeActions := Some [''SECURITY_RECOMMENDATIONS_VIEWED'']\<rparr>"
  have asked: "toAuditQueryParams dt (Some ?f) None None = Inr (linkedRequest f)"
    using assms(3,4) by (simp add: toAuditQueryParams_def isoParam_def truthy_opt_def linkedRequest_def)
  have "one_valued ?f" using assms(2) by (simp add: one_valued_def)
  then have "unknown_properties (linkedRequest f) = []" unfolding linkedRequest_def by (rule known_parameters)
  moreover have "one_of AUDIT_ACTION_GROUPS (af_actionGroup f) = af_actionGroup f"
    using assms(1) by (simp add: link_filters_def)
  then have "(case af_actionGroup f of None \<Rightarrow> [] | Some g \<Rightarrow> if action_group_of (Some g) = None then ms else []) = []" for ms :: "string list"
    by (cases "af_actionGroup f") (auto dest: group_known)
  ultimately have "queryAuditMessages dt (linkedRequest f) = []"
    by (simp add: queryAuditMessages_def Let_def linkedRequest_def request_lookup no_page_yet text_of_PText
        date_message_def size_message_def number_of_def)
  from query_page [OF asked this, of 1 20 "(rank, s)"] show ?thesis
    by (simp add: openAuditLink_def linked_filters [OF assms(1)] askedEvents_def askedRows_def)
qed

lemma open_auditLink: "openAuditLink dt rank s (auditLink f) = openAuditLink dt rank s (buildAuditHref f)"
  by (simp add: openAuditLink_def link_query_href) (simp add: auditLink_def link_query_def ROUTES_AUDIT_def)

lemma noFilters_simps [simp]:
  "af_actorId noFilters = None" "af_actorIds noFilters = None" "af_action noFilters = None"
  "af_actions noFilters = None" "af_actionGroup noFilters = None" "af_result noFilters = None"
  "af_resourceId noFilters = None" "af_resourceType noFilters = None" "af_documentId noFilters = None"
  "af_documentIds noFilters = None" "af_aclId noFilters = None" "af_recommendationId noFilters = None"
  "af_recommendationIds noFilters = None" "af_classifications noFilters = None" "af_from noFilters = None"
  "af_to noFilters = None" "af_targetId noFilters = None" "af_targetType noFilters = None"
  "af_excludeActions noFilters = None"
  by (simp_all add: noFilters_def)

lemma linked_dto:
  "queryAuditDto dt (linkedRequest f) = \<lparr>
     qa_actorId = af_actorId f, qa_action = af_action f, qa_actionGroup = action_group_of (af_actionGroup f),
     qa_resourceType = or_else (af_resourceType f) (af_targetType f),
     qa_resourceId = or_else (af_resourceId f) (af_targetId f), qa_documentId = af_documentId f,
     qa_aclId = af_aclId f, qa_recommendationId = af_recommendationId f, qa_result = af_result f,
     qa_from = None, qa_to = None, qa_page = None, qa_pageSize = None, qa_limit = None,
     qa_excludeActions = Some [''SECURITY_RECOMMENDATIONS_VIEWED''] \<rparr>"
  by (simp add: queryAuditDto_def linkedRequest_def Let_def request_lookup no_page_yet text_of_PText number_of_def texts_of_def)

lemma wanted_simps [simp]: "wanted None P" "a \<noteq> [] \<Longrightarrow> wanted (Some a) P = P a"
  by (simp_all add: wanted_def truthy_opt_def truthy_def)

lemma selected_linked:
  "a \<noteq> [] \<Longrightarrow> selected (queryAuditDto dt (linkedRequest (noFilters\<lparr>af_action := Some a\<rparr>))) e \<longleftrightarrow>
     e_action e = a \<and> e_action e \<noteq> ''SECURITY_RECOMMENDATIONS_VIEWED''"
  "a \<noteq> [] \<Longrightarrow> selected (queryAuditDto dt (linkedRequest (noFilters\<lparr>af_result := Some a\<rparr>))) e \<longleftrightarrow>
     e_result e = a \<and> e_action e \<noteq> ''SECURITY_RECOMMENDATIONS_VIEWED''"
  "selected (queryAuditDto dt (linkedRequest noFilters)) e \<longleftrightarrow> e_action e \<noteq> ''SECURITY_RECOMMENDATIONS_VIEWED''"
  by (simp_all add: selected_def linked_dto action_group_of_def inRange_def)

lemma link_filters_simple:
  "link_filters noFilters" "a \<noteq> [] \<Longrightarrow> link_filters (noFilters\<lparr>af_action := Some a\<rparr>)"
  "link_filters (noFilters\<lparr>af_result := Some ''DENY''\<rparr>)"
  "one_valued noFilters" "one_valued (noFilters\<lparr>af_action := v\<rparr>)" "one_valued (noFilters\<lparr>af_result := v\<rparr>)"
  by (simp_all add: link_filters_def link_list_def one_of_def AUDIT_RESULTS_def one_valued_def)

lemma open_action_link:
  assumes "a \<noteq> []" "a \<noteq> ''SECURITY_RECOMMENDATIONS_VIEWED''"
  shows "map_sum id pr_total (openAuditLink dt rank s (buildAuditHref (noFilters\<lparr>af_action := Some a\<rparr>)))
    = Inr (countEvents (\<lambda>e. e_action e = a) s)"
proof -
  have "selected (queryAuditDto dt (linkedRequest (noFilters\<lparr>af_action := Some a\<rparr>))) = (\<lambda>e. e_action e = a)"
    using assms by (auto simp: selected_linked)
  then show ?thesis using assms by (subst open_link) (simp_all add: link_filters_simple countEvents_def)
qed

lemma open_deny_link:
  "map_sum id pr_total (openAuditLink dt rank s (buildAuditHref (noFilters\<lparr>af_result := Some ''DENY''\<rparr>)))
     = Inr (countEvents (\<lambda>e. e_result e = ''DENY'' \<and> e_action e \<noteq> ''SECURITY_RECOMMENDATIONS_VIEWED'') s)"
proof -
  have "selected (queryAuditDto dt (linkedRequest (noFilters\<lparr>af_result := Some ''DENY''\<rparr>))) =
      (\<lambda>e. e_result e = ''DENY'' \<and> e_action e \<noteq> ''SECURITY_RECOMMENDATIONS_VIEWED'')"
    by (auto simp: selected_linked)
  then show ?thesis by (subst open_link) (simp_all add: link_filters_simple countEvents_def)
qed

text \<open>What an append adds has the action and the result of its request.\<close>

definition adds_like :: "string \<Rightarrow> string \<Rightarrow> audit_store \<Rightarrow> audit_store \<Rightarrow> bool" where
  "adds_like action result s t =
     (\<exists>es. a_events t = a_events s @ es \<and> (\<forall>e\<in>set es. e_action e = action \<and> e_result e = result))"

lemma adds_like_same: "same_events s t \<Longrightarrow> adds_like a r s t"
  by (simp add: same_events_def adds_like_def)

lemma adds_like_trans: "adds_like a r s t \<Longrightarrow> adds_like a r t u \<Longrightarrow> adds_like a r s u"
  by (auto simp: adds_like_def)

lemma linkEvent_kind: "e_action (linkEvent cr p prev) = e_action (p_event p)" "e_result (linkEvent cr p prev) = e_result (p_event p)"
  by (simp_all add: linkEvent_def Let_def)

lemma attempts_like:
  "appendAttempts cr n p s = (r, t) \<Longrightarrow> adds_like (e_action (p_event p)) (e_result (p_event p)) s t"
proof (induction n arbitrary: s)
  case 0
  then show ?case by (simp add: throw_def adds_like_def)
next
  case (Suc n)
  obtain q u where tail: "getCurrentChainTail (p_epochId p) s = (q, u)" by fastforce
  have u: "u = s" by (rule tail_member(1) [OF tail])
  show ?case
  proof (cases q)
    case (Inl e)
    then show ?thesis using Suc.prems tail u by (simp add: adds_like_def)
  next
    case (Inr lastEvent)
    let ?e = "linkEvent cr p (map_option e_hash lastEvent)"
    obtain i v where ins: "insertEvent ?e s = (i, v)" by fastforce
    then have v: "adds_like (e_action (p_event p)) (e_result (p_event p)) s v" "i = DuplicatePrevHash \<Longrightarrow> v = s"
      by (auto simp: insertEvent_def Let_def adds_like_def linkEvent_kind storedEvent_def split: if_splits)
    show ?thesis using Suc.prems Suc.IH v tail u Inr ins
      by (cases i) (auto simp: return_def throw_def)
  qed
qed

lemma append_like:
  assumes "appendEvent cr uuid now dto s = (r, t)"
  shows "adds_like (ce_action dto) (ce_result dto) s t"
proof -
  obtain q u where prep: "prepareEvent uuid now dto s = (q, u)" by fastforce
  note same = adds_like_same [OF prepareEvent_same(1) [OF prep]]
  show ?thesis
  proof (cases q)
    case (Inl e)
    then show ?thesis using assms prep same by (simp add: appendEvent_def)
  next
    case (Inr p)
    then have "e_action (p_event p) = ce_action dto" "e_result (p_event p) = ce_result dto"
      using prep getActiveEpochId_returns [of now s]
      by (auto simp: prepareEvent_def return_def throw_def draftEvent_def split: option.splits)
    then have "adds_like (ce_action dto) (ce_result dto) u t"
      using attempts_like [of cr MAX_CHAIN_APPEND_ATTEMPTS p u r t] assms prep Inr by (simp add: appendEvent_def)
    then show ?thesis using same adds_like_trans by blast
  qed
qed

lemma view_like:
  assumes "recordRecommendationView cr uuid now viewer rs s = (r, t)"
  shows "adds_like ''SECURITY_RECOMMENDATIONS_VIEWED'' ''SUCCESS'' s t"
proof -
  let ?dto = "recommendationsViewedDto now (the (Option.bind viewer vw_actorId)) (the viewer) rs"
  obtain q u where app: "appendEvent cr uuid now ?dto s = (q, u)" by fastforce
  have "adds_like ''SECURITY_RECOMMENDATIONS_VIEWED'' ''SUCCESS'' s u"
    using append_like [OF app] by (simp add: recommendationsViewedDto_def)
  moreover have "t = s \<or> t = u"
    using assms app by (cases q) (auto simp: recordRecommendationView_def Let_def return_def split: if_splits)
  ultimately show ?thesis by (auto simp: adds_like_def)
qed

lemma countEvents_like:
  "adds_like a r s t \<Longrightarrow> (\<And>e. e_action e = a \<Longrightarrow> e_result e = r \<Longrightarrow> \<not> P e) \<Longrightarrow> countEvents P t = countEvents P s"
  by (auto simp: adds_like_def countEvents_def)

lemma summary_totals:
  assumes "securitySummary cr wd uuid now viewer s = (Inr summary, t)"
  shows "ss_totals summary = \<lparr> st_deniedEvents = countEvents (\<lambda>e. e_result e = ''DENY'') s,
      st_malwareBlocked = countEvents (\<lambda>e. e_action e = ''MALWARE_UPLOAD_BLOCKED'') s,
      st_dlpDetections = countEvents (\<lambda>e. e_action e = ''DLP_PATTERN_DETECTED'') s,
      st_downloadDenied = countEvents (\<lambda>e. e_action e = ''DOCUMENT_DOWNLOAD_DENIED'') s \<rparr>"
    and "adds_like ''SECURITY_RECOMMENDATIONS_VIEWED'' ''SUCCESS'' s t"
proof -
  obtain chain u where v: "verifyChain cr now (Some 1000) s = (Inr (Some chain), u)"
    using verifyChain_returns by blast
  note same = verifyChain_same [OF v]
  have count: "countEvents P u = countEvents P s" for P using same by (simp add: countEvents_def same_events_def)
  obtain rs where "recordRecommendationView cr uuid now viewer rs u = (Inr (), t)"
    and tot: "ss_totals summary = \<lparr> st_deniedEvents = countEvents (\<lambda>e. e_result e = ''DENY'') u,
      st_malwareBlocked = countEvents (\<lambda>e. e_action e = ''MALWARE_UPLOAD_BLOCKED'') u,
      st_dlpDetections = countEvents (\<lambda>e. e_action e = ''DLP_PATTERN_DETECTED'') u,
      st_downloadDenied = countEvents (\<lambda>e. e_action e = ''DOCUMENT_DOWNLOAD_DENIED'') u \<rparr>"
    using assms unfolding securitySummary_def v andThen_simps option.case Let_def
    by (elim andThen_InrE) (auto simp: return_def)
  then show "adds_like ''SECURITY_RECOMMENDATIONS_VIEWED'' ''SUCCESS'' s t"
    using view_like adds_like_same [OF same] adds_like_trans by blast
  show "ss_totals summary = \<lparr> st_deniedEvents = countEvents (\<lambda>e. e_result e = ''DENY'') s,
      st_malwareBlocked = countEvents (\<lambda>e. e_action e = ''MALWARE_UPLOAD_BLOCKED'') s,
      st_dlpDetections = countEvents (\<lambda>e. e_action e = ''DLP_PATTERN_DETECTED'') s,
      st_downloadDenied = countEvents (\<lambda>e. e_action e = ''DOCUMENT_DOWNLOAD_DENIED'') s \<rparr>"
    using tot by (simp only: count)
qed

lemma deny_without_views:
  assumes "adds_like ''SECURITY_RECOMMENDATIONS_VIEWED'' ''SUCCESS'' s t"
    and "list_all (\<lambda>e. e_action e = ''SECURITY_RECOMMENDATIONS_VIEWED'' \<longrightarrow> e_result e = ''SUCCESS'') (a_events s)"
  shows "countEvents (\<lambda>e. e_result e = ''DENY'' \<and> e_action e \<noteq> ''SECURITY_RECOMMENDATIONS_VIEWED'') t
    = countEvents (\<lambda>e. e_result e = ''DENY'') s"
proof -
  have "countEvents (\<lambda>e. e_result e = ''DENY'' \<and> e_action e \<noteq> ''SECURITY_RECOMMENDATIONS_VIEWED'') t
      = countEvents (\<lambda>e. e_result e = ''DENY'' \<and> e_action e \<noteq> ''SECURITY_RECOMMENDATIONS_VIEWED'') s"
    by (rule countEvents_like [OF assms(1)]) simp
  also have "\<dots> = countEvents (\<lambda>e. e_result e = ''DENY'') s"
    unfolding countEvents_def by (rule arg_cong [of _ _ length], rule filter_cong) (use assms(2) in \<open>auto simp: list_all_iff\<close>)
  finally show ?thesis .
qed

text \<open>
  C16: the number on each event segment of the dashboard is the number of events the
  audit page lists behind its link, also after the view itself was logged.
\<close>

theorem segments_count_their_links:
  assumes "securitySummary cr wd uuid now viewer s = (Inr summary, t)"
    and "list_all (\<lambda>e. e_action e = ''SECURITY_RECOMMENDATIONS_VIEWED'' \<longrightarrow> e_result e = ''SUCCESS'') (a_events s)"
  shows "list_all (\<lambda>x. map_sum id pr_total (openAuditLink dt rank t (sm_href x)) = Inr (sm_value x))
    (buildEventTypeSegments (ss_totals summary))"
proof -
  note tot = summary_totals [OF assms(1)]
  have count: "countEvents (\<lambda>e. e_action e = a) t = countEvents (\<lambda>e. e_action e = a) s"
    if "a \<noteq> ''SECURITY_RECOMMENDATIONS_VIEWED''" for a
    by (rule countEvents_like [OF tot(2)]) (use that in simp)
  show ?thesis
    by (simp add: buildEventTypeSegments_def Let_def segment_of_def open_auditLink open_action_link open_deny_link
        count deny_without_views [OF tot(2) assms(2)] tot(1))
qed

section \<open>Links that are refused\<close>

lemma id_link_refused:
  assumes "list_all header_safe idents" "idents \<noteq> []"
  shows "\<exists>m. openAuditLink dt rank s (buildAuditHref (noFilters\<lparr>af_documentIds := Some idents\<rparr>)) = Inl (BadRequest m)"
    and "\<exists>m. openAuditLink dt rank s (buildAuditHref (noFilters\<lparr>af_recommendationIds := Some idents\<rparr>)) = Inl (BadRequest m)"
  by (rule list_links_refused; use assms in \<open>simp add: link_filters_def link_list_def one_of_def one_valued_def\<close>)+

lemma empty_id_link:
  "buildAuditHref (noFilters\<lparr>af_documentIds := Some []\<rparr>) = buildAuditHref noFilters"
  "buildAuditHref (noFilters\<lparr>af_recommendationIds := Some []\<rparr>) = buildAuditHref noFilters"
  by (simp_all add: buildAuditHref_def buildAuditFilterQuery_def filterParams_def setArrayQueryParam_def Let_def)

definition refused :: "error + 'a \<Rightarrow> bool" where
  "refused r = (case r of Inl (BadRequest _) \<Rightarrow> True | _ \<Rightarrow> False)"

lemma whole_log_opens: "\<not> refused (openAuditLink dt rank s (buildAuditHref noFilters))"
  using open_link [OF link_filters_simple(1,4), of dt rank s]
  by (cases "openAuditLink dt rank s (buildAuditHref noFilters)") (simp_all add: refused_def)

lemma id_link_refused_iff:
  assumes "list_all header_safe idents"
  shows "refused (openAuditLink dt rank s (buildAuditHref (noFilters\<lparr>af_documentIds := Some idents\<rparr>))) \<longleftrightarrow> idents \<noteq> []"
    and "refused (openAuditLink dt rank s (buildAuditHref (noFilters\<lparr>af_recommendationIds := Some idents\<rparr>))) \<longleftrightarrow> idents \<noteq> []"
proof -
  show "refused (openAuditLink dt rank s (buildAuditHref (noFilters\<lparr>af_documentIds := Some idents\<rparr>))) \<longleftrightarrow> idents \<noteq> []"
    using id_link_refused(1) [OF assms, of dt rank s] whole_log_opens [of dt rank s]
    by (cases "idents = []") (auto simp: empty_id_link refused_def)
  show "refused (openAuditLink dt rank s (buildAuditHref (noFilters\<lparr>af_recommendationIds := Some idents\<rparr>))) \<longleftrightarrow> idents \<noteq> []"
    using id_link_refused(2) [OF assms, of dt rank s] whole_log_opens [of dt rank s]
    by (cases "idents = []") (auto simp: empty_id_link refused_def)
qed

text \<open>
  C17: a risk or service-level segment of the dashboard that counts something leads to a
  request the audit service refuses, and so does the segment of sensitive grants:
  the service knows no lists of identifiers. An empty segment leads to the whole log.
\<close>

theorem segments_with_rows_are_refused:
  assumes "list_all header_safe (map rd_documentId (ss_riskyDocuments summary))"
    and "list_all header_safe (map rc_id (ss_recommendations summary))"
  shows "(let c = sd_commandCenter (buildSecurityDashboardModel (Some summary) activity now) in
    list_all (\<lambda>x. refused (openAuditLink dt rank s (sm_href x)) = (0 < sm_value x))
      (cc_riskBandSegments c @ cc_recommendationSlaSegments c)
    \<and> refused (openAuditLink dt rank s (sm_href (cc_accessSegments c ! 1))))"
proof -
  define ks where "ks = buildRiskScoringRows (ss_riskyDocuments summary)"
  define rows where "rows = buildRecommendationRows (ss_recommendations summary) now"
  have docs: "header_safe (rd_documentId (kr_document k))" if "k \<in> set ks" for k
    using that assms(1) by (auto simp: ks_def buildRiskScoringRows_def Let_def list_all_iff)
  have idents: "header_safe (rc_id (rr_recommendation r))" if "r \<in> set rows" for r
    using rows_from that assms(2) by (fastforce simp: rows_def list_all_iff)
  have risk: "refused (openAuditLink dt rank s (buildAuditHref (riskBandFilters ks b)))
      \<longleftrightarrow> 0 < length (filter (\<lambda>r. kr_riskBand r = b) ks)" for b
    unfolding riskBandFilters_def
    by (subst id_link_refused_iff(1)) (auto simp: getDocumentIdsForRiskBand_def list_all_iff docs)
  have sla: "refused (openAuditLink dt rank s (buildAuditHref (slaFilters rows st)))
      \<longleftrightarrow> 0 < length (filter (\<lambda>r. pb_slaState (rr_playbook r) = st) rows)" for st
    unfolding slaFilters_def
    by (subst id_link_refused_iff(2)) (auto simp: getRecommendationIdsForSlaState_def list_all_iff idents)
  have grants: "\<exists>m. openAuditLink dt rank s (buildAuditHref sensitiveAccessFilters) = Inl (BadRequest m)"
    by (rule list_links_refused) (simp_all add: sensitiveAccessFilters_def link_filters_def link_list_def one_of_def
        AUDIT_ACTION_GROUPS_def one_valued_def header_safe_def trim_def js_space_def)
  have "refused (openAuditLink dt rank s (buildAuditHref sensitiveAccessFilters))" using grants by (auto simp: refused_def)
  then show ?thesis
    by (simp add: buildSecurityDashboardModel_def Let_def list_of_def ks_def [symmetric] rows_def [symmetric]
        buildCommandCenter_def buildRiskBandSegments_def bandSegments_def segment_of_def buildRecommendationSlaSegments_def
        slaSegment_def buildAccessSegments_def risk sla)
qed

definition risky_summary :: security_summary where
  "risky_summary = \<lparr>
     ss_chain = broken 2 (Some 1) None None None ''hash mismatch'',
     ss_totals = noTotals, ss_repeatedDenyActors = [],
     ss_riskyDocuments = [\<lparr> rd_documentId = ''d1'', rd_classification = ''SECRET'', rd_accessCount = 5, rd_actorCount = 3,
       rd_latestAccessAt = 7, rd_riskScore = 95, rd_reasons = [] \<rparr>],
     ss_behaviorSignals = [],
     ss_recommendations = chainRecommendation (broken 2 (Some 1) None None None ''hash mismatch'') \<rparr>"

lemma risky_critical:
  "sm_value (hd (cc_riskBandSegments (sd_commandCenter (buildSecurityDashboardModel (Some risky_summary) None 0)))) = 1"
  by (simp add: buildSecurityDashboardModel_def Let_def list_of_def risky_summary_def buildCommandCenter_def
      buildRiskBandSegments_def bandSegments_def segment_of_def buildRiskScoringRows_def getRiskBand_def)

theorem segments_with_rows_are_refused_witness:
  "refused (openAuditLink (\<lambda>_. None) e_oid query_store
     (sm_href (hd (cc_riskBandSegments (sd_commandCenter (buildSecurityDashboardModel (Some risky_summary) None 0))))))"
proof -
  let ?c = "sd_commandCenter (buildSecurityDashboardModel (Some risky_summary) None 0)"
  have safe: "header_safe ''d1''" "header_safe ''audit-chain-review''"
    by (simp_all add: header_safe_def trim_def js_space_def)
  have "list_all header_safe (map rd_documentId (ss_riskyDocuments risky_summary))"
    "list_all header_safe (map rc_id (ss_recommendations risky_summary))"
    using safe by (simp_all add: risky_summary_def chainRecommendation_def broken_def)
  note all = segments_with_rows_are_refused [OF this, where dt = "\<lambda>_. None" and rank = e_oid and s = query_store and activity = None and now = 0]
  have "hd (cc_riskBandSegments ?c) \<in> set (cc_riskBandSegments ?c)"
    by (simp add: buildSecurityDashboardModel_def Let_def buildCommandCenter_def buildRiskBandSegments_def bandSegments_def)
  then show ?thesis using all risky_critical by (simp only: Let_def list_all_iff set_append Un_iff) auto
qed

definition denied_store :: audit_store where
  "denied_store = query_store\<lparr>a_events := map (\<lambda>e. e\<lparr>e_result := ''DENY''\<rparr>) (a_events query_store)\<rparr>"

theorem segments_count_their_links_witness:
  "\<exists>summary t. securitySummary sample_digests 7 ''u'' 100 None denied_store = (Inr summary, t)
     \<and> st_deniedEvents (ss_totals summary) = 4
     \<and> list_all (\<lambda>x. map_sum id pr_total (openAuditLink (\<lambda>_. None) e_oid t (sm_href x)) = Inr (sm_value x))
         (buildEventTypeSegments (ss_totals summary))"
proof -
  obtain chain u where v: "verifyChain sample_digests 100 (Some 1000) denied_store = (Inr (Some chain), u)"
    using verifyChain_returns by blast
  obtain summary t where s: "securitySummary sample_digests 7 ''u'' 100 None denied_store = (Inr summary, t)"
    unfolding securitySummary_def v andThen_simps option.case Let_def
    by (simp add: recordRecommendationView_def truthy_opt_def return_def)
  have "list_all (\<lambda>e. e_action e = ''SECURITY_RECOMMENDATIONS_VIEWED'' \<longrightarrow> e_result e = ''SUCCESS'') (a_events denied_store)"
    by code_simp
  note links = segments_count_their_links [OF s this, where dt = "\<lambda>_. None" and rank = e_oid]
  have "countEvents (\<lambda>e. e_result e = ''DENY'') denied_store = 4" by code_simp
  then have "st_deniedEvents (ss_totals summary) = 4" by (simp add: summary_totals(1) [OF s])
  then show ?thesis using s links by blast
qed

end
