(* ===== verification/Spec2Isabelle.thy ===== *)
theory Spec2Isabelle
  imports Org_Properties Policy_Properties Grant_Properties Document_Listing Job_Properties Acl_Service Comments_Service Share_Links Approval_Chain Vault_Rules Audit_Recovery Audit_Minimize
    Security_Properties Web_Properties Sensitive_Properties Leak_Properties Saved_Views Notification_Properties
    Approval_Queue_Properties Filter_Properties Authentication_Properties
    Gateway_Properties Packet_Properties Session_Properties Console_Properties
begin

text \<open>
  DocVault is a document vault built from NestJS services behind a gateway, with a
  Next.js client. \<open>metadata-service\<close> keeps organizations, documents, versions, access
  rules and shares in Postgres and decides who may read what; \<open>document-service\<close> keeps
  the files in an object store, scans uploads and hands files out against signed
  grants; \<open>workflow-service\<close> runs submission, approval, rejection, archiving and
  deletion over the metadata service; \<open>audit-service\<close> keeps the hash-chained audit log
  and summarises it; \<open>notification-service\<close> keeps inboxes; the \<open>gateway\<close> authenticates
  users, forwards their requests and asks for a step-up proof before sensitive
  actions. Paths below are under \<open>src/services/\<close> unless they start with \<open>libs\<close> or
  \<open>apps\<close>.

  Conventions. A handler is a function of its arguments, of the time \<open>now\<close> in
  milliseconds and of the state; it returns \<open>Inl\<close> an error or \<open>Inr\<close> a result, with the
  state afterwards (\<open>outcome\<close>, sequenced by \<open>andThen\<close>), so every \<open>throw\<close> and early
  return is a branch. Tables are lists of rows. New identifiers are arguments. A
  JavaScript string is a list of characters up to 255; numbers are unbounded
  integers, as the values the services compute with stay below \<open>2 ^ 53\<close>.
  Cryptography (SHA-256, HMAC), JSON and base64url codecs, PDF and ZIP libraries,
  the network, and the browser's \<open>localeCompare\<close> and date parser are
  parameters; what a theorem needs of them (decoding inverts encoding, no collision
  among the inputs that occur) is a hypothesis of the theorem, with a witness.
\<close>

text \<open>
  The theories, by part of the program.

  \<^item> \<open>Prelude\<close>, \<open>Store\<close>: sequencing, tables (locale \<open>keyed_table\<close>), strings and
    numbers; the Prisma rows (\<open>metadata-service/prisma/schema.prisma\<close>) as the record
    \<open>vault\<close>, request contexts, the retention policy, and the audit and notification
    clients, whose accepted posts are logs in the state.
  \<^item> \<open>Org_Service\<close>, \<open>Org_Properties\<close> (\<open>org.service.ts\<close>): memberships, the cached tenant
    of an actor (locale \<open>org_resolver\<close>) and the last-admin rule.
  \<^item> \<open>Policy_Service\<close>, \<open>Policy_Lemmas\<close>, \<open>Policy_Properties\<close> (\<open>policy.service.ts\<close>):
    download, preview and metadata decisions, share grants, AI guardrails and the
    access simulation, characterised exactly and compared with each other.
  \<^item> \<open>Grant_Tokens\<close>, \<open>Grant_Properties\<close> (\<open>document-service/src/documents/\<close> grant
    utilities): the signed grants, their round trip and what an accepted one proves.
  \<^item> \<open>Status_Service\<close>, \<open>Documents_Service\<close>, \<open>Versions_Service\<close>, \<open>Retention_Service\<close>,
    \<open>Acl_Service\<close>, \<open>Comments_Service\<close>, \<open>Share_Links\<close>, \<open>Document_Listing\<close>, \<open>Saved_Views\<close>: the
    other services of \<open>metadata-service\<close>, one theory each.
  \<^item> \<open>Effects\<close>, \<open>Lifecycle\<close>, \<open>Frames\<close>, \<open>Lifecycle_Refinement\<close>, \<open>Job_Properties\<close>,
    \<open>Vault_Rules\<close>: all handlers together as the step relation \<open>vault_step\<close>, its
    invariant \<open>vault_ok\<close>, and the abstract life cycle of a document they refine; then
    what the retention and purge jobs do and the rules that hold along every run.
  \<^item> \<open>Workflow_Service\<close>, \<open>Approval_Chain\<close> (\<open>workflow-service\<close>): the workflow over the
    metadata client (locale \<open>approval_backend\<close>, interpreted on the vault), and the
    order and completion of approval chains.
  \<^item> \<open>Audit_Events\<close>, \<open>Audit_Service\<close>, \<open>Audit_Chain\<close>, \<open>Audit_Log\<close>, \<open>Audit_Properties\<close>,
    \<open>Audit_Tampering\<close>, \<open>Audit_Recovery\<close> (\<open>audit-service/src/audit/audit.service.ts\<close>):
    canonical payloads, concurrent appends as the step relation \<open>audit_step\<close>,
    verification, what it detects and what it does not, and sealing a broken chain.
    The events of an epoch are linked (\<open>links\<close>) and every row is one that was hashed
    (\<open>hash_drafted\<close>); a row need not hash to its own hash (\<open>hash_kept\<close>), as Mongoose
    does not store empty objects within \<open>metadata\<close> (\<open>minimizeJson\<close>) and the hash is
    computed before. \<open>lossless\<close> metadata are those of which nothing is lost.
  \<^item> \<open>Audit_Minimize\<close> (\<open>metadata-service/src/audit/audit.client.ts\<close>): the body of a post
    to the audit service, and an update of a document whose event breaks the chain.
  \<^item> \<open>Audit_Query\<close>, \<open>Security_Summary\<close>, \<open>Security_Properties\<close> (same file): the audit
    query and its filter, denials, risky documents (locale \<open>buckets\<close>), behaviour
    signals, recommendations and their workflow.
  \<^item> \<open>Text_Scan\<close>, \<open>Document_Blobs\<close>, \<open>Blob_Properties\<close>, \<open>Leak_Properties\<close>
    (\<open>document-service\<close>): the leak rules with their regular expressions as backtracking
    matchers, the malware scan, upload with its rollback, presigned URLs, streaming and
    preview; uploads run against the model of the metadata service.
  \<^item> \<open>Authentication\<close>, \<open>Authentication_Properties\<close> (the \<open>jwt.strategy.ts\<close> files, the
    gateway's \<open>proxy.service.ts\<close>, \<open>service-token.guard.ts\<close>, \<open>libs/throttler\<close>): token
    claims, forwarded headers and service secrets.
  \<^item> \<open>Routes\<close>, \<open>Gateway_Routes\<close>, \<open>Gateway_Properties\<close> (the controllers of the services and
    the proxy controllers of the gateway): route tables with their guards, dispatch and
    forwarding, and the comparison of the two sides. \<open>Gateway_Packets\<close>,
    \<open>Packet_Properties\<close>: the evidence packet and the access review the gateway puts
    together. \<open>Gateway_Session\<close>, \<open>User_Directory\<close>, \<open>Session_Properties\<close>
    (\<open>auth.controller.ts\<close>, \<open>users.controller.ts\<close>, \<open>org.proxy.controller.ts\<close>): the
    cookie session, names of users and the lookup of new members.
  \<^item> \<open>Sensitive_Actions\<close>, \<open>Sensitive_Properties\<close> (\<open>gateway/src/proxy/\<close>): step-up proofs,
    the guarded retention run and the sanitised evidence packet.
  \<^item> \<open>Notifications\<close>, \<open>Notification_Properties\<close> (\<open>notification-service\<close>): inboxes, pages,
    mails and routes.
  \<^item> \<open>Web_Permissions\<close>, \<open>Web_Properties\<close> (\<open>apps/web/src/lib/auth\<close>), \<open>Approval_Queue\<close>,
    \<open>Approval_Queue_Properties\<close> (\<open>apps/web/src/features/approvals\<close> and \<open>approval-chain.ts\<close>),
    \<open>Document_Filters\<close>, \<open>Filter_Properties\<close> (\<open>document-filter-model.ts\<close>): what the client
    computes, compared with what the services do; sorting by a comparison is the
    locale \<open>comparison\<close>.
  \<^item> \<open>Audit_Client\<close>, \<open>Audit_Client_Properties\<close> (\<open>features/audit/audit.api.ts\<close>,
    \<open>audit-filter-query.ts\<close>, \<open>query-audit.dto.ts\<close>): links into the audit log, read back
    from the address, and windows of the log fetched page by page. The query sorts by
    time only, so the order of equal times is an argument \<open>rank\<close> of every request, and
    a window is given what each of its requests sees, order and store (\<open>seen_log\<close>).
  \<^item> \<open>Security_Dashboard\<close>, \<open>Security_Console\<close>, \<open>Console_Properties\<close>
    (\<open>features/audit/security-dashboard.ts\<close>): routes, service levels, alerts, posture and
    chart segments of the security dashboard, with what their links show.
\<close>

text \<open>
  Bounds. An append to the audit chain makes at most 25 attempts, as the code does;
  \<open>followChain\<close> gets one unit of fuel more than there are events, which
  \<open>verification_terminates\<close> shows to be enough: every verification ends with an
  answer. A repetition of a regular expression gets one unit of fuel more than there
  are characters left, and every round consumes one. The leak scan reads a million
  characters, an inbox keeps a hundred rows, as in the code. All other recursion is
  structural or has a termination proof.

  Interleaving. Appends to the audit log interleave at every database call, while a
  verification and a recovery run to their end. Events may be appended between the
  requests that fetch the pages of a window. An upload
  is split in two where another request may come between. Everything else is one
  atomic step per handler, which is the isolation the Prisma transactions give where
  the code uses them; races between handlers that read and write without a
  transaction are not covered. Mails of one notification are sent one after the other.

  Not modelled. Swagger documentation, throttle limits of single routes, modules and \<open>main.ts\<close>; the wire (axios, Keycloak, MinIO, Postgres,
  Mongo, Resend), of which only the answers the code looks at appear; drawing on a PDF
  page; logging. Of the gateway, the copying of response headers of streams and the
  flattening of the group tree. Of the client, the React
  pages and the view models of the evidence centre, the command centre and the home
  page, which turn modelled data into texts. The seed and end-to-end scripts
  and the infrastructure files.
\<close>

end
